(* ===== verification/Rust_Prelude.thy ===== *)
theory Rust_Prelude
  imports Main "HOL-Library.Word"
begin

text \<open>
  The pieces of the Rust standard library the modelled crates use, and the generic
  lemmas and fact collections the components share.

  A Rust \<^verbatim>\<open>String\<close> is the list of its scalar values, restricted to
  U+0000 .. U+00FF: a \<open>char\<close> stands for the scalar value with its code. Every
  delimiter the modelled parsers look for is ASCII, so slicing at such a delimiter is
  splitting the list there. Components where the width of a scalar value matters (the
  editor positions) use code points instead of this type.

  A \<^verbatim>\<open>BTreeMap\<close> is the list of its entries in ascending key order, a
  \<^verbatim>\<open>BTreeSet\<close> the ascending list of its members, so iterating over either
  is reading the list.
\<close>

type_synonym u8 = "8 word"
type_synonym u16 = "16 word"
type_synonym u32 = "32 word"
type_synonym u64 = "64 word"

named_theorems str_simps \<open>equations of the text operations\<close>
named_theorems len_bounds \<open>length bounds the parsers' termination rests on\<close>

section \<open>Text\<close>

subsection \<open>White space and trimming\<close>

text \<open>\<^verbatim>\<open>char::is_whitespace\<close>: the White_Space scalar values below U+0100.\<close>

definition is_ws :: "char \<Rightarrow> bool" where
  "is_ws c \<longleftrightarrow> c \<in> set [CHR 0x09, CHR 0x0A, CHR 0x0B, CHR 0x0C, CHR 0x0D, CHR 0x20, CHR 0x85, CHR 0xA0]"

definition trim_start :: "string \<Rightarrow> string" where
  "trim_start s = dropWhile is_ws s"

definition trim_end :: "string \<Rightarrow> string" where
  "trim_end s = rev (dropWhile is_ws (rev s))"

definition trim :: "string \<Rightarrow> string" where
  "trim s = trim_end (trim_start s)"

text \<open>A text is trimmed when it neither starts nor ends with white space.\<close>

definition trimmed :: "string \<Rightarrow> bool" where
  "trimmed s \<longleftrightarrow> s = [] \<or> (\<not> is_ws (hd s) \<and> \<not> is_ws (last s))"

lemma length_trim_start [len_bounds]: "length (trim_start s) \<le> length s"
  by (simp add: trim_start_def length_dropWhile_le)

lemma length_trim_end [len_bounds]: "length (trim_end s) \<le> length s"
  using length_dropWhile_le [of is_ws "rev s"] by (simp add: trim_end_def)

lemma length_trim [len_bounds]: "length (trim s) \<le> length s"
  unfolding trim_def by (meson le_trans length_trim_end length_trim_start)

lemma set_trim: "set (trim s) \<subseteq> set s"
  by (auto simp: trim_def trim_end_def trim_start_def dest!: set_dropWhileD)

lemma trim_id: "trimmed s \<Longrightarrow> trim s = s"
proof (cases s rule: rev_cases)
  case (snoc xs x)
  assume t: "trimmed s"
  have "trim_start s = s"
    using t snoc by (simp add: trimmed_def trim_start_def dropWhile_eq_self_iff)
  then show ?thesis
    using t snoc by (simp add: trim_def trim_end_def trimmed_def)
qed (simp add: trim_def trim_start_def trim_end_def)

lemma hd_trim_start: "trim_start s \<noteq> [] \<Longrightarrow> \<not> is_ws (hd (trim_start s))"
  unfolding trim_start_def by (rule hd_dropWhile)

lemma last_trim_end: "trim_end s \<noteq> [] \<Longrightarrow> \<not> is_ws (last (trim_end s))"
proof -
  assume "trim_end s \<noteq> []"
  then have "dropWhile is_ws (rev s) \<noteq> []" by (simp add: trim_end_def)
  then show ?thesis
    using hd_dropWhile [of is_ws "rev s"] by (simp add: trim_end_def last_rev)
qed

lemma trim_end_prefix: "\<exists>w. s = trim_end s @ w \<and> (\<forall>c\<in>set w. is_ws c)"
proof -
  have "rev s = takeWhile is_ws (rev s) @ dropWhile is_ws (rev s)" by simp
  then have "s = trim_end s @ rev (takeWhile is_ws (rev s))"
    unfolding trim_end_def by (metis rev_append rev_rev_ident)
  then show ?thesis by (metis set_rev set_takeWhileD)
qed

lemma trimmed_trim [simp]: "trimmed (trim s)"
proof (cases "trim s = []")
  case False
  obtain w where w: "trim_start s = trim s @ w" and "\<forall>c\<in>set w. is_ws c"
    using trim_end_prefix [of "trim_start s"] unfolding trim_def by blast
  then have "hd (trim s) = hd (trim_start s)" using False by (metis hd_append2)
  moreover have "trim_start s \<noteq> []" using w False by simp
  ultimately show ?thesis
    using False last_trim_end [of "trim_start s"] hd_trim_start [of s]
    by (simp add: trimmed_def trim_def)
qed (simp add: trimmed_def)

lemma trim_trim [simp]: "trim (trim s) = trim s"
  by (simp add: trim_id)

lemma trim_ws_append: "\<forall>c\<in>set w. is_ws c \<Longrightarrow> trim (w @ s) = trim s"
  by (simp add: trim_def trim_start_def)

lemma trim_append_ws: "\<forall>c\<in>set w. is_ws c \<Longrightarrow> trim (s @ w) = trim s"
proof -
  assume w: "\<forall>c\<in>set w. is_ws c"
  show ?thesis
  proof (cases "\<forall>c\<in>set s. is_ws c")
    case True
    then have "dropWhile is_ws s = []" "dropWhile is_ws (s @ w) = []"
      using w by (auto simp: dropWhile_eq_Nil_conv)
    then show ?thesis by (simp only: trim_def trim_start_def)
  next
    case False
    then have d: "dropWhile is_ws (s @ w) = dropWhile is_ws s @ w"
      by (meson dropWhile_append1)
    have "dropWhile is_ws (rev w @ rev (dropWhile is_ws s)) = dropWhile is_ws (rev (dropWhile is_ws s))"
      using w by (intro dropWhile_append2) simp
    then show ?thesis
      using d by (simp add: trim_def trim_start_def trim_end_def)
  qed
qed

lemma is_ws_space [simp]: "is_ws CHR '' ''"
  by (simp add: is_ws_def)

subsection \<open>Prefixes and suffixes\<close>

fun strip_prefix :: "string \<Rightarrow> string \<Rightarrow> string option" where
  "strip_prefix [] s = Some s"
| "strip_prefix (c # p) (d # s) = (if c = d then strip_prefix p s else None)"
| "strip_prefix (c # p) [] = None"

definition strip_suffix :: "string \<Rightarrow> string \<Rightarrow> string option" where
  "strip_suffix p s = map_option rev (strip_prefix (rev p) (rev s))"

definition starts_with :: "string \<Rightarrow> string \<Rightarrow> bool" where
  "starts_with p s \<longleftrightarrow> strip_prefix p s \<noteq> None"

definition ends_with :: "string \<Rightarrow> string \<Rightarrow> bool" where
  "ends_with p s \<longleftrightarrow> strip_suffix p s \<noteq> None"

lemma strip_prefix_Some: "strip_prefix p s = Some r \<longleftrightarrow> s = p @ r"
  by (induction p s rule: strip_prefix.induct) auto

lemma strip_prefix_append [simp]: "strip_prefix p (p @ r) = Some r"
  by (simp add: strip_prefix_Some)

lemma strip_suffix_Some: "strip_suffix p s = Some r \<longleftrightarrow> s = r @ p"
  by (auto simp: strip_suffix_def strip_prefix_Some rev_eq_append_conv intro: exI [of _ "rev r"])

lemma strip_suffix_append [simp]: "strip_suffix p (r @ p) = Some r"
  by (simp add: strip_suffix_Some)

lemma starts_with_iff: "starts_with p s \<longleftrightarrow> (\<exists>r. s = p @ r)"
  by (auto simp: starts_with_def strip_prefix_Some)

lemma ends_with_iff: "ends_with p s \<longleftrightarrow> (\<exists>r. s = r @ p)"
  by (auto simp: ends_with_def strip_suffix_Some)

lemma length_strip_prefix [len_bounds]: "strip_prefix p s = Some r \<Longrightarrow> length s = length p + length r"
  by (simp add: strip_prefix_Some)

lemma length_strip_suffix [len_bounds]: "strip_suffix p s = Some r \<Longrightarrow> length s = length r + length p"
  by (simp add: strip_suffix_Some)

subsection \<open>Splitting and joining\<close>

text \<open>\<^verbatim>\<open>str::split_once\<close> and \<^verbatim>\<open>str::rsplit_once\<close> with a one-character pattern.\<close>

fun split_once :: "char \<Rightarrow> string \<Rightarrow> (string \<times> string) option" where
  "split_once c [] = None"
| "split_once c (d # s) =
     (if d = c then Some ([], s)
      else map_option (\<lambda>(a, b). (d # a, b)) (split_once c s))"

definition rsplit_once :: "char \<Rightarrow> string \<Rightarrow> (string \<times> string) option" where
  "rsplit_once c s = map_option (\<lambda>(a, b). (rev b, rev a)) (split_once c (rev s))"

text \<open>\<^verbatim>\<open>str::split\<close> with a one-character pattern: never the empty list.\<close>

fun split_char :: "char \<Rightarrow> string \<Rightarrow> string list" where
  "split_char c [] = [[]]"
| "split_char c (d # s) =
     (if d = c then [] # split_char c s
      else (case split_char c s of [] \<Rightarrow> [[d]] | p # ps \<Rightarrow> (d # p) # ps))"

text \<open>\<^verbatim>\<open>str::lines\<close>: a line that ends loses its line feed and a carriage return before it.\<close>

definition strip_carriage_return :: "string \<Rightarrow> string" where
  "strip_carriage_return s = (if s \<noteq> [] \<and> last s = CHR 0x0D then butlast s else s)"

definition str_lines :: "string \<Rightarrow> string list" where
  "str_lines s =
     (let parts = split_char CHR 0x0A s
      in map strip_carriage_return (butlast parts) @ (if last parts = [] then [] else [last parts]))"

text \<open>\<^verbatim>\<open>[String]::join\<close>.\<close>

fun join_with :: "string \<Rightarrow> string list \<Rightarrow> string" where
  "join_with sep [] = []"
| "join_with sep [x] = x"
| "join_with sep (x # y # ys) = x @ sep @ join_with sep (y # ys)"

text \<open>\<^verbatim>\<open>str::contains\<close> with a text pattern.\<close>

fun contains_str :: "string \<Rightarrow> string \<Rightarrow> bool" where
  "contains_str p [] \<longleftrightarrow> p = []"
| "contains_str p (c # s) \<longleftrightarrow> starts_with p (c # s) \<or> contains_str p s"

lemma contains_str_iff: "contains_str p s \<longleftrightarrow> (\<exists>a b. s = a @ p @ b)"
proof (induction p s rule: contains_str.induct)
  case (2 p c s)
  have "(\<exists>a b. c # s = a @ p @ b) \<longleftrightarrow> (\<exists>b. c # s = p @ b) \<or> (\<exists>a b. s = a @ p @ b)"
  proof
    assume "\<exists>a b. c # s = a @ p @ b"
    then obtain a b where "c # s = a @ p @ b" by blast
    then show "(\<exists>b. c # s = p @ b) \<or> (\<exists>a b. s = a @ p @ b)"
      by (cases a) auto
  next
    assume "(\<exists>b. c # s = p @ b) \<or> (\<exists>a b. s = a @ p @ b)"
    then show "\<exists>a b. c # s = a @ p @ b"
    proof
      assume "\<exists>b. c # s = p @ b"
      then have "\<exists>b. c # s = [] @ p @ b" by simp
      then show ?thesis by blast
    next
      assume "\<exists>a b. s = a @ p @ b"
      then obtain a b where "s = a @ p @ b" by blast
      then show ?thesis by (intro exI [of _ "c # a"] exI [of _ b]) simp
    qed
  qed
  with 2 show ?case by (simp add: starts_with_iff)
qed auto

lemma split_once_Some:
  "split_once c s = Some (a, b) \<longleftrightarrow> s = a @ c # b \<and> c \<notin> set a"
proof (induction s arbitrary: a)
  case (Cons d s)
  show ?case
  proof (cases "d = c")
    case True
    then show ?thesis by (cases a) auto
  next
    case False
    have "split_once c (d # s) = Some (a, b) \<longleftrightarrow> (\<exists>a'. a = d # a' \<and> split_once c s = Some (a', b))"
      using False by auto
    also have "\<dots> \<longleftrightarrow> d # s = a @ c # b \<and> c \<notin> set a"
      using False Cons.IH by (cases a) auto
    finally show ?thesis .
  qed
qed simp

lemma split_once_None: "split_once c s = None \<longleftrightarrow> c \<notin> set s"
  by (induction s) (auto split: if_splits)

lemma rsplit_once_Some:
  "rsplit_once c s = Some (a, b) \<longleftrightarrow> s = a @ c # b \<and> c \<notin> set b"
proof -
  have "rsplit_once c s = Some (a, b) \<longleftrightarrow> split_once c (rev s) = Some (rev b, rev a)"
    by (auto simp: rsplit_once_def)
  also have "\<dots> \<longleftrightarrow> s = a @ c # b \<and> c \<notin> set b"
    by (auto simp: split_once_Some rev_eq_append_conv)
  finally show ?thesis .
qed

lemma rsplit_once_None: "rsplit_once c s = None \<longleftrightarrow> c \<notin> set s"
  by (auto simp: rsplit_once_def split_once_None)

lemma rsplit_once_shorter [len_bounds]:
  "rsplit_once c s = Some (a, b) \<Longrightarrow> length a < length s"
  by (simp add: rsplit_once_Some)

lemma split_char_not_Nil [simp]: "split_char c s \<noteq> []"
  by (cases s) (auto split: list.splits)

lemma split_char_fresh: "c \<notin> set s \<Longrightarrow> split_char c s = [s]"
  by (induction s) auto

lemma split_char_append:
  "c \<notin> set a \<Longrightarrow> split_char c (a @ c # b) = a # split_char c b"
  by (induction a) auto

lemma join_with_Cons:
  "join_with sep (x # xs) = (if xs = [] then x else x @ sep @ join_with sep xs)"
  by (cases xs) auto

lemma join_split_char: "join_with [c] (split_char c s) = s"
proof (induction s)
  case (Cons d s)
  then show ?case
    by (cases "split_char c s") (auto simp: join_with_Cons split: if_splits)
qed simp

lemma set_join_with: "set (join_with sep xs) \<subseteq> set sep \<union> \<Union> (set ` set xs)"
  by (induction sep xs rule: join_with.induct) auto

subsection \<open>Decimal numbers\<close>

definition digit_char :: "nat \<Rightarrow> char" where
  "digit_char n = ''0123456789'' ! n"

definition char_digit :: "char \<Rightarrow> nat option" where
  "char_digit c =
     (let n = (of_char c :: nat) in if 48 \<le> n \<and> n < 58 then Some (n - 48) else None)"

text \<open>\<^verbatim>\<open>Display\<close> of an unsigned integer.\<close>

fun show_nat :: "nat \<Rightarrow> string" where
  "show_nat n = (if n < 10 then [digit_char n] else show_nat (n div 10) @ [digit_char (n mod 10)])"

declare show_nat.simps [simp del]

fun digits_value :: "nat \<Rightarrow> string \<Rightarrow> nat option" where
  "digits_value acc [] = Some acc"
| "digits_value acc (c # s) =
     (case char_digit c of None \<Rightarrow> None | Some d \<Rightarrow> digits_value (10 * acc + d) s)"

text \<open>
  \<^verbatim>\<open>str::parse\<close> at an unsigned integer type with the given upper bound: an
  optional plus sign, then one or more digits whose value is in range.
\<close>

definition parse_unsigned :: "nat \<Rightarrow> string \<Rightarrow> nat option" where
  "parse_unsigned bound s =
     (let ds = (if starts_with ''+'' s then tl s else s)
      in if ds = [] then None
         else (case digits_value 0 ds of
                 None \<Rightarrow> None
               | Some n \<Rightarrow> if n \<le> bound then Some n else None))"

lemma less_10_cases: "n < 10 \<Longrightarrow> n \<in> {0,1,2,3,4,5,6,7,8,9::nat}"
  by auto

lemma char_digit_digit_char [simp]: "n < 10 \<Longrightarrow> char_digit (digit_char n) = Some n"
  by (drule less_10_cases) (auto simp: char_digit_def digit_char_def)

lemma digits_value_append:
  "digits_value acc (s @ t) =
     (case digits_value acc s of None \<Rightarrow> None | Some v \<Rightarrow> digits_value v t)"
  by (induction s arbitrary: acc) (auto split: option.splits)

lemma digits_value_show_nat [simp]: "digits_value 0 (show_nat n) = Some n"
proof (induction n rule: show_nat.induct)
  case (1 n)
  show ?case
  proof (cases "n < 10")
    case True
    then show ?thesis by (simp add: show_nat.simps [of n])
  next
    case False
    with 1 show ?thesis
      by (simp add: show_nat.simps [of n] digits_value_append)
  qed
qed

lemma show_nat_not_Nil [simp]: "show_nat n \<noteq> []"
  by (subst show_nat.simps) simp

lemma digit_char_set: "n < 10 \<Longrightarrow> digit_char n \<in> set ''0123456789''"
  unfolding digit_char_def by (rule nth_mem) simp

lemma set_show_nat: "set (show_nat n) \<subseteq> set ''0123456789''"
proof (induction n rule: show_nat.induct)
  case (1 n)
  then show ?case
    using digit_char_set [of n] digit_char_set [of "n mod 10"]
    by (subst show_nat.simps) auto
qed

lemma parse_show_nat: "n \<le> bound \<Longrightarrow> parse_unsigned bound (show_nat n) = Some n"
proof -
  assume n: "n \<le> bound"
  have "CHR ''+'' \<notin> set (show_nat n)" using set_show_nat [of n] by auto
  then have "\<not> starts_with ''+'' (show_nat n)"
    by (auto simp: starts_with_iff)
  with n show ?thesis by (simp add: parse_unsigned_def)
qed

lemma digits_not_ws: "list_all (\<lambda>c. \<not> is_ws c) ''0123456789''"
  by (simp add: is_ws_def)

lemma not_ws_digit: "c \<in> set ''0123456789'' \<Longrightarrow> \<not> is_ws c"
  using digits_not_ws unfolding list_all_iff by (rule bspec)

lemma trimmed_digits: "s \<noteq> [] \<Longrightarrow> set s \<subseteq> set ''0123456789'' \<Longrightarrow> trimmed s"
proof -
  assume "s \<noteq> []" and sub: "set s \<subseteq> set ''0123456789''"
  then have "hd s \<in> set s" "last s \<in> set s" by simp_all
  then have "\<not> is_ws (hd s)" "\<not> is_ws (last s)"
    by (meson sub not_ws_digit subsetD)+
  then show ?thesis by (simp only: trimmed_def) blast
qed

section \<open>Tests that may run out of fuel\<close>

text \<open>\<^verbatim>\<open>Iterator::any\<close> and \<^verbatim>\<open>all\<close>: left to right, stopping at the first answer.\<close>

fun any_opt :: "('a \<Rightarrow> bool option) \<Rightarrow> 'a list \<Rightarrow> bool option" where
  "any_opt f [] = Some False"
| "any_opt f (x # xs) =
     (case f x of None \<Rightarrow> None | Some b \<Rightarrow> if b then Some True else any_opt f xs)"

fun all_opt :: "('a \<Rightarrow> bool option) \<Rightarrow> 'a list \<Rightarrow> bool option" where
  "all_opt f [] = Some True"
| "all_opt f (x # xs) =
     (case f x of None \<Rightarrow> None | Some b \<Rightarrow> if b then all_opt f xs else Some False)"

lemma any_opt_cong [fundef_cong]:
  "xs = ys \<Longrightarrow> (\<And>x. x \<in> set ys \<Longrightarrow> f x = g x) \<Longrightarrow> any_opt f xs = any_opt g ys"
  by (induction ys arbitrary: xs) (auto split: option.splits)

lemma all_opt_cong [fundef_cong]:
  "xs = ys \<Longrightarrow> (\<And>x. x \<in> set ys \<Longrightarrow> f x = g x) \<Longrightarrow> all_opt f xs = all_opt g ys"
  by (induction ys arbitrary: xs) (auto split: option.splits)

lemma any_opt_map:
  "\<forall>x\<in>set xs. f (g x) = Some (p x) \<Longrightarrow> any_opt f (map g xs) = Some (list_ex p xs)"
  by (induction xs) auto

lemma all_opt_map:
  "\<forall>x\<in>set xs. f (g x) = Some (p x) \<Longrightarrow> all_opt f (map g xs) = Some (list_all p xs)"
  by (induction xs) auto

lemma any_opt_Some:
  "(\<And>x. x \<in> set xs \<Longrightarrow> f x = Some (p x)) \<Longrightarrow> any_opt f xs = Some (\<exists>x\<in>set xs. p x)"
  by (induction xs) auto

lemma all_opt_Some:
  "(\<And>x. x \<in> set xs \<Longrightarrow> f x = Some (p x)) \<Longrightarrow> all_opt f xs = Some (\<forall>x\<in>set xs. p x)"
  by (induction xs) auto

text \<open>\<^verbatim>\<open>Iterator::filter\<close> with such a test.\<close>

fun filter_opt :: "('a \<Rightarrow> bool option) \<Rightarrow> 'a list \<Rightarrow> 'a list option" where
  "filter_opt f [] = Some []"
| "filter_opt f (x # xs) =
     (case f x of
        None \<Rightarrow> None
      | Some b \<Rightarrow> map_option (\<lambda>ys. if b then x # ys else ys) (filter_opt f xs))"

lemma filter_opt_Some:
  "(\<And>x. x \<in> set xs \<Longrightarrow> f x = Some (p x)) \<Longrightarrow> filter_opt f xs = Some (filter p xs)"
  by (induction xs) auto

text \<open>\<^verbatim>\<open>Iterator::find\<close>, and the items of all the lists a loop appends.\<close>

fun find_opt :: "('a \<Rightarrow> bool option) \<Rightarrow> 'a list \<Rightarrow> 'a option option" where
  "find_opt f [] = Some None"
| "find_opt f (x # xs) =
     (case f x of None \<Rightarrow> None | Some b \<Rightarrow> if b then Some (Some x) else find_opt f xs)"

fun concat_opt :: "('a \<Rightarrow> 'b list option) \<Rightarrow> 'a list \<Rightarrow> 'b list option" where
  "concat_opt f [] = Some []"
| "concat_opt f (x # xs) =
     (case f x of None \<Rightarrow> None | Some ys \<Rightarrow> map_option (\<lambda>zs. ys @ zs) (concat_opt f xs))"

lemma concat_opt_cong [fundef_cong]:
  "xs = ys \<Longrightarrow> (\<And>x. x \<in> set ys \<Longrightarrow> f x = g x) \<Longrightarrow> concat_opt f xs = concat_opt g ys"
  by (induction ys arbitrary: xs) (auto split: option.splits)

lemma concat_opt_Some:
  "(\<And>x. x \<in> set xs \<Longrightarrow> f x = Some (g x)) \<Longrightarrow> concat_opt f xs = Some (concat (map g xs))"
  by (induction xs) auto

lemma find_SomeD: "List.find P xs = Some x \<Longrightarrow> P x \<and> x \<in> set xs"
  by (auto simp: find_Some_iff)

lemma mem_map_filter: "y \<in> set (List.map_filter f xs) \<longleftrightarrow> (\<exists>x\<in>set xs. f x = Some y)"
  by (induction xs) (auto simp: List.map_filter_simps split: option.splits)

end
