(* ===== verification/Py_Target.thy ===== *)
theory Py_Target
  imports Rust_Prelude
begin

text \<open>
  The crate \<^verbatim>\<open>typepython_target\<close> (crates/typepython_target/src/lib.rs): the Python
  version a project is compiled for, its textual form, and what the version's standard
  library offers. Versions are pairs of 8-bit integers, ordered as the derived
  \<^verbatim>\<open>Ord\<close> orders them.
\<close>

section \<open>Data\<close>

datatype runtime_feature =
    TypeStmt | InlineTypeParams | GenericDefaults | TypingReadOnly | TypingTypeIs
  | TypingNoDefault | WarningsDeprecated | DeferredAnnotations

datatype runtime_typing_form = TypeAliasType | NativeGenericClass | NativeGenericFunction

record runtime_typing_semantics =
  rts_form :: runtime_typing_form
  rts_type_param_names :: "string list"
  rts_annotation_scope_owner :: "string option"
  rts_lazy_alias_value :: bool
  rts_local_type_params_hidden :: bool
  rts_required_features :: "runtime_feature list"

datatype emit_style = Compat | Native

definition emit_style_display :: "emit_style \<Rightarrow> string" where
  "emit_style_display e = (case e of Compat \<Rightarrow> ''compat'' | Native \<Rightarrow> ''native'')"

definition emit_style_from_str :: "string \<Rightarrow> emit_style option" where
  "emit_style_from_str text =
     (let t = trim text
      in if t = ''compat'' then Some Compat else if t = ''native'' then Some Native else None)"

datatype python_target = PythonTarget (major: u8) (minor: u8)

instantiation python_target :: linorder
begin

definition less_eq_python_target :: "python_target \<Rightarrow> python_target \<Rightarrow> bool" where
  "less_eq_python_target s t \<longleftrightarrow> major s < major t \<or> (major s = major t \<and> minor s \<le> minor t)"

definition less_python_target :: "python_target \<Rightarrow> python_target \<Rightarrow> bool" where
  "less_python_target s t \<longleftrightarrow> major s < major t \<or> (major s = major t \<and> minor s < minor t)"

instance
  by intro_classes
    (auto simp: less_eq_python_target_def less_python_target_def python_target.expand)

end

abbreviation PYTHON_3_10 :: python_target where "PYTHON_3_10 \<equiv> PythonTarget 3 10"
abbreviation PYTHON_3_11 :: python_target where "PYTHON_3_11 \<equiv> PythonTarget 3 11"
abbreviation PYTHON_3_12 :: python_target where "PYTHON_3_12 \<equiv> PythonTarget 3 12"
abbreviation PYTHON_3_13 :: python_target where "PYTHON_3_13 \<equiv> PythonTarget 3 13"
abbreviation PYTHON_3_14 :: python_target where "PYTHON_3_14 \<equiv> PythonTarget 3 14"

section \<open>Operations\<close>

definition parse_u8 :: "string \<Rightarrow> u8 option" where
  "parse_u8 s = map_option of_nat (parse_unsigned 255 s)"

definition target_parse :: "string \<Rightarrow> python_target option" where
  "target_parse text =
     (case split_once CHR ''.'' (trim text) of
        None \<Rightarrow> None
      | Some (ma, mi) \<Rightarrow>
          (case parse_u8 ma of
             None \<Rightarrow> None
           | Some a \<Rightarrow> (case parse_u8 mi of None \<Rightarrow> None | Some b \<Rightarrow> Some (PythonTarget a b))))"

definition target_display :: "python_target \<Rightarrow> string" where
  "target_display t = show_nat (unat (major t)) @ ''.'' @ show_nat (unat (minor t))"

definition normalized_text :: "python_target \<Rightarrow> string" where
  "normalized_text t = target_display t"

definition default_target :: python_target where
  "default_target = PYTHON_3_10"

definition default_emit_style :: "python_target \<Rightarrow> emit_style" where
  "default_emit_style t = (if PYTHON_3_13 \<le> t then Native else Compat)"

fun min_runtime_for :: "runtime_feature \<Rightarrow> python_target" where
  "min_runtime_for TypeStmt = PYTHON_3_12"
| "min_runtime_for InlineTypeParams = PYTHON_3_12"
| "min_runtime_for GenericDefaults = PYTHON_3_13"
| "min_runtime_for TypingReadOnly = PYTHON_3_13"
| "min_runtime_for TypingTypeIs = PYTHON_3_13"
| "min_runtime_for TypingNoDefault = PYTHON_3_13"
| "min_runtime_for WarningsDeprecated = PYTHON_3_13"
| "min_runtime_for DeferredAnnotations = PYTHON_3_14"

definition supports :: "python_target \<Rightarrow> runtime_feature \<Rightarrow> bool" where
  "supports t f \<longleftrightarrow> min_runtime_for f \<le> t"

definition supports_type_stmt :: "python_target \<Rightarrow> bool" where
  "supports_type_stmt t \<longleftrightarrow> supports t TypeStmt"

definition supports_inline_type_params :: "python_target \<Rightarrow> bool" where
  "supports_inline_type_params t \<longleftrightarrow> supports t InlineTypeParams"

definition supports_generic_defaults :: "python_target \<Rightarrow> bool" where
  "supports_generic_defaults t \<longleftrightarrow> supports t GenericDefaults"

text \<open>The owner of a symbol that the standard library has since version \<open>v\<close>.\<close>

definition owner_since :: "python_target \<Rightarrow> string \<Rightarrow> python_target \<Rightarrow> string" where
  "owner_since v owner t = (if v \<le> t then owner else ''typing_extensions'')"

definition stdlib_owner :: "python_target \<Rightarrow> string \<Rightarrow> string option" where
  "stdlib_owner t symbol =
     (if symbol = ''Self'' then Some (owner_since PYTHON_3_11 ''typing'' t)
      else if symbol \<in> {''Required'', ''NotRequired'', ''dataclass_transform''} then
        Some (owner_since PYTHON_3_11 ''typing'' t)
      else if symbol = ''override'' then Some (owner_since PYTHON_3_12 ''typing'' t)
      else if symbol \<in> {''TypeVarTuple'', ''Unpack''} then
        Some (owner_since PYTHON_3_11 ''typing'' t)
      else if symbol = ''ReadOnly'' then
        Some (owner_since (min_runtime_for TypingReadOnly) ''typing'' t)
      else if symbol = ''TypeIs'' then
        Some (owner_since (min_runtime_for TypingTypeIs) ''typing'' t)
      else if symbol = ''NoDefault'' then
        Some (owner_since (min_runtime_for TypingNoDefault) ''typing'' t)
      else if symbol = ''deprecated'' then
        Some (owner_since (min_runtime_for WarningsDeprecated) ''warnings'' t)
      else None)"

section \<open>Lemmas\<close>

lemma emit_style_roundtrip: "emit_style_from_str (emit_style_display e) = Some e"
  by (cases e) (simp_all add: emit_style_from_str_def emit_style_display_def trim_def
      trim_start_def trim_end_def is_ws_def Let_def)

lemma parse_u8_show: "parse_u8 (show_nat (unat (w :: u8))) = Some w"
proof -
  have "unat w < 2 ^ LENGTH(8)" by (rule unsigned_less)
  then have "unat w \<le> 255" by simp
  then show ?thesis by (simp add: parse_u8_def parse_show_nat)
qed

lemma dot_not_in_show_nat: "CHR ''.'' \<notin> set (show_nat n)"
  using set_show_nat [of n] by auto

lemma trimmed_show_nat_append:
  "trimmed (show_nat m @ s @ show_nat n)"
proof -
  have "trimmed (show_nat m)" "trimmed (show_nat n)"
    by (rule trimmed_digits [OF show_nat_not_Nil set_show_nat])+
  then show ?thesis by (simp add: trimmed_def)
qed

lemma supports_mono_lemma: "t \<le> t' \<Longrightarrow> supports t f \<Longrightarrow> supports t' f"
  by (simp add: supports_def)

section \<open>Properties\<close>

text \<open>
  Every target version, over the whole range of both 8-bit components, is read back
  from its rendered form, also when the text is surrounded by white space.
\<close>

lemma target_parse_display:
  assumes "\<forall>c\<in>set w. is_ws c" and "\<forall>c\<in>set w'. is_ws c"
  shows "target_parse (w @ normalized_text t @ w') = Some t"
proof -
  have "trimmed (normalized_text t)"
    unfolding normalized_text_def target_display_def by (rule trimmed_show_nat_append)
  then have "trim (w @ normalized_text t @ w') = normalized_text t"
    using assms by (simp add: trim_ws_append trim_append_ws trim_id)
  moreover have "split_once CHR ''.'' (normalized_text t)
      = Some (show_nat (unat (major t)), show_nat (unat (minor t)))"
    by (simp add: split_once_Some normalized_text_def target_display_def dot_not_in_show_nat)
  ultimately show ?thesis by (simp add: target_parse_def parse_u8_show)
qed

lemma stdlib_owner_cases:
  "(\<forall>t. stdlib_owner t s = None) \<or> (\<exists>v p. \<forall>t. stdlib_owner t s = Some (owner_since v p t))"
proof -
  let ?P = "\<lambda>g. (\<forall>t. g t = None) \<or> (\<exists>v p. \<forall>t. g t = Some (owner_since v p t))"
  have choice: "?P (\<lambda>t. if b then g t else h t)" if "?P g" "?P h" for b g h
    using that by (cases b) simp_all
  have some: "?P (\<lambda>t. Some (owner_since v p t))" for v p by blast
  have none: "?P (\<lambda>t. None)" by blast
  show ?thesis unfolding stdlib_owner_def by (intro choice some none)
qed

text \<open>
  Capabilities only grow with the target. A feature the runtime supports stays
  supported in every later version, a symbol that once moved to the standard library
  never moves back to \<^verbatim>\<open>typing_extensions\<close>, whether a symbol has an owner at all
  does not depend on the target, and the default emission style never returns to the
  compatible one.
\<close>

lemma capabilities_monotone:
  assumes "t \<le> t'"
  shows "(\<forall>f. supports t f \<longrightarrow> supports t' f) \<and>
    (\<forall>s p. stdlib_owner t s = Some p \<and> p \<noteq> ''typing_extensions'' \<longrightarrow> stdlib_owner t' s = Some p) \<and>
    (\<forall>s. stdlib_owner t s = None \<longleftrightarrow> stdlib_owner t' s = None) \<and>
    (default_emit_style t = Native \<longrightarrow> default_emit_style t' = Native)"
proof (intro conjI allI impI)
  fix s p
  assume p: "stdlib_owner t s = Some p \<and> p \<noteq> ''typing_extensions''"
  then obtain v q where eq: "\<And>u. stdlib_owner u s = Some (owner_since v q u)"
    using stdlib_owner_cases [of s] by auto
  from p have "v \<le> t" "p = q" by (auto simp: eq owner_since_def split: if_splits)
  then show "stdlib_owner t' s = Some p"
    using order_trans [OF \<open>v \<le> t\<close> assms] by (simp add: eq owner_since_def)
next
  fix s
  show "stdlib_owner t s = None \<longleftrightarrow> stdlib_owner t' s = None"
    using stdlib_owner_cases [of s] by auto
qed (use assms in \<open>auto simp: supports_mono_lemma default_emit_style_def split: if_splits\<close>)

end
