(* ===== verification/Type_Syntax.thy ===== *)
theory Type_Syntax
  imports Rust_Prelude
begin

text \<open>
  Type expressions (crates/typepython_syntax, type_expr.rs and the variadic rewriting of
  formatting.rs): the tree, the recursive-descent parser that works by splitting the text
  at brackets and separators, the renderer, and the text-level normalisers built on them.
\<close>

section \<open>The tree\<close>

datatype union_style = Explicit | Shorthand

datatype type_expr =
    TName string
  | TGeneric string "type_expr list"
  | TCallable callable_param_expr type_expr
  | TUnion "type_expr list" union_style
  | TAnnotated type_expr "string list"
  | TUnpack type_expr
and callable_param_expr =
    CEllipsis
  | CParamList "type_expr list"
  | CConcatenate "type_expr list"
  | CSingle type_expr

section \<open>Rewriting star annotations\<close>

text \<open>
  \<^verbatim>\<open>variadic_unpack_operand_bounds\<close> looks for the operand of a star. The scan keeps
  the three bracket depths; the result is the operand and the text from its delimiter on.
\<close>

fun scan_operand :: "nat \<Rightarrow> nat \<Rightarrow> nat \<Rightarrow> string \<Rightarrow> string \<times> string" where
  "scan_operand b p c [] = ([], [])"
| "scan_operand b p c (x # xs) =
     (if b = 0 \<and> p = 0 \<and> c = 0 \<and> x \<in> set '',]):='' then ([], x # xs)
      else
        (let b' = (if x = CHR ''['' then Suc b else if x = CHR '']'' then b - 1 else b);
             p' = (if x = CHR ''('' then Suc p else if x = CHR '')'' then p - 1 else p);
             c' = (if x = CHR ''{'' then Suc c else if x = CHR ''}'' then c - 1 else c);
             (operand, rest) = scan_operand b' p' c' xs
         in (x # operand, rest)))"

text \<open>The skipped white space, the operand, and the text from the delimiter on.\<close>

definition variadic_unpack_operand_bounds :: "string \<Rightarrow> (string \<times> string \<times> string) option" where
  "variadic_unpack_operand_bounds rest =
     (let body = dropWhile is_ws rest
      in if body = [] then None
         else (let (operand, after) = scan_operand 0 0 0 body
               in Some (takeWhile is_ws rest, operand, after)))"

text \<open>
  The text before the current position is kept reversed, so the last significant
  character before it is the first one of the list that is no white space.
\<close>

definition previous_significant_char :: "string \<Rightarrow> char option" where
  "previous_significant_char prior =
     (case dropWhile is_ws prior of [] \<Rightarrow> None | c # _ \<Rightarrow> Some c)"

definition is_ascii_alphanumeric :: "char \<Rightarrow> bool" where
  "is_ascii_alphanumeric c \<longleftrightarrow>
     c \<in> set ''0123456789ABCDEFGHIJKLMNOPQRSTUVWXYZabcdefghijklmnopqrstuvwxyz''"

definition bracket_is_type_context :: "string \<Rightarrow> bool" where
  "bracket_is_type_context prior =
     (case dropWhile is_ws prior of
        c # d # _ \<Rightarrow> c = CHR ''['' \<and> (is_ascii_alphanumeric d \<or> d \<in> set ''_].'')
      | _ \<Rightarrow> False)"

definition star_stays :: "string \<Rightarrow> string \<Rightarrow> string \<Rightarrow> bool" where
  "star_stays prior operand after =
     (let previous = previous_significant_char prior;
          delimiter = (case after of [] \<Rightarrow> None | d # _ \<Rightarrow> Some d)
      in operand = []
         \<or> (delimiter = Some CHR '':'' \<and> previous \<in> {None, Some CHR ''('', Some CHR '',''})
         \<or> (previous = Some CHR ''['' \<and> \<not> bracket_is_type_context prior)
         \<or> previous \<notin> {None, Some CHR ''['', Some CHR '','', Some CHR '':'', Some CHR ''>'', Some CHR ''=''})"

lemma length_scan_operand [len_bounds]:
  "scan_operand b p c s = (operand, after) \<Longrightarrow> length operand + length after = length s"
  by (induction b p c s arbitrary: operand after rule: scan_operand.induct)
    (auto simp: Let_def split: prod.splits if_splits)

lemma length_operand_bounds [len_bounds]:
  "variadic_unpack_operand_bounds s = Some (w, operand, after) \<Longrightarrow> length after \<le> length s"
proof -
  assume "variadic_unpack_operand_bounds s = Some (w, operand, after)"
  then have "scan_operand 0 0 0 (dropWhile is_ws s) = (operand, after)"
    by (auto simp: variadic_unpack_operand_bounds_def Let_def split: if_splits prod.splits)
  then show ?thesis
    using length_scan_operand [of 0 0 0 "dropWhile is_ws s" operand after]
      length_dropWhile_le [of is_ws s] by linarith
qed

function normalize_variadic_from :: "string \<Rightarrow> string \<Rightarrow> string" where
  "normalize_variadic_from prior [] = []"
| "normalize_variadic_from prior (c # rest) =
     (if c \<noteq> CHR ''*'' \<or> starts_with ''*'' rest
      then c # normalize_variadic_from (c # prior) rest
      else (case variadic_unpack_operand_bounds rest of
              None \<Rightarrow> c # normalize_variadic_from (c # prior) rest
            | Some (skipped, operand, after) \<Rightarrow>
                if star_stays prior (trim operand) after
                then c # normalize_variadic_from (c # prior) rest
                else ''Unpack['' @ trim operand @ '']'' @
                  normalize_variadic_from (rev operand @ rev skipped @ c # prior) after))"
  by pat_completeness auto
termination
  by (relation "measure (\<lambda>(prior, rest). length rest)")
    (auto dest: length_operand_bounds simp: less_Suc_eq_le)

definition normalize_source_variadic_type_syntax :: "string \<Rightarrow> string" where
  "normalize_source_variadic_type_syntax text = normalize_variadic_from [] text"

lemma normalize_variadic_no_star:
  "CHR ''*'' \<notin> set s \<Longrightarrow> normalize_variadic_from prior s = s"
  by (induction s arbitrary: prior) auto

section \<open>Names and heads\<close>

definition normalize_name :: "string \<Rightarrow> string" where
  "normalize_name text =
     (let trimmed = trim text
      in trim (case strip_prefix ''typing.'' trimmed of
                 Some r \<Rightarrow> r
               | None \<Rightarrow> (case strip_prefix ''typing_extensions.'' trimmed of
                            Some r \<Rightarrow> r
                          | None \<Rightarrow> trimmed)))"

definition normalize_type_head :: "string \<Rightarrow> string" where
  "normalize_type_head head =
     (let h = trim head
      in if h = ''List'' then ''list''
         else if h = ''Dict'' then ''dict''
         else if h = ''Tuple'' then ''tuple''
         else if h = ''Set'' then ''set''
         else if h = ''FrozenSet'' then ''frozenset''
         else if h = ''Type'' then ''type''
         else if h = ''Callable'' then ''Callable''
         else if h = ''Literal'' then ''Literal''
         else if h = ''NewType'' then ''NewType''
         else h)"

lemma length_normalize_name [len_bounds]: "length (normalize_name text) \<le> length text"
proof -
  have t: "length (trim text) \<le> length text" by (rule length_trim)
  show ?thesis
    unfolding normalize_name_def Let_def
    by (auto intro!: order_trans [OF length_trim] dest!: length_strip_prefix
        split: option.splits simp: t) (use t in linarith)+
qed

section \<open>Splitting at separators of depth zero\<close>

text \<open>
  \<^verbatim>\<open>split_top_level_union_branches\<close>: all three kinds of brackets count, a closing
  bracket at depth zero is ignored, and the last piece is always kept. The accumulator is
  the current piece, reversed.
\<close>

fun split_union_from :: "nat \<Rightarrow> string \<Rightarrow> string \<Rightarrow> string list" where
  "split_union_from depth acc [] = [trim (rev acc)]"
| "split_union_from depth acc (c # s) =
     (if c \<in> set ''[({'' then split_union_from (Suc depth) (c # acc) s
      else if c \<in> set ''])}'' then split_union_from (depth - 1) (c # acc) s
      else if c = CHR ''|'' \<and> depth = 0 then trim (rev acc) # split_union_from depth [] s
      else split_union_from depth (c # acc) s)"

definition split_top_level_union_branches :: "string \<Rightarrow> string list" where
  "split_top_level_union_branches text = split_union_from 0 [] text"

text \<open>
  \<^verbatim>\<open>split_top_level_type_args\<close>: only square brackets count, and an empty last
  piece is dropped.
\<close>

fun split_args_from :: "nat \<Rightarrow> string \<Rightarrow> string \<Rightarrow> string list" where
  "split_args_from depth acc [] = (let t = trim (rev acc) in if t = [] then [] else [t])"
| "split_args_from depth acc (c # s) =
     (if c = CHR ''['' then split_args_from (Suc depth) (c # acc) s
      else if c = CHR '']'' then split_args_from (depth - 1) (c # acc) s
      else if c = CHR '','' \<and> depth = 0 then trim (rev acc) # split_args_from depth [] s
      else split_args_from depth (c # acc) s)"

definition split_top_level_type_args :: "string \<Rightarrow> string list" where
  "split_top_level_type_args args = split_args_from 0 [] args"

lemma length_trim_rev: "length (trim (rev acc)) \<le> length acc"
  using length_trim [of "rev acc"] by simp

lemma split_args_from_length:
  "x \<in> set (split_args_from d acc s) \<Longrightarrow> length x \<le> length acc + length s"
  by (induction d acc s rule: split_args_from.induct)
    (auto simp: Let_def intro: order_trans [OF length_trim_rev] split: if_splits)

lemma split_args_length [len_bounds]:
  "x \<in> set (split_top_level_type_args s) \<Longrightarrow> length x \<le> length s"
  using split_args_from_length [of x 0 "[]" s] by (simp add: split_top_level_type_args_def)

lemma split_union_from_length:
  "x \<in> set (split_union_from d acc s) \<Longrightarrow> length x \<le> length acc + length s"
  by (induction d acc s rule: split_union_from.induct)
    (auto intro: order_trans [OF length_trim_rev] split: if_splits)

lemma split_union_from_shorter:
  "1 < length (split_union_from d acc s) \<Longrightarrow> x \<in> set (split_union_from d acc s) \<Longrightarrow>
    length x < length acc + length s"
proof (induction d acc s rule: split_union_from.induct)
  case (2 d acc c s)
  show ?case
  proof (cases "c \<notin> set ''[({'' \<and> c \<notin> set ''])}'' \<and> c = CHR ''|'' \<and> d = 0")
    case True
    then have "x = trim (rev acc) \<or> x \<in> set (split_union_from d [] s)" using "2.prems" by simp
    then show ?thesis
      using length_trim_rev [of acc] split_union_from_length [of x d "[]" s] by auto
  next
    case False
    then show ?thesis using 2 by (auto split: if_splits)
  qed
qed simp

lemma split_union_shorter [len_bounds]:
  "1 < length (split_top_level_union_branches s) \<Longrightarrow>
    x \<in> set (split_top_level_union_branches s) \<Longrightarrow> length x < length s"
  using split_union_from_shorter [of 0 "[]" s x] by (simp add: split_top_level_union_branches_def)

section \<open>The parser\<close>

text \<open>
  \<^verbatim>\<open>text.strip_prefix(p).and_then(strip_suffix(']'))\<close>: what a bracketed form holds.
\<close>

definition bracketed :: "string \<Rightarrow> string \<Rightarrow> string option" where
  "bracketed p text =
     (case strip_prefix p text of None \<Rightarrow> None | Some r \<Rightarrow> strip_suffix '']'' r)"

text \<open>
  Head and arguments of a generic form: the text up to the first bracket, and the rest
  without the closing one.
\<close>

definition generic_parts :: "string \<Rightarrow> (string \<times> string) option" where
  "generic_parts text =
     (case split_once CHR ''['' text of
        None \<Rightarrow> None
      | Some (head, r) \<Rightarrow>
          (case strip_suffix '']'' r of None \<Rightarrow> None | Some args \<Rightarrow> Some (head, args)))"

text \<open>The two arguments of \<^verbatim>\<open>Callable[..]\<close>, when there are exactly two.\<close>

definition callable_args :: "string \<Rightarrow> (string \<times> string) option" where
  "callable_args text =
     (case bracketed ''Callable['' text of
        None \<Rightarrow> None
      | Some inner \<Rightarrow>
          (case split_top_level_type_args inner of [p, r] \<Rightarrow> Some (p, r) | _ \<Rightarrow> None))"

lemma length_bracketed [len_bounds]: "bracketed p text = Some inner \<Longrightarrow> length inner < length text"
  by (auto simp: bracketed_def dest!: length_strip_prefix length_strip_suffix split: option.splits)

lemma length_generic_parts [len_bounds]:
  "generic_parts text = Some (head, args) \<Longrightarrow> length args < length text"
  by (auto simp: generic_parts_def split_once_Some dest!: length_strip_suffix split: option.splits)

function normalize_type_text_legacy :: "string \<Rightarrow> string" where
  "normalize_type_text_legacy raw =
     (let text = normalize_name raw
      in if text = [] then text
         else (case generic_parts text of
                 Some (head, args) \<Rightarrow>
                   normalize_type_head head @ ''['' @
                   join_with '', '' (map normalize_type_text_legacy (split_top_level_type_args args))
                   @ '']''
               | None \<Rightarrow> normalize_type_head text))"
  by pat_completeness auto
termination
proof (relation "measure length", simp)
  fix raw t x head args y
  assume "t = normalize_name raw" "generic_parts t = Some x" "(head, args) = x"
    "y \<in> set (split_top_level_type_args args)"
  then show "(y, raw) \<in> measure length"
    using length_normalize_name [of raw] length_generic_parts [of t head args]
      split_args_length [of y args] by simp
qed

text \<open>Every recursive call of the parser is on a strictly shorter text.\<close>

lemma union_branch_shorter:
  "Suc 0 < length (split_top_level_union_branches (normalize_name raw)) \<Longrightarrow>
    x \<in> set (split_top_level_union_branches (normalize_name raw)) \<Longrightarrow> length x < length raw"
  using split_union_shorter [of "normalize_name raw" x] length_normalize_name [of raw] by simp

lemma bracketed_shorter:
  "bracketed p (normalize_name raw) = Some inner \<Longrightarrow> length inner < length raw"
  using length_bracketed [of p "normalize_name raw" inner] length_normalize_name [of raw] by simp

lemma bracketed_arg_shorter:
  "bracketed p (normalize_name raw) = Some inner \<Longrightarrow>
    x \<in> set (split_top_level_type_args inner) \<Longrightarrow> length x < length raw"
  using split_args_length [of x inner] bracketed_shorter [of p raw inner] by simp

lemma bracketed_first_shorter:
  "bracketed p (normalize_name raw) = Some inner \<Longrightarrow>
    split_top_level_type_args inner = x # xs \<Longrightarrow> length x < length raw"
  using bracketed_arg_shorter [of p raw inner x] by simp

lemma callable_arg_shorter:
  assumes "callable_args (normalize_name raw) = Some (p, r)"
  shows "length p < length raw" "length r < length raw"
proof -
  obtain inner where "bracketed ''Callable['' (normalize_name raw) = Some inner"
    "split_top_level_type_args inner = [p, r]"
    using assms by (auto simp: callable_args_def split: option.splits list.splits)
  then show "length p < length raw" "length r < length raw"
    using bracketed_arg_shorter [of "''Callable[''" raw inner] by simp_all
qed

lemma generic_arg_shorter:
  "generic_parts (normalize_name raw) = Some (head, args) \<Longrightarrow>
    x \<in> set (split_top_level_type_args args) \<Longrightarrow> length x < length raw"
  using split_args_length [of x args] length_generic_parts [of "normalize_name raw" head args]
    length_normalize_name [of raw] by simp

lemma double_less: "a < b \<Longrightarrow> Suc (2 * a) < 2 * (b :: nat)"
  by simp

lemma double_less_Suc: "a < b \<Longrightarrow> 2 * a < Suc (2 * (b :: nat))"
  by simp

function parse_type_expr :: "string \<Rightarrow> type_expr option"
  and parse_callable_param_expr :: "string \<Rightarrow> callable_param_expr option" where
  "parse_type_expr raw =
     (let text = normalize_name raw;
          branches = split_top_level_union_branches text
      in if text = [] then None
         else if 1 < length branches then
           Some (TUnion (map (\<lambda>b. case parse_type_expr b of
                                    Some e \<Rightarrow> e | None \<Rightarrow> TName (normalize_name b)) branches)
                   Shorthand)
         else (case bracketed ''Annotated['' text of
           Some inner \<Rightarrow>
             (case split_top_level_type_args inner of
                [] \<Rightarrow> None
              | first # rest \<Rightarrow>
                  (case parse_type_expr first of
                     None \<Rightarrow> None
                   | Some v \<Rightarrow> Some (TAnnotated v (map normalize_type_text_legacy rest))))
         | None \<Rightarrow> (case bracketed ''Unpack['' text of
           Some inner \<Rightarrow> map_option TUnpack (parse_type_expr inner)
         | None \<Rightarrow> (case callable_args text of
           Some (p, r) \<Rightarrow>
             (case parse_callable_param_expr p of
                None \<Rightarrow> None
              | Some ps \<Rightarrow>
                  (case parse_type_expr r of None \<Rightarrow> None | Some e \<Rightarrow> Some (TCallable ps e)))
         | None \<Rightarrow> (case bracketed ''Union['' text of
           Some inner \<Rightarrow>
             Some (TUnion (map (\<lambda>b. case parse_type_expr b of
                                      Some e \<Rightarrow> e | None \<Rightarrow> TName (normalize_name b))
                              (split_top_level_type_args inner)) Explicit)
         | None \<Rightarrow> (case generic_parts text of
           Some (head, args) \<Rightarrow>
             Some (TGeneric (normalize_type_head head)
                     (map (\<lambda>b. case parse_type_expr b of
                                 Some e \<Rightarrow> e | None \<Rightarrow> TName (normalize_name b))
                        (split_top_level_type_args args)))
         | None \<Rightarrow> Some (TName text)))))))"
| "parse_callable_param_expr raw =
     (let text = normalize_name raw
      in if text = [] then None
         else if text = ''...'' then Some CEllipsis
         else (case bracketed ''['' text of
           Some inner \<Rightarrow>
             Some (CParamList
               (if trim inner = [] then []
                else map (\<lambda>b. case parse_type_expr b of
                                Some e \<Rightarrow> e | None \<Rightarrow> TName (normalize_name b))
                       (split_top_level_type_args inner)))
         | None \<Rightarrow> (case bracketed ''Concatenate['' text of
           Some inner \<Rightarrow>
             Some (CConcatenate
               (map (\<lambda>b. case parse_type_expr b of
                           Some e \<Rightarrow> e | None \<Rightarrow> TName (normalize_name b))
                  (split_top_level_type_args inner)))
         | None \<Rightarrow> map_option CSingle (parse_type_expr text))))"
  by pat_completeness auto
termination
  by (relation "measure (case_sum (\<lambda>s. 2 * length s) (\<lambda>s. Suc (2 * length s)))")
    (auto simp: le_imp_less_Suc length_normalize_name
      intro: union_branch_shorter bracketed_shorter bracketed_arg_shorter bracketed_first_shorter
        callable_arg_shorter generic_arg_shorter double_less double_less_Suc)
declare parse_type_expr.simps [simp del] parse_callable_param_expr.simps [simp del]
declare normalize_type_text_legacy.simps [simp del]

text \<open>\<^verbatim>\<open>TypeExpr::parse\<close>.\<close>

definition type_expr_parse :: "string \<Rightarrow> type_expr option" where
  "type_expr_parse text = parse_type_expr (normalize_source_variadic_type_syntax text)"

section \<open>The renderer\<close>

fun render :: "type_expr \<Rightarrow> string"
  and render_callable_params :: "callable_param_expr \<Rightarrow> string" where
  "render (TName name) = normalize_name name"
| "render (TGeneric head args) =
     normalize_type_head head @ ''['' @ join_with '', '' (map render args) @ '']''"
| "render (TCallable params return_type) =
     ''Callable['' @ render_callable_params params @ '', '' @ render return_type @ '']''"
| "render (TUnion branches Explicit) = ''Union['' @ join_with '', '' (map render branches) @ '']''"
| "render (TUnion branches Shorthand) = join_with '' | '' (map render branches)"
| "render (TAnnotated value metadata) =
     (if metadata = [] then ''Annotated['' @ render value @ '']''
      else ''Annotated['' @ render value @ '', '' @ join_with '', '' metadata @ '']'')"
| "render (TUnpack inner) = ''Unpack['' @ render inner @ '']''"
| "render_callable_params CEllipsis = ''...''"
| "render_callable_params (CParamList types) = ''['' @ join_with '', '' (map render types) @ '']''"
| "render_callable_params (CConcatenate types) =
     ''Concatenate['' @ join_with '', '' (map render types) @ '']''"
| "render_callable_params (CSingle expr) = render expr"

section \<open>Text-level operations\<close>

definition normalize_type_text :: "string \<Rightarrow> string" where
  "normalize_type_text text =
     (let t = trim (normalize_source_variadic_type_syntax text)
      in if t = [] then []
         else (case type_expr_parse t of
                 Some e \<Rightarrow> render e
               | None \<Rightarrow> normalize_type_text_legacy t))"

definition normalize_callable_param_expr :: "string \<Rightarrow> string" where
  "normalize_callable_param_expr params =
     (case parse_callable_param_expr params of
        Some p \<Rightarrow> render_callable_params p
      | None \<Rightarrow> normalize_type_text_legacy params)"

definition parse_callable_annotation_parts :: "string \<Rightarrow> (string \<times> string) option" where
  "parse_callable_annotation_parts text =
     (case type_expr_parse text of
        Some (TCallable params return_type) \<Rightarrow>
          Some (render_callable_params params, render return_type)
      | _ \<Rightarrow> None)"

definition parse_callable_annotation :: "string \<Rightarrow> (string list option \<times> string) option" where
  "parse_callable_annotation text =
     (case parse_callable_annotation_parts text of
        None \<Rightarrow> None
      | Some (params, return_type) \<Rightarrow>
          if params = ''...'' then Some (None, return_type)
          else (case bracketed ''['' params of
                  None \<Rightarrow> None
                | Some inner \<Rightarrow>
                    Some (Some (if trim inner = [] then []
                                else map normalize_type_text (split_top_level_type_args inner)),
                          return_type)))"

definition annotated_inner :: "string \<Rightarrow> string option" where
  "annotated_inner text =
     (case type_expr_parse text of Some (TAnnotated value _) \<Rightarrow> Some (render value) | _ \<Rightarrow> None)"

definition unpack_inner :: "string \<Rightarrow> string option" where
  "unpack_inner text =
     (case type_expr_parse text of Some (TUnpack inner) \<Rightarrow> Some (render inner) | _ \<Rightarrow> None)"

subsection \<open>Erasing checker-only types\<close>

fun normalize_checker_only_type_expr :: "type_expr \<Rightarrow> type_expr"
  and normalize_checker_only_callable_params :: "callable_param_expr \<Rightarrow> callable_param_expr" where
  "normalize_checker_only_type_expr (TName name) =
     (if name = ''unknown'' then TName ''object''
      else if name = ''dynamic'' then TName ''Any''
      else TName name)"
| "normalize_checker_only_type_expr (TGeneric head []) =
     (if head = ''ValidatorWitness'' then TName ''bool'' else TGeneric head [])"
| "normalize_checker_only_type_expr (TGeneric head (arg # args)) =
     (if head = ''Tainted'' then normalize_checker_only_type_expr arg
      else if head = ''ValidatorWitness'' then TName ''bool''
      else TGeneric head (map normalize_checker_only_type_expr (arg # args)))"
| "normalize_checker_only_type_expr (TCallable params return_type) =
     TCallable (normalize_checker_only_callable_params params)
       (normalize_checker_only_type_expr return_type)"
| "normalize_checker_only_type_expr (TUnion branches style) =
     TUnion (map normalize_checker_only_type_expr branches) style"
| "normalize_checker_only_type_expr (TAnnotated value metadata) =
     TAnnotated (normalize_checker_only_type_expr value) metadata"
| "normalize_checker_only_type_expr (TUnpack inner) =
     TUnpack (normalize_checker_only_type_expr inner)"
| "normalize_checker_only_callable_params CEllipsis = CEllipsis"
| "normalize_checker_only_callable_params (CParamList params) =
     CParamList (map normalize_checker_only_type_expr params)"
| "normalize_checker_only_callable_params (CConcatenate params) =
     CConcatenate (map normalize_checker_only_type_expr params)"
| "normalize_checker_only_callable_params (CSingle param) =
     CSingle (normalize_checker_only_type_expr param)"

definition normalize_checker_only_type_text :: "string \<Rightarrow> string option" where
  "normalize_checker_only_type_text text =
     (case type_expr_parse (trim text) of
        None \<Rightarrow> None
      | Some expr \<Rightarrow>
          (let rendered = render (normalize_checker_only_type_expr expr)
           in if rendered \<noteq> normalize_type_text text then Some rendered else None))"

subsection \<open>Restricted type-level forms\<close>

fun contains_restricted_type_level_form :: "type_expr \<Rightarrow> bool"
  and contains_restricted_callable_params :: "callable_param_expr \<Rightarrow> bool" where
  "contains_restricted_type_level_form (TName _) = False"
| "contains_restricted_type_level_form (TGeneric head args) =
     (head \<in> {''TypeIf'', ''IsSubtype'', ''KeyOf'', ''Pick'', ''Omit'', ''RequiredKeys'',
              ''OptionalKeys'', ''MapValues''}
      \<or> list_ex contains_restricted_type_level_form args)"
| "contains_restricted_type_level_form (TCallable params return_type) =
     (contains_restricted_callable_params params \<or> contains_restricted_type_level_form return_type)"
| "contains_restricted_type_level_form (TUnion branches _) =
     list_ex contains_restricted_type_level_form branches"
| "contains_restricted_type_level_form (TAnnotated value _) =
     contains_restricted_type_level_form value"
| "contains_restricted_type_level_form (TUnpack value) = contains_restricted_type_level_form value"
| "contains_restricted_callable_params CEllipsis = False"
| "contains_restricted_callable_params (CParamList params) =
     list_ex contains_restricted_type_level_form params"
| "contains_restricted_callable_params (CConcatenate params) =
     list_ex contains_restricted_type_level_form params"
| "contains_restricted_callable_params (CSingle param) = contains_restricted_type_level_form param"

definition contains_restricted_type_level_alias_text :: "string \<Rightarrow> bool" where
  "contains_restricted_type_level_alias_text value =
     (case type_expr_parse (trim value) of
        None \<Rightarrow> False
      | Some e \<Rightarrow> contains_restricted_type_level_form e)"

end
