(* ===== verification/Type_Roundtrip.thy ===== *)
theory Type_Roundtrip
  imports Type_Syntax
begin

text \<open>
  Canonical type expressions, and that the parser reads back what the renderer prints.
  The splitters are followed through rendered text with the relation \<open>nested P\<close>:
  brackets are balanced and every character at depth zero satisfies \<open>P\<close>.
\<close>

section \<open>Canonical expressions\<close>

definition delimiters :: "char set" where
  "delimiters = set ''[](){},|*''"

definition name_ok :: "string \<Rightarrow> bool" where
  "name_ok n \<longleftrightarrow> n \<noteq> [] \<and> trim n = n \<and> normalize_name n = n \<and> (\<forall>c\<in>set n. c \<notin> delimiters)"

definition head_ok :: "string \<Rightarrow> nat \<Rightarrow> bool" where
  "head_ok h k \<longleftrightarrow> name_ok h \<and> normalize_type_head h = h \<and>
     h \<notin> {''Annotated'', ''Unpack'', ''Union''} \<and> (h = ''Callable'' \<longrightarrow> k \<noteq> 2)"

fun is_shorthand :: "type_expr \<Rightarrow> bool" where
  "is_shorthand (TUnion _ Shorthand) = True"
| "is_shorthand _ = False"

fun single_ok :: "type_expr \<Rightarrow> bool" where
  "single_ok (TName n) = (n \<noteq> ''...'')"
| "single_ok (TGeneric h _) = (h \<noteq> ''Concatenate'')"
| "single_ok (TUnion _ Shorthand) = False"
| "single_ok _ = True"

fun canonical :: "type_expr \<Rightarrow> bool"
  and canonical_params :: "callable_param_expr \<Rightarrow> bool" where
  "canonical (TName n) = name_ok n"
| "canonical (TGeneric h args) = (head_ok h (length args) \<and> list_all canonical args)"
| "canonical (TCallable p r) = (canonical_params p \<and> canonical r)"
| "canonical (TUnion bs Explicit) = list_all canonical bs"
| "canonical (TUnion bs Shorthand) =
     (2 \<le> length bs \<and> list_all canonical bs \<and> list_all (\<lambda>b. \<not> is_shorthand b) bs)"
| "canonical (TAnnotated v ms) =
     (canonical v \<and> list_all (\<lambda>m. name_ok m \<and> normalize_type_head m = m) ms)"
| "canonical (TUnpack e) = canonical e"
| "canonical_params CEllipsis = True"
| "canonical_params (CParamList ts) = list_all canonical ts"
| "canonical_params (CConcatenate ts) = list_all canonical ts"
| "canonical_params (CSingle e) = (canonical e \<and> single_ok e)"

section \<open>Nested text\<close>

text \<open>A character that is no bracket and no star.\<close>

definition plain :: "char \<Rightarrow> bool" where
  "plain c \<longleftrightarrow> c \<notin> set ''[](){}*''"

lemma plainD:
  assumes "plain c"
  shows "c \<notin> set ''[({''" "c \<notin> set ''])}''" "c \<noteq> CHR ''[''" "c \<noteq> CHR '']''" "c \<noteq> CHR ''*''"
  using assms by (simp_all add: plain_def)

inductive nested :: "(char \<Rightarrow> bool) \<Rightarrow> string \<Rightarrow> bool" where
  nested_Nil [intro, simp]: "nested P []"
| nested_plain: "plain c \<Longrightarrow> P c \<Longrightarrow> nested P s \<Longrightarrow> nested P (c # s)"
| nested_bracket: "nested (\<lambda>_. True) i \<Longrightarrow> nested P s \<Longrightarrow> nested P (CHR ''['' # i @ CHR '']'' # s)"

abbreviation no_comma :: "char \<Rightarrow> bool" where "no_comma c \<equiv> c \<noteq> CHR '',''"
abbreviation no_sep :: "char \<Rightarrow> bool" where "no_sep c \<equiv> c \<noteq> CHR '','' \<and> c \<noteq> CHR ''|''"

lemma nested_append: "nested P s \<Longrightarrow> nested P t \<Longrightarrow> nested P (s @ t)"
  by (induction P s rule: nested.induct) (auto intro: nested.intros)

lemma nested_mono: "nested P s \<Longrightarrow> (\<And>c. P c \<Longrightarrow> Q c) \<Longrightarrow> nested Q s"
  by (induction P s rule: nested.induct) (auto intro: nested.intros)

lemma nested_any: "nested P s \<Longrightarrow> nested (\<lambda>_. True) s"
  by (erule nested_mono) simp

lemma nested_no_sep: "nested no_sep s \<Longrightarrow> nested no_comma s"
  by (erule nested_mono) simp

lemma nested_plain_text:
  "(\<forall>c\<in>set s. plain c \<and> P c) \<Longrightarrow> nested P s"
  by (induction s) (simp_all add: nested_plain)

lemma plain_char: "c \<notin> delimiters \<Longrightarrow> plain c \<and> no_sep c"
  by (simp add: delimiters_def plain_def)

lemma nested_name: "name_ok n \<Longrightarrow> nested no_sep n"
  by (rule nested_plain_text) (use plain_char in \<open>unfold name_ok_def, blast\<close>)

lemma nested_form:
  "name_ok h \<Longrightarrow> nested (\<lambda>_. True) i \<Longrightarrow> nested no_sep (h @ ''['' @ i @ '']'')"
  using nested_append [OF nested_name, of h "''['' @ i @ '']''"] nested_bracket [of i no_sep "[]"]
  by simp

lemma nested_no_star: "nested P s \<Longrightarrow> CHR ''*'' \<notin> set s"
  by (induction P s rule: nested.induct) (simp_all add: plainD not_sym)

lemma split_union_nested:
  "nested P s \<Longrightarrow> (d = 0 \<Longrightarrow> \<not> P CHR ''|'') \<Longrightarrow>
    split_union_from d acc (s @ t) = split_union_from d (rev s @ acc) t"
proof (induction P s arbitrary: d acc t rule: nested.induct)
  case (nested_plain c P s)
  have neg: "\<not> (c = CHR ''|'' \<and> d = 0)" using nested_plain by blast
  have "split_union_from d acc ((c # s) @ t) = split_union_from d (c # acc) (s @ t)"
    unfolding append_Cons split_union_from.simps if_not_P [OF neg]
      if_not_P [OF plainD(1) [OF nested_plain.hyps(1)]]
      if_not_P [OF plainD(2) [OF nested_plain.hyps(1)]] ..
  also have "\<dots> = split_union_from d (rev s @ c # acc) t"
    by (rule nested_plain.IH) (rule nested_plain.prems)
  finally show ?case by simp
next
  case (nested_bracket i P s)
  have "split_union_from d acc ((CHR ''['' # i @ CHR '']'' # s) @ t) =
      split_union_from (Suc d) (CHR ''['' # acc) (i @ (CHR '']'' # s @ t))"
    by simp
  also have "\<dots> = split_union_from (Suc d) (rev i @ CHR ''['' # acc) (CHR '']'' # s @ t)"
    by (rule nested_bracket.IH(1)) simp
  also have "\<dots> = split_union_from d (CHR '']'' # rev i @ CHR ''['' # acc) (s @ t)" by simp
  also have "\<dots> = split_union_from d (rev s @ CHR '']'' # rev i @ CHR ''['' # acc) t"
    by (rule nested_bracket.IH(2)) (rule nested_bracket.prems)
  finally show ?case by simp
qed simp

lemma split_args_nested:
  "nested P s \<Longrightarrow> (d = 0 \<Longrightarrow> \<not> P CHR '','') \<Longrightarrow>
    split_args_from d acc (s @ t) = split_args_from d (rev s @ acc) t"
proof (induction P s arbitrary: d acc t rule: nested.induct)
  case (nested_plain c P s)
  have neg: "\<not> (c = CHR '','' \<and> d = 0)" using nested_plain by blast
  have "split_args_from d acc ((c # s) @ t) = split_args_from d (c # acc) (s @ t)"
    unfolding append_Cons split_args_from.simps if_not_P [OF neg]
      if_not_P [OF plainD(3) [OF nested_plain.hyps(1)]]
      if_not_P [OF plainD(4) [OF nested_plain.hyps(1)]] ..
  also have "\<dots> = split_args_from d (rev s @ c # acc) t"
    by (rule nested_plain.IH) (rule nested_plain.prems)
  finally show ?case by simp
next
  case (nested_bracket i P s)
  have "split_args_from d acc ((CHR ''['' # i @ CHR '']'' # s) @ t) =
      split_args_from (Suc d) (CHR ''['' # acc) (i @ (CHR '']'' # s @ t))"
    by simp
  also have "\<dots> = split_args_from (Suc d) (rev i @ CHR ''['' # acc) (CHR '']'' # s @ t)"
    by (rule nested_bracket.IH(1)) simp
  also have "\<dots> = split_args_from d (CHR '']'' # rev i @ CHR ''['' # acc) (s @ t)" by simp
  also have "\<dots> = split_args_from d (rev s @ CHR '']'' # rev i @ CHR ''['' # acc) t"
    by (rule nested_bracket.IH(2)) (rule nested_bracket.prems)
  finally show ?case by simp
qed simp

lemma split_union_single:
  "nested no_sep s \<Longrightarrow> split_top_level_union_branches s = [trim s]"
  using split_union_nested [of no_sep s 0 "[]" "[]"]
  by (simp add: split_top_level_union_branches_def)

text \<open>Splitting undoes joining, for pieces that are trimmed and hide no separator.\<close>

definition piece :: "(char \<Rightarrow> bool) \<Rightarrow> string \<Rightarrow> bool" where
  "piece P s \<longleftrightarrow> nested P s \<and> s \<noteq> [] \<and> trim s = s"

lemma trim_space_Cons: "trim (CHR '' '' # s) = trim s"
  using trim_ws_append [of "'' ''" s] by simp

lemma split_args_lead:
  "split_args_from d (acc @ '' '') s = split_args_from d acc s"
proof (induction d acc s rule: split_args_from.induct)
  case (1 d acc)
  then show ?case by (simp add: trim_space_Cons)
next
  case (2 d acc c s)
  then show ?case by (simp add: trim_space_Cons)
qed

lemma split_args_join:
  assumes "\<forall>x\<in>set xs. piece no_comma x"
  shows "split_top_level_type_args (join_with '', '' xs) = xs"
proof -
  have "split_args_from 0 [] (join_with '', '' xs) = xs"
    using assms
  proof (induction xs rule: induct_list012)
    case 1
    then show ?case by (simp add: trim_id trimmed_def)
  next
    case (2 x)
    then show ?case
      using split_args_nested [of no_comma x 0 "[]" "[]"] by (simp add: piece_def)
  next
    case (3 x y zs)
    then have x: "nested no_comma x" "trim x = x" by (simp_all add: piece_def)
    have "split_args_from 0 [] (x @ '', '' @ join_with '', '' (y # zs)) =
        x # split_args_from 0 '' '' (join_with '', '' (y # zs))"
      using split_args_nested [OF x(1), of 0 "[]"] x(2) by simp
    then show ?case
      using split_args_lead [of 0 "[]"] "3.IH"(2) "3.prems" by simp
  qed
  then show ?thesis by (simp add: split_top_level_type_args_def)
qed

lemma split_union_lead:
  "split_union_from d (acc @ '' '') s = split_union_from d acc s"
proof (induction d acc s rule: split_union_from.induct)
  case (1 d acc)
  then show ?case by (simp add: trim_space_Cons)
next
  case (2 d acc c s)
  then show ?case by (simp add: trim_space_Cons)
qed

lemma split_union_join:
  assumes "xs \<noteq> []" "\<forall>x\<in>set xs. piece no_sep x"
  shows "split_top_level_union_branches (join_with '' | '' xs) = xs"
proof -
  have "split_union_from 0 [] (join_with '' | '' xs) = xs"
    using assms
  proof (induction xs rule: induct_list012)
    case (2 x)
    then show ?case
      using split_union_nested [of no_sep x 0 "[]" "[]"] by (simp add: piece_def)
  next
    case (3 x y zs)
    then have x: "nested no_sep x" "trim x = x" by (simp_all add: piece_def)
    have "trim (x @ '' '') = x" using trim_append_ws [of "'' ''" x] x(2) by simp
    then have "split_union_from 0 [] (x @ '' | '' @ join_with '' | '' (y # zs)) =
        x # split_union_from 0 '' '' (join_with '' | '' (y # zs))"
      using split_union_nested [OF x(1), of 0 "[]"] by simp
    then show ?case
      using split_union_lead [of 0 "[]"] "3.IH"(2) "3.prems" by simp
  qed simp
  then show ?thesis by (simp add: split_top_level_union_branches_def)
qed

lemma nested_join:
  "nested (\<lambda>_. True) sep \<Longrightarrow> \<forall>x\<in>set xs. nested (\<lambda>_. True) x \<Longrightarrow> nested (\<lambda>_. True) (join_with sep xs)"
  by (induction sep xs rule: join_with.induct) (auto intro: nested_append)

section \<open>Rendered text is stable\<close>

text \<open>Text that neither trimming nor the removal of a module prefix changes.\<close>

definition stable :: "string \<Rightarrow> bool" where
  "stable s \<longleftrightarrow> s \<noteq> [] \<and> trimmed s \<and>
     \<not> starts_with ''typing.'' s \<and> \<not> starts_with ''typing_extensions.'' s"

lemma trimmed_iff: "trimmed s \<longleftrightarrow> trim s = s"
  by (metis trim_id trimmed_trim)

lemma stable_trim: "stable s \<Longrightarrow> trim s = s"
  by (simp add: stable_def trim_id)

lemma stable_normalize: "stable s \<Longrightarrow> normalize_name s = s"
  by (simp add: normalize_name_def stable_def trim_id starts_with_def)

lemma normalize_fixed_no_prefix:
  assumes "normalize_name s = s" "trim s = s" "s \<noteq> []"
  shows "stable s"
proof -
  have shorter: "length (trim r) < length s" if "s = p @ r" "p \<noteq> []" for p r
    using that length_trim [of r] by (cases p) simp_all
  have "strip_prefix ''typing.'' s = None"
  proof (cases "strip_prefix ''typing.'' s")
    case (Some r)
    then have "trim r = s" using assms by (simp add: normalize_name_def)
    then show ?thesis using Some shorter [of "''typing.''" r] by (simp add: strip_prefix_Some)
  qed
  moreover from this have "strip_prefix ''typing_extensions.'' s = None"
  proof (cases "strip_prefix ''typing_extensions.'' s")
    case (Some r)
    then have "trim r = s"
      using assms \<open>strip_prefix ''typing.'' s = None\<close> by (simp add: normalize_name_def)
    then show ?thesis
      using Some shorter [of "''typing_extensions.''" r] by (simp add: strip_prefix_Some)
  qed
  ultimately show ?thesis using assms by (simp add: stable_def starts_with_def trimmed_iff)
qed

lemma name_ok_stable: "name_ok n \<Longrightarrow> stable n"
  by (rule normalize_fixed_no_prefix) (simp_all add: name_ok_def)

lemma strip_prefix_stop:
  "c \<notin> set p \<Longrightarrow> (strip_prefix p (h @ c # t) \<noteq> None) = (strip_prefix p h \<noteq> None)"
  by (induction p h rule: strip_prefix.induct) auto

lemma starts_with_stop: "c \<notin> set p \<Longrightarrow> starts_with p (h @ c # t) = starts_with p h"
  unfolding starts_with_def by (rule strip_prefix_stop)

lemma stable_extend:
  assumes "stable h" "\<not> is_ws (last (c # t))" "c = CHR ''['' \<or> c = CHR '' ''"
  shows "stable (h @ c # t)"
proof -
  have c: "c \<notin> set ''typing.''" "c \<notin> set ''typing_extensions.''" using assms(3) by auto
  have "hd (h @ c # t) = hd h" "last (h @ c # t) = last (c # t)"
    using assms(1) by (simp_all add: stable_def)
  then show ?thesis
    using assms(1,2) unfolding stable_def trimmed_def starts_with_stop [OF c(1)]
      starts_with_stop [OF c(2)] by force
qed

lemma stable_form: "stable h \<Longrightarrow> stable (h @ ''['' @ i @ '']'')"
  using stable_extend [of h "CHR ''[''" "i @ '']''"] by (simp add: is_ws_def)

lemma stable_join:
  "xs \<noteq> [] \<Longrightarrow> \<forall>x\<in>set xs. stable x \<Longrightarrow> stable (join_with '' | '' xs)"
proof (induction xs rule: induct_list012)
  case (3 x y zs)
  then have x: "stable x" and j: "stable (join_with '' | '' (y # zs))" by simp_all
  have "\<not> is_ws (last (CHR '' '' # ''| '' @ join_with '' | '' (y # zs)))"
    using j unfolding stable_def trimmed_def by (metis last_appendR last_ConsR append_is_Nil_conv)
  then show ?case using stable_extend [OF x, of "CHR '' ''"] by simp
qed simp_all

lemma name_ok_const: "name_ok ''Callable''" "name_ok ''Union''" "name_ok ''Annotated''"
  "name_ok ''Unpack''" "name_ok ''Concatenate''" "name_ok ''...''"
  by code_simp+

lemma head_ok_name: "head_ok h k \<Longrightarrow> name_ok h \<and> normalize_type_head h = h"
  by (simp add: head_ok_def)

abbreviation rendered_ok :: "type_expr \<Rightarrow> bool" where
  "rendered_ok e \<equiv> stable (render e) \<and> nested no_comma (render e) \<and>
     (\<not> is_shorthand e \<longrightarrow> nested no_sep (render e))"

lemma nested_join_any:
  "\<forall>x\<in>set xs. nested (\<lambda>_. True) x \<Longrightarrow> nested (\<lambda>_. True) (join_with '', '' xs)"
proof (rule nested_join)
  show "nested (\<lambda>_. True) '', ''"
    by (rule nested_plain_text) (simp add: plain_def)
qed

lemma nested_join_bar:
  "\<forall>x\<in>set xs. nested no_comma x \<Longrightarrow> nested no_comma (join_with '' | '' xs)"
proof (induction xs rule: induct_list012)
  case (3 x y zs)
  have "nested no_comma '' | ''" by (rule nested_plain_text) (simp add: plain_def)
  then have "nested no_comma (x @ ('' | '' @ join_with '' | '' (y # zs)))"
    using 3 by (intro nested_append) simp_all
  then show ?case by simp
qed simp_all

lemma form_ok:
  assumes "name_ok h" "nested (\<lambda>_. True) i"
  shows "stable (h @ ''['' @ i @ '']'') \<and> nested no_comma (h @ ''['' @ i @ '']'') \<and>
    nested no_sep (h @ ''['' @ i @ '']'')"
  using assms nested_form nested_no_sep stable_form name_ok_stable by blast

lemma list_all_ball: "list_all P xs \<longleftrightarrow> (\<forall>x\<in>set xs. P x)"
  by (simp add: list_all_iff)

lemma render_ok:
  "canonical e \<Longrightarrow> rendered_ok e"
  "canonical_params p \<Longrightarrow> nested no_comma (render_callable_params p) \<and> stable (render_callable_params p)"
proof (induction e and p rule: canonical_canonical_params.induct)
  case (1 n)
  then show ?case
    using name_ok_stable [of n] nested_name [of n] nested_no_sep [of n] by (simp add: name_ok_def)
next
  case (2 h args)
  then have "nested (\<lambda>_. True) (join_with '', '' (map render args))"
    by (intro nested_join_any) (auto simp: list_all_iff intro: nested_any)
  from form_ok [OF _ this, of h] show ?case using 2 by (simp add: head_ok_def)
next
  case (3 p r)
  have "nested (\<lambda>_. True) '', ''" by (rule nested_plain_text) (simp add: plain_def)
  then have "nested (\<lambda>_. True) (render_callable_params p @ '', '' @ render r)"
    using 3 by (intro nested_append) (auto intro: nested_any)
  from form_ok [OF name_ok_const(1) this] show ?case by simp
next
  case (4 bs)
  then have "nested (\<lambda>_. True) (join_with '', '' (map render bs))"
    by (intro nested_join_any) (auto simp: list_all_iff intro: nested_any)
  from form_ok [OF name_ok_const(2) this] show ?case by simp
next
  case (5 bs)
  then have "\<forall>x\<in>set (map render bs). stable x \<and> nested no_comma x"
    by (auto simp: list_all_iff)
  moreover have "map render bs \<noteq> []" using 5 by auto
  ultimately show ?case
    using stable_join [of "map render bs"] nested_join_bar [of "map render bs"] by simp
next
  case (6 v ms)
  have m: "\<forall>m\<in>set ms. nested (\<lambda>_. True) m"
    using 6 by (auto simp: list_all_iff intro: nested_any nested_name)
  have "nested (\<lambda>_. True) '', ''" by (rule nested_plain_text) (simp add: plain_def)
  then have "nested (\<lambda>_. True) (render v @ '', '' @ join_with '', '' ms)"
    using 6 m by (intro nested_append nested_join_any) (auto intro: nested_any)
  moreover have "nested (\<lambda>_. True) (render v)" using 6 by (auto intro: nested_any)
  ultimately show ?case
    using form_ok [OF name_ok_const(3), of "render v @ '', '' @ join_with '', '' ms"]
      form_ok [OF name_ok_const(3), of "render v"] by simp
next
  case (7 e)
  then have "nested (\<lambda>_. True) (render e)" by (auto intro: nested_any)
  from form_ok [OF name_ok_const(4) this] show ?case by simp
next
  case 8
  then show ?case
    using name_ok_stable [OF name_ok_const(6)] nested_no_sep [OF nested_name [OF name_ok_const(6)]]
    by simp
next
  case (9 ts)
  then have "nested (\<lambda>_. True) (join_with '', '' (map render ts))"
    by (intro nested_join_any) (auto simp: list_all_iff intro: nested_any)
  then show ?case
    using nested_bracket [of _ no_comma "[]"]
    by (simp add: stable_def trimmed_def is_ws_def starts_with_def)
next
  case (10 ts)
  then have "nested (\<lambda>_. True) (join_with '', '' (map render ts))"
    by (intro nested_join_any) (auto simp: list_all_iff intro: nested_any)
  from form_ok [OF name_ok_const(5) this] show ?case by simp
next
  case (11 e)
  then show ?case by simp
qed

lemma render_stable: "canonical e \<Longrightarrow> stable (render e)"
  using render_ok(1) by blast

lemma render_pieces:
  "list_all canonical es \<Longrightarrow> \<forall>x\<in>set (map render es). piece no_comma x"
  using render_ok(1) by (auto simp: list_all_iff piece_def stable_def trim_id)

lemma render_branch_pieces:
  "list_all canonical es \<Longrightarrow> list_all (\<lambda>b. \<not> is_shorthand b) es \<Longrightarrow>
    \<forall>x\<in>set (map render es). piece no_sep x"
  using render_ok(1) by (auto simp: list_all_iff piece_def stable_def trim_id)

section \<open>Reading rendered text back\<close>

lemma strip_prefix_head:
  assumes "CHR ''['' \<notin> set p" "CHR ''['' \<notin> set h"
  shows "strip_prefix (p @ ''['') (h @ CHR ''['' # t) = (if h = p then Some t else None)"
  using assms by (induction p h rule: strip_prefix.induct) (auto simp: neq_Nil_conv)

lemma strip_prefix_absent:
  "CHR ''['' \<notin> set s \<Longrightarrow> strip_prefix (p @ ''['') s = None"
  by (induction p s rule: strip_prefix.induct) (auto split: option.splits, (case_tac s; simp)+)

lemma bracketed_head:
  assumes "CHR ''['' \<notin> set p" "CHR ''['' \<notin> set h"
  shows "bracketed (p @ ''['') (h @ ''['' @ i @ '']'') = (if h = p then Some i else None)"
  using strip_prefix_head [OF assms, of "i @ '']''"] by (simp add: bracketed_def)

lemma bracketed_absent: "CHR ''['' \<notin> set s \<Longrightarrow> bracketed (p @ ''['') s = None"
  by (simp add: bracketed_def strip_prefix_absent)

lemma name_ok_no_bracket: "name_ok n \<Longrightarrow> CHR ''['' \<notin> set n"
  by (auto simp: name_ok_def delimiters_def)

lemma generic_parts_form: "CHR ''['' \<notin> set h \<Longrightarrow> generic_parts (h @ ''['' @ i @ '']'') = Some (h, i)"
proof -
  assume "CHR ''['' \<notin> set h"
  then have "split_once CHR ''['' (h @ ''['' @ i @ '']'') = Some (h, i @ '']'')"
    by (simp add: split_once_Some)
  then show ?thesis by (simp add: generic_parts_def)
qed

lemma generic_parts_absent: "CHR ''['' \<notin> set s \<Longrightarrow> generic_parts s = None"
  by (simp add: generic_parts_def split_once_None [THEN iffD2])

definition pair_args :: "string \<Rightarrow> (string \<times> string) option" where
  "pair_args i = (case split_top_level_type_args i of [p, r] \<Rightarrow> Some (p, r) | _ \<Rightarrow> None)"

lemma pair_args_None: "length (split_top_level_type_args i) \<noteq> 2 \<Longrightarrow> pair_args i = None"
  by (auto simp: pair_args_def split: list.splits)

abbreviation parse_arg :: "string \<Rightarrow> type_expr" where
  "parse_arg b \<equiv> (case parse_type_expr b of Some e \<Rightarrow> e | None \<Rightarrow> TName (normalize_name b))"

lemma callable_args_form:
  "CHR ''['' \<notin> set h \<Longrightarrow>
    callable_args (h @ ''['' @ i @ '']'') = (if h = ''Callable'' then pair_args i else None)"
  using bracketed_head [of "''Callable''" h i]
  by (simp add: callable_args_def pair_args_def split: option.splits list.splits)

lemma no_sep_single: "nested no_sep t \<Longrightarrow> stable t \<Longrightarrow> split_top_level_union_branches t = [t]"
  by (simp add: split_union_single stable_trim)

lemma parse_form:
  assumes "name_ok h" "nested (\<lambda>_. True) i"
  shows "parse_type_expr (h @ ''['' @ i @ '']'') =
    (if h = ''Annotated'' then
       (case split_top_level_type_args i of
          [] \<Rightarrow> None
        | first # rest \<Rightarrow>
            (case parse_type_expr first of
               None \<Rightarrow> None
             | Some v \<Rightarrow> Some (TAnnotated v (map normalize_type_text_legacy rest))))
     else if h = ''Unpack'' then map_option TUnpack (parse_type_expr i)
     else (case (if h = ''Callable'' then pair_args i else None) of
        Some (p, r) \<Rightarrow>
          (case parse_callable_param_expr p of
             None \<Rightarrow> None
           | Some ps \<Rightarrow>
               (case parse_type_expr r of None \<Rightarrow> None | Some e \<Rightarrow> Some (TCallable ps e)))
      | None \<Rightarrow>
          if h = ''Union'' then
            Some (TUnion (map parse_arg (split_top_level_type_args i)) Explicit)
          else Some (TGeneric (normalize_type_head h)
                       (map parse_arg (split_top_level_type_args i)))))"
proof -
  let ?t = "h @ ''['' @ i @ '']''"
  have nb: "CHR ''['' \<notin> set h" using assms(1) by (rule name_ok_no_bracket)
  have st: "stable ?t" and ns: "nested no_sep ?t" using form_ok [OF assms] by blast+
  have br: "bracketed ''Annotated['' ?t = (if h = ''Annotated'' then Some i else None)"
    "bracketed ''Unpack['' ?t = (if h = ''Unpack'' then Some i else None)"
    "bracketed ''Union['' ?t = (if h = ''Union'' then Some i else None)"
    using bracketed_head [OF _ nb, of "''Annotated''" i] bracketed_head [OF _ nb, of "''Unpack''" i]
      bracketed_head [OF _ nb, of "''Union''" i] by simp_all
  have ne: "(?t = []) = False" "(1 < length [?t]) = False" by simp_all
  show ?thesis
    unfolding parse_type_expr.simps [of ?t] stable_normalize [OF st] Let_def
      no_sep_single [OF ns st] br callable_args_form [OF nb] generic_parts_form [OF nb] ne if_False
    by (simp split: option.splits)
qed

lemma parse_name: "name_ok n \<Longrightarrow> parse_type_expr n = Some (TName n)"
proof -
  assume n: "name_ok n"
  have nb: "CHR ''['' \<notin> set n" using n by (rule name_ok_no_bracket)
  have st: "stable n" and ns: "nested no_sep n"
    using n name_ok_stable nested_name by blast+
  have br: "bracketed ''Annotated['' n = None" "bracketed ''Unpack['' n = None"
    "bracketed ''Union['' n = None" "bracketed ''Callable['' n = None"
    using bracketed_absent [OF nb, of "''Annotated''"] bracketed_absent [OF nb, of "''Unpack''"]
      bracketed_absent [OF nb, of "''Union''"] bracketed_absent [OF nb, of "''Callable''"]
    by simp_all
  have ne: "n \<noteq> []" using st by (simp add: stable_def)
  show ?thesis
    unfolding parse_type_expr.simps [of n] stable_normalize [OF st] Let_def
      no_sep_single [OF ns st] br callable_args_def generic_parts_absent [OF nb]
    using ne by simp
qed

lemma legacy_name: "name_ok m \<Longrightarrow> normalize_type_head m = m \<Longrightarrow> normalize_type_text_legacy m = m"
  using stable_normalize [OF name_ok_stable, of m] generic_parts_absent [OF name_ok_no_bracket, of m]
  by (simp add: normalize_type_text_legacy.simps [of m])

lemma split_rendered: "list_all canonical es \<Longrightarrow>
    split_top_level_type_args (join_with '', '' (map render es)) = map render es"
  by (rule split_args_join [OF render_pieces])

lemma nested_rendered: "list_all canonical es \<Longrightarrow>
    nested (\<lambda>_. True) (join_with '', '' (map render es))"
  by (intro nested_join_any ballI nested_any [of no_comma])
    (auto simp: list_all_iff dest: render_ok(1))

lemma parse_args_back:
  "\<forall>e\<in>set es. parse_type_expr (render e) = Some e \<Longrightarrow>
    map parse_arg (map render es) = es"
  by (induction es) simp_all

lemma split_pair: "piece no_comma p \<Longrightarrow> piece no_comma r \<Longrightarrow>
    split_top_level_type_args (p @ '', '' @ r) = [p, r]"
  using split_args_join [of "[p, r]"] by simp

lemma trim_not_Nil:
  assumes "c \<in> set s" "\<not> is_ws c"
  shows "trim s \<noteq> []"
proof -
  have "dropWhile is_ws s \<noteq> []" using assms by (auto simp: dropWhile_eq_Nil_conv)
  then have "\<exists>d \<in> set (dropWhile is_ws s). \<not> is_ws d"
    using hd_dropWhile hd_in_set by blast
  then show ?thesis
    by (auto simp: trim_def trim_end_def trim_start_def dropWhile_eq_Nil_conv)
qed

lemma trim_join_stable:
  assumes "stable x"
  shows "trim (join_with sep (x # xs)) \<noteq> []"
proof (rule trim_not_Nil)
  show "hd x \<in> set (join_with sep (x # xs))"
    using assms by (simp add: join_with_Cons stable_def)
  show "\<not> is_ws (hd x)" using assms by (auto simp: stable_def trimmed_def)
qed

lemma single_not_form:
  assumes "canonical e" "single_ok e"
  shows "bracketed ''['' (render e) = None" "bracketed ''Concatenate['' (render e) = None"
    "render e \<noteq> ''...''"
proof -
  have form: "bracketed ''['' (h @ ''['' @ i @ '']'') = None \<and>
      bracketed ''Concatenate['' (h @ ''['' @ i @ '']'') = None \<and>
      h @ ''['' @ i @ '']'' \<noteq> ''...''" if "name_ok h" "h \<noteq> ''Concatenate''" for h i
  proof -
    have nb: "CHR ''['' \<notin> set h" "h \<noteq> []"
      using that name_ok_no_bracket by (auto simp: name_ok_def)
    have "CHR ''['' \<in> set (h @ ''['' @ i @ '']'')" "CHR ''['' \<notin> set ''...''" by simp_all
    then show ?thesis
      using that(2) nb bracketed_head [OF _ nb(1), of "[]" i]
        bracketed_head [OF _ nb(1), of "''Concatenate''" i] by fastforce
  qed
  have "bracketed ''['' (render e) = None \<and> bracketed ''Concatenate['' (render e) = None \<and>
    render e \<noteq> ''...''"
  proof (cases e)
    case (TName n)
    have n: "name_ok n" using assms TName by simp
    then show ?thesis
      using TName assms bracketed_absent [OF name_ok_no_bracket [OF n], of "[]"]
        bracketed_absent [OF name_ok_no_bracket [OF n], of "''Concatenate''"]
        stable_normalize [OF name_ok_stable [OF n]] by simp
  next
    case (TGeneric h args)
    then show ?thesis using assms form [of h] by (simp add: head_ok_def)
  next
    case (TCallable ps r)
    then show ?thesis
      using form [OF name_ok_const(1), of "render_callable_params ps @ '', '' @ render r"] by simp
  next
    case (TUnion bs style)
    then show ?thesis using assms form [OF name_ok_const(2)] by (cases style) simp_all
  next
    case (TAnnotated v ms)
    then show ?thesis
      using form [OF name_ok_const(3), of "render v @ '', '' @ join_with '', '' ms"]
        form [OF name_ok_const(3), of "render v"] by simp
  next
    case (TUnpack i)
    then show ?thesis using form [OF name_ok_const(4), of "render i"] by simp
  qed
  then show "bracketed ''['' (render e) = None" "bracketed ''Concatenate['' (render e) = None"
    "render e \<noteq> ''...''" by blast+
qed

lemma parse_shorthand:
  assumes "list_all canonical bs" "list_all (\<lambda>b. \<not> is_shorthand b) bs" "2 \<le> length bs"
    and "\<forall>e\<in>set bs. parse_type_expr (render e) = Some e"
  shows "parse_type_expr (join_with '' | '' (map render bs)) = Some (TUnion bs Shorthand)"
proof -
  let ?t = "join_with '' | '' (map render bs)"
  have ne: "map render bs \<noteq> []" using assms(3) by auto
  have st: "stable ?t"
    using stable_join [OF ne] assms(1) by (auto simp: list_all_iff dest: render_stable)
  have sp: "split_top_level_union_branches ?t = map render bs"
    by (rule split_union_join [OF ne render_branch_pieces [OF assms(1,2)]])
  have "?t \<noteq> []" "1 < length (map render bs)" using st assms(3) by (simp_all add: stable_def)
  then show ?thesis
    unfolding parse_type_expr.simps [of ?t] stable_normalize [OF st] Let_def sp
      parse_args_back [OF assms(4)] by simp
qed

lemma name_ok_piece: "name_ok m \<Longrightarrow> piece no_comma m"
  using nested_no_sep [OF nested_name, of m] by (simp add: piece_def name_ok_def)

lemma parse_annotated:
  assumes "canonical v" "parse_type_expr (render v) = Some v"
    and "list_all (\<lambda>m. name_ok m \<and> normalize_type_head m = m) ms"
  shows "parse_type_expr (render (TAnnotated v ms)) = Some (TAnnotated v ms)"
proof -
  let ?i = "join_with '', '' (render v # ms)"
  have r: "render (TAnnotated v ms) = ''Annotated'' @ ''['' @ ?i @ '']''"
    by (simp add: join_with_Cons)
  have v: "piece no_comma (render v)"
    using render_ok(1) [OF assms(1)] by (simp add: piece_def stable_def trim_id)
  have m: "\<forall>m\<in>set ms. piece no_comma m"
    using assms(3) name_ok_piece by (simp add: list_all_iff)
  have n: "nested (\<lambda>_. True) ?i"
    using v m by (intro nested_join_any) (auto simp: piece_def intro: nested_any)
  have sp: "split_top_level_type_args ?i = render v # ms"
    using v m by (intro split_args_join) simp
  have "map normalize_type_text_legacy ms = ms"
    using assms(3) by (induction ms) (simp_all add: legacy_name)
  then show ?thesis
    unfolding r parse_form [OF name_ok_const(3) n] sp using assms(2) by simp
qed

theorem parse_render:
  "canonical e \<Longrightarrow> parse_type_expr (render e) = Some e"
  "canonical_params p \<Longrightarrow> parse_callable_param_expr (render_callable_params p) = Some p"
proof (induction e and p rule: canonical_canonical_params.induct)
  case (1 n)
  then show ?case using parse_name [of n] stable_normalize [OF name_ok_stable, of n] by simp
next
  case (2 h args)
  then have h: "name_ok h" "normalize_type_head h = h"
    and a: "list_all canonical args" by (simp_all add: head_ok_def)
  have again: "\<forall>e\<in>set args. parse_type_expr (render e) = Some e"
    using 2 a by (simp add: list_all_iff)
  have np: "(if h = ''Callable'' then pair_args (join_with '', '' (map render args)) else None) = None"
    using 2 by (simp add: pair_args_None split_rendered [OF a] head_ok_def)
  show ?case
    using parse_form [OF h(1) nested_rendered [OF a]] 2 h again
    by (simp add: np split_rendered [OF a] parse_args_back [OF again] head_ok_def
        del: map_map)
next
  case (3 p r)
  then have c: "canonical_params p" "canonical r" by simp_all
  have pc: "piece no_comma (render_callable_params p)" "piece no_comma (render r)"
    using render_ok(1) [OF c(2)] render_ok(2) [OF c(1)]
    by (simp_all add: piece_def stable_def trim_id)
  let ?i = "render_callable_params p @ '', '' @ render r"
  have "nested (\<lambda>_. True) (join_with '', '' [render_callable_params p, render r])"
    using pc by (intro nested_join_any) (auto simp: piece_def intro: nested_any)
  then have n: "nested (\<lambda>_. True) ?i" by simp
  have "pair_args ?i = Some (render_callable_params p, render r)"
    using split_pair [OF pc] by (simp add: pair_args_def)
  then show ?case using parse_form [OF name_ok_const(1) n] 3 c by simp
next
  case (4 bs)
  then have a: "list_all canonical bs" by simp
  have again: "\<forall>e\<in>set bs. parse_type_expr (render e) = Some e"
    using 4 a by (simp add: list_all_iff)
  show ?case
    using parse_form [OF name_ok_const(2) nested_rendered [OF a]]
    by (simp add: split_rendered [OF a] parse_args_back [OF again] del: map_map)
next
  case (5 bs)
  then show ?case using parse_shorthand [of bs] by (simp add: list_all_iff)
next
  case (6 v ms)
  then show ?case using parse_annotated [of v ms] by simp
next
  case (7 e)
  then have n: "nested (\<lambda>_. True) (render e)" using render_ok(1) [of e] by (auto intro: nested_any)
  then show ?case using parse_form [OF name_ok_const(4) n] 7 by simp
next
  case 8
  then show ?case by code_simp
next
  case (9 ts)
  then have a: "list_all canonical ts" by simp
  have again: "\<forall>e\<in>set ts. parse_type_expr (render e) = Some e"
    using 9 a by (simp add: list_all_iff)
  let ?i = "join_with '', '' (map render ts)"
  have st: "stable (''['' @ ?i @ '']'')"
    using render_ok(2) [of "CParamList ts"] 9 by simp
  have br: "bracketed ''['' (''['' @ ?i @ '']'') = Some ?i"
    using bracketed_head [of "[]" "[]" ?i] by simp
  have tr: "(trim ?i = []) = (ts = [])"
  proof (cases ts)
    case (Cons t ts')
    then show ?thesis
      using trim_join_stable [OF render_stable, of t "'', ''" "map render ts'"] a by simp
  qed (simp add: trim_id trimmed_def)
  have ne: "''['' @ ?i @ '']'' \<noteq> []" "''['' @ ?i @ '']'' \<noteq> ''...''" by simp_all
  have "parse_callable_param_expr (''['' @ ?i @ '']'') = Some (CParamList ts)"
    unfolding parse_callable_param_expr.simps [of "''['' @ ?i @ '']''"] stable_normalize [OF st]
      Let_def br option.case tr split_rendered [OF a] parse_args_back [OF again] using ne by simp
  then show ?case by simp
next
  case (10 ts)
  then have a: "list_all canonical ts" by simp
  have again: "\<forall>e\<in>set ts. parse_type_expr (render e) = Some e"
    using 10 a by (simp add: list_all_iff)
  let ?i = "join_with '', '' (map render ts)"
  let ?t = "''Concatenate'' @ ''['' @ ?i @ '']''"
  have st: "stable ?t" using render_ok(2) [of "CConcatenate ts"] 10 by simp
  have br: "bracketed ''['' ?t = None" "bracketed ''Concatenate['' ?t = Some ?i"
    using bracketed_head [of "[]" "''Concatenate''" ?i]
      bracketed_head [of "''Concatenate''" "''Concatenate''" ?i] by simp_all
  have "?t \<noteq> []" "?t \<noteq> ''...''" by simp_all
  then have "parse_callable_param_expr ?t = Some (CConcatenate ts)"
    unfolding parse_callable_param_expr.simps [of ?t] stable_normalize [OF st]
      Let_def br option.case split_rendered [OF a] parse_args_back [OF again] by simp
  then show ?case by simp
next
  case (11 e)
  then have c: "canonical e" "single_ok e" by simp_all
  have st: "stable (render e)" by (rule render_stable [OF c(1)])
  have ne: "render e \<noteq> []" using st by (simp add: stable_def)
  show ?case
    unfolding render_callable_params.simps parse_callable_param_expr.simps [of "render e"]
      stable_normalize [OF st] Let_def single_not_form(1,2) [OF c]
    using ne single_not_form(3) [OF c] 11 c by simp
qed

lemma render_no_star: "canonical e \<Longrightarrow> CHR ''*'' \<notin> set (render e)"
  using render_ok(1) nested_no_star by blast

lemma source_normalized: "canonical e \<Longrightarrow> normalize_source_variadic_type_syntax (render e) = render e"
  by (simp add: normalize_source_variadic_type_syntax_def normalize_variadic_no_star render_no_star)

lemma parse_back: "canonical e \<Longrightarrow> type_expr_parse (render e) = Some e"
  by (simp add: type_expr_parse_def source_normalized parse_render(1))

lemma normalize_rendered:
  assumes "canonical e"
  shows "normalize_type_text (render e) = render e"
proof -
  have st: "stable (render e)" by (rule render_stable [OF assms])
  then have "render e \<noteq> []" by (simp add: stable_def)
  then show ?thesis
    by (simp add: normalize_type_text_def source_normalized [OF assms] stable_trim [OF st]
        parse_back [OF assms])
qed

section \<open>Erasing the checker-only forms\<close>

text \<open>
  An expression is free of checker-only forms when no name or generic form in it (metadata
  of \<^verbatim>\<open>Annotated\<close> apart, which is text) is one that only the checker knows.
\<close>

fun checker_free :: "type_expr \<Rightarrow> bool"
  and checker_free_params :: "callable_param_expr \<Rightarrow> bool" where
  "checker_free (TName n) = (n \<noteq> ''unknown'' \<and> n \<noteq> ''dynamic'')"
| "checker_free (TGeneric h args) =
     (h \<noteq> ''ValidatorWitness'' \<and> (h = ''Tainted'' \<longrightarrow> args = []) \<and> list_all checker_free args)"
| "checker_free (TCallable p r) = (checker_free_params p \<and> checker_free r)"
| "checker_free (TUnion bs _) = list_all checker_free bs"
| "checker_free (TAnnotated v _) = checker_free v"
| "checker_free (TUnpack e) = checker_free e"
| "checker_free_params CEllipsis = True"
| "checker_free_params (CParamList ts) = list_all checker_free ts"
| "checker_free_params (CConcatenate ts) = list_all checker_free ts"
| "checker_free_params (CSingle e) = checker_free e"

lemma erased_free:
  "checker_free (normalize_checker_only_type_expr e)"
  "checker_free_params (normalize_checker_only_callable_params p)"
  by (induction e and p rule: normalize_checker_only_type_expr_normalize_checker_only_callable_params.induct)
    (simp_all add: list_all_iff)

lemma map_idI: "(\<And>x. x \<in> set xs \<Longrightarrow> f x = x) \<Longrightarrow> map f xs = xs"
  by (induction xs) simp_all

lemma free_erased:
  "checker_free e \<Longrightarrow> normalize_checker_only_type_expr e = e"
  "checker_free_params p \<Longrightarrow> normalize_checker_only_callable_params p = p"
  by (induction e and p rule: normalize_checker_only_type_expr_normalize_checker_only_callable_params.induct)
    (simp_all add: list_all_iff map_idI)

text \<open>
  C3: printing a canonical type expression and parsing the text gives the expression back.
  Canonical expressions are those the parser itself can produce: names without brackets,
  separators or stars, heads in their normal spelling, no \<open>X | Y\<close> directly inside another,
  and no generic form spelt like one of the special forms.
\<close>

theorem type_expr_roundtrip:
  assumes "canonical e"
  shows "type_expr_parse (render e) = Some e"
  using assms by (rule parse_back)

theorem type_expr_roundtrip_witness:
  "type_expr_parse (render
     (TUnion [TCallable (CConcatenate [TName ''int'', TName ''P''])
                (TGeneric ''list'' [TUnion [TName ''A'', TName ''B''] Shorthand]),
              TAnnotated (TName ''str'') [''meta'']] Shorthand)) =
   Some (TUnion [TCallable (CConcatenate [TName ''int'', TName ''P''])
                (TGeneric ''list'' [TUnion [TName ''A'', TName ''B''] Shorthand]),
              TAnnotated (TName ''str'') [''meta'']] Shorthand)"
  by (rule type_expr_roundtrip) code_simp

text \<open>
  Normalising a type text is idempotent once its expression is canonical: the text
  \<^verbatim>\<open>normalize_type_text\<close> returns is its own normal form, and texts that denote the
  same canonical expression get the same normal form.
\<close>

lemma normalize_type_text_normal_form:
  assumes "trim (normalize_source_variadic_type_syntax text) = t" "t \<noteq> []"
    and "type_expr_parse t = Some e" "canonical e"
  shows "normalize_type_text text = render e \<and>
    normalize_type_text (normalize_type_text text) = normalize_type_text text"
proof -
  have "normalize_type_text text = render e"
    using assms by (simp add: normalize_type_text_def)
  then show ?thesis using normalize_rendered [OF assms(4)] by simp
qed

text \<open>
  C5: erasing the checker-only forms leaves none of them behind, changes an expression
  exactly when it has one, and doing it twice is doing it once.
\<close>

theorem checker_only_erasure:
  "checker_free (normalize_checker_only_type_expr e) \<and>
   (normalize_checker_only_type_expr e = e \<longleftrightarrow> checker_free e) \<and>
   normalize_checker_only_type_expr (normalize_checker_only_type_expr e) =
     normalize_checker_only_type_expr e"
  using erased_free(1) [of e] free_erased(1) by metis

text \<open>
  The text-level erasure reports a rewritten text exactly for the texts that hold a
  checker-only form, and the text it reports is that of the erased expression.
\<close>

lemma checker_only_text:
  assumes "canonical e" "canonical (normalize_checker_only_type_expr e)"
  shows "normalize_checker_only_type_text (render e) =
    (if checker_free e then None else Some (render (normalize_checker_only_type_expr e)))"
proof -
  have inj: "render (normalize_checker_only_type_expr e) = render e \<longleftrightarrow>
      normalize_checker_only_type_expr e = e"
    using parse_back [OF assms(1)] parse_back [OF assms(2)] by (metis option.inject)
  have "normalize_checker_only_type_expr e = e \<longleftrightarrow> checker_free e"
    using erased_free(1) [of e] free_erased(1) [of e] by metis
  with inj show ?thesis
    by (simp add: normalize_checker_only_type_text_def stable_trim [OF render_stable [OF assms(1)]]
        parse_back [OF assms(1)] normalize_rendered [OF assms(1)])
qed

end
