(* ===== verification/BTree.thy ===== *)
theory BTree
  imports Rust_Prelude "HOL-Library.Char_ord" "HOL-Library.List_Lexorder"
begin

text \<open>
  \<^verbatim>\<open>BTreeMap\<close> and \<^verbatim>\<open>BTreeSet\<close> as the code uses them: entry lists in
  strictly ascending key order, so that iteration order is part of the model. The map
  interface is the locale \<open>ordered_map\<close>: the operations a client calls and the laws they
  promise. The facts about building a map by a loop of insertions, and about grouping
  values under a key (\<^verbatim>\<open>entry(k).or_default().push(v)\<close>), are proved there once.
\<close>

named_theorems bt_simps \<open>lookup and invariant equations of the ordered maps\<close>

section \<open>Operations\<close>

fun bt_insert :: "'k::linorder \<Rightarrow> 'v \<Rightarrow> ('k \<times> 'v) list \<Rightarrow> ('k \<times> 'v) list" where
  "bt_insert k v [] = [(k, v)]"
| "bt_insert k v ((a, b) # m) =
     (if k < a then (k, v) # (a, b) # m
      else if k = a then (k, v) # m
      else (a, b) # bt_insert k v m)"

definition bt_get :: "('k \<times> 'v) list \<Rightarrow> 'k \<Rightarrow> 'v option" where
  "bt_get m k = map_of m k"

definition bt_remove :: "'k \<Rightarrow> ('k \<times> 'v) list \<Rightarrow> ('k \<times> 'v) list" where
  "bt_remove k m = filter (\<lambda>e. fst e \<noteq> k) m"

definition bt_ok :: "('k::linorder \<times> 'v) list \<Rightarrow> bool" where
  "bt_ok m \<longleftrightarrow> sorted_wrt (<) (map fst m)"

text \<open>\<^verbatim>\<open>iter.collect::<BTreeMap<_, _>>()\<close>: later entries win.\<close>

definition bt_from_list :: "('k::linorder \<times> 'v) list \<Rightarrow> ('k \<times> 'v) list" where
  "bt_from_list kvs = fold (\<lambda>kv. bt_insert (fst kv) (snd kv)) kvs []"

text \<open>\<^verbatim>\<open>map.entry(k).or_insert_with(..)\<close>: the first value stays.\<close>

definition bt_insert_if_absent :: "'k::linorder \<Rightarrow> 'v \<Rightarrow> ('k \<times> 'v) list \<Rightarrow> ('k \<times> 'v) list" where
  "bt_insert_if_absent k v m = (case bt_get m k of None \<Rightarrow> bt_insert k v m | Some _ \<Rightarrow> m)"

text \<open>\<^verbatim>\<open>map.entry(k).or_default().push(v)\<close>.\<close>

definition bt_push :: "'k::linorder \<Rightarrow> 'v \<Rightarrow> ('k \<times> 'v list) list \<Rightarrow> ('k \<times> 'v list) list" where
  "bt_push k v m = bt_insert k (case_option [] id (bt_get m k) @ [v]) m"

fun bs_insert :: "'a::linorder \<Rightarrow> 'a list \<Rightarrow> 'a list" where
  "bs_insert x [] = [x]"
| "bs_insert x (y # ys) = (if x < y then x # y # ys else if x = y then y # ys else y # bs_insert x ys)"

definition bs_ok :: "'a::linorder list \<Rightarrow> bool" where
  "bs_ok s \<longleftrightarrow> sorted_wrt (<) s"

definition bs_from_list :: "'a::linorder list \<Rightarrow> 'a list" where
  "bs_from_list xs = fold bs_insert xs []"

definition bs_union :: "'a::linorder list \<Rightarrow> 'a list \<Rightarrow> 'a list" where
  "bs_union s t = fold bs_insert t s"

section \<open>The interface\<close>

locale ordered_map =
  fixes empty :: "'m"
    and insert :: "'k \<Rightarrow> 'v \<Rightarrow> 'm \<Rightarrow> 'm"
    and lookup :: "'m \<Rightarrow> 'k \<Rightarrow> 'v option"
    and remove :: "'k \<Rightarrow> 'm \<Rightarrow> 'm"
    and ok :: "'m \<Rightarrow> bool"
  assumes lookup_empty: "lookup empty k = None"
    and lookup_insert: "ok m \<Longrightarrow> lookup (insert k v m) j = (if j = k then Some v else lookup m j)"
    and lookup_remove: "ok m \<Longrightarrow> lookup (remove k m) j = (if j = k then None else lookup m j)"
    and ok_empty: "ok empty"
    and ok_insert: "ok m \<Longrightarrow> ok (insert k v m)"
    and ok_remove: "ok m \<Longrightarrow> ok (remove k m)"
begin

lemma ok_inserts: "ok m \<Longrightarrow> ok (fold (\<lambda>x. insert (f x) (g x)) xs m)"
  by (induction xs arbitrary: m) (simp_all add: ok_insert)

lemma lookup_inserts:
  "ok m \<Longrightarrow> lookup (fold (\<lambda>x. insert (f x) (g x)) xs m) k =
     (case map_of (rev (map (\<lambda>x. (f x, g x)) xs)) k of None \<Rightarrow> lookup m k | Some v \<Rightarrow> Some v)"
  by (induction xs arbitrary: m)
    (auto simp: ok_insert lookup_insert map_add_def split: option.splits)

lemma lookup_inserts_None:
  "ok m \<Longrightarrow> lookup (fold (\<lambda>x. insert (f x) (g x)) xs m) k = None \<longleftrightarrow>
     lookup m k = None \<and> k \<notin> f ` set xs"
  by (induction xs arbitrary: m) (auto simp: ok_insert lookup_insert)

lemma lookup_inserts_distinct:
  assumes "ok m" "distinct (map f xs)" "x \<in> set xs"
  shows "lookup (fold (\<lambda>x. insert (f x) (g x)) xs m) (f x) = Some (g x)"
  using assms
proof (induction xs arbitrary: m)
  case (Cons y ys)
  show ?case
  proof (cases "x \<in> set ys")
    case True
    then show ?thesis using Cons by (simp add: ok_insert)
  next
    case False
    then have "x = y" "f y \<notin> f ` set ys" using Cons.prems by auto
    then show ?thesis
      using Cons.prems lookup_inserts [of "insert (f y) (g y) m" f g ys "f y"]
      by (auto simp: ok_insert lookup_insert image_iff dest!: map_of_SomeD split: option.splits)
  qed
qed simp

lemma ok_removes: "ok m \<Longrightarrow> ok (fold remove ks m)"
  by (induction ks arbitrary: m) (simp_all add: ok_remove)

lemma lookup_removes:
  "ok m \<Longrightarrow> lookup (fold remove ks m) k = (if k \<in> set ks then None else lookup m k)"
  by (induction ks arbitrary: m) (auto simp: ok_remove lookup_remove)

end

text \<open>Maps from keys to lists, filled by pushing one value at a time.\<close>

locale grouping_map = ordered_map empty insert lookup remove ok
  for empty :: "'m" and insert :: "'k \<Rightarrow> 'v list \<Rightarrow> 'm \<Rightarrow> 'm" and lookup remove ok +
  fixes push :: "'k \<Rightarrow> 'v \<Rightarrow> 'm \<Rightarrow> 'm"
  assumes push_eq: "push k v m = insert k (case_option [] id (lookup m k) @ [v]) m"
begin

lemma ok_push: "ok m \<Longrightarrow> ok (push k v m)"
  by (simp add: push_eq ok_insert)

lemma lookup_push:
  "ok m \<Longrightarrow> lookup (push k v m) j =
     (if j = k then Some (case_option [] id (lookup m k) @ [v]) else lookup m j)"
  by (simp add: push_eq lookup_insert)

lemma ok_pushes: "ok m \<Longrightarrow> ok (fold (\<lambda>x. push (f x) (g x)) xs m)"
  by (induction xs arbitrary: m) (simp_all add: ok_push)

lemma lookup_pushes:
  "ok m \<Longrightarrow> lookup (fold (\<lambda>x. push (f x) (g x)) xs m) k =
     (let vs = map g (filter (\<lambda>x. f x = k) xs)
      in if vs = [] then lookup m k else Some (case_option [] id (lookup m k) @ vs))"
proof (induction xs arbitrary: m)
  case (Cons x xs)
  have "lookup (fold (\<lambda>x. push (f x) (g x)) (x # xs) m) k =
      (let vs = map g (filter (\<lambda>x. f x = k) xs)
       in if vs = [] then lookup (push (f x) (g x) m) k
          else Some (case_option [] id (lookup (push (f x) (g x) m) k) @ vs))"
    using Cons by (simp add: ok_push)
  then show ?case
    using Cons.prems by (cases "f x = k") (auto simp: lookup_push Let_def)
qed simp

end

section \<open>The ordered lists provide it\<close>

lemma set_map_fst_bt_insert: "fst ` set (bt_insert k v m) = Set.insert k (fst ` set m)"
  by (induction k v m rule: bt_insert.induct) auto

lemma bt_ok_insert [bt_simps, simp]: "bt_ok m \<Longrightarrow> bt_ok (bt_insert k v m)"
  unfolding bt_ok_def
proof (induction k v m rule: bt_insert.induct)
  case (2 k v a b m)
  have "fst ` set (bt_insert k v m) = Set.insert k (fst ` set m)"
    by (rule set_map_fst_bt_insert)
  with 2 show ?case by (auto simp: image_iff)
qed simp

lemma bt_get_insert [bt_simps, simp]:
  "bt_ok m \<Longrightarrow> bt_get (bt_insert k v m) j = (if j = k then Some v else bt_get m j)"
  by (induction k v m rule: bt_insert.induct) (auto simp: bt_get_def bt_ok_def)

lemma bt_get_remove [bt_simps, simp]:
  "bt_get (bt_remove k m) j = (if j = k then None else bt_get m j)"
  by (induction m) (auto simp: bt_remove_def bt_get_def)

lemma bt_ok_remove [bt_simps, simp]: "bt_ok m \<Longrightarrow> bt_ok (bt_remove k m)"
  by (induction m) (auto simp: bt_remove_def bt_ok_def)

lemma bt_get_Nil [bt_simps, simp]: "bt_get [] k = None"
  by (simp add: bt_get_def)

lemma bt_ok_Nil [bt_simps, simp]: "bt_ok []"
  by (simp add: bt_ok_def)

interpretation bt: ordered_map "[]" bt_insert bt_get bt_remove bt_ok
  by unfold_locales simp_all

interpretation btg: grouping_map "[]" bt_insert bt_get bt_remove bt_ok bt_push
  by unfold_locales (simp add: bt_push_def)

lemma bt_distinct: "bt_ok m \<Longrightarrow> distinct (map fst m)"
  unfolding bt_ok_def by (simp add: strict_sorted_iff)

lemma bt_get_Some_iff: "bt_ok m \<Longrightarrow> bt_get m k = Some v \<longleftrightarrow> (k, v) \<in> set m"
  unfolding bt_get_def by (simp add: bt_distinct)

lemma bt_get_None_iff: "bt_get m k = None \<longleftrightarrow> k \<notin> fst ` set m"
  unfolding bt_get_def by (rule map_of_eq_None_iff)

lemma bt_ok_from_list [bt_simps, simp]: "bt_ok (bt_from_list kvs)"
  unfolding bt_from_list_def by (rule bt.ok_inserts) simp

lemma bt_get_from_list [bt_simps]: "bt_get (bt_from_list kvs) k = map_of (rev kvs) k"
  unfolding bt_from_list_def
  by (subst bt.lookup_inserts) (simp_all split: option.splits)

lemma bt_keys_from_list: "fst ` set (bt_from_list kvs) = fst ` set kvs"
proof -
  have "k \<in> fst ` set (bt_from_list kvs) \<longleftrightarrow> k \<in> fst ` set kvs" for k
    using bt_get_None_iff [of "bt_from_list kvs" k]
    by (simp add: bt_get_from_list map_of_eq_None_iff)
  then show ?thesis by blast
qed

text \<open>Two maps with the same lookups are the same list.\<close>

lemma bt_eqI:
  assumes "bt_ok m" "bt_ok n" "\<And>k. bt_get m k = bt_get n k"
  shows "m = n"
proof -
  have "set m = set n"
    using assms by (auto simp: bt_get_Some_iff [symmetric])
  moreover have "distinct (map fst m)" "distinct (map fst n)"
    using assms(1,2) by (simp_all add: bt_distinct)
  moreover have "sorted (map fst m)" "sorted (map fst n)"
    using assms(1,2) by (simp_all add: bt_ok_def strict_sorted_iff)
  moreover have "inj_on fst (set m \<union> set n)"
    using \<open>set m = set n\<close> \<open>distinct (map fst m)\<close> by (simp add: distinct_map)
  ultimately show ?thesis by (meson map_sorted_distinct_set_unique)
qed

section \<open>Ordered sets\<close>

lemma set_bs_insert [simp]: "set (bs_insert x s) = Set.insert x (set s)"
  by (induction x s rule: bs_insert.induct) auto

lemma bs_ok_insert [simp]: "bs_ok s \<Longrightarrow> bs_ok (bs_insert x s)"
  by (induction x s rule: bs_insert.induct) (auto simp: bs_ok_def)

lemma bs_ok_Nil [simp]: "bs_ok []"
  by (simp add: bs_ok_def)

lemma set_fold_bs_insert [simp]: "set (fold bs_insert xs s) = set s \<union> set xs"
  by (induction xs arbitrary: s) auto

lemma bs_ok_fold [simp]: "bs_ok s \<Longrightarrow> bs_ok (fold bs_insert xs s)"
  by (induction xs arbitrary: s) auto

lemma set_bs_from_list [simp]: "set (bs_from_list xs) = set xs"
  by (simp add: bs_from_list_def)

lemma bs_ok_from_list [simp]: "bs_ok (bs_from_list xs)"
  by (simp add: bs_from_list_def)

lemma set_bs_union [simp]: "set (bs_union s t) = set s \<union> set t"
  by (simp add: bs_union_def)

lemma bs_ok_union [simp]: "bs_ok s \<Longrightarrow> bs_ok (bs_union s t)"
  by (simp add: bs_union_def)

lemma bs_distinct: "bs_ok s \<Longrightarrow> distinct s"
  by (simp add: bs_ok_def strict_sorted_iff)

lemma bs_eqI: "bs_ok s \<Longrightarrow> bs_ok t \<Longrightarrow> set s = set t \<Longrightarrow> s = t"
  by (simp add: bs_ok_def strict_sorted_iff sorted_distinct_set_unique)

end
