(* ===== verification/Type_Assign.thy ===== *)
theory Type_Assign
  imports Type_Roundtrip BTree "HOL-Library.Multiset"
begin

text \<open>
  Assignability of type texts and the reductions that rest on it
  (crates/typepython_syntax, type_expr.rs: \<^verbatim>\<open>union_branches\<close>,
  \<^verbatim>\<open>type_expr_is_assignable_text\<close>, \<^verbatim>\<open>reduce_typeif_is_subtype_text\<close>,
  \<^verbatim>\<open>reduce_key_set_alias_text\<close>). The code works on texts and parses them again at
  every level; the text-level functions take fuel (\<open>None\<close> is running out of it), the relation
  on expressions that they implement needs none, and on canonical expressions fuel of the
  size of the two expressions is enough for the code to return that relation's answer.
\<close>

section \<open>The text-level functions\<close>

fun union_branches :: "nat \<Rightarrow> string \<Rightarrow> string list option option" where
  "union_branches 0 t = None"
| "union_branches (Suc n) t =
     (case type_expr_parse t of
        None \<Rightarrow> Some None
      | Some (TAnnotated value _) \<Rightarrow>
          (case union_branches n (render value) of
             None \<Rightarrow> None
           | Some None \<Rightarrow> Some (Some [render value])
           | Some (Some bs) \<Rightarrow> Some (Some bs))
      | Some (TGeneric head args) \<Rightarrow>
          (if head = ''Optional'' \<and> length args = 1
           then Some (Some [render (hd args), ''None'']) else Some None)
      | Some (TUnion branches _) \<Rightarrow> Some (Some (map render branches))
      | _ \<Rightarrow> Some None)"

definition same_generic :: "type_expr option \<Rightarrow> type_expr option \<Rightarrow> bool" where
  "same_generic expected actual =
     (case expected of
        Some (TGeneric eh eargs) \<Rightarrow>
          (case actual of
             Some (TGeneric ah aargs) \<Rightarrow>
               normalize_type_head eh = normalize_type_head ah \<and> length eargs = length aargs
               \<and> list_all (\<lambda>(e, a). render e = render a) (zip eargs aargs)
           | _ \<Rightarrow> False)
      | _ \<Rightarrow> False)"

fun type_expr_is_assignable_normalized :: "nat \<Rightarrow> string \<Rightarrow> string \<Rightarrow> bool option" where
  "type_expr_is_assignable_normalized 0 expected actual = None"
| "type_expr_is_assignable_normalized (Suc n) expected actual =
     (if expected = actual \<or> expected \<in> {''Any'', ''object''} \<or> actual = ''Any'' then Some True
      else if expected = ''float'' \<and> actual = ''int'' then Some True
      else (case union_branches n expected of
        None \<Rightarrow> None
      | Some (Some ebs) \<Rightarrow>
          (case union_branches n actual of
             None \<Rightarrow> None
           | Some (Some actuals) \<Rightarrow>
               all_opt (\<lambda>a. any_opt (\<lambda>e. type_expr_is_assignable_normalized n e a) ebs) actuals
           | Some None \<Rightarrow> any_opt (\<lambda>e. type_expr_is_assignable_normalized n e actual) ebs)
      | Some None \<Rightarrow>
          (case union_branches n actual of
             None \<Rightarrow> None
           | Some (Some actuals) \<Rightarrow> all_opt (\<lambda>a. type_expr_is_assignable_normalized n expected a) actuals
           | Some None \<Rightarrow>
               Some (same_generic (type_expr_parse expected) (type_expr_parse actual)))))"

definition rendered_or_normalized :: "string \<Rightarrow> string" where
  "rendered_or_normalized t =
     (case type_expr_parse t of Some e \<Rightarrow> render e | None \<Rightarrow> normalize_type_text t)"

definition type_expr_is_assignable_text :: "nat \<Rightarrow> string \<Rightarrow> string \<Rightarrow> bool option" where
  "type_expr_is_assignable_text n expected actual =
     type_expr_is_assignable_normalized n (rendered_or_normalized expected)
       (rendered_or_normalized actual)"

text \<open>The inner option is the code's \<^verbatim>\<open>None\<close>, the outer one the fuel.\<close>

definition reduce_typeif_is_subtype_text :: "nat \<Rightarrow> string \<Rightarrow> string option option" where
  "reduce_typeif_is_subtype_text n value =
     (case type_expr_parse (trim value) of
        Some (TGeneric head [condition, when_true, when_false]) \<Rightarrow>
          (if head \<noteq> ''TypeIf'' then Some None
           else (case condition of
                   TGeneric condition_head [sub, super] \<Rightarrow>
                     (if condition_head \<noteq> ''IsSubtype'' then Some None
                      else map_option
                             (\<lambda>holds. Some (if holds then render when_true else render when_false))
                             (type_expr_is_assignable_text n (render super) (render sub)))
                 | _ \<Rightarrow> Some None))
      | _ \<Rightarrow> Some None)"

record type_level_shape_field =
  tsf_owner :: string
  tsf_name :: string
  tsf_annotation :: "string option"
  tsf_required :: bool

definition key_set_keeps :: "string \<Rightarrow> string \<Rightarrow> type_level_shape_field \<Rightarrow> bool" where
  "key_set_keeps head owner field \<longleftrightarrow>
     tsf_owner field = owner \<and>
     (if head = ''RequiredKeys'' then tsf_required field
      else if head = ''OptionalKeys'' then \<not> tsf_required field
      else True)"

definition reduce_key_set_alias_text ::
    "string \<Rightarrow> type_level_shape_field list \<Rightarrow> string list option" where
  "reduce_key_set_alias_text value shape_fields =
     (case type_expr_parse (trim value) of
        Some (TGeneric head [owner]) \<Rightarrow>
          (if head \<notin> {''KeyOf'', ''RequiredKeys'', ''OptionalKeys''} then None
           else (let keys = map tsf_name (filter (key_set_keeps head (render owner)) shape_fields)
                 in if keys = [] then None else Some (sort keys)))
      | _ \<Rightarrow> None)"

section \<open>The relation on expressions\<close>

fun expr_branches :: "type_expr \<Rightarrow> type_expr list option" where
  "expr_branches (TAnnotated v _) =
     (case expr_branches v of None \<Rightarrow> Some [v] | Some bs \<Rightarrow> Some bs)"
| "expr_branches (TGeneric h args) =
     (if h = ''Optional'' \<and> length args = 1 then Some [hd args, TName ''None''] else None)"
| "expr_branches (TUnion bs _) = Some bs"
| "expr_branches _ = None"

definition generic_agrees :: "type_expr \<Rightarrow> type_expr \<Rightarrow> bool" where
  "generic_agrees e a =
     (case (e, a) of
        (TGeneric eh eargs, TGeneric ah aargs) \<Rightarrow> eh = ah \<and> eargs = aargs
      | _ \<Rightarrow> False)"

text \<open>The number of nodes, an \<^verbatim>\<open>Optional\<close> counted as the union it stands for.\<close>

fun weight :: "type_expr \<Rightarrow> nat" where
  "weight (TName _) = 1"
| "weight (TGeneric _ args) = 3 + sum_list (map weight args)"
| "weight (TCallable _ r) = 1"
| "weight (TUnion bs _) = 2 + sum_list (map weight bs)"
| "weight (TAnnotated v _) = 2 + weight v"
| "weight (TUnpack e) = 1"

lemma weight_member: "b \<in> set bs \<Longrightarrow> weight b \<le> sum_list (map weight bs)"
  by (induction bs) auto

lemma expr_branches_weight:
  "expr_branches e = Some bs \<Longrightarrow> b \<in> set bs \<Longrightarrow> weight b < weight e"
proof (induction e arbitrary: bs rule: expr_branches.induct)
  case (1 v ms)
  then show ?case by (fastforce split: option.splits)
next
  case (2 h args)
  then have "bs = [hd args, TName ''None'']" "length args = 1" by (simp_all split: if_splits)
  then show ?case using 2(2) by (cases args) auto
next
  case (3 bs')
  then show ?case using weight_member [of b bs] by simp
qed simp_all

function assignable :: "type_expr \<Rightarrow> type_expr \<Rightarrow> bool" where
  "assignable e a =
     (if e = a \<or> e \<in> {TName ''Any'', TName ''object''} \<or> a = TName ''Any'' then True
      else if e = TName ''float'' \<and> a = TName ''int'' then True
      else (case expr_branches e of
        Some ebs \<Rightarrow>
          (case expr_branches a of
             Some actuals \<Rightarrow> list_all (\<lambda>a'. list_ex (\<lambda>e'. assignable e' a') ebs) actuals
           | None \<Rightarrow> list_ex (\<lambda>e'. assignable e' a) ebs)
      | None \<Rightarrow>
          (case expr_branches a of
             Some actuals \<Rightarrow> list_all (\<lambda>a'. assignable e a') actuals
           | None \<Rightarrow> generic_agrees e a)))"
  by pat_completeness auto
termination
  by (relation "measure (\<lambda>(e, a). weight e + weight a)")
    (auto dest: expr_branches_weight intro: add_strict_mono)
declare assignable.simps [simp del]

lemma render_inj: "canonical e \<Longrightarrow> canonical a \<Longrightarrow> render e = render a \<longleftrightarrow> e = a"
  using parse_back by (metis option.inject)

lemma const_names: "name_ok ''Any''" "name_ok ''object''" "name_ok ''float''" "name_ok ''int''"
  "name_ok ''None''"
  by code_simp+

lemma render_is_name:
  "canonical e \<Longrightarrow> name_ok n \<Longrightarrow> render e = n \<longleftrightarrow> e = TName n"
  using render_inj [of e "TName n"] stable_normalize [OF name_ok_stable, of n] by simp

lemma canonical_branches:
  "canonical e \<Longrightarrow> expr_branches e = Some bs \<Longrightarrow> b \<in> set bs \<Longrightarrow> canonical b"
proof (induction e arbitrary: bs rule: expr_branches.induct)
  case (1 v ms)
  then show ?case by (auto split: option.splits)
next
  case (2 h args)
  then have "bs = [hd args, TName ''None'']" "length args = 1" by (simp_all split: if_splits)
  then show ?case using 2 const_names(5) by (cases args) auto
next
  case (3 bs' style)
  then show ?case by (cases style) (auto simp: list_all_iff)
qed simp_all

lemma union_branches_step:
  assumes "canonical e"
  shows "union_branches (Suc n) (render e) =
    (case e of
       TAnnotated value _ \<Rightarrow>
         (case union_branches n (render value) of
            None \<Rightarrow> None
          | Some None \<Rightarrow> Some (Some [render value])
          | Some (Some bs) \<Rightarrow> Some (Some bs))
     | TGeneric head args \<Rightarrow>
         (if head = ''Optional'' \<and> length args = 1
          then Some (Some [render (hd args), ''None'']) else Some None)
     | TUnion branches _ \<Rightarrow> Some (Some (map render branches))
     | _ \<Rightarrow> Some None)"
  unfolding union_branches.simps parse_back [OF assms] by (cases e) simp_all

lemma union_branches_render:
  "canonical e \<Longrightarrow> weight e \<le> n \<Longrightarrow>
    union_branches n (render e) = Some (map_option (map render) (expr_branches e))"
proof (induction n arbitrary: e)
  case 0
  then show ?case by (cases e) simp_all
next
  case (Suc n)
  have none: "normalize_name ''None'' = ''None''"
    by (rule stable_normalize [OF name_ok_stable [OF const_names(5)]])
  show ?case
  proof (cases "\<exists>v ms. e = TAnnotated v ms")
    case True
    then obtain v ms where e: "e = TAnnotated v ms" by blast
    have "union_branches n (render v) = Some (map_option (map render) (expr_branches v))"
      using Suc e by simp
    then show ?thesis
      unfolding union_branches_step [OF Suc.prems(1)] unfolding e type_expr.case
      by (simp split: option.splits)
  next
    case False
    then show ?thesis
      unfolding union_branches_step [OF Suc.prems(1)] by (cases e) (simp_all add: none)
  qed
qed

lemma rendered_args_agree:
  "list_all canonical es \<Longrightarrow> list_all canonical xs \<Longrightarrow>
    (length es = length xs \<and> list_all (\<lambda>(e, a). render e = render a) (zip es xs)) = (es = xs)"
proof (induction es arbitrary: xs)
  case (Cons e es)
  then show ?case by (cases xs) (auto simp: render_inj)
qed auto

lemma same_generic_agrees:
  assumes "canonical e" "canonical a"
  shows "same_generic (Some e) (Some a) = generic_agrees e a"
proof (cases "\<exists>eh eargs ah aargs. e = TGeneric eh eargs \<and> a = TGeneric ah aargs")
  case True
  then obtain eh eargs ah aargs where e: "e = TGeneric eh eargs" and a: "a = TGeneric ah aargs"
    by blast
  have "normalize_type_head eh = eh" "normalize_type_head ah = ah"
    "list_all canonical eargs" "list_all canonical aargs"
    using assms e a by (simp_all add: head_ok_def)
  then show ?thesis
    unfolding same_generic_def generic_agrees_def e a option.case type_expr.case prod.case
    using rendered_args_agree [of eargs aargs] by simp
next
  case False
  then show ?thesis
    by (auto simp: same_generic_def generic_agrees_def split: type_expr.splits)
qed

lemma same_generic_render:
  assumes "canonical e" "canonical a"
  shows "same_generic (type_expr_parse (render e)) (type_expr_parse (render a)) = generic_agrees e a"
  unfolding parse_back [OF assms(1)] parse_back [OF assms(2)] by (rule same_generic_agrees [OF assms])

lemma assignable_refines:
  "canonical e \<Longrightarrow> canonical a \<Longrightarrow> weight e + weight a \<le> n \<Longrightarrow>
    type_expr_is_assignable_normalized n (render e) (render a) = Some (assignable e a)"
proof (induction n arbitrary: e a)
  case 0
  then show ?case by (cases e) simp_all
next
  case (Suc n)
  have pos: "0 < weight e" "0 < weight a" by (cases e; simp)+ (cases a; simp)+
  note eq = render_inj [OF Suc.prems(1,2)]
    render_is_name [OF Suc.prems(1) const_names(1)] render_is_name [OF Suc.prems(1) const_names(2)]
    render_is_name [OF Suc.prems(1) const_names(3)] render_is_name [OF Suc.prems(2) const_names(1)]
    render_is_name [OF Suc.prems(2) const_names(4)]
  have eb: "union_branches n (render e) = Some (map_option (map render) (expr_branches e))"
    and ab: "union_branches n (render a) = Some (map_option (map render) (expr_branches a))"
    using Suc.prems pos by (auto intro!: union_branches_render)
  note unfolds = type_expr_is_assignable_normalized.simps(2) assignable.simps [of e a] eb ab
    insert_iff empty_iff eq
  have pair: "type_expr_is_assignable_normalized n (render e') (render a') = Some (assignable e' a')"
    if "canonical e'" "canonical a'" "weight e' + weight a' < weight e + weight a" for e' a'
    by (rule Suc.IH [OF that(1,2)]) (use that(3) Suc.prems(3) in linarith)
  have both: "type_expr_is_assignable_normalized n (render e') (render a') = Some (assignable e' a')"
    if "expr_branches e = Some ebs" "e' \<in> set ebs" "expr_branches a = Some actuals" "a' \<in> set actuals"
    for e' a' ebs actuals
    by (rule pair [OF canonical_branches [OF Suc.prems(1) that(1,2)]
          canonical_branches [OF Suc.prems(2) that(3,4)]])
      (rule add_strict_mono [OF expr_branches_weight [OF that(1,2)] expr_branches_weight [OF that(3,4)]])
  have left: "type_expr_is_assignable_normalized n (render e') (render a) = Some (assignable e' a)"
    if "expr_branches e = Some ebs" "e' \<in> set ebs" for e' ebs
    by (rule pair [OF canonical_branches [OF Suc.prems(1) that] Suc.prems(2)])
      (use expr_branches_weight [OF that] in simp)
  have right: "type_expr_is_assignable_normalized n (render e) (render a') = Some (assignable e a')"
    if "expr_branches a = Some actuals" "a' \<in> set actuals" for a' actuals
    by (rule pair [OF Suc.prems(1) canonical_branches [OF Suc.prems(2) that]])
      (use expr_branches_weight [OF that] in simp)
  show ?case
  proof (cases "expr_branches e")
    case e: None
    show ?thesis
    proof (cases "expr_branches a")
      case a: None
      show ?thesis
        unfolding unfolds e a option.case option.map same_generic_render [OF Suc.prems(1,2)] by simp
    next
      case a: (Some actuals)
      have "all_opt (type_expr_is_assignable_normalized n (render e)) (map render actuals) =
          Some (list_all (assignable e) actuals)"
        using right [OF a] by (intro all_opt_map) blast
      then show ?thesis
        unfolding unfolds e a option.case option.map by simp
    qed
  next
    case e: (Some ebs)
    show ?thesis
    proof (cases "expr_branches a")
      case a: None
      have "any_opt (\<lambda>e'. type_expr_is_assignable_normalized n e' (render a)) (map render ebs) =
          Some (list_ex (\<lambda>e'. assignable e' a) ebs)"
        using left [OF e] by (intro any_opt_map) blast
      then show ?thesis
        unfolding unfolds e a option.case option.map by simp
    next
      case a: (Some actuals)
      have "all_opt (\<lambda>a'. any_opt (\<lambda>e'. type_expr_is_assignable_normalized n e' a') (map render ebs))
          (map render actuals) = Some (list_all (\<lambda>a'. list_ex (\<lambda>e'. assignable e' a') ebs) actuals)"
        using both [OF e _ a] by (intro all_opt_map ballI any_opt_map) blast
      then show ?thesis
        unfolding unfolds e a option.case option.map by simp
    qed
  qed
qed

section \<open>Laws of the relation\<close>

lemma assignable_refl: "assignable e e"
  by (subst assignable.simps) simp

lemma assignable_branch:
  "expr_branches e = Some ebs \<Longrightarrow> b \<in> set ebs \<Longrightarrow> assignable e b"
proof (induction b arbitrary: e ebs rule: measure_induct_rule [of weight])
  case (less b)
  show ?case
  proof (cases "expr_branches b")
    case None
    then show ?thesis
      using less.prems assignable_refl [of b]
      by (subst assignable.simps) (auto simp: list_ex_iff)
  next
    case (Some bs)
    then have "\<forall>c\<in>set bs. assignable b c"
      using less.IH expr_branches_weight [OF Some] by blast
    then show ?thesis
      using less.prems Some by (subst assignable.simps) (auto simp: list_ex_iff list_all_iff)
  qed
qed

lemma expr_branches_union:
  "expr_branches e = Some ebs \<Longrightarrow> e \<noteq> TName n"
  by auto

lemma assignable_elim:
  "assignable e a \<Longrightarrow> expr_branches a = Some actuals \<Longrightarrow> b \<in> set actuals \<Longrightarrow> assignable e b"
proof (induction "weight e + weight a" arbitrary: e a actuals b rule: less_induct)
  case less
  show ?case
  proof (cases "e = a \<or> e \<in> {TName ''Any'', TName ''object''}")
    case True
    then consider "e = a" | "e \<in> {TName ''Any'', TName ''object''}" by blast
    then show ?thesis
    proof cases
      case 1
      then show ?thesis using assignable_branch [OF less.prems(2,3)] by simp
    next
      case 2
      then show ?thesis by (subst assignable.simps) simp
    qed
  next
    case top: False
    have a: "a \<noteq> TName ''Any''" "a \<noteq> TName ''int''"
      using expr_branches_union [OF less.prems(2)] by blast+
    show ?thesis
    proof (cases "expr_branches e")
      case None
      then show ?thesis
        using less.prems top a by (simp add: assignable.simps [of e a] list_all_iff)
    next
      case (Some ebs)
      then obtain e' where e': "e' \<in> set ebs" "assignable e' b"
        using less.prems top a by (auto simp: assignable.simps [of e a] list_all_iff list_ex_iff)
      show ?thesis
      proof (cases "expr_branches b")
        case None
        then show ?thesis
          using e' Some by (subst assignable.simps) (auto simp: list_ex_iff)
      next
        case b: (Some bs)
        have "weight e' + weight b < weight e + weight a"
          using expr_branches_weight [OF Some e'(1)] expr_branches_weight [OF less.prems(2,3)]
          by (rule add_strict_mono)
        then have "\<forall>c\<in>set bs. assignable e' c" using less.hyps e'(2) b by blast
        then show ?thesis
          using e'(1) Some b by (subst assignable.simps) (auto simp: list_ex_iff list_all_iff)
      qed
    qed
  qed
qed

lemma assignable_text_render:
  assumes "canonical e" "canonical a" "weight e + weight a \<le> n"
  shows "type_expr_is_assignable_text n (render e) (render a) = Some (assignable e a)"
  by (simp add: type_expr_is_assignable_text_def rendered_or_normalized_def
      parse_back [OF assms(1)] parse_back [OF assms(2)] assignable_refines [OF assms])

text \<open>
  C7: with fuel for the nodes of the two types, the text-level check returns, and its
  answer on the texts of two canonical types is the relation on their expressions.
\<close>

theorem assignable_text_refines:
  assumes "canonical e" "canonical a" "weight e + weight a \<le> n"
  shows "type_expr_is_assignable_text n (render e) (render a) = Some (assignable e a)"
  using assms by (rule assignable_text_render)

theorem assignable_text_refines_witness:
  "type_expr_is_assignable_text 20
     (render (TUnion [TGeneric ''Optional'' [TName ''float''], TName ''str''] Explicit))
     (render (TUnion [TName ''int'', TName ''None''] Shorthand)) =
   Some (assignable (TUnion [TGeneric ''Optional'' [TName ''float''], TName ''str''] Explicit)
     (TUnion [TName ''int'', TName ''None''] Shorthand))"
  by (rule assignable_text_refines) code_simp+

text \<open>
  The relation is reflexive, \<^verbatim>\<open>Any\<close> and \<^verbatim>\<open>object\<close> accept everything and
  \<^verbatim>\<open>Any\<close> is accepted everywhere; a union accepts each of its branches, and a type that
  accepts a union accepts each branch of it.
\<close>

lemma assignable_laws:
  assumes "expr_branches u = Some branches" "b \<in> set branches"
  shows "assignable e e \<and> assignable (TName ''Any'') e \<and> assignable (TName ''object'') e \<and>
    assignable e (TName ''Any'') \<and> assignable u b \<and> (assignable e u \<longrightarrow> assignable e b)"
  using assignable_refl [of e] assignable_branch [OF assms] assignable_elim [OF _ assms]
  by (simp add: assignable.simps [of "TName ''Any''"] assignable.simps [of "TName ''object''"]
      assignable.simps [of _ "TName ''Any''"])

section \<open>Reductions\<close>

text \<open>
  A \<^verbatim>\<open>TypeIf[IsSubtype[sub, super], t, f]\<close> reduces to the branch that the
  relation selects, given fuel for the two types compared.
\<close>

lemma typeif_selects_branch:
  assumes "list_all canonical [sub, super, when_true, when_false]" "weight super + weight sub \<le> n"
  shows "reduce_typeif_is_subtype_text n
      (render (TGeneric ''TypeIf'' [TGeneric ''IsSubtype'' [sub, super], when_true, when_false])) =
    Some (Some (render (if assignable super sub then when_true else when_false)))"
proof -
  let ?e = "TGeneric ''TypeIf'' [TGeneric ''IsSubtype'' [sub, super], when_true, when_false]"
  have heads: "head_ok ''TypeIf'' 3" "head_ok ''IsSubtype'' 2" by code_simp+
  then have c: "canonical ?e" using assms(1) by (simp add: numeral_2_eq_2 numeral_3_eq_3)
  have "type_expr_is_assignable_text n (render super) (render sub) = Some (assignable super sub)"
    using assms by (intro assignable_text_render) simp_all
  then show ?thesis
    unfolding reduce_typeif_is_subtype_text_def stable_trim [OF render_stable [OF c]] parse_back [OF c]
    by simp
qed

definition key_set :: "string \<Rightarrow> type_expr \<Rightarrow> type_level_shape_field list \<Rightarrow> string list" where
  "key_set head owner shape_fields =
     (case reduce_key_set_alias_text (render (TGeneric head [owner])) shape_fields of
        None \<Rightarrow> [] | Some keys \<Rightarrow> keys)"

lemma key_set_eq:
  assumes "canonical owner" "head \<in> {''KeyOf'', ''RequiredKeys'', ''OptionalKeys''}"
  shows "key_set head owner shape_fields =
    sort (map tsf_name (filter (key_set_keeps head (render owner)) shape_fields))"
proof -
  have "head_ok ''KeyOf'' 1" "head_ok ''RequiredKeys'' 1" "head_ok ''OptionalKeys'' 1"
    by code_simp+
  then have c: "canonical (TGeneric head [owner])" using assms by auto
  show ?thesis
    unfolding key_set_def reduce_key_set_alias_text_def stable_trim [OF render_stable [OF c]]
      parse_back [OF c] using assms(2) by (simp add: Let_def)
qed

text \<open>
  The three key-set aliases of an owner are sorted, and \<^verbatim>\<open>KeyOf\<close> is the disjoint
  union of \<^verbatim>\<open>RequiredKeys\<close> and \<^verbatim>\<open>OptionalKeys\<close>: every field of the owner is in
  exactly one of the two, as often as it is declared.
\<close>

lemma key_sets_partition:
  assumes "canonical owner"
  shows "mset (key_set ''KeyOf'' owner shape_fields) =
      mset (key_set ''RequiredKeys'' owner shape_fields) + mset (key_set ''OptionalKeys'' owner shape_fields)
    \<and> sorted (key_set ''KeyOf'' owner shape_fields)
    \<and> (\<forall>k. k \<in> set (key_set ''KeyOf'' owner shape_fields) \<longleftrightarrow>
          (\<exists>f\<in>set shape_fields. tsf_owner f = render owner \<and> tsf_name f = k))"
proof -
  have "mset (map tsf_name (filter (key_set_keeps ''KeyOf'' o') xs)) =
      mset (map tsf_name (filter (key_set_keeps ''RequiredKeys'' o') xs)) +
      mset (map tsf_name (filter (key_set_keeps ''OptionalKeys'' o') xs))" for o' xs
    by (induction xs) (simp_all add: key_set_keeps_def)
  then show ?thesis
    using assms by (auto simp: key_set_eq key_set_keeps_def)
qed

end
