(* ===== verification/Type_Shapes.thy ===== *)
theory Type_Shapes
  imports Type_Roundtrip
begin

text \<open>
  Shape projections (crates/typepython_syntax, type_expr.rs, \<^verbatim>\<open>ShapeProjection\<close>): the
  fields of a \<^verbatim>\<open>TypedDict\<close> or data class, the qualifiers their annotations carry, and
  the transforms \<^verbatim>\<open>Partial\<close>, \<^verbatim>\<open>Required_\<close>, \<^verbatim>\<open>Readonly\<close>, \<^verbatim>\<open>Mutable\<close>,
  \<^verbatim>\<open>Pick\<close>, \<^verbatim>\<open>Omit\<close> and \<^verbatim>\<open>MapValues\<close>.
\<close>

section \<open>Class members\<close>

datatype class_member_kind = MemberField | MemberMethod | MemberOverload

datatype method_kind =
  InstanceMethod | ClassMethod | StaticMethod | PropertyMethod | PropertySetterMethod

datatype type_param_kind = TypeVar | ParamSpec | TypeVarTuple

record type_param =
  tp_kind :: type_param_kind
  tp_name :: string
  tp_bound :: "string option"
  tp_bound_expr :: "type_expr option"
  tp_constraints :: "string list"
  tp_constraint_exprs :: "type_expr list"
  tp_default :: "string option"
  tp_default_expr :: "type_expr option"

record function_param =
  fp_name :: string
  fp_annotation :: "string option"
  fp_annotation_expr :: "type_expr option"
  fp_has_default :: bool
  fp_positional_only :: bool
  fp_keyword_only :: bool
  fp_variadic :: bool
  fp_keyword_variadic :: bool

record class_member =
  cm_name :: string
  cm_kind :: class_member_kind
  cm_method_kind :: "method_kind option"
  cm_type_params :: "type_param list"
  cm_annotation :: "string option"
  cm_annotation_expr :: "type_expr option"
  cm_value_type_expr :: "type_expr option"
  cm_params :: "function_param list"
  cm_returns :: "string option"
  cm_returns_expr :: "type_expr option"
  cm_is_async :: bool
  cm_is_override :: bool
  cm_is_abstract_method :: bool
  cm_is_final_decorator :: bool
  cm_is_deprecated :: bool
  cm_deprecation_message :: "string option"
  cm_is_final :: bool
  cm_is_class_var :: bool
  cm_line :: nat

record named_block =
  nb_name :: string
  nb_type_params :: "type_param list"
  nb_header_suffix :: string
  nb_bases :: "string list"
  nb_is_final_decorator :: bool
  nb_is_deprecated :: bool
  nb_deprecation_message :: "string option"
  nb_is_abstract_class :: bool
  nb_members :: "class_member list"
  nb_line :: nat

text \<open>The member \<^verbatim>\<open>materialize_members\<close> makes: everything but name and annotation is empty.\<close>

definition plain_field :: "string \<Rightarrow> string option \<Rightarrow> class_member" where
  "plain_field name annotation =
     \<lparr>cm_name = name, cm_kind = MemberField, cm_method_kind = None, cm_type_params = [],
      cm_annotation = annotation, cm_annotation_expr = None, cm_value_type_expr = None,
      cm_params = [], cm_returns = None, cm_returns_expr = None, cm_is_async = False,
      cm_is_override = False, cm_is_abstract_method = False, cm_is_final_decorator = False,
      cm_is_deprecated = False, cm_deprecation_message = None, cm_is_final = False,
      cm_is_class_var = False, cm_line = 0\<rparr>"

section \<open>Qualifiers\<close>

record shape_annotation_qualifiers =
  q_required :: "bool option"
  q_readonly :: bool

definition no_qualifiers :: shape_annotation_qualifiers where
  "no_qualifiers = \<lparr>q_required = None, q_readonly = False\<rparr>"

text \<open>\<^verbatim>\<open>head.rsplit('.').next()\<close>, trimmed.\<close>

definition qualifier_name :: "string \<Rightarrow> string" where
  "qualifier_name head = trim (last (split_char CHR ''.'' head))"

fun collect_qualifiers ::
    "type_expr \<Rightarrow> shape_annotation_qualifiers \<Rightarrow> shape_annotation_qualifiers" where
  "collect_qualifiers (TGeneric head [arg]) q =
     (if qualifier_name head \<in> {''Required'', ''Required_''}
      then collect_qualifiers arg (q\<lparr>q_required := Some True\<rparr>)
      else if qualifier_name head = ''NotRequired''
      then collect_qualifiers arg (q\<lparr>q_required := Some False\<rparr>)
      else if qualifier_name head = ''ReadOnly''
      then collect_qualifiers arg (q\<lparr>q_readonly := True\<rparr>)
      else q)"
| "collect_qualifiers (TAnnotated value _) q = collect_qualifiers value q"
| "collect_qualifiers _ q = q"

definition shape_annotation_qualifiers_of :: "string \<Rightarrow> shape_annotation_qualifiers" where
  "shape_annotation_qualifiers_of annotation =
     (case type_expr_parse annotation of
        None \<Rightarrow> no_qualifiers
      | Some e \<Rightarrow> collect_qualifiers e no_qualifiers)"

definition type_level_shape_field_required :: "string option \<Rightarrow> bool \<Rightarrow> bool" where
  "type_level_shape_field_required annotation total_default =
     (case Option.bind annotation (\<lambda>a. q_required (shape_annotation_qualifiers_of a)) of
        Some b \<Rightarrow> b | None \<Rightarrow> total_default)"

fun strip_qualifiers :: "type_expr \<Rightarrow> bool \<Rightarrow> bool \<Rightarrow> type_expr" where
  "strip_qualifiers (TGeneric head [arg]) requiredness readonly =
     (let is_requiredness = qualifier_name head \<in> {''Required'', ''Required_'', ''NotRequired''};
          is_readonly = qualifier_name head = ''ReadOnly''
      in if \<not> is_requiredness \<and> \<not> is_readonly then TGeneric head [arg]
         else (let inner = strip_qualifiers arg requiredness readonly
               in if (requiredness \<and> is_requiredness) \<or> (readonly \<and> is_readonly) then inner
                  else TGeneric head [inner]))"
| "strip_qualifiers (TAnnotated value metadata) requiredness readonly =
     TAnnotated (strip_qualifiers value requiredness readonly) metadata"
| "strip_qualifiers other _ _ = other"

definition strip_shape_annotation_qualifiers :: "string \<Rightarrow> bool \<Rightarrow> bool \<Rightarrow> string" where
  "strip_shape_annotation_qualifiers annotation requiredness readonly =
     (case type_expr_parse annotation of
        None \<Rightarrow> annotation
      | Some e \<Rightarrow> render (strip_qualifiers e requiredness readonly))"

definition typed_dict_total_default_from_header_suffix :: "string \<Rightarrow> bool" where
  "typed_dict_total_default_from_header_suffix header_suffix =
     (\<not> contains_str ''total=False'' (filter (\<lambda>c. \<not> is_ws c) header_suffix))"

definition bracket_inner :: "string \<Rightarrow> string \<Rightarrow> string option" where
  "bracket_inner expression transform = bracketed (transform @ ''['') (trim expression)"

section \<open>Projections\<close>

datatype shape_projection_source_kind = TypedDictSource | DataClassSource | FrameworkTransformSource
datatype shape_projection_field_source_kind = SourceField | ProjectionGenerated

record shape_projection_field =
  sf_name :: string
  sf_public_alias :: string
  sf_annotation :: "string option"
  sf_required :: bool
  sf_readonly :: bool
  sf_source_kind :: shape_projection_field_source_kind

record shape_projection =
  sp_name :: string
  sp_source_kind :: shape_projection_source_kind
  sp_fields :: "shape_projection_field list"

definition from_class_member_with_total_default ::
    "class_member \<Rightarrow> bool \<Rightarrow> shape_projection_field" where
  "from_class_member_with_total_default member total_default =
     (let annotation = (case cm_annotation member of
                          Some a \<Rightarrow> Some a
                        | None \<Rightarrow> map_option render (cm_annotation_expr member));
          qualifiers = (case annotation of
                          Some a \<Rightarrow> shape_annotation_qualifiers_of a | None \<Rightarrow> no_qualifiers);
          required = (case q_required qualifiers of Some b \<Rightarrow> b | None \<Rightarrow> total_default)
      in \<lparr>sf_name = cm_name member, sf_public_alias = cm_name member,
          sf_annotation =
            map_option (\<lambda>a. if \<not> required \<and> q_required qualifiers = None
                            then ''NotRequired['' @ a @ '']'' else a) annotation,
          sf_required = required, sf_readonly = q_readonly qualifiers,
          sf_source_kind = SourceField\<rparr>)"

definition projected :: "shape_projection_field \<Rightarrow> shape_projection_field" where
  "projected field = field\<lparr>sf_source_kind := ProjectionGenerated\<rparr>"

lemma bracket_inner_shorter [len_bounds]:
  "bracket_inner t p = Some inner \<Longrightarrow> length (trim inner) < length t"
  unfolding bracket_inner_def
  using length_bracketed [of "p @ ''[''" "trim t" inner] length_trim [of t] length_trim [of inner]
  by linarith

function strip_wrappers :: "string \<Rightarrow> string" where
  "strip_wrappers rendered =
     (case bracket_inner rendered ''NotRequired'' of
        Some inner \<Rightarrow> strip_wrappers (trim inner)
      | None \<Rightarrow> (case bracket_inner rendered ''Required'' of
        Some inner \<Rightarrow> strip_wrappers (trim inner)
      | None \<Rightarrow> (case bracket_inner rendered ''Required_'' of
        Some inner \<Rightarrow> strip_wrappers (trim inner)
      | None \<Rightarrow> (case bracket_inner rendered ''ReadOnly'' of
        Some inner \<Rightarrow> strip_wrappers (trim inner)
      | None \<Rightarrow> rendered))))"
  by pat_completeness auto
termination
  by (relation "measure length") (simp_all add: bracket_inner_shorter)
declare strip_wrappers.simps [simp del]

definition annotation_or_object :: "shape_projection_field \<Rightarrow> string" where
  "annotation_or_object field = (case sf_annotation field of Some a \<Rightarrow> a | None \<Rightarrow> ''object'')"

definition normalized_annotation :: "shape_projection_field \<Rightarrow> string" where
  "normalized_annotation field = strip_wrappers (trim (annotation_or_object field))"

definition from_named_block_with_total_default ::
    "named_block \<Rightarrow> shape_projection_source_kind \<Rightarrow> bool \<Rightarrow> shape_projection" where
  "from_named_block_with_total_default block kind total_default =
     \<lparr>sp_name = nb_name block, sp_source_kind = kind,
      sp_fields = map (\<lambda>m. from_class_member_with_total_default m total_default)
                    (filter (\<lambda>m. cm_kind m = MemberField) (nb_members block))\<rparr>"

definition from_named_block :: "named_block \<Rightarrow> shape_projection_source_kind \<Rightarrow> shape_projection" where
  "from_named_block block kind = from_named_block_with_total_default block kind True"

definition from_typed_dict_block :: "named_block \<Rightarrow> shape_projection" where
  "from_typed_dict_block block =
     from_named_block_with_total_default block TypedDictSource
       (typed_dict_total_default_from_header_suffix (nb_header_suffix block))"

definition materialize_members :: "shape_projection \<Rightarrow> class_member list" where
  "materialize_members shape =
     map (\<lambda>f. plain_field (sf_name f) (sf_annotation f)) (sp_fields shape)"

definition with_projected_fields ::
    "shape_projection \<Rightarrow> shape_projection_field list \<Rightarrow> shape_projection" where
  "with_projected_fields shape new_fields =
     \<lparr>sp_name = sp_name shape, sp_source_kind = sp_source_kind shape, sp_fields = new_fields\<rparr>"

definition partial_field :: "shape_projection_field \<Rightarrow> shape_projection_field" where
  "partial_field f = projected (f\<lparr>
     sf_annotation := Some (''NotRequired['' @
       strip_shape_annotation_qualifiers (annotation_or_object f) True False @ '']''),
     sf_required := False\<rparr>)"

definition required_field :: "shape_projection_field \<Rightarrow> shape_projection_field" where
  "required_field f = projected (f\<lparr>
     sf_annotation := Some (strip_shape_annotation_qualifiers (annotation_or_object f) True False),
     sf_required := True\<rparr>)"

definition readonly_field :: "shape_projection_field \<Rightarrow> shape_projection_field" where
  "readonly_field f = projected (f\<lparr>
     sf_annotation := Some
       (if q_readonly (shape_annotation_qualifiers_of (annotation_or_object f))
        then annotation_or_object f else ''ReadOnly['' @ annotation_or_object f @ '']''),
     sf_readonly := True\<rparr>)"

definition mutable_field :: "shape_projection_field \<Rightarrow> shape_projection_field" where
  "mutable_field f = projected (f\<lparr>
     sf_annotation := Some (strip_shape_annotation_qualifiers (annotation_or_object f) False True),
     sf_readonly := False\<rparr>)"

definition map_value_field :: "string \<Rightarrow> shape_projection_field \<Rightarrow> shape_projection_field" where
  "map_value_field wrapper f =
     (let a = annotation_or_object f
      in if trim wrapper = ''Optional''
         then projected (f\<lparr>sf_annotation := Some (''Optional['' @ a @ '']'')\<rparr>)
         else if trim wrapper = ''Readonly''
         then projected (f\<lparr>sf_readonly := True,
                sf_annotation := Some (if contains_str ''ReadOnly['' a then a
                                       else ''ReadOnly['' @ a @ '']'')\<rparr>)
         else projected (f\<lparr>sf_annotation := Some a\<rparr>))"

definition partial_shape :: "shape_projection \<Rightarrow> shape_projection" where
  "partial_shape shape = with_projected_fields shape (map partial_field (sp_fields shape))"

definition required_fields :: "shape_projection \<Rightarrow> shape_projection" where
  "required_fields shape = with_projected_fields shape (map required_field (sp_fields shape))"

definition readonly_fields :: "shape_projection \<Rightarrow> shape_projection" where
  "readonly_fields shape = with_projected_fields shape (map readonly_field (sp_fields shape))"

definition mutable_fields :: "shape_projection \<Rightarrow> shape_projection" where
  "mutable_fields shape = with_projected_fields shape (map mutable_field (sp_fields shape))"

definition is_named :: "string list \<Rightarrow> shape_projection_field \<Rightarrow> bool" where
  "is_named names f \<longleftrightarrow> list_ex (\<lambda>n. n = sf_name f \<or> n = sf_public_alias f) names"

definition pick :: "shape_projection \<Rightarrow> string list \<Rightarrow> shape_projection" where
  "pick shape names =
     with_projected_fields shape (map projected (filter (is_named names) (sp_fields shape)))"

definition omit :: "shape_projection \<Rightarrow> string list \<Rightarrow> shape_projection" where
  "omit shape names =
     with_projected_fields shape
       (map projected (filter (\<lambda>f. \<not> is_named names f) (sp_fields shape)))"

definition map_values :: "shape_projection \<Rightarrow> string \<Rightarrow> shape_projection" where
  "map_values shape wrapper =
     with_projected_fields shape (map (map_value_field wrapper) (sp_fields shape))"

section \<open>Annotations and flags agree\<close>

text \<open>
  A field is coherent when its annotation is a canonical type text and its two flags say
  what the qualifiers of that text say (a field with no requiredness qualifier is
  required, one with no annotation counts as a plain \<^verbatim>\<open>object\<close>).
\<close>

definition requiredness :: "type_expr \<Rightarrow> bool" where
  "requiredness e = (case q_required (collect_qualifiers e no_qualifiers) of Some b \<Rightarrow> b | None \<Rightarrow> True)"

definition readonlyness :: "type_expr \<Rightarrow> bool" where
  "readonlyness e = q_readonly (collect_qualifiers e no_qualifiers)"

definition coherent_field :: "shape_projection_field \<Rightarrow> bool" where
  "coherent_field f =
     (case type_expr_parse (annotation_or_object f) of
        None \<Rightarrow> False
      | Some e \<Rightarrow> canonical e \<and> render e = annotation_or_object f \<and>
                  sf_required f = requiredness e \<and> sf_readonly f = readonlyness e)"

definition coherent_shape :: "shape_projection \<Rightarrow> bool" where
  "coherent_shape shape = list_all coherent_field (sp_fields shape)"

lemma coherentI:
  assumes "canonical e" "annotation_or_object f = render e"
    "sf_required f = requiredness e" "sf_readonly f = readonlyness e"
  shows "coherent_field f"
  using assms by (simp add: coherent_field_def parse_back [OF assms(1)])

lemma coherentE:
  assumes "coherent_field f"
  obtains e where "canonical e" "annotation_or_object f = render e"
    "sf_required f = requiredness e" "sf_readonly f = readonlyness e"
  using assms by (auto simp: coherent_field_def split: option.splits)

text \<open>Induction along the chain that both recursions walk.\<close>

lemma chain_induct [case_names generic annotated other]:
  assumes "\<And>h a. P a \<Longrightarrow> P (TGeneric h [a])"
    and "\<And>v ms. P v \<Longrightarrow> P (TAnnotated v ms)"
    and "\<And>e. \<forall>h a. e \<noteq> TGeneric h [a] \<Longrightarrow> \<forall>v ms. e \<noteq> TAnnotated v ms \<Longrightarrow> P e"
  shows "P e"
proof (induction e rule: measure_induct_rule [of size])
  case (less e)
  consider h a where "e = TGeneric h [a]" | v ms where "e = TAnnotated v ms"
    | "\<forall>h a. e \<noteq> TGeneric h [a]" "\<forall>v ms. e \<noteq> TAnnotated v ms" by blast
  then show ?case
  proof cases
    case 1
    have "P a" by (rule less.IH) (simp add: 1)
    then show ?thesis using assms(1) 1 by simp
  next
    case 2
    have "P v" by (rule less.IH) (simp add: 2)
    then show ?thesis using assms(2) 2 by simp
  qed (rule assms(3))
qed

lemma other_unchanged:
  assumes "\<forall>h a. e \<noteq> TGeneric h [a]" "\<forall>v ms. e \<noteq> TAnnotated v ms"
  shows "collect_qualifiers e q = q" "strip_qualifiers e r w = e"
  using assms by (cases "(e, q)" rule: collect_qualifiers.cases; simp)
    (use assms in \<open>cases "(e, r, w)" rule: strip_qualifiers.cases; simp\<close>)

text \<open>What a head says: the four cases the two recursions distinguish.\<close>

datatype qualifier = SaysRequired bool | SaysReadOnly | SaysNothing

definition qualifier_of :: "string \<Rightarrow> qualifier" where
  "qualifier_of head =
     (if qualifier_name head \<in> {''Required'', ''Required_''} then SaysRequired True
      else if qualifier_name head = ''NotRequired'' then SaysRequired False
      else if qualifier_name head = ''ReadOnly'' then SaysReadOnly
      else SaysNothing)"

lemma collect_generic:
  "collect_qualifiers (TGeneric h [a]) q =
     (case qualifier_of h of
        SaysRequired b \<Rightarrow> collect_qualifiers a (q\<lparr>q_required := Some b\<rparr>)
      | SaysReadOnly \<Rightarrow> collect_qualifiers a (q\<lparr>q_readonly := True\<rparr>)
      | SaysNothing \<Rightarrow> q)"
  unfolding collect_qualifiers.simps qualifier_of_def
  by (cases "qualifier_name h \<in> {''Required'', ''Required_''}";
      cases "qualifier_name h = ''NotRequired''"; cases "qualifier_name h = ''ReadOnly''";
      simp only: if_True if_False qualifier.case simp_thms)

lemma strip_generic:
  "strip_qualifiers (TGeneric h [a]) r w =
     (case qualifier_of h of
        SaysRequired b \<Rightarrow> if r then strip_qualifiers a r w else TGeneric h [strip_qualifiers a r w]
      | SaysReadOnly \<Rightarrow> if w then strip_qualifiers a r w else TGeneric h [strip_qualifiers a r w]
      | SaysNothing \<Rightarrow> TGeneric h [a])"
proof -
  have ne: "''ReadOnly'' \<notin> {''Required'', ''Required_'', ''NotRequired''}" by simp
  show ?thesis
  proof (cases "qualifier_name h = ''ReadOnly''")
    case True
    then show ?thesis using ne by (simp add: qualifier_of_def)
  next
    case False
    then show ?thesis by (simp add: qualifier_of_def)
  qed
qed

lemmas qualifier_chain = collect_generic strip_generic other_unchanged
declare collect_qualifiers.simps(1) [simp del] strip_qualifiers.simps(1) [simp del]

lemma collect_flags:
  "collect_qualifiers e q =
     \<lparr>q_required = (case q_required (collect_qualifiers e no_qualifiers) of
                     Some b \<Rightarrow> Some b | None \<Rightarrow> q_required q),
      q_readonly = (q_readonly (collect_qualifiers e no_qualifiers) \<or> q_readonly q)\<rparr>"
proof (induction e arbitrary: q rule: chain_induct)
  case (generic h a)
  show ?case
  proof (cases "qualifier_of h")
    case (SaysRequired b)
    show ?thesis
      unfolding collect_generic SaysRequired qualifier.case generic [of "q\<lparr>q_required := Some b\<rparr>"]
        generic [of "no_qualifiers\<lparr>q_required := Some b\<rparr>"]
      by (simp add: no_qualifiers_def split: option.splits)
  next
    case SaysReadOnly
    show ?thesis
      unfolding collect_generic SaysReadOnly qualifier.case generic [of "q\<lparr>q_readonly := True\<rparr>"]
        generic [of "no_qualifiers\<lparr>q_readonly := True\<rparr>"]
      by (simp add: no_qualifiers_def split: option.splits)
  qed (simp add: collect_generic no_qualifiers_def)
next
  case (annotated v ms)
  show ?case unfolding collect_qualifiers.simps by (rule annotated)
qed (simp add: other_unchanged no_qualifiers_def)

lemma collect_required:
  "q_required (collect_qualifiers e q) =
     (case q_required (collect_qualifiers e no_qualifiers) of Some b \<Rightarrow> Some b | None \<Rightarrow> q_required q)"
  using arg_cong [OF collect_flags [of e q], of q_required] by (simp only: shape_annotation_qualifiers.select_convs)

lemma collect_readonly:
  "q_readonly (collect_qualifiers e q) \<longleftrightarrow>
     q_readonly (collect_qualifiers e no_qualifiers) \<or> q_readonly q"
  using arg_cong [OF collect_flags [of e q], of q_readonly] by (simp only: shape_annotation_qualifiers.select_convs)

lemma strip_requiredness_required:
  "q_required (collect_qualifiers (strip_qualifiers e True False) q) = q_required q"
  by (induction e arbitrary: q rule: chain_induct)
    (simp_all add: qualifier_chain split: qualifier.splits)

lemma strip_requiredness_readonly:
  "q_readonly (collect_qualifiers (strip_qualifiers e True False) q) =
     q_readonly (collect_qualifiers e q)"
proof (induction e arbitrary: q rule: chain_induct)
  case (generic h a)
  have "q_readonly (collect_qualifiers a (q\<lparr>q_required := Some b\<rparr>)) =
      q_readonly (collect_qualifiers a q)" for b
    using collect_readonly [of a q] collect_readonly [of a "q\<lparr>q_required := Some b\<rparr>"] by simp
  then show ?case
    using generic by (simp add: qualifier_chain split: qualifier.splits)
qed (simp_all add: other_unchanged)

lemma strip_readonly_readonly:
  "q_readonly (collect_qualifiers (strip_qualifiers e False True) q) = q_readonly q"
  by (induction e arbitrary: q rule: chain_induct)
    (simp_all add: qualifier_chain split: qualifier.splits)

lemma strip_readonly_required:
  "q_required (collect_qualifiers (strip_qualifiers e False True) q) =
     q_required (collect_qualifiers e q)"
proof (induction e arbitrary: q rule: chain_induct)
  case (generic h a)
  have "q_required (collect_qualifiers a (q\<lparr>q_readonly := True\<rparr>)) =
      q_required (collect_qualifiers a q)"
    using collect_required [of a q] collect_required [of a "q\<lparr>q_readonly := True\<rparr>"]
    by (simp split: option.splits)
  then show ?case
    using generic by (simp add: qualifier_chain split: qualifier.splits)
qed (simp_all add: other_unchanged)

lemma strip_canonical: "canonical e \<Longrightarrow> canonical (strip_qualifiers e r w)"
proof (induction e rule: chain_induct)
  case (generic h a)
  then have "canonical (strip_qualifiers a r w)" by simp
  then show ?case
    using generic by (cases "qualifier_of h"; cases r; cases w) (simp_all add: strip_generic)
qed (simp_all add: other_unchanged)

lemma wrap_canonical:
  assumes "canonical e"
  shows "canonical (TGeneric ''NotRequired'' [e])" "canonical (TGeneric ''ReadOnly'' [e])"
    "render (TGeneric ''NotRequired'' [e]) = ''NotRequired['' @ render e @ '']''"
    "render (TGeneric ''ReadOnly'' [e]) = ''ReadOnly['' @ render e @ '']''"
proof -
  have "head_ok ''NotRequired'' 1" "head_ok ''ReadOnly'' 1" by code_simp+
  then show "canonical (TGeneric ''NotRequired'' [e])" "canonical (TGeneric ''ReadOnly'' [e])"
    using assms by simp_all
  have "normalize_type_head ''NotRequired'' = ''NotRequired''"
    "normalize_type_head ''ReadOnly'' = ''ReadOnly''" by code_simp+
  then show "render (TGeneric ''NotRequired'' [e]) = ''NotRequired['' @ render e @ '']''"
    "render (TGeneric ''ReadOnly'' [e]) = ''ReadOnly['' @ render e @ '']''" by simp_all
qed

lemma qualifier_heads: "qualifier_of ''NotRequired'' = SaysRequired False"
  "qualifier_of ''ReadOnly'' = SaysReadOnly" "qualifier_of ''Optional'' = SaysNothing"
  by code_simp+

lemma wrap_flags:
  "requiredness (TGeneric ''ReadOnly'' [e]) = requiredness e"
  "readonlyness (TGeneric ''ReadOnly'' [e])"
  "readonlyness (TGeneric ''NotRequired'' [e]) = readonlyness e"
  "q_required (collect_qualifiers e no_qualifiers) = None \<Longrightarrow>
     \<not> requiredness (TGeneric ''NotRequired'' [e])"
  unfolding requiredness_def readonlyness_def collect_generic qualifier_heads qualifier.case
    collect_required [of e "no_qualifiers\<lparr>q_readonly := True\<rparr>"]
    collect_readonly [of e "no_qualifiers\<lparr>q_readonly := True\<rparr>"]
    collect_required [of e "no_qualifiers\<lparr>q_required := Some False\<rparr>"]
    collect_readonly [of e "no_qualifiers\<lparr>q_required := Some False\<rparr>"]
  by (simp_all add: no_qualifiers_def split: option.splits)

lemma strip_flags:
  "requiredness (strip_qualifiers e True False)"
  "readonlyness (strip_qualifiers e True False) = readonlyness e"
  "requiredness (strip_qualifiers e False True) = requiredness e"
  "\<not> readonlyness (strip_qualifiers e False True)"
  by (simp_all add: requiredness_def readonlyness_def strip_requiredness_required
      strip_requiredness_readonly strip_readonly_readonly strip_readonly_required no_qualifiers_def)

lemma strip_text:
  "canonical e \<Longrightarrow> strip_shape_annotation_qualifiers (render e) r w = render (strip_qualifiers e r w)"
  by (simp add: strip_shape_annotation_qualifiers_def parse_back)

lemma qualifiers_text:
  "canonical e \<Longrightarrow> shape_annotation_qualifiers_of (render e) = collect_qualifiers e no_qualifiers"
  by (simp add: shape_annotation_qualifiers_of_def parse_back)

lemma partial_coherent: "coherent_field f \<Longrightarrow> coherent_field (partial_field f)"
proof (erule coherentE)
  fix e
  assume e: "canonical e" "annotation_or_object f = render e" "sf_readonly f = readonlyness e"
  let ?s = "strip_qualifiers e True False"
  have c: "canonical ?s" using e(1) by (rule strip_canonical)
  have "\<not> requiredness (TGeneric ''NotRequired'' [?s])"
    by (rule wrap_flags) (simp add: strip_requiredness_required no_qualifiers_def)
  then show ?thesis
    using e strip_flags(2) [of e] wrap_flags(3) [of ?s] wrap_canonical [OF c]
    by (intro coherentI [of "TGeneric ''NotRequired'' [?s]"])
      (simp_all add: partial_field_def projected_def annotation_or_object_def strip_text)
qed

lemma required_coherent: "coherent_field f \<Longrightarrow> coherent_field (required_field f)"
proof (erule coherentE)
  fix e
  assume e: "canonical e" "annotation_or_object f = render e" "sf_readonly f = readonlyness e"
  then show ?thesis
    using strip_canonical [OF e(1)] strip_flags [of e]
    by (intro coherentI [of "strip_qualifiers e True False"])
      (simp_all add: required_field_def projected_def annotation_or_object_def strip_text)
qed

lemma mutable_coherent: "coherent_field f \<Longrightarrow> coherent_field (mutable_field f)"
proof (erule coherentE)
  fix e
  assume e: "canonical e" "annotation_or_object f = render e" "sf_required f = requiredness e"
  then show ?thesis
    using strip_canonical [OF e(1)] strip_flags [of e]
    by (intro coherentI [of "strip_qualifiers e False True"])
      (simp_all add: mutable_field_def projected_def annotation_or_object_def strip_text)
qed

lemma readonly_coherent: "coherent_field f \<Longrightarrow> coherent_field (readonly_field f)"
proof (erule coherentE)
  fix e
  assume e: "canonical e" "annotation_or_object f = render e" "sf_required f = requiredness e"
  show ?thesis
  proof (cases "readonlyness e")
    case True
    then show ?thesis
      using e qualifiers_text [OF e(1)]
      by (intro coherentI [of e])
        (simp_all add: readonly_field_def projected_def annotation_or_object_def readonlyness_def)
  next
    case False
    then show ?thesis
      using e qualifiers_text [OF e(1)] wrap_canonical [OF e(1)] wrap_flags [of e]
      by (intro coherentI [of "TGeneric ''ReadOnly'' [e]"])
        (simp_all add: readonly_field_def projected_def annotation_or_object_def
          readonlyness_def [of e])
  qed
qed

lemma projected_coherent: "coherent_field (projected f) = coherent_field f"
  by (simp add: coherent_field_def projected_def annotation_or_object_def split: option.splits)

lemma coherent_render:
  assumes "canonical e" "annotation_or_object f = render e"
  shows "coherent_field f \<longleftrightarrow> sf_required f = requiredness e \<and> sf_readonly f = readonlyness e"
  using assms by (simp add: coherent_field_def parse_back [OF assms(1)])

lemma wrap_optional:
  assumes "canonical e"
  shows "canonical (TGeneric ''Optional'' [e])"
    "render (TGeneric ''Optional'' [e]) = ''Optional['' @ render e @ '']''"
    "requiredness (TGeneric ''Optional'' [e])" "\<not> readonlyness (TGeneric ''Optional'' [e])"
proof -
  have "head_ok ''Optional'' 1" by code_simp
  then show "canonical (TGeneric ''Optional'' [e])" using assms by simp
  have "normalize_type_head ''Optional'' = ''Optional''" by code_simp
  then show "render (TGeneric ''Optional'' [e]) = ''Optional['' @ render e @ '']''" by simp
  show "requiredness (TGeneric ''Optional'' [e])" "\<not> readonlyness (TGeneric ''Optional'' [e])"
    unfolding requiredness_def readonlyness_def collect_generic qualifier_heads qualifier.case
    by (simp_all add: no_qualifiers_def)
qed

text \<open>
  What \<^verbatim>\<open>MapValues\<close> asks of a field: its \<^verbatim>\<open>Optional[..]\<close> hides the
  qualifiers, and its \<^verbatim>\<open>Readonly\<close> takes any \<^verbatim>\<open>ReadOnly[\<close> in the text
  for the qualifier.
\<close>

definition map_value_fits :: "string \<Rightarrow> shape_projection_field \<Rightarrow> bool" where
  "map_value_fits wrapper f \<longleftrightarrow>
     (if trim wrapper = ''Optional'' then sf_required f \<and> \<not> sf_readonly f
      else trim wrapper = ''Readonly'' \<longrightarrow>
             contains_str ''ReadOnly['' (annotation_or_object f) \<longrightarrow> sf_readonly f)"

lemma map_value_coherent:
  assumes "coherent_field f"
  shows "coherent_field (map_value_field wrapper f) \<longleftrightarrow> map_value_fits wrapper f"
  using assms
proof (rule coherentE)
  fix e
  assume e: "canonical e" "annotation_or_object f = render e"
    "sf_required f = requiredness e" "sf_readonly f = readonlyness e"
  let ?f = "map_value_field wrapper f"
  consider (optional) "trim wrapper = ''Optional''"
    | (readonly) "trim wrapper = ''Readonly''"
    | (other) "trim wrapper \<noteq> ''Optional''" "trim wrapper \<noteq> ''Readonly''" by blast
  then show ?thesis
  proof cases
    case optional
    have "annotation_or_object ?f = render (TGeneric ''Optional'' [e])"
      using wrap_optional(2) [OF e(1)] e(2) optional
      by (simp add: map_value_field_def projected_def annotation_or_object_def Let_def)
    then show ?thesis
      using coherent_render [OF wrap_optional(1) [OF e(1)]] wrap_optional(3,4) [OF e(1)] optional
      by (simp add: map_value_fits_def map_value_field_def projected_def Let_def)
  next
    case readonly
    show ?thesis
    proof (cases "contains_str ''ReadOnly['' (annotation_or_object f)")
      case True
      then have "annotation_or_object ?f = render e"
        using e(2) readonly
        by (simp add: map_value_field_def projected_def annotation_or_object_def Let_def)
      then show ?thesis
        using coherent_render [OF e(1)] e(3,4) True readonly
        by (simp add: map_value_fits_def map_value_field_def projected_def Let_def)
    next
      case False
      then have "annotation_or_object ?f = render (TGeneric ''ReadOnly'' [e])"
        using wrap_canonical(4) [OF e(1)] e(2) readonly
        by (simp add: map_value_field_def projected_def annotation_or_object_def Let_def)
      then show ?thesis
        using coherent_render [OF wrap_canonical(2) [OF e(1)]] wrap_flags(1,2) [of e] e(3) False readonly
        by (simp add: map_value_fits_def map_value_field_def projected_def Let_def)
    qed
  next
    case other
    then have "annotation_or_object ?f = render e"
      using e(2) by (simp add: map_value_field_def projected_def annotation_or_object_def Let_def)
    then show ?thesis
      using coherent_render [OF e(1)] e(3,4) other
      by (simp add: map_value_fits_def map_value_field_def projected_def Let_def)
  qed
qed

definition member_annotation :: "class_member \<Rightarrow> string option" where
  "member_annotation m =
     (case cm_annotation m of Some a \<Rightarrow> Some a | None \<Rightarrow> map_option render (cm_annotation_expr m))"

text \<open>A member whose annotation is a canonical type text.\<close>

definition canonical_member :: "class_member \<Rightarrow> bool" where
  "canonical_member m =
     (case member_annotation m of
        None \<Rightarrow> False
      | Some a \<Rightarrow> (case type_expr_parse a of None \<Rightarrow> False | Some e \<Rightarrow> canonical e \<and> render e = a))"

lemma member_coherent:
  assumes "canonical_member m"
  shows "coherent_field (from_class_member_with_total_default m td)"
proof -
  obtain e where e: "canonical e" "member_annotation m = Some (render e)"
    using assms by (auto simp: canonical_member_def split: option.splits)
  let ?q = "q_required (collect_qualifiers e no_qualifiers)"
  show ?thesis
  proof (cases "?q = None \<and> \<not> td")
    case True
    then show ?thesis
      using e wrap_canonical [OF e(1)] wrap_flags(3,4) [of e]
      by (intro coherentI [of "TGeneric ''NotRequired'' [e]"])
        (simp_all add: from_class_member_with_total_default_def member_annotation_def Let_def
          annotation_or_object_def qualifiers_text readonlyness_def [of e])
  next
    case False
    then show ?thesis
      using e
      by (intro coherentI [of e])
        (auto simp: from_class_member_with_total_default_def member_annotation_def Let_def
          annotation_or_object_def qualifiers_text readonlyness_def requiredness_def
          split: option.splits)
  qed
qed

text \<open>
  C11: which operations keep the flags of every field saying what its annotation says. A block
  whose members have canonical annotations gives a coherent shape, and \<^verbatim>\<open>Partial\<close>,
  \<^verbatim>\<open>Required_\<close>, \<^verbatim>\<open>Readonly\<close>, \<^verbatim>\<open>Mutable\<close>,
  \<^verbatim>\<open>Pick\<close> and \<^verbatim>\<open>Omit\<close> always keep a shape coherent.
  \<^verbatim>\<open>MapValues\<close> does not always: with \<^verbatim>\<open>Optional\<close> it keeps it just when
  no field is optional or read-only, because the qualifier ends up inside
  \<^verbatim>\<open>Optional[..]\<close>, where no reader looks for it; with \<^verbatim>\<open>Readonly\<close> just
  when every field whose text has \<^verbatim>\<open>ReadOnly[\<close> somewhere has it as its qualifier; and
  with any other wrapper, which changes nothing, always.
\<close>

theorem transforms_keep_coherence:
  assumes "\<forall>m\<in>set (nb_members block). cm_kind m = MemberField \<longrightarrow> canonical_member m"
    and "coherent_shape s"
  shows "coherent_shape (from_typed_dict_block block) \<and> coherent_shape (from_named_block block kind) \<and>
    coherent_shape (partial_shape s) \<and> coherent_shape (required_fields s) \<and>
    coherent_shape (readonly_fields s) \<and> coherent_shape (mutable_fields s) \<and>
    coherent_shape (pick s names) \<and> coherent_shape (omit s names) \<and>
    coherent_shape (map_values s wrapper) = list_all (map_value_fits wrapper) (sp_fields s)"
proof -
  have "coherent_shape (from_named_block_with_total_default block k td)" for k td
    using assms(1) member_coherent
    by (auto simp: coherent_shape_def list_all_iff from_named_block_with_total_default_def)
  moreover have "coherent_shape (map_values s wrapper) = list_all (map_value_fits wrapper) (sp_fields s)"
    using assms(2) map_value_coherent
    by (simp add: coherent_shape_def list_all_iff map_values_def with_projected_fields_def)
  ultimately show ?thesis
    using assms(2)
    by (auto simp: coherent_shape_def list_all_iff from_typed_dict_block_def from_named_block_def
        partial_shape_def required_fields_def readonly_fields_def mutable_fields_def pick_def omit_def
        with_projected_fields_def partial_coherent required_coherent readonly_coherent
        mutable_coherent projected_coherent)
qed

definition sample_block :: named_block where
  "sample_block =
     \<lparr>nb_name = ''User'', nb_type_params = [], nb_header_suffix = ''(TypedDict, total = False)'',
      nb_bases = [''TypedDict''], nb_is_final_decorator = False, nb_is_deprecated = False,
      nb_deprecation_message = None, nb_is_abstract_class = False,
      nb_members = [plain_field ''id'' (Some ''Required[int]''),
                    plain_field ''name'' (Some ''ReadOnly[str]'')],
      nb_line = 1\<rparr>"

theorem transforms_keep_coherence_witness:
  "coherent_shape (partial_shape (from_typed_dict_block sample_block)) \<and>
   \<not> coherent_shape (map_values (from_typed_dict_block sample_block) ''Optional'') \<and>
   coherent_shape (map_values (from_typed_dict_block sample_block) ''Readonly'')"
proof -
  have m: "list_all (\<lambda>m. cm_kind m = MemberField \<longrightarrow> canonical_member m) (nb_members sample_block)"
    and s: "coherent_shape (from_typed_dict_block sample_block)" by code_simp+
  have fits: "\<not> list_all (map_value_fits ''Optional'') (sp_fields (from_typed_dict_block sample_block))"
    "list_all (map_value_fits ''Readonly'') (sp_fields (from_typed_dict_block sample_block))"
    by code_simp+
  show ?thesis
    using transforms_keep_coherence [OF m [unfolded list_all_iff] s] fits by blast
qed

text \<open>
  \<^verbatim>\<open>MapValues[.., Optional]\<close> does not keep it. It wraps the whole annotation, so the
  qualifier of an optional key ends up inside \<^verbatim>\<open>Optional[..]\<close>, where no reader looks for
  it: the flag of the field says optional, the annotation that is emitted says required.
\<close>

lemma map_values_optional_loses_qualifier:
  "coherent_shape (partial_shape (from_typed_dict_block sample_block)) \<and>
   \<not> coherent_shape (map_values (partial_shape (from_typed_dict_block sample_block)) ''Optional'') \<and>
   map cm_annotation (materialize_members
     (map_values (partial_shape (from_typed_dict_block sample_block)) ''Optional'')) =
   [Some ''Optional[NotRequired[int]]'', Some ''Optional[NotRequired[ReadOnly[str]]]'']"
proof (intro conjI)
  show "coherent_shape (partial_shape (from_typed_dict_block sample_block))" by code_simp
  show "\<not> coherent_shape (map_values (partial_shape (from_typed_dict_block sample_block)) ''Optional'')"
    by code_simp
  show "map cm_annotation (materialize_members
     (map_values (partial_shape (from_typed_dict_block sample_block)) ''Optional'')) =
   [Some ''Optional[NotRequired[int]]'', Some ''Optional[NotRequired[ReadOnly[str]]]'']"
    by code_simp
qed

section \<open>Algebra of the transforms\<close>

lemma strip_idem: "strip_qualifiers (strip_qualifiers e r w) r w = strip_qualifiers e r w"
proof (induction e rule: chain_induct)
  case (generic h a)
  then show ?case by (cases "qualifier_of h"; cases r; cases w) (simp_all add: strip_generic)
qed (simp_all add: other_unchanged)

lemma strip_wrapped:
  "strip_qualifiers (TGeneric ''NotRequired'' [e]) True False = strip_qualifiers e True False"
  "strip_qualifiers (TGeneric ''ReadOnly'' [e]) False True = strip_qualifiers e False True"
  by (simp_all add: strip_generic qualifier_heads)

text \<open>The annotation of a transformed field, as an expression.\<close>

lemma field_eqI:
  assumes "sf_annotation f = sf_annotation g" "sf_required f = sf_required g"
    "sf_readonly f = sf_readonly g" "sf_name f = sf_name g" "sf_public_alias f = sf_public_alias g"
    "sf_source_kind f = sf_source_kind g"
  shows "f = (g :: shape_projection_field)"
  using assms by simp

lemma partial_annotation:
  "canonical e \<Longrightarrow> annotation_or_object f = render e \<Longrightarrow>
    annotation_or_object (partial_field f) = render (TGeneric ''NotRequired'' [strip_qualifiers e True False])"
  by (simp add: wrap_canonical(3) [OF strip_canonical] partial_field_def projected_def
      annotation_or_object_def strip_text del: render.simps)

lemma required_annotation:
  "canonical e \<Longrightarrow> annotation_or_object f = render e \<Longrightarrow>
    annotation_or_object (required_field f) = render (strip_qualifiers e True False)"
  by (simp add: required_field_def projected_def annotation_or_object_def strip_text)

lemma mutable_annotation:
  "canonical e \<Longrightarrow> annotation_or_object f = render e \<Longrightarrow>
    annotation_or_object (mutable_field f) = render (strip_qualifiers e False True)"
  by (simp add: mutable_field_def projected_def annotation_or_object_def strip_text)

lemma readonly_annotation:
  "canonical e \<Longrightarrow> annotation_or_object f = render e \<Longrightarrow>
    annotation_or_object (readonly_field f) =
      render (if readonlyness e then e else TGeneric ''ReadOnly'' [e])"
  by (simp add: wrap_canonical(4) readonly_field_def projected_def annotation_or_object_def
      qualifiers_text readonlyness_def del: render.simps)

lemma transform_results:
  assumes "canonical e" "annotation_or_object f = render e"
  shows "required_field f = projected (f\<lparr>sf_annotation :=
      Some (render (strip_qualifiers e True False)), sf_required := True\<rparr>)"
    and "partial_field f = projected (f\<lparr>sf_annotation :=
      Some (''NotRequired['' @ render (strip_qualifiers e True False) @ '']''), sf_required := False\<rparr>)"
    and "mutable_field f = projected (f\<lparr>sf_annotation :=
      Some (render (strip_qualifiers e False True)), sf_readonly := False\<rparr>)"
  using assms by (simp_all add: required_field_def partial_field_def mutable_field_def strip_text)

lemma field_algebra:
  assumes "coherent_field f"
  shows "required_field (partial_field f) = required_field f"
    and "partial_field (required_field f) = partial_field f"
    and "partial_field (partial_field f) = partial_field f"
    and "mutable_field (readonly_field f) = mutable_field f"
    and "mutable_field (mutable_field f) = mutable_field f"
proof -
  obtain e where e: "canonical e" "annotation_or_object f = render e"
    using assms by (rule coherentE)
  note c = strip_canonical [OF e(1)]
  note results = transform_results [OF e]
  note after_partial = transform_results [OF wrap_canonical(1) [OF c] partial_annotation [OF e]]
  note after_required = transform_results [OF c required_annotation [OF e]]
  note after_mutable = transform_results [OF c mutable_annotation [OF e]]
  have ro: "canonical (if readonlyness e then e else TGeneric ''ReadOnly'' [e])"
    using wrap_canonical(2) [OF e(1)] e(1) by simp
  note after_readonly = transform_results [OF ro readonly_annotation [OF e]]
  have rs: "strip_qualifiers (if readonlyness e then e else TGeneric ''ReadOnly'' [e]) False True =
      strip_qualifiers e False True"
    by (simp add: strip_wrapped)
  show "required_field (partial_field f) = required_field f"
    unfolding after_partial strip_wrapped strip_idem unfolding results
    by (simp add: projected_def)
  show "partial_field (required_field f) = partial_field f"
    unfolding after_required strip_idem unfolding results by (simp add: projected_def)
  show "partial_field (partial_field f) = partial_field f"
    unfolding after_partial strip_wrapped strip_idem unfolding results
    by (simp add: projected_def)
  show "mutable_field (readonly_field f) = mutable_field f"
    unfolding after_readonly rs unfolding results by (simp add: projected_def readonly_field_def)
  show "mutable_field (mutable_field f) = mutable_field f"
    unfolding after_mutable strip_idem unfolding results by (simp add: projected_def)
qed

text \<open>
  On a coherent shape the transforms compose as the type-level operators should.
  Making the fields optional and then required is making them required, and the other way
  round; read-only and then mutable is mutable; each of \<^verbatim>\<open>Partial\<close> and
  \<^verbatim>\<open>Mutable\<close> twice is once.
\<close>

lemma transform_algebra:
  assumes "coherent_shape s"
  shows "required_fields (partial_shape s) = required_fields s \<and>
    partial_shape (required_fields s) = partial_shape s \<and>
    partial_shape (partial_shape s) = partial_shape s \<and>
    mutable_fields (readonly_fields s) = mutable_fields s \<and>
    mutable_fields (mutable_fields s) = mutable_fields s"
  using assms field_algebra
  by (simp add: coherent_shape_def list_all_iff required_fields_def partial_shape_def
      mutable_fields_def readonly_fields_def with_projected_fields_def)

end
