(* ===== verification/Semantic_Type.thy ===== *)
theory Semantic_Type
  imports Type_Roundtrip
begin

text \<open>
  Semantic types (crates/typepython_checking, type_core.rs): lowering of type expressions
  and back, rendering, unions and tuple shapes, and the interning store, with its interface
  as the locale \<open>interner\<close>.
\<close>

section \<open>The type and its conversions\<close>

datatype semantic_type =
    SName string
  | SGeneric string "semantic_type list"
  | SCallable semantic_callable_params semantic_type
  | SUnion "semantic_type list"
  | SAnnotated semantic_type "string list"
  | SUnpack semantic_type
and semantic_callable_params =
    SEllipsis
  | SParamList "semantic_type list"
  | SConcatenate "semantic_type list"
  | SSingle semantic_type

fun lower_type_expr :: "type_expr \<Rightarrow> semantic_type"
  and lower_callable_params :: "callable_param_expr \<Rightarrow> semantic_callable_params" where
  "lower_type_expr (TName name) = SName name"
| "lower_type_expr (TGeneric head args) = SGeneric head (map lower_type_expr args)"
| "lower_type_expr (TCallable params return_type) =
     SCallable (lower_callable_params params) (lower_type_expr return_type)"
| "lower_type_expr (TUnion branches _) = SUnion (map lower_type_expr branches)"
| "lower_type_expr (TAnnotated value metadata) = SAnnotated (lower_type_expr value) metadata"
| "lower_type_expr (TUnpack inner) = SUnpack (lower_type_expr inner)"
| "lower_callable_params CEllipsis = SEllipsis"
| "lower_callable_params (CParamList types) = SParamList (map lower_type_expr types)"
| "lower_callable_params (CConcatenate types) = SConcatenate (map lower_type_expr types)"
| "lower_callable_params (CSingle expr) = SSingle (lower_type_expr expr)"

fun semantic_type_to_type_expr :: "semantic_type \<Rightarrow> type_expr"
  and semantic_callable_params_to_type_expr :: "semantic_callable_params \<Rightarrow> callable_param_expr" where
  "semantic_type_to_type_expr (SName name) = TName name"
| "semantic_type_to_type_expr (SGeneric head args) =
     TGeneric head (map semantic_type_to_type_expr args)"
| "semantic_type_to_type_expr (SCallable params return_type) =
     TCallable (semantic_callable_params_to_type_expr params)
       (semantic_type_to_type_expr return_type)"
| "semantic_type_to_type_expr (SUnion branches) =
     TUnion (map semantic_type_to_type_expr branches) Explicit"
| "semantic_type_to_type_expr (SAnnotated value metadata) =
     TAnnotated (semantic_type_to_type_expr value) metadata"
| "semantic_type_to_type_expr (SUnpack inner) = TUnpack (semantic_type_to_type_expr inner)"
| "semantic_callable_params_to_type_expr SEllipsis = CEllipsis"
| "semantic_callable_params_to_type_expr (SParamList types) =
     CParamList (map semantic_type_to_type_expr types)"
| "semantic_callable_params_to_type_expr (SConcatenate types) =
     CConcatenate (map semantic_type_to_type_expr types)"
| "semantic_callable_params_to_type_expr (SSingle expr) = CSingle (semantic_type_to_type_expr expr)"

fun render_semantic_type :: "semantic_type \<Rightarrow> string"
  and render_semantic_callable_params :: "semantic_callable_params \<Rightarrow> string" where
  "render_semantic_type (SName name) = name"
| "render_semantic_type (SGeneric head args) =
     head @ ''['' @ join_with '', '' (map render_semantic_type args) @ '']''"
| "render_semantic_type (SCallable params return_type) =
     ''Callable['' @ render_semantic_callable_params params @ '', '' @
       render_semantic_type return_type @ '']''"
| "render_semantic_type (SUnion branches) =
     (let rendered = map render_semantic_type branches
      in if length rendered = 1 then hd rendered
         else ''Union['' @ join_with '', '' rendered @ '']'')"
| "render_semantic_type (SAnnotated value metadata) =
     (if metadata = [] then ''Annotated['' @ render_semantic_type value @ '']''
      else ''Annotated['' @ render_semantic_type value @ '', '' @ join_with '', '' metadata @ '']'')"
| "render_semantic_type (SUnpack inner) = ''Unpack['' @ render_semantic_type inner @ '']''"
| "render_semantic_callable_params SEllipsis = ''...''"
| "render_semantic_callable_params (SParamList types) =
     ''['' @ join_with '', '' (map render_semantic_type types) @ '']''"
| "render_semantic_callable_params (SConcatenate types) =
     ''Concatenate['' @ join_with '', '' (map render_semantic_type types) @ '']''"
| "render_semantic_callable_params (SSingle expr) = render_semantic_type expr"

definition semantic_parse :: "string \<Rightarrow> semantic_type option" where
  "semantic_parse text = map_option lower_type_expr (type_expr_parse text)"

definition lower_type_text :: "string \<Rightarrow> semantic_type option" where
  "lower_type_text text = semantic_parse text"

definition lower_type_text_or_name :: "string \<Rightarrow> semantic_type" where
  "lower_type_text_or_name text =
     (case lower_type_text text of Some t \<Rightarrow> t | None \<Rightarrow> SName (trim text))"

fun strip_annotated :: "semantic_type \<Rightarrow> semantic_type" where
  "strip_annotated (SAnnotated value _) = strip_annotated value"
| "strip_annotated t = t"

definition semantic_generic_parts :: "semantic_type \<Rightarrow> (string \<times> semantic_type list) option" where
  "semantic_generic_parts t =
     (case strip_annotated t of SGeneric head args \<Rightarrow> Some (head, args) | _ \<Rightarrow> None)"

definition unpacked_inner :: "semantic_type \<Rightarrow> semantic_type option" where
  "unpacked_inner t = (case strip_annotated t of SUnpack inner \<Rightarrow> Some inner | _ \<Rightarrow> None)"

definition semantic_callable_parts ::
    "semantic_type \<Rightarrow> (semantic_callable_params \<times> semantic_type) option" where
  "semantic_callable_parts t =
     (case strip_annotated t of SCallable params r \<Rightarrow> Some (params, r) | _ \<Rightarrow> None)"

definition semantic_nominal_owner_name :: "semantic_type \<Rightarrow> string option" where
  "semantic_nominal_owner_name t =
     (case strip_annotated t of
        SName name \<Rightarrow> Some name | SGeneric head _ \<Rightarrow> Some head | _ \<Rightarrow> None)"

section \<open>Unions and tuples\<close>

definition semantic_union_branches :: "semantic_type \<Rightarrow> semantic_type list option" where
  "semantic_union_branches t =
     (case strip_annotated t of
        SUnion branches \<Rightarrow> Some branches
      | SGeneric head args \<Rightarrow>
          (if head = ''Optional'' \<and> length args = 1 then Some [hd args, SName ''None''] else None)
      | _ \<Rightarrow> None)"

definition push_new :: "'a list \<Rightarrow> 'a \<Rightarrow> 'a list" where
  "push_new branches x = (if x \<in> set branches then branches else branches @ [x])"

definition join_step :: "semantic_type list \<Rightarrow> semantic_type \<Rightarrow> semantic_type list" where
  "join_step branches candidate =
     (case semantic_union_branches candidate of
        Some candidate_branches \<Rightarrow> foldl push_new branches candidate_branches
      | None \<Rightarrow> push_new branches candidate)"

definition join_semantic_type_candidates :: "semantic_type list \<Rightarrow> semantic_type" where
  "join_semantic_type_candidates candidates =
     (let branches = foldl join_step [] candidates
      in if length branches = 1 then hd branches else SUnion branches)"

definition unpacked_fixed_tuple_semantic_elements :: "semantic_type \<Rightarrow> semantic_type list option" where
  "unpacked_fixed_tuple_semantic_elements t =
     (case semantic_generic_parts t of
        None \<Rightarrow> None
      | Some (head, args) \<Rightarrow>
          if head \<noteq> ''tuple'' then None
          else if length args = 2 \<and> args ! 1 = SName ''...'' then None
          else Some args)"

definition expand_tuple_arg :: "semantic_type \<Rightarrow> semantic_type list" where
  "expand_tuple_arg arg =
     (case Option.bind (unpacked_inner arg) unpacked_fixed_tuple_semantic_elements of
        Some elements \<Rightarrow> elements
      | None \<Rightarrow> [arg])"

definition expanded_tuple_shape_semantic_args :: "semantic_type list \<Rightarrow> semantic_type list" where
  "expanded_tuple_shape_semantic_args args = concat (map expand_tuple_arg args)"

section \<open>Interning\<close>

type_synonym type_id = nat

record type_store =
  arena :: "semantic_type list"
  ids_by_type :: "semantic_type \<rightharpoonup> type_id"

definition empty_store :: type_store where
  "empty_store = \<lparr>arena = [], ids_by_type = Map.empty\<rparr>"

definition intern :: "semantic_type \<Rightarrow> type_store \<Rightarrow> type_id \<times> type_store" where
  "intern t store =
     (case ids_by_type store t of
        Some existing \<Rightarrow> (existing, store)
      | None \<Rightarrow>
          (let id' = length (arena store)
           in (id', \<lparr>arena = arena store @ [t], ids_by_type = (ids_by_type store)(t \<mapsto> id')\<rparr>)))"

definition store_get :: "type_store \<Rightarrow> type_id \<Rightarrow> semantic_type option" where
  "store_get store i = (if i < length (arena store) then Some (arena store ! i) else None)"

text \<open>The map and the arena are inverse to each other.\<close>

definition store_ok :: "type_store \<Rightarrow> bool" where
  "store_ok store \<longleftrightarrow> (\<forall>t i. ids_by_type store t = Some i \<longleftrightarrow> store_get store i = Some t)"

text \<open>
  What a user of an interning store relies on: the id it gets leads back to the type, ids
  given out earlier stay valid, and equal ids mean equal types.
\<close>

locale interner =
  fixes put :: "'t \<Rightarrow> 's \<Rightarrow> 'i \<times> 's"
    and look :: "'s \<Rightarrow> 'i \<Rightarrow> 't option"
    and ok :: "'s \<Rightarrow> bool"
    and start :: 's
  assumes start_ok: "ok start"
    and put_ok: "ok s \<Longrightarrow> ok (snd (put t s))"
    and look_put: "ok s \<Longrightarrow> look (snd (put t s)) (fst (put t s)) = Some t"
    and look_stable: "ok s \<Longrightarrow> look s i = Some u \<Longrightarrow> look (snd (put t s)) i = Some u"
    and look_unique: "ok s \<Longrightarrow> look s i = Some t \<Longrightarrow> look s j = Some t \<Longrightarrow> i = j"
begin

fun put_all :: "'t list \<Rightarrow> 's \<Rightarrow> 'i list \<times> 's" where
  "put_all [] s = ([], s)"
| "put_all (t # ts) s =
     (let (i, s1) = put t s; (is, s2) = put_all ts s1 in (i # is, s2))"

lemma put_all_ok: "ok s \<Longrightarrow> ok (snd (put_all ts s))"
proof (induction ts arbitrary: s)
  case (Cons t ts)
  then show ?case
    using put_ok [OF Cons.prems, of t] by (simp add: case_prod_beta Let_def)
qed simp

lemma put_all_stable:
  "ok s \<Longrightarrow> look s i = Some u \<Longrightarrow> look (snd (put_all ts s)) i = Some u"
proof (induction ts arbitrary: s)
  case (Cons t ts)
  then show ?case
    using put_ok [OF Cons.prems(1), of t] look_stable [OF Cons.prems, of t]
    by (simp add: case_prod_beta Let_def)
qed simp

lemma put_all_look:
  "ok s \<Longrightarrow> map (look (snd (put_all ts s))) (fst (put_all ts s)) = map Some ts"
proof (induction ts arbitrary: s)
  case (Cons t ts)
  then show ?case
    using put_ok [OF Cons.prems, of t] look_put [OF Cons.prems, of t]
    by (simp add: case_prod_beta Let_def put_all_stable)
qed simp

lemma put_again: "ok s \<Longrightarrow> look s i = Some t \<Longrightarrow> fst (put t s) = i"
  using look_unique [OF put_ok look_put look_stable] by blast

end

lemma store_get_bound: "store_get store i = Some t \<Longrightarrow> i < length (arena store)"
  by (simp add: store_get_def split: if_splits)

lemma store_ok_empty: "store_ok empty_store"
  by (simp add: store_ok_def empty_store_def store_get_def)

lemma intern_new:
  "ids_by_type s t = None \<Longrightarrow>
    intern t s = (length (arena s), \<lparr>arena = arena s @ [t],
      ids_by_type = (ids_by_type s)(t \<mapsto> length (arena s))\<rparr>)"
  by (simp add: intern_def Let_def)

lemma intern_known: "ids_by_type s t = Some i \<Longrightarrow> intern t s = (i, s)"
  by (simp add: intern_def)

lemma store_get_push:
  "store_get \<lparr>arena = arena s @ [t], ids_by_type = m\<rparr> i =
    (if i = length (arena s) then Some t else store_get s i)"
  by (auto simp: store_get_def nth_append)

lemma store_ok_intern: "store_ok s \<Longrightarrow> store_ok (snd (intern t s))"
proof (cases "ids_by_type s t")
  case None
  assume ok: "store_ok s"
  have fresh: "store_get s i \<noteq> Some t" for i using ok None unfolding store_ok_def by (metis option.distinct(1))
  have high: "ids_by_type s u \<noteq> Some (length (arena s))" for u
    using ok store_get_bound [of s "length (arena s)" u] by (auto simp: store_ok_def)
  show ?thesis
    using ok fresh high by (auto simp: intern_new [OF None] store_ok_def store_get_push)
qed (simp add: intern_known)

interpretation store: interner intern store_get store_ok empty_store
proof unfold_locales
  show "store_ok empty_store" by (rule store_ok_empty)
next
  fix s t
  assume "store_ok s"
  then show "store_ok (snd (intern t s))" by (rule store_ok_intern)
next
  fix s t
  assume ok: "store_ok s"
  then show "store_get (snd (intern t s)) (fst (intern t s)) = Some t"
    by (cases "ids_by_type s t")
      (auto simp: intern_new intern_known store_get_push store_ok_def)
next
  fix s i u t
  assume ok: "store_ok s" and g: "store_get s i = Some u"
  show "store_get (snd (intern t s)) i = Some u"
    using g store_get_bound [OF g]
    by (cases "ids_by_type s t") (auto simp: intern_new intern_known store_get_push)
next
  fix s i j t
  assume ok: "store_ok s" and "store_get s i = Some t" "store_get s j = Some t"
  then have "ids_by_type s t = Some i" "ids_by_type s t = Some j" by (simp_all add: store_ok_def)
  then show "i = j" by simp
qed

text \<open>Interning a list from left to right, as \<^verbatim>\<open>into_iter().map(|ty| store.intern(ty))\<close> does.\<close>

fun intern_all :: "semantic_type list \<Rightarrow> type_store \<Rightarrow> type_id list \<times> type_store" where
  "intern_all [] store = ([], store)"
| "intern_all (t # ts) store =
     (let (i, store1) = intern t store; (ids, store2) = intern_all ts store1 in (i # ids, store2))"

lemma intern_all_put_all: "intern_all ts s = store.put_all ts s"
  by (induction ts arbitrary: s) simp_all

lemmas intern_all_ok = store.put_all_ok [folded intern_all_put_all]
lemmas intern_all_stable = store.put_all_stable [folded intern_all_put_all]
lemmas intern_all_look = store.put_all_look [folded intern_all_put_all]

lemma store_get_unique:
  "store_ok s \<Longrightarrow> store_get s i = Some t \<Longrightarrow> store_get s j = Some t \<Longrightarrow> i = j"
  by (rule store.look_unique)

section \<open>Properties\<close>

lemma lower_raise:
  "lower_type_expr (semantic_type_to_type_expr t) = t"
  "lower_callable_params (semantic_callable_params_to_type_expr p) = p"
  by (induction t and p rule: semantic_type_to_type_expr_semantic_callable_params_to_type_expr.induct)
    (simp_all add: map_idI)

text \<open>
  C14: lowering undoes raising, and so a semantic type survives being printed and parsed:
  when the expression it is raised to is canonical, its text denotes the same type.
\<close>

theorem semantic_type_roundtrip:
  "lower_type_expr (semantic_type_to_type_expr t) = t \<and>
   (canonical (semantic_type_to_type_expr t) \<longrightarrow>
      lower_type_text_or_name (render (semantic_type_to_type_expr t)) = t)"
  by (simp add: lower_raise lower_type_text_or_name_def lower_type_text_def semantic_parse_def
      parse_back)

theorem semantic_type_roundtrip_witness:
  "lower_type_text_or_name (render (semantic_type_to_type_expr
     (SUnion [SName ''int'', SCallable (SConcatenate [SName ''A'', SName ''P'']) (SName ''B'')]))) =
   SUnion [SName ''int'', SCallable (SConcatenate [SName ''A'', SName ''P'']) (SName ''B'')]"
proof -
  have "canonical (semantic_type_to_type_expr
      (SUnion [SName ''int'', SCallable (SConcatenate [SName ''A'', SName ''P'']) (SName ''B'')]))"
    by code_simp
  then show ?thesis using semantic_type_roundtrip by blast
qed

text \<open>
  C15: after interning a list of types every id leads back to its type, ids given out
  before stay valid, and two ids are equal exactly when their types are.
\<close>

theorem interning_is_faithful:
  assumes "store_ok s" "intern_all ts s = (ids, s')"
  shows "store_ok s' \<and> map (store_get s') ids = map Some ts \<and>
    (\<forall>i u. store_get s i = Some u \<longrightarrow> store_get s' i = Some u) \<and>
    (\<forall>m<length ts. \<forall>n<length ts. ids ! m = ids ! n \<longleftrightarrow> ts ! m = ts ! n)"
proof -
  have ok: "store_ok s'" and look: "map (store_get s') ids = map Some ts"
    using intern_all_ok [OF assms(1), of ts] intern_all_look [OF assms(1), of ts] assms(2) by simp_all
  then have len: "length ids = length ts" using map_eq_imp_length_eq by blast
  have at: "store_get s' (ids ! m) = Some (ts ! m)" if "m < length ts" for m
    using look that len by (metis nth_map)
  have "ids ! m = ids ! n \<longleftrightarrow> ts ! m = ts ! n" if "m < length ts" "n < length ts" for m n
    using at [OF that(1)] at [OF that(2)] store_get_unique [OF ok] by (metis option.inject)
  then show ?thesis
    using ok look intern_all_stable [OF assms(1), of _ _ ts] assms(2) by simp
qed

theorem interning_is_faithful_witness:
  "fst (intern_all [SName ''int'', SName ''str'', SName ''int''] empty_store) = [0, 1, 0] \<and>
   map (store_get (snd (intern_all [SName ''int'', SName ''str'', SName ''int''] empty_store)))
     (fst (intern_all [SName ''int'', SName ''str'', SName ''int''] empty_store)) =
   map Some [SName ''int'', SName ''str'', SName ''int'']"
proof -
  let ?ts = "[SName ''int'', SName ''str'', SName ''int'']"
  obtain ids s' where e: "intern_all ?ts empty_store = (ids, s')" by fastforce
  have "map (store_get s') ids = map Some ?ts"
    using interning_is_faithful [OF store_ok_empty e] by blast
  moreover have "fst (intern_all ?ts empty_store) = [0, 1, 0]"
    by (simp add: intern_def empty_store_def Let_def)
  ultimately show ?thesis using e by simp
qed

lemma push_new_set: "set (push_new bs x) = insert x (set bs)"
  by (auto simp: push_new_def)

lemma push_new_distinct: "distinct bs \<Longrightarrow> distinct (push_new bs x)"
  by (simp add: push_new_def)

lemma foldl_push_new:
  "set (foldl push_new bs xs) = set bs \<union> set xs"
  "distinct bs \<Longrightarrow> distinct (foldl push_new bs xs)"
  by (induction xs arbitrary: bs) (auto simp: push_new_set push_new_distinct)

definition flat_branches :: "semantic_type \<Rightarrow> semantic_type set" where
  "flat_branches t = (case semantic_union_branches t of Some bs \<Rightarrow> set bs | None \<Rightarrow> {t})"

lemma join_step_set: "set (join_step bs c) = set bs \<union> flat_branches c"
  by (auto simp: join_step_def flat_branches_def push_new_set foldl_push_new split: option.splits)

lemma join_step_distinct: "distinct bs \<Longrightarrow> distinct (join_step bs c)"
  by (auto simp: join_step_def push_new_distinct foldl_push_new split: option.splits)

lemma foldl_join_step:
  "set (foldl join_step bs cs) = set bs \<union> \<Union> (flat_branches ` set cs)"
  "distinct bs \<Longrightarrow> distinct (foldl join_step bs cs)"
  by (induction cs arbitrary: bs) (auto simp: join_step_set join_step_distinct)

lemma foldl_push_known: "set xs \<subseteq> set bs \<Longrightarrow> foldl push_new bs xs = bs"
  by (induction xs) (auto simp: push_new_def)

lemma join_step_known: "flat_branches c \<subseteq> set bs \<Longrightarrow> join_step bs c = bs"
  by (auto simp: join_step_def flat_branches_def push_new_def foldl_push_known split: option.splits)

text \<open>
  Joining candidates gives the union of their branches, each once: a single branch is
  returned bare, anything else as a union without duplicates, and a candidate whose branches
  are already there changes nothing.
\<close>

lemma join_collects_branches:
  "\<exists>bs. distinct bs \<and> set bs = \<Union> (flat_branches ` set cs) \<and>
     join_semantic_type_candidates cs = (if length bs = 1 then hd bs else SUnion bs) \<and>
     (\<forall>c. flat_branches c \<subseteq> set bs \<longrightarrow>
        join_semantic_type_candidates (cs @ [c]) = join_semantic_type_candidates cs)"
  by (rule exI [of _ "foldl join_step [] cs"])
    (simp add: foldl_join_step join_semantic_type_candidates_def join_step_known Let_def)

end
