(* ===== verification/Bindings.thy ===== *)
theory Bindings
  imports Type_Shapes
begin

text \<open>
  Bound declarations (crates/typepython_binding, types.rs): type expressions with their
  fallback, import targets, callable signatures and their text, and the declaration with its
  accessors.
\<close>

section \<open>Parameters and type parameters\<close>

datatype generic_type_param_kind = GTypeVar | GParamSpec | GTypeVarTuple

text \<open>\<^verbatim>\<open>BoundTypeExpr\<close> wraps one type expression.\<close>

record generic_type_param =
  gp_kind :: generic_type_param_kind
  gp_name :: string
  gp_bound_expr :: "type_expr option"
  gp_constraint_exprs :: "type_expr list"
  gp_default_expr :: "type_expr option"

definition rendered_bound :: "generic_type_param \<Rightarrow> string option" where
  "rendered_bound p = map_option render (gp_bound_expr p)"

definition rendered_constraints :: "generic_type_param \<Rightarrow> string list" where
  "rendered_constraints p = map render (gp_constraint_exprs p)"

definition rendered_default :: "generic_type_param \<Rightarrow> string option" where
  "rendered_default p = map_option render (gp_default_expr p)"

record direct_param =
  dp_name :: string
  dp_annotation :: "string option"
  dp_annotation_expr :: "type_expr option"
  dp_has_default :: bool
  dp_positional_only :: bool
  dp_keyword_only :: bool
  dp_variadic :: bool
  dp_keyword_variadic :: bool

text \<open>\<^verbatim>\<open>DirectFunctionParamSite::rendered_annotation\<close>.\<close>

definition rendered_annotation :: "direct_param \<Rightarrow> string option" where
  "rendered_annotation param =
     (case dp_annotation_expr param of
        Some e \<Rightarrow> Some (render e) | None \<Rightarrow> dp_annotation param)"

definition direct_param_site_from_function_param :: "function_param \<Rightarrow> direct_param" where
  "direct_param_site_from_function_param p =
     \<lparr>dp_name = fp_name p, dp_annotation = fp_annotation p,
      dp_annotation_expr = fp_annotation_expr p, dp_has_default = fp_has_default p,
      dp_positional_only = fp_positional_only p, dp_keyword_only = fp_keyword_only p,
      dp_variadic = fp_variadic p, dp_keyword_variadic = fp_keyword_variadic p\<rparr>"

section \<open>Signatures and targets\<close>

definition bound_type_expr :: "string \<Rightarrow> type_expr" where
  "bound_type_expr text = (case type_expr_parse text of Some e \<Rightarrow> e | None \<Rightarrow> TName text)"

record bound_import_symbol_target =
  ist_module_key :: string
  ist_symbol_name :: string

record bound_import_target =
  it_raw_target :: string
  it_module_target :: string
  it_symbol_target :: "bound_import_symbol_target option"

definition bound_import_target :: "string \<Rightarrow> bound_import_target" where
  "bound_import_target raw =
     \<lparr>it_raw_target = raw, it_module_target = raw,
      it_symbol_target =
        map_option (\<lambda>(m, s). \<lparr>ist_module_key = m, ist_symbol_name = s\<rparr>) (rsplit_once CHR ''.'' raw)\<rparr>"

record bound_callable_signature =
  bs_params :: "direct_param list"
  bs_returns :: "type_expr option"

definition from_function_parts_with_expr ::
    "function_param list \<Rightarrow> string option \<Rightarrow> type_expr option \<Rightarrow> bound_callable_signature" where
  "from_function_parts_with_expr params returns returns_expr =
     \<lparr>bs_params = map direct_param_site_from_function_param params,
      bs_returns = (case returns_expr of
          Some e \<Rightarrow> Some e
        | None \<Rightarrow> (case returns of
            None \<Rightarrow> None
          | Some r \<Rightarrow> if trim r = [] then None else Some (bound_type_expr (trim r))))\<rparr>"

definition from_function_parts ::
    "function_param list \<Rightarrow> string option \<Rightarrow> bound_callable_signature" where
  "from_function_parts params returns = from_function_parts_with_expr params returns None"

definition find_index :: "('a \<Rightarrow> bool) \<Rightarrow> 'a list \<Rightarrow> nat option" where
  "find_index p xs =
     (let i = length (takeWhile (\<lambda>x. \<not> p x) xs) in if i < length xs then Some i else None)"

definition render_param :: "direct_param \<Rightarrow> string" where
  "render_param p =
     (let base = (case rendered_annotation p of
                    Some a \<Rightarrow> dp_name p @ '':'' @ a | None \<Rightarrow> dp_name p);
          with_default = (if dp_has_default p then base @ ''='' else base)
      in if dp_keyword_variadic p then ''**'' @ with_default
         else if dp_variadic p then ''*'' @ with_default
         else with_default)"

definition render_signature_from_direct_params :: "direct_param list \<Rightarrow> string option \<Rightarrow> string" where
  "render_signature_from_direct_params params returns =
     (let positional_only_count = length (filter dp_positional_only params);
          has_variadic = list_ex dp_variadic params;
          keyword_only_index = find_index dp_keyword_only params;
          rendered = concat (map (\<lambda>(index, p).
            (if keyword_only_index = Some index \<and> \<not> has_variadic then [''*''] else []) @
            [render_param p] @
            (if 0 < positional_only_count \<and> index + 1 = positional_only_count then [''/''] else []))
            (enumerate 0 params))
      in ''('' @ join_with '','' rendered @ '')->'' @ (case returns of Some r \<Rightarrow> r | None \<Rightarrow> []))"

definition rendered_signature :: "bound_callable_signature \<Rightarrow> string" where
  "rendered_signature s =
     render_signature_from_direct_params (bs_params s) (map_option render (bs_returns s))"

section \<open>Declarations\<close>

datatype declaration_kind = DTypeAlias | DClass | DFunction | DOverload | DValue | DImport
datatype declaration_owner_kind = OClass | OInterface | ODataClass | OSealedClass

record declaration_owner =
  do_name :: string
  do_kind :: declaration_owner_kind

datatype declaration_metadata =
    MNone
  | MTypeAlias type_expr "nat option"
  | MCallable bound_callable_signature
  | MImport bound_import_target
  | MValue "type_expr option"
  | MClass "type_expr list"

record bound_declaration =
  d_name :: string
  d_kind :: declaration_kind
  d_metadata :: declaration_metadata
  d_value_type_expr :: "type_expr option"
  d_method_kind :: "method_kind option"
  d_class_kind :: "declaration_owner_kind option"
  d_owner :: "declaration_owner option"
  d_is_async :: bool
  d_is_override :: bool
  d_is_abstract_method :: bool
  d_is_final_decorator :: bool
  d_is_deprecated :: bool
  d_deprecation_message :: "string option"
  d_is_final :: bool
  d_is_class_var :: bool
  d_bases :: "string list"
  d_type_params :: "generic_type_param list"

definition rendered_detail :: "bound_declaration \<Rightarrow> string" where
  "rendered_detail d =
     (case d_metadata d of
        MNone \<Rightarrow> []
      | MTypeAlias v _ \<Rightarrow> render v
      | MCallable s \<Rightarrow> rendered_signature s
      | MImport t \<Rightarrow> it_raw_target t
      | MValue a \<Rightarrow> (case a of Some e \<Rightarrow> render e | None \<Rightarrow> [])
      | MClass bases \<Rightarrow> join_with '','' (map render bases))"

definition callable_signature :: "bound_declaration \<Rightarrow> bound_callable_signature option" where
  "callable_signature d = (case d_metadata d of MCallable s \<Rightarrow> Some s | _ \<Rightarrow> None)"

definition type_alias_value :: "bound_declaration \<Rightarrow> type_expr option" where
  "type_alias_value d = (case d_metadata d of MTypeAlias v _ \<Rightarrow> Some v | _ \<Rightarrow> None)"

definition type_alias_line :: "bound_declaration \<Rightarrow> nat option" where
  "type_alias_line d = (case d_metadata d of MTypeAlias _ l \<Rightarrow> l | _ \<Rightarrow> None)"

definition import_target :: "bound_declaration \<Rightarrow> bound_import_target option" where
  "import_target d = (case d_metadata d of MImport t \<Rightarrow> Some t | _ \<Rightarrow> None)"

definition value_annotation :: "bound_declaration \<Rightarrow> type_expr option" where
  "value_annotation d = (case d_metadata d of MValue a \<Rightarrow> a | _ \<Rightarrow> None)"

definition inferred_value_type_semantic_text :: "bound_declaration \<Rightarrow> string option" where
  "inferred_value_type_semantic_text d =
     (case map_option render (d_value_type_expr d) of
        Some v \<Rightarrow> if v = [] then None else Some v | None \<Rightarrow> None)"

definition class_bases :: "bound_declaration \<Rightarrow> type_expr list option" where
  "class_bases d = (case d_metadata d of MClass bases \<Rightarrow> Some bases | _ \<Rightarrow> None)"

definition rendered_class_bases :: "bound_declaration \<Rightarrow> string list" where
  "rendered_class_bases d =
     (case class_bases d of Some bases \<Rightarrow> map render bases | None \<Rightarrow> d_bases d)"

definition has_class_base :: "bound_declaration \<Rightarrow> string \<Rightarrow> bool" where
  "has_class_base d base \<longleftrightarrow> base \<in> set (rendered_class_bases d)"

text \<open>A declaration with everything but name, kind and metadata empty.\<close>

definition bare_declaration ::
    "string \<Rightarrow> declaration_kind \<Rightarrow> declaration_metadata \<Rightarrow> bound_declaration" where
  "bare_declaration name kind metadata =
     \<lparr>d_name = name, d_kind = kind, d_metadata = metadata, d_value_type_expr = None,
      d_method_kind = None, d_class_kind = None, d_owner = None, d_is_async = False,
      d_is_override = False, d_is_abstract_method = False, d_is_final_decorator = False,
      d_is_deprecated = False, d_deprecation_message = None, d_is_final = False,
      d_is_class_var = False, d_bases = [], d_type_params = []\<rparr>"

section \<open>Module nodes\<close>

datatype source_kind = TypePythonSource | PythonSource | StubSource

text \<open>
  The lists of call, member, flow and assignment sites of a module are copied and hashed as
  they are and never looked at by the graph or the incremental planner: they are one field
  of a type \<open>'s\<close> of its own.
\<close>

record 's module_node =
  mn_path :: string
  mn_key :: string
  mn_kind :: source_kind
  mn_declarations :: "bound_declaration list"
  mn_sites :: 's
  mn_fingerprint :: u64

end
