(* ===== verification/Generic_Solver.thy ===== *)
theory Generic_Solver
  imports Semantic_Type BTree Bindings
begin

text \<open>
  The generic solver of the checker (crates/typepython_checking, generic_solver.rs): the
  constraints a call records with interned candidate types, solving them into one type per
  type variable, and substituting the solution into annotations and signatures. The
  \<^verbatim>\<open>BTreeMap\<close>s are ordered entry lists, since the order in which they are iterated
  decides the ids their types get. The assignability test of the checker, which takes the whole
  module graph, is the argument \<open>assign expected actual\<close>. An outer \<open>None\<close> is a panic
  of one of the \<^verbatim>\<open>expect\<close> calls.
\<close>

section \<open>Data\<close>

type_synonym param_list_binding = "direct_param list"

record type_pack_binding =
  tpb_types :: "semantic_type list"
  tpb_variadic_tail :: "semantic_type option"

record generic_solution =
  gs_types :: "(string \<times> semantic_type) list"
  gs_param_lists :: "(string \<times> param_list_binding) list"
  gs_type_packs :: "(string \<times> type_pack_binding) list"

definition empty_solution :: generic_solution where
  "empty_solution = \<lparr>gs_types = [], gs_param_lists = [], gs_type_packs = []\<rparr>"

datatype generic_solve_failure =
    ParamSpecInferenceFailed semantic_type semantic_type
  | TypeBindingInferenceFailed semantic_type semantic_type
  | ParamSpecBindingConflict string
  | TypeVarTupleBindingConflict string
  | ConstraintViolation string semantic_type string

record generic_solver_metadata =
  gm_params :: "generic_type_param list"
  gm_type_names :: "string list"
  gm_param_spec_names :: "string list"
  gm_type_pack_names :: "string list"

definition names_of_kind :: "generic_type_param_kind \<Rightarrow> generic_type_param list \<Rightarrow> string list" where
  "names_of_kind k params = bs_from_list (map gp_name (filter (\<lambda>p. gp_kind p = k) params))"

definition metadata_from_function :: "generic_type_param list \<Rightarrow> generic_solver_metadata" where
  "metadata_from_function type_params =
     \<lparr>gm_params = type_params, gm_type_names = names_of_kind GTypeVar type_params,
      gm_param_spec_names = names_of_kind GParamSpec type_params,
      gm_type_pack_names = names_of_kind GTypeVarTuple type_params\<rparr>"

record interned_type_pack =
  ip_types :: "type_id list"
  ip_variadic_tail :: "type_id option"

record interned_param =
  in_name :: string
  in_annotation_text :: "string option"
  in_annotation_id :: "type_id option"
  in_has_default :: bool
  in_positional_only :: bool
  in_keyword_only :: bool
  in_variadic :: bool
  in_keyword_variadic :: bool

datatype generic_constraint =
    TypeVarConstraint string type_id
  | ParamSpecConstraint string "interned_param list"
  | TypeVarTupleConstraint string interned_type_pack

record generic_constraint_set =
  cs_constraints :: "generic_constraint list"
  cs_store :: type_store

definition empty_constraints :: generic_constraint_set where
  "empty_constraints = \<lparr>cs_constraints = [], cs_store = empty_store\<rparr>"

section \<open>Recording constraints\<close>

definition intern_type_pack_binding ::
    "type_pack_binding \<Rightarrow> type_store \<Rightarrow> interned_type_pack \<times> type_store" where
  "intern_type_pack_binding binding store =
     (let (ids, store1) = intern_all (tpb_types binding) store
      in case tpb_variadic_tail binding of
           None \<Rightarrow> (\<lparr>ip_types = ids, ip_variadic_tail = None\<rparr>, store1)
         | Some t \<Rightarrow>
             (let (i, store2) = intern t store1
              in (\<lparr>ip_types = ids, ip_variadic_tail = Some i\<rparr>, store2)))"

definition intern_param :: "direct_param \<Rightarrow> type_store \<Rightarrow> interned_param \<times> type_store" where
  "intern_param param store =
     (let (annotation_id, store1) =
            (case dp_annotation param of
               None \<Rightarrow> (None, store)
             | Some a \<Rightarrow>
                 (let (i, store1) = intern (lower_type_text_or_name a) store in (Some i, store1)))
      in (\<lparr>in_name = dp_name param, in_annotation_text = dp_annotation param,
           in_annotation_id = annotation_id, in_has_default = dp_has_default param,
           in_positional_only = dp_positional_only param, in_keyword_only = dp_keyword_only param,
           in_variadic = dp_variadic param, in_keyword_variadic = dp_keyword_variadic param\<rparr>,
          store1))"

fun intern_param_list_binding ::
    "param_list_binding \<Rightarrow> type_store \<Rightarrow> interned_param list \<times> type_store" where
  "intern_param_list_binding [] store = ([], store)"
| "intern_param_list_binding (p # ps) store =
     (let (i, store1) = intern_param p store;
          (is, store2) = intern_param_list_binding ps store1
      in (i # is, store2))"

definition materialize_type_pack_binding ::
    "type_store \<Rightarrow> interned_type_pack \<Rightarrow> type_pack_binding" where
  "materialize_type_pack_binding store binding =
     \<lparr>tpb_types = List.map_filter (store_get store) (ip_types binding),
      tpb_variadic_tail = Option.bind (ip_variadic_tail binding) (store_get store)\<rparr>"

definition materialize_param :: "type_store \<Rightarrow> interned_param \<Rightarrow> direct_param" where
  "materialize_param store p =
     (let ty = Option.bind (in_annotation_id p) (store_get store)
      in \<lparr>dp_name = in_name p,
          dp_annotation = (case map_option render_semantic_type ty of
                             Some a \<Rightarrow> Some a | None \<Rightarrow> in_annotation_text p),
          dp_annotation_expr = map_option semantic_type_to_type_expr ty,
          dp_has_default = in_has_default p, dp_positional_only = in_positional_only p,
          dp_keyword_only = in_keyword_only p, dp_variadic = in_variadic p,
          dp_keyword_variadic = in_keyword_variadic p\<rparr>)"

definition materialize_param_list_binding ::
    "type_store \<Rightarrow> interned_param list \<Rightarrow> param_list_binding" where
  "materialize_param_list_binding store binding = map (materialize_param store) binding"

definition add_type :: "string \<Rightarrow> semantic_type \<Rightarrow> generic_constraint_set \<Rightarrow> generic_constraint_set" where
  "add_type name candidate cs =
     (let (i, store) = intern candidate (cs_store cs)
      in \<lparr>cs_constraints = cs_constraints cs @ [TypeVarConstraint name i], cs_store = store\<rparr>)"

definition add_param_list ::
    "string \<Rightarrow> param_list_binding \<Rightarrow> generic_constraint_set \<Rightarrow> generic_constraint_set" where
  "add_param_list name binding cs =
     (let (b, store) = intern_param_list_binding binding (cs_store cs)
      in \<lparr>cs_constraints = cs_constraints cs @ [ParamSpecConstraint name b], cs_store = store\<rparr>)"

definition push_type_pack_binding ::
    "string \<Rightarrow> type_pack_binding \<Rightarrow> generic_constraint_set \<Rightarrow> generic_constraint_set" where
  "push_type_pack_binding name binding cs =
     (let (b, store) = intern_type_pack_binding binding (cs_store cs)
      in \<lparr>cs_constraints = cs_constraints cs @ [TypeVarTupleConstraint name b], cs_store = store\<rparr>)"

definition extend_bindings ::
    "generic_solution \<Rightarrow> generic_constraint_set \<Rightarrow> generic_constraint_set" where
  "extend_bindings bindings cs =
     fold (\<lambda>(n, b). push_type_pack_binding n b) (gs_type_packs bindings)
       (fold (\<lambda>(n, b). add_param_list n b) (gs_param_lists bindings)
         (fold (\<lambda>(n, t). add_type n t) (gs_types bindings) cs))"

section \<open>Merging\<close>

definition merge_generic_type_candidates :: "semantic_type \<Rightarrow> semantic_type \<Rightarrow> semantic_type" where
  "merge_generic_type_candidates existing actual =
     (if existing = actual then existing else join_semantic_type_candidates [existing, actual])"

text \<open>\<^verbatim>\<open>merge_generic_type_candidates_with_context_and_options\<close>.\<close>

definition merge_with_context ::
    "(semantic_type \<Rightarrow> semantic_type \<Rightarrow> bool) \<Rightarrow> semantic_type \<Rightarrow> semantic_type \<Rightarrow> semantic_type" where
  "merge_with_context assign existing actual =
     (if assign actual existing then actual
      else if assign existing actual then existing
      else merge_generic_type_candidates existing actual)"

definition insert_param_spec_binding ::
    "string \<Rightarrow> param_list_binding \<Rightarrow> generic_solution \<Rightarrow> generic_solution option" where
  "insert_param_spec_binding name binding s =
     (case bt_get (gs_param_lists s) name of
        Some existing \<Rightarrow> if existing \<noteq> binding then None else Some s
      | None \<Rightarrow> Some (s\<lparr>gs_param_lists := bt_insert name binding (gs_param_lists s)\<rparr>))"

definition merge_type_pack_candidates ::
    "type_pack_binding \<Rightarrow> type_pack_binding \<Rightarrow> type_pack_binding option" where
  "merge_type_pack_candidates existing actual =
     (if length (tpb_types existing) \<noteq> length (tpb_types actual) then None
      else (let types = map2 merge_generic_type_candidates (tpb_types existing) (tpb_types actual)
            in case tpb_variadic_tail existing of
                 None \<Rightarrow>
                   (case tpb_variadic_tail actual of
                      None \<Rightarrow> Some \<lparr>tpb_types = types, tpb_variadic_tail = None\<rparr> | Some _ \<Rightarrow> None)
               | Some l \<Rightarrow>
                   (case tpb_variadic_tail actual of
                      None \<Rightarrow> None
                    | Some r \<Rightarrow> Some \<lparr>tpb_types = types,
                                     tpb_variadic_tail = Some (merge_generic_type_candidates l r)\<rparr>)))"

definition insert_type_pack_binding ::
    "string \<Rightarrow> type_pack_binding \<Rightarrow> generic_solution \<Rightarrow> generic_solution option" where
  "insert_type_pack_binding name binding s =
     (case bt_get (gs_type_packs s) name of
        Some existing \<Rightarrow>
          if existing = binding then Some s
          else (case merge_type_pack_candidates existing binding of
                  None \<Rightarrow> None
                | Some merged \<Rightarrow> Some (s\<lparr>gs_type_packs := bt_insert name merged (gs_type_packs s)\<rparr>))
      | None \<Rightarrow> Some (s\<lparr>gs_type_packs := bt_insert name binding (gs_type_packs s)\<rparr>))"

section \<open>Solving\<close>

text \<open>The locals of \<^verbatim>\<open>solve_collected_generic_constraints_detailed\<close>.\<close>

record solve_state =
  ss_solution :: generic_solution
  ss_type_ids :: "(string \<times> type_id) list"
  ss_store :: type_store

definition solve_type_var ::
    "(semantic_type \<Rightarrow> semantic_type \<Rightarrow> bool) \<Rightarrow> generic_constraint_set \<Rightarrow>
     string \<Rightarrow> type_id \<Rightarrow> solve_state \<Rightarrow> solve_state option" where
  "solve_type_var assign cs name candidate_id st =
     (case bt_get (ss_type_ids st) name of
        Some existing_id \<Rightarrow>
          if existing_id \<noteq> candidate_id
          then (case (case store_get (ss_store st) existing_id of
                        Some t \<Rightarrow> Some t | None \<Rightarrow> store_get (cs_store cs) existing_id) of
                  None \<Rightarrow> None
                | Some existing \<Rightarrow>
                    (case store_get (cs_store cs) candidate_id of
                       None \<Rightarrow> None
                     | Some candidate \<Rightarrow>
                         (let (merged_id, store) =
                                intern (merge_with_context assign existing candidate) (ss_store st)
                          in Some (st\<lparr>ss_store := store,
                               ss_type_ids := bt_insert name merged_id (ss_type_ids st)\<rparr>))))
          else Some st
      | None \<Rightarrow>
          (case store_get (cs_store cs) candidate_id of
             None \<Rightarrow> None
           | Some candidate \<Rightarrow>
               (let (i, store) = intern candidate (ss_store st)
                in Some (st\<lparr>ss_store := store, ss_type_ids := bt_insert name i (ss_type_ids st)\<rparr>))))"

definition solve_constraint ::
    "(semantic_type \<Rightarrow> semantic_type \<Rightarrow> bool) \<Rightarrow> generic_constraint_set \<Rightarrow>
     generic_constraint \<Rightarrow> solve_state \<Rightarrow> (generic_solve_failure + solve_state) option" where
  "solve_constraint assign cs c st =
     (case c of
        TypeVarConstraint name candidate_id \<Rightarrow>
          map_option Inr (solve_type_var assign cs name candidate_id st)
      | ParamSpecConstraint name binding \<Rightarrow>
          (case insert_param_spec_binding name
                  (materialize_param_list_binding (cs_store cs) binding) (ss_solution st) of
             None \<Rightarrow> Some (Inl (ParamSpecBindingConflict name))
           | Some s \<Rightarrow> Some (Inr (st\<lparr>ss_solution := s\<rparr>)))
      | TypeVarTupleConstraint name binding \<Rightarrow>
          (case insert_type_pack_binding name
                  (materialize_type_pack_binding (cs_store cs) binding) (ss_solution st) of
             None \<Rightarrow> Some (Inl (TypeVarTupleBindingConflict name))
           | Some s \<Rightarrow> Some (Inr (st\<lparr>ss_solution := s\<rparr>))))"

fun solve_constraints ::
    "(semantic_type \<Rightarrow> semantic_type \<Rightarrow> bool) \<Rightarrow> generic_constraint_set \<Rightarrow>
     generic_constraint list \<Rightarrow> solve_state \<Rightarrow> (generic_solve_failure + solve_state) option" where
  "solve_constraints assign cs [] st = Some (Inr st)"
| "solve_constraints assign cs (c # rest) st =
     (case solve_constraint assign cs c st of
        None \<Rightarrow> None
      | Some (Inl e) \<Rightarrow> Some (Inl e)
      | Some (Inr st') \<Rightarrow> solve_constraints assign cs rest st')"

text \<open>\<^verbatim>\<open>type_ids.into_iter().map(..).collect()\<close>, with the last \<^verbatim>\<open>expect\<close>.\<close>

fun types_of_ids :: "type_store \<Rightarrow> (string \<times> type_id) list \<Rightarrow> (string \<times> semantic_type) list option" where
  "types_of_ids store [] = Some []"
| "types_of_ids store ((name, i) # rest) =
     (case store_get store i of
        None \<Rightarrow> None
      | Some t \<Rightarrow> map_option ((#) (name, t)) (types_of_ids store rest))"

definition solve_collected ::
    "(semantic_type \<Rightarrow> semantic_type \<Rightarrow> bool) \<Rightarrow> generic_constraint_set \<Rightarrow>
     (generic_solve_failure + generic_solution) option" where
  "solve_collected assign cs =
     (case solve_constraints assign cs (cs_constraints cs)
             \<lparr>ss_solution = empty_solution, ss_type_ids = [], ss_store = empty_store\<rparr> of
        None \<Rightarrow> None
      | Some (Inl e) \<Rightarrow> Some (Inl e)
      | Some (Inr st) \<Rightarrow>
          (case types_of_ids (ss_store st) (ss_type_ids st) of
             None \<Rightarrow> None
           | Some types \<Rightarrow> Some (Inr ((ss_solution st)\<lparr>gs_types := types\<rparr>))))"

section \<open>Defaults, bounds and finalisation\<close>

definition positional_site :: "nat \<Rightarrow> string option \<Rightarrow> type_expr option \<Rightarrow> direct_param" where
  "positional_site index annotation e =
     \<lparr>dp_name = ''arg'' @ show_nat index, dp_annotation = annotation, dp_annotation_expr = e,
      dp_has_default = False, dp_positional_only = False, dp_keyword_only = False,
      dp_variadic = False, dp_keyword_variadic = False\<rparr>"

definition synthesize_param_list_binding :: "string list \<Rightarrow> direct_param list" where
  "synthesize_param_list_binding types =
     map (\<lambda>(i, a). positional_site i (Some a) None) (enumerate 0 types)"

definition synthesize_semantic_param_list_binding :: "semantic_type list \<Rightarrow> direct_param list" where
  "synthesize_semantic_param_list_binding types =
     map (\<lambda>(i, t). positional_site i (Some (render_semantic_type t))
            (Some (semantic_type_to_type_expr t))) (enumerate 0 types)"

definition param_list_binding_from_default :: "string \<Rightarrow> param_list_binding option" where
  "param_list_binding_from_default dflt =
     (let d = normalize_callable_param_expr dflt
      in if d = ''...'' then Some []
         else (case bracketed ''['' d of
                 None \<Rightarrow> None
               | Some inner \<Rightarrow>
                   Some (if trim inner = [] then []
                         else synthesize_param_list_binding
                                (map normalize_type_text (split_top_level_type_args inner)))))"

definition unpacked_fixed_tuple_elements :: "string \<Rightarrow> string list option" where
  "unpacked_fixed_tuple_elements text =
     map_option (map render_semantic_type)
       (unpacked_fixed_tuple_semantic_elements (lower_type_text_or_name text))"

definition type_pack_binding_from_default :: "string \<Rightarrow> type_pack_binding option" where
  "type_pack_binding_from_default dflt =
     (let normalized = normalize_type_text dflt
      in if normalized = ''tuple[()]'' then Some \<lparr>tpb_types = [], tpb_variadic_tail = None\<rparr>
         else map_option
                (\<lambda>elements. \<lparr>tpb_types = map lower_type_text_or_name elements,
                             tpb_variadic_tail = None\<rparr>)
                (unpacked_fixed_tuple_elements normalized))"

definition generic_type_param_accepts_actual ::
    "(semantic_type \<Rightarrow> semantic_type \<Rightarrow> bool) \<Rightarrow> generic_type_param \<Rightarrow> semantic_type \<Rightarrow> bool" where
  "generic_type_param_accepts_actual assign p actual =
     (case gp_bound_expr p of
        Some bound \<Rightarrow> assign (lower_type_text_or_name (render bound)) actual
      | None \<Rightarrow>
          gp_constraint_exprs p = []
          \<or> list_ex (\<lambda>c. assign (lower_type_text_or_name (render c)) actual) (gp_constraint_exprs p))"

definition generic_type_param_requirement :: "generic_type_param \<Rightarrow> string" where
  "generic_type_param_requirement p =
     (case gp_bound_expr p of
        Some bound \<Rightarrow> ''bound `'' @ normalize_type_text (render bound) @ ''`''
      | None \<Rightarrow>
          if gp_constraint_exprs p \<noteq> []
          then ''constraint list `'' @ join_with '' | '' (map render (gp_constraint_exprs p)) @ ''`''
          else ''its declared constraints'')"

definition finalize_param ::
    "(semantic_type \<Rightarrow> semantic_type \<Rightarrow> bool) \<Rightarrow> generic_type_param \<Rightarrow> generic_solution \<Rightarrow>
     generic_solve_failure + generic_solution" where
  "finalize_param assign p s =
     (let dflt = map_option render (gp_default_expr p)
      in case gp_kind p of
        GTypeVar \<Rightarrow>
          (let s' = (case (bt_get (gs_types s) (gp_name p), dflt) of
                       (None, Some d) \<Rightarrow>
                         s\<lparr>gs_types := bt_insert (gp_name p) (lower_type_text_or_name d) (gs_types s)\<rparr>
                     | _ \<Rightarrow> s)
           in case bt_get (gs_types s') (gp_name p) of
                None \<Rightarrow> Inr s'
              | Some actual \<Rightarrow>
                  if generic_type_param_accepts_actual assign p actual then Inr s'
                  else Inl (ConstraintViolation (gp_name p) actual
                              (generic_type_param_requirement p)))
      | GParamSpec \<Rightarrow>
          (case (bt_get (gs_param_lists s) (gp_name p), dflt) of
             (None, Some d) \<Rightarrow>
               (case param_list_binding_from_default d of
                  None \<Rightarrow> Inl (ParamSpecInferenceFailed (SName (gp_name p)) (lower_type_text_or_name d))
                | Some b \<Rightarrow>
                    Inr (s\<lparr>gs_param_lists := bt_insert (gp_name p) b (gs_param_lists s)\<rparr>))
           | _ \<Rightarrow> Inr s)
      | GTypeVarTuple \<Rightarrow>
          (case (bt_get (gs_type_packs s) (gp_name p), dflt) of
             (None, Some d) \<Rightarrow>
               (case type_pack_binding_from_default d of
                  None \<Rightarrow> Inl (TypeVarTupleBindingConflict (gp_name p))
                | Some b \<Rightarrow>
                    Inr (s\<lparr>gs_type_packs := bt_insert (gp_name p) b (gs_type_packs s)\<rparr>))
           | _ \<Rightarrow> Inr s))"

fun finalize_params ::
    "(semantic_type \<Rightarrow> semantic_type \<Rightarrow> bool) \<Rightarrow> generic_type_param list \<Rightarrow> generic_solution \<Rightarrow>
     generic_solve_failure + generic_solution" where
  "finalize_params assign [] s = Inr s"
| "finalize_params assign (p # ps) s =
     (case finalize_param assign p s of
        Inl e \<Rightarrow> Inl e | Inr s' \<Rightarrow> finalize_params assign ps s')"

definition finalize_generic_solution ::
    "(semantic_type \<Rightarrow> semantic_type \<Rightarrow> bool) \<Rightarrow> generic_solver_metadata \<Rightarrow>
     generic_constraint_set \<Rightarrow> (generic_solve_failure + generic_solution) option" where
  "finalize_generic_solution assign metadata cs =
     (case solve_collected assign cs of
        None \<Rightarrow> None
      | Some (Inl e) \<Rightarrow> Some (Inl e)
      | Some (Inr s) \<Rightarrow> Some (finalize_params assign (gm_params metadata) s))"

definition finalize_substitutions ::
    "(semantic_type \<Rightarrow> semantic_type \<Rightarrow> bool) \<Rightarrow> generic_type_param list \<Rightarrow> generic_solution \<Rightarrow>
     (generic_solve_failure + generic_solution) option" where
  "finalize_substitutions assign type_params substitutions =
     finalize_generic_solution assign (metadata_from_function type_params)
       (extend_bindings substitutions empty_constraints)"

section \<open>Combining inferred bindings\<close>

definition bt_extend :: "('k::linorder \<times> 'v) list \<Rightarrow> ('k \<times> 'v) list \<Rightarrow> ('k \<times> 'v) list" where
  "bt_extend m n = fold (\<lambda>(k, v). bt_insert k v) n m"

definition combine_generic_substitutions ::
    "generic_solution \<Rightarrow> generic_solution \<Rightarrow> generic_solution" where
  "combine_generic_substitutions existing inferred =
     \<lparr>gs_types = bt_extend (gs_types existing) (gs_types inferred),
      gs_param_lists = bt_extend (gs_param_lists existing) (gs_param_lists inferred),
      gs_type_packs = bt_extend (gs_type_packs existing) (gs_type_packs inferred)\<rparr>"

definition generic_binding_count :: "generic_solution \<Rightarrow> nat" where
  "generic_binding_count s =
     length (gs_types s) + length (gs_param_lists s) + length (gs_type_packs s)"

definition select_best_union_branch_binding :: "generic_solution list \<Rightarrow> generic_solution option" where
  "select_best_union_branch_binding candidates =
     (if candidates = [] then None
      else (let min_len = Min (set (map generic_binding_count candidates))
            in case filter (\<lambda>c. generic_binding_count c = min_len) candidates of
                 [] \<Rightarrow> None
               | first # rest \<Rightarrow> if list_all (\<lambda>c. c = first) rest then Some first else None))"

fun insert_type_packs ::
    "(string \<times> type_pack_binding) list \<Rightarrow> generic_solution \<Rightarrow> generic_solution option" where
  "insert_type_packs [] s = Some s"
| "insert_type_packs ((name, binding) # rest) s =
     (case insert_type_pack_binding name binding s of
        None \<Rightarrow> None | Some s' \<Rightarrow> insert_type_packs rest s')"

definition merge_type_with ::
    "(semantic_type \<Rightarrow> semantic_type \<Rightarrow> semantic_type) \<Rightarrow> string \<times> semantic_type \<Rightarrow>
     generic_solution \<Rightarrow> generic_solution" where
  "merge_type_with merge entry s =
     (case bt_get (gs_types s) (fst entry) of
        Some existing \<Rightarrow>
          if existing = snd entry then s
          else s\<lparr>gs_types := bt_insert (fst entry) (merge existing (snd entry)) (gs_types s)\<rparr>
      | None \<Rightarrow> s\<lparr>gs_types := bt_insert (fst entry) (snd entry) (gs_types s)\<rparr>)"

fun merge_union_from ::
    "generic_solution list \<Rightarrow> generic_solution \<Rightarrow> generic_solution option" where
  "merge_union_from [] merged = Some merged"
| "merge_union_from (c # cs) merged =
     (case insert_type_packs (gs_type_packs c)
             (fold (merge_type_with (\<lambda>existing actual. join_semantic_type_candidates [existing, actual]))
                (gs_types c) merged) of
        None \<Rightarrow> None | Some merged' \<Rightarrow> merge_union_from cs merged')"

definition merge_union_branch_bindings :: "generic_solution list \<Rightarrow> generic_solution option" where
  "merge_union_branch_bindings candidates = merge_union_from candidates empty_solution"

definition merge_nested_generic_bindings ::
    "(semantic_type \<Rightarrow> semantic_type \<Rightarrow> bool) \<Rightarrow> generic_solution \<Rightarrow> generic_solution \<Rightarrow>
     generic_solution option" where
  "merge_nested_generic_bindings assign inferred found =
     insert_type_packs (gs_type_packs found)
       (fold (merge_type_with (merge_with_context assign)) (gs_types found) inferred)"

section \<open>Substitution\<close>

definition lower_param_annotation_text :: "string \<Rightarrow> bool \<Rightarrow> bool \<Rightarrow> semantic_type" where
  "lower_param_annotation_text annotation variadic keyword_variadic =
     (let a = trim annotation
      in case (if variadic then strip_prefix ''*'' a else None) of
           Some inner \<Rightarrow> lower_type_text_or_name (''Unpack['' @ trim inner @ '']'')
         | None \<Rightarrow>
             (case (if keyword_variadic then strip_prefix ''**'' a else None) of
                Some inner \<Rightarrow> lower_type_text_or_name (trim inner)
              | None \<Rightarrow> lower_type_text_or_name a))"

definition param_annotation_semantic_type :: "direct_param \<Rightarrow> semantic_type" where
  "param_annotation_semantic_type p =
     (case dp_annotation p of
        Some a \<Rightarrow> lower_param_annotation_text a (dp_variadic p) (dp_keyword_variadic p)
      | None \<Rightarrow> SName ''dynamic'')"

definition param_list_binding_semantic_generic_arg :: "param_list_binding \<Rightarrow> semantic_type" where
  "param_list_binding_semantic_generic_arg binding =
     SName (render_semantic_callable_params
              (SParamList (map param_annotation_semantic_type binding)))"

text \<open>\<^verbatim>\<open>if let SemanticType::Name(name) = t\<close>, looked up after trimming.\<close>

definition name_lookup :: "(string \<times> 'v) list \<Rightarrow> semantic_type \<Rightarrow> 'v option" where
  "name_lookup m t = (case t of SName name \<Rightarrow> bt_get m (trim name) | _ \<Rightarrow> None)"

text \<open>
  What one argument becomes without substituting into it: a parameter list rendered as a
  name, the elements of a bound type pack, or those of an unpacked fixed tuple.
\<close>

definition expand_bound_arg :: "generic_solution \<Rightarrow> semantic_type \<Rightarrow> semantic_type list option" where
  "expand_bound_arg s arg =
     (case name_lookup (gs_param_lists s) arg of
        Some binding \<Rightarrow> Some [param_list_binding_semantic_generic_arg binding]
      | None \<Rightarrow>
          (case unpacked_inner arg of
             None \<Rightarrow> None
           | Some inner \<Rightarrow>
               (case name_lookup (gs_type_packs s) inner of
                  Some binding \<Rightarrow>
                    Some (tpb_types binding @
                      (case tpb_variadic_tail binding of
                         None \<Rightarrow> [] | Some t \<Rightarrow> [t, SName ''...'']))
                | None \<Rightarrow> unpacked_fixed_tuple_semantic_elements inner)))"

definition bound_tail ::
    "generic_solution \<Rightarrow> semantic_type list \<Rightarrow> param_list_binding option" where
  "bound_tail s types = (if types = [] then None else name_lookup (gs_param_lists s) (last types))"

lemma size_butlast:
  "x \<in> set (butlast types) \<Longrightarrow> size (x :: semantic_type) \<le> size_list size types"
  using size_list_estimation' [OF in_set_butlastD [of x types] order_refl, of size] by blast

function substitute :: "generic_solution \<Rightarrow> semantic_type \<Rightarrow> semantic_type"
  and substitute_params :: "generic_solution \<Rightarrow> semantic_callable_params \<Rightarrow> semantic_callable_params"
  and expand_args :: "generic_solution \<Rightarrow> semantic_type list \<Rightarrow> semantic_type list" where
  "substitute s (SName name) =
     (case bt_get (gs_types s) name of Some t \<Rightarrow> t | None \<Rightarrow> SName name)"
| "substitute s (SGeneric head args) = SGeneric head (expand_args s args)"
| "substitute s (SCallable params return_type) =
     SCallable (substitute_params s params) (substitute s return_type)"
| "substitute s (SUnion branches) = join_semantic_type_candidates (map (substitute s) branches)"
| "substitute s (SAnnotated value metadata) = SAnnotated (substitute s value) metadata"
| "substitute s (SUnpack inner) = SUnpack (substitute s inner)"
| "substitute_params s SEllipsis = SEllipsis"
| "substitute_params s (SParamList types) = SParamList (expand_args s types)"
| "substitute_params s (SConcatenate types) =
     (case bound_tail s types of
        Some binding \<Rightarrow>
          SParamList (map (substitute s) (butlast types) @ map param_annotation_semantic_type binding)
      | None \<Rightarrow> SConcatenate (map (substitute s) types))"
| "substitute_params s (SSingle e) =
     (case name_lookup (gs_param_lists s) e of
        Some binding \<Rightarrow> SParamList (map param_annotation_semantic_type binding)
      | None \<Rightarrow> SSingle (substitute s e))"
| "expand_args s [] = []"
| "expand_args s (arg # args) =
     (case expand_bound_arg s arg of Some es \<Rightarrow> es | None \<Rightarrow> [substitute s arg]) @ expand_args s args"
  by pat_completeness auto

termination
  by (relation "measure (case_sum (\<lambda>(s, t). size t) (case_sum (\<lambda>(s, p). size p)
        (\<lambda>(s, ts). size_list size ts)))")
    (auto simp: size_butlast less_Suc_eq_le size_list_estimation')

section \<open>Instantiating a signature\<close>

definition instantiate_annotation :: "generic_solution \<Rightarrow> direct_param \<Rightarrow> semantic_type option" where
  "instantiate_annotation s p =
     map_option (substitute s)
       (case dp_annotation_expr p of
          Some e \<Rightarrow> Some (lower_type_expr e)
        | None \<Rightarrow>
            map_option (\<lambda>a. lower_param_annotation_text a (dp_variadic p) (dp_keyword_variadic p))
              (dp_annotation p))"

definition instantiate_param :: "generic_solution \<Rightarrow> direct_param \<Rightarrow> direct_param" where
  "instantiate_param s p =
     (let annotation = instantiate_annotation s p
      in p\<lparr>dp_annotation := map_option render_semantic_type annotation,
           dp_annotation_expr := map_option semantic_type_to_type_expr annotation\<rparr>)"

text \<open>\<^verbatim>\<open>extract_param_spec_args_name\<close> and \<^verbatim>\<open>_kwargs_name\<close>.\<close>

definition extract_suffix_name :: "string \<Rightarrow> string \<Rightarrow> string option" where
  "extract_suffix_name suffix annotation =
     (case strip_suffix suffix annotation of
        None \<Rightarrow> None
      | Some name \<Rightarrow> if trim name = [] then None else Some (trim name))"

definition param_spec_of :: "direct_param \<Rightarrow> string option" where
  "param_spec_of p =
     (case rendered_annotation p of
        None \<Rightarrow> None
      | Some a \<Rightarrow>
          if dp_variadic p then extract_suffix_name ''.args'' a
          else if dp_keyword_variadic p then extract_suffix_name ''.kwargs'' a
          else None)"

definition pack_sites :: "string \<Rightarrow> type_pack_binding \<Rightarrow> direct_param list" where
  "pack_sites name binding =
     map (\<lambda>(i, t). \<lparr>dp_name = name @ show_nat i, dp_annotation = Some (render_semantic_type t),
            dp_annotation_expr = Some (semantic_type_to_type_expr t), dp_has_default = False,
            dp_positional_only = True, dp_keyword_only = False, dp_variadic = False,
            dp_keyword_variadic = False\<rparr>) (enumerate 0 (tpb_types binding)) @
     (case tpb_variadic_tail binding of
        None \<Rightarrow> []
      | Some t \<Rightarrow> [\<lparr>dp_name = name, dp_annotation = Some (render_semantic_type t),
            dp_annotation_expr = Some (semantic_type_to_type_expr t), dp_has_default = False,
            dp_positional_only = False, dp_keyword_only = False, dp_variadic = True,
            dp_keyword_variadic = False\<rparr>])"

definition pack_of_param :: "generic_solution \<Rightarrow> direct_param \<Rightarrow> type_pack_binding option" where
  "pack_of_param s p =
     (if dp_variadic p
      then (case Option.bind (rendered_annotation p) unpack_inner of
              None \<Rightarrow> None
            | Some name \<Rightarrow> bt_get (gs_type_packs s) (trim name))
      else None)"

fun instantiate_from ::
    "generic_solution \<Rightarrow> string list \<Rightarrow> direct_param list \<Rightarrow> direct_param list option" where
  "instantiate_from s seen [] = Some []"
| "instantiate_from s seen (p # ps) =
     (case param_spec_of p of
        Some name \<Rightarrow>
          (case bt_get (gs_param_lists s) name of
             None \<Rightarrow> None
           | Some binding \<Rightarrow>
               map_option
                 ((@) (if name \<in> set seen then [] else map (instantiate_param s) binding))
                 (instantiate_from s (bs_insert name seen) ps))
      | None \<Rightarrow>
          (case pack_of_param s p of
             Some binding \<Rightarrow>
               map_option ((@) (pack_sites (dp_name p) binding)) (instantiate_from s seen ps)
           | None \<Rightarrow> map_option ((#) (instantiate_param s p)) (instantiate_from s seen ps)))"

definition instantiate_direct_function_signature ::
    "direct_param list \<Rightarrow> generic_solution \<Rightarrow> direct_param list option" where
  "instantiate_direct_function_signature signature s = instantiate_from s [] signature"

section \<open>Inference\<close>

definition expand_inferred_arg :: "string list \<Rightarrow> semantic_type \<Rightarrow> semantic_type list" where
  "expand_inferred_arg packs arg =
     (case unpacked_inner arg of
        None \<Rightarrow> [arg]
      | Some inner \<Rightarrow>
          if (case inner of SName name \<Rightarrow> trim name \<in> set packs | _ \<Rightarrow> False) then [arg]
          else (case unpacked_fixed_tuple_semantic_elements inner of
                  Some elements \<Rightarrow> elements | None \<Rightarrow> [arg]))"

definition expand_inferred_generic_args :: "string list \<Rightarrow> semantic_type list \<Rightarrow> semantic_type list" where
  "expand_inferred_generic_args packs args = concat (map (expand_inferred_arg packs) args)"

definition pack_name :: "string list \<Rightarrow> semantic_type \<Rightarrow> string option" where
  "pack_name packs arg =
     (case unpacked_inner arg of
        Some (SName name) \<Rightarrow> if trim name \<in> set packs then Some (trim name) else None
      | _ \<Rightarrow> None)"

definition expected_type_pack_index :: "string list \<Rightarrow> semantic_type list \<Rightarrow> (nat \<times> string) option" where
  "expected_type_pack_index packs args =
     (case List.map_filter (\<lambda>(i, arg). map_option (Pair i) (pack_name packs arg)) (enumerate 0 args) of
        [m] \<Rightarrow> Some m | _ \<Rightarrow> None)"

text \<open>Node counts for the termination of the inference.\<close>

fun sweight :: "semantic_type \<Rightarrow> nat" where
  "sweight (SName _) = 1"
| "sweight (SGeneric _ args) = 3 + sum_list (map sweight args)"
| "sweight (SCallable _ _) = 1"
| "sweight (SUnion bs) = 2 + sum_list (map sweight bs)"
| "sweight (SAnnotated v _) = 1 + sweight v"
| "sweight (SUnpack i) = 1 + sweight i"

abbreviation weights :: "semantic_type list \<Rightarrow> nat" where
  "weights ts \<equiv> sum_list (map sweight ts)"

lemma sweight_pos [simp]: "0 < sweight t"
  by (cases t) simp_all

lemma sweight_strip: "sweight (strip_annotated t) \<le> sweight t"
  by (induction t rule: strip_annotated.induct) simp_all

lemma weights_union: "semantic_union_branches t = Some bs \<Longrightarrow> weights bs < sweight t"
proof -
  assume "semantic_union_branches t = Some bs"
  then have "weights bs < sweight (strip_annotated t)"
    by (cases "strip_annotated t")
      (auto simp: semantic_union_branches_def length_Suc_conv split: if_splits)
  then show ?thesis using sweight_strip [of t] by simp
qed

lemma weights_generic: "semantic_generic_parts t = Some (h, args) \<Longrightarrow> weights args < sweight t"
proof -
  assume "semantic_generic_parts t = Some (h, args)"
  then have "weights args < sweight (strip_annotated t)"
    by (cases "strip_annotated t") (auto simp: semantic_generic_parts_def)
  then show ?thesis using sweight_strip [of t] by simp
qed

lemma weights_unpacked: "unpacked_inner t = Some i \<Longrightarrow> sweight i < sweight t"
proof -
  assume "unpacked_inner t = Some i"
  then have "sweight i < sweight (strip_annotated t)"
    by (cases "strip_annotated t") (auto simp: unpacked_inner_def)
  then show ?thesis using sweight_strip [of t] by simp
qed

lemma weights_tuple: "unpacked_fixed_tuple_semantic_elements t = Some es \<Longrightarrow> weights es < sweight t"
  by (auto simp: unpacked_fixed_tuple_semantic_elements_def weights_generic
      split: option.splits prod.splits if_splits)

lemma weights_expand_arg: "weights (expand_inferred_arg packs arg) \<le> sweight arg"
proof -
  have "weights es \<le> sweight arg"
    if "unpacked_inner arg = Some i" "unpacked_fixed_tuple_semantic_elements i = Some es" for i es
    using weights_unpacked [OF that(1)] weights_tuple [OF that(2)] by simp
  then show ?thesis
    by (simp add: expand_inferred_arg_def split: option.splits semantic_type.splits)
qed

lemma weights_expand: "weights (expand_inferred_generic_args packs args) \<le> weights args"
  using weights_expand_arg
  by (induction args) (simp_all add: expand_inferred_generic_args_def add_mono)

lemma weights_take: "weights (take n ts) \<le> weights ts"
  by (metis add_leE append_take_drop_id le_add1 map_append sum_list_append)

lemma weights_drop: "weights (drop n ts) \<le> weights ts"
  by (metis append_take_drop_id le_add2 map_append sum_list_append)

text \<open>
  \<^verbatim>\<open>infer_generic_type_param_bindings_full\<close>, its argument-wise part
  \<^verbatim>\<open>infer_generic_type_arg_bindings\<close>, and the three loops they run: over the branches
  of the actual union (every one must fit), over those of the expected one (the ones that
  fit), and over paired arguments.
\<close>

definition fits ::
    "(semantic_type \<Rightarrow> semantic_type \<Rightarrow> bool) \<Rightarrow> generic_solution \<Rightarrow> generic_solution \<Rightarrow>
     semantic_type \<Rightarrow> semantic_type \<Rightarrow> bool" where
  "fits assign s candidate annotation actual =
     assign (substitute (combine_generic_substitutions s candidate) annotation) actual"

definition many_branches :: "semantic_type \<Rightarrow> semantic_type list option" where
  "many_branches t =
     (case semantic_union_branches t of
        Some bs \<Rightarrow> if 1 < length bs then Some bs else None | None \<Rightarrow> None)"

definition same_head_args ::
    "semantic_type \<Rightarrow> semantic_type \<Rightarrow> (semantic_type list \<times> semantic_type list) option" where
  "same_head_args annotation actual =
     (case (semantic_generic_parts annotation, semantic_generic_parts actual) of
        (Some (eh, eargs), Some (ah, aargs)) \<Rightarrow> if eh = ah then Some (eargs, aargs) else None
      | _ \<Rightarrow> None)"

definition infer_name ::
    "(semantic_type \<Rightarrow> semantic_type \<Rightarrow> bool) \<Rightarrow> generic_solution \<Rightarrow> string \<Rightarrow> semantic_type \<Rightarrow>
     generic_solution" where
  "infer_name assign s name actual =
     empty_solution\<lparr>gs_types :=
       [(name, case bt_get (gs_types s) name of
                 Some existing \<Rightarrow> merge_with_context assign existing actual
               | None \<Rightarrow> actual)]\<rparr>"

definition generic_name :: "string list \<Rightarrow> semantic_type \<Rightarrow> string option" where
  "generic_name generics annotation =
     (case annotation of SName n \<Rightarrow> if n \<in> set generics then Some n else None | _ \<Rightarrow> None)"

lemma weights_many: "many_branches t = Some bs \<Longrightarrow> weights bs < sweight t"
  by (auto simp: many_branches_def weights_union split: option.splits if_splits)

lemma weights_same_head:
  assumes "same_head_args annotation actual = Some (es, xs)"
  shows "weights es < sweight annotation" "weights xs < sweight actual"
  using assms
  by (auto simp: same_head_args_def weights_generic split: option.splits prod.splits if_splits)

lemma infer_args_less:
  assumes "same_head_args annotation actual = Some (es, xs)"
  shows "weights (expand_inferred_generic_args packs es) +
      weights (expand_inferred_generic_args packs xs) < sweight annotation + sweight actual"
  using weights_same_head [OF assms] weights_expand [of packs es] weights_expand [of packs xs]
  by linarith

lemma infer_slices_less:
  assumes "same_head_args annotation actual = Some (es, xs)"
  shows "weights (take i (expand_inferred_generic_args packs es)) +
      weights (take j (expand_inferred_generic_args packs xs)) < sweight annotation + sweight actual"
    and "weights (drop i (expand_inferred_generic_args packs es)) +
      weights (drop j (expand_inferred_generic_args packs xs)) < sweight annotation + sweight actual"
  using infer_args_less [OF assms, of packs]
    weights_take [of i "expand_inferred_generic_args packs es"]
    weights_take [of j "expand_inferred_generic_args packs xs"]
    weights_drop [of i "expand_inferred_generic_args packs es"]
    weights_drop [of j "expand_inferred_generic_args packs xs"]
  by linarith+

lemma odd_less: "a + b < c + d \<Longrightarrow> Suc (2 * a + 2 * b) < 2 * c + 2 * (d :: nat)"
  by simp

lemma branch_less: "many_branches t = Some bs \<Longrightarrow> Suc (2 * weights bs) < 2 * sweight t"
  using weights_many [of t bs] by simp

definition infer_measure where
  "infer_measure =
     case_sum
       (case_sum (\<lambda>(assign, generics, packs, s, annotation, actual). 2 * (sweight annotation + sweight actual))
          (\<lambda>(assign, generics, packs, s, annotation, bs). Suc (2 * (sweight annotation + weights bs))))
       (case_sum (\<lambda>(assign, generics, packs, s, bs, actual). Suc (2 * (weights bs + sweight actual)))
          (\<lambda>(assign, generics, packs, s, es, xs, inferred). Suc (2 * (weights es + weights xs))))"

function infer_full ::
    "(semantic_type \<Rightarrow> semantic_type \<Rightarrow> bool) \<Rightarrow> string list \<Rightarrow> string list \<Rightarrow> generic_solution \<Rightarrow>
     semantic_type \<Rightarrow> semantic_type \<Rightarrow> generic_solution option"
  and infer_all_branches ::
    "(semantic_type \<Rightarrow> semantic_type \<Rightarrow> bool) \<Rightarrow> string list \<Rightarrow> string list \<Rightarrow> generic_solution \<Rightarrow>
     semantic_type \<Rightarrow> semantic_type list \<Rightarrow> generic_solution list option"
  and infer_some_branches ::
    "(semantic_type \<Rightarrow> semantic_type \<Rightarrow> bool) \<Rightarrow> string list \<Rightarrow> string list \<Rightarrow> generic_solution \<Rightarrow>
     semantic_type list \<Rightarrow> semantic_type \<Rightarrow> generic_solution list"
  and infer_pairs ::
    "(semantic_type \<Rightarrow> semantic_type \<Rightarrow> bool) \<Rightarrow> string list \<Rightarrow> string list \<Rightarrow> generic_solution \<Rightarrow>
     semantic_type list \<Rightarrow> semantic_type list \<Rightarrow> generic_solution \<Rightarrow> generic_solution option" where
  "infer_full assign generics packs s annotation actual =
     (if actual = SName [] then Some empty_solution
      else (case generic_name generics annotation of
        Some name \<Rightarrow> Some (infer_name assign s name actual)
      | None \<Rightarrow> (case many_branches actual of
        Some bs \<Rightarrow>
          Option.bind (infer_all_branches assign generics packs s annotation bs)
            merge_union_branch_bindings
      | None \<Rightarrow> (case many_branches annotation of
        Some bs \<Rightarrow>
          select_best_union_branch_binding (infer_some_branches assign generics packs s bs actual)
      | None \<Rightarrow> (case same_head_args annotation actual of
        None \<Rightarrow> if assign annotation actual then Some empty_solution else None
      | Some (expected_args, actual_args) \<Rightarrow>
          (let es = expand_inferred_generic_args packs expected_args;
               as = expand_inferred_generic_args packs actual_args
           in case expected_type_pack_index packs es of
                None \<Rightarrow>
                  if length es \<noteq> length as then None
                  else infer_pairs assign generics packs s es as empty_solution
              | Some (pack_index, name) \<Rightarrow>
                  (let suffix_len = length es - (pack_index + 1);
                       pack_end = length as - suffix_len
                   in if length as < pack_index + suffix_len then None
                      else Option.bind
                        (Option.bind
                          (infer_pairs assign generics packs s (take pack_index es)
                             (take pack_index as) empty_solution)
                          (insert_type_pack_binding name
                            \<lparr>tpb_types = take (pack_end - pack_index) (drop pack_index as),
                             tpb_variadic_tail = None\<rparr>))
                        (infer_pairs assign generics packs s (drop (pack_index + 1) es)
                           (drop pack_end as)))))))))"
| "infer_all_branches assign generics packs s annotation [] = Some []"
| "infer_all_branches assign generics packs s annotation (b # bs) =
     (case infer_full assign generics packs s annotation b of
        None \<Rightarrow> None
      | Some candidate \<Rightarrow>
          if fits assign s candidate annotation b
          then map_option ((#) candidate) (infer_all_branches assign generics packs s annotation bs)
          else None)"
| "infer_some_branches assign generics packs s [] actual = []"
| "infer_some_branches assign generics packs s (b # bs) actual =
     (case infer_full assign generics packs s b actual of
        None \<Rightarrow> []
      | Some candidate \<Rightarrow> if fits assign s candidate b actual then [candidate] else []) @
     infer_some_branches assign generics packs s bs actual"
| "infer_pairs assign generics packs s [] as inferred = Some inferred"
| "infer_pairs assign generics packs s (e # es) [] inferred = Some inferred"
| "infer_pairs assign generics packs s (e # es) (a # as) inferred =
     (case infer_full assign generics packs s e a of
        None \<Rightarrow> None
      | Some found \<Rightarrow>
          (case merge_nested_generic_bindings assign inferred found of
             None \<Rightarrow> None
           | Some inferred' \<Rightarrow> infer_pairs assign generics packs s es as inferred'))"
  by pat_completeness auto

termination
  by (relation "measure infer_measure")
    (auto simp: infer_measure_def intro: odd_less branch_less infer_args_less infer_slices_less)

declare infer_full.simps [simp del]

section \<open>Recorded constraints\<close>

text \<open>The constraint sets a call can build up.\<close>

inductive recorded :: "generic_constraint_set \<Rightarrow> bool" where
  recorded_empty: "recorded empty_constraints"
| recorded_type: "recorded cs \<Longrightarrow> recorded (add_type name t cs)"
| recorded_params: "recorded cs \<Longrightarrow> recorded (add_param_list name b cs)"
| recorded_pack: "recorded cs \<Longrightarrow> recorded (push_type_pack_binding name p cs)"

lemma recorded_fold:
  "(\<And>e cs. recorded cs \<Longrightarrow> recorded (f e cs)) \<Longrightarrow> recorded cs \<Longrightarrow> recorded (fold f es cs)"
  by (induction es arbitrary: cs) simp_all

lemma recorded_extend: "recorded cs \<Longrightarrow> recorded (extend_bindings bindings cs)"
  unfolding extend_bindings_def
  by (intro recorded_fold) (auto intro: recorded.intros)

definition candidates_valid :: "generic_constraint_set \<Rightarrow> bool" where
  "candidates_valid cs \<longleftrightarrow> store_ok (cs_store cs) \<and>
     (\<forall>n i. TypeVarConstraint n i \<in> set (cs_constraints cs) \<longrightarrow> store_get (cs_store cs) i \<noteq> None)"

definition store_grows :: "type_store \<Rightarrow> type_store \<Rightarrow> bool" where
  "store_grows s s' \<longleftrightarrow> store_ok s' \<and> (\<forall>i u. store_get s i = Some u \<longrightarrow> store_get s' i = Some u)"

lemma grows_refl: "store_ok s \<Longrightarrow> store_grows s s"
  by (simp add: store_grows_def)

lemma grows_trans: "store_grows a b \<Longrightarrow> store_grows b c \<Longrightarrow> store_grows a c"
  by (simp add: store_grows_def)

lemma grows_intern: "store_ok s \<Longrightarrow> intern t s = (i, s') \<Longrightarrow> store_grows s s' \<and> store_get s' i = Some t"
  using store.put_ok [of s t] store.look_put [of s t] store.look_stable [of s _ _ t]
  by (simp add: store_grows_def)

lemma grows_intern_all: "store_ok s \<Longrightarrow> intern_all ts s = (ids, s') \<Longrightarrow>
    store_grows s s' \<and> map (store_get s') ids = map Some ts"
  using intern_all_ok [of s ts] intern_all_stable [of s _ _ ts] intern_all_look [of s ts]
  by (simp add: store_grows_def)

lemma grows_intern_pack:
  assumes "store_ok s" "intern_type_pack_binding b s = (ib, s')"
  shows "store_grows s s'"
proof -
  obtain ids s1 where all: "intern_all (tpb_types b) s = (ids, s1)" by fastforce
  then have s1: "store_grows s s1" using grows_intern_all [OF assms(1)] by blast
  show ?thesis
  proof (cases "tpb_variadic_tail b")
    case None
    then show ?thesis using assms(2) all s1 by (simp add: intern_type_pack_binding_def)
  next
    case (Some t)
    obtain i s2 where t: "intern t s1 = (i, s2)" by fastforce
    have "store_grows s1 s2" using s1 grows_intern [OF _ t] by (simp add: store_grows_def)
    then show ?thesis
      using assms(2) all t Some grows_trans [OF s1] by (simp add: intern_type_pack_binding_def)
  qed
qed

lemma grows_intern_param: "store_ok s \<Longrightarrow> store_grows s (snd (intern_param p s))"
  using grows_intern [of s] grows_refl [of s]
  by (auto simp: intern_param_def split: option.splits prod.splits)

lemma grows_intern_params: "store_ok s \<Longrightarrow> store_grows s (snd (intern_param_list_binding ps s))"
proof (induction ps arbitrary: s)
  case Nil
  then show ?case by (simp add: grows_refl)
next
  case (Cons p ps)
  have g: "store_grows s (snd (intern_param p s))" using Cons.prems by (rule grows_intern_param)
  then have "store_grows (snd (intern_param p s))
      (snd (intern_param_list_binding ps (snd (intern_param p s))))"
    using Cons.IH by (simp add: store_grows_def)
  then show ?case using grows_trans [OF g] by (simp add: Let_def case_prod_beta)
qed

lemma candidates_valid_grow:
  assumes "candidates_valid cs" "store_grows (cs_store cs) store"
    and "\<And>n i. c = TypeVarConstraint n i \<Longrightarrow> store_get store i \<noteq> None"
  shows "candidates_valid \<lparr>cs_constraints = cs_constraints cs @ [c], cs_store = store\<rparr>"
  using assms unfolding candidates_valid_def store_grows_def by fastforce

lemma recorded_valid: "recorded cs \<Longrightarrow> candidates_valid cs"
proof (induction rule: recorded.induct)
  case recorded_empty
  then show ?case by (simp add: candidates_valid_def empty_constraints_def store_ok_empty)
next
  case (recorded_type cs name t)
  obtain i s where e: "intern t (cs_store cs) = (i, s)" by fastforce
  have "store_grows (cs_store cs) s \<and> store_get s i = Some t"
    using recorded_type.IH grows_intern [OF _ e] by (simp add: candidates_valid_def)
  then show ?case
    using recorded_type.IH e by (auto simp: add_type_def intro: candidates_valid_grow)
next
  case (recorded_params cs name b)
  then show ?case
    using grows_intern_params [of "cs_store cs" b]
    by (auto simp: add_param_list_def Let_def case_prod_beta candidates_valid_def [of cs]
        intro: candidates_valid_grow)
next
  case (recorded_pack cs name p)
  obtain ib s where e: "intern_type_pack_binding p (cs_store cs) = (ib, s)" by fastforce
  then have "store_grows (cs_store cs) s"
    using recorded_pack.IH grows_intern_pack by (simp add: candidates_valid_def)
  then show ?case
    using recorded_pack.IH e by (auto simp: push_type_pack_binding_def intro: candidates_valid_grow)
qed

section \<open>Solving never panics\<close>

definition solve_ok :: "solve_state \<Rightarrow> bool" where
  "solve_ok st \<longleftrightarrow> store_ok (ss_store st) \<and> bt_ok (ss_type_ids st) \<and>
     (\<forall>n i. bt_get (ss_type_ids st) n = Some i \<longrightarrow> store_get (ss_store st) i \<noteq> None)"

text \<open>The type a name is bound to in a solver state.\<close>

definition type_of :: "solve_state \<Rightarrow> string \<Rightarrow> semantic_type option" where
  "type_of st n = Option.bind (bt_get (ss_type_ids st) n) (store_get (ss_store st))"

lemma bind_name:
  assumes "solve_ok st" "intern t (ss_store st) = (i, store)"
    and st': "st' = st\<lparr>ss_store := store, ss_type_ids := bt_insert name i (ss_type_ids st)\<rparr>"
  shows "solve_ok st' \<and> type_of st' name = Some t \<and> (\<forall>n. n \<noteq> name \<longrightarrow> type_of st' n = type_of st n)"
proof -
  have g: "store_grows (ss_store st) store" "store_get store i = Some t"
    using grows_intern [OF _ assms(2)] assms(1) by (simp_all add: solve_ok_def)
  have keep: "store_get store j = store_get (ss_store st) j"
    if "bt_get (ss_type_ids st) n = Some j" for n j
    using that assms(1) g(1) unfolding solve_ok_def store_grows_def by (metis option.exhaust)
  have valid: "\<exists>u. store_get store j = Some u" if "bt_get (ss_type_ids st) n = Some j" for n j
    using keep [OF that] that assms(1) by (auto simp: solve_ok_def)
  have "solve_ok st'"
    using assms(1) g valid unfolding solve_ok_def store_grows_def st'
    by (simp split: if_splits)
  moreover have "type_of st' n = type_of st n" if "n \<noteq> name" for n
    using that assms(1) keep [of n]
    by (cases "bt_get (ss_type_ids st) n") (simp_all add: type_of_def st' solve_ok_def)
  ultimately show ?thesis using assms(1) g by (simp add: type_of_def st' solve_ok_def)
qed

lemma solve_type_var_step:
  assumes "solve_ok st" "store_get (cs_store cs) cid = Some c"
  shows "\<exists>st'. solve_type_var assign cs name cid st = Some st' \<and> solve_ok st' \<and>
    (\<forall>n. n \<noteq> name \<longrightarrow> type_of st' n = type_of st n) \<and>
    type_of st' name = Some (case type_of st name of
        None \<Rightarrow> c
      | Some e \<Rightarrow> if bt_get (ss_type_ids st) name = Some cid then e else merge_with_context assign e c)"
proof (cases "bt_get (ss_type_ids st) name")
  case None
  obtain i store where e: "intern c (ss_store st) = (i, store)" by fastforce
  show ?thesis
    using bind_name [OF assms(1) e refl, of name] None assms(2) e
    by (simp add: solve_type_var_def type_of_def [of st])
next
  case (Some ex)
  then obtain t where t: "store_get (ss_store st) ex = Some t"
    using assms(1) by (auto simp: solve_ok_def)
  have old: "type_of st name = Some t" using Some t by (simp add: type_of_def)
  show ?thesis
  proof (cases "ex = cid")
    case True
    then show ?thesis using Some old assms(1) by (simp add: solve_type_var_def)
  next
    case False
    obtain i store where e: "intern (merge_with_context assign t c) (ss_store st) = (i, store)"
      by fastforce
    show ?thesis
      using bind_name [OF assms(1) e refl, of name] Some t False assms(2) e old
      by (simp add: solve_type_var_def)
  qed
qed

lemma solve_constraint_ok:
  assumes "candidates_valid cs" "c \<in> set (cs_constraints cs)" "solve_ok st"
  shows "(\<exists>e. solve_constraint assign cs c st = Some (Inl e)) \<or>
    (\<exists>st'. solve_constraint assign cs c st = Some (Inr st') \<and> solve_ok st')"
proof (cases c)
  case (TypeVarConstraint name cid)
  then obtain t where "store_get (cs_store cs) cid = Some t"
    using assms(1,2) by (auto simp: candidates_valid_def)
  then show ?thesis
    using solve_type_var_step [OF assms(3), of cs cid t assign name] TypeVarConstraint
    by (auto simp: solve_constraint_def)
next
  case (ParamSpecConstraint name binding)
  then show ?thesis
    using assms(3)
    by (auto simp: solve_constraint_def solve_ok_def split: option.splits)
next
  case (TypeVarTupleConstraint name binding)
  then show ?thesis
    using assms(3)
    by (auto simp: solve_constraint_def solve_ok_def split: option.splits)
qed

lemma solve_constraints_ok:
  assumes "candidates_valid cs"
  shows "set rest \<subseteq> set (cs_constraints cs) \<Longrightarrow> solve_ok st \<Longrightarrow>
    (\<exists>e. solve_constraints assign cs rest st = Some (Inl e)) \<or>
    (\<exists>st'. solve_constraints assign cs rest st = Some (Inr st') \<and> solve_ok st')"
proof (induction rest arbitrary: st)
  case (Cons c rest)
  then show ?case
    using solve_constraint_ok [OF assms, of c st assign] by fastforce
qed simp

lemma types_of_ids_total:
  "\<forall>(n, i)\<in>set ids. store_get store i \<noteq> None \<Longrightarrow>
    types_of_ids store ids = Some (map (\<lambda>(n, i). (n, the (store_get store i))) ids)"
  by (induction ids) auto

lemma bt_get_map_values:
  "bt_get (map (\<lambda>(n, i). (n, f i)) m) k = map_option f (bt_get m k)"
  by (induction m) (auto simp: bt_get_def)

abbreviation solve_start :: solve_state where
  "solve_start \<equiv> \<lparr>ss_solution = empty_solution, ss_type_ids = [], ss_store = empty_store\<rparr>"

lemma solve_start_ok: "solve_ok solve_start"
  by (simp add: solve_ok_def store_ok_empty)

lemma solve_collected_result:
  assumes "solve_constraints assign cs (cs_constraints cs) solve_start = Some (Inr st)" "solve_ok st"
  shows "\<exists>s. solve_collected assign cs = Some (Inr s) \<and> (\<forall>n. bt_get (gs_types s) n = type_of st n)"
proof -
  have "\<forall>(n, i)\<in>set (ss_type_ids st). store_get (ss_store st) i \<noteq> None"
    using assms(2) by (auto simp: solve_ok_def bt_get_Some_iff)
  note t = types_of_ids_total [OF this]
  have "map_option (\<lambda>i. the (store_get (ss_store st) i)) (bt_get (ss_type_ids st) n) = type_of st n" for n
    using assms(2) by (auto simp: type_of_def solve_ok_def split: option.splits bind_splits)
  then show ?thesis
    using assms(1) t by (simp add: solve_collected_def bt_get_map_values)
qed

lemma solve_collected_total: "recorded cs \<Longrightarrow> solve_collected assign cs \<noteq> None"
proof -
  assume "recorded cs"
  then have v: "candidates_valid cs" by (rule recorded_valid)
  consider e where "solve_constraints assign cs (cs_constraints cs) solve_start = Some (Inl e)"
    | st where "solve_constraints assign cs (cs_constraints cs) solve_start = Some (Inr st)" "solve_ok st"
    using solve_constraints_ok [OF v order_refl solve_start_ok, of assign] by blast
  then show ?thesis
  proof cases
    case 1
    then show ?thesis by (simp add: solve_collected_def)
  next
    case 2
    then show ?thesis using solve_collected_result [OF 2] by auto
  qed
qed

text \<open>
  C17: the \<^verbatim>\<open>expect\<close> calls of the solver never fail. Whatever bindings a call records,
  solving and finalising them returns a solution or a reported failure, and so does
  finalising a given set of substitutions.
\<close>

theorem solver_never_panics:
  assumes "recorded cs"
  shows "solve_collected assign cs \<noteq> None \<and>
    finalize_generic_solution assign metadata cs \<noteq> None \<and>
    finalize_substitutions assign type_params substitutions \<noteq> None"
proof -
  have "finalize_generic_solution assign m c \<noteq> None" if "recorded c" for m c
    using solve_collected_total [OF that, of assign]
    by (auto simp: finalize_generic_solution_def split: sum.splits)
  then show ?thesis
    using solve_collected_total [OF assms]
      recorded_extend [OF recorded_empty] by (simp add: finalize_substitutions_def assms)
qed

theorem solver_never_panics_witness:
  "finalize_generic_solution (\<lambda>e a. e = a) (metadata_from_function [])
     (add_type ''T'' (SName ''int'') empty_constraints) \<noteq> None"
  using solver_never_panics [OF recorded_type [OF recorded_empty]] by blast

text \<open>
  A name all of whose candidates are one type keeps that type through every step.
\<close>

lemma merge_same: "merge_with_context assign t t = t"
  by (simp add: merge_with_context_def merge_generic_type_candidates_def)

lemma solve_constraint_type_of:
  assumes "candidates_valid cs" "c \<in> set (cs_constraints cs)" "solve_ok st"
    and "solve_constraint assign cs c st = Some (Inr st')"
    and same: "\<forall>i. TypeVarConstraint name i \<in> set (cs_constraints cs) \<longrightarrow> store_get (cs_store cs) i = Some t"
    and before: "type_of st name \<in> {None, Some t}"
  shows "type_of st' name = (if \<exists>i. c = TypeVarConstraint name i then Some t else type_of st name)"
proof (cases c)
  case (TypeVarConstraint n cid)
  then obtain u where u: "store_get (cs_store cs) cid = Some u"
    using assms(1,2) by (auto simp: candidates_valid_def)
  have u': "n = name \<Longrightarrow> u = t" using same u TypeVarConstraint assms(2) by auto
  obtain st'' where st'': "solve_type_var assign cs n cid st = Some st''"
    "\<forall>m. m \<noteq> n \<longrightarrow> type_of st'' m = type_of st m"
    "type_of st'' n = Some (case type_of st n of
        None \<Rightarrow> u
      | Some e \<Rightarrow> if bt_get (ss_type_ids st) n = Some cid then e else merge_with_context assign e u)"
    using solve_type_var_step [OF assms(3) u, of assign n] by blast
  have "st' = st''" using assms(4) st''(1) TypeVarConstraint by (simp add: solve_constraint_def)
  then show ?thesis
    using st''(2,3) u' before TypeVarConstraint by (auto simp: merge_same split: option.splits)
next
  case (ParamSpecConstraint n binding)
  then show ?thesis
    using assms(4) by (auto simp: solve_constraint_def type_of_def split: option.splits)
next
  case (TypeVarTupleConstraint n binding)
  then show ?thesis
    using assms(4) by (auto simp: solve_constraint_def type_of_def split: option.splits)
qed

lemma solve_constraints_type_of:
  assumes "candidates_valid cs"
    and same: "\<forall>i. TypeVarConstraint name i \<in> set (cs_constraints cs) \<longrightarrow> store_get (cs_store cs) i = Some t"
  shows "set rest \<subseteq> set (cs_constraints cs) \<Longrightarrow> solve_ok st \<Longrightarrow> type_of st name \<in> {None, Some t} \<Longrightarrow>
    solve_constraints assign cs rest st = Some (Inr st') \<Longrightarrow>
    type_of st' name = (if \<exists>i. TypeVarConstraint name i \<in> set rest then Some t else type_of st name)"
proof (induction rest arbitrary: st)
  case (Cons c rest)
  have c: "c \<in> set (cs_constraints cs)" and r: "set rest \<subseteq> set (cs_constraints cs)"
    using Cons.prems(1) by simp_all
  obtain st1 where st1: "solve_constraint assign cs c st = Some (Inr st1)" "solve_ok st1"
    using solve_constraint_ok [OF assms(1) c Cons.prems(2), of assign] Cons.prems(4) by auto
  have t1: "type_of st1 name = (if \<exists>i. c = TypeVarConstraint name i then Some t else type_of st name)"
    by (rule solve_constraint_type_of [OF assms(1) c Cons.prems(2) st1(1) same Cons.prems(3)])
  then have in1: "type_of st1 name \<in> {None, Some t}" using Cons.prems(3) by auto
  have "solve_constraints assign cs rest st1 = Some (Inr st')" using Cons.prems(4) st1(1) by simp
  from Cons.IH [OF r st1(2) in1 this] show ?case using t1 by auto
qed simp

lemma solve_collected_inr:
  assumes "candidates_valid cs" "solve_collected assign cs = Some (Inr s)"
  obtains st where "solve_constraints assign cs (cs_constraints cs) solve_start = Some (Inr st)"
    "\<forall>n. bt_get (gs_types s) n = type_of st n"
proof -
  obtain st where st: "solve_constraints assign cs (cs_constraints cs) solve_start = Some (Inr st)"
      "solve_ok st"
    using solve_constraints_ok [OF assms(1) order_refl solve_start_ok, of assign] assms(2)
    by (auto simp: solve_collected_def)
  show ?thesis using that solve_collected_result [OF st] st(1) assms(2) by auto
qed

text \<open>
  A type variable whose recorded candidates are all the same type is solved to that
  type, whatever else the call records and whatever the assignability relation is.
\<close>

lemma solver_agreed_candidate:
  assumes "recorded cs" "solve_collected assign cs = Some (Inr s)"
    and "TypeVarConstraint name j \<in> set (cs_constraints cs)"
    and "\<forall>i. TypeVarConstraint name i \<in> set (cs_constraints cs) \<longrightarrow>
          store_get (cs_store cs) i = Some t"
  shows "bt_get (gs_types s) name = Some t"
proof -
  have v: "candidates_valid cs" using assms(1) by (rule recorded_valid)
  obtain st where st: "solve_constraints assign cs (cs_constraints cs) solve_start = Some (Inr st)"
      "\<forall>n. bt_get (gs_types s) n = type_of st n"
    using v assms(2) by (rule solve_collected_inr)
  have "type_of solve_start name \<in> {None, Some t}" by (simp add: type_of_def)
  from solve_constraints_type_of [OF v assms(4) order_refl solve_start_ok this st(1)]
  show ?thesis using assms(3) st(2) by auto
qed

text \<open>
  Candidates that differ can be confused. The id of a candidate belongs to the store of
  the constraint set, the id of the type a name has so far to the solver's own store, and
  the two are compared as numbers. A pack constraint puts a type into the first store only;
  with \<^verbatim>\<open>f(1.5, x=1, y=2.5)\<close> for \<^verbatim>\<open>def f[T, *Ts](*args: *Ts, x: T, y: T)\<close> the
  candidate \<^verbatim>\<open>float\<close> has id 0 there and \<^verbatim>\<open>int\<close> has id 0 here: \<^verbatim>\<open>T\<close> stays
  \<^verbatim>\<open>int\<close>, while merging the two candidates gives \<^verbatim>\<open>float\<close>.
\<close>

definition int_or_same :: "semantic_type \<Rightarrow> semantic_type \<Rightarrow> bool" where
  "int_or_same expected actual \<longleftrightarrow>
     expected = actual \<or> (expected = SName ''float'' \<and> actual = SName ''int'')"

definition pack_call_constraints :: generic_constraint_set where
  "pack_call_constraints =
     add_type ''T'' (SName ''float'') (add_type ''T'' (SName ''int'')
       (push_type_pack_binding ''Ts''
          \<lparr>tpb_types = [SName ''float''], tpb_variadic_tail = None\<rparr> empty_constraints))"

lemma solver_confuses_stores:
  "merge_with_context int_or_same (SName ''int'') (SName ''float'') = SName ''float'' \<and>
   recorded pack_call_constraints \<and>
   map_option (map_sum id gs_types) (solve_collected int_or_same pack_call_constraints) =
     Some (Inr [(''T'', SName ''int'')])"
proof (intro conjI)
  show "merge_with_context int_or_same (SName ''int'') (SName ''float'') = SName ''float''"
    by code_simp
  show "recorded pack_call_constraints"
    unfolding pack_call_constraints_def by (intro recorded.intros)
  show "map_option (map_sum id gs_types) (solve_collected int_or_same pack_call_constraints) =
     Some (Inr [(''T'', SName ''int'')])"
    by code_simp
qed

lemma map_filter_grown:
  "map f xs = map Some ys \<Longrightarrow> (\<And>x u. f x = Some u \<Longrightarrow> g x = Some u) \<Longrightarrow> List.map_filter g xs = ys"
  by (induction xs arbitrary: ys) (auto simp: map_filter_simps Cons_eq_map_conv)

text \<open>
  A type pack survives interning: the ids recorded for it lead back to its types in the
  store it was interned into and in every later state of that store.
\<close>

lemma type_pack_interning_roundtrip:
  assumes "store_ok s" "intern_type_pack_binding b s = (ib, s1)" "store_grows s1 s2"
  shows "materialize_type_pack_binding s2 ib = b"
proof -
  obtain ids sa where all: "intern_all (tpb_types b) s = (ids, sa)" by fastforce
  have ga: "store_grows s sa" "map (store_get sa) ids = map Some (tpb_types b)"
    using grows_intern_all [OF assms(1) all] by blast+
  have keep: "store_get s2 i = Some t" if "store_get sa i = Some t" "store_grows sa s2" for i t
    using that by (simp add: store_grows_def)
  have types: "List.map_filter (store_get s2) ids = tpb_types b" if "store_grows sa s2"
  proof -
    show ?thesis using ga(2) by (rule map_filter_grown) (rule keep [OF _ that])
  qed
  show ?thesis
  proof (cases "tpb_variadic_tail b")
    case None
    then show ?thesis
      using assms(2,3) all types
      by (auto simp: intern_type_pack_binding_def materialize_type_pack_binding_def)
  next
    case (Some t)
    obtain i sb where t: "intern t sa = (i, sb)" by fastforce
    have gb: "store_grows sa sb" "store_get sb i = Some t"
      using ga(1) grows_intern [OF _ t] by (simp_all add: store_grows_def)
    have e: "ib = \<lparr>ip_types = ids, ip_variadic_tail = Some i\<rparr>" "s1 = sb"
      using assms(2) all t Some by (simp_all add: intern_type_pack_binding_def)
    have "store_grows sa s2" "store_get s2 i = Some t"
      using assms(3) gb e by (simp_all add: store_grows_def)
    then show ?thesis using types Some e by (simp add: materialize_type_pack_binding_def)
  qed
qed

end
