(* ===== verification/Decl_Semantics.thy ===== *)
theory Decl_Semantics
  imports Generic_Solver
begin

text \<open>
  Declaration semantics of the checker (crates/typepython_checking, declaration_semantics.rs):
  the typed view of a bound declaration, the thread-local cache it is kept in with interned
  types, the substitution of \<open>Self\<close> and of the type arguments of an owner, and the reader
  of signature texts. The cache is explicit state here; that it is transparent is proved below.
\<close>

section \<open>Data\<close>

record direct_signature_param =
  sg_name :: string
  sg_annotation :: string
  sg_has_default :: bool
  sg_positional_only :: bool
  sg_keyword_only :: bool
  sg_variadic :: bool
  sg_keyword_variadic :: bool

record semantic_callable_param =
  sp_name :: string
  sp_annotation_text :: "string option"
  sp_annotation :: "semantic_type option"
  sp_has_default :: bool
  sp_positional_only :: bool
  sp_keyword_only :: bool
  sp_variadic :: bool
  sp_keyword_variadic :: bool

record semantic_callable_declaration =
  sc_params :: "direct_param list"
  sc_semantic_params :: "semantic_callable_param list"
  sc_return_annotation_text :: "string option"
  sc_return_type :: "semantic_type option"

definition param_names :: "semantic_callable_declaration \<Rightarrow> string list" where
  "param_names callable = map dp_name (sc_params callable)"

definition param_types :: "semantic_callable_declaration \<Rightarrow> string list" where
  "param_types callable =
     map (\<lambda>p. case dp_annotation p of Some a \<Rightarrow> a | None \<Rightarrow> []) (sc_params callable)"

definition or_text :: "semantic_type option \<Rightarrow> string option \<Rightarrow> string option" where
  "or_text ty text = (case ty of Some t \<Rightarrow> Some (render_semantic_type t) | None \<Rightarrow> text)"

definition rendered_return_annotation_text :: "semantic_callable_declaration \<Rightarrow> string option" where
  "rendered_return_annotation_text callable =
     or_text (sc_return_type callable) (sc_return_annotation_text callable)"

definition annotation_or_dynamic :: "semantic_callable_param \<Rightarrow> semantic_type" where
  "annotation_or_dynamic p = (case sp_annotation p of Some t \<Rightarrow> t | None \<Rightarrow> SName ''dynamic'')"

definition rendered_annotation_text :: "semantic_callable_param \<Rightarrow> string option" where
  "rendered_annotation_text p = or_text (sp_annotation p) (sp_annotation_text p)"

record semantic_value_declaration =
  sv_annotation_text :: "string option"
  sv_annotation :: "semantic_type option"

record semantic_type_alias_declaration =
  sa_head :: string
  sa_type_params :: "generic_type_param list"
  sa_body_text :: string
  sa_body :: semantic_type

text \<open>
  \<^verbatim>\<open>SemanticImportTargetRef\<close> has the fields of \<^verbatim>\<open>BoundImportTarget\<close>, copied one
  by one; the model keeps the bound target.
\<close>

record semantic_declaration_facts =
  sf_callable :: "semantic_callable_declaration option"
  sf_value :: "semantic_value_declaration option"
  sf_type_alias :: "semantic_type_alias_declaration option"
  sf_import_target :: "bound_import_target option"

section \<open>Signatures\<close>

definition signature_site_from_semantic_param :: "semantic_callable_param \<Rightarrow> direct_param" where
  "signature_site_from_semantic_param p =
     \<lparr>dp_name = sp_name p, dp_annotation = rendered_annotation_text p,
      dp_annotation_expr = map_option semantic_type_to_type_expr (sp_annotation p),
      dp_has_default = sp_has_default p, dp_positional_only = sp_positional_only p,
      dp_keyword_only = sp_keyword_only p, dp_variadic = sp_variadic p,
      dp_keyword_variadic = sp_keyword_variadic p\<rparr>"

definition signature_sites_from_semantic_params ::
    "semantic_callable_param list \<Rightarrow> direct_param list" where
  "signature_sites_from_semantic_params params = map signature_site_from_semantic_param params"

definition callable_signature_sites_from_semantics ::
    "semantic_callable_declaration \<Rightarrow> direct_param list" where
  "callable_signature_sites_from_semantics callable =
     map signature_site_from_semantic_param (sc_semantic_params callable)"

definition method_semantic_params_without_self ::
    "bound_declaration \<Rightarrow> semantic_callable_declaration \<Rightarrow> semantic_callable_param list" where
  "method_semantic_params_without_self d callable =
     (case (case d_method_kind d of Some k \<Rightarrow> k | None \<Rightarrow> InstanceMethod) of
        StaticMethod \<Rightarrow> sc_semantic_params callable
      | PropertyMethod \<Rightarrow> sc_semantic_params callable
      | _ \<Rightarrow> drop 1 (sc_semantic_params callable))"

section \<open>Substituting the owner for Self\<close>

text \<open>
  \<^verbatim>\<open>substitute_self_semantic_type_with_type\<close>.
\<close>

fun substitute_self_with :: "semantic_type option \<Rightarrow> semantic_type \<Rightarrow> semantic_type"
  and substitute_self_params_with ::
    "semantic_type option \<Rightarrow> semantic_callable_params \<Rightarrow> semantic_callable_params" where
  "substitute_self_with self_type (SName name) =
     (if name = ''Self''
      then (case self_type of Some t \<Rightarrow> t | None \<Rightarrow> SName name)
      else SName name)"
| "substitute_self_with self_type (SGeneric head args) =
     SGeneric head (map (substitute_self_with self_type) args)"
| "substitute_self_with self_type (SCallable params r) =
     SCallable (substitute_self_params_with self_type params) (substitute_self_with self_type r)"
| "substitute_self_with self_type (SUnion branches) =
     SUnion (map (substitute_self_with self_type) branches)"
| "substitute_self_with self_type (SAnnotated v metadata) =
     SAnnotated (substitute_self_with self_type v) metadata"
| "substitute_self_with self_type (SUnpack inner) = SUnpack (substitute_self_with self_type inner)"
| "substitute_self_params_with self_type SEllipsis = SEllipsis"
| "substitute_self_params_with self_type (SParamList types) =
     SParamList (map (substitute_self_with self_type) types)"
| "substitute_self_params_with self_type (SConcatenate types) =
     SConcatenate (map (substitute_self_with self_type) types)"
| "substitute_self_params_with self_type (SSingle e) = SSingle (substitute_self_with self_type e)"

definition substitute_self_semantic_type :: "semantic_type \<Rightarrow> string option \<Rightarrow> semantic_type" where
  "substitute_self_semantic_type ty owner_type_name =
     substitute_self_with (map_option lower_type_text_or_name owner_type_name) ty"

text \<open>The tokens of a text, each given to \<open>f\<close>, and the characters between them.\<close>

definition token_char :: "char \<Rightarrow> bool" where
  "token_char c \<longleftrightarrow> is_ascii_alphanumeric c \<or> c = CHR ''_''"

fun rewrite_tokens :: "(string \<Rightarrow> string) \<Rightarrow> string \<Rightarrow> string \<Rightarrow> string" where
  "rewrite_tokens f token [] = (if token = [] then [] else f token)"
| "rewrite_tokens f token (c # s) =
     (if token_char c then rewrite_tokens f (token @ [c]) s
      else (if token = [] then [] else f token) @ c # rewrite_tokens f [] s)"

definition substitute_self_annotation :: "string \<Rightarrow> string option \<Rightarrow> string" where
  "substitute_self_annotation text owner_type_name =
     (case owner_type_name of
        None \<Rightarrow> trim text
      | Some owner \<Rightarrow>
          rewrite_tokens (\<lambda>token. if token = ''Self'' then owner else token) [] (trim text))"

definition callable_semantic_params_with_self ::
    "semantic_callable_declaration \<Rightarrow> string \<Rightarrow> semantic_callable_param list" where
  "callable_semantic_params_with_self callable owner_type_name =
     map (\<lambda>p. let annotation = map_option (\<lambda>a. substitute_self_semantic_type a (Some owner_type_name))
                                (sp_annotation p)
              in p\<lparr>sp_annotation_text :=
                     or_text annotation
                       (map_option (\<lambda>a. substitute_self_annotation a (Some owner_type_name))
                         (sp_annotation_text p)),
                   sp_annotation := annotation\<rparr>)
       (sc_semantic_params callable)"

definition substitute_self_semantic_params_with_type ::
    "semantic_callable_param list \<Rightarrow> semantic_type option \<Rightarrow> semantic_callable_param list" where
  "substitute_self_semantic_params_with_type params self_type =
     map (\<lambda>p. let annotation = map_option (substitute_self_with self_type) (sp_annotation p)
              in p\<lparr>sp_annotation := annotation,
                   sp_annotation_text := map_option render_semantic_type annotation\<rparr>) params"

definition callable_return_semantic_type_with_self ::
    "semantic_callable_declaration \<Rightarrow> string \<Rightarrow> semantic_type option" where
  "callable_return_semantic_type_with_self callable owner_type_name =
     map_option (\<lambda>t. substitute_self_semantic_type t (Some owner_type_name)) (sc_return_type callable)"

section \<open>Type arguments of an owner\<close>

text \<open>\<^verbatim>\<open>xs[start..stop]\<close>: \<open>None\<close> is the panic of a bad range.\<close>

definition vec_slice :: "nat \<Rightarrow> nat \<Rightarrow> 'a list \<Rightarrow> 'a list option" where
  "vec_slice start stop xs =
     (if start \<le> stop \<and> stop \<le> length xs then Some (take (stop - start) (drop start xs)) else None)"

fun bind_owner_params ::
    "semantic_type list \<Rightarrow> generic_type_param list \<Rightarrow> nat \<Rightarrow> generic_solution \<Rightarrow> generic_solution option" where
  "bind_owner_params args [] arg_index s = Some s"
| "bind_owner_params args (p # ps) arg_index s =
     (case gp_kind p of
        GTypeVar \<Rightarrow>
          if arg_index < length args
          then bind_owner_params args ps (arg_index + 1)
                 (s\<lparr>gs_types := bt_insert (gp_name p) (args ! arg_index) (gs_types s)\<rparr>)
          else Some s
      | GTypeVarTuple \<Rightarrow>
          (let trailing_non_pack_params = length (filter (\<lambda>c. gp_kind c \<noteq> GTypeVarTuple) ps);
               pack_end = length args - trailing_non_pack_params
           in case vec_slice arg_index pack_end args of
                None \<Rightarrow> None
              | Some types \<Rightarrow>
                  bind_owner_params args ps pack_end
                    (s\<lparr>gs_type_packs := bt_insert (gp_name p)
                        \<lparr>tpb_types = types, tpb_variadic_tail = None\<rparr> (gs_type_packs s)\<rparr>))
      | GParamSpec \<Rightarrow> bind_owner_params args ps arg_index s)"

definition owner_generic_substitutions ::
    "semantic_type \<Rightarrow> bound_declaration \<Rightarrow> generic_solution option" where
  "owner_generic_substitutions owner_type class_declaration =
     (if d_type_params class_declaration = [] then Some empty_solution
      else (case semantic_generic_parts owner_type of
              None \<Rightarrow> Some empty_solution
            | Some (head, args) \<Rightarrow>
                if head \<noteq> d_name class_declaration then Some empty_solution
                else (let packs = names_of_kind GTypeVarTuple (d_type_params class_declaration)
                      in bind_owner_params (expand_inferred_generic_args packs args)
                           (d_type_params class_declaration) 0 empty_solution)))"

definition without_shadowed_generic_params ::
    "generic_solution \<Rightarrow> bound_declaration \<Rightarrow> generic_solution" where
  "without_shadowed_generic_params substitutions d =
     fold (\<lambda>p s. s\<lparr>gs_types := bt_remove (gp_name p) (gs_types s),
                   gs_param_lists := bt_remove (gp_name p) (gs_param_lists s),
                   gs_type_packs := bt_remove (gp_name p) (gs_type_packs s)\<rparr>)
       (d_type_params d) substitutions"

definition substitute_semantic_callable_params ::
    "semantic_callable_param list \<Rightarrow> generic_solution \<Rightarrow> semantic_callable_param list" where
  "substitute_semantic_callable_params params substitutions =
     map (\<lambda>p. let annotation = map_option (substitute substitutions) (sp_annotation p)
              in p\<lparr>sp_annotation := annotation,
                   sp_annotation_text := map_option render_semantic_type annotation\<rparr>) params"

section \<open>Building the facts\<close>

definition semantic_type_from_direct_param_site :: "direct_param \<Rightarrow> semantic_type option" where
  "semantic_type_from_direct_param_site p =
     (case dp_annotation_expr p of
        Some e \<Rightarrow> Some (lower_type_expr e)
      | None \<Rightarrow> map_option (\<lambda>a. lower_param_annotation_text a (dp_variadic p) (dp_keyword_variadic p))
                  (dp_annotation p))"

definition semantic_param_of_site :: "direct_param \<Rightarrow> semantic_callable_param" where
  "semantic_param_of_site p =
     \<lparr>sp_name = dp_name p, sp_annotation_text = rendered_annotation p,
      sp_annotation = semantic_type_from_direct_param_site p, sp_has_default = dp_has_default p,
      sp_positional_only = dp_positional_only p, sp_keyword_only = dp_keyword_only p,
      sp_variadic = dp_variadic p, sp_keyword_variadic = dp_keyword_variadic p\<rparr>"

definition semantic_callable_from_bound_signature ::
    "bound_callable_signature \<Rightarrow> semantic_callable_declaration" where
  "semantic_callable_from_bound_signature signature =
     \<lparr>sc_params = bs_params signature,
      sc_semantic_params = map semantic_param_of_site (bs_params signature),
      sc_return_annotation_text = map_option render (bs_returns signature),
      sc_return_type = map_option lower_type_expr (bs_returns signature)\<rparr>"

text \<open>The parts of a declaration the facts are built from, by its kind.\<close>

definition callable_of :: "bound_declaration \<Rightarrow> semantic_callable_declaration option" where
  "callable_of d =
     (if d_kind d \<in> {DFunction, DOverload}
      then map_option semantic_callable_from_bound_signature (callable_signature d) else None)"

definition import_of :: "bound_declaration \<Rightarrow> bound_import_target option" where
  "import_of d = (if d_kind d = DImport then import_target d else None)"

section \<open>The cache\<close>

record cached_callable_param =
  cq_name :: string
  cq_annotation_text :: "string option"
  cq_annotation_id :: "type_id option"
  cq_has_default :: bool
  cq_positional_only :: bool
  cq_keyword_only :: bool
  cq_variadic :: bool
  cq_keyword_variadic :: bool

record cached_callable =
  cc_params :: "direct_param list"
  cc_semantic_params :: "cached_callable_param list"
  cc_return_annotation_text :: "string option"
  cc_return_type_id :: "type_id option"

record cached_value =
  cv_annotation_text :: "string option"
  cv_annotation_id :: "type_id option"

record cached_type_alias =
  ca_head :: string
  ca_type_params :: "generic_type_param list"
  ca_body_text :: string
  ca_body_id :: type_id

record cached_facts =
  cf_callable :: "cached_callable option"
  cf_value :: "cached_value option"
  cf_type_alias :: "cached_type_alias option"
  cf_import_target :: "bound_import_target option"

record declaration_semantic_cache =
  dc_facts :: "bound_declaration \<rightharpoonup> cached_facts"
  dc_store :: type_store

definition empty_cache :: declaration_semantic_cache where
  "empty_cache = \<lparr>dc_facts = Map.empty, dc_store = empty_store\<rparr>"

definition intern_semantic_type ::
    "semantic_type option \<Rightarrow> type_store \<Rightarrow> type_id option \<times> type_store" where
  "intern_semantic_type ty store =
     (case ty of
        None \<Rightarrow> (None, store)
      | Some t \<Rightarrow> (let (i, store1) = intern t store in (Some i, store1)))"

definition load_interned_semantic_type ::
    "type_store \<Rightarrow> type_id option \<Rightarrow> semantic_type option" where
  "load_interned_semantic_type store i = Option.bind i (store_get store)"

definition cache_param ::
    "semantic_callable_param \<Rightarrow> type_store \<Rightarrow> cached_callable_param \<times> type_store" where
  "cache_param p store =
     (let (i, store1) = intern_semantic_type (sp_annotation p) store
      in (\<lparr>cq_name = sp_name p, cq_annotation_text = sp_annotation_text p, cq_annotation_id = i,
           cq_has_default = sp_has_default p, cq_positional_only = sp_positional_only p,
           cq_keyword_only = sp_keyword_only p, cq_variadic = sp_variadic p,
           cq_keyword_variadic = sp_keyword_variadic p\<rparr>, store1))"

fun cache_params ::
    "semantic_callable_param list \<Rightarrow> type_store \<Rightarrow> cached_callable_param list \<times> type_store" where
  "cache_params [] store = ([], store)"
| "cache_params (p # ps) store =
     (let (c, store1) = cache_param p store; (cs, store2) = cache_params ps store1
      in (c # cs, store2))"

definition cache_callable ::
    "semantic_callable_declaration \<Rightarrow> type_store \<Rightarrow> cached_callable \<times> type_store" where
  "cache_callable callable store =
     (let (ps, store1) = cache_params (sc_semantic_params callable) store;
          (i, store2) = intern_semantic_type (sc_return_type callable) store1
      in (\<lparr>cc_params = sc_params callable, cc_semantic_params = ps,
           cc_return_annotation_text = sc_return_annotation_text callable,
           cc_return_type_id = i\<rparr>, store2))"

text \<open>
  \<^verbatim>\<open>build_cached_semantic_declaration_facts\<close>: the kind of the declaration makes at
  most one of the first three parts present.
\<close>

definition build_cached_facts ::
    "bound_declaration \<Rightarrow> type_store \<Rightarrow> cached_facts \<times> type_store" where
  "build_cached_facts d store =
     (let (callable, store1) =
            (case callable_of d of
               None \<Rightarrow> (None, store)
             | Some c \<Rightarrow> (let (cc, s) = cache_callable c store in (Some cc, s)));
          (value_facts, store2) =
            (if d_kind d = DValue
             then (let (i, s) = intern_semantic_type (map_option lower_type_expr (value_annotation d)) store1
                   in (Some \<lparr>cv_annotation_text = map_option render (value_annotation d),
                             cv_annotation_id = i\<rparr>, s))
             else (None, store1));
          (type_alias, store3) =
            (if d_kind d = DTypeAlias
             then (case type_alias_value d of
                     None \<Rightarrow> (None, store2)
                   | Some v \<Rightarrow>
                       (let (i, s) = intern (lower_type_expr v) store2
                        in (Some \<lparr>ca_head = d_name d, ca_type_params = d_type_params d,
                                  ca_body_text = render v, ca_body_id = i\<rparr>, s)))
             else (None, store2))
      in (\<lparr>cf_callable = callable, cf_value = value_facts, cf_type_alias = type_alias,
           cf_import_target = import_of d\<rparr>, store3))"

text \<open>
  \<^verbatim>\<open>with_cached_semantic_declaration_facts\<close>: the cache with the facts of the declaration,
  to which the caller's action is applied.
\<close>

definition with_cached_facts ::
    "bound_declaration \<Rightarrow> declaration_semantic_cache \<Rightarrow>
     (cached_facts \<times> type_store) option \<times> declaration_semantic_cache" where
  "with_cached_facts d cache =
     (let cache1 = (if dc_facts cache d = None
                    then (let (facts, store) = build_cached_facts d (dc_store cache)
                          in \<lparr>dc_facts = (dc_facts cache)(d \<mapsto> facts), dc_store = store\<rparr>)
                    else cache)
      in (map_option (\<lambda>facts. (facts, dc_store cache1)) (dc_facts cache1 d), cache1))"

definition materialize_param_semantics ::
    "type_store \<Rightarrow> cached_callable_param \<Rightarrow> semantic_callable_param" where
  "materialize_param_semantics store p =
     (let annotation = load_interned_semantic_type store (cq_annotation_id p)
      in \<lparr>sp_name = cq_name p, sp_annotation_text = or_text annotation (cq_annotation_text p),
          sp_annotation = annotation, sp_has_default = cq_has_default p,
          sp_positional_only = cq_positional_only p, sp_keyword_only = cq_keyword_only p,
          sp_variadic = cq_variadic p, sp_keyword_variadic = cq_keyword_variadic p\<rparr>)"

definition materialize_callable_semantics ::
    "type_store \<Rightarrow> cached_callable \<Rightarrow> semantic_callable_declaration" where
  "materialize_callable_semantics store c =
     (let return_type = load_interned_semantic_type store (cc_return_type_id c)
      in \<lparr>sc_params = cc_params c,
          sc_semantic_params = map (materialize_param_semantics store) (cc_semantic_params c),
          sc_return_annotation_text = or_text return_type (cc_return_annotation_text c),
          sc_return_type = return_type\<rparr>)"

definition materialize_value_semantics ::
    "type_store \<Rightarrow> cached_value \<Rightarrow> semantic_value_declaration" where
  "materialize_value_semantics store v =
     \<lparr>sv_annotation_text = cv_annotation_text v,
      sv_annotation = load_interned_semantic_type store (cv_annotation_id v)\<rparr>"

text \<open>\<open>None\<close> is the panic of the \<^verbatim>\<open>expect\<close>.\<close>

definition materialize_type_alias_semantics ::
    "type_store \<Rightarrow> cached_type_alias \<Rightarrow> semantic_type_alias_declaration option" where
  "materialize_type_alias_semantics store a =
     map_option (\<lambda>body. \<lparr>sa_head = ca_head a, sa_type_params = ca_type_params a,
                         sa_body_text = ca_body_text a, sa_body = body\<rparr>)
       (store_get store (ca_body_id a))"

definition materialize_facts :: "type_store \<Rightarrow> cached_facts \<Rightarrow> semantic_declaration_facts option" where
  "materialize_facts store f =
     (let rest = (\<lambda>alias. \<lparr>sf_callable = map_option (materialize_callable_semantics store) (cf_callable f),
                           sf_value = map_option (materialize_value_semantics store) (cf_value f),
                           sf_type_alias = alias, sf_import_target = cf_import_target f\<rparr>)
      in case cf_type_alias f of
           None \<Rightarrow> Some (rest None)
         | Some a \<Rightarrow> map_option (\<lambda>x. rest (Some x)) (materialize_type_alias_semantics store a))"

text \<open>\<^verbatim>\<open>declaration_semantic_facts\<close>; the outer \<open>None\<close> is a panic.\<close>

definition cached_semantic_facts ::
    "bound_declaration \<Rightarrow> declaration_semantic_cache \<Rightarrow>
     semantic_declaration_facts option \<times> declaration_semantic_cache" where
  "cached_semantic_facts d cache =
     (let (found, cache1) = with_cached_facts d cache
      in (Option.bind found (\<lambda>(facts, store). materialize_facts store facts), cache1))"

section \<open>The facts without the cache\<close>

definition present_param :: "semantic_callable_param \<Rightarrow> semantic_callable_param" where
  "present_param p = p\<lparr>sp_annotation_text := or_text (sp_annotation p) (sp_annotation_text p)\<rparr>"

definition present_callable ::
    "semantic_callable_declaration \<Rightarrow> semantic_callable_declaration" where
  "present_callable c =
     c\<lparr>sc_semantic_params := map present_param (sc_semantic_params c),
       sc_return_annotation_text := or_text (sc_return_type c) (sc_return_annotation_text c)\<rparr>"

definition declaration_semantic_facts :: "bound_declaration \<Rightarrow> semantic_declaration_facts" where
  "declaration_semantic_facts d =
     \<lparr>sf_callable = map_option present_callable (callable_of d),
      sf_value =
        (if d_kind d = DValue
         then Some \<lparr>sv_annotation_text = map_option render (value_annotation d),
                    sv_annotation = map_option lower_type_expr (value_annotation d)\<rparr>
         else None),
      sf_type_alias =
        (if d_kind d = DTypeAlias
         then map_option (\<lambda>v. \<lparr>sa_head = d_name d, sa_type_params = d_type_params d,
                              sa_body_text = render v, sa_body = lower_type_expr v\<rparr>)
                (type_alias_value d)
         else None),
      sf_import_target = import_of d\<rparr>"

definition declaration_callable_semantics ::
    "bound_declaration \<Rightarrow> semantic_callable_declaration option" where
  "declaration_callable_semantics d = sf_callable (declaration_semantic_facts d)"

definition declaration_type_alias_semantics ::
    "bound_declaration \<Rightarrow> semantic_type_alias_declaration option" where
  "declaration_type_alias_semantics d = sf_type_alias (declaration_semantic_facts d)"

definition declaration_value_semantics ::
    "bound_declaration \<Rightarrow> semantic_value_declaration option" where
  "declaration_value_semantics d = sf_value (declaration_semantic_facts d)"

definition declaration_import_target_ref :: "bound_declaration \<Rightarrow> bound_import_target option" where
  "declaration_import_target_ref d = sf_import_target (declaration_semantic_facts d)"

definition declaration_signature_sites :: "bound_declaration \<Rightarrow> direct_param list" where
  "declaration_signature_sites d =
     (case declaration_callable_semantics d of
        Some c \<Rightarrow> callable_signature_sites_from_semantics c | None \<Rightarrow> [])"

definition declaration_semantic_signature_params ::
    "bound_declaration \<Rightarrow> semantic_callable_param list option" where
  "declaration_semantic_signature_params d =
     map_option sc_semantic_params (declaration_callable_semantics d)"

definition declaration_semantic_signature_params_with_self ::
    "bound_declaration \<Rightarrow> string \<Rightarrow> semantic_callable_param list option" where
  "declaration_semantic_signature_params_with_self d owner =
     map_option (\<lambda>c. callable_semantic_params_with_self c owner) (declaration_callable_semantics d)"

definition declaration_signature_param_count :: "bound_declaration \<Rightarrow> nat option" where
  "declaration_signature_param_count d =
     map_option (\<lambda>c. length (sc_params c)) (declaration_callable_semantics d)"

definition declaration_signature_param_names :: "bound_declaration \<Rightarrow> string list option" where
  "declaration_signature_param_names d = map_option param_names (declaration_callable_semantics d)"

definition declaration_signature_param_types :: "bound_declaration \<Rightarrow> string list option" where
  "declaration_signature_param_types d = map_option param_types (declaration_callable_semantics d)"

definition declaration_signature_return_semantic_type :: "bound_declaration \<Rightarrow> semantic_type option" where
  "declaration_signature_return_semantic_type d =
     Option.bind (declaration_callable_semantics d) sc_return_type"

definition declaration_signature_return_semantic_type_with_self ::
    "bound_declaration \<Rightarrow> string \<Rightarrow> semantic_type option" where
  "declaration_signature_return_semantic_type_with_self d owner =
     Option.bind (declaration_callable_semantics d)
       (\<lambda>c. callable_return_semantic_type_with_self c owner)"

definition declaration_value_annotation_text :: "bound_declaration \<Rightarrow> string option" where
  "declaration_value_annotation_text d =
     Option.bind (declaration_value_semantics d) sv_annotation_text"

definition declaration_value_annotation_semantic_type :: "bound_declaration \<Rightarrow> semantic_type option" where
  "declaration_value_annotation_semantic_type d =
     Option.bind (declaration_value_semantics d) sv_annotation"

section \<open>The cache is transparent\<close>

text \<open>
  What an entry must keep while the store grows: at every later store it materialises to
  the same thing.
\<close>

definition keeps :: "type_store \<Rightarrow> (type_store \<Rightarrow> 'a) \<Rightarrow> 'a \<Rightarrow> bool" where
  "keeps store look x \<longleftrightarrow> store_ok store \<and> (\<forall>later. store_grows store later \<longrightarrow> look later = x)"

definition cache_ok :: "declaration_semantic_cache \<Rightarrow> bool" where
  "cache_ok cache \<longleftrightarrow> store_ok (dc_store cache) \<and>
     (\<forall>d f. dc_facts cache d = Some f \<longrightarrow>
        keeps (dc_store cache) (\<lambda>s. materialize_facts s f) (Some (declaration_semantic_facts d)))"

named_theorems cache_steps \<open>what the parts of the cache keep\<close>

lemma keeps_grow: "keeps s look x \<Longrightarrow> store_grows s s' \<Longrightarrow> keeps s' look x"
  unfolding keeps_def using grows_trans by (metis store_grows_def)

lemma keeps_now: "keeps s look x \<Longrightarrow> look s = x"
  unfolding keeps_def by (simp add: grows_refl)

lemma keeps_map: "keeps s look x \<Longrightarrow> keeps s (\<lambda>t. g (look t)) (g x)"
  by (simp add: keeps_def)

lemma keeps_Cons: "keeps s f x \<Longrightarrow> keeps s g xs \<Longrightarrow> keeps s (\<lambda>t. f t # g t) (x # xs)"
  by (simp add: keeps_def)

lemma keeps_const: "store_ok s \<Longrightarrow> keeps s (\<lambda>t. x) x"
  by (simp add: keeps_def)

lemma grows_ok: "store_grows s s' \<Longrightarrow> store_ok s'"
  by (simp add: store_grows_def)

lemma intern_keeps: "store_ok s \<Longrightarrow> intern t s = (i, s') \<Longrightarrow>
    store_grows s s' \<and> keeps s' (\<lambda>later. store_get later i) (Some t)"
  using grows_intern [of s t i s'] by (auto simp: keeps_def store_grows_def)

lemma intern_opt_keeps [cache_steps]:
  "store_ok s \<Longrightarrow> intern_semantic_type ty s = (i, s') \<Longrightarrow>
    store_grows s s' \<and> keeps s' (\<lambda>later. load_interned_semantic_type later i) ty"
  using intern_keeps [of s] grows_refl [of s]
  by (auto simp: intern_semantic_type_def load_interned_semantic_type_def keeps_const
      split: option.splits prod.splits)

lemma cache_param_keeps [cache_steps]:
  assumes "store_ok s" "cache_param p s = (c, s')"
  shows "store_grows s s' \<and> keeps s' (\<lambda>later. materialize_param_semantics later c) (present_param p)"
proof -
  obtain i where i: "intern_semantic_type (sp_annotation p) s = (i, s')"
    and c: "c = \<lparr>cq_name = sp_name p, cq_annotation_text = sp_annotation_text p, cq_annotation_id = i,
           cq_has_default = sp_has_default p, cq_positional_only = sp_positional_only p,
           cq_keyword_only = sp_keyword_only p, cq_variadic = sp_variadic p,
           cq_keyword_variadic = sp_keyword_variadic p\<rparr>"
    using assms(2) by (auto simp: cache_param_def split: prod.splits)
  have "load_interned_semantic_type later i = sp_annotation p \<Longrightarrow>
      materialize_param_semantics later c = present_param p" for later
    by (cases p) (simp add: c materialize_param_semantics_def present_param_def)
  then show ?thesis using intern_opt_keeps [OF assms(1) i] by (simp add: keeps_def)
qed

lemma cache_params_keeps [cache_steps]:
  "store_ok s \<Longrightarrow> cache_params ps s = (cs, s') \<Longrightarrow>
    store_grows s s' \<and> keeps s' (\<lambda>later. map (materialize_param_semantics later) cs) (map present_param ps)"
proof (induction ps arbitrary: s cs)
  case (Cons p ps)
  obtain c s1 cs1 where c: "cache_param p s = (c, s1)" and r: "cache_params ps s1 = (cs1, s')"
    and cs: "cs = c # cs1"
    using Cons.prems(2) by (auto split: prod.splits)
  note first = cache_param_keeps [OF Cons.prems(1) c]
  note rest = Cons.IH [OF grows_ok [OF conjunct1 [OF first]] r]
  have "keeps s' (\<lambda>later. materialize_param_semantics later c) (present_param p)"
    using keeps_grow [OF conjunct2 [OF first] conjunct1 [OF rest]] .
  then have "keeps s' (\<lambda>later. map (materialize_param_semantics later) cs) (map present_param (p # ps))"
    unfolding cs list.map by (rule keeps_Cons [OF _ conjunct2 [OF rest]])
  then show ?case using grows_trans [OF conjunct1 [OF first] conjunct1 [OF rest]] by blast
qed (simp add: grows_refl keeps_const)

lemma cache_callable_keeps [cache_steps]:
  assumes "store_ok s" "cache_callable c s = (cc, s')"
  shows "store_grows s s' \<and> keeps s' (\<lambda>later. materialize_callable_semantics later cc) (present_callable c)"
proof -
  obtain ps s1 i where ps: "cache_params (sc_semantic_params c) s = (ps, s1)"
    and i: "intern_semantic_type (sc_return_type c) s1 = (i, s')"
    and cc: "cc = \<lparr>cc_params = sc_params c, cc_semantic_params = ps,
           cc_return_annotation_text = sc_return_annotation_text c, cc_return_type_id = i\<rparr>"
    using assms(2) by (auto simp: cache_callable_def split: prod.splits)
  note a = cache_params_keeps [OF assms(1) ps]
  note b = intern_opt_keeps [OF grows_ok [OF conjunct1 [OF a]] i]
  have "keeps s' (\<lambda>later. map (materialize_param_semantics later) ps)
      (map present_param (sc_semantic_params c))"
    using keeps_grow [OF conjunct2 [OF a] conjunct1 [OF b]] .
  moreover have "map (materialize_param_semantics later) ps = map present_param (sc_semantic_params c) \<Longrightarrow>
      load_interned_semantic_type later i = sc_return_type c \<Longrightarrow>
      materialize_callable_semantics later cc = present_callable c" for later
    by (cases c) (simp add: cc materialize_callable_semantics_def present_callable_def)
  ultimately have "keeps s' (\<lambda>later. materialize_callable_semantics later cc) (present_callable c)"
    using b unfolding keeps_def by blast
  then show ?thesis using grows_trans [OF conjunct1 [OF a] conjunct1 [OF b]] by blast
qed

lemma build_keeps:
  assumes "store_ok s" "build_cached_facts d s = (f, s')"
  shows "store_grows s s' \<and> keeps s' (\<lambda>later. materialize_facts later f) (Some (declaration_semantic_facts d))"
proof -
  consider (callable) "d_kind d \<in> {DFunction, DOverload}" | (other_value) "d_kind d = DValue"
    | (aliased) "d_kind d = DTypeAlias" | (remaining) "d_kind d \<in> {DClass, DImport}"
    by (cases "d_kind d") auto
  then show ?thesis
  proof cases
    case callable
    show ?thesis
    proof (cases "callable_of d")
      case None
      then show ?thesis
        using assms callable grows_refl [of s]
        by (auto simp: build_cached_facts_def materialize_facts_def declaration_semantic_facts_def
            keeps_const)
    next
      case (Some c)
      obtain cc s1 where cc: "cache_callable c s = (cc, s1)" by fastforce
      show ?thesis
        using assms callable Some cc cache_callable_keeps [OF assms(1) cc]
        by (auto simp: build_cached_facts_def materialize_facts_def declaration_semantic_facts_def
            keeps_def)
    qed
  next
    case other_value
    obtain i s1 where i: "intern_semantic_type (map_option lower_type_expr (value_annotation d)) s = (i, s1)"
      by fastforce
    show ?thesis
      using assms other_value i intern_opt_keeps [OF assms(1) i]
      by (auto simp: build_cached_facts_def materialize_facts_def declaration_semantic_facts_def
          callable_of_def keeps_def materialize_value_semantics_def)
  next
    case aliased
    show ?thesis
    proof (cases "type_alias_value d")
      case None
      then show ?thesis
        using assms aliased grows_refl [of s]
        by (auto simp: build_cached_facts_def materialize_facts_def declaration_semantic_facts_def
            callable_of_def keeps_const)
    next
      case (Some v)
      obtain i s1 where i: "intern (lower_type_expr v) s = (i, s1)" by fastforce
      show ?thesis
        using assms aliased Some i intern_keeps [OF assms(1) i]
        by (auto simp: build_cached_facts_def materialize_facts_def declaration_semantic_facts_def
            callable_of_def keeps_def materialize_type_alias_semantics_def)
    qed
  next
    case remaining
    then show ?thesis
      using assms grows_refl [of s]
      by (auto simp: build_cached_facts_def materialize_facts_def declaration_semantic_facts_def
          callable_of_def keeps_const)
  qed
qed

lemma cache_ok_empty: "cache_ok empty_cache"
  by (simp add: cache_ok_def empty_cache_def store_ok_empty)

lemma with_cached_ok:
  assumes "cache_ok cache" "with_cached_facts d cache = (found, cache')"
  shows "cache_ok cache' \<and> (\<exists>f. found = Some (f, dc_store cache') \<and>
           materialize_facts (dc_store cache') f = Some (declaration_semantic_facts d))"
proof (cases "dc_facts cache d")
  case None
  obtain f s where b: "build_cached_facts d (dc_store cache) = (f, s)" by fastforce
  have ok: "store_ok (dc_store cache)" using assms(1) by (simp add: cache_ok_def)
  note k = build_keeps [OF ok b]
  have c': "cache' = \<lparr>dc_facts = (dc_facts cache)(d \<mapsto> f), dc_store = s\<rparr>" "found = Some (f, s)"
    using assms(2) None b by (auto simp: with_cached_facts_def)
  have "keeps s (\<lambda>s. materialize_facts s g) (Some (declaration_semantic_facts e))"
    if "dc_facts cache' e = Some g" for e g
  proof (cases "e = d")
    case True
    then show ?thesis using that k by (simp add: c')
  next
    case False
    then show ?thesis
      using that assms(1) by (intro keeps_grow [OF _ conjunct1 [OF k]]) (simp add: c' cache_ok_def)
  qed
  then have "cache_ok cache'" using grows_ok [OF conjunct1 [OF k]] by (simp add: cache_ok_def c')
  then show ?thesis using k keeps_now by (auto simp: c')
next
  case (Some f)
  then have "cache' = cache" "found = Some (f, dc_store cache)"
    using assms(2) by (auto simp: with_cached_facts_def)
  then show ?thesis
    using assms(1) Some keeps_now by (fastforce simp: cache_ok_def)
qed

lemma cached_facts_ok:
  assumes "cache_ok cache"
  shows "fst (cached_semantic_facts d cache) = Some (declaration_semantic_facts d) \<and>
         cache_ok (snd (cached_semantic_facts d cache))"
proof -
  obtain found cache' where w: "with_cached_facts d cache = (found, cache')" by fastforce
  show ?thesis using with_cached_ok [OF assms w] by (auto simp: cached_semantic_facts_def w)
qed

text \<open>The cache after a sequence of look-ups by one thread.\<close>

definition cache_after :: "bound_declaration list \<Rightarrow> declaration_semantic_cache" where
  "cache_after ds = fold (\<lambda>d cache. snd (cached_semantic_facts d cache)) ds empty_cache"

lemma cache_after_ok: "cache_ok (cache_after ds)"
proof -
  have "cache_ok cache \<Longrightarrow> cache_ok (fold (\<lambda>d c. snd (cached_semantic_facts d c)) ds cache)" for cache
    by (induction ds arbitrary: cache) (simp_all add: cached_facts_ok)
  then show ?thesis by (simp add: cache_after_def cache_ok_empty)
qed

text \<open>
  C36: the declaration cache is transparent. Whatever declarations a thread looked up before,
  looking one up never panics and returns the facts computed from the declaration alone:
  caching, interning the types and loading them again change nothing.
\<close>

theorem declaration_cache_transparent:
  "fst (cached_semantic_facts d (cache_after earlier)) = Some (declaration_semantic_facts d)"
  using cached_facts_ok [OF cache_after_ok] by blast

section \<open>Binding the arguments of an owner\<close>

lemma bind_owner_no_pack:
  "\<forall>p\<in>set ps. gp_kind p \<noteq> GTypeVarTuple \<Longrightarrow> bind_owner_params args ps i s \<noteq> None"
  by (induction ps arbitrary: i s) (auto split: generic_type_param_kind.splits)

lemma bind_owner_prefix:
  assumes "\<forall>p\<in>set pre. gp_kind p \<noteq> GTypeVarTuple"
    and "i + length (filter (\<lambda>p. gp_kind p = GTypeVar) pre) \<le> length args"
  shows "\<exists>s'. bind_owner_params args (pre @ ps) i s =
           bind_owner_params args ps (i + length (filter (\<lambda>p. gp_kind p = GTypeVar) pre)) s'"
  using assms
proof (induction pre arbitrary: i s)
  case (Cons p pre)
  then show ?case
    using Cons.IH [of "Suc i"] Cons.IH [of i] by (cases "gp_kind p") simp_all
qed auto

lemma bind_owner_short:
  assumes "\<forall>p\<in>set pre. gp_kind p \<noteq> GTypeVarTuple"
    and "length args < i + length (filter (\<lambda>p. gp_kind p = GTypeVar) pre)" "i \<le> length args"
  shows "bind_owner_params args (pre @ ps) i s \<noteq> None"
  using assms by (induction pre arbitrary: i s) (auto split: generic_type_param_kind.splits)

lemma bind_owner_pack:
  assumes "gp_kind pack = GTypeVarTuple" "\<forall>p\<in>set post. gp_kind p \<noteq> GTypeVarTuple"
  shows "bind_owner_params args (pack # post) i s = None \<longleftrightarrow> length args - length post < i"
  using assms bind_owner_no_pack [OF assms(2)] by (auto simp: vec_slice_def Let_def split: if_splits)

text \<open>
  C37: the arguments of a generic owner with one type pack are bound exactly when they reach.
  With a class whose parameters are \<open>pre\<close>, one pack and \<open>post\<close>, and \<open>n\<close> type variables
  in \<open>pre\<close>, the slice for the pack panics exactly when \<open>n > 0\<close>, all \<open>n\<close> variables get an
  argument and fewer than \<open>length post\<close> arguments remain: for \<open>class C[T, *Ts, U]\<close> the
  owner type \<open>C[int]\<close> brings the checker down, where \<open>C[int, str]\<close> does not.
\<close>

theorem owner_substitution_panics:
  assumes params: "d_type_params d = pre @ pack # post" "gp_kind pack = GTypeVarTuple"
    and single: "\<forall>p\<in>set (pre @ post). gp_kind p \<noteq> GTypeVarTuple"
    and owner: "semantic_generic_parts owner = Some (d_name d, args)"
    and n: "n = length (filter (\<lambda>p. gp_kind p = GTypeVar) pre)"
    and k: "k = length (expand_inferred_generic_args (names_of_kind GTypeVarTuple (d_type_params d)) args)"
  shows "owner_generic_substitutions owner d = None \<longleftrightarrow> 0 < n \<and> n \<le> k \<and> k < n + length post"
proof -
  let ?args = "expand_inferred_generic_args (names_of_kind GTypeVarTuple (d_type_params d)) args"
  have start: "owner_generic_substitutions owner d =
      bind_owner_params ?args (pre @ pack # post) 0 empty_solution"
    using params owner by (simp add: owner_generic_substitutions_def)
  have pre: "\<forall>p\<in>set pre. gp_kind p \<noteq> GTypeVarTuple"
    and post: "\<forall>p\<in>set post. gp_kind p \<noteq> GTypeVarTuple" using single by auto
  show ?thesis
  proof (cases "n \<le> k")
    case True
    obtain s' where "bind_owner_params ?args (pre @ pack # post) 0 empty_solution =
        bind_owner_params ?args (pack # post) n s'"
      using bind_owner_prefix [OF pre, of 0 ?args "pack # post" empty_solution] True n k by auto
    then have "owner_generic_substitutions owner d = None \<longleftrightarrow> k - length post < n"
      using start bind_owner_pack [OF params(2) post, of ?args n s'] k by simp
    also have "\<dots> \<longleftrightarrow> 0 < n \<and> n \<le> k \<and> k < n + length post" using True by linarith
    finally show ?thesis .
  next
    case False
    then show ?thesis
      using start bind_owner_short [OF pre, of ?args 0 "pack # post" empty_solution] n k by auto
  qed
qed

definition type_param :: "generic_type_param_kind \<Rightarrow> string \<Rightarrow> generic_type_param" where
  "type_param kind name =
     \<lparr>gp_kind = kind, gp_name = name, gp_bound_expr = None, gp_constraint_exprs = [], gp_default_expr = None\<rparr>"

definition pack_class :: bound_declaration where
  "pack_class = (bare_declaration ''C'' DClass (MClass []))
     \<lparr>d_type_params := [type_param GTypeVar ''T'', type_param GTypeVarTuple ''Ts'', type_param GTypeVar ''U'']\<rparr>"

lemma expand_names: "expand_inferred_generic_args packs (map SName names) = map SName names"
  by (induction names)
    (simp_all add: expand_inferred_generic_args_def expand_inferred_arg_def unpacked_inner_def)

theorem owner_substitution_panics_witness:
  "owner_generic_substitutions (SGeneric ''C'' [SName ''int'']) pack_class = None \<and>
   owner_generic_substitutions (SGeneric ''C'' [SName ''int'', SName ''str'']) pack_class \<noteq> None"
proof -
  have p: "d_type_params pack_class = [type_param GTypeVar ''T''] @ type_param GTypeVarTuple ''Ts'' #
      [type_param GTypeVar ''U'']" by (simp add: pack_class_def)
  have "length (expand_inferred_generic_args packs [SName ''int'']) = 1"
    "length (expand_inferred_generic_args packs [SName ''int'', SName ''str'']) = 2" for packs
    using expand_names [of packs "[''int'']"] expand_names [of packs "[''int'', ''str'']"] by simp_all
  note two = this [symmetric]
  show ?thesis
    using owner_substitution_panics [OF p _ _ _ _ two(1), of "SGeneric ''C'' [SName ''int'']" 1]
      owner_substitution_panics [OF p _ _ _ _ two(2), of "SGeneric ''C'' [SName ''int'', SName ''str'']" 1]
    by (simp add: type_param_def pack_class_def bare_declaration_def semantic_generic_parts_def)
qed

section \<open>Reading a signature text\<close>

definition trim_end_char :: "char \<Rightarrow> string \<Rightarrow> string" where
  "trim_end_char c s = rev (dropWhile ((=) c) (rev s))"

text \<open>The body of the loop over the parts of \<^verbatim>\<open>parse_direct_signature_params\<close>.\<close>

fun signature_params_from ::
    "nat option \<Rightarrow> nat option \<Rightarrow> (nat \<times> string) list \<Rightarrow> bool \<Rightarrow> direct_signature_param list" where
  "signature_params_from slash_index star_index [] keyword_only_active = []"
| "signature_params_from slash_index star_index ((index, raw) # parts) keyword_only_active =
     (let part = trim raw
      in if part = ''/'' then signature_params_from slash_index star_index parts keyword_only_active
         else if part = ''*'' then signature_params_from slash_index star_index parts True
         else
           (let has_default = ends_with ''='' part;
                base = trim (trim_end_char CHR ''='' part);
                (part, variadic, keyword_variadic, keyword_only_active) =
                  (case strip_prefix ''**'' base of
                     Some p \<Rightarrow> (trim p, False, True, keyword_only_active)
                   | None \<Rightarrow>
                       (case strip_prefix ''*'' base of
                          Some p \<Rightarrow> (trim p, True, False, True)
                        | None \<Rightarrow> (base, False, False, keyword_only_active)));
                (name, annotation) =
                  (case split_once CHR '':'' part of
                     Some (n, a) \<Rightarrow> (trim n, trim a) | None \<Rightarrow> (part, []))
            in \<lparr>sg_name = name, sg_annotation = annotation, sg_has_default = has_default,
                sg_positional_only = (case slash_index of Some i \<Rightarrow> index < i | None \<Rightarrow> False),
                sg_keyword_only = \<not> variadic \<and> \<not> keyword_variadic \<and>
                  ((case star_index of Some i \<Rightarrow> i < index | None \<Rightarrow> False) \<or> keyword_only_active),
                sg_variadic = variadic, sg_keyword_variadic = keyword_variadic\<rparr> #
               signature_params_from slash_index star_index parts keyword_only_active))"

definition parse_direct_signature_params :: "string \<Rightarrow> direct_signature_param list option" where
  "parse_direct_signature_params signature =
     (case Option.bind (strip_prefix ''('' signature) (split_once CHR '')'') of
        None \<Rightarrow> None
      | Some (inner, _) \<Rightarrow>
          if inner = [] then Some []
          else (let parts = split_top_level_type_args inner
                in Some (signature_params_from (find_index (\<lambda>p. trim p = ''/'') parts)
                     (find_index (\<lambda>p. trim p = ''*'') parts) (enumerate 0 parts) False)))"

definition signature_param_site :: "direct_signature_param \<Rightarrow> direct_param" where
  "signature_param_site p =
     (let annotation = (if sg_annotation p = [] then None else Some (sg_annotation p))
      in \<lparr>dp_name = sg_name p, dp_annotation = annotation,
          dp_annotation_expr = Option.bind annotation type_expr_parse,
          dp_has_default = sg_has_default p, dp_positional_only = sg_positional_only p,
          dp_keyword_only = sg_keyword_only p, dp_variadic = sg_variadic p,
          dp_keyword_variadic = sg_keyword_variadic p\<rparr>)"

text \<open>\<^verbatim>\<open>str::split_once\<close> with the text \<open>->\<close>: what follows its first occurrence.\<close>

fun after_arrow :: "string \<Rightarrow> string option" where
  "after_arrow [] = None"
| "after_arrow (c # s) =
     (case strip_prefix ''->'' (c # s) of Some r \<Rightarrow> Some r | None \<Rightarrow> after_arrow s)"

definition parse_direct_callable_declaration :: "string \<Rightarrow> semantic_callable_declaration option" where
  "parse_direct_callable_declaration detail =
     map_option (\<lambda>parsed.
       let params = map signature_param_site parsed;
           return_annotation_text = map_option trim (after_arrow detail)
       in \<lparr>sc_params = params,
           sc_semantic_params =
             map (\<lambda>p. \<lparr>sp_name = dp_name p, sp_annotation_text = dp_annotation p,
                       sp_annotation = map_option (\<lambda>a. lower_param_annotation_text a
                           (dp_variadic p) (dp_keyword_variadic p)) (dp_annotation p),
                       sp_has_default = dp_has_default p, sp_positional_only = dp_positional_only p,
                       sp_keyword_only = dp_keyword_only p, sp_variadic = dp_variadic p,
                       sp_keyword_variadic = dp_keyword_variadic p\<rparr>) params,
           sc_return_annotation_text = return_annotation_text,
           sc_return_type = map_option lower_type_text_or_name return_annotation_text\<rparr>)
       (parse_direct_signature_params detail)"

end
