(* ===== verification/Surface_Sites.thy ===== *)
theory Surface_Sites
  imports Bindings
begin

text \<open>
  The surface of a module as the parser hands it over (crates/typepython_syntax, surface.rs):
  expressions with the parts the checker reads, guard conditions, and the statements of a
  \<^verbatim>\<open>SyntaxTree\<close>.
\<close>

section \<open>Guards\<close>

record source_range =
  sr_start :: nat
  sr_end :: nat

datatype guard_condition =
    GIsNone string bool
  | GIsInstance string "string list"
  | GPredicateCall string string
  | GTruthyName string
  | GNot guard_condition
  | GAnd "guard_condition list"
  | GOr "guard_condition list"

section \<open>Expressions\<close>

datatype comprehension_kind = ListComp | SetComp | DictComp | GeneratorComp

datatype 'e lambda_metadata = Lambda (lam_params: "function_param list") (lam_body: 'e)

datatype 'e comprehension_clause =
  Comprehension_Clause (cc_target_name: string) (cc_target_names: "string list") (cc_iter: 'e)
    (cc_filters: "guard_condition list")

datatype 'e comprehension =
  Comprehension (co_kind: comprehension_kind) (co_clauses: "'e comprehension_clause list")
    (co_key: "'e option") (co_element: 'e)

datatype 'e dict_entry =
  Dict_Entry (en_key: "string option") (en_key_value: "'e option") (en_is_expansion: bool)
    (en_value: 'e)

datatype direct_expr =
  Direct_Expr
    (de_type_expr: "type_expr option")
    (de_is_awaited: bool)
    (de_callee: "string option")
    (de_call_source_range: "source_range option")
    (de_name: "string option")
    (de_member_owner_name: "string option")
    (de_member_name: "string option")
    (de_member_through_instance: bool)
    (de_method_owner_name: "string option")
    (de_method_name: "string option")
    (de_method_through_instance: bool)
    (de_subscript_target: "direct_expr option")
    (de_subscript_string_key: "string option")
    (de_subscript_index: "string option")
    (de_if_true: "direct_expr option")
    (de_if_false: "direct_expr option")
    (de_if_guard: "guard_condition option")
    (de_bool_left: "direct_expr option")
    (de_bool_right: "direct_expr option")
    (de_binop_left: "direct_expr option")
    (de_binop_right: "direct_expr option")
    (de_binop_operator: "string option")
    (de_lambda: "direct_expr lambda_metadata option")
    (de_list_comprehension: "direct_expr comprehension option")
    (de_generator_comprehension: "direct_expr comprehension option")
    (de_list_elements: "direct_expr list option")
    (de_set_elements: "direct_expr list option")
    (de_dict_entries: "direct_expr dict_entry list option")

definition empty_expr :: direct_expr where
  "empty_expr =
     Direct_Expr None False None None None None None False None None False None None None None None
       None None None None None None None None None None None None"

definition expr_rendered_value_type :: "direct_expr \<Rightarrow> string option" where
  "expr_rendered_value_type e = map_option render (de_type_expr e)"

text \<open>Record updates of the expression, for the fields the code sets on an empty one.\<close>

definition with_type_expr :: "type_expr option \<Rightarrow> direct_expr \<Rightarrow> direct_expr" where
  "with_type_expr t e =
     (case e of Direct_Expr _ aw ca ra na mo me mi xo xm xi st sk si it if' gu bl br ol oo op la lc gc le se de \<Rightarrow>
        Direct_Expr t aw ca ra na mo me mi xo xm xi st sk si it if' gu bl br ol oo op la lc gc le se de)"

definition from_type_text :: "string \<Rightarrow> direct_expr" where
  "from_type_text text = with_type_expr (type_expr_parse text) empty_expr"

text \<open>\<^verbatim>\<open>Option::into_iter\<close> and \<^verbatim>\<open>iter().flatten()\<close> on an optional list.\<close>

definition opt_list :: "'a option \<Rightarrow> 'a list" where
  "opt_list x = (case x of Some y \<Rightarrow> [y] | None \<Rightarrow> [])"

definition list_or_empty :: "'a list option \<Rightarrow> 'a list" where
  "list_or_empty x = (case x of Some ys \<Rightarrow> ys | None \<Rightarrow> [])"

text \<open>The expressions directly inside an expression.\<close>

definition entry_parts :: "direct_expr dict_entry \<Rightarrow> direct_expr list" where
  "entry_parts e = opt_list (en_key_value e) @ [en_value e]"

definition comprehension_parts :: "direct_expr comprehension \<Rightarrow> direct_expr list" where
  "comprehension_parts c = opt_list (co_key c) @ [co_element c] @ map cc_iter (co_clauses c)"

definition operand_parts :: "direct_expr \<Rightarrow> direct_expr list" where
  "operand_parts e =
     concat (map opt_list
       [de_subscript_target e, de_bool_left e, de_bool_right e, de_if_true e, de_if_false e,
        de_binop_left e, de_binop_right e])"

text \<open>The parts the collectors walk into, in their order.\<close>

definition expr_parts :: "direct_expr \<Rightarrow> direct_expr list" where
  "expr_parts e =
     operand_parts e @ list_or_empty (de_list_elements e) @ list_or_empty (de_set_elements e) @
     concat (map entry_parts (list_or_empty (de_dict_entries e))) @
     concat (map comprehension_parts
       (opt_list (de_list_comprehension e) @ opt_list (de_generator_comprehension e)))"

lemma set_opt_list [simp]: "x \<in> set (opt_list o') \<longleftrightarrow> o' = Some x"
  by (auto simp: opt_list_def split: option.splits)

lemma mem_list_or_empty [simp]: "x \<in> set (list_or_empty l) \<longleftrightarrow> (\<exists>ys. l = Some ys \<and> x \<in> set ys)"
  by (auto simp: list_or_empty_def split: option.splits)

lemma size_operand: "x \<in> set (operand_parts e) \<Longrightarrow> size x < size e"
  by (cases e) (auto simp: operand_parts_def)

lemma size_element:
  "de_list_elements e = Some xs \<or> de_set_elements e = Some xs \<Longrightarrow> x \<in> set xs \<Longrightarrow> size x < size e"
  using size_list_estimation' [of x xs "size x" size] by (cases e) auto

lemma size_entry:
  assumes "de_dict_entries e = Some xs" "n \<in> set xs" "x \<in> set (entry_parts n)"
  shows "size x < size e"
proof -
  have "size x \<le> size_dict_entry size n" using assms(3) by (cases n) (auto simp: entry_parts_def)
  then show ?thesis
    using size_list_estimation' [OF assms(2), of "size x" "size_dict_entry size"] assms(1)
    by (cases e) auto
qed

lemma size_comprehension_part: "x \<in> set (comprehension_parts c) \<Longrightarrow> size x < size_comprehension size c"
proof (cases c)
  case (Comprehension k cs key el)
  assume x: "x \<in> set (comprehension_parts c)"
  have "size x \<le> size_list (size_comprehension_clause size) cs" if "cl \<in> set cs" "x = cc_iter cl" for cl
    using size_list_estimation' [OF that(1), of "size x" "size_comprehension_clause size"] that(2)
    by (cases cl) simp
  then show ?thesis using x Comprehension by (auto simp: comprehension_parts_def le_imp_less_Suc trans_le_add1 trans_le_add2)
qed

lemma size_comprehension:
  assumes "de_list_comprehension e = Some c \<or> de_generator_comprehension e = Some c"
    and "x \<in> set (comprehension_parts c)"
  shows "size x < size e"
  using size_comprehension_part [OF assms(2)] assms(1) by (cases e) auto

lemma size_expr_parts: "x \<in> set (expr_parts e) \<Longrightarrow> size x < size e"
  unfolding expr_parts_def by (auto intro: size_operand size_element size_entry size_comprehension)

section \<open>Statements\<close>

text \<open>
  Every statement struct with an expression repeats the fields of \<^verbatim>\<open>DirectExprMetadata\<close>
  one by one; here they are one field of that type. A return or yield statement has no
  comprehension fields, a match, for or with statement only those before
  \<^verbatim>\<open>value_subscript_target\<close>: what the code does not have is never read.
  Calls, method calls, member accesses, invalidations, exception handlers and match cases have
  the same fields as statement and as bound site, and one type stands for both.
\<close>

record type_alias_statement =
  ta_name :: string
  ta_type_params :: "type_param list"
  ta_value :: string
  ta_value_expr :: "type_expr option"
  ta_line :: nat

record function_statement =
  fs_name :: string
  fs_type_params :: "type_param list"
  fs_params :: "function_param list"
  fs_returns :: "string option"
  fs_returns_expr :: "type_expr option"
  fs_is_async :: bool
  fs_is_override :: bool
  fs_is_deprecated :: bool
  fs_deprecation_message :: "string option"
  fs_line :: nat

record import_binding =
  ib_local_name :: string
  ib_source_path :: string

record value_statement =
  vs_names :: "string list"
  vs_destructuring_target_names :: "string list option"
  vs_annotation :: "string option"
  vs_annotation_expr :: "type_expr option"
  vs_value :: direct_expr
  vs_owner_name :: "string option"
  vs_owner_type_name :: "string option"
  vs_is_final :: bool
  vs_is_class_var :: bool
  vs_line :: nat

record call_site =
  cl_callee :: string
  cl_source_range :: "source_range option"
  cl_arg_count :: nat
  cl_arg_values :: "direct_expr list"
  cl_starred_arg_values :: "direct_expr list"
  cl_keyword_names :: "string list"
  cl_keyword_arg_values :: "direct_expr list"
  cl_keyword_expansion_values :: "direct_expr list"
  cl_line :: nat

record member_access_site =
  ma_current_owner_name :: "string option"
  ma_current_owner_type_name :: "string option"
  ma_owner_name :: string
  ma_member :: string
  ma_through_instance :: bool
  ma_line :: nat

record method_call_site =
  mc_current_owner_name :: "string option"
  mc_current_owner_type_name :: "string option"
  mc_owner_name :: string
  mc_method :: string
  mc_source_range :: "source_range option"
  mc_through_instance :: bool
  mc_arg_count :: nat
  mc_arg_values :: "direct_expr list"
  mc_starred_arg_values :: "direct_expr list"
  mc_keyword_names :: "string list"
  mc_keyword_arg_values :: "direct_expr list"
  mc_keyword_expansion_values :: "direct_expr list"
  mc_line :: nat

record return_statement =
  rs_owner_name :: string
  rs_owner_type_name :: "string option"
  rs_value :: direct_expr
  rs_line :: nat

record yield_statement =
  ys_owner_name :: string
  ys_owner_type_name :: "string option"
  ys_value :: direct_expr
  ys_is_yield_from :: bool
  ys_line :: nat

text \<open>The guard is a \<^verbatim>\<open>GuardCondition\<close> in the statement and a \<^verbatim>\<open>GuardConditionSite\<close> in the site.\<close>

record 'g if_site =
  if_owner_name :: "string option"
  if_owner_type_name :: "string option"
  if_guard :: "'g option"
  if_line :: nat
  if_true_start_line :: nat
  if_true_end_line :: nat
  if_false_start_line :: "nat option"
  if_false_end_line :: "nat option"

record 'g assert_site =
  at_owner_name :: "string option"
  at_owner_type_name :: "string option"
  at_guard :: "'g option"
  at_line :: nat

datatype invalidation_kind = RebindLike | DeleteName | ScopeChange

record invalidation_site =
  iv_kind :: invalidation_kind
  iv_owner_name :: "string option"
  iv_owner_type_name :: "string option"
  iv_names :: "string list"
  iv_line :: nat

datatype match_pattern = PWildcard | PLiteral string | PClass string | PUnsupported

record match_case =
  mk_patterns :: "match_pattern list"
  mk_capture_names :: "string list"
  mk_has_guard :: bool
  mk_line :: nat

record match_statement =
  ms_owner_name :: "string option"
  ms_owner_type_name :: "string option"
  ms_subject :: direct_expr
  ms_cases :: "match_case list"
  ms_line :: nat

record for_statement =
  fo_target_name :: string
  fo_target_names :: "string list"
  fo_owner_name :: "string option"
  fo_owner_type_name :: "string option"
  fo_iter :: direct_expr
  fo_line :: nat

record with_statement =
  wi_target_name :: "string option"
  wi_owner_name :: "string option"
  wi_owner_type_name :: "string option"
  wi_context :: direct_expr
  wi_line :: nat

record except_handler_site =
  eh_exception_type :: string
  eh_binding_name :: "string option"
  eh_owner_name :: "string option"
  eh_owner_type_name :: "string option"
  eh_line :: nat
  eh_end_line :: nat

datatype syntax_statement =
    StTypeAlias type_alias_statement
  | StInterface named_block
  | StDataClass named_block
  | StSealedClass named_block
  | StOverloadDef function_statement
  | StClassDef named_block
  | StFunctionDef function_statement
  | StImport "import_binding list" nat
  | StValue value_statement
  | StCall call_site
  | StMemberAccess member_access_site
  | StMethodCall method_call_site
  | StReturn return_statement
  | StYield yield_statement
  | StIf "guard_condition if_site"
  | StAssert "guard_condition assert_site"
  | StInvalidate invalidation_site
  | StMatch match_statement
  | StFor for_statement
  | StWith with_statement
  | StExceptHandler except_handler_site
  | StUnsafe nat

section \<open>Decorators and framework transforms of a module\<close>

record decorated_callable_site =
  dcs_owner_type_name :: "string option"
  dcs_name :: string
  dcs_decorators :: "string list"
  dcs_line :: nat

datatype framework_provider_kind = ClassDecorator | BaseClass | Metaclass | FunctionDecorator

datatype framework_capability =
    FieldCollection | ConstructorGeneration | AliasHandling | RequiredOptionalFields
  | ReadonlyFields | DescriptorBackedAttributes | MethodSynthesis | FunctionToObjectReplacement
  | GenericPreservation | TaintSourceCap | TaintSinkCap | TaintSanitizerCap | ValidatorWitness
  | EffectUnsafe | EffectIoFs | EffectIoNet | EffectIoProc | EffectTime | EffectRandom
  | EffectRuntimeValidation | EffectTaintSanitize

datatype framework_fallback = StrictDiagnostic | NonStrictDegrade

record framework_provider_site =
  fw_name :: string
  fw_provider_kind :: "framework_provider_kind option"
  fw_capabilities :: "framework_capability list"
  fw_fallback :: framework_fallback
  fw_frozen_default :: bool
  fw_line :: nat

record direct_call_context_site =
  dx_callee :: string
  dx_source_range :: "source_range option"
  dx_owner_name :: "string option"
  dx_owner_type_name :: "string option"
  dx_positional_arg_count :: nat
  dx_keyword_arg_count :: nat
  dx_has_starred_args :: bool
  dx_has_unpacked_kwargs :: bool
  dx_line :: nat

record direct_function_signature_site =
  fg_name :: string
  fg_params :: "direct_param list"
  fg_line :: nat

record direct_method_signature_site =
  mg_owner_type_name :: string
  mg_name :: string
  mg_method_kind :: method_kind
  mg_params :: "direct_param list"
  mg_line :: nat

end
