(* ===== verification/Module_Graph.thy ===== *)
theory Module_Graph
  imports Bindings BTree "HOL-Library.Product_Lexorder" "HOL-Library.Multiset"
begin

text \<open>
  The module graph (crates/typepython_graph, lib.rs): one node per bound module, nodes and
  child imports for the packages above them, fingerprints computed from the leaves up, and
  the prelude modules. The standard library's hasher is an argument: a function of the sequence
  of values that the code feeds to it.
\<close>

section \<open>Hashing\<close>

text \<open>What \<^verbatim>\<open>.hash(&mut hasher)\<close> is called on; the last but one stands for the five lists of sites.\<close>

datatype 's hash_input =
    HPath string
  | HKey string
  | HDeclarations "bound_declaration list"
  | HSites 's
  | HChildren "(string \<times> u64) list"

type_synonym 's hasher = "'s hash_input list \<Rightarrow> u64"

record 's binding_table =
  b_path :: string
  b_key :: string
  b_kind :: source_kind
  b_declarations :: "bound_declaration list"
  b_sites :: 's

definition hash_summary :: "'s hasher \<Rightarrow> 's binding_table \<Rightarrow> u64" where
  "hash_summary h binding =
     h [HPath (b_path binding), HKey (b_key binding), HDeclarations (b_declarations binding),
        HSites (b_sites binding)]"

definition hash_node_summary :: "'s hasher \<Rightarrow> 's module_node \<Rightarrow> (string \<times> u64) list \<Rightarrow> u64" where
  "hash_node_summary h node children =
     h [HPath (mn_path node), HKey (mn_key node), HDeclarations (mn_declarations node),
        HSites (mn_sites node), HChildren children]"

definition hash_module_summary :: "'s hasher \<Rightarrow> string \<Rightarrow> string \<Rightarrow> bound_declaration list \<Rightarrow> u64" where
  "hash_module_summary h path key declarations = h [HPath path, HKey key, HDeclarations declarations]"

definition node_of_binding :: "'s hasher \<Rightarrow> 's binding_table \<Rightarrow> 's module_node" where
  "node_of_binding h b =
     \<lparr>mn_path = b_path b, mn_key = b_key b, mn_kind = b_kind b,
      mn_declarations = b_declarations b, mn_sites = b_sites b,
      mn_fingerprint = hash_summary h b\<rparr>"

section \<open>Package keys\<close>

definition is_synthetic_module_path :: "string \<Rightarrow> bool" where
  "is_synthetic_module_path path = starts_with ''<'' path"

text \<open>The keys above a module key, nearest first.\<close>

function ancestor_keys :: "string \<Rightarrow> string list" where
  "ancestor_keys key =
     (case rsplit_once CHR ''.'' key of
        None \<Rightarrow> [] | Some (parent, _) \<Rightarrow> parent # ancestor_keys parent)"
  by pat_completeness auto
termination
  by (relation "measure length") (auto dest: rsplit_once_shorter)
declare ancestor_keys.simps [simp del]

definition all_package_module_keys :: "string list \<Rightarrow> string list" where
  "all_package_module_keys actual =
     fold (\<lambda>key all. fold bs_insert (ancestor_keys key) all) actual actual"

definition direct_child_module_index :: "string list \<Rightarrow> (string \<times> string list) list" where
  "direct_child_module_index all =
     fold (\<lambda>key index. case rsplit_once CHR ''.'' key of
                         None \<Rightarrow> index | Some (parent, _) \<Rightarrow> bt_push parent key index) all []"

definition package_child_import_declaration :: "string \<Rightarrow> string \<Rightarrow> bound_declaration" where
  "package_child_import_declaration name key =
     bare_declaration name DImport (MImport (bound_import_target key))"

text \<open>\<^verbatim>\<open>child_key.rsplit('.').next()\<close>.\<close>

definition last_segment :: "string \<Rightarrow> string" where
  "last_segment key = last (split_char CHR ''.'' key)"

definition declares :: "bound_declaration list \<Rightarrow> string \<Rightarrow> bool" where
  "declares declarations name \<longleftrightarrow>
     list_ex (\<lambda>d. d_owner d = None \<and> d_name d = name) declarations"

definition add_child_import :: "string \<Rightarrow> bound_declaration list \<Rightarrow> bound_declaration list" where
  "add_child_import child declarations =
     (if declares declarations (last_segment child) then declarations
      else declarations @ [package_child_import_declaration (last_segment child) child])"

definition add_missing_child_module_imports ::
    "string list \<Rightarrow> bound_declaration list \<Rightarrow> bound_declaration list" where
  "add_missing_child_module_imports children declarations = fold add_child_import children declarations"

definition namespace_module_node :: "'s \<Rightarrow> string \<Rightarrow> string list \<Rightarrow> 's module_node" where
  "namespace_module_node no_sites key children =
     \<lparr>mn_path = ''<namespace-package:'' @ key @ ''>'', mn_key = key, mn_kind = PythonSource,
      mn_declarations = add_missing_child_module_imports children [], mn_sites = no_sites,
      mn_fingerprint = 0\<rparr>"

section \<open>Package nodes and fingerprints\<close>

definition inject_package ::
    "'s \<Rightarrow> (string \<times> nat) list \<Rightarrow> string \<times> string list \<Rightarrow> 's module_node list \<Rightarrow> 's module_node list" where
  "inject_package no_sites existing entry nodes =
     (case bt_get existing (fst entry) of
        Some i \<Rightarrow> nodes[i := (nodes ! i)\<lparr>mn_declarations :=
                    add_missing_child_module_imports (snd entry) (mn_declarations (nodes ! i))\<rparr>]
      | None \<Rightarrow> nodes @ [namespace_module_node no_sites (fst entry) (snd entry)])"

text \<open>Deepest keys first, then by key: \<^verbatim>\<open>order.sort_by(..)\<close>, which is stable.\<close>

definition fingerprint_order :: "'s module_node list \<Rightarrow> (string \<times> nat) list" where
  "fingerprint_order nodes =
     sort_key (\<lambda>(key, i). (- int (length (split_char CHR ''.'' key)), key))
       (map (\<lambda>(i, n). (mn_key n, i)) (enumerate 0 nodes))"

definition child_summaries ::
    "(string \<times> string list) list \<Rightarrow> (string \<times> u64) list \<Rightarrow> string \<Rightarrow> (string \<times> u64) list" where
  "child_summaries direct_children summary_by_key key =
     (case bt_get direct_children key of
        None \<Rightarrow> []
      | Some children \<Rightarrow>
          List.map_filter (\<lambda>c. map_option (Pair c) (bt_get summary_by_key c)) children)"

definition recompute_step ::
    "'s hasher \<Rightarrow> (string \<times> string list) list \<Rightarrow> string \<times> nat \<Rightarrow>
     's module_node list \<times> (string \<times> u64) list \<Rightarrow> 's module_node list \<times> (string \<times> u64) list" where
  "recompute_step h direct_children entry state =
     (let (key, i) = entry; (nodes, summary_by_key) = state;
          f = hash_node_summary h (nodes ! i) (child_summaries direct_children summary_by_key key)
      in (nodes[i := (nodes ! i)\<lparr>mn_fingerprint := f\<rparr>], bt_insert key f summary_by_key))"

definition recompute_package_summary_fingerprints ::
    "'s hasher \<Rightarrow> (string \<times> string list) list \<Rightarrow> 's module_node list \<Rightarrow> 's module_node list" where
  "recompute_package_summary_fingerprints h direct_children nodes =
     fst (fold (recompute_step h direct_children) (fingerprint_order nodes) (nodes, []))"

definition package_index :: "'s module_node list \<Rightarrow> (string \<times> string list) list" where
  "package_index nodes =
     direct_child_module_index (all_package_module_keys
       (bs_from_list (map mn_key (filter (\<lambda>n. \<not> is_synthetic_module_path (mn_path n)) nodes))))"

definition inject_package_module_nodes ::
    "'s hasher \<Rightarrow> 's \<Rightarrow> 's module_node list \<Rightarrow> 's module_node list" where
  "inject_package_module_nodes h no_sites nodes =
     (let direct_children = package_index nodes;
          existing = bt_from_list (map (\<lambda>(i, n). (mn_key n, i)) (enumerate 0 nodes))
      in recompute_package_summary_fingerprints h direct_children
           (fold (inject_package no_sites existing) direct_children nodes))"

section \<open>Preludes\<close>

definition prelude_param :: "string \<Rightarrow> string \<Rightarrow> function_param" where
  "prelude_param name annotation =
     \<lparr>fp_name = name, fp_annotation = Some annotation,
      fp_annotation_expr = type_expr_parse annotation, fp_has_default = False,
      fp_positional_only = False, fp_keyword_only = False, fp_variadic = False,
      fp_keyword_variadic = False\<rparr>"

definition prelude_untyped_param :: "string \<Rightarrow> function_param" where
  "prelude_untyped_param name =
     \<lparr>fp_name = name, fp_annotation = None, fp_annotation_expr = None, fp_has_default = False,
      fp_positional_only = False, fp_keyword_only = False, fp_variadic = False,
      fp_keyword_variadic = False\<rparr>"

definition prelude_type_alias :: "string \<Rightarrow> string \<Rightarrow> bound_declaration" where
  "prelude_type_alias name value =
     bare_declaration name DTypeAlias (MTypeAlias (bound_type_expr value) None)"

definition prelude_function :: "string \<Rightarrow> function_param list \<Rightarrow> string \<Rightarrow> bound_declaration" where
  "prelude_function name params returns =
     bare_declaration name DFunction (MCallable (from_function_parts params (Some returns)))"

definition prelude_value :: "string \<Rightarrow> string \<Rightarrow> bound_declaration" where
  "prelude_value name annotation =
     (bare_declaration name DValue (MValue (Some (bound_type_expr annotation))))
       \<lparr>d_value_type_expr := Some (bound_type_expr annotation)\<rparr>"

definition prelude_protocol_class :: "string \<Rightarrow> bound_declaration" where
  "prelude_protocol_class name =
     (bare_declaration name DClass (MClass []))\<lparr>d_class_kind := Some OInterface\<rparr>"

definition prelude_class :: "string \<Rightarrow> bound_declaration" where
  "prelude_class name = (bare_declaration name DClass (MClass []))\<lparr>d_class_kind := Some OClass\<rparr>"

definition prelude_method ::
    "string \<Rightarrow> string \<times> function_param list \<times> string \<Rightarrow> bound_declaration" where
  "prelude_method owner m =
     (let (name, params, returns) = m
      in (bare_declaration name DFunction (MCallable (from_function_parts params (Some returns))))
           \<lparr>d_method_kind := Some InstanceMethod,
            d_owner := Some \<lparr>do_name = owner, do_kind = OInterface\<rparr>\<rparr>)"

definition prelude_protocol_class_with_methods ::
    "string \<Rightarrow> string list \<Rightarrow> (string \<times> function_param list \<times> string) list \<Rightarrow> bound_declaration list" where
  "prelude_protocol_class_with_methods name bases methods =
     (bare_declaration name DClass (MClass (map bound_type_expr bases)))
       \<lparr>d_class_kind := Some OInterface, d_bases := bases\<rparr> # map (prelude_method name) methods"

definition prelude_node ::
    "'s hasher \<Rightarrow> 's \<Rightarrow> string \<Rightarrow> string \<Rightarrow> bound_declaration list \<Rightarrow> 's module_node" where
  "prelude_node h no_sites path key declarations =
     \<lparr>mn_path = path, mn_key = key, mn_kind = StubSource, mn_declarations = declarations,
      mn_sites = no_sites, mn_fingerprint = hash_module_summary h path key declarations\<rparr>"

definition typing_prelude_declarations :: "bound_declaration list" where
  "typing_prelude_declarations = concat [
      [prelude_type_alias ''Any'' ''Any''],
      [prelude_type_alias ''List'' ''list[Any]''],
      [prelude_type_alias ''Dict'' ''dict[Any, Any]''],
      [prelude_type_alias ''Tuple'' ''tuple[Any, ...]''],
      [prelude_type_alias ''Set'' ''set[Any]''],
      [prelude_type_alias ''FrozenSet'' ''frozenset[Any]''],
      [prelude_type_alias ''Optional'' ''Optional[Any]''],
      [prelude_type_alias ''Union'' ''Union[Any, Any]''],
      [prelude_type_alias ''Callable'' ''Callable''],
      [prelude_type_alias ''Literal'' ''Literal''],
      [prelude_type_alias ''Concatenate'' ''Concatenate''],
      [prelude_value ''TYPE_CHECKING'' ''bool''],
      [prelude_class ''TypedDict''],
      [prelude_protocol_class ''Protocol''],
      prelude_protocol_class_with_methods ''Awaitable'' [] [
        (''__await__'', [prelude_untyped_param ''self''], ''Iterator[Any]'')],
      prelude_protocol_class_with_methods ''AsyncIterable'' [] [
        (''__aiter__'', [prelude_untyped_param ''self''], ''AsyncIterator[Any]'')],
      prelude_protocol_class_with_methods ''AsyncIterator'' [''AsyncIterable''] [
        (''__anext__'', [prelude_untyped_param ''self''], ''Awaitable[Any]'')],
      prelude_protocol_class_with_methods ''AsyncGenerator'' [''AsyncIterator''] [
        (''asend'', [prelude_untyped_param ''self'', prelude_param ''value'' ''Any''], ''Awaitable[Any]''),
        (''athrow'', [prelude_untyped_param ''self'', prelude_param ''typ'' ''Any'', prelude_param ''val'' ''Any'', prelude_param ''tb'' ''Any''], ''Awaitable[Any]''),
        (''aclose'', [prelude_untyped_param ''self''], ''Awaitable[None]'')],
      prelude_protocol_class_with_methods ''Coroutine'' [''Awaitable''] [
        (''send'', [prelude_untyped_param ''self'', prelude_param ''value'' ''Any''], ''Any''),
        (''throw'', [prelude_untyped_param ''self'', prelude_param ''typ'' ''Any'', prelude_param ''val'' ''Any'', prelude_param ''tb'' ''Any''], ''Any''),
        (''close'', [prelude_untyped_param ''self''], ''None'')],
      prelude_protocol_class_with_methods ''Generator'' [''Iterator''] [
        (''send'', [prelude_untyped_param ''self'', prelude_param ''value'' ''Any''], ''Any''),
        (''throw'', [prelude_untyped_param ''self'', prelude_param ''typ'' ''Any'', prelude_param ''val'' ''Any'', prelude_param ''tb'' ''Any''], ''Any''),
        (''close'', [prelude_untyped_param ''self''], ''None'')],
      [prelude_function ''cast'' [prelude_untyped_param ''t'', prelude_untyped_param ''value''] ''Any''],
      [prelude_function ''NewType'' [prelude_param ''name'' ''str'', prelude_untyped_param ''typ''] ''NewType''],
      [prelude_function ''TypeVar'' [prelude_param ''name'' ''str''] ''TypeVar''],
      [prelude_function ''ParamSpec'' [prelude_param ''name'' ''str''] ''ParamSpec''],
      [prelude_function ''TypeVarTuple'' [prelude_param ''name'' ''str''] ''TypeVarTuple'']]"

definition collections_abc_prelude_declarations :: "bound_declaration list" where
  "collections_abc_prelude_declarations = concat [
      prelude_protocol_class_with_methods ''Sized'' [] [
        (''__len__'', [prelude_untyped_param ''self''], ''int'')],
      prelude_protocol_class_with_methods ''Iterable'' [''Sized''] [
        (''__iter__'', [prelude_untyped_param ''self''], ''Iterator[Any]'')],
      prelude_protocol_class_with_methods ''Sequence'' [''Sized'', ''Iterable''] [
        (''__getitem__'', [prelude_untyped_param ''self'', prelude_param ''index'' ''int''], ''Any''),
        (''__iter__'', [prelude_untyped_param ''self''], ''Iterator[Any]''),
        (''count'', [prelude_untyped_param ''self'', prelude_param ''item'' ''object''], ''int''),
        (''index'', [prelude_untyped_param ''self'', prelude_param ''item'' ''object''], ''int'')],
      prelude_protocol_class_with_methods ''Mapping'' [''Sized'', ''Iterable''] [
        (''__getitem__'', [prelude_untyped_param ''self'', prelude_param ''key'' ''Any''], ''Any''),
        (''__iter__'', [prelude_untyped_param ''self''], ''Iterator[Any]''),
        (''keys'', [prelude_untyped_param ''self''], ''Any''),
        (''values'', [prelude_untyped_param ''self''], ''Any''),
        (''items'', [prelude_untyped_param ''self''], ''Any''),
        (''get'', [prelude_untyped_param ''self'', prelude_param ''key'' ''Any'', prelude_untyped_param ''default''], ''Any'')],
      prelude_protocol_class_with_methods ''Callable'' [] [
        (''__call__'', [prelude_untyped_param ''self''], ''Any'')],
      prelude_protocol_class_with_methods ''AsyncIterable'' [] [
        (''__aiter__'', [prelude_untyped_param ''self''], ''AsyncIterator[Any]'')],
      prelude_protocol_class_with_methods ''AsyncIterator'' [''AsyncIterable''] [
        (''__anext__'', [prelude_untyped_param ''self''], ''Awaitable[Any]'')],
      prelude_protocol_class_with_methods ''AsyncGenerator'' [''AsyncIterator''] [
        (''asend'', [prelude_untyped_param ''self'', prelude_param ''value'' ''Any''], ''Awaitable[Any]''),
        (''athrow'', [prelude_untyped_param ''self'', prelude_param ''typ'' ''Any'', prelude_param ''val'' ''Any'', prelude_param ''tb'' ''Any''], ''Awaitable[Any]''),
        (''aclose'', [prelude_untyped_param ''self''], ''Awaitable[None]'')],
      prelude_protocol_class_with_methods ''Iterator'' [''Iterable''] [
        (''__next__'', [prelude_untyped_param ''self''], ''Any'')]]"

definition typing_prelude_node :: "'s hasher \<Rightarrow> 's \<Rightarrow> 's module_node" where
  "typing_prelude_node h no_sites =
     prelude_node h no_sites ''<typing-prelude>'' ''typing'' typing_prelude_declarations"

definition typing_extensions_prelude_node :: "'s hasher \<Rightarrow> 's \<Rightarrow> 's module_node" where
  "typing_extensions_prelude_node h no_sites =
     prelude_node h no_sites ''<typing-extensions-prelude>'' ''typing_extensions''
       typing_prelude_declarations"

definition collections_abc_prelude_node :: "'s hasher \<Rightarrow> 's \<Rightarrow> 's module_node" where
  "collections_abc_prelude_node h no_sites =
     prelude_node h no_sites ''<collections.abc-prelude>'' ''collections.abc''
       collections_abc_prelude_declarations"

section \<open>The graph\<close>

text \<open>\<^verbatim>\<open>if !nodes.iter().any(..) { nodes.push(..) }\<close>.\<close>

definition add_prelude :: "'s module_node \<Rightarrow> 's module_node list \<Rightarrow> 's module_node list" where
  "add_prelude p nodes = (if list_ex (\<lambda>n. mn_key n = mn_key p) nodes then nodes else nodes @ [p])"

definition build :: "'s hasher \<Rightarrow> 's \<Rightarrow> 's binding_table list \<Rightarrow> 's module_node list" where
  "build h no_sites bindings =
     add_prelude (collections_abc_prelude_node h no_sites)
       (add_prelude (typing_extensions_prelude_node h no_sites)
         (add_prelude (typing_prelude_node h no_sites)
           (inject_package_module_nodes h no_sites (map (node_of_binding h) bindings))))"

section \<open>The package index\<close>

lemma ancestor_iff:
  "p \<in> set (ancestor_keys k) \<longleftrightarrow>
     (\<exists>parent rest. rsplit_once CHR ''.'' k = Some (parent, rest) \<and>
        (p = parent \<or> p \<in> set (ancestor_keys parent)))"
  by (subst ancestor_keys.simps) (cases "rsplit_once CHR ''.'' k"; auto)

lemma ancestor_closed:
  "q \<in> set (ancestor_keys k) \<Longrightarrow> rsplit_once CHR ''.'' q = Some (p, r) \<Longrightarrow> p \<in> set (ancestor_keys k)"
proof (induction k rule: ancestor_keys.induct)
  case (1 k)
  obtain parent rest where pr: "rsplit_once CHR ''.'' k = Some (parent, rest)"
    "q = parent \<or> q \<in> set (ancestor_keys parent)"
    using "1.prems"(1) ancestor_iff [of q k] by blast
  have "p \<in> set (ancestor_keys parent)"
    using pr "1.IH" [OF pr(1) refl] "1.prems"(2) ancestor_iff [of p parent] by blast
  then show ?case using pr(1) ancestor_iff [of p k] by blast
qed

lemma fold_ancestors_set:
  "set (fold (\<lambda>key all. fold bs_insert (ancestor_keys key) all) keys s) =
     set s \<union> (\<Union>k\<in>set keys. set (ancestor_keys k))"
  by (induction keys arbitrary: s) auto

lemma all_package_keys_set:
  "set (all_package_module_keys actual) = set actual \<union> (\<Union>k\<in>set actual. set (ancestor_keys k))"
  by (simp add: all_package_module_keys_def fold_ancestors_set)

lemma all_package_keys_parent:
  "c \<in> set (all_package_module_keys actual) \<Longrightarrow> rsplit_once CHR ''.'' c = Some (p, r) \<Longrightarrow>
    p \<in> set (all_package_module_keys actual)"
  using ancestor_iff [of p c] ancestor_closed [of c _ p r] by (auto simp: all_package_keys_set)

definition parent_of :: "string \<Rightarrow> string option" where
  "parent_of key = map_option fst (rsplit_once CHR ''.'' key)"

lemma child_index_fold:
  "fold (\<lambda>key index. case rsplit_once CHR ''.'' key of
                      None \<Rightarrow> index | Some (parent, _) \<Rightarrow> bt_push parent key index) ks m =
   fold (\<lambda>key. bt_push (the (parent_of key)) key) (filter (\<lambda>k. parent_of k \<noteq> None) ks) m"
  by (induction ks arbitrary: m) (auto simp: parent_of_def split: option.splits)

lemma child_index_get:
  "bt_get (direct_child_module_index all) p =
    (let children = filter (\<lambda>k. parent_of k = Some p) all
     in if children = [] then None else Some children)"
proof -
  have "filter (\<lambda>k. the (parent_of k) = p) (filter (\<lambda>k. parent_of k \<noteq> None) all) =
      filter (\<lambda>k. parent_of k = Some p) all"
    by (induction all) auto
  then show ?thesis
    unfolding direct_child_module_index_def child_index_fold
    by (simp add: btg.lookup_pushes [where g = "\<lambda>k. k"] Let_def del: filter_filter)
qed

lemma child_index_ok: "bt_ok (direct_child_module_index all)"
  unfolding direct_child_module_index_def child_index_fold by (rule btg.ok_pushes) simp

section \<open>Packages get nodes and child imports\<close>

lemma declares_append [simp]: "declares (ds @ es) n \<longleftrightarrow> declares ds n \<or> declares es n"
  by (simp add: declares_def)

text \<open>The import of a child package, and the name it declares, belong to one child only.\<close>

definition child_import :: "string \<Rightarrow> bound_declaration" where
  "child_import c = package_child_import_declaration (last_segment c) c"

definition child_imports :: "string \<Rightarrow> bound_declaration list \<Rightarrow> bool" where
  "child_imports p es \<longleftrightarrow> (\<forall>d\<in>set es. \<exists>c. parent_of c = Some p \<and> d = child_import c)"

lemma length_split_char: "length (split_char c s) = Suc (length (filter ((=) c) s))"
  by (induction s) (auto split: list.splits)

lemma last_split_char: "c \<notin> set b \<Longrightarrow> last (split_char c (a @ c # b)) = b"
proof (induction a)
  case (Cons x a)
  have "length (split_char c (a @ c # b)) > 1" by (simp add: length_split_char)
  then show ?case using Cons by (auto split: list.splits)
qed (simp add: split_char_fresh)

lemma parent_last_segment:
  assumes "parent_of c = Some p" shows "c = p @ CHR ''.'' # last_segment c"
proof -
  obtain b where b: "rsplit_once CHR ''.'' c = Some (p, b)"
    using assms by (auto simp: parent_of_def)
  then show ?thesis
    using last_split_char [of "CHR ''.''" b p] by (auto simp: last_segment_def rsplit_once_Some)
qed

lemma child_import_declares:
  assumes "child_imports p es" and "parent_of c = Some p" and "declares es (last_segment c)"
  shows "child_import c \<in> set es"
proof -
  obtain d where d: "d \<in> set es" "d_name d = last_segment c"
    using assms(3) by (auto simp: declares_def list_ex_iff)
  then obtain c' where c': "parent_of c' = Some p" "d = child_import c'"
    using assms(1) by (auto simp: child_imports_def)
  then have "last_segment c' = last_segment c"
    using d(2) by (simp add: child_import_def package_child_import_declaration_def bare_declaration_def)
  then have "c' = c"
    using parent_last_segment [OF c'(1)] parent_last_segment [OF assms(2)] by simp
  then show ?thesis using d(1) c'(2) by simp
qed

lemma add_child_import_extends:
  "parent_of c = Some p \<Longrightarrow> \<exists>es. add_child_import c ds = ds @ es \<and> child_imports p es"
  by (auto simp: add_child_import_def child_imports_def child_import_def)

lemma add_children_extends:
  "\<forall>c\<in>set cs. parent_of c = Some p \<Longrightarrow>
    \<exists>es. add_missing_child_module_imports cs ds = ds @ es \<and> child_imports p es"
  unfolding add_missing_child_module_imports_def
proof (induction cs arbitrary: ds)
  case (Cons c cs)
  obtain es where "add_child_import c ds = ds @ es" "child_imports p es"
    using add_child_import_extends Cons.prems by fastforce
  with Cons.IH [of "ds @ es"] Cons.prems show ?case by (auto simp: child_imports_def ball_Un)
qed (simp add: child_imports_def)

lemma add_children_declares:
  "c \<in> set cs \<Longrightarrow> declares (add_missing_child_module_imports cs ds) (last_segment c)"
proof (induction cs arbitrary: ds)
  case (Cons d cs)
  have step: "add_missing_child_module_imports (d # cs) ds =
      add_missing_child_module_imports cs (add_child_import d ds)"
    by (simp add: add_missing_child_module_imports_def)
  have keep: "declares ds n \<Longrightarrow> declares (add_missing_child_module_imports cs ds) n" for ds n cs
    unfolding add_missing_child_module_imports_def
    by (induction cs arbitrary: ds) (simp_all add: add_child_import_def)
  have "declares (add_child_import d ds) (last_segment d)"
    by (simp add: add_child_import_def declares_def package_child_import_declaration_def
        bare_declaration_def)
  then show ?case using Cons step keep by auto
qed simp

text \<open>
  \<open>extends nodes nodes'\<close>: the old nodes are still there, in place, and imports of their child
  packages have been added to their declarations.
\<close>

definition grown :: "'s module_node \<Rightarrow> 's module_node \<Rightarrow> bool" where
  "grown n n' \<longleftrightarrow> mn_key n' = mn_key n \<and> mn_path n' = mn_path n \<and> mn_kind n' = mn_kind n \<and>
     mn_sites n' = mn_sites n \<and>
     (\<exists>es. mn_declarations n' = mn_declarations n @ es \<and> child_imports (mn_key n) es)"

definition extends :: "'s module_node list \<Rightarrow> 's module_node list \<Rightarrow> bool" where
  "extends nodes nodes' \<longleftrightarrow>
     length nodes \<le> length nodes' \<and> (\<forall>i<length nodes. grown (nodes ! i) (nodes' ! i))"

lemma grown_refl [simp]: "grown n n"
  by (simp add: grown_def child_imports_def)

lemma grown_trans: "grown a b \<Longrightarrow> grown b c \<Longrightarrow> grown a c"
  by (auto simp: grown_def child_imports_def)

lemma grown_fingerprint [simp]: "grown n (n\<lparr>mn_fingerprint := f\<rparr>)"
  by (simp add: grown_def child_imports_def)

lemma extends_refl: "extends nodes nodes"
  by (simp add: extends_def)

lemma extends_trans:
  assumes "extends a b" "extends b c"
  shows "extends a c"
  unfolding extends_def
proof (intro conjI allI impI)
  show "length a \<le> length c" using assms by (simp add: extends_def)
  fix i
  assume "i < length a"
  then show "grown (a ! i) (c ! i)"
    using assms grown_trans [of "a ! i" "b ! i" "c ! i"] by (simp add: extends_def)
qed

lemma extends_append: "extends nodes (nodes @ new)"
  by (simp add: extends_def nth_append)

lemma extends_update: "grown (nodes ! i) n \<Longrightarrow> extends nodes (nodes[i := n])"
  by (cases "i < length nodes") (auto simp: extends_def nth_list_update)

text \<open>
  The node of a package comes from a bound module of its key, or is a new namespace node when no
  module has the key. It provides a child when the bound module already declared the name at top
  level, or else by an import of exactly that child.
\<close>

definition provides ::
    "'s \<Rightarrow> 's module_node list \<Rightarrow> 's module_node list \<Rightarrow> string \<Rightarrow> string \<Rightarrow> bool" where
  "provides no_sites bound nodes p c \<longleftrightarrow>
     (\<exists>before after.
        (before \<in> set bound \<or>
         p \<notin> mn_key ` set bound \<and> before = namespace_module_node no_sites p []) \<and>
        after \<in> set nodes \<and> mn_key after = p \<and> grown before after \<and>
        (declares (mn_declarations before) (last_segment c) \<or>
         child_import c \<in> set (mn_declarations after)))"

lemma providesI:
  assumes "before \<in> set bound \<or> p \<notin> mn_key ` set bound \<and> before = namespace_module_node s p []"
    and "after' \<in> set nodes" "mn_key after' = p" "grown before after'" "parent_of c = Some p"
    and "declares (mn_declarations after') (last_segment c)"
  shows "provides s bound nodes p c"
proof -
  obtain es where "mn_declarations after' = mn_declarations before @ es" "child_imports p es"
    using assms(3,4) by (auto simp: grown_def)
  then have "declares (mn_declarations before) (last_segment c) \<or>
      child_import c \<in> set (mn_declarations after')"
    using assms(6) child_import_declares [OF _ assms(5)] by auto
  then show ?thesis using assms(1-4) unfolding provides_def by blast
qed

lemma extends_provides:
  assumes "extends a b" "provides s bound a p c"
  shows "provides s bound b p c"
proof -
  obtain before i where i: "before \<in> set bound \<or>
      p \<notin> mn_key ` set bound \<and> before = namespace_module_node s p []"
    "i < length a" "mn_key (a ! i) = p" "grown before (a ! i)"
    "declares (mn_declarations before) (last_segment c) \<or> child_import c \<in> set (mn_declarations (a ! i))"
    using assms(2) by (auto simp: provides_def in_set_conv_nth)
  then have g: "grown (a ! i) (b ! i)" "i < length b" using assms(1) by (simp_all add: extends_def)
  then have "mn_key (b ! i) = p" "set (mn_declarations (a ! i)) \<subseteq> set (mn_declarations (b ! i))"
    using i(3) by (auto simp: grown_def)
  then show ?thesis
    using i(1,5) grown_trans [OF i(4) g(1)] nth_mem [OF g(2)] unfolding provides_def by blast
qed

definition existing_ok ::
    "(string \<times> nat) list \<Rightarrow> 's module_node list \<Rightarrow> 's module_node list \<Rightarrow> bool" where
  "existing_ok existing bound nodes \<longleftrightarrow> extends bound nodes \<and>
     (\<forall>k. (bt_get existing k = None \<longrightarrow> k \<notin> mn_key ` set bound) \<and>
          (\<forall>i. bt_get existing k = Some i \<longrightarrow> i < length bound \<and> mn_key (bound ! i) = k))"

definition entry_ok :: "string \<times> string list \<Rightarrow> bool" where
  "entry_ok entry \<longleftrightarrow> (\<forall>c\<in>set (snd entry). parent_of c = Some (fst entry))"

lemma existing_extends:
  "existing_ok existing bound a \<Longrightarrow> extends a b \<Longrightarrow> existing_ok existing bound b"
  using extends_trans by (auto simp: existing_ok_def)

lemma enumerate_keys:
  "map fst (map (\<lambda>(i, n). (mn_key n, i)) (enumerate 0 nodes)) = map mn_key nodes"
  "map snd (map (\<lambda>(i, n). (mn_key n, i)) (enumerate 0 nodes)) = [0..<length nodes]"
  by (rule nth_equalityI; simp add: nth_enumerate_eq)+

lemma existing_keys:
  "bt_get (bt_from_list (map (\<lambda>(i, n). (mn_key n, i)) (enumerate 0 nodes))) k = None \<longleftrightarrow>
    k \<notin> mn_key ` set nodes"
  unfolding bt_get_None_iff bt_keys_from_list
  unfolding set_map [symmetric] enumerate_keys(1) ..

lemma existing_ok_start:
  "existing_ok (bt_from_list (map (\<lambda>(i, n). (mn_key n, i)) (enumerate 0 nodes))) nodes nodes"
proof -
  have "i < length nodes \<and> mn_key (nodes ! i) = k"
    if "(k, i) \<in> set (map (\<lambda>(i, n). (mn_key n, i)) (enumerate 0 nodes))" for k i
    using that by (auto simp: in_set_enumerate_eq)
  then have "bt_get (bt_from_list (map (\<lambda>(i, n). (mn_key n, i)) (enumerate 0 nodes))) k = Some i
      \<Longrightarrow> i < length nodes \<and> mn_key (nodes ! i) = k" for k i
    unfolding bt_get_from_list by (metis map_of_SomeD set_rev)
  then show ?thesis unfolding existing_ok_def by (simp add: existing_keys extends_refl)
qed

lemma inject_extends:
  assumes ok: "existing_ok existing bound nodes" and e: "entry_ok entry"
  shows "extends nodes (inject_package s existing entry nodes)"
proof (cases "bt_get existing (fst entry)")
  case None
  then show ?thesis by (simp add: inject_package_def extends_append)
next
  case (Some i)
  then have "i < length bound" "mn_key (bound ! i) = fst entry" "extends bound nodes"
    using ok by (auto simp: existing_ok_def)
  then have "mn_key (nodes ! i) = fst entry" by (simp add: extends_def grown_def)
  then have "grown (nodes ! i) ((nodes ! i)\<lparr>mn_declarations :=
      add_missing_child_module_imports (snd entry) (mn_declarations (nodes ! i))\<rparr>)"
    using add_children_extends [of "snd entry" "fst entry" "mn_declarations (nodes ! i)"] e
    by (simp add: grown_def entry_ok_def)
  then show ?thesis using Some by (simp add: inject_package_def extends_update)
qed

lemma inject_provides:
  assumes ok: "existing_ok existing bound nodes" and e: "entry_ok entry" and c: "c \<in> set (snd entry)"
  shows "provides s bound (inject_package s existing entry nodes) (fst entry) c"
proof (cases "bt_get existing (fst entry)")
  case None
  let ?n = "namespace_module_node s (fst entry) (snd entry)"
  have "grown (namespace_module_node s (fst entry) []) ?n"
    using add_children_extends [of "snd entry" "fst entry" "[]"] e
    by (auto simp: grown_def entry_ok_def namespace_module_node_def add_missing_child_module_imports_def)
  moreover have "fst entry \<notin> mn_key ` set bound" using None ok by (simp add: existing_ok_def)
  moreover have "?n \<in> set (inject_package s existing entry nodes)" using None by (simp add: inject_package_def)
  moreover have "declares (mn_declarations ?n) (last_segment c)" "mn_key ?n = fst entry"
    using add_children_declares [OF c] by (simp_all add: namespace_module_node_def)
  moreover have "parent_of c = Some (fst entry)" using c e by (simp add: entry_ok_def)
  ultimately show ?thesis by (intro providesI) blast+
next
  case (Some i)
  let ?n = "(nodes ! i)\<lparr>mn_declarations :=
      add_missing_child_module_imports (snd entry) (mn_declarations (nodes ! i))\<rparr>"
  have i: "i < length bound" "mn_key (bound ! i) = fst entry" and x: "extends bound nodes"
    using Some ok by (auto simp: existing_ok_def)
  have after: "extends bound (inject_package s existing entry nodes)"
    using extends_trans [OF x inject_extends [OF ok e]] .
  have n: "i < length nodes" "inject_package s existing entry nodes ! i = ?n"
    using i(1) x Some by (simp_all add: inject_package_def extends_def)
  then have "?n \<in> set (inject_package s existing entry nodes)"
    using Some by (simp add: inject_package_def set_update_memI)
  moreover have "grown (bound ! i) ?n" using after i(1) n(2) by (auto simp: extends_def)
  moreover from this have "mn_key ?n = fst entry" using i(2) by (simp add: grown_def)
  moreover have "declares (mn_declarations ?n) (last_segment c)"
    using add_children_declares [OF c] by simp
  moreover have "parent_of c = Some (fst entry)" using c e by (simp add: entry_ok_def)
  ultimately show ?thesis using nth_mem [OF i(1)] by (intro providesI) blast+
qed

lemma inject_all:
  "existing_ok existing bound nodes \<Longrightarrow> \<forall>entry\<in>set entries. entry_ok entry \<Longrightarrow>
    extends nodes (fold (inject_package s existing) entries nodes) \<and>
    (\<forall>entry\<in>set entries. \<forall>c\<in>set (snd entry).
       provides s bound (fold (inject_package s existing) entries nodes) (fst entry) c)"
proof (induction entries arbitrary: nodes)
  case (Cons e entries)
  let ?n1 = "inject_package s existing e nodes"
  have e: "entry_ok e" "\<forall>entry\<in>set entries. entry_ok entry" using Cons.prems by simp_all
  have x: "extends nodes ?n1" by (rule inject_extends [OF Cons.prems(1) e(1)])
  have ok: "existing_ok existing bound ?n1" by (rule existing_extends [OF Cons.prems(1) x])
  have rest: "extends ?n1 (fold (inject_package s existing) entries ?n1)"
    using Cons.IH [OF ok e(2)] by blast
  show ?case
    using Cons.IH [OF ok e(2)] extends_trans [OF x rest]
      extends_provides [OF rest inject_provides [OF Cons.prems(1) e(1)]] by auto
qed (simp add: extends_refl)

lemma recompute_step_shape:
  "extends nodes (fst (recompute_step h dc entry (nodes, m)))"
  "length (fst (recompute_step h dc entry (nodes, m))) = length nodes"
  by (simp_all add: recompute_step_def Let_def extends_update split: prod.splits)

lemma recompute_extends: "extends nodes (fst (fold (recompute_step h dc) entries (nodes, m)))"
proof (induction entries arbitrary: nodes m)
  case (Cons e entries)
  obtain n1 m1 where s: "recompute_step h dc e (nodes, m) = (n1, m1)" by fastforce
  then have "extends nodes n1" using recompute_step_shape(1) [of nodes h dc e m] by simp
  with Cons.IH [of n1 m1] show ?case using s extends_trans by simp
qed (simp add: extends_refl)

lemma extends_keys:
  assumes "extends a b" shows "mn_key ` set a \<subseteq> mn_key ` set b"
proof
  fix k
  assume "k \<in> mn_key ` set a"
  then obtain i where i: "i < length a" "mn_key (a ! i) = k" by (auto simp: in_set_conv_nth)
  then have "i < length b" "mn_key (b ! i) = k" using assms by (auto simp: extends_def grown_def)
  then show "k \<in> mn_key ` set b" by (metis image_eqI nth_mem)
qed

lemma add_prelude_has: "mn_key p \<in> mn_key ` set (add_prelude p nodes)"
  by (auto simp: add_prelude_def list_ex_iff) (metis image_eqI)

lemma add_prelude_extends: "extends nodes (add_prelude p nodes)"
  by (simp add: add_prelude_def extends_append extends_refl)

lemma build_preludes:
  "{''typing'', ''typing_extensions'', ''collections.abc''} \<subseteq> mn_key ` set (build h s bs)"
proof -
  have keys: "mn_key (typing_prelude_node h s) = ''typing''"
    "mn_key (typing_extensions_prelude_node h s) = ''typing_extensions''"
    "mn_key (collections_abc_prelude_node h s) = ''collections.abc''"
    by (simp_all add: typing_prelude_node_def typing_extensions_prelude_node_def
        collections_abc_prelude_node_def prelude_node_def)
  have keep: "k \<in> mn_key ` set nodes \<Longrightarrow> k \<in> mn_key ` set (add_prelude p nodes)" for k p and nodes :: "'a module_node list"
    using extends_keys [OF add_prelude_extends] by blast
  show ?thesis
    unfolding build_def keys [symmetric]
    by (intro insert_subsetI keep add_prelude_has empty_subsetI)
qed

lemma build_extends_inject: "extends (inject_package_module_nodes h s (map (node_of_binding h) bs)) (build h s bs)"
  unfolding build_def by (meson add_prelude_extends extends_trans)

lemma inject_nodes_extends:
  "extends (fold (inject_package s (bt_from_list (map (\<lambda>(i, n). (mn_key n, i)) (enumerate 0 nodes))))
      (package_index nodes) nodes) (inject_package_module_nodes h s nodes)"
  by (simp add: inject_package_module_nodes_def Let_def recompute_package_summary_fingerprints_def
      recompute_extends)

lemma package_index_ok: "\<forall>entry\<in>set (package_index nodes). entry_ok entry"
proof
  fix entry assume e: "entry \<in> set (package_index nodes)"
  obtain p cs where pc: "entry = (p, cs)" by (cases entry)
  with e have "bt_get (package_index nodes) p = Some cs"
    using bt_get_Some_iff [OF child_index_ok] by (simp add: package_index_def)
  then show "entry_ok entry"
    by (auto simp: package_index_def child_index_get Let_def entry_ok_def pc split: if_splits)
qed

lemma build_extends: "extends (map (node_of_binding h) bs) (build h s bs)"
  using inject_all [OF existing_ok_start package_index_ok] inject_nodes_extends build_extends_inject
  by (meson extends_trans)

lemma package_index_entry:
  assumes "c \<in> set (all_package_module_keys (bs_from_list (map mn_key
      (filter (\<lambda>n. \<not> is_synthetic_module_path (mn_path n)) nodes))))"
    and "parent_of c = Some p"
  shows "\<exists>children. (p, children) \<in> set (package_index nodes) \<and> c \<in> set children"
proof -
  let ?all = "all_package_module_keys (bs_from_list (map mn_key
      (filter (\<lambda>n. \<not> is_synthetic_module_path (mn_path n)) nodes)))"
  let ?children = "filter (\<lambda>k. parent_of k = Some p) ?all"
  have c: "c \<in> set ?children" using assms by simp
  then have "?children \<noteq> []" by (metis empty_iff empty_set)
  then have "bt_get (direct_child_module_index ?all) p = Some ?children"
    by (simp add: child_index_get Let_def)
  then show ?thesis
    using c bt_get_Some_iff [OF child_index_ok, of ?all p ?children]
    unfolding package_index_def by blast
qed

text \<open>
  C21: whatever modules are bound, the graph keeps each of them in place: its path, key, kind and
  sites, and its declarations as a prefix, with nothing after them but imports of packages and
  modules directly below it. Every package above a module whose path is not synthetic (does not
  begin with \<^verbatim>\<open><\<close>) has a node, which grew from a bound module of that key or, when
  there is none, from an empty namespace node; and that node imports the next segment of the
  path, by an import that targets exactly that child, unless the bound module itself declares
  the segment's name at top level. The three prelude modules are there too.
\<close>

theorem graph_packages_closed:
  assumes "b \<in> set bindings" "\<not> is_synthetic_module_path (b_path b)"
    and "c = b_key b \<or> c \<in> set (ancestor_keys (b_key b))" "parent_of c = Some p"
  shows "extends (map (node_of_binding h) bindings) (build h s bindings) \<and>
    provides s (map (node_of_binding h) bindings) (build h s bindings) p c \<and>
    {''typing'', ''typing_extensions'', ''collections.abc''} \<subseteq> mn_key ` set (build h s bindings)"
proof -
  let ?nodes = "map (node_of_binding h) bindings"
  have "node_of_binding h b \<in> set (filter (\<lambda>n. \<not> is_synthetic_module_path (mn_path n)) ?nodes)"
    "mn_key (node_of_binding h b) = b_key b"
    using assms(1,2) by (simp_all add: node_of_binding_def)
  then have "b_key b \<in> set (bs_from_list (map mn_key
      (filter (\<lambda>n. \<not> is_synthetic_module_path (mn_path n)) ?nodes)))"
    by (metis imageI set_bs_from_list set_map)
  then have "c \<in> set (all_package_module_keys (bs_from_list (map mn_key
      (filter (\<lambda>n. \<not> is_synthetic_module_path (mn_path n)) ?nodes))))"
    using assms(3) by (auto simp: all_package_keys_set)
  then obtain children where e: "(p, children) \<in> set (package_index ?nodes)" "c \<in> set children"
    using package_index_entry assms(4) by blast
  have "provides s ?nodes (fold (inject_package s (bt_from_list (map (\<lambda>(i, n). (mn_key n, i)) (enumerate 0 ?nodes))))
      (package_index ?nodes) ?nodes) (fst (p, children)) c"
    by (rule inject_all [OF existing_ok_start package_index_ok, THEN conjunct2, THEN bspec, OF e(1), THEN bspec])
      (simp only: snd_conv e(2))
  then have "provides s ?nodes (build h s bindings) p c"
    unfolding fst_conv
    by (rule extends_provides [OF extends_trans [OF inject_nodes_extends build_extends_inject]])
  moreover have "{''typing'', ''typing_extensions'', ''collections.abc''} \<subseteq> mn_key ` set (build h s bindings)"
    by (rule build_preludes)
  ultimately show ?thesis by (intro conjI build_extends)
qed

section \<open>Fingerprints\<close>

lemma depth_parent:
  "parent_of c = Some p \<Longrightarrow>
    length (split_char CHR ''.'' c) = Suc (length (split_char CHR ''.'' p))"
  by (auto simp: parent_of_def rsplit_once_Some length_split_char filter_empty_conv)

text \<open>What a pass over entries leaves, when no later entry is a child of an earlier one.\<close>

definition merkle ::
    "'s hasher \<Rightarrow> (string \<times> string list) list \<Rightarrow> (string \<times> nat) list \<Rightarrow>
     's module_node list \<Rightarrow> (string \<times> u64) list \<Rightarrow> bool" where
  "merkle h dc es nodes m \<longleftrightarrow> bt_ok m \<and>
     (\<forall>k. bt_get m k = map_option (\<lambda>i. mn_fingerprint (nodes ! i)) (map_of es k)) \<and>
     (\<forall>(k, i)\<in>set es. mn_fingerprint (nodes ! i) = hash_node_summary h (nodes ! i) (child_summaries dc m k))"

definition children_of :: "(string \<times> string list) list \<Rightarrow> string \<Rightarrow> string list" where
  "children_of dc k = (case bt_get dc k of None \<Rightarrow> [] | Some cs \<Rightarrow> cs)"

lemma child_summaries_eq:
  "child_summaries dc m k = List.map_filter (\<lambda>c. map_option (Pair c) (bt_get m c)) (children_of dc k)"
  by (simp add: child_summaries_def children_of_def map_filter_simps split: option.splits)

lemma map_filter_cong_set:
  "(\<And>x. x \<in> set xs \<Longrightarrow> f x = g x) \<Longrightarrow> List.map_filter f xs = List.map_filter g xs"
  by (induction xs) (auto simp: map_filter_simps split: option.splits)

lemma child_summaries_insert:
  "bt_ok m \<Longrightarrow> k \<notin> set (children_of dc k') \<Longrightarrow>
    child_summaries dc (bt_insert k f m) k' = child_summaries dc m k'"
  unfolding child_summaries_eq by (rule map_filter_cong_set) auto

lemma hash_fingerprint [simp]:
  "hash_node_summary h (n\<lparr>mn_fingerprint := f\<rparr>) cs = hash_node_summary h n cs"
  by (simp add: hash_node_summary_def)

lemma merkle_step:
  assumes "merkle h dc es nodes m" and "k \<notin> fst ` set es" and "i \<notin> snd ` set es"
    and "i < length nodes" and "\<forall>k'\<in>Set.insert k (fst ` set es). k \<notin> set (children_of dc k')"
    and "recompute_step h dc (k, i) (nodes, m) = (nodes', m')"
  shows "merkle h dc (es @ [(k, i)]) nodes' m'"
proof -
  let ?f = "hash_node_summary h (nodes ! i) (child_summaries dc m k)"
  have n: "nodes' = nodes[i := (nodes ! i)\<lparr>mn_fingerprint := ?f\<rparr>]" "m' = bt_insert k ?f m"
    using assms(6) by (auto simp: recompute_step_def Let_def)
  have m: "bt_ok m" using assms(1) by (simp add: merkle_def)
  have same: "nodes' ! j = nodes ! j" if "(k', j) \<in> set es" for k' j
    using that assms(3) n(1) by (metis image_eqI nth_list_update_neq snd_conv)
  have new: "nodes' ! i = (nodes ! i)\<lparr>mn_fingerprint := ?f\<rparr>" using n(1) assms(4) by simp
  have get: "bt_get m' j = map_option (\<lambda>i. mn_fingerprint (nodes' ! i)) (map_of (es @ [(k, i)]) j)" for j
  proof (cases "map_of es j")
    case None
    then show ?thesis using assms(1) m n(2) new by (simp add: merkle_def map_add_def)
  next
    case (Some l)
    then have "(j, l) \<in> set es" by (rule map_of_SomeD)
    moreover from this have "j \<noteq> k" using assms(2) by force
    ultimately show ?thesis using assms(1) m n(2) same Some by (simp add: merkle_def map_add_def)
  qed
  have "child_summaries dc m' k' = child_summaries dc m k'" if "k' \<in> Set.insert k (fst ` set es)" for k'
    unfolding n(2) by (rule child_summaries_insert [OF m bspec [OF assms(5) that]])
  note sums = this
  have old: "mn_fingerprint (nodes' ! j) = hash_node_summary h (nodes' ! j) (child_summaries dc m' k')"
    if e: "(k', j) \<in> set es" for k' j
  proof -
    have "child_summaries dc m' k' = child_summaries dc m k'"
      by (rule sums, rule insertI2) (metis e fst_conv image_eqI)
    moreover have "mn_fingerprint (nodes ! j) = hash_node_summary h (nodes ! j) (child_summaries dc m k')"
      using assms(1) e unfolding merkle_def by blast
    ultimately show ?thesis using same [OF e] by simp
  qed
  have "\<forall>(k', j)\<in>set (es @ [(k, i)]).
      mn_fingerprint (nodes' ! j) = hash_node_summary h (nodes' ! j) (child_summaries dc m' k')"
    using new sums [of k] old by auto
  moreover have "bt_ok m'" using m n(2) by simp
  ultimately show ?thesis using get by (simp add: merkle_def)
qed

lemma merkle_fold:
  assumes "distinct (map fst es)" "distinct (map snd es)" "\<forall>e\<in>set es. snd e < length nodes"
    and "sorted_wrt (\<lambda>e e'. fst e' \<notin> set (children_of dc (fst e))) es"
    and "\<forall>e\<in>set es. fst e \<notin> set (children_of dc (fst e))"
  shows "case fold (recompute_step h dc) es (nodes, []) of (nodes', m) \<Rightarrow>
      merkle h dc es nodes' m \<and> length nodes' = length nodes"
  using assms
proof (induction es rule: rev_induct)
  case Nil
  then show ?case by (simp add: merkle_def)
next
  case (snoc e es)
  obtain n1 m1 where s: "fold (recompute_step h dc) es (nodes, []) = (n1, m1)" by fastforce
  obtain n2 m2 where s2: "recompute_step h dc e (n1, m1) = (n2, m2)" by fastforce
  have "merkle h dc es n1 m1" "length n1 = length nodes"
    using snoc s by (simp_all add: sorted_wrt_append)
  moreover have "length n2 = length n1" using recompute_step_shape(2) [of h dc e n1 m1] s2 by simp
  moreover have "merkle h dc (es @ [(fst e, snd e)]) n2 m2"
    using snoc.prems calculation s2
    by (intro merkle_step [of h dc es n1 m1 "fst e" "snd e" n2 m2])
      (auto simp: sorted_wrt_append)
  ultimately show ?case using s s2 by simp
qed

lemma fingerprint_order_facts:
  assumes "distinct (map mn_key nodes)"
  shows "set (fingerprint_order nodes) = {(mn_key (nodes ! i), i) | i. i < length nodes}"
    and "distinct (map fst (fingerprint_order nodes))"
    and "distinct (map snd (fingerprint_order nodes))"
    and "sorted_wrt (\<lambda>e e'. length (split_char CHR ''.'' (fst e')) \<le> length (split_char CHR ''.'' (fst e)))
      (fingerprint_order nodes)"
proof -
  let ?es = "map (\<lambda>(i, n). (mn_key n, i)) (enumerate 0 nodes)"
  let ?key = "\<lambda>(key :: string, i :: nat). (- int (length (split_char CHR ''.'' key)), key)"
  note es = enumerate_keys [of nodes]
  have "mset (fingerprint_order nodes) = mset ?es" by (simp add: fingerprint_order_def)
  note m = this
  have ms: "mset (map fst (fingerprint_order nodes)) = mset (map fst ?es)"
    "mset (map snd (fingerprint_order nodes)) = mset (map snd ?es)"
    "set (fingerprint_order nodes) = set ?es"
    using m mset_eq_setD [OF m] by (simp_all only: mset_map)
  show "distinct (map fst (fingerprint_order nodes))"
    using mset_eq_imp_distinct_iff [OF ms(1)] es(1) assms by simp
  show "distinct (map snd (fingerprint_order nodes))"
    using mset_eq_imp_distinct_iff [OF ms(2)] es(2) by simp
  show "set (fingerprint_order nodes) = {(mn_key (nodes ! i), i) | i. i < length nodes}"
    unfolding ms(3) by (force simp: in_set_enumerate_eq image_iff)
  have "sorted (map ?key (fingerprint_order nodes))" by (simp add: fingerprint_order_def)
  then have "sorted_wrt (\<lambda>e e'. ?key e \<le> ?key e') (fingerprint_order nodes)"
    by (simp add: sorted_wrt_map)
  then show "sorted_wrt (\<lambda>e e'. length (split_char CHR ''.'' (fst e')) \<le> length (split_char CHR ''.'' (fst e)))
      (fingerprint_order nodes)"
    by (rule sorted_wrt_mono_rel [rotated]) (auto simp: less_eq_prod_def split: prod.splits)
qed

lemma children_of_index:
  "children_of (package_index nodes) p =
    filter (\<lambda>k. parent_of k = Some p) (all_package_module_keys (bs_from_list (map mn_key
      (filter (\<lambda>n. \<not> is_synthetic_module_path (mn_path n)) nodes))))"
  unfolding children_of_def package_index_def child_index_get Let_def by (auto simp: filter_empty_conv)

lemma recompute_merkle:
  assumes "distinct (map mn_key nodes)" "\<And>k c. c \<in> set (children_of dc k) \<Longrightarrow> parent_of c = Some k"
  shows "\<exists>m. merkle h dc (fingerprint_order nodes)
      (recompute_package_summary_fingerprints h dc nodes) m"
proof -
  have deeper: "length (split_char CHR ''.'' c) = Suc (length (split_char CHR ''.'' k))"
    if "c \<in> set (children_of dc k)" for c k
    using assms(2) [OF that] by (rule depth_parent)
  have "sorted_wrt (\<lambda>e e'. fst e' \<notin> set (children_of dc (fst e))) (fingerprint_order nodes)"
    by (rule sorted_wrt_mono_rel [OF _ fingerprint_order_facts(4) [OF assms(1)]]) (auto dest: deeper)
  moreover have "\<forall>e\<in>set (fingerprint_order nodes). fst e \<notin> set (children_of dc (fst e))"
    by (auto dest: deeper)
  moreover have "\<forall>e\<in>set (fingerprint_order nodes). snd e < length nodes"
    unfolding fingerprint_order_facts(1) [OF assms(1)] by auto
  ultimately show ?thesis
    using merkle_fold [OF fingerprint_order_facts(2,3) [OF assms(1)], of nodes dc h]
    by (auto simp: recompute_package_summary_fingerprints_def split: prod.splits)
qed

text \<open>Injecting adds a node for each package key that has none.\<close>

lemma inject_keys:
  "map mn_key (fold (inject_package s existing) entries nodes) =
    map mn_key nodes @ filter (\<lambda>k. bt_get existing k = None) (map fst entries)"
proof (induction entries arbitrary: nodes)
  case (Cons e entries)
  have "map mn_key (nodes[i := (nodes ! i)\<lparr>mn_declarations := ds\<rparr>]) = map mn_key nodes" for i ds
    by (cases "i < length nodes") (simp_all add: map_update list_update_same_conv list_update_beyond)
  then show ?case using Cons by (simp add: inject_package_def namespace_module_node_def split: option.splits)
qed simp

lemma ancestor_has_child:
  "q \<in> set (ancestor_keys k) \<Longrightarrow> \<exists>d\<in>Set.insert k (set (ancestor_keys k)). parent_of d = Some q"
proof (induction k rule: ancestor_keys.induct)
  case (1 k)
  obtain parent rest where pr: "rsplit_once CHR ''.'' k = Some (parent, rest)"
    "q = parent \<or> q \<in> set (ancestor_keys parent)"
    using "1.prems" ancestor_iff [of q k] by blast
  have sub: "set (ancestor_keys k) = Set.insert parent (set (ancestor_keys parent))"
    using pr(1) by (subst ancestor_keys.simps) simp
  have k: "parent_of k = Some parent" using pr(1) by (simp add: parent_of_def)
  from pr(2) show ?case
  proof
    assume "q = parent"
    then show ?thesis using k by auto
  next
    assume "q \<in> set (ancestor_keys parent)"
    then show ?thesis using "1.IH" [OF pr(1) refl] sub by auto
  qed
qed

lemma package_key_has_node:
  assumes "c \<in> set (all_package_module_keys (bs_from_list (map mn_key
      (filter (\<lambda>n. \<not> is_synthetic_module_path (mn_path n)) nodes))))"
  shows "c \<in> mn_key ` set nodes \<or> c \<in> fst ` set (package_index nodes)"
proof -
  let ?actual = "bs_from_list (map mn_key (filter (\<lambda>n. \<not> is_synthetic_module_path (mn_path n)) nodes))"
  have "c \<in> set ?actual \<or> (\<exists>k\<in>set ?actual. c \<in> set (ancestor_keys k))"
    using assms by (auto simp: all_package_keys_set)
  then show ?thesis
  proof
    assume "\<exists>k\<in>set ?actual. c \<in> set (ancestor_keys k)"
    then obtain k where k: "k \<in> set ?actual" "c \<in> set (ancestor_keys k)" by blast
    then obtain d where "d \<in> Set.insert k (set (ancestor_keys k))" "parent_of d = Some c"
      using ancestor_has_child by blast
    moreover from this have "d \<in> set (all_package_module_keys ?actual)"
      using k(1) by (auto simp: all_package_keys_set)
    ultimately have "\<exists>children. (c, children) \<in> set (package_index nodes)"
      using package_index_entry by blast
    then show ?thesis by force
  qed auto
qed

lemma map_filter_total:
  "(\<And>x. x \<in> set xs \<Longrightarrow> f x = Some (g x)) \<Longrightarrow> List.map_filter f xs = map g xs"
  by (induction xs) (auto simp: map_filter_simps)

definition fingerprint_at :: "'s module_node list \<Rightarrow> string \<Rightarrow> u64" where
  "fingerprint_at nodes key = the (map_of (map (\<lambda>n. (mn_key n, mn_fingerprint n)) nodes) key)"

definition child_keys :: "'s module_node list \<Rightarrow> string \<Rightarrow> string list" where
  "child_keys nodes key = children_of (package_index nodes) key"

lemma package_index_keys: "distinct (map fst (package_index nodes))"
  unfolding package_index_def by (rule bt_distinct [OF child_index_ok])

lemma fingerprint_at:
  assumes "distinct (map mn_key nodes)" "i < length nodes"
  shows "fingerprint_at nodes (mn_key (nodes ! i)) = mn_fingerprint (nodes ! i)"
proof -
  have "(mn_key (nodes ! i), mn_fingerprint (nodes ! i)) \<in>
      set (map (\<lambda>n. (mn_key n, mn_fingerprint n)) nodes)"
    using assms(2) by simp
  then show ?thesis
    using assms(1) unfolding fingerprint_at_def
    by (subst map_of_is_SomeI) (simp_all add: o_def)
qed

lemma merkle_total:
  assumes "merkle h dc (fingerprint_order nodes) nodes' m" "distinct (map mn_key nodes)"
    and "map mn_key nodes' = map mn_key nodes" "set (children_of dc (mn_key (nodes ! i))) \<subseteq> mn_key ` set nodes"
    and "i < length nodes"
  shows "mn_fingerprint (nodes' ! i) = hash_node_summary h (nodes' ! i)
      (map (\<lambda>c. (c, fingerprint_at nodes' c)) (children_of dc (mn_key (nodes ! i))))"
proof -
  have len: "length nodes' = length nodes" using assms(3) by (rule map_eq_imp_length_eq)
  have get: "bt_get m c = Some (fingerprint_at nodes' c)" if c: "c \<in> mn_key ` set nodes" for c
  proof -
    obtain j where j: "j < length nodes" "c = mn_key (nodes ! j)"
      using c by (auto simp: in_set_conv_nth)
    then have "(c, j) \<in> set (fingerprint_order nodes)"
      using fingerprint_order_facts(1) [OF assms(2)] by auto
    then have "map_of (fingerprint_order nodes) c = Some j"
      using fingerprint_order_facts(2) [OF assms(2)] by (rule map_of_is_SomeI [rotated])
    moreover have "mn_key (nodes' ! j) = c"
      using j len assms(3) by (metis nth_map)
    ultimately show ?thesis
      using assms(1-3) j len fingerprint_at [of nodes' j] by (auto simp: merkle_def)
  qed
  have "(mn_key (nodes ! i), i) \<in> set (fingerprint_order nodes)"
    using fingerprint_order_facts(1) [OF assms(2)] assms(5) by auto
  then have "mn_fingerprint (nodes' ! i) =
      hash_node_summary h (nodes' ! i) (child_summaries dc m (mn_key (nodes ! i)))"
    using assms(1) unfolding merkle_def by blast
  also have "child_summaries dc m (mn_key (nodes ! i)) =
      map (\<lambda>c. (c, fingerprint_at nodes' c)) (children_of dc (mn_key (nodes ! i)))"
    unfolding child_summaries_eq by (rule map_filter_total) (use assms(4) get in auto)
  finally show ?thesis .
qed

lemma recompute_keys:
  "map mn_key (recompute_package_summary_fingerprints h dc nodes) = map mn_key nodes"
proof -
  have "map mn_key (fst (fold (recompute_step h dc) es (nodes, m))) = map mn_key nodes" for es m
  proof (induction es arbitrary: nodes m)
    case (Cons e es)
    obtain n1 m1 where s: "recompute_step h dc e (nodes, m) = (n1, m1)" by fastforce
    then have "map mn_key n1 = map mn_key nodes"
      by (cases e, cases "snd e < length nodes")
        (auto simp: recompute_step_def Let_def map_update list_update_same_conv list_update_beyond)
    then show ?case using Cons.IH [of n1 m1] s by simp
  qed simp
  then show ?thesis by (simp add: recompute_package_summary_fingerprints_def)
qed

text \<open>
  C22: when the bound modules have different keys, the fingerprint of every node is the hash of
  its own content and of the final fingerprints of all its direct children, in key order; so a
  change below a package shows in the fingerprint of the package.
\<close>

theorem package_fingerprints_are_merkle:
  assumes "distinct (map mn_key nodes)"
  shows "distinct (map mn_key (inject_package_module_nodes h s nodes)) \<and>
    (\<forall>n\<in>set (inject_package_module_nodes h s nodes).
       set (child_keys nodes (mn_key n)) \<subseteq> mn_key ` set (inject_package_module_nodes h s nodes) \<and>
       mn_fingerprint n = hash_node_summary h n
         (map (\<lambda>c. (c, fingerprint_at (inject_package_module_nodes h s nodes) c)) (child_keys nodes (mn_key n))))"
proof -
  let ?ex = "bt_from_list (map (\<lambda>(i, n). (mn_key n, i)) (enumerate 0 nodes))"
  let ?mid = "fold (inject_package s ?ex) (package_index nodes) nodes"
  let ?out = "inject_package_module_nodes h s nodes"
  have out: "?out = recompute_package_summary_fingerprints h (package_index nodes) ?mid"
    by (simp add: inject_package_module_nodes_def Let_def)
  have mid: "map mn_key ?mid = map mn_key nodes @
      filter (\<lambda>k. k \<notin> mn_key ` set nodes) (map fst (package_index nodes))"
    unfolding inject_keys existing_keys ..
  have d: "distinct (map mn_key ?mid)"
    unfolding mid using assms distinct_filter [OF package_index_keys] by auto
  have keys: "map mn_key ?out = map mn_key ?mid" unfolding out by (rule recompute_keys)
  have kids: "set (children_of (package_index nodes) k) \<subseteq> mn_key ` set ?mid" for k
  proof
    fix c
    assume "c \<in> set (children_of (package_index nodes) k)"
    then have "c \<in> mn_key ` set nodes \<or> c \<in> fst ` set (package_index nodes)"
      unfolding children_of_index by (intro package_key_has_node) simp
    then have "c \<in> set (map mn_key ?mid)" unfolding mid by auto
    then show "c \<in> mn_key ` set ?mid" by simp
  qed
  obtain m where "merkle h (package_index nodes) (fingerprint_order ?mid) ?out m"
    unfolding out using recompute_merkle [OF d, of "package_index nodes" h]
    by (auto simp: children_of_index)
  note fp = merkle_total [OF this d keys kids]
  have "set (child_keys nodes (mn_key n)) \<subseteq> mn_key ` set ?out \<and> mn_fingerprint n =
      hash_node_summary h n (map (\<lambda>c. (c, fingerprint_at ?out c)) (child_keys nodes (mn_key n)))"
    if n: "n \<in> set ?out" for n
  proof -
    obtain i where i: "i < length ?out" "n = ?out ! i" using n by (auto simp: in_set_conv_nth)
    have len: "length ?out = length ?mid" using keys by (rule map_eq_imp_length_eq)
    then have "mn_key n = mn_key (?mid ! i)" using i keys by (metis nth_map)
    moreover have "mn_key ` set ?out = mn_key ` set ?mid"
      using arg_cong [OF keys, of set] by simp
    ultimately show ?thesis
      using fp [of i] kids [of "mn_key n"] i len by (simp add: child_keys_def)
  qed
  then show ?thesis using d keys by simp
qed

definition sample_hasher :: "nat hasher" where
  "sample_hasher inputs =
     (\<Sum>x\<leftarrow>inputs. case x of HPath p \<Rightarrow> of_nat (length p) | HKey k \<Rightarrow> 3 * of_nat (length k)
        | HDeclarations ds \<Rightarrow> of_nat (length ds) | HSites s \<Rightarrow> of_nat s
        | HChildren cs \<Rightarrow> 7 * (\<Sum>c\<leftarrow>cs. snd c))"

definition sample_binding :: "nat binding_table" where
  "sample_binding =
     \<lparr>b_path = ''a/b/c.tpy'', b_key = ''a.b.c'', b_kind = TypePythonSource, b_declarations = [],
      b_sites = 0\<rparr>"

definition sample_package :: "nat binding_table" where
  "sample_package =
     \<lparr>b_path = ''a/__init__.py'', b_key = ''a'', b_kind = PythonSource,
      b_declarations = [bare_declaration ''x'' DValue MNone], b_sites = 0\<rparr>"

theorem graph_packages_closed_witness:
  "\<exists>n\<in>set (build sample_hasher 0 [sample_package, sample_binding]).
     mn_key n = ''a'' \<and> declares (mn_declarations n) ''x'' \<and> child_import ''a.b'' \<in> set (mn_declarations n)"
proof -
  let ?bindings = "[sample_package, sample_binding]"
  have c: "sample_binding \<in> set ?bindings" "\<not> is_synthetic_module_path (b_path sample_binding)"
    "''a.b'' = b_key sample_binding \<or> ''a.b'' \<in> set (ancestor_keys (b_key sample_binding))"
    "parent_of ''a.b'' = Some ''a''"
    by (simp, code_simp+)
  have own: "mn_key (node_of_binding sample_hasher sample_package) = ''a''"
    "mn_key (node_of_binding sample_hasher sample_binding) = ''a.b.c''"
    "declares (mn_declarations (node_of_binding sample_hasher sample_package)) ''x''"
    "\<not> declares (mn_declarations (node_of_binding sample_hasher sample_package)) (last_segment ''a.b'')"
    by code_simp+
  obtain m n where mn: "m \<in> set (map (node_of_binding sample_hasher) ?bindings) \<or>
      ''a'' \<notin> mn_key ` set (map (node_of_binding sample_hasher) ?bindings) \<and> m = namespace_module_node 0 ''a'' []"
    "n \<in> set (build sample_hasher 0 ?bindings)" "mn_key n = ''a''" "grown m n"
    "declares (mn_declarations m) (last_segment ''a.b'') \<or> child_import ''a.b'' \<in> set (mn_declarations n)"
    using graph_packages_closed [OF c, of sample_hasher 0] unfolding provides_def by blast
  have "mn_key m = ''a''" using mn(3,4) by (simp add: grown_def)
  then have "m = node_of_binding sample_hasher sample_package" using mn(1) own(1,2) by auto
  then show ?thesis using mn(2-5) own(3,4) by (intro bexI [of _ n]) (auto simp: grown_def)
qed

theorem package_fingerprints_are_merkle_witness:
  "let nodes = inject_package_module_nodes sample_hasher 0 [node_of_binding sample_hasher sample_binding]
   in \<forall>n\<in>set nodes. mn_fingerprint n = hash_node_summary sample_hasher n
        (map (\<lambda>c. (c, fingerprint_at nodes c))
          (child_keys [node_of_binding sample_hasher sample_binding] (mn_key n)))"
  using package_fingerprints_are_merkle
    [of "[node_of_binding sample_hasher sample_binding]" sample_hasher 0]
  by (simp add: Let_def)

end
