(* ===== verification/Binder.thy ===== *)
theory Binder
  imports Surface_Sites Module_Graph
begin

text \<open>
  The binder (crates/typepython_binding, binding_impl.rs and the sites of types.rs): a syntax
  tree becomes the declarations of a module and the lists of its call, member and flow sites.
  A site keeps the expression twice, as \<^verbatim>\<open>value\<close> and field by field; \<^verbatim>\<open>value_metadata\<close>
  falls back to the fields.
\<close>

section \<open>Guards\<close>

datatype guard_condition_site =
    GSIsNone string bool
  | GSIsInstance string "string list"
  | GSPredicateCall string string
  | GSTruthyName string
  | GSNot guard_condition_site
  | GSAnd "guard_condition_site list"
  | GSOr "guard_condition_site list"

fun map_guard_condition :: "guard_condition \<Rightarrow> guard_condition_site" where
  "map_guard_condition (GIsNone name negated) = GSIsNone name negated"
| "map_guard_condition (GIsInstance name types) = GSIsInstance name types"
| "map_guard_condition (GPredicateCall name callee) = GSPredicateCall name callee"
| "map_guard_condition (GTruthyName name) = GSTruthyName name"
| "map_guard_condition (GNot g) = GSNot (map_guard_condition g)"
| "map_guard_condition (GAnd gs) = GSAnd (map map_guard_condition gs)"
| "map_guard_condition (GOr gs) = GSOr (map map_guard_condition gs)"

fun guard_condition_site_to_guard :: "guard_condition_site \<Rightarrow> guard_condition" where
  "guard_condition_site_to_guard (GSIsNone name negated) = GIsNone name negated"
| "guard_condition_site_to_guard (GSIsInstance name types) = GIsInstance name types"
| "guard_condition_site_to_guard (GSPredicateCall name callee) = GPredicateCall name callee"
| "guard_condition_site_to_guard (GSTruthyName name) = GTruthyName name"
| "guard_condition_site_to_guard (GSNot g) = GNot (guard_condition_site_to_guard g)"
| "guard_condition_site_to_guard (GSAnd gs) = GAnd (map guard_condition_site_to_guard gs)"
| "guard_condition_site_to_guard (GSOr gs) = GOr (map guard_condition_site_to_guard gs)"

lemma guard_roundtrip [simp]: "guard_condition_site_to_guard (map_guard_condition g) = g"
  by (induction g rule: map_guard_condition.induct) (simp_all cong: map_cong)

lemma guard_site_roundtrip [simp]: "map_guard_condition (guard_condition_site_to_guard g) = g"
  by (induction g rule: guard_condition_site_to_guard.induct) (simp_all cong: map_cong)

section \<open>Expressions from parts\<close>

definition direct_expr_metadata_present :: "direct_expr \<Rightarrow> bool" where
  "direct_expr_metadata_present e \<longleftrightarrow>
     de_type_expr e \<noteq> None \<or> de_is_awaited e \<or> de_callee e \<noteq> None \<or> de_name e \<noteq> None \<or>
     de_member_owner_name e \<noteq> None \<or> de_member_name e \<noteq> None \<or> de_member_through_instance e \<or>
     de_method_owner_name e \<noteq> None \<or> de_method_name e \<noteq> None \<or> de_method_through_instance e \<or>
     de_subscript_target e \<noteq> None \<or> de_subscript_string_key e \<noteq> None \<or>
     de_subscript_index e \<noteq> None \<or> de_if_true e \<noteq> None \<or> de_if_false e \<noteq> None \<or>
     de_if_guard e \<noteq> None \<or> de_bool_left e \<noteq> None \<or> de_bool_right e \<noteq> None \<or>
     de_binop_left e \<noteq> None \<or> de_binop_right e \<noteq> None \<or> de_binop_operator e \<noteq> None \<or>
     de_lambda e \<noteq> None \<or> de_list_comprehension e \<noteq> None \<or>
     de_generator_comprehension e \<noteq> None \<or> de_list_elements e \<noteq> None \<or>
     de_set_elements e \<noteq> None \<or> de_dict_entries e \<noteq> None"

definition direct_expr_metadata_from_parts :: "direct_expr \<Rightarrow> direct_expr option" where
  "direct_expr_metadata_from_parts e = (if direct_expr_metadata_present e then Some e else None)"

text \<open>The struct literals: all fields, all but the comprehensions, and those of a head.\<close>

definition all_parts ::
    "type_expr option \<Rightarrow> bool \<Rightarrow> guard_condition option \<Rightarrow> direct_expr \<Rightarrow> direct_expr" where
  "all_parts t awaited guard e =
     Direct_Expr t awaited (de_callee e) (de_call_source_range e) (de_name e)
       (de_member_owner_name e) (de_member_name e) (de_member_through_instance e)
       (de_method_owner_name e) (de_method_name e) (de_method_through_instance e)
       (de_subscript_target e) (de_subscript_string_key e) (de_subscript_index e)
       (de_if_true e) (de_if_false e) guard (de_bool_left e) (de_bool_right e)
       (de_binop_left e) (de_binop_right e) (de_binop_operator e) (de_lambda e)
       (de_list_comprehension e) (de_generator_comprehension e)
       (de_list_elements e) (de_set_elements e) (de_dict_entries e)"

definition body_parts ::
    "type_expr option \<Rightarrow> bool \<Rightarrow> guard_condition option \<Rightarrow> direct_expr \<Rightarrow> direct_expr" where
  "body_parts t awaited guard e =
     Direct_Expr t awaited (de_callee e) (de_call_source_range e) (de_name e)
       (de_member_owner_name e) (de_member_name e) (de_member_through_instance e)
       (de_method_owner_name e) (de_method_name e) (de_method_through_instance e)
       (de_subscript_target e) (de_subscript_string_key e) (de_subscript_index e)
       (de_if_true e) (de_if_false e) guard (de_bool_left e) (de_bool_right e)
       (de_binop_left e) (de_binop_right e) (de_binop_operator e) (de_lambda e) None None
       (de_list_elements e) (de_set_elements e) (de_dict_entries e)"

definition head_parts :: "type_expr option \<Rightarrow> direct_expr \<Rightarrow> direct_expr" where
  "head_parts t e =
     Direct_Expr t (de_is_awaited e) (de_callee e) (de_call_source_range e) (de_name e)
       (de_member_owner_name e) (de_member_name e) (de_member_through_instance e)
       (de_method_owner_name e) (de_method_name e) (de_method_through_instance e)
       None None None None None None None None None None None None None None None None None"

definition direct_expr_metadata_from_value_statement :: "value_statement \<Rightarrow> direct_expr option" where
  "direct_expr_metadata_from_value_statement s =
     (let v = vs_value s
      in direct_expr_metadata_from_parts (all_parts (de_type_expr v) (de_is_awaited v) (de_if_guard v) v))"

definition direct_expr_metadata_from_return_statement :: "return_statement \<Rightarrow> direct_expr option" where
  "direct_expr_metadata_from_return_statement s =
     (let v = rs_value s
      in direct_expr_metadata_from_parts (body_parts (de_type_expr v) (de_is_awaited v) (de_if_guard v) v))"

definition direct_expr_metadata_from_yield_statement :: "yield_statement \<Rightarrow> direct_expr option" where
  "direct_expr_metadata_from_yield_statement s =
     (let v = ys_value s
      in direct_expr_metadata_from_parts (body_parts (de_type_expr v) False (de_if_guard v) v))"

definition direct_expr_metadata_from_match_statement :: "match_statement \<Rightarrow> direct_expr option" where
  "direct_expr_metadata_from_match_statement s =
     direct_expr_metadata_from_parts (head_parts (de_type_expr (ms_subject s)) (ms_subject s))"

definition direct_expr_metadata_from_for_statement :: "for_statement \<Rightarrow> direct_expr option" where
  "direct_expr_metadata_from_for_statement s =
     direct_expr_metadata_from_parts (head_parts (de_type_expr (fo_iter s)) (fo_iter s))"

definition direct_expr_metadata_from_with_statement :: "with_statement \<Rightarrow> direct_expr option" where
  "direct_expr_metadata_from_with_statement s =
     direct_expr_metadata_from_parts (head_parts (de_type_expr (wi_context s)) (wi_context s))"

section \<open>Sites\<close>

text \<open>
  \<open>parts\<close> stands for the fields repeated from the expression; of these a site has no
  \<^verbatim>\<open>value_type_expr\<close>, and its guard is a \<^verbatim>\<open>GuardConditionSite\<close>.
\<close>

record return_site =
  rt_owner_name :: string
  rt_owner_type_name :: "string option"
  rt_value :: "direct_expr option"
  rt_parts :: direct_expr
  rt_if_guard :: "guard_condition_site option"
  rt_line :: nat

record yield_site =
  yl_owner_name :: string
  yl_owner_type_name :: "string option"
  yl_value :: "direct_expr option"
  yl_parts :: direct_expr
  yl_if_guard :: "guard_condition_site option"
  yl_is_yield_from :: bool
  yl_line :: nat

record match_site =
  mt_owner_name :: "string option"
  mt_owner_type_name :: "string option"
  mt_subject :: "direct_expr option"
  mt_parts :: direct_expr
  mt_cases :: "match_case list"
  mt_line :: nat

record for_site =
  fr_target_name :: string
  fr_target_names :: "string list"
  fr_owner_name :: "string option"
  fr_owner_type_name :: "string option"
  fr_iter :: "direct_expr option"
  fr_parts :: direct_expr
  fr_line :: nat

record with_site =
  wt_target_name :: "string option"
  wt_owner_name :: "string option"
  wt_owner_type_name :: "string option"
  wt_context :: "direct_expr option"
  wt_parts :: direct_expr
  wt_line :: nat

record assignment_site =
  as_name :: string
  as_destructuring_target_names :: "string list option"
  as_destructuring_index :: "nat option"
  as_annotation :: "string option"
  as_annotation_expr :: "type_expr option"
  as_value :: "direct_expr option"
  as_parts :: direct_expr
  as_if_guard :: "guard_condition_site option"
  as_owner_name :: "string option"
  as_owner_type_name :: "string option"
  as_line :: nat

record module_sites =
  si_calls :: "call_site list"
  si_method_calls :: "method_call_site list"
  si_member_accesses :: "member_access_site list"
  si_returns :: "return_site list"
  si_yields :: "yield_site list"
  si_if_guards :: "guard_condition_site if_site list"
  si_asserts :: "guard_condition_site assert_site list"
  si_invalidations :: "invalidation_site list"
  si_matches :: "match_site list"
  si_for_loops :: "for_site list"
  si_with_statements :: "with_site list"
  si_except_handlers :: "except_handler_site list"
  si_assignments :: "assignment_site list"

type_synonym node = "module_sites module_node"

definition no_sites :: module_sites where
  "no_sites = \<lparr>si_calls = [], si_method_calls = [], si_member_accesses = [], si_returns = [],
     si_yields = [], si_if_guards = [], si_asserts = [], si_invalidations = [], si_matches = [],
     si_for_loops = [], si_with_statements = [], si_except_handlers = [], si_assignments = []\<rparr>"

text \<open>\<^verbatim>\<open>self.value.clone().or_else(..)\<close>.\<close>

definition or_from_parts :: "direct_expr option \<Rightarrow> direct_expr \<Rightarrow> direct_expr option" where
  "or_from_parts value parts =
     (case value of Some v \<Rightarrow> Some v | None \<Rightarrow> direct_expr_metadata_from_parts parts)"

definition return_value_metadata :: "return_site \<Rightarrow> direct_expr option" where
  "return_value_metadata s =
     or_from_parts (rt_value s)
       (body_parts None (de_is_awaited (rt_parts s))
          (map_option guard_condition_site_to_guard (rt_if_guard s)) (rt_parts s))"

definition yield_value_metadata :: "yield_site \<Rightarrow> direct_expr option" where
  "yield_value_metadata s =
     or_from_parts (yl_value s)
       (body_parts None False (map_option guard_condition_site_to_guard (yl_if_guard s)) (yl_parts s))"

definition subject_metadata :: "match_site \<Rightarrow> direct_expr option" where
  "subject_metadata s = or_from_parts (mt_subject s) (head_parts None (mt_parts s))"

definition iter_metadata :: "for_site \<Rightarrow> direct_expr option" where
  "iter_metadata s = or_from_parts (fr_iter s) (head_parts None (fr_parts s))"

definition context_metadata :: "with_site \<Rightarrow> direct_expr option" where
  "context_metadata s = or_from_parts (wt_context s) (head_parts None (wt_parts s))"

definition assignment_value_metadata :: "assignment_site \<Rightarrow> direct_expr option" where
  "assignment_value_metadata s =
     or_from_parts (as_value s)
       (all_parts None (de_is_awaited (as_parts s))
          (map_option guard_condition_site_to_guard (as_if_guard s)) (as_parts s))"

definition call_matches_source_call ::
    "call_site \<Rightarrow> string \<Rightarrow> nat \<Rightarrow> source_range option \<Rightarrow> bool" where
  "call_matches_source_call call callee line source \<longleftrightarrow>
     cl_callee call = callee \<and> cl_line call = line \<and>
     (case source of Some r \<Rightarrow> cl_source_range call = Some r | None \<Rightarrow> True)"

definition method_call_matches_source_call ::
    "method_call_site \<Rightarrow> string \<Rightarrow> string \<Rightarrow> bool \<Rightarrow> nat \<Rightarrow> source_range option \<Rightarrow> bool" where
  "method_call_matches_source_call call owner_name method_name through_instance line source \<longleftrightarrow>
     mc_owner_name call = owner_name \<and> mc_method call = method_name \<and>
     mc_through_instance call = through_instance \<and> mc_line call = line \<and>
     (case source of Some r \<Rightarrow> mc_source_range call = Some r | None \<Rightarrow> True)"

definition rendered_direct_expr_type_texts :: "direct_expr list \<Rightarrow> string list" where
  "rendered_direct_expr_type_texts es =
     map (\<lambda>e. case expr_rendered_value_type e of Some t \<Rightarrow> t | None \<Rightarrow> []) es"

section \<open>Declarations\<close>

text \<open>\<^verbatim>\<open>expr.map(BoundTypeExpr::from_expr).or_else(|| text.map(BoundTypeExpr::new))\<close>.\<close>

definition expr_or_text :: "type_expr option \<Rightarrow> string option \<Rightarrow> type_expr option" where
  "expr_or_text e text = (case e of Some x \<Rightarrow> Some x | None \<Rightarrow> map_option bound_type_expr text)"

definition bind_type_param_kind :: "type_param_kind \<Rightarrow> generic_type_param_kind" where
  "bind_type_param_kind k =
     (case k of TypeVar \<Rightarrow> GTypeVar | ParamSpec \<Rightarrow> GParamSpec | TypeVarTuple \<Rightarrow> GTypeVarTuple)"

definition bind_type_params :: "type_param list \<Rightarrow> generic_type_param list" where
  "bind_type_params type_params =
     map (\<lambda>p. \<lparr>gp_kind = bind_type_param_kind (tp_kind p), gp_name = tp_name p,
               gp_bound_expr = expr_or_text (tp_bound_expr p) (tp_bound p),
               gp_constraint_exprs =
                 (if tp_constraints p = [] then tp_constraint_exprs p
                  else map bound_type_expr (tp_constraints p)),
               gp_default_expr = expr_or_text (tp_default_expr p) (tp_default p)\<rparr>) type_params"

definition bind_member :: "declaration_owner \<Rightarrow> class_member \<Rightarrow> bound_declaration" where
  "bind_member owner member =
     \<lparr>d_name = cm_name member,
      d_kind = (case cm_kind member of
          MemberField \<Rightarrow> DValue | MemberMethod \<Rightarrow> DFunction | MemberOverload \<Rightarrow> DOverload),
      d_metadata =
        (if cm_kind member = MemberField
         then MValue (expr_or_text (cm_annotation_expr member) (cm_annotation member))
         else MCallable (from_function_parts_with_expr (cm_params member) (cm_returns member)
                (cm_returns_expr member))),
      d_value_type_expr = cm_value_type_expr member,
      d_method_kind = cm_method_kind member, d_class_kind = None, d_owner = Some owner,
      d_is_async = cm_is_async member, d_is_override = cm_is_override member,
      d_is_abstract_method = cm_is_abstract_method member,
      d_is_final_decorator = cm_is_final_decorator member,
      d_is_deprecated = cm_is_deprecated member,
      d_deprecation_message = cm_deprecation_message member,
      d_is_final = cm_is_final member, d_is_class_var = cm_is_class_var member,
      d_bases = [], d_type_params = bind_type_params (cm_type_params member)\<rparr>"

definition bind_named_block :: "named_block \<Rightarrow> declaration_owner_kind \<Rightarrow> bound_declaration list" where
  "bind_named_block s owner_kind =
     (bare_declaration (nb_name s) DClass (MClass (map bound_type_expr (nb_bases s))))
       \<lparr>d_class_kind := Some owner_kind, d_is_final_decorator := nb_is_final_decorator s,
        d_is_deprecated := nb_is_deprecated s, d_deprecation_message := nb_deprecation_message s,
        d_bases := nb_bases s, d_type_params := bind_type_params (nb_type_params s)\<rparr>
     # map (bind_member \<lparr>do_name = nb_name s, do_kind = owner_kind\<rparr>) (nb_members s)"

definition bind_function :: "declaration_kind \<Rightarrow> function_statement \<Rightarrow> bound_declaration" where
  "bind_function kind s =
     (bare_declaration (fs_name s) kind
        (MCallable (from_function_parts_with_expr (fs_params s) (fs_returns s) (fs_returns_expr s))))
       \<lparr>d_is_async := fs_is_async s,
        d_is_override := (kind = DFunction \<and> fs_is_override s),
        d_is_deprecated := fs_is_deprecated s, d_deprecation_message := fs_deprecation_message s,
        d_type_params := bind_type_params (fs_type_params s)\<rparr>"

definition value_statement_is_rebind_like_update :: "value_statement \<Rightarrow> bool" where
  "value_statement_is_rebind_like_update s \<longleftrightarrow>
     vs_annotation s = None \<and> length (vs_names s) = 1 \<and>
     de_binop_operator (vs_value s) \<noteq> None \<and>
     Option.bind (de_binop_left (vs_value s)) de_name =
       (case vs_names s of [] \<Rightarrow> None | n # _ \<Rightarrow> Some n)"

definition bind_value :: "value_statement \<Rightarrow> string \<Rightarrow> bound_declaration" where
  "bind_value s name =
     (bare_declaration name DValue (MValue (expr_or_text (vs_annotation_expr s) (vs_annotation s))))
       \<lparr>d_value_type_expr := de_type_expr (vs_value s), d_is_final := vs_is_final s,
        d_is_class_var := vs_is_class_var s\<rparr>"

definition bind_statement :: "syntax_statement \<Rightarrow> bound_declaration list" where
  "bind_statement statement =
     (case statement of
        StTypeAlias s \<Rightarrow>
          [(bare_declaration (ta_name s) DTypeAlias
              (MTypeAlias (case ta_value_expr s of Some e \<Rightarrow> e | None \<Rightarrow> bound_type_expr (ta_value s))
                 (Some (ta_line s))))
             \<lparr>d_type_params := bind_type_params (ta_type_params s)\<rparr>]
      | StInterface s \<Rightarrow> bind_named_block s OInterface
      | StDataClass s \<Rightarrow> bind_named_block s ODataClass
      | StSealedClass s \<Rightarrow> bind_named_block s OSealedClass
      | StClassDef s \<Rightarrow> bind_named_block s OClass
      | StOverloadDef s \<Rightarrow> [bind_function DOverload s]
      | StFunctionDef s \<Rightarrow> [bind_function DFunction s]
      | StImport bindings _ \<Rightarrow>
          map (\<lambda>b. bare_declaration (ib_local_name b) DImport (MImport (bound_import_target (ib_source_path b))))
            bindings
      | StValue s \<Rightarrow>
          (if vs_owner_name s = None \<and> \<not> value_statement_is_rebind_like_update s
           then map (bind_value s) (vs_names s) else [])
      | _ \<Rightarrow> [])"

section \<open>Binding\<close>

definition bind_return :: "return_statement \<Rightarrow> return_site" where
  "bind_return s =
     \<lparr>rt_owner_name = rs_owner_name s, rt_owner_type_name = rs_owner_type_name s,
      rt_value = direct_expr_metadata_from_return_statement s,
      rt_parts = body_parts None (de_is_awaited (rs_value s)) None (rs_value s),
      rt_if_guard = map_option map_guard_condition (de_if_guard (rs_value s)), rt_line = rs_line s\<rparr>"

definition bind_yield :: "yield_statement \<Rightarrow> yield_site" where
  "bind_yield s =
     \<lparr>yl_owner_name = ys_owner_name s, yl_owner_type_name = ys_owner_type_name s,
      yl_value = direct_expr_metadata_from_yield_statement s,
      yl_parts = body_parts None False None (ys_value s),
      yl_if_guard = map_option map_guard_condition (de_if_guard (ys_value s)),
      yl_is_yield_from = ys_is_yield_from s, yl_line = ys_line s\<rparr>"

definition bind_if :: "guard_condition if_site \<Rightarrow> guard_condition_site if_site" where
  "bind_if s =
     \<lparr>if_owner_name = if_owner_name s, if_owner_type_name = if_owner_type_name s,
      if_guard = map_option map_guard_condition (if_guard s), if_line = if_line s,
      if_true_start_line = if_true_start_line s, if_true_end_line = if_true_end_line s,
      if_false_start_line = if_false_start_line s, if_false_end_line = if_false_end_line s\<rparr>"

definition bind_assert :: "guard_condition assert_site \<Rightarrow> guard_condition_site assert_site" where
  "bind_assert s =
     \<lparr>at_owner_name = at_owner_name s, at_owner_type_name = at_owner_type_name s,
      at_guard = map_option map_guard_condition (at_guard s), at_line = at_line s\<rparr>"

definition bind_match :: "match_statement \<Rightarrow> match_site" where
  "bind_match s =
     \<lparr>mt_owner_name = ms_owner_name s, mt_owner_type_name = ms_owner_type_name s,
      mt_subject = direct_expr_metadata_from_match_statement s,
      mt_parts = head_parts None (ms_subject s), mt_cases = ms_cases s, mt_line = ms_line s\<rparr>"

definition bind_for :: "for_statement \<Rightarrow> for_site" where
  "bind_for s =
     \<lparr>fr_target_name = fo_target_name s, fr_target_names = fo_target_names s,
      fr_owner_name = fo_owner_name s, fr_owner_type_name = fo_owner_type_name s,
      fr_iter = direct_expr_metadata_from_for_statement s,
      fr_parts = head_parts None (fo_iter s), fr_line = fo_line s\<rparr>"

definition bind_with :: "with_statement \<Rightarrow> with_site" where
  "bind_with s =
     \<lparr>wt_target_name = wi_target_name s, wt_owner_name = wi_owner_name s,
      wt_owner_type_name = wi_owner_type_name s,
      wt_context = direct_expr_metadata_from_with_statement s,
      wt_parts = head_parts None (wi_context s), wt_line = wi_line s\<rparr>"

definition bind_assignment :: "value_statement \<Rightarrow> nat \<Rightarrow> string \<Rightarrow> assignment_site" where
  "bind_assignment s index name =
     \<lparr>as_name = name, as_destructuring_target_names = vs_destructuring_target_names s,
      as_destructuring_index = map_option (\<lambda>_. index) (vs_destructuring_target_names s),
      as_annotation = vs_annotation s,
      as_annotation_expr = expr_or_text (vs_annotation_expr s) (vs_annotation s),
      as_value = direct_expr_metadata_from_value_statement s,
      as_parts = all_parts None (de_is_awaited (vs_value s)) None (vs_value s),
      as_if_guard = map_option map_guard_condition (de_if_guard (vs_value s)),
      as_owner_name = vs_owner_name s, as_owner_type_name = vs_owner_type_name s,
      as_line = vs_line s\<rparr>"

definition bind_sites :: "syntax_statement list \<Rightarrow> module_sites" where
  "bind_sites statements =
     \<lparr>si_calls = List.map_filter (\<lambda>s. case s of StCall c \<Rightarrow> Some c | _ \<Rightarrow> None) statements,
      si_method_calls = List.map_filter (\<lambda>s. case s of StMethodCall c \<Rightarrow> Some c | _ \<Rightarrow> None) statements,
      si_member_accesses = List.map_filter (\<lambda>s. case s of StMemberAccess c \<Rightarrow> Some c | _ \<Rightarrow> None) statements,
      si_returns = List.map_filter (\<lambda>s. case s of StReturn r \<Rightarrow> Some (bind_return r) | _ \<Rightarrow> None) statements,
      si_yields = List.map_filter (\<lambda>s. case s of StYield y \<Rightarrow> Some (bind_yield y) | _ \<Rightarrow> None) statements,
      si_if_guards = List.map_filter (\<lambda>s. case s of StIf i \<Rightarrow> Some (bind_if i) | _ \<Rightarrow> None) statements,
      si_asserts = List.map_filter (\<lambda>s. case s of StAssert a \<Rightarrow> Some (bind_assert a) | _ \<Rightarrow> None) statements,
      si_invalidations = List.map_filter (\<lambda>s. case s of StInvalidate i \<Rightarrow> Some i | _ \<Rightarrow> None) statements,
      si_matches = List.map_filter (\<lambda>s. case s of StMatch m \<Rightarrow> Some (bind_match m) | _ \<Rightarrow> None) statements,
      si_for_loops = List.map_filter (\<lambda>s. case s of StFor f \<Rightarrow> Some (bind_for f) | _ \<Rightarrow> None) statements,
      si_with_statements = List.map_filter (\<lambda>s. case s of StWith w \<Rightarrow> Some (bind_with w) | _ \<Rightarrow> None) statements,
      si_except_handlers =
        List.map_filter (\<lambda>s. case s of StExceptHandler e \<Rightarrow> Some e | _ \<Rightarrow> None) statements,
      si_assignments =
        concat (map (\<lambda>s. case s of
            StValue v \<Rightarrow> map (\<lambda>(index, name). bind_assignment v index name) (enumerate 0 (vs_names v))
          | _ \<Rightarrow> []) statements)\<rparr>"

definition bind :: "string \<Rightarrow> string \<Rightarrow> source_kind \<Rightarrow> syntax_statement list \<Rightarrow> module_sites binding_table" where
  "bind path logical_module kind statements =
     \<lparr>b_path = path, b_key = logical_module, b_kind = kind,
      b_declarations = concat (map bind_statement statements), b_sites = bind_sites statements\<rparr>"

section \<open>Signatures of the surface\<close>

text \<open>
  \<^verbatim>\<open>bind_module_surface_facts\<close>, on what the syntax crate collected from the source
  text: the two maps it builds. The other facts are copied as they are.
\<close>

definition function_signatures ::
    "direct_function_signature_site list \<Rightarrow> (string \<times> direct_param list) list" where
  "function_signatures sites = bt_from_list (map (\<lambda>s. (fg_name s, fg_params s)) sites)"

definition method_signatures ::
    "direct_method_signature_site list \<Rightarrow> ((string \<times> string) \<times> direct_param list) list" where
  "method_signatures sites =
     bt_from_list (map (\<lambda>s. ((mg_owner_type_name s, mg_name s),
         if mg_method_kind s \<in> {StaticMethod, PropertyMethod} then mg_params s else drop 1 (mg_params s)))
       sites)"

section \<open>Well-formed declarations\<close>

text \<open>
  What later phases read off a declaration: its metadata, class kind, owner, method kind and
  bases fit its kind.
\<close>

definition declaration_wf :: "bound_declaration \<Rightarrow> bool" where
  "declaration_wf d \<longleftrightarrow>
     (case d_metadata d of
        MNone \<Rightarrow> False
      | MTypeAlias _ line \<Rightarrow> d_kind d = DTypeAlias \<and> line \<noteq> None
      | MCallable _ \<Rightarrow> d_kind d = DFunction \<or> d_kind d = DOverload
      | MImport target \<Rightarrow> d_kind d = DImport \<and> target = bound_import_target (it_raw_target target)
      | MValue _ \<Rightarrow> d_kind d = DValue
      | MClass bases \<Rightarrow> d_kind d = DClass \<and> bases = map bound_type_expr (d_bases d)) \<and>
     (d_class_kind d \<noteq> None \<longleftrightarrow> d_kind d = DClass) \<and>
     (d_owner d = None \<or> d_kind d = DValue \<or> d_kind d = DFunction \<or> d_kind d = DOverload) \<and>
     (d_method_kind d = None \<or> d_owner d \<noteq> None) \<and>
     (d_bases d = [] \<or> d_kind d = DClass)"

text \<open>Every owner is a class declared before, under the same name and with the same kind.\<close>

primrec members_follow :: "declaration_owner list \<Rightarrow> bound_declaration list \<Rightarrow> bool" where
  "members_follow seen [] \<longleftrightarrow> True"
| "members_follow seen (d # ds) \<longleftrightarrow>
     (case d_owner d of Some owner \<Rightarrow> owner \<in> set seen | None \<Rightarrow> True) \<and>
     members_follow
       ((case d_class_kind d of Some k \<Rightarrow> [\<lparr>do_name = d_name d, do_kind = k\<rparr>] | None \<Rightarrow> []) @ seen) ds"

lemma bound_import_target_raw [simp]: "it_raw_target (bound_import_target raw) = raw"
  by (simp add: bound_import_target_def)

lemma members_follow_mono: "members_follow seen ds \<Longrightarrow> set seen \<subseteq> set seen' \<Longrightarrow> members_follow seen' ds"
proof (induction ds arbitrary: seen seen')
  case (Cons d ds)
  show ?case
    using Cons.prems Cons.IH [of "(case d_class_kind d of Some k \<Rightarrow> [\<lparr>do_name = d_name d, do_kind = k\<rparr>] | None \<Rightarrow> []) @ seen"
      "(case d_class_kind d of Some k \<Rightarrow> [\<lparr>do_name = d_name d, do_kind = k\<rparr>] | None \<Rightarrow> []) @ seen'"]
    by (auto split: option.splits)
qed simp

lemma members_follow_append:
  "members_follow seen xs \<Longrightarrow> members_follow [] ys \<Longrightarrow> members_follow seen (xs @ ys)"
  by (induction xs arbitrary: seen) (auto intro: members_follow_mono)

lemma members_follow_concat: "(\<And>xs. xs \<in> set xss \<Longrightarrow> members_follow [] xs) \<Longrightarrow> members_follow [] (concat xss)"
  by (induction xss) (simp_all add: members_follow_append)

lemma members_follow_plain:
  "(\<And>d. d \<in> set ds \<Longrightarrow> d_owner d = None \<or> d_owner d = Some owner \<and> owner \<in> set seen) \<Longrightarrow> members_follow seen ds"
proof (induction ds arbitrary: seen)
  case (Cons d ds)
  have "members_follow (extra @ seen) ds" for extra
  proof (rule Cons.IH)
    show "d_owner e = None \<or> d_owner e = Some owner \<and> owner \<in> set (extra @ seen)" if "e \<in> set ds" for e
      using Cons.prems [of e] that by auto
  qed
  then show ?case using Cons.prems [of d] by (cases "d_owner d") auto
qed simp

lemma bare_simps [simp]:
  "d_owner (bare_declaration n k m) = None" "d_kind (bare_declaration n k m) = k"
  "d_metadata (bare_declaration n k m) = m" "d_class_kind (bare_declaration n k m) = None"
  "d_method_kind (bare_declaration n k m) = None" "d_bases (bare_declaration n k m) = []"
  "d_name (bare_declaration n k m) = n"
  by (simp_all add: bare_declaration_def)

lemma named_block_follows: "members_follow [] (bind_named_block s k)"
  unfolding bind_named_block_def
  by (simp, intro members_follow_plain [where owner = "\<lparr>do_name = nb_name s, do_kind = k\<rparr>"])
     (auto simp: bind_member_def)

lemma statement_follows: "members_follow [] (bind_statement s)"
  by (cases s)
     (auto simp: bind_statement_def bind_function_def bind_value_def named_block_follows intro!: members_follow_plain)

lemma bind_member_wf: "declaration_wf (bind_member owner m)"
  by (cases "cm_kind m") (simp_all add: declaration_wf_def bind_member_def)

lemma block_head_wf: "declaration_wf (hd (bind_named_block s k))"
  by (simp add: bind_named_block_def declaration_wf_def)

lemma named_block_wf: "d \<in> set (bind_named_block s k) \<Longrightarrow> declaration_wf d"
  using block_head_wf [of s k] by (auto simp: bind_named_block_def bind_member_wf)

lemma statement_wf: "d \<in> set (bind_statement s) \<Longrightarrow> declaration_wf d"
  by (cases s) (auto simp: bind_statement_def named_block_wf, auto simp: declaration_wf_def bind_function_def
      bind_value_def split: if_splits)

section \<open>Mirrored fields\<close>

lemma body_parts_absent:
  assumes "direct_expr_metadata_from_parts (body_parts t a (de_if_guard e) e) = None"
  shows "\<not> direct_expr_metadata_present (body_parts None a (de_if_guard e) e)"
  using assms by (auto simp: direct_expr_metadata_from_parts_def direct_expr_metadata_present_def body_parts_def
      split: if_splits)

lemma all_parts_absent:
  assumes "direct_expr_metadata_from_parts (all_parts t a (de_if_guard e) e) = None"
  shows "\<not> direct_expr_metadata_present (all_parts None a (de_if_guard e) e)"
  using assms by (auto simp: direct_expr_metadata_from_parts_def direct_expr_metadata_present_def all_parts_def
      split: if_splits)

lemma head_parts_absent:
  assumes "direct_expr_metadata_from_parts (head_parts t e) = None"
  shows "\<not> direct_expr_metadata_present (head_parts None e)"
  using assms by (auto simp: direct_expr_metadata_from_parts_def direct_expr_metadata_present_def head_parts_def
      split: if_splits)

lemma parts_again [simp]:
  "body_parts t a g (body_parts t' a' g' e) = body_parts t a g e"
  "all_parts t a g (all_parts t' a' g' e) = all_parts t a g e"
  "head_parts t (head_parts t' e) = head_parts t e"
  "de_is_awaited (body_parts t' a' g' e) = a'" "de_is_awaited (all_parts t' a' g' e) = a'"
  by (simp_all add: body_parts_def all_parts_def head_parts_def)

lemma guard_option_roundtrip [simp]:
  "map_option guard_condition_site_to_guard (map_option map_guard_condition g) = g"
  by (cases g) simp_all

lemma bound_metadata [simp]:
  "return_value_metadata (bind_return r) = rt_value (bind_return r)"
  "yield_value_metadata (bind_yield y) = yl_value (bind_yield y)"
  "subject_metadata (bind_match m) = mt_subject (bind_match m)"
  "iter_metadata (bind_for f) = fr_iter (bind_for f)"
  "context_metadata (bind_with w) = wt_context (bind_with w)"
  "assignment_value_metadata (bind_assignment v i n) = as_value (bind_assignment v i n)"
  using body_parts_absent [of "de_type_expr (rs_value r)" "de_is_awaited (rs_value r)" "rs_value r"]
    body_parts_absent [of "de_type_expr (ys_value y)" False "ys_value y"]
    head_parts_absent [of "de_type_expr (ms_subject m)" "ms_subject m"]
    head_parts_absent [of "de_type_expr (fo_iter f)" "fo_iter f"]
    head_parts_absent [of "de_type_expr (wi_context w)" "wi_context w"]
    all_parts_absent [of "de_type_expr (vs_value v)" "de_is_awaited (vs_value v)" "vs_value v"]
  by (simp_all add: return_value_metadata_def bind_return_def yield_value_metadata_def bind_yield_def
      subject_metadata_def bind_match_def iter_metadata_def bind_for_def context_metadata_def bind_with_def
      assignment_value_metadata_def bind_assignment_def or_from_parts_def Let_def
      direct_expr_metadata_from_return_statement_def direct_expr_metadata_from_yield_statement_def
      direct_expr_metadata_from_match_statement_def direct_expr_metadata_from_for_statement_def
      direct_expr_metadata_from_with_statement_def direct_expr_metadata_from_value_statement_def
      direct_expr_metadata_from_parts_def [of "body_parts None a g e" for a g e]
      direct_expr_metadata_from_parts_def [of "all_parts None a g e" for a g e]
      direct_expr_metadata_from_parts_def [of "head_parts None e" for e] split: option.splits)

lemma map_metadata:
  "(\<And>x y. f x = Some y \<Longrightarrow> g y = h y) \<Longrightarrow> map g (List.map_filter f xs) = map h (List.map_filter f xs)"
  by (induction xs) (simp_all add: List.map_filter_simps split: option.splits)

lemma bound_assignments:
  "a \<in> set (si_assignments (bind_sites statements)) \<Longrightarrow> assignment_value_metadata a = as_value a"
  by (auto simp: bind_sites_def split: syntax_statement.splits)

lemma bound_lists:
  "map return_value_metadata (si_returns (bind_sites s)) = map rt_value (si_returns (bind_sites s))"
  "map yield_value_metadata (si_yields (bind_sites s)) = map yl_value (si_yields (bind_sites s))"
  "map subject_metadata (si_matches (bind_sites s)) = map mt_subject (si_matches (bind_sites s))"
  "map iter_metadata (si_for_loops (bind_sites s)) = map fr_iter (si_for_loops (bind_sites s))"
  "map context_metadata (si_with_statements (bind_sites s)) = map wt_context (si_with_statements (bind_sites s))"
  "map assignment_value_metadata (si_assignments (bind_sites s)) = map as_value (si_assignments (bind_sites s))"
  unfolding bind_sites_def module_sites.simps
  by (rule map_metadata, (auto split: syntax_statement.splits)[1])+
     (rule map_cong [OF refl], (auto split: syntax_statement.splits)[1])

section \<open>Properties\<close>

text \<open>
  C2: what the binder hands to the later phases is well-formed. Whatever the statements, every
  declaration of the table has metadata, class kind, owner, method kind and bases of its kind,
  and every member follows a class declaration with the name and kind of its owner.
\<close>

theorem bound_declarations_well_formed:
  "list_all declaration_wf (b_declarations (bind path key kind statements)) \<and>
   members_follow [] (b_declarations (bind path key kind statements))"
  using statement_wf
  by (auto simp: bind_def list_all_iff statement_follows intro!: members_follow_concat)

text \<open>
  The two copies of an expression in a bound site agree. For every site the binder makes,
  the expression rebuilt when \<^verbatim>\<open>value\<close> is missing is missing too, so the accessors
  return what the statement's expression is, and guards survive the two translations.
\<close>

lemma bound_site_metadata:
  "map return_value_metadata (si_returns (bind_sites s)) = map rt_value (si_returns (bind_sites s)) \<and>
   map yield_value_metadata (si_yields (bind_sites s)) = map yl_value (si_yields (bind_sites s)) \<and>
   map subject_metadata (si_matches (bind_sites s)) = map mt_subject (si_matches (bind_sites s)) \<and>
   map iter_metadata (si_for_loops (bind_sites s)) = map fr_iter (si_for_loops (bind_sites s)) \<and>
   map context_metadata (si_with_statements (bind_sites s)) = map wt_context (si_with_statements (bind_sites s)) \<and>
   map assignment_value_metadata (si_assignments (bind_sites s)) = map as_value (si_assignments (bind_sites s)) \<and>
   guard_condition_site_to_guard (map_guard_condition g) = g"
  by (simp only: bound_lists guard_roundtrip simp_thms)

end
