(* ===== verification/Class_Resolution.thy ===== *)
theory Class_Resolution
  imports Decl_Semantics Binder
begin

text \<open>
  Names in the module graph, as the checker resolves them (crates/typepython_checking:
  type_system/imports.rs, declarations.rs, semantic.rs, type_system/assignability.rs and
  type_system/contextual.rs): imports, direct bases, type aliases, interface-like classes and
  the members of a class and its bases. The recursions carry the set of visited classes the
  code carries and take fuel; the locale \<open>class_search\<close> shows how much is enough and what
  a search finds.
\<close>

section \<open>Imported symbols\<close>

record imported_symbol_target =
  im_import :: bound_declaration
  im_provider :: node
  im_target :: "bound_declaration option"

definition module_target :: "imported_symbol_target \<Rightarrow> node option" where
  "module_target t = (if im_target t = None then Some (im_provider t) else None)"

definition provider_of_kind ::
    "declaration_kind \<Rightarrow> imported_symbol_target \<Rightarrow> (node \<times> bound_declaration) option" where
  "provider_of_kind k t =
     (case im_target t of
        None \<Rightarrow> None
      | Some d \<Rightarrow> if d_owner d = None \<and> d_kind d = k then Some (im_provider t, d) else None)"

abbreviation function_provider where "function_provider \<equiv> provider_of_kind DFunction"
abbreviation type_alias_provider where "type_alias_provider \<equiv> provider_of_kind DTypeAlias"
abbreviation class_provider where "class_provider \<equiv> provider_of_kind DClass"

definition find_module :: "node list \<Rightarrow> string \<Rightarrow> node option" where
  "find_module nodes key = List.find (\<lambda>n. mn_key n = key) nodes"

definition find_top_level :: "node \<Rightarrow> string \<Rightarrow> bound_declaration option" where
  "find_top_level n name = List.find (\<lambda>d. d_owner d = None \<and> d_name d = name) (mn_declarations n)"

text \<open>A top-level declaration of one kind: the closures of the two resolvers below.\<close>

definition find_of_kind :: "declaration_kind \<Rightarrow> node \<Rightarrow> string \<Rightarrow> bound_declaration option" where
  "find_of_kind k n name =
     List.find (\<lambda>d. d_name d = name \<and> d_owner d = None \<and> d_kind d = k) (mn_declarations n)"

definition find_import :: "node \<Rightarrow> string \<Rightarrow> bound_declaration option" where
  "find_import n name = List.find (\<lambda>d. d_kind d = DImport \<and> d_name d = name) (mn_declarations n)"

text \<open>\<^verbatim>\<open>resolve_imported_symbol_semantic_target_from_declaration\<close>.\<close>

definition resolve_target_from_declaration ::
    "node list \<Rightarrow> bound_declaration \<Rightarrow> imported_symbol_target option" where
  "resolve_target_from_declaration nodes d =
     (case declaration_import_target_ref d of
        None \<Rightarrow> None
      | Some t \<Rightarrow>
          (case find_module nodes (it_module_target t) of
             Some m \<Rightarrow> Some \<lparr>im_import = d, im_provider = m, im_target = None\<rparr>
           | None \<Rightarrow>
               (case it_symbol_target t of
                  None \<Rightarrow> None
                | Some symbol \<Rightarrow>
                    (case find_module nodes (ist_module_key symbol) of
                       None \<Rightarrow> None
                     | Some provider \<Rightarrow>
                         (case find_top_level provider (ist_symbol_name symbol) of
                            None \<Rightarrow> None
                          | Some target \<Rightarrow>
                              Some \<lparr>im_import = d, im_provider = provider, im_target = Some target\<rparr>)))))"

text \<open>\<^verbatim>\<open>resolve_imported_symbol_semantic_target\<close>.\<close>

definition resolve_imported_target :: "node \<Rightarrow> node list \<Rightarrow> string \<Rightarrow> imported_symbol_target option" where
  "resolve_imported_target n nodes local_name =
     Option.bind (find_import n local_name) (resolve_target_from_declaration nodes)"

definition resolve_imported_module_target :: "node \<Rightarrow> node list \<Rightarrow> string \<Rightarrow> node option" where
  "resolve_imported_module_target n nodes local_name =
     Option.bind (resolve_imported_target n nodes local_name) module_target"

text \<open>The typing names an import may rename.\<close>

definition TYPING_MODULES :: "string list" where
  "TYPING_MODULES = [''typing'', ''typing_extensions'', ''collections.abc'']"

definition TYPING_NAMES :: "string list" where
  "TYPING_NAMES = [''Annotated'', ''Any'', ''Awaitable'', ''Callable'', ''ClassVar'',
     ''Concatenate'', ''Coroutine'', ''Final'', ''Generator'', ''Literal'', ''NewType'',
     ''NotRequired'', ''Optional'', ''ParamSpec'', ''Protocol'', ''ReadOnly'', ''Required'',
     ''Sequence'', ''TypeGuard'', ''TypeIs'', ''TypeVar'', ''TypeVarTuple'', ''TypedDict'',
     ''Union'', ''Unpack'']"

definition rewrite_imported_typing_token :: "node \<Rightarrow> string \<Rightarrow> string" where
  "rewrite_imported_typing_token n token =
     (case Option.bind (Option.bind (find_import n token) declaration_import_target_ref)
             it_symbol_target of
        None \<Rightarrow> token
      | Some symbol \<Rightarrow>
          if ist_module_key symbol \<in> set TYPING_MODULES \<and> ist_symbol_name symbol \<in> set TYPING_NAMES
          then ist_symbol_name symbol else token)"

definition rewrite_imported_typing_aliases :: "node \<Rightarrow> string \<Rightarrow> string" where
  "rewrite_imported_typing_aliases n text = rewrite_tokens (rewrite_imported_typing_token n) [] text"

text \<open>\<^verbatim>\<open>rewrite_imported_typing_semantic_type\<close> and its companion for parameters.\<close>

fun rewrite_typing :: "node \<Rightarrow> semantic_type \<Rightarrow> semantic_type"
  and rewrite_typing_params :: "node \<Rightarrow> semantic_callable_params \<Rightarrow> semantic_callable_params" where
  "rewrite_typing n (SName name) = SName (rewrite_imported_typing_token n name)"
| "rewrite_typing n (SGeneric head args) =
     SGeneric (rewrite_imported_typing_token n head) (map (rewrite_typing n) args)"
| "rewrite_typing n (SCallable params r) =
     SCallable (rewrite_typing_params n params) (rewrite_typing n r)"
| "rewrite_typing n (SUnion branches) = SUnion (map (rewrite_typing n) branches)"
| "rewrite_typing n (SAnnotated v metadata) = SAnnotated (rewrite_typing n v) metadata"
| "rewrite_typing n (SUnpack inner) = SUnpack (rewrite_typing n inner)"
| "rewrite_typing_params n SEllipsis = SEllipsis"
| "rewrite_typing_params n (SParamList types) = SParamList (map (rewrite_typing n) types)"
| "rewrite_typing_params n (SConcatenate types) = SConcatenate (map (rewrite_typing n) types)"
| "rewrite_typing_params n (SSingle e) = SSingle (rewrite_typing n e)"

definition normalized_direct_return_annotation :: "string \<Rightarrow> string option" where
  "normalized_direct_return_annotation annotation =
     (if trim annotation = [] then None else Some (trim annotation))"

text \<open>\<^verbatim>\<open>ImportedSymbolSemanticTarget::semantic_type\<close>.\<close>

definition imported_semantic_type :: "imported_symbol_target \<Rightarrow> node \<Rightarrow> semantic_type option" where
  "imported_semantic_type t request_node =
     (case im_target t of
        None \<Rightarrow> None
      | Some d \<Rightarrow>
          (case d_kind d of
             DValue \<Rightarrow>
               Option.bind (declaration_value_annotation_text d) (\<lambda>text.
                 map_option lower_type_text_or_name
                   (normalized_direct_return_annotation (rewrite_imported_typing_aliases request_node text)))
           | DFunction \<Rightarrow>
               Option.bind (declaration_callable_semantics d) (\<lambda>callable.
                 map_option (SCallable (SParamList (map annotation_or_dynamic (sc_semantic_params callable))))
                   (sc_return_type callable))
           | DClass \<Rightarrow> Some (SName (d_name d))
           | _ \<Rightarrow> None))"

definition resolve_imported_module_member_type ::
    "node \<Rightarrow> node list \<Rightarrow> string \<Rightarrow> string \<Rightarrow> semantic_type option" where
  "resolve_imported_module_member_type n nodes owner_name member_name =
     Option.bind (resolve_imported_target n nodes owner_name) (\<lambda>t.
     Option.bind (module_target t) (\<lambda>m.
     Option.bind (find_top_level m member_name) (\<lambda>d.
       imported_semantic_type (t\<lparr>im_target := Some d\<rparr>) n)))"

section \<open>Direct bases and aliases\<close>

definition resolve_direct_base ::
    "node list \<Rightarrow> node \<Rightarrow> string \<Rightarrow> (node \<times> bound_declaration) option" where
  "resolve_direct_base nodes n base_name =
     (case find_of_kind DClass n base_name of
        Some d \<Rightarrow> Some (n, d)
      | None \<Rightarrow> Option.bind (resolve_imported_target n nodes base_name) class_provider)"

definition resolve_qualified_alias ::
    "node list \<Rightarrow> node \<Rightarrow> string \<Rightarrow> string \<Rightarrow> (node \<times> bound_declaration) option" where
  "resolve_qualified_alias nodes n module_key symbol_name =
     (case Option.bind (find_module nodes module_key)
             (\<lambda>m. map_option (Pair m) (find_of_kind DTypeAlias m symbol_name)) of
        Some found \<Rightarrow> Some found
      | None \<Rightarrow>
          Option.bind (Option.bind (Option.bind (find_import n module_key)
              (resolve_target_from_declaration nodes)) module_target)
            (\<lambda>m. map_option (Pair m) (find_of_kind DTypeAlias m symbol_name)))"

definition resolve_direct_type_alias ::
    "node list \<Rightarrow> node \<Rightarrow> string \<Rightarrow> (node \<times> bound_declaration) option" where
  "resolve_direct_type_alias nodes n name =
     (case find_of_kind DTypeAlias n name of
        Some d \<Rightarrow> Some (n, d)
      | None \<Rightarrow>
          (case Option.bind (rsplit_once CHR ''.'' name)
                  (\<lambda>(module_key, symbol_name). resolve_qualified_alias nodes n module_key symbol_name) of
             Some found \<Rightarrow> Some found
           | None \<Rightarrow> Option.bind (resolve_imported_target n nodes name) type_alias_provider))"

section \<open>New types\<close>

definition is_newtype_callee :: "string \<Rightarrow> bool" where
  "is_newtype_callee callee \<longleftrightarrow> callee \<in> set [''NewType'', ''typing.NewType'']"

definition module_newtype_base :: "node \<Rightarrow> string \<Rightarrow> semantic_type option" where
  "module_newtype_base m name =
     Option.bind (List.find (\<lambda>a. as_owner_name a = None \<and> as_name a = name \<and>
         (case de_callee (as_parts a) of Some c \<Rightarrow> is_newtype_callee c | None \<Rightarrow> False))
         (si_assignments (mn_sites m))) (\<lambda>a.
     Option.bind (List.find (\<lambda>c. is_newtype_callee (cl_callee c) \<and>
         call_matches_source_call c (cl_callee c) (as_line a) (de_call_source_range (as_parts a)))
         (si_calls (mn_sites m))) (\<lambda>c.
     if 1 < length (cl_arg_values c) then map_option SName (de_name (cl_arg_values c ! 1)) else None))"

definition resolve_newtype_base :: "node \<Rightarrow> node list \<Rightarrow> string \<Rightarrow> semantic_type option" where
  "resolve_newtype_base n nodes name =
     (case module_newtype_base n name of
        Some base \<Rightarrow> Some base
      | None \<Rightarrow> Option.bind (resolve_imported_target n nodes name)
                  (\<lambda>t. module_newtype_base (im_provider t) name))"

section \<open>Searching the class hierarchy\<close>

text \<open>
  A closure over the elements of a list that stops at the first answer and threads the
  state the closure captures, as \<^verbatim>\<open>iter().any\<close> and an early \<^verbatim>\<open>return\<close> from a
  loop do. The outer \<open>None\<close> is a closure that ran out of fuel.
\<close>

fun first_with :: "('a \<Rightarrow> 's \<Rightarrow> ('r option \<times> 's) option) \<Rightarrow> 'a list \<Rightarrow> 's \<Rightarrow> ('r option \<times> 's) option" where
  "first_with f [] s = Some (None, s)"
| "first_with f (x # xs) s =
     (case f x s of
        None \<Rightarrow> None
      | Some (Some r, s') \<Rightarrow> Some (Some r, s')
      | Some (None, s') \<Rightarrow> first_with f xs s')"

text \<open>
  Depth-first search with a set of visited keys, for an answer a class gives. The laws: in
  the universe the successors stay inside, a key belongs to one class, and there are finitely
  many.
\<close>

locale class_search =
  fixes key :: "'c \<Rightarrow> 'k"
    and succs :: "'c \<Rightarrow> 'c list"
    and answer :: "'c \<Rightarrow> 'r option"
    and universe :: "'c set"
  assumes closed: "c \<in> universe \<Longrightarrow> set (succs c) \<subseteq> universe"
    and keys: "c \<in> universe \<Longrightarrow> d \<in> universe \<Longrightarrow> key c = key d \<Longrightarrow> c = d"
    and finite_universe: "finite universe"
begin

fun search :: "nat \<Rightarrow> 'c \<Rightarrow> 'k set \<Rightarrow> ('r option \<times> 'k set) option" where
  "search 0 c visited = None"
| "search (Suc fuel) c visited =
     (case answer c of
        Some r \<Rightarrow> Some (Some r, visited)
      | None \<Rightarrow>
          if key c \<in> visited then Some (None, visited)
          else first_with (search fuel) (succs c) (insert (key c) visited))"

definition edge :: "'c \<Rightarrow> 'c \<Rightarrow> bool" where
  "edge c d \<longleftrightarrow> d \<in> set (succs c)"

text \<open>What a search without an answer leaves: new silent classes, whose successors are
  visited too.\<close>

definition explored :: "'k set \<Rightarrow> 'k set \<Rightarrow> bool" where
  "explored before after \<longleftrightarrow> before \<subseteq> after \<and> after \<subseteq> before \<union> key ` universe \<and>
     (\<forall>c\<in>universe. key c \<in> after - before \<longrightarrow>
        answer c = None \<and> (\<forall>d\<in>set (succs c). key d \<in> after \<and> answer d = None))"

lemma explored_new:
  "explored a b \<Longrightarrow> x \<in> universe \<Longrightarrow> key x \<in> b \<Longrightarrow> key x \<notin> a \<Longrightarrow>
     answer x = None \<and> (\<forall>d\<in>set (succs x). key d \<in> b \<and> answer d = None)"
  unfolding explored_def by blast

lemma explored_sub: "explored a b \<Longrightarrow> a \<subseteq> b \<and> b \<subseteq> a \<union> key ` universe"
  unfolding explored_def by blast

lemma explored_trans:
  assumes ab: "explored a b" and bc: "explored b c"
  shows "explored a c"
proof -
  have new: "answer x = None \<and> (\<forall>d\<in>set (succs x). key d \<in> c \<and> answer d = None)"
    if x: "x \<in> universe" "key x \<in> c" "key x \<notin> a" for x
  proof (cases "key x \<in> b")
    case True
    then show ?thesis
      using explored_new [OF ab x(1) True x(3)] explored_sub [OF bc] by (meson subsetD)
  next
    case False
    then show ?thesis by (rule explored_new [OF bc x(1,2)])
  qed
  have sub: "a \<subseteq> c \<and> c \<subseteq> a \<union> key ` universe"
    using explored_sub [OF ab] explored_sub [OF bc] by (meson Un_least Un_upper1 Un_upper2 subset_trans)
  show ?thesis using new sub by (simp add: explored_def)
qed

lemma sound_list:
  "first_with f xs s = Some (Some r, s') \<Longrightarrow> \<exists>x\<in>set xs. \<exists>t t'. f x t = Some (Some r, t')"
proof (induction xs arbitrary: s)
  case (Cons x xs)
  show ?case
  proof (cases "\<exists>s1. f x s = Some (None, s1)")
    case True
    then obtain s1 where "first_with f xs s1 = Some (Some r, s')" using Cons.prems by auto
    then show ?thesis using Cons.IH by (meson list.set_intros(2))
  next
    case False
    then show ?thesis using Cons.prems by (auto split: option.splits)
  qed
qed simp

lemma explored_list:
  assumes step: "\<And>x s s'. x \<in> set xs \<Longrightarrow> f x s = Some (None, s') \<Longrightarrow>
      explored s s' \<and> key x \<in> s' \<and> answer x = None"
  shows "first_with f xs s = Some (None, s') \<Longrightarrow>
    explored s s' \<and> (\<forall>x\<in>set xs. key x \<in> s' \<and> answer x = None)"
  using step
proof (induction xs arbitrary: s)
  case (Cons x xs)
  obtain s1 where x: "f x s = Some (None, s1)" and r: "first_with f xs s1 = Some (None, s')"
    using Cons.prems(1) by (auto split: option.splits prod.splits)
  have "explored s s1 \<and> key x \<in> s1 \<and> answer x = None"
    using Cons.prems(2) [OF _ x] by simp
  moreover have "explored s1 s' \<and> (\<forall>x\<in>set xs. key x \<in> s' \<and> answer x = None)"
    by (rule Cons.IH [OF r]) (use Cons.prems(2) in auto)
  moreover have "s1 \<subseteq> s'" using calculation by (simp add: explored_def)
  ultimately show ?case using explored_trans by auto
qed (simp add: explored_def)

lemma search_sound:
  "search fuel c visited = Some (Some r, visited') \<Longrightarrow> \<exists>d. edge\<^sup>*\<^sup>* c d \<and> answer d = Some r"
proof (induction fuel arbitrary: c visited visited')
  case (Suc fuel)
  show ?case
  proof (cases "answer c")
    case None
    then have "first_with (search fuel) (succs c) (insert (key c) visited) = Some (Some r, visited')"
      using Suc.prems by (simp split: if_splits)
    then have "\<exists>x\<in>set (succs c). \<exists>d. edge\<^sup>*\<^sup>* x d \<and> answer d = Some r"
      using sound_list [of "search fuel" "succs c"] Suc.IH by blast
    then show ?thesis by (meson converse_rtranclp_into_rtranclp edge_def)
  next
    case (Some a)
    then show ?thesis using Suc.prems by auto
  qed
qed simp

lemma search_explored:
  "c \<in> universe \<Longrightarrow> search fuel c visited = Some (None, visited') \<Longrightarrow>
     explored visited visited' \<and> key c \<in> visited' \<and> answer c = None"
proof (induction fuel arbitrary: c visited visited')
  case (Suc fuel)
  then have silent: "answer c = None" by (auto split: option.splits)
  show ?case
  proof (cases "key c \<in> visited")
    case True
    then show ?thesis using Suc.prems silent by (auto simp: explored_def)
  next
    case False
    have run: "first_with (search fuel) (succs c) (insert (key c) visited) = Some (None, visited')"
      using Suc.prems silent False by simp
    have step: "explored s s' \<and> key x \<in> s' \<and> answer x = None"
      if "x \<in> set (succs c)" "search fuel x s = Some (None, s')" for x s s'
      using Suc.IH [OF _ that(2)] closed [OF Suc.prems(1)] that(1) by blast
    have e: "explored (insert (key c) visited) visited'"
      "\<forall>x\<in>set (succs c). key x \<in> visited' \<and> answer x = None"
      using explored_list [OF step run] by blast+
    have "explored visited visited'"
      using e silent Suc.prems(1) keys unfolding explored_def by blast
    then show ?thesis using e silent by (auto simp: explored_def)
  qed
qed simp

lemma first_with_runs:
  assumes "\<And>x s. x \<in> set xs \<Longrightarrow> I s \<Longrightarrow> \<exists>r s'. f x s = Some (r, s') \<and> I s'"
  shows "I s \<Longrightarrow> \<exists>r s'. first_with f xs s = Some (r, s') \<and> I s'"
  using assms
proof (induction xs arbitrary: s)
  case (Cons x xs)
  obtain r s' where x: "f x s = Some (r, s')" "I s'" using Cons.prems by force
  show ?case
  proof (cases r)
    case None
    then show ?thesis using x Cons.IH [OF x(2)] Cons.prems(2) by simp
  next
    case (Some a)
    then show ?thesis using x by simp
  qed
qed simp

text \<open>Fuel above the number of classes not visited yet is enough.\<close>

lemma search_returns:
  "c \<in> universe \<Longrightarrow> base \<subseteq> visited \<Longrightarrow> card (key ` universe - base) < fuel \<Longrightarrow>
     \<exists>r visited'. search fuel c visited = Some (r, visited') \<and> base \<subseteq> visited'"
proof (induction fuel arbitrary: c base visited)
  case (Suc fuel)
  show ?case
  proof (cases "answer c = None \<and> key c \<notin> visited")
    case True
    let ?base = "insert (key c) base"
    have "key c \<in> key ` universe - base" using True Suc.prems by blast
    then have "key ` universe - ?base \<subset> key ` universe - base" by blast
    then have "card (key ` universe - ?base) < card (key ` universe - base)"
      using finite_universe by (meson finite_Diff finite_imageI psubset_card_mono)
    then have less: "card (key ` universe - ?base) < fuel" using Suc.prems(3) by simp
    have "\<exists>r s'. first_with (search fuel) (succs c) (insert (key c) visited) = Some (r, s') \<and> ?base \<subseteq> s'"
    proof (rule first_with_runs [where I = "\<lambda>s. ?base \<subseteq> s"])
      fix x s
      assume "x \<in> set (succs c)" "?base \<subseteq> s"
      then show "\<exists>r s'. search fuel x s = Some (r, s') \<and> ?base \<subseteq> s'"
        using Suc.IH [OF _ _ less] closed [OF Suc.prems(1)] by blast
    qed (use Suc.prems(2) in blast)
    then show ?thesis using True by auto
  next
    case False
    then show ?thesis using Suc.prems by (auto split: option.splits)
  qed
qed simp

lemma silent_closed:
  assumes "c \<in> universe" "explored {} after" "key c \<in> after" "edge\<^sup>*\<^sup>* c d"
  shows "d \<in> universe \<and> key d \<in> after \<and> answer d = None"
  using assms(4)
proof (induction rule: rtranclp_induct)
  case base
  then show ?case using assms unfolding explored_def by blast
next
  case (step d e)
  then have "e \<in> set (succs d)" by (simp add: edge_def)
  then show ?case using step assms(2) closed unfolding explored_def by blast
qed

theorem search_correct:
  assumes "c \<in> universe" "card universe < fuel"
  shows "\<exists>r visited. search fuel c {} = Some (r, visited) \<and>
           (r \<noteq> None \<longleftrightarrow> (\<exists>d. edge\<^sup>*\<^sup>* c d \<and> answer d \<noteq> None)) \<and>
           (\<forall>x. r = Some x \<longrightarrow> (\<exists>d. edge\<^sup>*\<^sup>* c d \<and> answer d = Some x))"
proof -
  have "card (key ` universe - {}) < fuel"
    using assms(2) card_image_le [OF finite_universe, of key] by simp
  then obtain r visited where s: "search fuel c {} = Some (r, visited)"
    using search_returns [OF assms(1), of "{}" "{}" fuel] by auto
  show ?thesis
  proof (cases r)
    case None
    then have "\<And>d. edge\<^sup>*\<^sup>* c d \<Longrightarrow> answer d = None"
      using search_explored [OF assms(1)] silent_closed [OF assms(1)] s by blast
    then show ?thesis using s None by simp
  next
    case (Some x)
    then show ?thesis using s search_sound [of fuel c "{}" x visited] by auto
  qed
qed

end

section \<open>Interface-like classes\<close>

type_synonym class_ref = "node \<times> bound_declaration"

definition class_key :: "class_ref \<Rightarrow> string \<times> string" where
  "class_key c = (mn_key (fst c), d_name (snd c))"

definition direct_bases :: "node list \<Rightarrow> class_ref \<Rightarrow> class_ref list" where
  "direct_bases nodes c =
     List.map_filter (resolve_direct_base nodes (fst c)) (rendered_class_bases (snd c))"

text \<open>
  \<^verbatim>\<open>is_interface_like_declaration_with_visited\<close>: the answer of the inner search is
  \<open>Some ()\<close> for true.
\<close>

primrec interface_like_with_visited ::
    "nat \<Rightarrow> node list \<Rightarrow> class_ref \<Rightarrow> (string \<times> string) set \<Rightarrow>
     (unit option \<times> (string \<times> string) set) option" where
  "interface_like_with_visited 0 nodes c visited = None"
| "interface_like_with_visited (Suc fuel) nodes c visited =
     (if d_class_kind (snd c) = Some OInterface then Some (Some (), visited)
      else if class_key c \<in> visited then Some (None, visited)
      else first_with
             (\<lambda>base visited.
                case resolve_direct_base nodes (fst c) base of
                  None \<Rightarrow> Some (None, visited)
                | Some b \<Rightarrow> interface_like_with_visited fuel nodes b visited)
             (rendered_class_bases (snd c)) (insert (class_key c) visited))"

text \<open>One unit of fuel for every declaration of the graph, and one more.\<close>

definition class_fuel :: "node list \<Rightarrow> nat" where
  "class_fuel nodes = Suc (length (concat (map mn_declarations nodes)))"

definition is_interface_like_declaration :: "node list \<Rightarrow> class_ref \<Rightarrow> bool option" where
  "is_interface_like_declaration nodes c =
     map_option (\<lambda>(r, _). r \<noteq> None) (interface_like_with_visited (class_fuel nodes) nodes c {})"

text \<open>
  The classes the resolvers can return: the first module of its key and the first top-level
  class of its name in it.
\<close>

definition canonical :: "node list \<Rightarrow> class_ref \<Rightarrow> bool" where
  "canonical nodes c \<longleftrightarrow> find_module nodes (mn_key (fst c)) = Some (fst c) \<and>
     find_of_kind DClass (fst c) (d_name (snd c)) = Some (snd c)"

definition class_universe :: "node list \<Rightarrow> class_ref set" where
  "class_universe nodes = {c. canonical nodes c}"

lemma find_stronger:
  "List.find P xs = Some x \<Longrightarrow> Q x \<Longrightarrow> (\<And>y. Q y \<Longrightarrow> P y) \<Longrightarrow> List.find Q xs = Some x"
  by (induction xs) (auto split: if_splits)

lemma find_module_key: "find_module nodes key = Some n \<Longrightarrow> mn_key n = key \<and> n \<in> set nodes"
  unfolding find_module_def by (auto dest: find_SomeD)

lemma find_module_again: "find_module nodes key = Some n \<Longrightarrow> find_module nodes (mn_key n) = Some n"
  using find_module_key by fastforce

lemma resolve_target_provider:
  "resolve_target_from_declaration nodes d = Some t \<Longrightarrow>
     find_module nodes (mn_key (im_provider t)) = Some (im_provider t) \<and>
     (\<forall>x. im_target t = Some x \<longrightarrow> (\<exists>name. find_top_level (im_provider t) name = Some x))"
  by (auto simp: resolve_target_from_declaration_def dest: find_module_again split: option.splits)

lemma resolve_direct_base_canonical:
  assumes "find_module nodes (mn_key n) = Some n" "resolve_direct_base nodes n base = Some c"
  shows "canonical nodes c"
proof (cases "find_of_kind DClass n base")
  case (Some d)
  then have "d_name d = base" unfolding find_of_kind_def by (auto dest: find_SomeD)
  then show ?thesis using assms Some by (auto simp: resolve_direct_base_def canonical_def)
next
  case None
  then obtain i t where t: "resolve_target_from_declaration nodes i = Some t" "class_provider t = Some c"
    using assms(2) by (auto simp: resolve_direct_base_def resolve_imported_target_def bind_eq_Some_conv)
  then obtain name where name: "find_top_level (im_provider t) name = Some (snd c)"
    and c: "fst c = im_provider t" "d_owner (snd c) = None" "d_kind (snd c) = DClass"
    using resolve_target_provider [OF t(1)] by (auto simp: provider_of_kind_def split: option.splits if_splits)
  have "d_name (snd c) = name" using name unfolding find_top_level_def by (auto dest: find_SomeD)
  then have "find_of_kind DClass (fst c) (d_name (snd c)) = Some (snd c)"
    using name c unfolding find_of_kind_def find_top_level_def by (auto intro: find_stronger)
  then show ?thesis using resolve_target_provider [OF t(1)] c by (simp add: canonical_def)
qed

lemma direct_bases_closed:
  "c \<in> class_universe nodes \<Longrightarrow> set (direct_bases nodes c) \<subseteq> class_universe nodes"
  using resolve_direct_base_canonical
  by (fastforce simp: direct_bases_def class_universe_def canonical_def map_filter_def)

lemma class_key_inj:
  assumes "c \<in> class_universe nodes" "d \<in> class_universe nodes" "class_key c = class_key d"
  shows "c = d"
proof -
  have c: "find_module nodes (mn_key (fst c)) = Some (fst c)"
      "find_of_kind DClass (fst c) (d_name (snd c)) = Some (snd c)"
    and d: "find_module nodes (mn_key (fst d)) = Some (fst d)"
      "find_of_kind DClass (fst d) (d_name (snd d)) = Some (snd d)"
    using assms(1,2) unfolding class_universe_def canonical_def by blast+
  have k: "mn_key (fst c) = mn_key (fst d)" "d_name (snd c) = d_name (snd d)"
    using assms(3) unfolding class_key_def prod.inject by blast+
  have "Some (fst c) = Some (fst d)" using c(1) d(1) unfolding k by (rule trans [OF sym])
  then have f: "fst c = fst d" by simp
  have "Some (snd c) = Some (snd d)" using c(2) d(2) unfolding k f by (rule trans [OF sym])
  then show ?thesis using f by (simp add: prod_eq_iff)
qed

lemma class_universe_subset:
  "class_universe nodes \<subseteq> set (concat (map (\<lambda>n. map (Pair n) (mn_declarations n)) nodes))"
  by (auto simp: class_universe_def canonical_def find_of_kind_def image_iff
      dest!: find_module_key find_SomeD)

lemma finite_class_universe: "finite (class_universe nodes)"
  using class_universe_subset by (rule finite_subset) simp

lemma card_class_universe: "card (class_universe nodes) < class_fuel nodes"
proof -
  have "card (class_universe nodes) \<le>
      length (concat (map (\<lambda>n. map (Pair n) (mn_declarations n)) nodes))"
    using card_mono [OF _ class_universe_subset] card_length by (meson finite_set le_trans)
  also have "\<dots> = length (concat (map mn_declarations nodes))"
    by (simp add: length_concat comp_def)
  finally show ?thesis by (simp add: class_fuel_def)
qed

definition interface_answer :: "class_ref \<Rightarrow> unit option" where
  "interface_answer c = (if d_class_kind (snd c) = Some OInterface then Some () else None)"

lemma interface_answer_iff: "interface_answer c \<noteq> None \<longleftrightarrow> d_class_kind (snd c) = Some OInterface"
  by (simp add: interface_answer_def)

interpretation ifc: class_search class_key "direct_bases nodes" interface_answer "class_universe nodes"
  for nodes
  by unfold_locales (rule direct_bases_closed class_key_inj finite_class_universe; assumption)+

lemma first_with_resolved:
  "first_with (\<lambda>x s. case g x of None \<Rightarrow> Some (None, s) | Some c \<Rightarrow> f c s) xs s =
     first_with f (List.map_filter g xs) s"
  by (induction xs arbitrary: s) (auto simp: map_filter_simps split: option.splits)

lemma interface_like_search:
  "interface_like_with_visited fuel nodes c visited = ifc.search nodes fuel c visited"
proof (induction fuel arbitrary: c visited)
  case (Suc fuel)
  then have rec: "interface_like_with_visited fuel nodes = ifc.search nodes fuel" by blast
  have c: "interface_answer c = (if d_class_kind (snd c) = Some OInterface then Some () else None)"
    "direct_bases nodes c = List.map_filter (resolve_direct_base nodes (fst c)) (rendered_class_bases (snd c))"
    by (simp_all add: interface_answer_def direct_bases_def)
  show ?case
    unfolding interface_like_with_visited.simps ifc.search.simps c rec first_with_resolved by simp
qed simp

text \<open>
  C38: the test for interface-like classes always returns, also on a cyclic hierarchy, and it
  is right: a class passes it exactly when following its bases, through imports and any number
  of steps, leads to a class declared as an interface (or it is one).
\<close>

theorem interface_like_reaches_interface:
  assumes "canonical nodes c"
  shows "\<exists>b. is_interface_like_declaration nodes c = Some b \<and>
     (b \<longleftrightarrow> (\<exists>d. (\<lambda>x y. y \<in> set (direct_bases nodes x))\<^sup>*\<^sup>* c d \<and>
                 d_class_kind (snd d) = Some OInterface))"
proof -
  have edge: "ifc.edge nodes = (\<lambda>x y. y \<in> set (direct_bases nodes x))"
    by (intro ext) (simp add: ifc.edge_def)
  obtain r visited where "ifc.search nodes (class_fuel nodes) c {} = Some (r, visited)"
    and "r \<noteq> None \<longleftrightarrow> (\<exists>d. (ifc.edge nodes)\<^sup>*\<^sup>* c d \<and> interface_answer d \<noteq> None)"
    using ifc.search_correct [of c nodes, OF _ card_class_universe] assms
    by (auto simp: class_universe_def)
  then show ?thesis
    unfolding is_interface_like_declaration_def interface_like_search edge interface_answer_iff by simp
qed

text \<open>A module whose classes inherit from each other in a circle, and one from an interface.\<close>

definition class_decl :: "string \<Rightarrow> declaration_owner_kind \<Rightarrow> string list \<Rightarrow> bound_declaration" where
  "class_decl name kind bases =
     (bare_declaration name DClass (MClass (map TName bases)))\<lparr>d_class_kind := Some kind\<rparr>"

definition method_decl :: "string \<Rightarrow> string \<Rightarrow> declaration_owner_kind \<Rightarrow> bound_callable_signature \<Rightarrow> bound_declaration" where
  "method_decl name owner kind signature =
     (bare_declaration name DFunction (MCallable signature))
       \<lparr>d_owner := Some \<lparr>do_name = owner, do_kind = kind\<rparr>, d_method_kind := Some InstanceMethod\<rparr>"

definition plain_node :: "string \<Rightarrow> bound_declaration list \<Rightarrow> node" where
  "plain_node key ds =
     \<lparr>mn_path = key, mn_key = key, mn_kind = TypePythonSource, mn_declarations = ds,
      mn_sites = no_sites, mn_fingerprint = 0\<rparr>"

definition circle_node :: node where
  "circle_node = plain_node ''m''
     [class_decl ''A'' OClass [''B''], class_decl ''B'' OClass [''A''],
      class_decl ''P'' OInterface [], class_decl ''C'' OClass [''A'', ''P'']]"

theorem interface_like_reaches_interface_witness:
  "is_interface_like_declaration [circle_node] (circle_node, class_decl ''A'' OClass [''B'']) = Some False \<and>
   is_interface_like_declaration [circle_node] (circle_node, class_decl ''C'' OClass [''A'', ''P'']) = Some True \<and>
   (\<exists>b. is_interface_like_declaration [circle_node] (circle_node, class_decl ''A'' OClass [''B'']) = Some b \<and>
     (b \<longleftrightarrow> (\<exists>d. (\<lambda>x y. y \<in> set (direct_bases [circle_node] x))\<^sup>*\<^sup>*
               (circle_node, class_decl ''A'' OClass [''B'']) d \<and> d_class_kind (snd d) = Some OInterface)))"
proof (intro conjI)
  show "is_interface_like_declaration [circle_node] (circle_node, class_decl ''A'' OClass [''B'']) = Some False"
    by code_simp
  show "is_interface_like_declaration [circle_node] (circle_node, class_decl ''C'' OClass [''A'', ''P'']) = Some True"
    by code_simp
  have "canonical [circle_node] (circle_node, class_decl ''A'' OClass [''B''])" by code_simp
  then show "\<exists>b. is_interface_like_declaration [circle_node] (circle_node, class_decl ''A'' OClass [''B'']) = Some b \<and>
     (b \<longleftrightarrow> (\<exists>d. (\<lambda>x y. y \<in> set (direct_bases [circle_node] x))\<^sup>*\<^sup>*
               (circle_node, class_decl ''A'' OClass [''B'']) d \<and> d_class_kind (snd d) = Some OInterface))"
    by (rule interface_like_reaches_interface)
qed

section \<open>Members of a class and its bases\<close>

definition local_member ::
    "string \<Rightarrow> (bound_declaration \<Rightarrow> bool) \<Rightarrow> class_ref \<Rightarrow> bound_declaration option" where
  "local_member member_name accepts c =
     List.find (\<lambda>d. (case d_owner d of Some w \<Rightarrow> do_name w = d_name (snd c) | None \<Rightarrow> False) \<and>
        d_name d = member_name \<and> accepts d) (mn_declarations (fst c))"

text \<open>
  \<^verbatim>\<open>find_apparent_member_declaration_with_visited\<close>: interface-like bases are passed over.
\<close>

primrec find_member_with_visited ::
    "nat \<Rightarrow> node list \<Rightarrow> string \<Rightarrow> (bound_declaration \<Rightarrow> bool) \<Rightarrow> class_ref \<Rightarrow>
     (string \<times> string) set \<Rightarrow> (bound_declaration option \<times> (string \<times> string) set) option" where
  "find_member_with_visited 0 nodes member_name accepts c visited = None"
| "find_member_with_visited (Suc fuel) nodes member_name accepts c visited =
     (if class_key c \<in> visited then Some (None, visited)
      else (case local_member member_name accepts c of
              Some d \<Rightarrow> Some (Some d, insert (class_key c) visited)
            | None \<Rightarrow>
                first_with
                  (\<lambda>base visited.
                     case resolve_direct_base nodes (fst c) base of
                       None \<Rightarrow> Some (None, visited)
                     | Some b \<Rightarrow>
                         (case is_interface_like_declaration nodes b of
                            None \<Rightarrow> None
                          | Some True \<Rightarrow> Some (None, visited)
                          | Some False \<Rightarrow> find_member_with_visited fuel nodes member_name accepts b visited))
                  (rendered_class_bases (snd c)) (insert (class_key c) visited)))"

definition find_apparent_member_declaration ::
    "node list \<Rightarrow> class_ref \<Rightarrow> string \<Rightarrow> (bound_declaration \<Rightarrow> bool) \<Rightarrow> bound_declaration option option" where
  "find_apparent_member_declaration nodes c member_name accepts =
     map_option fst (find_member_with_visited (class_fuel nodes) nodes member_name accepts c {})"

definition find_apparent_value_declaration ::
    "node list \<Rightarrow> class_ref \<Rightarrow> string \<Rightarrow> bound_declaration option option" where
  "find_apparent_value_declaration nodes c member_name =
     find_apparent_member_declaration nodes c member_name (\<lambda>d. d_kind d = DValue)"

definition find_apparent_callable_declaration ::
    "node list \<Rightarrow> class_ref \<Rightarrow> string \<Rightarrow> bound_declaration option option" where
  "find_apparent_callable_declaration nodes c member_name =
     find_apparent_member_declaration nodes c member_name (\<lambda>d. d_kind d = DFunction)"

text \<open>The bases a member search follows.\<close>

definition nominal_bases :: "node list \<Rightarrow> class_ref \<Rightarrow> class_ref list" where
  "nominal_bases nodes c =
     filter (\<lambda>b. is_interface_like_declaration nodes b = Some False) (direct_bases nodes c)"

interpretation mem: class_search class_key "nominal_bases nodes" "local_member member_name accepts"
    "class_universe nodes" for nodes member_name accepts
proof unfold_locales
  fix c
  assume "c \<in> class_universe nodes"
  then show "set (nominal_bases nodes c) \<subseteq> class_universe nodes"
    using direct_bases_closed [of c nodes] by (auto simp: nominal_bases_def)
qed (rule class_key_inj finite_class_universe; assumption)+

text \<open>Two searches that agree on the answer, and on the state when there is none.\<close>

definition agree :: "('r option \<times> 's) option \<Rightarrow> ('r option \<times> 's) option \<Rightarrow> bool" where
  "agree x y \<longleftrightarrow> map_option fst x = map_option fst y \<and> (\<forall>s. x = Some (None, s) \<longrightarrow> y = Some (None, s))"

lemma agree_refl [simp]: "agree x x"
  by (simp add: agree_def)

lemma agree_first_with:
  assumes "\<And>x s. x \<in> set xs \<Longrightarrow> I s \<Longrightarrow> agree (f x s) (g x s) \<and> (\<forall>s'. g x s = Some (None, s') \<longrightarrow> I s')"
  shows "I s \<Longrightarrow> agree (first_with f xs s) (first_with g xs s)"
  using assms
proof (induction xs arbitrary: s)
  case (Cons x xs)
  have x: "agree (f x s) (g x s)" "\<forall>s'. g x s = Some (None, s') \<longrightarrow> I s'"
    using Cons.prems(2) [OF _ Cons.prems(1), of x] by simp_all
  show ?case
  proof (cases "\<exists>s'. g x s = Some (None, s')")
    case True
    then obtain s' where g: "g x s = Some (None, s')" by blast
    then have f: "f x s = Some (None, s')" using x(1) by (auto simp: agree_def)
    have "agree (first_with f xs s') (first_with g xs s')"
    proof (rule Cons.IH)
      show "I s'" using g x(2) by blast
    qed (rule Cons.prems(2), simp_all)
    then show ?thesis using f g by simp
  next
    case False
    then show ?thesis
      using x(1) by (cases "f x s"; cases "g x s") (auto simp: agree_def split: option.splits)
  qed
qed simp

text \<open>The visited classes of an unfinished search have no answer.\<close>

definition silent :: "node list \<Rightarrow> string \<Rightarrow> (bound_declaration \<Rightarrow> bool) \<Rightarrow> (string \<times> string) set \<Rightarrow> bool" where
  "silent nodes member_name accepts visited \<longleftrightarrow>
     (\<forall>c\<in>class_universe nodes. class_key c \<in> visited \<longrightarrow> local_member member_name accepts c = None)"

lemma silent_explored:
  "silent nodes nm acc visited \<Longrightarrow> mem.explored nodes nm acc visited visited' \<Longrightarrow> silent nodes nm acc visited'"
  unfolding silent_def using mem.explored_new by metis

lemma skip_interfaces:
  assumes "\<And>b. b \<in> set (List.map_filter g xs) \<Longrightarrow> h b \<noteq> None"
  shows "first_with (\<lambda>x s. case g x of None \<Rightarrow> Some (None, s)
      | Some b \<Rightarrow> (case h b of None \<Rightarrow> None | Some True \<Rightarrow> Some (None, s) | Some False \<Rightarrow> f b s)) xs s =
    first_with f (filter (\<lambda>b. h b = Some False) (List.map_filter g xs)) s"
  using assms
proof (induction xs arbitrary: s)
  case (Cons x xs)
  show ?case
  proof (cases "g x")
    case (Some b)
    then obtain v where v: "h b = Some v" using Cons.prems [of b] by (auto simp: map_filter_simps)
    have "\<And>s. first_with (\<lambda>x s. case g x of None \<Rightarrow> Some (None, s)
        | Some b \<Rightarrow> (case h b of None \<Rightarrow> None | Some True \<Rightarrow> Some (None, s) | Some False \<Rightarrow> f b s)) xs s =
      first_with f (filter (\<lambda>b. h b = Some False) (List.map_filter g xs)) s"
      by (rule Cons.IH) (use Some Cons.prems in \<open>simp add: map_filter_simps\<close>)
    then show ?thesis using Some v by (cases v) (auto simp: map_filter_simps split: option.splits)
  qed (use Cons in \<open>simp add: map_filter_simps\<close>)
qed (simp add: map_filter_simps)

lemma find_member_search:
  "c \<in> class_universe nodes \<Longrightarrow> silent nodes nm acc visited \<Longrightarrow>
     agree (find_member_with_visited fuel nodes nm acc c visited) (mem.search nodes nm acc fuel c visited)"
proof (induction fuel arbitrary: c visited)
  case (Suc fuel)
  note u = Suc.prems(1)
  show ?case
  proof (cases "class_key c \<in> visited \<or> local_member nm acc c \<noteq> None")
    case True
    then show ?thesis using Suc.prems by (auto simp: agree_def silent_def)
  next
    case False
    then have none: "local_member nm acc c = None" "class_key c \<notin> visited" by auto
    have known: "is_interface_like_declaration nodes b \<noteq> None"
      if "b \<in> set (List.map_filter (resolve_direct_base nodes (fst c)) (rendered_class_bases (snd c)))" for b
      using that direct_bases_closed [OF u] interface_like_reaches_interface [of nodes b]
      by (auto simp: direct_bases_def class_universe_def)
    have code: "find_member_with_visited (Suc fuel) nodes nm acc c visited =
        first_with (find_member_with_visited fuel nodes nm acc) (nominal_bases nodes c)
          (insert (class_key c) visited)"
      using none skip_interfaces [OF known] by (simp add: nominal_bases_def direct_bases_def)
    have quiet: "silent nodes nm acc (insert (class_key c) visited)"
      using Suc.prems none class_key_inj [OF _ u] by (auto simp: silent_def)
    have "agree (first_with (find_member_with_visited fuel nodes nm acc) (nominal_bases nodes c)
          (insert (class_key c) visited))
        (first_with (mem.search nodes nm acc fuel) (nominal_bases nodes c) (insert (class_key c) visited))"
    proof (rule agree_first_with [where I = "silent nodes nm acc"])
      fix x s
      assume x: "x \<in> set (nominal_bases nodes c)" and s: "silent nodes nm acc s"
      then have "x \<in> class_universe nodes" using mem.closed [OF u] by blast
      then show "agree (find_member_with_visited fuel nodes nm acc x s) (mem.search nodes nm acc fuel x s) \<and>
          (\<forall>s'. mem.search nodes nm acc fuel x s = Some (None, s') \<longrightarrow> silent nodes nm acc s')"
        using Suc.IH s mem.search_explored silent_explored by blast
    qed (rule quiet)
    then show ?thesis unfolding code using none by simp
  qed
qed (simp add: agree_def)

text \<open>
  C39: looking a member up in a class always returns, also on a cyclic hierarchy. It finds one
  exactly when the class, or a class reached through bases that are not interface-like, declares
  an accepted member of the name; what it returns is declared by such a class; and the class's
  own member comes first.
\<close>

theorem member_lookup_correct:
  assumes "canonical nodes c"
  shows "\<exists>r. find_apparent_member_declaration nodes c member_name accepts = Some r \<and>
     (r \<noteq> None \<longleftrightarrow> (\<exists>d. (\<lambda>x y. y \<in> set (nominal_bases nodes x))\<^sup>*\<^sup>* c d \<and>
                          local_member member_name accepts d \<noteq> None)) \<and>
     (\<forall>m. r = Some m \<longrightarrow> (\<exists>d. (\<lambda>x y. y \<in> set (nominal_bases nodes x))\<^sup>*\<^sup>* c d \<and>
                          local_member member_name accepts d = Some m)) \<and>
     (local_member member_name accepts c \<noteq> None \<longrightarrow> r = local_member member_name accepts c)"
proof -
  have u: "c \<in> class_universe nodes" using assms by (simp add: class_universe_def)
  have edge: "mem.edge nodes = (\<lambda>x y. y \<in> set (nominal_bases nodes x))"
    by (intro ext) (simp add: mem.edge_def)
  obtain r visited where s: "mem.search nodes member_name accepts (class_fuel nodes) c {} = Some (r, visited)"
    and r: "r \<noteq> None \<longleftrightarrow> (\<exists>d. (mem.edge nodes)\<^sup>*\<^sup>* c d \<and> local_member member_name accepts d \<noteq> None)"
      "\<forall>m. r = Some m \<longrightarrow> (\<exists>d. (mem.edge nodes)\<^sup>*\<^sup>* c d \<and> local_member member_name accepts d = Some m)"
    using mem.search_correct [OF u card_class_universe, of member_name accepts] by blast
  have "find_apparent_member_declaration nodes c member_name accepts = Some r"
    using find_member_search [OF u, of member_name accepts "{}" "class_fuel nodes"] s
    by (simp add: find_apparent_member_declaration_def agree_def silent_def)
  moreover have "r = local_member member_name accepts c" if "local_member member_name accepts c \<noteq> None"
    using that s by (auto simp: class_fuel_def)
  ultimately show ?thesis using r unfolding edge by blast
qed

theorem member_lookup_correct_witness:
  "find_apparent_callable_declaration
     [plain_node ''m'' [class_decl ''A'' OClass [''B''], class_decl ''B'' OClass [''A''],
        method_decl ''f'' ''B'' OClass \<lparr>bs_params = [], bs_returns = None\<rparr>]]
     (plain_node ''m'' [class_decl ''A'' OClass [''B''], class_decl ''B'' OClass [''A''],
        method_decl ''f'' ''B'' OClass \<lparr>bs_params = [], bs_returns = None\<rparr>], class_decl ''A'' OClass [''B'']) ''f''
   = Some (Some (method_decl ''f'' ''B'' OClass \<lparr>bs_params = [], bs_returns = None\<rparr>)) \<and>
   (\<exists>r. find_apparent_member_declaration [circle_node] (circle_node, class_decl ''A'' OClass [''B'']) ''g''
          (\<lambda>d. True) = Some r)"
proof
  have "canonical [circle_node] (circle_node, class_decl ''A'' OClass [''B''])" by code_simp
  then show "\<exists>r. find_apparent_member_declaration [circle_node] (circle_node, class_decl ''A'' OClass [''B'']) ''g''
          (\<lambda>d. True) = Some r"
    using member_lookup_correct [of "[circle_node]" "(circle_node, class_decl ''A'' OClass [''B''])" "''g''"
        "\<lambda>d. True"] by blast
qed code_simp

end
