(* ===== verification/Assignability.thy ===== *)
theory Assignability
  imports Class_Resolution
begin

text \<open>
  The assignability relation of the checker (crates/typepython_checking,
  type_system/assignability.rs, with method_override_incompatibility of declarations.rs and
  alias_type_param_substitutions_semantic of type_system/contextual.rs). The Rust functions call
  each other without a bound, so every function takes fuel and an outer \<open>None\<close> means that the
  recursion is deeper than the fuel. The set of visited pairs is passed down: each Rust call
  removes what it inserted before it returns, so its caller sees its own set again.
\<close>

section \<open>Short-circuit evaluation with fuel\<close>

definition and_opt :: "bool option \<Rightarrow> bool option \<Rightarrow> bool option" where
  "and_opt a b = (case a of None \<Rightarrow> None | Some x \<Rightarrow> if x then b else Some False)"

definition or_opt :: "bool option \<Rightarrow> bool option \<Rightarrow> bool option" where
  "or_opt a b = (case a of None \<Rightarrow> None | Some x \<Rightarrow> if x then Some True else b)"

section \<open>Options, taint and the special types\<close>

record assignability_options =
  ao_strict_nulls :: bool
  ao_framework_adapters :: bool
  ao_taint :: bool

definition default_options :: assignability_options where
  "default_options = \<lparr>ao_strict_nulls = True, ao_framework_adapters = False, ao_taint = False\<rparr>"

fun erase_taint_qualifiers :: "semantic_type \<Rightarrow> semantic_type"
  and erase_taint_params :: "semantic_callable_params \<Rightarrow> semantic_callable_params" where
  "erase_taint_qualifiers (SName name) = SName name"
| "erase_taint_qualifiers (SGeneric head args) =
     (case args of
        [inner, context] \<Rightarrow>
          if head = ''Tainted'' then erase_taint_qualifiers inner
          else SGeneric head [erase_taint_qualifiers inner, erase_taint_qualifiers context]
      | _ \<Rightarrow> SGeneric head (map erase_taint_qualifiers args))"
| "erase_taint_qualifiers (SCallable params r) =
     SCallable (erase_taint_params params) (erase_taint_qualifiers r)"
| "erase_taint_qualifiers (SUnion branches) = SUnion (map erase_taint_qualifiers branches)"
| "erase_taint_qualifiers (SAnnotated v metadata) = SAnnotated (erase_taint_qualifiers v) metadata"
| "erase_taint_qualifiers (SUnpack inner) = SUnpack (erase_taint_qualifiers inner)"
| "erase_taint_params SEllipsis = SEllipsis"
| "erase_taint_params (SParamList types) = SParamList (map erase_taint_qualifiers types)"
| "erase_taint_params (SConcatenate types) = SConcatenate (map erase_taint_qualifiers types)"
| "erase_taint_params (SSingle e) = SSingle (erase_taint_qualifiers e)"

definition normalize_for_options :: "assignability_options \<Rightarrow> semantic_type \<Rightarrow> semantic_type" where
  "normalize_for_options opts ty =
     (if ao_taint opts then strip_annotated ty else erase_taint_qualifiers (strip_annotated ty))"

definition semantic_tainted_parts :: "semantic_type \<Rightarrow> (semantic_type \<times> semantic_type) option" where
  "semantic_tainted_parts ty =
     (case semantic_generic_parts ty of
        Some (head, [inner, context]) \<Rightarrow> if head = ''Tainted'' then Some (inner, context) else None
      | _ \<Rightarrow> None)"

definition is_any :: "semantic_type \<Rightarrow> bool" where "is_any ty \<longleftrightarrow> ty = SName ''Any''"
definition is_dynamic :: "semantic_type \<Rightarrow> bool" where "is_dynamic ty \<longleftrightarrow> ty = SName ''dynamic''"
definition is_unknown :: "semantic_type \<Rightarrow> bool" where "is_unknown ty \<longleftrightarrow> ty = SName ''unknown''"
definition is_object :: "semantic_type \<Rightarrow> bool" where "is_object ty \<longleftrightarrow> ty = SName ''object''"

definition is_top_receiving :: "semantic_type \<Rightarrow> bool" where
  "is_top_receiving ty \<longleftrightarrow> is_any ty \<or> is_unknown ty \<or> is_dynamic ty"

definition is_top_escaping :: "semantic_type \<Rightarrow> bool" where
  "is_top_escaping ty \<longleftrightarrow> is_any ty \<or> is_dynamic ty"

definition semantic_type_is_none :: "semantic_type \<Rightarrow> bool" where
  "semantic_type_is_none ty \<longleftrightarrow> strip_annotated ty = SName ''None''"

definition semantic_type_is_never :: "semantic_type \<Rightarrow> bool" where
  "semantic_type_is_never ty \<longleftrightarrow> strip_annotated ty = SName ''Never''"

definition semantic_type_is_literal_domain :: "semantic_type \<Rightarrow> bool" where
  "semantic_type_is_literal_domain ty =
     (case strip_annotated ty of SGeneric head _ \<Rightarrow> head = ''Literal'' | _ \<Rightarrow> False)"

definition semantic_member_union_branches :: "semantic_type \<Rightarrow> bool \<Rightarrow> semantic_type list option" where
  "semantic_member_union_branches ty strict_nulls =
     (case semantic_union_branches ty of
        None \<Rightarrow> None
      | Some branches \<Rightarrow>
          (let kept = filter (\<lambda>b. strict_nulls \<or> \<not> semantic_type_is_none b) branches
           in if kept = [] then None else Some kept))"

function semantic_type_accepts_implicit_none :: "semantic_type \<Rightarrow> bool" where
  "semantic_type_accepts_implicit_none ty =
     (case semantic_union_branches (strip_annotated ty) of
        Some branches \<Rightarrow> list_ex semantic_type_accepts_implicit_none branches
      | None \<Rightarrow>
          if semantic_type_is_never (strip_annotated ty) \<or> semantic_type_is_literal_domain (strip_annotated ty)
          then False else \<not> semantic_type_is_none (strip_annotated ty))"
  by pat_completeness auto

termination
proof (relation "measure sweight")
  fix ty branches x
  assume "semantic_union_branches (strip_annotated ty) = Some branches" "x \<in> set branches"
  then show "(x, ty) \<in> measure sweight"
    using weights_union [of "strip_annotated ty" branches] sweight_strip [of ty]
      member_le_sum_list [of "sweight x" "map sweight branches"] by simp
qed simp

definition semantic_enum_member_owner_name :: "semantic_type \<Rightarrow> string option" where
  "semantic_enum_member_owner_name ty =
     (case strip_annotated ty of
        SGeneric head [SName name] \<Rightarrow>
          if head = ''Literal''
          then map_option (\<lambda>(owner, _). normalize_type_text owner) (rsplit_once CHR ''.'' name)
          else None
      | _ \<Rightarrow> None)"

datatype generic_variance = Invariant | Covariant | Contravariant

definition COVARIANT_HEADS :: "string list" where
  "COVARIANT_HEADS = [''Sequence'', ''Iterable'', ''Iterator'', ''Reversible'', ''Collection'',
     ''AbstractSet'', ''frozenset'', ''tuple'', ''type'']"

definition variances_for_generic_head :: "string \<Rightarrow> nat \<Rightarrow> generic_variance list" where
  "variances_for_generic_head head arity =
     (if head \<in> set COVARIANT_HEADS then replicate arity Covariant
      else if head = ''Mapping'' \<and> arity = 2 then [Invariant, Covariant]
      else if head = ''Generator'' \<and> arity = 3 then [Covariant, Contravariant, Covariant]
      else replicate arity Invariant)"

section \<open>Type aliases\<close>

text \<open>The parameters before the pack, each with an argument or its default.\<close>

fun bind_leading ::
    "generic_type_param list \<Rightarrow> semantic_type list \<Rightarrow> nat \<Rightarrow> (string \<times> semantic_type) list \<Rightarrow>
     ((string \<times> semantic_type) list \<times> nat) option" where
  "bind_leading [] args start types = Some (types, start)"
| "bind_leading (p # ps) args start types =
     (if start < length args
      then bind_leading ps args (start + 1) (bt_insert (gp_name p) (args ! start) types)
      else (case rendered_default p of
              None \<Rightarrow> None
            | Some d \<Rightarrow> bind_leading ps args start (bt_insert (gp_name p) (lower_type_text_or_name d) types)))"

text \<open>The parameters after the pack, from the last one: \<open>stop\<close> never drops below \<open>start\<close>.\<close>

fun bind_trailing ::
    "generic_type_param list \<Rightarrow> semantic_type list \<Rightarrow> nat \<Rightarrow> nat \<Rightarrow> (string \<times> semantic_type) list \<Rightarrow>
     ((string \<times> semantic_type) list \<times> nat) option" where
  "bind_trailing [] args start stop trailing = Some (trailing, stop)"
| "bind_trailing (p # ps) args start stop trailing =
     (if start < stop
      then bind_trailing ps args start (stop - 1) (trailing @ [(gp_name p, args ! (stop - 1))])
      else (case rendered_default p of
              None \<Rightarrow> None
            | Some d \<Rightarrow> bind_trailing ps args start stop (trailing @ [(gp_name p, lower_type_text_or_name d)])))"

text \<open>Without a pack: the argument of each index, or the default.\<close>

fun bind_indexed ::
    "generic_type_param list \<Rightarrow> semantic_type list \<Rightarrow> nat \<Rightarrow> (string \<times> semantic_type) list \<Rightarrow>
     (string \<times> semantic_type) list option" where
  "bind_indexed [] args index types = Some types"
| "bind_indexed (p # ps) args index types =
     (case (if index < length args then Some (args ! index)
            else map_option lower_type_text_or_name (rendered_default p)) of
        None \<Rightarrow> None
      | Some argument \<Rightarrow> bind_indexed ps args (index + 1) (bt_insert (gp_name p) argument types))"

text \<open>\<^verbatim>\<open>alias_type_param_substitutions_semantic\<close>.\<close>

definition alias_type_param_substitutions ::
    "bound_declaration \<Rightarrow> semantic_type list \<Rightarrow> generic_solution option" where
  "alias_type_param_substitutions d args =
     (let params = d_type_params d;
          packs = map fst (filter (\<lambda>(i, p). gp_kind p = GTypeVarTuple) (enumerate 0 params))
      in if 1 < length packs then None
         else (case packs of
           pack # _ \<Rightarrow>
             (case bind_leading (take pack params) args 0 [] of
                None \<Rightarrow> None
              | Some (types, start) \<Rightarrow>
                  (case bind_trailing (rev (drop (pack + 1) params)) args start (length args) [] of
                     None \<Rightarrow> None
                   | Some (trailing, stop) \<Rightarrow>
                       Some (empty_solution
                         \<lparr>gs_types := fold (\<lambda>(n, t). bt_insert n t) (rev trailing) types,
                          gs_type_packs := bt_insert (gp_name (params ! pack))
                            \<lparr>tpb_types = take (stop - start) (drop start args), tpb_variadic_tail = None\<rparr> []\<rparr>)))
         | [] \<Rightarrow>
             if length params < length args then None
             else map_option (\<lambda>types. empty_solution\<lparr>gs_types := types\<rparr>) (bind_indexed params args 0 [])))"

text \<open>
  \<^verbatim>\<open>expand_semantic_type_alias_once\<close> and the loop over aliases in the module that provides
  them. The inner \<open>None\<close> is the one of the code: no alias, or nothing changed.
\<close>

fun expand_alias_once ::
    "nat \<Rightarrow> node list \<Rightarrow> node \<Rightarrow> semantic_type \<Rightarrow> semantic_type option option"
  and expand_in_provider ::
    "nat \<Rightarrow> node list \<Rightarrow> node \<Rightarrow> semantic_type \<Rightarrow> semantic_type set \<Rightarrow> semantic_type option" where
  "expand_alias_once 0 nodes n ty = None"
| "expand_alias_once (Suc fuel) nodes n ty =
     (let stripped = strip_annotated ty
      in case (case stripped of
                 SName name \<Rightarrow> Some (name, [])
               | SGeneric head args \<Rightarrow> Some (head, args)
               | _ \<Rightarrow> None) of
           None \<Rightarrow> Some None
         | Some (head, args) \<Rightarrow>
             (case resolve_direct_type_alias nodes n head of
                None \<Rightarrow> Some None
              | Some (alias_node, alias_decl) \<Rightarrow>
                  (case alias_type_param_substitutions alias_decl args of
                     None \<Rightarrow> Some None
                   | Some substitutions \<Rightarrow>
                       (case declaration_type_alias_semantics alias_decl of
                          None \<Rightarrow> Some None
                        | Some facts \<Rightarrow>
                            (let expanded = substitute substitutions (rewrite_typing alias_node (sa_body facts))
                             in if expanded = stripped then Some None
                                else map_option (\<lambda>e. if e \<noteq> stripped then Some e else None)
                                       (expand_in_provider fuel nodes alias_node expanded {}))))))"
| "expand_in_provider 0 nodes n ty seen = None"
| "expand_in_provider (Suc fuel) nodes n ty seen =
     (if ty \<in> seen then Some ty
      else (case expand_alias_once fuel nodes n ty of
              None \<Rightarrow> None
            | Some None \<Rightarrow> Some ty
            | Some (Some next) \<Rightarrow> expand_in_provider fuel nodes n next (insert ty seen)))"

text \<open>
  \<^verbatim>\<open>type_alias_eventually_mentions\<close> and \<^verbatim>\<open>semantic_type_mentions_alias\<close>.
  The answers come with the set \<^verbatim>\<open>visiting\<close> as the calls leave it: the key of an alias
  without semantics stays in it.
\<close>

fun any_threaded :: "('a \<Rightarrow> 's \<Rightarrow> (bool \<times> 's) option) \<Rightarrow> 'a list \<Rightarrow> 's \<Rightarrow> (bool \<times> 's) option" where
  "any_threaded f [] s = Some (False, s)"
| "any_threaded f (x # xs) s =
     (case f x s of
        None \<Rightarrow> None | Some (found, s') \<Rightarrow> if found then Some (True, s') else any_threaded f xs s')"

fun alias_mentions ::
    "nat \<Rightarrow> node list \<Rightarrow> node \<Rightarrow> string \<Rightarrow> string \<Rightarrow> (string \<times> string) set \<Rightarrow>
     (bool \<times> (string \<times> string) set) option"
  and type_mentions ::
    "nat \<Rightarrow> node list \<Rightarrow> node \<Rightarrow> semantic_type \<Rightarrow> string \<Rightarrow> (string \<times> string) set \<Rightarrow>
     (bool \<times> (string \<times> string) set) option" where
  "alias_mentions 0 nodes n current target visiting = None"
| "alias_mentions (Suc fuel) nodes n current target visiting =
     (case resolve_direct_type_alias nodes n current of
        None \<Rightarrow> Some (False, visiting)
      | Some c \<Rightarrow>
          if class_key c \<in> visiting then Some (d_name (snd c) = target, visiting)
          else (case declaration_type_alias_semantics (snd c) of
                  None \<Rightarrow> Some (False, insert (class_key c) visiting)
                | Some facts \<Rightarrow>
                    map_option (\<lambda>(found, visiting'). (found, visiting' - {class_key c}))
                      (type_mentions fuel nodes (fst c) (sa_body facts) target (insert (class_key c) visiting))))"
| "type_mentions 0 nodes n ty target visiting = None"
| "type_mentions (Suc fuel) nodes n ty target visiting =
     (let stripped = strip_annotated ty
      in case semantic_union_branches stripped of
           Some branches \<Rightarrow> any_threaded (\<lambda>b. type_mentions fuel nodes n b target) branches visiting
         | None \<Rightarrow>
             (case stripped of
                SGeneric head args \<Rightarrow>
                  (if head = target then Some (True, visiting)
                   else (case alias_mentions fuel nodes n head target visiting of
                           None \<Rightarrow> None
                         | Some (found, visiting') \<Rightarrow>
                             if found then Some (True, visiting')
                             else any_threaded (\<lambda>arg. type_mentions fuel nodes n arg target) args visiting'))
              | SName name \<Rightarrow>
                  (if name = target then Some (True, visiting)
                   else alias_mentions fuel nodes n name target visiting)
              | _ \<Rightarrow> Some (False, visiting)))"

definition recursive_type_alias_head ::
    "nat \<Rightarrow> node list \<Rightarrow> node \<Rightarrow> semantic_type \<Rightarrow> string option option" where
  "recursive_type_alias_head fuel nodes n ty =
     (case (case strip_annotated ty of SName name \<Rightarrow> Some name | SGeneric head _ \<Rightarrow> Some head | _ \<Rightarrow> None) of
        None \<Rightarrow> Some None
      | Some head \<Rightarrow>
          (case resolve_direct_type_alias nodes n head of
             None \<Rightarrow> Some None
           | Some (alias_node, alias_decl) \<Rightarrow>
               map_option (\<lambda>(found, _). if found then Some head else None)
                 (alias_mentions fuel nodes alias_node (d_name alias_decl) head {})))"

section \<open>Matching\<close>

type_synonym visiting = "(semantic_type \<times> semantic_type) set"

text \<open>
  \<^verbatim>\<open>direct_semantic_type_matches\<close>. \<open>match_step\<close> is its body, with the recursive call on
  new types as an argument.
\<close>

definition match_branches ::
    "(semantic_type \<Rightarrow> semantic_type \<Rightarrow> bool option) \<Rightarrow> semantic_type \<Rightarrow> semantic_type list \<Rightarrow>
     semantic_type \<Rightarrow> bool option" where
  "match_branches call expected branches actual =
     (case semantic_union_branches actual of
        Some actual_branches \<Rightarrow>
          and_opt
            (all_opt (\<lambda>actual_branch. any_opt (\<lambda>expected_branch. call expected_branch actual_branch) branches)
              actual_branches)
            (all_opt (\<lambda>expected_branch. any_opt (\<lambda>actual_branch. call expected_branch actual_branch)
              actual_branches) branches)
      | None \<Rightarrow> any_opt (\<lambda>branch. call branch actual) branches)"

definition match_generic ::
    "(semantic_type \<Rightarrow> semantic_type \<Rightarrow> bool option) \<Rightarrow> semantic_type \<Rightarrow> semantic_type \<Rightarrow> bool option" where
  "match_generic call expected actual =
     (if semantic_enum_member_owner_name actual = Some (render_semantic_type expected) then Some True
      else (case (semantic_generic_parts expected, semantic_generic_parts actual) of
              (Some (expected_head, expected_args), Some (actual_head, actual_args)) \<Rightarrow>
                if expected_head = actual_head
                then (let (expected_args, actual_args) =
                            (if expected_head = ''tuple''
                             then (expanded_tuple_shape_semantic_args expected_args,
                                   expanded_tuple_shape_semantic_args actual_args)
                             else (expected_args, actual_args))
                      in if length expected_args = length actual_args
                         then all_opt (\<lambda>(e, a). call e a) (zip expected_args actual_args)
                         else Some False)
                else Some False
            | _ \<Rightarrow> Some False))"

definition match_step ::
    "(semantic_type \<Rightarrow> semantic_type option option) \<Rightarrow>
     (semantic_type \<Rightarrow> semantic_type \<Rightarrow> bool option) \<Rightarrow> semantic_type \<Rightarrow> semantic_type \<Rightarrow> bool option" where
  "match_step expand call expected actual =
     (case expand expected of
        None \<Rightarrow> None
      | Some (Some expanded_expected) \<Rightarrow> call expanded_expected actual
      | Some None \<Rightarrow>
          (case expand actual of
             None \<Rightarrow> None
           | Some (Some expanded_actual) \<Rightarrow> call expected expanded_actual
           | Some None \<Rightarrow>
               (case semantic_union_branches expected of
                  Some branches \<Rightarrow> match_branches call expected branches actual
                | None \<Rightarrow> match_generic call expected actual)))"

fun type_matches ::
    "nat \<Rightarrow> assignability_options \<Rightarrow> node list \<Rightarrow> node \<Rightarrow> visiting \<Rightarrow>
     semantic_type \<Rightarrow> semantic_type \<Rightarrow> bool option" where
  "type_matches 0 opts nodes n visiting e a = None"
| "type_matches (Suc fuel) opts nodes n visiting e a =
     (let expected = normalize_for_options opts e;
          actual = normalize_for_options opts a
      in if expected = actual \<or> is_any expected \<or> is_any actual then Some True
         else if (expected, actual) \<in> visiting then Some True
         else match_step (expand_alias_once fuel nodes n)
                (type_matches fuel opts nodes n (insert (expected, actual) visiting)) expected actual)"

section \<open>Overriding\<close>

text \<open>
  \<^verbatim>\<open>OverrideCompatibilityFailure\<close>; a type mismatch has the expected and the actual
  type, from which the theory Reporting makes the reason.
\<close>

datatype override_failure =
    MethodKindMismatch
  | ParameterCountMismatch nat nat
  | SpecialContextManagerArityMismatch "nat option" "nat option"
  | ParameterModifierMismatch string
  | ParameterNameMismatch string string
  | ParameterTypeMismatch string semantic_type semantic_type
  | ReturnTypeMismatch semantic_type semantic_type

definition same_modifiers :: "semantic_callable_param \<Rightarrow> semantic_callable_param \<Rightarrow> bool" where
  "same_modifiers child base \<longleftrightarrow>
     sp_positional_only child = sp_positional_only base \<and> sp_keyword_only child = sp_keyword_only base \<and>
     sp_variadic child = sp_variadic base \<and> sp_keyword_variadic child = sp_keyword_variadic base \<and>
     sp_has_default child = sp_has_default base"

text \<open>The loop over the parameters, with the assignability test as an argument.\<close>

fun param_mismatch ::
    "(semantic_type \<Rightarrow> semantic_type \<Rightarrow> bool option) \<Rightarrow>
     (semantic_callable_param \<times> semantic_callable_param) list \<Rightarrow> override_failure option option" where
  "param_mismatch assignable [] = Some None"
| "param_mismatch assignable ((child, base) # ps) =
     (if \<not> same_modifiers child base then Some (Some (ParameterModifierMismatch (sp_name child)))
      else if sp_name child \<noteq> sp_name base
      then Some (Some (ParameterNameMismatch (sp_name child) (sp_name base)))
      else (case (sp_annotation child, sp_annotation base) of
              (Some child_annotation, Some base_annotation) \<Rightarrow>
                (case assignable child_annotation base_annotation of
                   None \<Rightarrow> None
                 | Some True \<Rightarrow> param_mismatch assignable ps
                 | Some False \<Rightarrow> Some (Some (ParameterTypeMismatch (sp_name child) child_annotation base_annotation)))
            | _ \<Rightarrow> param_mismatch assignable ps))"

definition return_with_owner :: "bound_declaration \<Rightarrow> semantic_type option" where
  "return_with_owner d =
     (case d_owner d of
        None \<Rightarrow> declaration_signature_return_semantic_type d
      | Some w \<Rightarrow> declaration_signature_return_semantic_type_with_self d (do_name w))"

definition is_context_manager_method :: "bound_declaration \<Rightarrow> bound_declaration \<Rightarrow> bool" where
  "is_context_manager_method member base_member \<longleftrightarrow>
     d_name member \<in> set [''__enter__'', ''__exit__''] \<and>
     (case d_owner base_member of
        Some w \<Rightarrow> do_name w \<in> set [''ContextManager'', ''AbstractContextManager''] | None \<Rightarrow> False) \<and>
     d_method_kind member = Some InstanceMethod \<and> d_method_kind base_member = Some InstanceMethod"

definition method_override_incompatibility ::
    "(semantic_type \<Rightarrow> semantic_type \<Rightarrow> bool option) \<Rightarrow> bound_declaration \<Rightarrow> bound_declaration \<Rightarrow>
     override_failure option option" where
  "method_override_incompatibility assignable member base_member =
     (if d_method_kind member = d_method_kind base_member \<and> callable_signature member \<noteq> None \<and>
         callable_signature member = callable_signature base_member
      then Some None
      else if is_context_manager_method member base_member
      then (if declaration_signature_param_count member \<noteq> declaration_signature_param_count base_member
            then Some (Some (SpecialContextManagerArityMismatch (declaration_signature_param_count member)
                   (declaration_signature_param_count base_member)))
            else Some None)
      else if d_method_kind member \<noteq> d_method_kind base_member then Some (Some MethodKindMismatch)
      else (case (declaration_semantic_signature_params member,
                  declaration_semantic_signature_params base_member) of
              (Some member_params, Some base_params) \<Rightarrow>
                if length member_params \<noteq> length base_params
                then Some (Some (ParameterCountMismatch (length member_params) (length base_params)))
                else (case param_mismatch assignable (zip member_params base_params) of
                        None \<Rightarrow> None
                      | Some (Some failure) \<Rightarrow> Some (Some failure)
                      | Some None \<Rightarrow>
                          (case (return_with_owner member, return_with_owner base_member) of
                             (Some child_return, Some base_return) \<Rightarrow>
                               map_option (\<lambda>ok. if ok then None else Some (ReturnTypeMismatch base_return child_return))
                                 (assignable base_return child_return)
                           | _ \<Rightarrow> Some None))
            | _ \<Rightarrow> Some None))"

definition methods_are_compatible_for_override ::
    "(semantic_type \<Rightarrow> semantic_type \<Rightarrow> bool option) \<Rightarrow> bound_declaration \<Rightarrow> bound_declaration \<Rightarrow> bool option" where
  "methods_are_compatible_for_override assignable member base_member =
     map_option (\<lambda>failure. failure = None) (method_override_incompatibility assignable member base_member)"

section \<open>Interfaces and nominal bases\<close>

text \<open>
  \<^verbatim>\<open>collect_interface_members_with_visited\<close>: the members of an interface and of its
  interface bases, the first declaration of a name kept.
\<close>

definition own_members :: "class_ref \<Rightarrow> bound_declaration list" where
  "own_members c =
     filter (\<lambda>d. (case d_owner d of Some w \<Rightarrow> do_name w = d_name (snd c) | None \<Rightarrow> False) \<and>
        d_kind d \<in> {DValue, DFunction}) (mn_declarations (fst c))"

text \<open>A loop that threads its state, with fuel.\<close>

fun each_with :: "('a \<Rightarrow> 's \<Rightarrow> 's option) \<Rightarrow> 'a list \<Rightarrow> 's \<Rightarrow> 's option" where
  "each_with f [] s = Some s"
| "each_with f (x # xs) s = (case f x s of None \<Rightarrow> None | Some s' \<Rightarrow> each_with f xs s')"

primrec collect_members_with_visited ::
    "nat \<Rightarrow> node list \<Rightarrow> class_ref \<Rightarrow> (string \<times> string) set \<times> (string \<times> bound_declaration) list \<Rightarrow>
     ((string \<times> string) set \<times> (string \<times> bound_declaration) list) option" where
  "collect_members_with_visited 0 nodes c state = None"
| "collect_members_with_visited (Suc fuel) nodes c state =
     (let (visited, requirements) = state
      in if class_key c \<in> visited then Some state
         else each_with
                (\<lambda>base state.
                   case resolve_direct_base nodes (fst c) base of
                     None \<Rightarrow> Some state
                   | Some b \<Rightarrow>
                       (case is_interface_like_declaration nodes b of
                          None \<Rightarrow> None
                        | Some False \<Rightarrow> Some state
                        | Some True \<Rightarrow> collect_members_with_visited fuel nodes b state))
                (rendered_class_bases (snd c))
                (insert (class_key c) visited,
                 fold (\<lambda>d. bt_insert_if_absent (d_name d) d) (own_members c) requirements))"

definition collect_interface_members ::
    "node list \<Rightarrow> class_ref \<Rightarrow> (string \<times> bound_declaration) list option" where
  "collect_interface_members nodes c =
     map_option snd (collect_members_with_visited (class_fuel nodes) nodes c ({}, []))"

definition declaration_effective_value_semantic_type :: "bound_declaration \<Rightarrow> semantic_type option" where
  "declaration_effective_value_semantic_type d =
     (case declaration_value_annotation_semantic_type d of
        Some t \<Rightarrow> Some t | None \<Rightarrow> map_option lower_type_expr (d_value_type_expr d))"

text \<open>An unknown type on either side is accepted.\<close>

definition value_satisfies ::
    "(semantic_type \<Rightarrow> semantic_type \<Rightarrow> bool option) \<Rightarrow> semantic_type option \<Rightarrow> bound_declaration option \<Rightarrow>
     bool option" where
  "value_satisfies assignable expected member =
     (case member of
        None \<Rightarrow> Some False
      | Some m \<Rightarrow>
          (case (expected, declaration_effective_value_semantic_type m) of
             (Some e, Some a) \<Rightarrow> assignable e a | _ \<Rightarrow> Some True))"

definition actual_member_satisfies_requirement ::
    "node list \<Rightarrow> (semantic_type \<Rightarrow> semantic_type \<Rightarrow> bool option) \<Rightarrow> class_ref \<Rightarrow> string \<Rightarrow>
     bound_declaration \<Rightarrow> bool option" where
  "actual_member_satisfies_requirement nodes assignable actual name required =
     (case d_kind required of
        DFunction \<Rightarrow>
          (case find_apparent_callable_declaration nodes actual name of
             None \<Rightarrow> None
           | Some (Some member) \<Rightarrow> methods_are_compatible_for_override assignable member required
           | Some None \<Rightarrow>
               if d_method_kind required = Some PropertyMethod
               then Option.bind (find_apparent_value_declaration nodes actual name)
                      (value_satisfies assignable (declaration_signature_return_semantic_type required))
               else Some False)
      | DValue \<Rightarrow>
          Option.bind (find_apparent_value_declaration nodes actual name)
            (value_satisfies assignable (declaration_value_annotation_semantic_type required))
      | _ \<Rightarrow> Some False)"

text \<open>
  In the three functions below \<open>assignable m e a\<close> is
  \<^verbatim>\<open>semantic_type_is_assignable_with_options\<close> in the module \<open>m\<close>.
\<close>

definition type_satisfies_interface ::
    "node list \<Rightarrow> (node \<Rightarrow> semantic_type \<Rightarrow> semantic_type \<Rightarrow> bool option) \<Rightarrow> class_ref \<Rightarrow> class_ref \<Rightarrow>
     bool option" where
  "type_satisfies_interface nodes assignable actual interface =
     (case collect_interface_members nodes interface of
        None \<Rightarrow> None
      | Some members \<Rightarrow>
          all_opt (\<lambda>(name, required).
             actual_member_satisfies_requirement nodes (assignable (fst actual)) actual name required) members)"

definition protocol_assignable ::
    "node list \<Rightarrow> (node \<Rightarrow> semantic_type \<Rightarrow> semantic_type \<Rightarrow> bool option) \<Rightarrow> node \<Rightarrow> string \<Rightarrow> string \<Rightarrow>
     bool option" where
  "protocol_assignable nodes assignable n expected actual =
     (case resolve_direct_base nodes n expected of
        None \<Rightarrow> Some False
      | Some interface \<Rightarrow>
          (case is_interface_like_declaration nodes interface of
             None \<Rightarrow> None
           | Some False \<Rightarrow> Some False
           | Some True \<Rightarrow>
               (case resolve_direct_base nodes n actual of
                  None \<Rightarrow> Some False
                | Some c \<Rightarrow> type_satisfies_interface nodes assignable c interface)))"

definition nominal_subclass_assignable ::
    "node list \<Rightarrow> (node \<Rightarrow> semantic_type \<Rightarrow> semantic_type \<Rightarrow> bool option) \<Rightarrow> node \<Rightarrow> string \<Rightarrow> string \<Rightarrow>
     bool option" where
  "nominal_subclass_assignable nodes assignable n expected actual =
     (if expected = actual then Some True
      else (case resolve_direct_base nodes n actual of
              None \<Rightarrow> Some False
            | Some (actual_node, actual_decl) \<Rightarrow>
                any_opt (\<lambda>base. or_opt (Some (normalize_type_text base = expected))
                    (assignable actual_node (lower_type_text_or_name expected) (lower_type_text_or_name base)))
                  (rendered_class_bases actual_decl)))"

section \<open>Callables and generics\<close>

text \<open>
  Here the inner \<open>None\<close> is the \<^verbatim>\<open>None\<close> of the code: the rule does not apply.
  Parameters are contravariant.
\<close>

definition params_assignable ::
    "(semantic_type \<Rightarrow> semantic_type \<Rightarrow> bool option) \<Rightarrow> semantic_type list \<Rightarrow> semantic_type list \<Rightarrow> bool option" where
  "params_assignable assignable expected actual =
     all_opt (\<lambda>(e, a). assignable a e) (zip expected actual)"

definition callable_structural_params_assignable ::
    "(semantic_type \<Rightarrow> semantic_type \<Rightarrow> bool option) \<Rightarrow> semantic_callable_params \<Rightarrow>
     semantic_callable_params \<Rightarrow> bool option option" where
  "callable_structural_params_assignable assignable expected_params actual_params =
     (if expected_params = SEllipsis \<or> actual_params = SEllipsis then Some (Some True)
      else (case (expected_params, actual_params) of
              (SParamList expected, SParamList actual) \<Rightarrow>
                if length expected \<noteq> length actual then Some (Some False)
                else map_option Some (params_assignable assignable expected actual)
            | (SSingle expected, SSingle actual) \<Rightarrow> map_option Some (assignable actual expected)
            | (SConcatenate expected, SConcatenate actual) \<Rightarrow>
                if expected = [] \<or> actual = [] then Some None
                else if length expected \<noteq> length actual then Some (Some False)
                else map_option Some
                  (and_opt (params_assignable assignable (butlast expected) (butlast actual))
                    (assignable (last actual) (last expected)))
            | _ \<Rightarrow> Some None))"

definition callable_semantic_annotation_assignable ::
    "(semantic_type \<Rightarrow> semantic_type \<Rightarrow> bool option) \<Rightarrow> semantic_callable_params \<times> semantic_type \<Rightarrow>
     semantic_callable_params \<times> semantic_type \<Rightarrow> bool option option" where
  "callable_semantic_annotation_assignable assignable expected actual =
     (case assignable (snd expected) (snd actual) of
        None \<Rightarrow> None
      | Some False \<Rightarrow> Some (Some False)
      | Some True \<Rightarrow> callable_structural_params_assignable assignable (fst expected) (fst actual))"

definition params_of_generic_arg :: "semantic_type \<Rightarrow> semantic_callable_params" where
  "params_of_generic_arg t =
     (case t of
        SName name \<Rightarrow> if name = ''...'' then SEllipsis else SSingle t
      | SGeneric head args \<Rightarrow> if head = ''Concatenate'' then SConcatenate args else SSingle t
      | _ \<Rightarrow> SSingle t)"

definition callable_assignable_from_generic_args ::
    "(semantic_type \<Rightarrow> semantic_type \<Rightarrow> bool option) \<Rightarrow> semantic_type list \<Rightarrow> semantic_type list \<Rightarrow>
     bool option option" where
  "callable_assignable_from_generic_args assignable expected_args actual_args =
     (case (expected_args, actual_args) of
        ([expected_params, expected_return], [actual_params, actual_return]) \<Rightarrow>
          callable_semantic_annotation_assignable assignable
            (params_of_generic_arg expected_params, expected_return)
            (params_of_generic_arg actual_params, actual_return)
      | _ \<Rightarrow> Some None)"

definition arg_assignable ::
    "(semantic_type \<Rightarrow> semantic_type \<Rightarrow> bool option) \<Rightarrow> (semantic_type \<Rightarrow> semantic_type \<Rightarrow> bool option) \<Rightarrow>
     (semantic_type \<times> semantic_type) \<times> generic_variance \<Rightarrow> bool option" where
  "arg_assignable assignable invariant arg =
     (case snd arg of
        Invariant \<Rightarrow> invariant (fst (fst arg)) (snd (fst arg))
      | Covariant \<Rightarrow> assignable (fst (fst arg)) (snd (fst arg))
      | Contravariant \<Rightarrow> assignable (snd (fst arg)) (fst (fst arg)))"

definition same_head_assignable ::
    "(semantic_type \<Rightarrow> semantic_type \<Rightarrow> bool option) \<Rightarrow> (semantic_type \<Rightarrow> semantic_type \<Rightarrow> bool option) \<Rightarrow>
     string \<Rightarrow> semantic_type list \<Rightarrow> semantic_type list \<Rightarrow> bool option option" where
  "same_head_assignable assignable invariant head expected_args actual_args =
     (if head = ''Callable''
      then callable_assignable_from_generic_args assignable expected_args actual_args
      else map_option Some
             (all_opt (arg_assignable assignable invariant)
               (zip (zip expected_args actual_args)
                 (variances_for_generic_head head (length expected_args)))))"

text \<open>The element type of a list or tuple seen as a sequence.\<close>

definition sequence_element :: "string \<Rightarrow> semantic_type list \<Rightarrow> semantic_type" where
  "sequence_element actual_head actual_args =
     (if actual_head = ''tuple'' \<and> length actual_args = 2 \<and> actual_args ! 1 = SName ''...''
      then actual_args ! 0
      else if actual_head = ''tuple'' then join_semantic_type_candidates actual_args
      else (case actual_args of [] \<Rightarrow> SName ''dynamic'' | a # _ \<Rightarrow> a))"

definition assignable_generic_bridge ::
    "(semantic_type \<Rightarrow> semantic_type \<Rightarrow> bool option) \<Rightarrow> (semantic_type \<Rightarrow> semantic_type \<Rightarrow> bool option) \<Rightarrow>
     semantic_type \<Rightarrow> semantic_type \<Rightarrow> bool option option" where
  "assignable_generic_bridge assignable invariant expected actual =
     (case (semantic_generic_parts expected, semantic_generic_parts actual) of
        (Some (expected_head, expected_args), Some (actual_head, actual_args)) \<Rightarrow>
          if expected_head = ''tuple'' \<and> actual_head = ''tuple''
          then (let e = expanded_tuple_shape_semantic_args expected_args;
                    a = expanded_tuple_shape_semantic_args actual_args
                in if length e \<noteq> length a then Some (Some False)
                   else same_head_assignable assignable invariant expected_head e a)
          else if expected_head = actual_head \<and> length expected_args = length actual_args
          then same_head_assignable assignable invariant expected_head expected_args actual_args
          else if expected_head = ''Sequence'' \<and> actual_head \<in> {''list'', ''tuple''} \<and> expected_args \<noteq> []
          then map_option Some (assignable (hd expected_args) (sequence_element actual_head actual_args))
          else if expected_head = ''Mapping'' \<and> actual_head = ''dict'' \<and>
                  length expected_args = 2 \<and> length actual_args = 2
          then map_option Some
                 (and_opt (invariant (expected_args ! 0) (actual_args ! 0))
                   (assignable (expected_args ! 1) (actual_args ! 1)))
          else Some None
      | _ \<Rightarrow> Some None)"

section \<open>Assignability\<close>

text \<open>
  \<^verbatim>\<open>direct_semantic_type_is_assignable\<close>. The rules before the recursion: \<open>Some\<close> when
  one of them decides.
\<close>

definition immediate_answer ::
    "assignability_options \<Rightarrow> semantic_type \<Rightarrow> semantic_type \<Rightarrow> bool option" where
  "immediate_answer opts expected actual =
     (if expected = actual then Some True
      else if is_unknown actual \<and> (is_unknown expected \<or> is_dynamic expected \<or> is_object expected)
      then Some True
      else if is_unknown actual \<and> is_any expected then Some False
      else if \<not> is_unknown actual \<and> (is_object expected \<or> is_top_receiving expected \<or> is_top_escaping actual)
      then Some True
      else if \<not> ao_strict_nulls opts \<and> semantic_type_is_none actual \<and> semantic_type_accepts_implicit_none expected
      then Some True
      else None)"

text \<open>\<^verbatim>\<open>TypeRelationContext::invariant_matches\<close>.\<close>

definition invariant_matches ::
    "nat \<Rightarrow> node list \<Rightarrow> node \<Rightarrow> (semantic_type \<Rightarrow> semantic_type \<Rightarrow> bool option) \<Rightarrow>
     (semantic_type \<Rightarrow> semantic_type \<Rightarrow> bool option) \<Rightarrow> semantic_type \<Rightarrow> semantic_type \<Rightarrow> bool option" where
  "invariant_matches fuel nodes n matches assignable expected actual =
     or_opt (and_opt (matches expected actual) (matches actual expected))
       (case recursive_type_alias_head fuel nodes n expected of
          None \<Rightarrow> None
        | Some None \<Rightarrow> Some False
        | Some (Some _) \<Rightarrow> assignable expected actual)"

definition taint_qualified_assignability ::
    "(semantic_type \<Rightarrow> semantic_type \<Rightarrow> bool option) \<Rightarrow> (semantic_type \<Rightarrow> semantic_type \<Rightarrow> bool option) \<Rightarrow>
     semantic_type \<Rightarrow> semantic_type \<Rightarrow> bool option option" where
  "taint_qualified_assignability assignable invariant expected actual =
     (case (semantic_tainted_parts expected, semantic_tainted_parts actual) of
        (None, None) \<Rightarrow> Some None
      | (Some (expected_inner, expected_context), Some (actual_inner, actual_context)) \<Rightarrow>
          map_option Some
            (and_opt (invariant expected_context actual_context) (assignable expected_inner actual_inner))
      | _ \<Rightarrow> Some (Some False))"

text \<open>
  The last branch: enum members, protocols, nominal bases, generics, new types and plain
  matching. \<open>fresh\<close> starts a new relation in a module; \<open>call\<close> continues this one.
\<close>

definition nominal_step ::
    "node list \<Rightarrow> node \<Rightarrow> (node \<Rightarrow> semantic_type \<Rightarrow> semantic_type \<Rightarrow> bool option) \<Rightarrow>
     (semantic_type \<Rightarrow> semantic_type \<Rightarrow> bool option) \<Rightarrow> (semantic_type \<Rightarrow> semantic_type \<Rightarrow> bool option) \<Rightarrow>
     (semantic_type \<Rightarrow> semantic_type \<Rightarrow> bool option) \<Rightarrow> semantic_type \<Rightarrow> semantic_type \<Rightarrow> bool option" where
  "nominal_step nodes n fresh call matches invariant expected actual =
     (let expected_rendered = render_semantic_type expected;
          actual_rendered = render_semantic_type actual;
          enum_match = (semantic_enum_member_owner_name actual = Some expected_rendered)
      in case protocol_assignable nodes fresh n expected_rendered actual_rendered of
           None \<Rightarrow> None
         | Some protocol \<Rightarrow>
             (case nominal_subclass_assignable nodes fresh n expected_rendered actual_rendered of
                None \<Rightarrow> None
              | Some nominal \<Rightarrow>
                  if enum_match \<or> protocol \<or> nominal then Some True
                  else (case assignable_generic_bridge (fresh n) invariant expected actual of
                          None \<Rightarrow> None
                        | Some (Some result) \<Rightarrow> Some result
                        | Some None \<Rightarrow>
                            (case (case strip_annotated actual of
                                     SName name \<Rightarrow> resolve_newtype_base n nodes name | _ \<Rightarrow> None) of
                               Some base \<Rightarrow> call expected base
                             | None \<Rightarrow>
                                 if is_unknown actual then Some False else matches expected actual))))"

definition assign_step ::
    "node list \<Rightarrow> node \<Rightarrow> (semantic_type \<Rightarrow> semantic_type option option) \<Rightarrow>
     (node \<Rightarrow> semantic_type \<Rightarrow> semantic_type \<Rightarrow> bool option) \<Rightarrow>
     (semantic_type \<Rightarrow> semantic_type \<Rightarrow> bool option) \<Rightarrow> (semantic_type \<Rightarrow> semantic_type \<Rightarrow> bool option) \<Rightarrow>
     (semantic_type \<Rightarrow> semantic_type \<Rightarrow> bool option) \<Rightarrow> semantic_type \<Rightarrow> semantic_type \<Rightarrow> bool option" where
  "assign_step nodes n expand fresh call matches invariant expected actual =
     (case expand expected of
        None \<Rightarrow> None
      | Some (Some expanded_expected) \<Rightarrow> call expanded_expected actual
      | Some None \<Rightarrow>
          (case expand actual of
             None \<Rightarrow> None
           | Some (Some expanded_actual) \<Rightarrow> call expected expanded_actual
           | Some None \<Rightarrow>
               (case (semantic_union_branches expected, semantic_union_branches actual) of
                  (Some branches, Some actual_branches) \<Rightarrow>
                    all_opt (\<lambda>actual_branch. any_opt (\<lambda>expected_branch. call expected_branch actual_branch)
                      branches) actual_branches
                | (Some branches, None) \<Rightarrow> any_opt (\<lambda>branch. call branch actual) branches
                | (None, Some actual_branches) \<Rightarrow> all_opt (\<lambda>b. call expected b) actual_branches
                | (None, None) \<Rightarrow>
                    (case (semantic_callable_parts expected, semantic_callable_parts actual) of
                       (Some e, Some a) \<Rightarrow>
                         map_option (\<lambda>r. r = Some True)
                           (callable_semantic_annotation_assignable (fresh n) e a)
                     | _ \<Rightarrow> nominal_step nodes n fresh call matches invariant expected actual))))"

fun assignable ::
    "nat \<Rightarrow> assignability_options \<Rightarrow> node list \<Rightarrow> node \<Rightarrow> visiting \<Rightarrow>
     semantic_type \<Rightarrow> semantic_type \<Rightarrow> bool option" where
  "assignable 0 opts nodes n visiting e a = None"
| "assignable (Suc fuel) opts nodes n visiting e a =
     (let expected = normalize_for_options opts e;
          actual = normalize_for_options opts a;
          fresh = (\<lambda>m. assignable fuel opts nodes m {});
          matches = type_matches fuel opts nodes n {};
          invariant = invariant_matches fuel nodes n matches (fresh n)
      in case immediate_answer opts expected actual of
           Some answer \<Rightarrow> Some answer
         | None \<Rightarrow>
             (case (if ao_taint opts
                    then taint_qualified_assignability (fresh n) invariant expected actual
                    else Some None) of
                None \<Rightarrow> None
              | Some (Some result) \<Rightarrow> Some result
              | Some None \<Rightarrow>
                  if (expected, actual) \<in> visiting then Some True
                  else assign_step nodes n (expand_alias_once fuel nodes n) fresh
                         (assignable fuel opts nodes n (insert (expected, actual) visiting))
                         matches invariant expected actual))"

text \<open>\<^verbatim>\<open>semantic_type_is_assignable_with_options\<close>, with the depth it may use.\<close>

definition is_assignable ::
    "nat \<Rightarrow> assignability_options \<Rightarrow> node list \<Rightarrow> node \<Rightarrow> semantic_type \<Rightarrow> semantic_type \<Rightarrow> bool option" where
  "is_assignable fuel opts nodes n expected actual = assignable fuel opts nodes n {} expected actual"

text \<open>\<^verbatim>\<open>direct_type_is_assignable_with_options\<close> goes through a store of its own.\<close>

definition direct_type_is_assignable ::
    "nat \<Rightarrow> assignability_options \<Rightarrow> node list \<Rightarrow> node \<Rightarrow> string \<Rightarrow> string \<Rightarrow> bool option" where
  "direct_type_is_assignable fuel opts nodes n expected actual =
     (let (e, types1) = intern (lower_type_text_or_name expected) empty_store;
          (a, types2) = intern (lower_type_text_or_name actual) types1
      in case (store_get types2 e, store_get types2 a) of
           (Some e', Some a') \<Rightarrow> is_assignable fuel opts nodes n e' a'
         | _ \<Rightarrow> None)"

end
