(* ===== verification/Assign_Props.thy ===== *)
theory Assign_Props
  imports Assignability
begin

text \<open>
  What the assignability relation decides on a plain class hierarchy, and three kinds of
  program on which its recursion has no end.
\<close>

section \<open>Nominal subtyping\<close>

lemma or_opt_simps [simp]:
  "or_opt (Some True) b = Some True" "or_opt (Some False) b = b" "or_opt None b = None"
  by (simp_all add: or_opt_def)

lemma and_opt_simps [simp]:
  "and_opt (Some True) b = b" "and_opt (Some False) b = Some False" "and_opt None b = None"
  by (simp_all add: and_opt_def)

named_theorems on_names \<open>the operations on a type that is a name\<close>

lemma names [on_names]:
  "normalize_for_options opts (SName x) = SName x" "semantic_union_branches (SName x) = None"
  "semantic_callable_parts (SName x) = None" "semantic_generic_parts (SName x) = None"
  "semantic_tainted_parts (SName x) = None" "semantic_enum_member_owner_name (SName x) = None"
  "render_semantic_type (SName x) = x" "strip_annotated (SName x) = SName x"
  by (simp_all add: normalize_for_options_def semantic_union_branches_def semantic_callable_parts_def
      semantic_generic_parts_def semantic_tainted_parts_def semantic_enum_member_owner_name_def)

definition SPECIAL_NAMES :: "string list" where
  "SPECIAL_NAMES = [''Any'', ''unknown'', ''dynamic'', ''object'', ''None'']"

lemma not_special:
  assumes "c \<notin> set SPECIAL_NAMES"
  shows "\<not> is_any (SName c)" "\<not> is_unknown (SName c)" "\<not> is_dynamic (SName c)" "\<not> is_object (SName c)"
    "\<not> semantic_type_is_none (SName c)"
  using assms by (simp_all add: SPECIAL_NAMES_def is_unknown_def is_any_def is_dynamic_def
      is_object_def semantic_type_is_none_def)

lemma immediate_names:
  "d \<notin> set SPECIAL_NAMES \<Longrightarrow> c \<notin> set SPECIAL_NAMES \<Longrightarrow>
     immediate_answer opts (SName d) (SName c) = (if d = c then Some True else None)"
  by (simp add: immediate_answer_def not_special is_top_receiving_def is_top_escaping_def)

text \<open>
  A module whose classes are nominal: each has a class of the module as every base, written as
  a name, none is interface-like, an alias or a new type, and \<open>rank\<close> falls along the bases.
\<close>

definition class_named :: "node \<Rightarrow> string \<Rightarrow> bool" where
  "class_named n c \<longleftrightarrow> find_of_kind DClass n c \<noteq> None"

definition bases_of :: "node \<Rightarrow> string \<Rightarrow> string list" where
  "bases_of n c = (case find_of_kind DClass n c of Some d \<Rightarrow> rendered_class_bases d | None \<Rightarrow> [])"

definition plain_class :: "node list \<Rightarrow> node \<Rightarrow> (string \<Rightarrow> nat) \<Rightarrow> string \<Rightarrow> bound_declaration \<Rightarrow> bool" where
  "plain_class nodes n rank c d \<longleftrightarrow>
     c \<notin> set SPECIAL_NAMES \<and> lower_type_text_or_name c = SName c \<and> normalize_type_text c = c \<and>
     resolve_direct_type_alias nodes n c = None \<and> resolve_newtype_base n nodes c = None \<and>
     is_interface_like_declaration nodes (n, d) = Some False \<and>
     (\<forall>b\<in>set (rendered_class_bases d). class_named n b \<and> rank b < rank c)"

definition plain_hierarchy :: "node list \<Rightarrow> node \<Rightarrow> (string \<Rightarrow> nat) \<Rightarrow> bool" where
  "plain_hierarchy nodes n rank \<longleftrightarrow>
     (\<forall>c d. find_of_kind DClass n c = Some d \<longrightarrow> plain_class nodes n rank c d)"

lemma hierarchy:
  assumes "plain_hierarchy nodes n rank" "class_named n c"
  shows "c \<notin> set SPECIAL_NAMES" "lower_type_text_or_name c = SName c" "normalize_type_text c = c"
    "resolve_direct_type_alias nodes n c = None" "resolve_newtype_base n nodes c = None"
    "\<exists>d. resolve_direct_base nodes n c = Some (n, d) \<and> rendered_class_bases d = bases_of n c \<and>
         is_interface_like_declaration nodes (n, d) = Some False"
    "b \<in> set (bases_of n c) \<Longrightarrow> class_named n b \<and> rank b < rank c"
  using assms by (auto simp: plain_hierarchy_def plain_class_def class_named_def bases_of_def resolve_direct_base_def)

lemma expand_plain:
  "resolve_direct_type_alias nodes n c = None \<Longrightarrow> expand_alias_once (Suc fuel) nodes n (SName c) = Some None"
  by simp

lemma matches_names:
  assumes "d \<noteq> c" "d \<notin> set SPECIAL_NAMES" "c \<notin> set SPECIAL_NAMES"
    and "resolve_direct_type_alias nodes n d = None" "resolve_direct_type_alias nodes n c = None"
  shows "type_matches (Suc (Suc fuel)) opts nodes n {} (SName d) (SName c) = Some False"
proof -
  have "match_step (expand_alias_once (Suc fuel) nodes n) call (SName d) (SName c) = Some False" for call
    unfolding match_step_def expand_plain [OF assms(4)] expand_plain [OF assms(5)] names match_generic_def
    by simp
  then show ?thesis
    unfolding type_matches.simps names Let_def using assms(1) not_special(1) [OF assms(2)]
      not_special(1) [OF assms(3)] by simp
qed

definition subclass_of :: "node \<Rightarrow> string \<Rightarrow> string \<Rightarrow> bool" where
  "subclass_of n c d \<longleftrightarrow> (\<lambda>x y. y \<in> set (bases_of n x))\<^sup>*\<^sup>* c d"

lemma subclass_step:
  assumes "c \<noteq> d"
  shows "subclass_of n c d \<longleftrightarrow> (\<exists>b\<in>set (bases_of n c). subclass_of n b d)"
proof
  assume "subclass_of n c d"
  then show "\<exists>b\<in>set (bases_of n c). subclass_of n b d"
    unfolding subclass_of_def using assms by (cases rule: converse_rtranclpE) auto
next
  assume "\<exists>b\<in>set (bases_of n c). subclass_of n b d"
  then show "subclass_of n c d"
    unfolding subclass_of_def by (auto intro: converse_rtranclp_into_rtranclp)
qed

lemma nominal_names:
  assumes h: "plain_hierarchy nodes n rank" and c: "class_named n c" and d: "class_named n d" "d \<noteq> c"
    and fresh: "\<And>b. b \<in> set (bases_of n c) \<Longrightarrow> fresh n (SName d) (SName b) = Some (subclass_of n b d)"
  shows "nominal_subclass_assignable nodes fresh n d c = Some (subclass_of n c d)"
proof -
  obtain decl where decl: "resolve_direct_base nodes n c = Some (n, decl)" "rendered_class_bases decl = bases_of n c"
    using hierarchy(6) [OF h c] by blast
  have "or_opt (Some (normalize_type_text b = d)) (fresh n (lower_type_text_or_name d) (lower_type_text_or_name b)) =
      Some (subclass_of n b d)" if b: "b \<in> set (bases_of n c)" for b
  proof -
    have "class_named n b" using hierarchy(7) [OF h c b] by blast
    then have "normalize_type_text b = b" "lower_type_text_or_name b = SName b"
      using hierarchy(2,3) [OF h] by blast+
    moreover have "subclass_of n d d" by (simp add: subclass_of_def)
    ultimately show ?thesis
      using fresh [OF b] hierarchy(2) [OF h d(1)] by (cases "b = d") simp_all
  qed
  then have "any_opt (\<lambda>b. or_opt (Some (normalize_type_text b = d))
      (fresh n (lower_type_text_or_name d) (lower_type_text_or_name b))) (bases_of n c) =
    Some (\<exists>b\<in>set (bases_of n c). subclass_of n b d)" by (rule any_opt_Some)
  then show ?thesis
    using d decl subclass_step [of c d n] by (simp add: nominal_subclass_assignable_def)
qed

lemma protocol_plain:
  assumes h: "plain_hierarchy nodes n rank" and d: "class_named n d"
  shows "protocol_assignable nodes fresh n d c = Some False"
  using hierarchy(6) [OF h d] by (auto simp: protocol_assignable_def)

lemma assign_names:
  "plain_hierarchy nodes n rank \<Longrightarrow> class_named n c \<Longrightarrow> class_named n d \<Longrightarrow> rank c + 3 \<le> fuel \<Longrightarrow>
     assignable fuel opts nodes n {} (SName d) (SName c) = Some (subclass_of n c d)"
proof (induction fuel arbitrary: c)
  case (Suc fuel)
  note h = Suc.prems(1) and c = Suc.prems(2) and d = Suc.prems(3)
  show ?case
  proof (cases "d = c")
    case True
    then show ?thesis
      by (simp add: immediate_names hierarchy(1) [OF h c] names subclass_of_def)
  next
    case False
    obtain f where f: "fuel = Suc (Suc f)" 
      using Suc.prems(4) by (cases fuel; cases "fuel - 1") auto
    have fresh: "assignable fuel opts nodes n {} (SName d) (SName b) = Some (subclass_of n b d)"
      if "b \<in> set (bases_of n c)" for b
    proof -
      have b: "class_named n b" "rank b < rank c" using hierarchy(7) [OF h c that] by blast+
      then have "rank b + 3 \<le> fuel" using Suc.prems(4) by linarith
      then show ?thesis using Suc.IH [OF h b(1) d] by blast
    qed
    have nominal: "nominal_subclass_assignable nodes (\<lambda>m. assignable fuel opts nodes m {}) n d c =
        Some (subclass_of n c d)"
      by (rule nominal_names [OF h c d False]) (rule fresh)
    have matches: "type_matches fuel opts nodes n {} (SName d) (SName c) = Some False"
      unfolding f by (rule matches_names [OF False hierarchy(1) [OF h d] hierarchy(1) [OF h c]
            hierarchy(4) [OF h d] hierarchy(4) [OF h c]])
    have plain: "expand_alias_once fuel nodes n (SName d) = Some None"
        "expand_alias_once fuel nodes n (SName c) = Some None"
      unfolding f by (rule expand_plain hierarchy(4) [OF h d] hierarchy(4) [OF h c])+
    have step: "nominal_step nodes n (\<lambda>m. assignable fuel opts nodes m {}) call
        (type_matches fuel opts nodes n {}) invariant (SName d) (SName c) = Some (subclass_of n c d)"
      for call invariant
      unfolding nominal_step_def Let_def names protocol_plain [OF h d] nominal matches
        assignable_generic_bridge_def
      using not_special(2) [OF hierarchy(1) [OF h c]] by (simp add: hierarchy(5) [OF h c])
    have whole: "assign_step nodes n (expand_alias_once fuel nodes n) (\<lambda>m. assignable fuel opts nodes m {}) call
        (type_matches fuel opts nodes n {}) invariant (SName d) (SName c) = Some (subclass_of n c d)"
      for call invariant
      unfolding assign_step_def plain names by (simp add: step)
    show ?thesis
      unfolding assignable.simps Let_def names immediate_names [OF hierarchy(1) [OF h d] hierarchy(1) [OF h c]]
        taint_qualified_assignability_def whole
      using False by simp
  qed
qed simp

text \<open>
  C40: on a plain hierarchy assignability is subclassing. For two classes of the module, under
  every choice of options, the checker's relation returns within \<open>rank c + 3\<close> nested calls,
  and it holds exactly when the expected class is reached from the actual one through its bases.
\<close>

theorem nominal_assignability_is_subclassing:
  assumes "plain_hierarchy nodes n rank" "class_named n c" "class_named n d" "rank c + 3 \<le> fuel"
  shows "is_assignable fuel opts nodes n (SName d) (SName c) = Some (subclass_of n c d)"
  unfolding is_assignable_def using assms by (rule assign_names)

definition zoo :: node where
  "zoo = plain_node ''zoo''
     [class_decl ''Animal'' OClass [], class_decl ''Dog'' OClass [''Animal''],
      class_decl ''Puppy'' OClass [''Dog'']]"

definition zoo_rank :: "string \<Rightarrow> nat" where
  "zoo_rank c = (if c = ''Puppy'' then 2 else if c = ''Dog'' then 1 else 0)"

lemma zoo_classes:
  "find_of_kind DClass zoo c = Some d \<Longrightarrow>
     (c, d) \<in> {(''Animal'', class_decl ''Animal'' OClass []), (''Dog'', class_decl ''Dog'' OClass [''Animal'']),
               (''Puppy'', class_decl ''Puppy'' OClass [''Dog''])}"
  by (simp add: find_of_kind_def zoo_def plain_node_def class_decl_def bare_declaration_def split: if_splits)

lemma zoo_plain: "plain_hierarchy [zoo] zoo zoo_rank"
proof -
  have "plain_class [zoo] zoo zoo_rank ''Animal'' (class_decl ''Animal'' OClass [])"
    "plain_class [zoo] zoo zoo_rank ''Dog'' (class_decl ''Dog'' OClass [''Animal''])"
    "plain_class [zoo] zoo zoo_rank ''Puppy'' (class_decl ''Puppy'' OClass [''Dog''])"
    by code_simp+
  then show ?thesis unfolding plain_hierarchy_def using zoo_classes by blast
qed

theorem nominal_assignability_is_subclassing_witness:
  "is_assignable 5 default_options [zoo] zoo (SName ''Animal'') (SName ''Puppy'') =
     Some (subclass_of zoo ''Puppy'' ''Animal'') \<and> subclass_of zoo ''Puppy'' ''Animal'' \<and>
   is_assignable 3 default_options [zoo] zoo (SName ''Puppy'') (SName ''Animal'') = Some False"
proof -
  have classes: "class_named zoo ''Puppy''" "class_named zoo ''Animal''" by code_simp+
  have ranks: "zoo_rank ''Puppy'' + 3 \<le> 5" by code_simp
  have up: "is_assignable 5 default_options [zoo] zoo (SName ''Animal'') (SName ''Puppy'') =
      Some (subclass_of zoo ''Puppy'' ''Animal'')"
    by (rule nominal_assignability_is_subclassing [OF zoo_plain classes ranks])
  moreover have "is_assignable 5 default_options [zoo] zoo (SName ''Animal'') (SName ''Puppy'') = Some True"
    by code_simp
  moreover have "is_assignable 3 default_options [zoo] zoo (SName ''Puppy'') (SName ''Animal'') = Some False"
    by code_simp
  ultimately show ?thesis by (simp only: option.inject simp_thms)
qed

section \<open>Programs without end\<close>

text \<open>Two aliases that name each other are expanded for ever: each expansion in the module of
  the alias starts with an empty set of seen types.\<close>

definition alias_decl :: "string \<Rightarrow> type_expr \<Rightarrow> bound_declaration" where
  "alias_decl name body = bare_declaration name DTypeAlias (MTypeAlias body None)"

definition alias_node :: node where
  "alias_node = plain_node ''m'' [alias_decl ''A'' (TName ''B''), alias_decl ''B'' (TName ''A'')]"

lemma alias_node_resolves:
  "resolve_direct_type_alias [alias_node] alias_node ''A'' = Some (alias_node, alias_decl ''A'' (TName ''B''))"
  "resolve_direct_type_alias [alias_node] alias_node ''B'' = Some (alias_node, alias_decl ''B'' (TName ''A''))"
  by code_simp+

lemma alias_expanded:
  "alias_type_param_substitutions (alias_decl c t) [] = Some empty_solution"
  "declaration_type_alias_semantics (alias_decl ''A'' (TName ''B'')) =
     Some \<lparr>sa_head = ''A'', sa_type_params = [], sa_body_text = ''B'', sa_body = SName ''B''\<rparr>"
  "declaration_type_alias_semantics (alias_decl ''B'' (TName ''A'')) =
     Some \<lparr>sa_head = ''B'', sa_type_params = [], sa_body_text = ''A'', sa_body = SName ''A''\<rparr>"
  by (simp add: alias_type_param_substitutions_def alias_decl_def bare_declaration_def empty_solution_def)
    code_simp+

lemma alias_rewritten:
  "rewrite_imported_typing_token alias_node ''B'' = ''B''"
  "rewrite_imported_typing_token alias_node ''A'' = ''A''"
  "bt_get (gs_types empty_solution) x = None"
  by (code_simp, code_simp, simp add: empty_solution_def)

lemma cyclic_alias_expansion:
  "expand_alias_once fuel [alias_node] alias_node (SName ''A'') = None \<and>
   expand_alias_once fuel [alias_node] alias_node (SName ''B'') = None \<and>
   expand_in_provider fuel [alias_node] alias_node (SName ''A'') {} = None \<and>
   expand_in_provider fuel [alias_node] alias_node (SName ''B'') {} = None"
  by (induction fuel) (simp_all add: alias_node_resolves alias_expanded alias_rewritten Let_def)

lemma cyclic_aliases_never_return:
  "is_assignable fuel opts [alias_node] alias_node (SName ''int'') (SName ''A'') = None"
proof (cases fuel)
  case (Suc f)
  have int: "resolve_direct_type_alias [alias_node] alias_node ''int'' = None" by code_simp
  have a: "assign_step [alias_node] alias_node (expand_alias_once f [alias_node] alias_node)
      fresh call matches invariant (SName ''int'') (SName ''A'') = None" for fresh call matches invariant
    using cyclic_alias_expansion [of f]
    by (cases f) (simp_all add: assign_step_def int)
  have special: "''int'' \<notin> set SPECIAL_NAMES" "''A'' \<notin> set SPECIAL_NAMES" by code_simp+
  have distinct: "(''int'' = ''A'') = False" by simp
  show ?thesis
    unfolding is_assignable_def Suc assignable.simps Let_def names immediate_names [OF special] distinct
      a taint_qualified_assignability_def by simp
qed (simp add: is_assignable_def)

text \<open>So is a class whose bases form a circle, against any other type.\<close>

lemma circle_bases:
  "resolve_direct_base [circle_node] circle_node ''A'' = Some (circle_node, class_decl ''A'' OClass [''B''])"
  "resolve_direct_base [circle_node] circle_node ''B'' = Some (circle_node, class_decl ''B'' OClass [''A''])"
  "resolve_direct_base [circle_node] circle_node ''int'' = None"
  "rendered_class_bases (class_decl ''A'' OClass [''B'']) = [''B'']"
  "rendered_class_bases (class_decl ''B'' OClass [''A'']) = [''A'']"
  "resolve_direct_type_alias [circle_node] circle_node ''A'' = None"
  "resolve_direct_type_alias [circle_node] circle_node ''B'' = None"
  "resolve_direct_type_alias [circle_node] circle_node ''int'' = None"
  "lower_type_text_or_name ''A'' = SName ''A''" "lower_type_text_or_name ''B'' = SName ''B''"
  "lower_type_text_or_name ''int'' = SName ''int''"
  "normalize_type_text ''A'' = ''A''" "normalize_type_text ''B'' = ''B''"
  by code_simp+

lemma names_descend:
  assumes special: "d \<notin> set SPECIAL_NAMES" "c \<notin> set SPECIAL_NAMES" "d \<noteq> c"
    and plain: "resolve_direct_type_alias nodes n d = None" "resolve_direct_type_alias nodes n c = None"
    and stuck: "protocol_assignable nodes (\<lambda>m. assignable fuel opts nodes m {}) n d c = None \<or>
      nominal_subclass_assignable nodes (\<lambda>m. assignable fuel opts nodes m {}) n d c = None"
  shows "assignable (Suc fuel) opts nodes n {} (SName d) (SName c) = None"
proof -
  have nominal: "nominal_step nodes n (\<lambda>m. assignable fuel opts nodes m {}) call matches invariant
      (SName d) (SName c) = None" for call matches invariant
    unfolding nominal_step_def Let_def names using stuck by (auto split: option.splits)
  have step: "assign_step nodes n (expand_alias_once fuel nodes n) (\<lambda>m. assignable fuel opts nodes m {}) call
      matches invariant (SName d) (SName c) = None" for call matches invariant
  proof -
    have "expand_alias_once fuel nodes n (SName d) \<in> {None, Some None}"
      "expand_alias_once fuel nodes n (SName c) \<in> {None, Some None}"
      by (cases fuel; simp add: plain)+
    then show ?thesis by (elim insertE emptyE) (simp_all add: assign_step_def names nominal)
  qed
  show ?thesis
    unfolding assignable.simps Let_def names immediate_names [OF special(1,2)]
      taint_qualified_assignability_def step using special(3) by simp
qed

lemma circle_stuck:
  "assignable fuel opts [circle_node] circle_node {} (SName ''int'') (SName ''A'') = None \<and>
   assignable fuel opts [circle_node] circle_node {} (SName ''int'') (SName ''B'') = None"
proof (induction fuel)
  case (Suc fuel)
  have special: "''int'' \<notin> set SPECIAL_NAMES" "''A'' \<notin> set SPECIAL_NAMES" "''B'' \<notin> set SPECIAL_NAMES"
    by code_simp+
  have "nominal_subclass_assignable [circle_node] (\<lambda>m. assignable fuel opts [circle_node] m {})
      circle_node ''int'' ''A'' = None"
    "nominal_subclass_assignable [circle_node] (\<lambda>m. assignable fuel opts [circle_node] m {})
      circle_node ''int'' ''B'' = None"
    using Suc.IH by (simp_all add: nominal_subclass_assignable_def circle_bases)
  then show ?case
    using names_descend [OF special(1,2) _ circle_bases(8,6)]
      names_descend [OF special(1,3) _ circle_bases(8,7)] by simp
qed simp

lemma cyclic_bases_never_return:
  "is_assignable fuel opts [circle_node] circle_node (SName ''int'') (SName ''A'') = None"
  using circle_stuck by (simp add: is_assignable_def)

text \<open>
  And a recursive protocol: to see whether \<open>C\<close> has the method \<open>clone() -> P\<close> of the protocol
  \<open>P\<close>, the return types \<open>P\<close> and \<open>C\<close> are compared, with nothing remembered of the comparison
  under way.
\<close>

definition clone_method :: "string \<Rightarrow> declaration_owner_kind \<Rightarrow> bound_declaration" where
  "clone_method owner kind = method_decl ''clone'' owner kind
     \<lparr>bs_params = [\<lparr>dp_name = ''self'', dp_annotation = None, dp_annotation_expr = None,
        dp_has_default = False, dp_positional_only = False, dp_keyword_only = False,
        dp_variadic = False, dp_keyword_variadic = False\<rparr>], bs_returns = Some (TName owner)\<rparr>"

definition protocol_node :: node where
  "protocol_node = plain_node ''m''
     [class_decl ''P'' OInterface [], clone_method ''P'' OInterface,
      class_decl ''C'' OClass [], clone_method ''C'' OClass]"

lemma protocol_facts:
  "resolve_direct_base [protocol_node] protocol_node ''P'' = Some (protocol_node, class_decl ''P'' OInterface [])"
  "resolve_direct_base [protocol_node] protocol_node ''C'' = Some (protocol_node, class_decl ''C'' OClass [])"
  "is_interface_like_declaration [protocol_node] (protocol_node, class_decl ''P'' OInterface []) = Some True"
  "collect_interface_members [protocol_node] (protocol_node, class_decl ''P'' OInterface []) =
     Some [(''clone'', clone_method ''P'' OInterface)]"
  "find_apparent_callable_declaration [protocol_node] (protocol_node, class_decl ''C'' OClass []) ''clone'' =
     Some (Some (clone_method ''C'' OClass))"
  "d_kind (clone_method ''P'' OInterface) = DFunction"
  "resolve_direct_type_alias [protocol_node] protocol_node ''P'' = None"
  "resolve_direct_type_alias [protocol_node] protocol_node ''C'' = None"
  by code_simp+

lemma clone_facts:
  "(d_method_kind (clone_method ''C'' OClass) = d_method_kind (clone_method ''P'' OInterface) \<and>
     callable_signature (clone_method ''C'' OClass) \<noteq> None \<and>
     callable_signature (clone_method ''C'' OClass) = callable_signature (clone_method ''P'' OInterface)) = False"
  "is_context_manager_method (clone_method ''C'' OClass) (clone_method ''P'' OInterface) = False"
  "(d_method_kind (clone_method ''C'' OClass) \<noteq> d_method_kind (clone_method ''P'' OInterface)) = False"
  "declaration_semantic_signature_params (clone_method ''C'' OClass) =
     declaration_semantic_signature_params (clone_method ''P'' OInterface)"
  "return_with_owner (clone_method ''C'' OClass) = Some (SName ''C'')"
  "return_with_owner (clone_method ''P'' OInterface) = Some (SName ''P'')"
  by code_simp+

lemma clone_params:
  "\<exists>p. declaration_semantic_signature_params (clone_method ''P'' OInterface) = Some [p] \<and> sp_annotation p = None"
  by (simp add: clone_method_def method_decl_def bare_declaration_def declaration_semantic_signature_params_def
      declaration_callable_semantics_def declaration_semantic_facts_def callable_of_def callable_signature_def
      semantic_callable_from_bound_signature_def present_callable_def present_param_def
      semantic_param_of_site_def semantic_type_from_direct_param_site_def)

lemma protocol_recurses:
  assumes "fresh protocol_node (SName ''P'') (SName ''C'') = None"
  shows "protocol_assignable [protocol_node] fresh protocol_node ''P'' ''C'' = None"
proof -
  obtain p where p: "declaration_semantic_signature_params (clone_method ''P'' OInterface) = Some [p]"
    "sp_annotation p = None" using clone_params by blast
  have "method_override_incompatibility (fresh protocol_node) (clone_method ''C'' OClass)
      (clone_method ''P'' OInterface) = None"
    unfolding method_override_incompatibility_def clone_facts p
    by (simp add: same_modifiers_def p(2) assms)
  then have "actual_member_satisfies_requirement [protocol_node] (fresh protocol_node)
      (protocol_node, class_decl ''C'' OClass []) ''clone'' (clone_method ''P'' OInterface) = None"
    unfolding actual_member_satisfies_requirement_def protocol_facts
    by (simp add: methods_are_compatible_for_override_def)
  then show ?thesis
    unfolding protocol_assignable_def protocol_facts type_satisfies_interface_def
    by (simp add: protocol_facts)
qed

lemma recursive_protocol_never_returns:
  "is_assignable fuel opts [protocol_node] protocol_node (SName ''P'') (SName ''C'') = None"
proof -
  have special: "''P'' \<notin> set SPECIAL_NAMES" "''C'' \<notin> set SPECIAL_NAMES" by code_simp+
  have "assignable fuel opts [protocol_node] protocol_node {} (SName ''P'') (SName ''C'') = None"
  proof (induction fuel)
    case (Suc fuel)
    show ?case
      by (rule names_descend [OF special _ protocol_facts(7,8) disjI1])
        (simp, rule protocol_recurses, rule Suc.IH)
  qed simp
  then show ?thesis by (simp add: is_assignable_def)
qed

text \<open>
  C6: three kinds of program send the checker into endless recursion, whatever the options: a
  class compared with a recursive protocol (\<open>def clone(self) -> P\<close> against \<open>def clone(self) -> C\<close>),
  two aliases that name each other, and a class whose bases form a circle, compared with an
  unrelated type. No depth of nested calls is enough for any of them, so the stack overflows.
\<close>

theorem unguarded_recursion_never_returns:
  "is_assignable fuel opts [protocol_node] protocol_node (SName ''P'') (SName ''C'') = None \<and>
   is_assignable fuel opts [alias_node] alias_node (SName ''int'') (SName ''A'') = None \<and>
   is_assignable fuel opts [circle_node] circle_node (SName ''int'') (SName ''A'') = None"
  by (intro conjI recursive_protocol_never_returns cyclic_aliases_never_return cyclic_bases_never_return)

section \<open>Renamed imports\<close>

text \<open>A library with a class and its base, and a module that imports the base twice.\<close>

definition base_module :: node where
  "base_module = plain_node ''lib'' [class_decl ''Base'' OClass [], class_decl ''Derived'' OClass [''Base'']]"

definition import_decl :: "string \<Rightarrow> string \<Rightarrow> bound_declaration" where
  "import_decl name target = bare_declaration name DImport (MImport (bound_import_target target))"

definition importing_module :: node where
  "importing_module = plain_node ''app''
     [import_decl ''Base'' ''lib.Base'', import_decl ''Renamed'' ''lib.Base'', import_decl ''Derived'' ''lib.Derived'']"

text \<open>
  A base class imported under another name is not recognised. The texts of bases are
  compared in the module of the class, while the expected name belongs to the module that asks:
  with \<open>from lib import Base, Base as Renamed, Derived\<close> both names resolve to the same class, but
  a \<open>Derived\<close> is accepted as a \<open>Base\<close> and rejected as a \<open>Renamed\<close>.
\<close>

lemma renamed_base_is_rejected:
  "is_assignable 9 default_options [importing_module, base_module] importing_module
     (SName ''Base'') (SName ''Derived'') = Some True \<and>
   is_assignable 9 default_options [importing_module, base_module] importing_module
     (SName ''Renamed'') (SName ''Derived'') = Some False \<and>
   resolve_direct_base [importing_module, base_module] importing_module ''Renamed'' =
     resolve_direct_base [importing_module, base_module] importing_module ''Base''"
  by code_simp

end
