(* ===== verification/Public_Summary.thy ===== *)
theory Public_Summary
  imports Py_Target Bindings BTree "HOL-Library.Multiset"
begin

unbundle bit_operations_syntax

text \<open>
  Public summaries (crates/typepython_incremental, lib.rs): what a module exports, the shape
  fingerprints of its classes, the 64-bit hash behind every fingerprint, and the snapshot of
  a list of summaries. The JSON serialiser is an argument.
\<close>

section \<open>Hashing\<close>

text \<open>\<^verbatim>\<open>str::as_bytes\<close> of scalar values below U+0100.\<close>

definition utf8_char :: "char \<Rightarrow> u8 list" where
  "utf8_char c =
     (let n = of_char c :: nat
      in if n < 128 then [of_nat n] else [of_nat (192 + n div 64), of_nat (128 + n mod 64)])"

definition as_bytes :: "string \<Rightarrow> u8 list" where
  "as_bytes s = concat (map utf8_char s)"

definition hash_byte :: "u8 \<Rightarrow> u64 \<Rightarrow> u64" where
  "hash_byte byte hash = (hash XOR ucast byte) * 0x100000001b3"

definition stable_hash :: "u8 list \<Rightarrow> u64" where
  "stable_hash serialized = fold hash_byte serialized 0xcbf29ce484222325"

section \<open>Summaries\<close>

record summary_import_symbol_target =
  sis_module_key :: string
  sis_symbol_name :: string

record summary_import_target =
  si_raw_target :: string
  si_module_target :: string
  si_symbol_target :: "summary_import_symbol_target option"

record summary_signature_param =
  sp_name :: string
  sp_annotation :: "string option"
  sp_annotation_expr :: "type_expr option"
  sp_has_default :: bool
  sp_positional_only :: bool
  sp_keyword_only :: bool
  sp_variadic :: bool
  sp_keyword_variadic :: bool

record summary_callable_signature =
  ss_params :: "summary_signature_param list"
  ss_returns :: "string option"
  ss_returns_expr :: "type_expr option"

record summary_type_param_data =
  stp_kind :: "string option"
  stp_name :: string
  stp_bound :: "string option"
  stp_bound_expr :: "type_expr option"
  stp_constraints :: "string list"
  stp_constraint_exprs :: "type_expr list"
  stp_default :: "string option"
  stp_default_expr :: "type_expr option"

record summary_export =
  se_name :: string
  se_kind :: string
  se_type_repr :: string
  se_type_expr :: "type_expr option"
  se_declaration_signature :: "summary_callable_signature option"
  se_exported_type :: "string option"
  se_exported_type_expr :: "type_expr option"
  se_type_params :: "summary_type_param_data list"
  se_runtime_semantics :: "runtime_typing_semantics option"
  se_required_runtime_features :: "string list"
  se_public :: bool

record summary_effect_fact =
  sef_name :: string
  sef_owner_type_name :: "string option"
  sef_pure :: bool
  sef_effects :: "string list"
  sef_sources :: "string list"
  sef_line :: nat

record summary_declaration_fact =
  sd_name :: string
  sd_kind :: string
  sd_signature :: "summary_callable_signature option"
  sd_type_expr :: "string option"
  sd_type_expr_structured :: "type_expr option"
  sd_import_target :: "string option"
  sd_import_target_structured :: "summary_import_target option"
  sd_bases :: "string list"

record module_solver_facts =
  sf_declaration_facts :: "summary_declaration_fact list"
  sf_shape_fingerprints :: "(string \<times> u64) list"
  sf_effect_summaries :: "summary_effect_fact list"

record sealed_root_summary =
  sr_root :: string
  sr_members :: "string list"

record public_summary_data =
  ps_module :: string
  ps_is_package_entry :: bool
  ps_exports :: "summary_export list"
  ps_imports :: "string list"
  ps_import_targets :: "summary_import_target list"
  ps_sealed_roots :: "sealed_root_summary list"
  ps_solver_facts :: module_solver_facts

section \<open>Summaries of declarations\<close>

fun summary_kind :: "declaration_kind \<Rightarrow> string" where
  "summary_kind DTypeAlias = ''typealias''"
| "summary_kind DClass = ''class''"
| "summary_kind DFunction = ''function''"
| "summary_kind DOverload = ''overload''"
| "summary_kind DValue = ''value''"
| "summary_kind DImport = ''import''"

definition summary_type_expr :: "bound_declaration \<Rightarrow> type_expr option" where
  "summary_type_expr d =
     (case d_kind d of
        DTypeAlias \<Rightarrow> type_alias_value d
      | DValue \<Rightarrow> (case value_annotation d of Some e \<Rightarrow> Some e | None \<Rightarrow> d_value_type_expr d)
      | DFunction \<Rightarrow> Option.bind (callable_signature d) bs_returns
      | DOverload \<Rightarrow> Option.bind (callable_signature d) bs_returns
      | DClass \<Rightarrow> None
      | DImport \<Rightarrow> None)"

text \<open>\<^verbatim>\<open>or_else\<close> and \<^verbatim>\<open>unwrap_or_else\<close>.\<close>

definition or_else :: "'a option \<Rightarrow> 'a option \<Rightarrow> 'a option" where
  "or_else a b = (case a of None \<Rightarrow> b | Some x \<Rightarrow> Some x)"

definition unwrap_or :: "'a option \<Rightarrow> 'a \<Rightarrow> 'a" where
  "unwrap_or a b = (case a of None \<Rightarrow> b | Some x \<Rightarrow> x)"

definition summary_type_repr :: "bound_declaration \<Rightarrow> string" where
  "summary_type_repr d =
     (let detail =
        (case d_kind d of
           DClass \<Rightarrow> d_name d
         | DValue \<Rightarrow> unwrap_or (or_else (or_else (map_option render (summary_type_expr d))
             (inferred_value_type_semantic_text d)) (map_option render (value_annotation d))) (d_name d)
         | DTypeAlias \<Rightarrow> unwrap_or (map_option render (type_alias_value d)) (d_name d)
         | DFunction \<Rightarrow> unwrap_or (map_option rendered_signature (callable_signature d)) (d_name d)
         | DOverload \<Rightarrow> unwrap_or (map_option rendered_signature (callable_signature d)) (d_name d)
         | DImport \<Rightarrow> unwrap_or (map_option it_raw_target (import_target d)) (d_name d))
      in if detail = [] then d_name d else detail)"

definition summary_type_param :: "generic_type_param \<Rightarrow> summary_type_param_data" where
  "summary_type_param p =
     \<lparr>stp_kind = Some (case gp_kind p of GTypeVar \<Rightarrow> ''typevar'' | GParamSpec \<Rightarrow> ''paramspec''
        | GTypeVarTuple \<Rightarrow> ''typevartuple''),
      stp_name = gp_name p, stp_bound = rendered_bound p, stp_bound_expr = gp_bound_expr p,
      stp_constraints = rendered_constraints p, stp_constraint_exprs = gp_constraint_exprs p,
      stp_default = rendered_default p, stp_default_expr = gp_default_expr p\<rparr>"

definition native_runtime_features_from_declaration ::
    "bound_declaration \<Rightarrow> bool \<Rightarrow> runtime_feature list" where
  "native_runtime_features_from_declaration d is_alias =
     (if is_alias then [TypeStmt] else []) @
     (if d_type_params d \<noteq> [] then [InlineTypeParams] else []) @
     (if list_ex (\<lambda>p. rendered_default p \<noteq> None) (d_type_params d) then [GenericDefaults] else [])"

definition runtime_semantics_of ::
    "runtime_typing_form \<Rightarrow> bool \<Rightarrow> bound_declaration \<Rightarrow> runtime_typing_semantics" where
  "runtime_semantics_of form lazy d =
     \<lparr>rts_form = form, rts_type_param_names = map gp_name (d_type_params d),
      rts_annotation_scope_owner = Some (d_name d), rts_lazy_alias_value = lazy,
      rts_local_type_params_hidden = True,
      rts_required_features = native_runtime_features_from_declaration d lazy\<rparr>"

definition summary_runtime_semantics ::
    "source_kind \<Rightarrow> bound_declaration \<Rightarrow> runtime_typing_semantics option" where
  "summary_runtime_semantics module_kind d =
     (if module_kind \<noteq> PythonSource then None
      else case d_kind d of
          DTypeAlias \<Rightarrow> Some (runtime_semantics_of TypeAliasType True d)
        | DClass \<Rightarrow> if d_type_params d \<noteq> [] then Some (runtime_semantics_of NativeGenericClass False d) else None
        | DFunction \<Rightarrow> if d_type_params d \<noteq> [] then Some (runtime_semantics_of NativeGenericFunction False d) else None
        | DOverload \<Rightarrow> if d_type_params d \<noteq> [] then Some (runtime_semantics_of NativeGenericFunction False d) else None
        | _ \<Rightarrow> None)"

section \<open>Shapes of classes\<close>

text \<open>The \<^verbatim>\<open>Debug\<close> texts that go into a class fact.\<close>

fun debug_owner_kind :: "declaration_owner_kind option \<Rightarrow> string" where
  "debug_owner_kind None = ''None''"
| "debug_owner_kind (Some OClass) = ''Some(Class)''"
| "debug_owner_kind (Some OInterface) = ''Some(Interface)''"
| "debug_owner_kind (Some ODataClass) = ''Some(DataClass)''"
| "debug_owner_kind (Some OSealedClass) = ''Some(SealedClass)''"

fun debug_param_kind :: "generic_type_param_kind \<Rightarrow> string" where
  "debug_param_kind GTypeVar = ''TypeVar''"
| "debug_param_kind GParamSpec = ''ParamSpec''"
| "debug_param_kind GTypeVarTuple = ''TypeVarTuple''"

definition shape_class_fact :: "bound_declaration \<Rightarrow> string" where
  "shape_class_fact d =
     ''class:'' @ d_name d @ '':kind='' @ debug_owner_kind (d_class_kind d) @
     '':bases='' @ join_with '','' (sort (rendered_class_bases d)) @
     '':type_params='' @
       join_with '','' (map (\<lambda>p. gp_name p @ '':'' @ debug_param_kind (gp_kind p)) (d_type_params d)) @
     '':final_decorator='' @ (if d_is_final_decorator d then ''true'' else ''false'')"

definition owned_by :: "string \<Rightarrow> bound_declaration \<Rightarrow> bool" where
  "owned_by name d \<longleftrightarrow> (case d_owner d of None \<Rightarrow> False | Some owner \<Rightarrow> do_name owner = name)"

definition member_fact :: "bound_declaration \<Rightarrow> string" where
  "member_fact m = d_name m @ '':'' @ summary_kind (d_kind m) @ '':'' @ summary_type_repr m"

definition has_shape :: "bound_declaration list \<Rightarrow> bound_declaration \<Rightarrow> bool" where
  "has_shape declarations d \<longleftrightarrow> d_kind d = DClass \<and>
     (list_ex (\<lambda>base. base \<in> set [''TypedDict'', ''typing.TypedDict'', ''typing_extensions.TypedDict''])
        (rendered_class_bases d) \<or>
      list_ex (owned_by (d_name d)) declarations)"

definition shape_text :: "bound_declaration list \<Rightarrow> bound_declaration \<Rightarrow> string" where
  "shape_text declarations d =
     d_name d @ ''|'' @ join_with ''|''
       (sort (shape_class_fact d # map member_fact (filter (owned_by (d_name d)) declarations)))"

definition shape_fingerprints ::
    "bound_declaration list \<Rightarrow> bound_declaration list \<Rightarrow> (string \<times> u64) list" where
  "shape_fingerprints top_level_declarations declarations =
     bt_from_list (map (\<lambda>d. (d_name d, stable_hash (as_bytes (shape_text declarations d))))
       (filter (has_shape declarations) top_level_declarations))"

section \<open>Summaries of modules\<close>

text \<open>\<^verbatim>\<open>Path::file_name\<close> of a path with \<^verbatim>\<open>/\<close> separators.\<close>

definition file_name :: "string \<Rightarrow> string option" where
  "file_name path =
     (case rev (filter (\<lambda>c. c \<noteq> [] \<and> c \<noteq> ''.'') (split_char CHR ''/'' path)) of
        [] \<Rightarrow> None
      | name # _ \<Rightarrow> if name = ''..'' then None else Some name)"

definition is_package_entry_path :: "string \<Rightarrow> bool" where
  "is_package_entry_path path \<longleftrightarrow>
     (case file_name path of
        None \<Rightarrow> False
      | Some name \<Rightarrow> name = ''__init__.py'' \<or> name = ''__init__.pyi'' \<or> name = ''__init__.tpy'')"

text \<open>\<^verbatim>\<open>Vec::dedup_by\<close>: of adjacent elements with the same key the first stays.\<close>

fun dedup_by_key :: "('a \<Rightarrow> 'k) \<Rightarrow> 'a list \<Rightarrow> 'a list" where
  "dedup_by_key f (x # y # ys) =
     (if f x = f y then dedup_by_key f (x # ys) else x # dedup_by_key f (y # ys))"
| "dedup_by_key f xs = xs"

definition summary_import_target_of :: "bound_import_target \<Rightarrow> summary_import_target" where
  "summary_import_target_of target =
     \<lparr>si_raw_target = it_raw_target target, si_module_target = it_module_target target,
      si_symbol_target = map_option (\<lambda>s. \<lparr>sis_module_key = ist_module_key s,
        sis_symbol_name = ist_symbol_name s\<rparr>) (it_symbol_target target)\<rparr>"

text \<open>The targets of the import declarations of a list.\<close>

definition import_targets_of :: "bound_declaration list \<Rightarrow> bound_import_target list" where
  "import_targets_of declarations =
     List.map_filter import_target (filter (\<lambda>d. d_kind d = DImport) declarations)"

definition summary_export_of :: "source_kind \<Rightarrow> bound_declaration \<Rightarrow> summary_export" where
  "summary_export_of module_kind d =
     \<lparr>se_name = d_name d, se_kind = summary_kind (d_kind d), se_type_repr = summary_type_repr d,
      se_type_expr = summary_type_expr d, se_declaration_signature = None, se_exported_type = None,
      se_exported_type_expr = summary_type_expr d,
      se_type_params = map summary_type_param (d_type_params d),
      se_runtime_semantics = summary_runtime_semantics module_kind d,
      se_required_runtime_features = [], se_public = (\<not> starts_with ''_'' (d_name d))\<rparr>"

definition sealed_root_of :: "bound_declaration list \<Rightarrow> bound_declaration \<Rightarrow> sealed_root_summary" where
  "sealed_root_of declarations d =
     \<lparr>sr_root = d_name d,
      sr_members = sort (map d_name
        (filter (\<lambda>c. d_name c \<noteq> d_name d \<and> has_class_base c (d_name d)) declarations))\<rparr>"

definition top_level :: "'s module_node \<Rightarrow> bound_declaration list" where
  "top_level node = filter (\<lambda>d. d_owner d = None) (mn_declarations node)"

definition public_summary :: "'s module_node \<Rightarrow> public_summary_data" where
  "public_summary node =
     \<lparr>ps_module = mn_key node, ps_is_package_entry = is_package_entry_path (mn_path node),
      ps_exports = sort_key se_name (map (summary_export_of (mn_kind node)) (top_level node)),
      ps_imports = remdups_adj (sort (map it_raw_target (import_targets_of (top_level node)))),
      ps_import_targets = dedup_by_key si_raw_target
        (sort_key si_raw_target (map summary_import_target_of (import_targets_of (top_level node)))),
      ps_sealed_roots = sort_key sr_root (map (sealed_root_of (top_level node))
        (filter (\<lambda>d. d_class_kind d = Some OSealedClass) (top_level node))),
      ps_solver_facts =
        \<lparr>sf_declaration_facts = [],
         sf_shape_fingerprints = shape_fingerprints (top_level node) (mn_declarations node),
         sf_effect_summaries = []\<rparr>\<rparr>"

section \<open>Snapshots\<close>

record snapshot_metadata =
  sm_compiler_version :: "string option"
  sm_target_python :: "string option"
  sm_analysis_python :: "string option"
  sm_emit_style :: "string option"
  sm_support_snapshot :: "string option"
  sm_experimental_effect_rows :: bool
  sm_experimental_taint :: bool
  sm_experimental_validator_witnesses :: bool
  sm_experimental_sync_async_dual_emit :: bool
  sm_experimental_framework_adapters :: bool

definition default_metadata :: snapshot_metadata where
  "default_metadata =
     \<lparr>sm_compiler_version = None, sm_target_python = None, sm_analysis_python = None,
      sm_emit_style = None, sm_support_snapshot = None, sm_experimental_effect_rows = False,
      sm_experimental_taint = False, sm_experimental_validator_witnesses = False,
      sm_experimental_sync_async_dual_emit = False, sm_experimental_framework_adapters = False\<rparr>"

record incremental_state =
  is_fingerprints :: "(string \<times> u64) list"
  is_source_hashes :: "(string \<times> u64) list"
  is_summaries :: "public_summary_data list"
  is_stdlib_snapshot :: "string option"
  is_metadata :: snapshot_metadata

text \<open>\<open>to_vec\<close> is \<^verbatim>\<open>serde_json::to_vec\<close>, whose failure gives fingerprint 0.\<close>

definition summary_fingerprint ::
    "(public_summary_data \<Rightarrow> u8 list option) \<Rightarrow> public_summary_data \<Rightarrow> u64" where
  "summary_fingerprint to_vec summary =
     (case to_vec summary of None \<Rightarrow> 0 | Some serialized \<Rightarrow> stable_hash serialized)"

definition snapshot_from_summaries ::
    "(public_summary_data \<Rightarrow> u8 list option) \<Rightarrow> public_summary_data list \<Rightarrow> string option \<Rightarrow>
     snapshot_metadata \<Rightarrow> incremental_state" where
  "snapshot_from_summaries to_vec summaries stdlib_snapshot metadata =
     (let sorted_summaries = sort_key ps_module summaries
      in \<lparr>is_fingerprints =
            bt_from_list (map (\<lambda>s. (ps_module s, summary_fingerprint to_vec s)) sorted_summaries),
          is_source_hashes = [], is_summaries = sorted_summaries,
          is_stdlib_snapshot = stdlib_snapshot, is_metadata = metadata\<rparr>)"

definition snapshot ::
    "(public_summary_data \<Rightarrow> u8 list option) \<Rightarrow> 's module_node list \<Rightarrow> incremental_state" where
  "snapshot to_vec graph =
     snapshot_from_summaries to_vec (map public_summary graph) None default_metadata"

definition with_source_hashes :: "(string \<times> u64) list \<Rightarrow> incremental_state \<Rightarrow> incremental_state" where
  "with_source_hashes hashes state = state\<lparr>is_source_hashes := hashes\<rparr>"

definition with_metadata :: "snapshot_metadata \<Rightarrow> incremental_state \<Rightarrow> incremental_state" where
  "with_metadata metadata state = state\<lparr>is_metadata := metadata\<rparr>"

section \<open>The hash\<close>

lemma hash_byte_inverse: "hash_byte b h * 0xce965057aff6957b = h XOR ucast b"
proof -
  have "(0x100000001b3 :: u64) * 0xce965057aff6957b = 1" by simp
  then show ?thesis unfolding hash_byte_def by (simp only: mult.assoc mult_1_right)
qed

lemma hash_byte_inj: "hash_byte b h = hash_byte b h' \<longleftrightarrow> h = h'"
proof
  assume "hash_byte b h = hash_byte b h'"
  then have "h XOR ucast b = h' XOR ucast b" by (metis hash_byte_inverse)
  then have "(h XOR ucast b) XOR ucast b = (h' XOR ucast b) XOR ucast b" by simp
  then show "h = h'" by (simp add: xor.assoc)
qed simp

lemma widen_byte_inj:
  assumes "(ucast b :: u64) = ucast (b' :: u8)" shows "b = b'"
proof -
  have widen: "unat (ucast c :: u64) = unat c" for c :: u8
  proof -
    have "unat c < 2 ^ 8" using unsigned_less [of c, where ?'a = nat] by simp
    then have "unat c < 2 ^ 64" by simp
    then show ?thesis by (simp add: unsigned_ucast_eq take_bit_nat_eq_self)
  qed
  have "unat b = unat b'" using arg_cong [OF assms, of unat] unfolding widen .
  then show ?thesis by (rule unsigned_word_eqI)
qed

lemma hash_byte_inj_byte: "hash_byte b h = hash_byte b' h \<longleftrightarrow> b = b'"
proof
  assume "hash_byte b h = hash_byte b' h"
  then have "h XOR ucast b = h XOR (ucast b' :: u64)" by (metis hash_byte_inverse)
  then have "h XOR (h XOR ucast b) = h XOR (h XOR (ucast b' :: u64))" by simp
  then have "(ucast b :: u64) = ucast b'" by (simp flip: xor.assoc)
  then show "b = b'" by (rule widen_byte_inj)
qed simp

lemma hash_bytes_inj: "fold hash_byte bytes h = fold hash_byte bytes h' \<longleftrightarrow> h = h'"
  by (induction bytes arbitrary: h h') (simp_all add: hash_byte_inj)

text \<open>
  C23: the hash never misses a change of a single byte, and two texts with the same beginning
  and hash keep equal hashes whatever is appended to both; hashing never ignores what it read.
\<close>

theorem stable_hash_sees_every_byte:
  "(stable_hash (before @ b # after) = stable_hash (before @ b' # after) \<longleftrightarrow> b = b') \<and>
   (stable_hash (xs @ zs) = stable_hash (ys @ zs) \<longleftrightarrow> stable_hash xs = stable_hash ys)"
  by (simp add: stable_hash_def hash_bytes_inj hash_byte_inj_byte)

section \<open>Snapshots\<close>

lemma sort_key_order:
  assumes "mset xs = mset ys" "distinct (map f xs)"
  shows "sort_key f xs = sort_key f ys"
proof (rule sort_key_inj_key_eq)
  show "mset xs = mset (sort_key f ys)" using assms(1) by simp
  show "inj_on f (set xs)" using assms(2) by (simp add: distinct_map)
qed simp

lemma ps_module_public_summary [simp]: "ps_module (public_summary n) = mn_key n"
  by (simp add: public_summary_def)

lemma fingerprints_lookup:
  assumes "distinct (map ps_module summaries)" "s \<in> set summaries"
  shows "bt_get (is_fingerprints (snapshot_from_summaries to_vec summaries l m)) (ps_module s) =
    Some (summary_fingerprint to_vec s)"
proof -
  let ?kvs = "map (\<lambda>s. (ps_module s, summary_fingerprint to_vec s)) (sort_key ps_module summaries)"
  have "mset (map ps_module (sort_key ps_module summaries)) = mset (map ps_module summaries)" by simp
  then have "distinct (map ps_module (sort_key ps_module summaries))"
    using assms(1) mset_eq_imp_distinct_iff by blast
  then have "distinct (map fst (rev ?kvs))"
    by (simp add: o_def rev_map [symmetric])
  moreover have "(ps_module s, summary_fingerprint to_vec s) \<in> set (rev ?kvs)"
    using assms(2) by simp
  ultimately show ?thesis
    by (simp add: snapshot_from_summaries_def Let_def bt_get_from_list)
qed

text \<open>
  C24: a snapshot does not depend on the order in which the modules were bound, nor on
  anything below the public surface of a module (its expression and flow sites), and records
  for every module the fingerprint of its own summary.
\<close>

theorem snapshot_of_public_surface:
  assumes "distinct (map mn_key graph)"
    and "mset (map (\<lambda>n. n\<lparr>mn_sites := s, mn_fingerprint := 0\<rparr>) graph) =
         mset (map (\<lambda>n. n\<lparr>mn_sites := s, mn_fingerprint := 0\<rparr>) graph')"
  shows "snapshot to_vec graph = snapshot to_vec graph' \<and>
    (\<forall>n\<in>set graph. bt_get (is_fingerprints (snapshot to_vec graph)) (mn_key n) =
       Some (summary_fingerprint to_vec (public_summary n)))"
proof -
  let ?public = "\<lambda>n. n\<lparr>mn_sites := s, mn_fingerprint := 0\<rparr>"
  have public: "public_summary (?public n) = public_summary n" for n
    by (simp add: public_summary_def top_level_def)
  then have undo: "map public_summary (map ?public g) = map public_summary g" for g by simp
  have "image_mset public_summary (mset (map ?public graph)) =
      image_mset public_summary (mset (map ?public graph'))"
    unfolding assms(2) ..
  then have "mset (map public_summary graph) = mset (map public_summary graph')"
    unfolding mset_map [symmetric] undo .
  moreover have d: "distinct (map ps_module (map public_summary graph))"
    using assms(1) by (simp add: o_def)
  ultimately have "sort_key ps_module (map public_summary graph) = sort_key ps_module (map public_summary graph')"
    by (rule sort_key_order)
  then have "snapshot to_vec graph = snapshot to_vec graph'"
    unfolding snapshot_def snapshot_from_summaries_def by simp
  moreover have "\<forall>n\<in>set graph. bt_get (is_fingerprints (snapshot to_vec graph)) (mn_key n) =
       Some (summary_fingerprint to_vec (public_summary n))"
    unfolding snapshot_def using fingerprints_lookup [OF d] by fastforce
  ultimately show ?thesis by blast
qed

definition sample_node :: "string \<Rightarrow> nat \<Rightarrow> nat module_node" where
  "sample_node key sites =
     \<lparr>mn_path = key @ ''.tpy'', mn_key = key, mn_kind = TypePythonSource,
      mn_declarations = [bare_declaration ''f'' DFunction (MCallable (from_function_parts [] (Some ''int'')))],
      mn_sites = sites, mn_fingerprint = of_nat sites\<rparr>"

theorem snapshot_of_public_surface_witness:
  "snapshot (\<lambda>s. Some (as_bytes (ps_module s))) [sample_node ''a'' 1, sample_node ''b'' 2] =
   snapshot (\<lambda>s. Some (as_bytes (ps_module s))) [sample_node ''b'' 3, sample_node ''a'' 4]"
  using snapshot_of_public_surface [of "[sample_node ''a'' 1, sample_node ''b'' 2]" 0
      "[sample_node ''b'' 3, sample_node ''a'' 4]"]
  by (simp add: sample_node_def)

end
