(* ===== verification/Incremental.thy ===== *)
theory Incremental
  imports Public_Summary
begin

text \<open>
  Incremental planning (crates/typepython_incremental, lib.rs): the difference of two
  snapshots, the import index of a graph and the one rebuilt from persisted summaries, and
  the set of modules to check again.
\<close>

section \<open>Differences\<close>

record fingerprint_entry =
  fe_module_key :: string
  fe_fingerprint :: u64

record snapshot_diff =
  df_added :: "fingerprint_entry list"
  df_removed :: "fingerprint_entry list"
  df_changed :: "fingerprint_entry list"

definition fingerprint_entry_of :: "string \<times> u64 \<Rightarrow> fingerprint_entry" where
  "fingerprint_entry_of e = \<lparr>fe_module_key = fst e, fe_fingerprint = snd e\<rparr>"

definition compare_entry :: "(string \<times> u64) list \<Rightarrow> string \<times> u64 \<Rightarrow> snapshot_diff \<Rightarrow> snapshot_diff" where
  "compare_entry previous e d =
     (case bt_get previous (fst e) of
        None \<Rightarrow> d\<lparr>df_added := df_added d @ [fingerprint_entry_of e]\<rparr>
      | Some f \<Rightarrow> if f \<noteq> snd e then d\<lparr>df_changed := df_changed d @ [fingerprint_entry_of e]\<rparr> else d)"

definition compare_removed :: "(string \<times> u64) list \<Rightarrow> string \<times> u64 \<Rightarrow> snapshot_diff \<Rightarrow> snapshot_diff" where
  "compare_removed current e d =
     (if bt_get current (fst e) = None
      then d\<lparr>df_removed := df_removed d @ [fingerprint_entry_of e]\<rparr> else d)"

definition diff :: "incremental_state \<Rightarrow> incremental_state \<Rightarrow> snapshot_diff" where
  "diff previous current =
     fold (compare_removed (is_fingerprints current)) (is_fingerprints previous)
       (fold (compare_entry (is_fingerprints previous)) (is_fingerprints current)
         \<lparr>df_added = [], df_removed = [], df_changed = []\<rparr>)"

definition snapshot_diff_modules :: "snapshot_diff \<Rightarrow> string list" where
  "snapshot_diff_modules d =
     bs_from_list (map fe_module_key (df_added d @ df_removed d @ df_changed d))"

definition source_change_modules :: "incremental_state \<Rightarrow> incremental_state \<Rightarrow> string list" where
  "source_change_modules previous current =
     fold (\<lambda>(key, h) changed. if bt_get (is_source_hashes current) key = None
                              then bs_insert key changed else changed)
       (is_source_hashes previous)
       (fold (\<lambda>(key, h) changed. if bt_get (is_source_hashes previous) key = Some h
                                 then changed else bs_insert key changed)
         (is_source_hashes current) [])"

section \<open>Import index\<close>

record module_dependency_index =
  mi_imports_by_module :: "(string \<times> string list) list"
  mi_reverse_imports :: "(string \<times> string list) list"

text \<open>The key itself, then its prefixes before a dot, longest first.\<close>

function first_parent_in :: "string list \<Rightarrow> string \<Rightarrow> string option" where
  "first_parent_in module_keys current =
     (case rsplit_once CHR ''.'' current of
        None \<Rightarrow> None
      | Some (parent, _) \<Rightarrow>
          if parent \<in> set module_keys then Some parent else first_parent_in module_keys parent)"
  by pat_completeness auto
termination
  by (relation "measure (\<lambda>(_, current). length current)") (auto dest: rsplit_once_shorter)
declare first_parent_in.simps [simp del]

definition resolve_import_module_key :: "string \<Rightarrow> string list \<Rightarrow> string option" where
  "resolve_import_module_key detail module_keys =
     (if detail \<in> set module_keys then Some detail else first_parent_in module_keys detail)"

text \<open>\<^verbatim>\<open>map.entry(k).or_default().insert(v)\<close> for a map of sets.\<close>

definition bt_add :: "string \<Rightarrow> string \<Rightarrow> (string \<times> string list) list \<Rightarrow> (string \<times> string list) list" where
  "bt_add k v m = bt_insert k (bs_insert v (case_option [] id (bt_get m k))) m"

text \<open>The body of the loop over modules: record the imports of one, both ways.\<close>

definition add_imports :: "string \<times> string list \<Rightarrow> module_dependency_index \<Rightarrow> module_dependency_index" where
  "add_imports entry index =
     (let (key, imports) = entry
      in \<lparr>mi_imports_by_module = bt_insert key imports (mi_imports_by_module index),
          mi_reverse_imports =
            fold (\<lambda>imported. bt_add imported key) imports (mi_reverse_imports index)\<rparr>)"

definition node_imports :: "string list \<Rightarrow> 's module_node \<Rightarrow> string list" where
  "node_imports module_keys node =
     bs_from_list (List.map_filter
       (\<lambda>d. Option.bind (map_option it_module_target (import_target d))
              (\<lambda>target. resolve_import_module_key target module_keys))
       (filter (\<lambda>d. d_kind d = DImport) (filter (\<lambda>d. d_owner d = None) (mn_declarations node))))"

definition dependency_index :: "'s module_node list \<Rightarrow> module_dependency_index" where
  "dependency_index graph =
     (let module_keys = bs_from_list (map mn_key graph);
          no_imports = bt_from_list (map (\<lambda>node. (mn_key node, [])) graph)
      in fold (\<lambda>node. add_imports (mn_key node, node_imports module_keys node)) graph
           \<lparr>mi_imports_by_module = no_imports, mi_reverse_imports = no_imports\<rparr>)"

definition summary_imports :: "string list \<Rightarrow> public_summary_data \<Rightarrow> string list" where
  "summary_imports module_keys summary =
     bs_from_list
       (if ps_import_targets summary = []
        then List.map_filter (\<lambda>target. resolve_import_module_key target module_keys) (ps_imports summary)
        else List.map_filter (\<lambda>target. resolve_import_module_key (si_module_target target) module_keys)
               (ps_import_targets summary))"

definition dependency_index_from_summaries :: "public_summary_data list \<Rightarrow> module_dependency_index" where
  "dependency_index_from_summaries summaries =
     (let module_keys = bs_from_list (map ps_module summaries);
          no_imports = bt_from_list (map (\<lambda>key. (key, [])) module_keys)
      in fold (\<lambda>s. add_imports (ps_module s, summary_imports module_keys s)) summaries
           \<lparr>mi_imports_by_module = no_imports, mi_reverse_imports = no_imports\<rparr>)"

section \<open>Affected modules\<close>

definition importers_in :: "module_dependency_index \<Rightarrow> string \<Rightarrow> string list" where
  "importers_in index key = case_option [] id (bt_get (mi_reverse_imports index) key)"

definition reverse_importers ::
    "module_dependency_index option \<Rightarrow> module_dependency_index \<Rightarrow> string \<Rightarrow> string list" where
  "reverse_importers previous current key =
     (case previous of
        None \<Rightarrow> importers_in current key
      | Some p \<Rightarrow> bs_union (importers_in current key) (importers_in p key))"

type_synonym visit_state = "string list \<times> string list \<times> string list"

text \<open>The loop over the importers of one module, on (queue, visited, affected).\<close>

definition visit_importer :: "string \<Rightarrow> visit_state \<Rightarrow> visit_state" where
  "visit_importer importer state =
     (let (queue, visited, affected) = state
      in if importer \<in> set visited then (queue, visited, bs_insert importer affected)
         else (queue @ [importer], bs_insert importer visited, bs_insert importer affected))"

definition all_importers :: "module_dependency_index option \<Rightarrow> module_dependency_index \<Rightarrow> string set" where
  "all_importers previous current =
     (\<Union>e\<in>set (mi_reverse_imports current). set (snd e)) \<union>
     (case previous of None \<Rightarrow> {} | Some p \<Rightarrow> \<Union>e\<in>set (mi_reverse_imports p). set (snd e))"

lemma importers_in_values: "set (importers_in i k) \<subseteq> (\<Union>e\<in>set (mi_reverse_imports i). set (snd e))"
proof (cases "bt_get (mi_reverse_imports i) k")
  case (Some xs)
  then have "(k, xs) \<in> set (mi_reverse_imports i)" unfolding bt_get_def by (rule map_of_SomeD)
  then show ?thesis using Some by (force simp: importers_in_def)
qed (simp add: importers_in_def)

lemma reverse_importers_values: "set (reverse_importers p c k) \<subseteq> all_importers p c"
  using importers_in_values [of c k] importers_in_values [of "the p" k]
  unfolding reverse_importers_def all_importers_def by (cases p) (simp_all add: le_supI1 le_supI2)

lemma all_importers_finite [simp]: "finite (all_importers p c)"
  by (simp add: all_importers_def split: option.splits)

lemma visit_sets:
  assumes "fold visit_importer xs (q, v, a) = (q', v', a')"
  shows "set v' = set v \<union> set xs" "set a' = set a \<union> set xs"
    and "set q' = set q \<union> (set xs - set v)" "set xs \<subseteq> set v \<Longrightarrow> q' = q"
proof -
  have "set v' = set v \<union> set xs \<and> set a' = set a \<union> set xs \<and>
    set q' = set q \<union> (set xs - set v) \<and> (set xs \<subseteq> set v \<longrightarrow> q' = q)"
    using assms
  proof (induction xs arbitrary: q v a)
    case (Cons x xs)
    show ?case
    proof (cases "x \<in> set v")
      case True
      then show ?thesis
        using Cons.IH [of q v "bs_insert x a"] Cons.prems by (auto simp: visit_importer_def)
    next
      case False
      then show ?thesis
        using Cons.IH [of "q @ [x]" "bs_insert x v" "bs_insert x a"] Cons.prems
        by (auto simp: visit_importer_def)
    qed
  qed simp
  then show "set v' = set v \<union> set xs" "set a' = set a \<union> set xs"
    "set q' = set q \<union> (set xs - set v)" "set xs \<subseteq> set v \<Longrightarrow> q' = q" by blast+
qed

lemma visit_decreases:
  assumes "fold visit_importer (reverse_importers p c k) (q, v, a) = (q', v', a')"
  shows "card (all_importers p c - set v') < card (all_importers p c - set v) \<or>
    card (all_importers p c - set v') = card (all_importers p c - set v) \<and> q' = q"
proof (cases "set (reverse_importers p c k) \<subseteq> set v")
  case True
  then show ?thesis using visit_sets [OF assms] by (simp add: Un_absorb2)
next
  case False
  then obtain x where "x \<in> set (reverse_importers p c k)" "x \<notin> set v" by blast
  then have "all_importers p c - set v' \<subset> all_importers p c - set v"
    using visit_sets(1) [OF assms] reverse_importers_values [of p c k] by blast
  then show ?thesis by (simp add: psubset_card_mono)
qed

text \<open>\<^verbatim>\<open>while let Some(module_key) = queue.pop_front()\<close>; the result is (visited, affected).\<close>

function drain ::
    "module_dependency_index option \<Rightarrow> module_dependency_index \<Rightarrow> visit_state \<Rightarrow> string list \<times> string list" where
  "drain previous current ([], visited, affected) = (visited, affected)"
| "drain previous current (key # queue, visited, affected) =
     drain previous current
       (fold visit_importer (reverse_importers previous current key) (queue, visited, affected))"
  by pat_completeness auto
termination
proof (relation "inv_image (less_than <*lex*> less_than)
    (\<lambda>(p, c, q, v, a). (card (all_importers p c - set v), length q))")
  fix p c k q v a
  obtain q' v' a' where f: "fold visit_importer (reverse_importers p c k) (q, v, a) = (q', v', a')"
    by (metis prod_cases3)
  then show "((p, c, fold visit_importer (reverse_importers p c k) (q, v, a)), p, c, k # q, v, a) \<in>
      inv_image (less_than <*lex*> less_than) (\<lambda>(p, c, q, v, a). (card (all_importers p c - set v), length q))"
    using visit_decreases [OF f] by auto
qed (rule wf_inv_image, rule wf_lex_prod; rule wf_less_than)

definition affected_modules ::
    "module_dependency_index option \<Rightarrow> module_dependency_index \<Rightarrow> string list \<Rightarrow> string list \<Rightarrow> string list" where
  "affected_modules previous current direct_changes summary_changed_modules =
     (let affected = fold (\<lambda>key affected. if bt_get (mi_imports_by_module current) key \<noteq> None
                                          then bs_insert key affected else affected)
                       summary_changed_modules direct_changes
      in snd (drain previous current (summary_changed_modules, summary_changed_modules, affected)))"

section \<open>Snapshot files\<close>

definition SNAPSHOT_SCHEMA_VERSION :: u32 where
  "SNAPSHOT_SCHEMA_VERSION = 7"

record snapshot_file =
  sn_schema_version :: u32
  sn_fingerprints :: "(string \<times> u64) list"
  sn_source_hashes :: "(string \<times> u64) list"
  sn_summaries :: "public_summary_data list"
  sn_stdlib_snapshot :: "string option"
  sn_metadata :: snapshot_metadata

datatype snapshot_decode_error = InvalidJson string | IncompatibleSchemaVersion u32

definition encode_snapshot :: "(snapshot_file \<Rightarrow> 'e + string) \<Rightarrow> incremental_state \<Rightarrow> 'e + string" where
  "encode_snapshot to_json state =
     to_json \<lparr>sn_schema_version = SNAPSHOT_SCHEMA_VERSION, sn_fingerprints = is_fingerprints state,
       sn_source_hashes = is_source_hashes state, sn_summaries = is_summaries state,
       sn_stdlib_snapshot = is_stdlib_snapshot state, sn_metadata = is_metadata state\<rparr>"

definition decode_snapshot ::
    "(string \<Rightarrow> string + snapshot_file) \<Rightarrow> string \<Rightarrow> snapshot_decode_error + incremental_state" where
  "decode_snapshot from_json contents =
     (case from_json contents of
        Inl e \<Rightarrow> Inl (InvalidJson e)
      | Inr s \<Rightarrow>
          if sn_schema_version s \<noteq> SNAPSHOT_SCHEMA_VERSION
          then Inl (IncompatibleSchemaVersion (sn_schema_version s))
          else Inr \<lparr>is_fingerprints = sn_fingerprints s, is_source_hashes = sn_source_hashes s,
            is_summaries = sn_summaries s, is_stdlib_snapshot = sn_stdlib_snapshot s,
            is_metadata = sn_metadata s\<rparr>)"

section \<open>Differences\<close>

lemma fold_compare_entry:
  "fold (compare_entry p) es d =
    d\<lparr>df_added := df_added d @ map fingerprint_entry_of (filter (\<lambda>e. bt_get p (fst e) = None) es),
      df_changed := df_changed d @ map fingerprint_entry_of
        (filter (\<lambda>e. \<exists>f. bt_get p (fst e) = Some f \<and> f \<noteq> snd e) es)\<rparr>"
  by (induction es arbitrary: d) (auto simp: compare_entry_def split: option.splits)

lemma fold_compare_removed:
  "fold (compare_removed c) es d =
    d\<lparr>df_removed := df_removed d @ map fingerprint_entry_of (filter (\<lambda>e. bt_get c (fst e) = None) es)\<rparr>"
  by (induction es arbitrary: d) (auto simp: compare_removed_def)

lemma diff_eq:
  "diff previous current =
    \<lparr>df_added = map fingerprint_entry_of
        (filter (\<lambda>e. bt_get (is_fingerprints previous) (fst e) = None) (is_fingerprints current)),
      df_removed = map fingerprint_entry_of
        (filter (\<lambda>e. bt_get (is_fingerprints current) (fst e) = None) (is_fingerprints previous)),
      df_changed = map fingerprint_entry_of
        (filter (\<lambda>e. \<exists>f. bt_get (is_fingerprints previous) (fst e) = Some f \<and> f \<noteq> snd e)
          (is_fingerprints current))\<rparr>"
  unfolding diff_def fold_compare_entry fold_compare_removed by simp

lemma differs_iff:
  assumes "bt_ok p" "bt_ok c"
  shows "bt_get p k \<noteq> bt_get c k \<longleftrightarrow>
    (\<exists>v. (k, v) \<in> set c \<and> bt_get p k \<noteq> Some v) \<or> (\<exists>v. (k, v) \<in> set p \<and> bt_get c k = None)"
  unfolding bt_get_Some_iff [OF assms(1), symmetric] bt_get_Some_iff [OF assms(2), symmetric]
  by (cases "bt_get p k"; cases "bt_get c k") auto

lemma diff_modules_set:
  assumes "bt_ok (is_fingerprints p)" "bt_ok (is_fingerprints c)"
  shows "k \<in> set (snapshot_diff_modules (diff p c)) \<longleftrightarrow>
    bt_get (is_fingerprints p) k \<noteq> bt_get (is_fingerprints c) k"
proof -
  have "k \<in> set (snapshot_diff_modules (diff p c)) \<longleftrightarrow>
    (\<exists>v. (k, v) \<in> set (is_fingerprints c) \<and> bt_get (is_fingerprints p) k \<noteq> Some v) \<or>
    (\<exists>v. (k, v) \<in> set (is_fingerprints p) \<and> bt_get (is_fingerprints c) k = None)"
    unfolding snapshot_diff_modules_def diff_eq
    by (cases "bt_get (is_fingerprints p) k") (force simp: fingerprint_entry_of_def image_iff)+
  then show ?thesis unfolding differs_iff [OF assms] .
qed

lemma source_changes_set:
  assumes "bt_ok (is_source_hashes p)" "bt_ok (is_source_hashes c)"
  shows "k \<in> set (source_change_modules p c) \<longleftrightarrow>
    bt_get (is_source_hashes p) k \<noteq> bt_get (is_source_hashes c) k"
proof -
  have a: "k \<in> set (fold (\<lambda>(key, h) changed. if q key h then changed else bs_insert key changed) es s) \<longleftrightarrow>
      k \<in> set s \<or> (\<exists>v. (k, v) \<in> set es \<and> \<not> q k v)" for q :: "string \<Rightarrow> u64 \<Rightarrow> bool" and es s
    by (induction es arbitrary: s) (auto split: if_splits)
  have b: "k \<in> set (fold (\<lambda>(key, h) changed. if q key then bs_insert key changed else changed) es s) \<longleftrightarrow>
      k \<in> set s \<or> (\<exists>v. (k, v :: u64) \<in> set es \<and> q k)" for q :: "string \<Rightarrow> bool" and es s
    by (induction es arbitrary: s) (auto split: if_splits)
  show ?thesis
    unfolding source_change_modules_def differs_iff [OF assms] a b by auto
qed

section \<open>Resolving imports\<close>

lemma first_parent_in_None: "rsplit_once CHR ''.'' s = None \<Longrightarrow> first_parent_in keys s = None"
  by (subst first_parent_in.simps) simp

lemma first_parent_in_Some:
  "rsplit_once CHR ''.'' s = Some (parent, rest) \<Longrightarrow>
    first_parent_in keys s = (if parent \<in> set keys then Some parent else first_parent_in keys parent)"
  by (subst first_parent_in.simps) simp

lemma first_parent_in:
  "first_parent_in keys s = Some key \<longleftrightarrow>
    key \<in> set keys \<and> (\<exists>r. s = key @ CHR ''.'' # r \<and>
      (\<forall>k\<in>set keys. \<forall>q. s = k @ CHR ''.'' # q \<longrightarrow> length k \<le> length key))"
proof (induction s rule: length_induct)
  case (1 s)
  show ?case
  proof (cases "rsplit_once CHR ''.'' s")
    case None
    then show ?thesis by (auto simp: rsplit_once_None first_parent_in_None [OF None])
  next
    case (Some pr)
    obtain parent rest where s: "pr = (parent, rest)" by fastforce
    with Some have eq: "s = parent @ CHR ''.'' # rest" "CHR ''.'' \<notin> set rest"
      by (simp_all add: rsplit_once_Some)
    have split: "s = k @ CHR ''.'' # q \<longleftrightarrow> (k = parent \<and> q = rest) \<or>
        (\<exists>q'. parent = k @ CHR ''.'' # q' \<and> q = q' @ CHR ''.'' # rest)" for k q
      using eq by (auto simp: append_eq_append_conv2 Cons_eq_append_conv append_eq_Cons_conv)
    have longer: "length k < length parent" if "parent = k @ CHR ''.'' # q'" for k q'
      using that by simp
    show ?thesis
    proof (cases "parent \<in> set keys")
      case True
      then have "first_parent_in keys s = Some parent"
        using first_parent_in_Some [of s parent rest keys] Some s by simp
      then show ?thesis
        using True longer unfolding split by (auto simp: not_less)
    next
      case False
      then have "first_parent_in keys s = first_parent_in keys parent"
        using first_parent_in_Some [of s parent rest keys] Some s by simp
      moreover have "length parent < length s" using eq by simp
      ultimately show ?thesis
        using 1 False unfolding split by auto
    qed
  qed
qed

text \<open>The keys an import may resolve to: the target itself and its prefixes before a dot.\<close>

definition covers :: "string \<Rightarrow> string \<Rightarrow> bool" where
  "covers key target \<longleftrightarrow> target = key \<or> (\<exists>rest. target = key @ CHR ''.'' # rest)"

text \<open>
  An import resolves exactly to the longest known module key that is the target or a
  prefix of it ending before a dot, and to nothing when there is none.
\<close>

lemma resolve_longest_prefix:
  "resolve_import_module_key target keys = Some key \<longleftrightarrow>
    key \<in> set keys \<and> covers key target \<and> (\<forall>k\<in>set keys. covers k target \<longrightarrow> length k \<le> length key)"
proof (cases "target \<in> set keys")
  case True
  have shorter: "length k \<le> length target" if "covers k target" for k
    using that by (auto simp: covers_def)
  have same: "k = target" if "covers k target" "length target \<le> length k" for k
    using that by (auto simp: covers_def)
  have "covers target target" by (simp add: covers_def)
  then show ?thesis
    using True shorter same by (auto simp: resolve_import_module_key_def)
next
  case False
  have "covers k target \<longleftrightarrow> (\<exists>q. target = k @ CHR ''.'' # q)" if "k \<in> set keys" for k
    using that False by (auto simp: covers_def)
  then show ?thesis
    using False unfolding resolve_import_module_key_def by (simp add: first_parent_in) blast
qed

text \<open>
  For well-formed maps, the modules of a difference are exactly those whose fingerprints
  differ (missing ones included), the same holds for the source hashes, and the difference is
  empty exactly when the fingerprints are equal.
\<close>

lemma snapshot_changes_exact:
  assumes "bt_ok (is_fingerprints p)" "bt_ok (is_fingerprints c)"
    and "bt_ok (is_source_hashes p)" "bt_ok (is_source_hashes c)"
  shows "set (snapshot_diff_modules (diff p c)) =
      {k. bt_get (is_fingerprints p) k \<noteq> bt_get (is_fingerprints c) k} \<and>
    set (source_change_modules p c) =
      {k. bt_get (is_source_hashes p) k \<noteq> bt_get (is_source_hashes c) k} \<and>
    (diff p c = \<lparr>df_added = [], df_removed = [], df_changed = []\<rparr> \<longleftrightarrow>
      is_fingerprints p = is_fingerprints c)"
proof (intro conjI set_eqI)
  show "k \<in> set (snapshot_diff_modules (diff p c)) \<longleftrightarrow>
      k \<in> {k. bt_get (is_fingerprints p) k \<noteq> bt_get (is_fingerprints c) k}" for k
    using diff_modules_set [OF assms(1,2)] by simp
  show "k \<in> set (source_change_modules p c) \<longleftrightarrow>
      k \<in> {k. bt_get (is_source_hashes p) k \<noteq> bt_get (is_source_hashes c) k}" for k
    using source_changes_set [OF assms(3,4)] by simp
  show "diff p c = \<lparr>df_added = [], df_removed = [], df_changed = []\<rparr> \<longleftrightarrow>
      is_fingerprints p = is_fingerprints c"
  proof
    assume d: "diff p c = \<lparr>df_added = [], df_removed = [], df_changed = []\<rparr>"
    then have "set (snapshot_diff_modules (diff p c)) = {}"
      by (simp add: snapshot_diff_modules_def)
    then have "bt_get (is_fingerprints p) k = bt_get (is_fingerprints c) k" for k
      using diff_modules_set [OF assms(1,2), of k] by simp
    then show "is_fingerprints p = is_fingerprints c" by (rule bt_eqI [OF assms(1,2)])
  next
    assume e: "is_fingerprints p = is_fingerprints c"
    have "bt_get (is_fingerprints c) (fst x) = Some (snd x)" if "x \<in> set (is_fingerprints c)" for x
      using that bt_get_Some_iff [OF assms(2), of "fst x" "snd x"] by simp
    then show "diff p c = \<lparr>df_added = [], df_removed = [], df_changed = []\<rparr>"
      unfolding diff_eq e by (auto simp: filter_empty_conv)
  qed
qed

definition sample_state :: "(string \<times> u64) list \<Rightarrow> incremental_state" where
  "sample_state fingerprints =
     \<lparr>is_fingerprints = fingerprints, is_source_hashes = [(''a'', 1)], is_summaries = [],
      is_stdlib_snapshot = None, is_metadata = default_metadata\<rparr>"

section \<open>The import index\<close>

lemma set_map_filter_iff: "y \<in> set (List.map_filter f xs) \<longleftrightarrow> (\<exists>x\<in>set xs. f x = Some y)"
  by (induction xs) (auto simp: map_filter_simps split: option.splits)

lemma map_of_const: "map_of (map (\<lambda>x. (f x, c)) xs) k = (if k \<in> f ` set xs then Some c else None)"
  by (induction xs) auto

lemma dedup_by_key_keys: "f ` set (dedup_by_key f xs) = f ` set xs"
  by (induction f xs rule: dedup_by_key.induct) auto

lemma dedup_by_key_subset: "set (dedup_by_key f xs) \<subseteq> set xs"
  by (induction f xs rule: dedup_by_key.induct) auto

lemma dedup_by_key_Nil: "dedup_by_key f xs = [] \<longleftrightarrow> xs = []"
  by (induction f xs rule: dedup_by_key.induct) auto

text \<open>Import targets as \<^verbatim>\<open>BoundImportTarget::new\<close> makes them.\<close>

definition well_bound :: "'s module_node \<Rightarrow> bool" where
  "well_bound node \<longleftrightarrow>
     list_all (\<lambda>d. case import_target d of None \<Rightarrow> True
                  | Some t \<Rightarrow> it_module_target t = it_raw_target t) (mn_declarations node)"

lemma import_targets_top_level:
  "t \<in> set (import_targets_of (top_level node)) \<longleftrightarrow>
    (\<exists>d\<in>set (mn_declarations node). d_owner d = None \<and> d_kind d = DImport \<and> import_target d = Some t)"
  unfolding import_targets_of_def set_map_filter_iff by (auto simp: top_level_def)

lemma node_imports_set:
  "i \<in> set (node_imports keys node) \<longleftrightarrow>
    (\<exists>t\<in>set (import_targets_of (top_level node)). resolve_import_module_key (it_module_target t) keys = Some i)"
  unfolding node_imports_def set_bs_from_list set_map_filter_iff Bex_def import_targets_top_level
  by (auto simp: bind_eq_Some_conv)

lemma summary_targets:
  "si_raw_target ` set (ps_import_targets (public_summary node)) =
    it_raw_target ` set (import_targets_of (top_level node))"
  by (simp add: public_summary_def dedup_by_key_keys image_image summary_import_target_of_def)

lemma summary_target_modules:
  assumes "well_bound node" "t \<in> set (ps_import_targets (public_summary node))"
  shows "si_module_target t = si_raw_target t"
proof -
  have "t \<in> summary_import_target_of ` set (import_targets_of (top_level node))"
    using assms(2) dedup_by_key_subset [of si_raw_target] by (fastforce simp: public_summary_def)
  then obtain b d where "t = summary_import_target_of b" "d \<in> set (mn_declarations node)"
    "import_target d = Some b"
    using import_targets_top_level by blast
  then show ?thesis using assms(1) by (force simp: well_bound_def list_all_iff summary_import_target_of_def)
qed

lemma node_target_modules:
  "well_bound node \<Longrightarrow> t \<in> set (import_targets_of (top_level node)) \<Longrightarrow>
    it_module_target t = it_raw_target t"
  unfolding import_targets_top_level by (force simp: well_bound_def list_all_iff)

lemma summary_imports_eq:
  assumes "well_bound node"
  shows "summary_imports keys (public_summary node) = node_imports keys node"
proof (rule bs_eqI)
  show "set (summary_imports keys (public_summary node)) = set (node_imports keys node)"
  proof (cases "ps_import_targets (public_summary node) = []")
    case True
    then have none: "import_targets_of (top_level node) = []"
      using summary_targets [of node] by simp
    then have "ps_imports (public_summary node) = []" by (simp add: public_summary_def)
    then have "set (summary_imports keys (public_summary node)) = {}"
      using True by (simp add: summary_imports_def map_filter_simps)
    moreover have "i \<notin> set (node_imports keys node)" for i
      using none node_imports_set [of i keys node] by simp
    ultimately show ?thesis by (intro set_eqI) auto
  next
    case False
    have "i \<in> set (summary_imports keys (public_summary node)) \<longleftrightarrow>
      (\<exists>r\<in>si_raw_target ` set (ps_import_targets (public_summary node)).
         resolve_import_module_key r keys = Some i)" for i
      using False summary_target_modules [OF assms]
      by (auto simp: summary_imports_def set_map_filter_iff)
    moreover have "i \<in> set (node_imports keys node) \<longleftrightarrow>
      (\<exists>r\<in>it_raw_target ` set (import_targets_of (top_level node)).
         resolve_import_module_key r keys = Some i)" for i
      using node_target_modules [OF assms] by (auto simp: node_imports_set)
    ultimately show ?thesis unfolding summary_targets by blast
  qed
qed (simp_all add: summary_imports_def node_imports_def)

text \<open>
  C27: the index rebuilt from the persisted summaries is the index of the graph they were
  taken from, so the plan of an incremental run does not depend on which one is at hand.
\<close>

theorem summaries_rebuild_index:
  assumes "\<forall>node\<in>set graph. well_bound node"
  shows "dependency_index_from_summaries (map public_summary graph) = dependency_index graph"
proof -
  let ?keys = "bs_from_list (map mn_key graph)"
  have keys: "bs_from_list (map ps_module (map public_summary graph)) = ?keys" by (simp add: o_def)
  have start: "bt_from_list (map (\<lambda>key. (key, [])) ?keys) =
      bt_from_list (map (\<lambda>node. (mn_key node, [] :: string list)) graph)"
    by (rule bt_eqI) (simp_all add: bt_get_from_list rev_map map_of_const)
  have "fold (\<lambda>s. add_imports (ps_module s, summary_imports ?keys s)) (map public_summary graph) idx =
      fold (\<lambda>node. add_imports (mn_key node, node_imports ?keys node)) graph idx" for idx
    unfolding fold_map
  proof (rule fold_cong)
    fix node
    assume "node \<in> set graph"
    then show "((\<lambda>s. add_imports (ps_module s, summary_imports ?keys s)) \<circ> public_summary) node =
        add_imports (mn_key node, node_imports ?keys node)"
      using assms summary_imports_eq [of node] by simp
  qed (rule refl)+
  then show ?thesis
    unfolding dependency_index_from_summaries_def dependency_index_def keys Let_def start by simp
qed

text \<open>A module that imports a name of another, and a graph of three with two such imports.\<close>

definition importing_node :: "string \<Rightarrow> string \<Rightarrow> nat module_node" where
  "importing_node key target =
     (sample_node key 0)\<lparr>mn_declarations :=
        [bare_declaration ''f'' DImport (MImport (bound_import_target target))]\<rparr>"

definition importing_graph :: "nat module_node list" where
  "importing_graph =
     [sample_node ''a'' 1, importing_node ''b'' ''a.f'', importing_node ''c'' ''b'']"

theorem summaries_rebuild_index_witness:
  "dependency_index_from_summaries (map public_summary importing_graph) =
     dependency_index importing_graph \<and>
   mi_imports_by_module (dependency_index_from_summaries (map public_summary importing_graph)) =
     [(''a'', []), (''b'', [''a'']), (''c'', [''b''])] \<and>
   list_all (\<lambda>n. mn_key n = ''a'' \<or> list_ex (\<lambda>d. import_target d \<noteq> None) (mn_declarations n))
     importing_graph"
proof -
  have bound: "\<forall>node\<in>set importing_graph. well_bound node"
    unfolding list_all_iff [symmetric] by code_simp
  have "mi_imports_by_module (dependency_index importing_graph) =
      [(''a'', []), (''b'', [''a'']), (''c'', [''b''])]" by code_simp
  moreover have "list_all (\<lambda>n. mn_key n = ''a'' \<or> list_ex (\<lambda>d. import_target d \<noteq> None) (mn_declarations n))
     importing_graph" by code_simp
  ultimately show ?thesis using summaries_rebuild_index [OF bound] by simp
qed

lemma fold_imports_by_module:
  "mi_imports_by_module (fold (\<lambda>x. add_imports (f x, g x)) xs idx) =
    fold (\<lambda>x. bt_insert (f x) (g x)) xs (mi_imports_by_module idx)"
  by (induction xs arbitrary: idx) (simp_all add: add_imports_def)

lemma bt_ok_add [simp]: "bt_ok m \<Longrightarrow> bt_ok (bt_add k v m)"
  by (simp add: bt_add_def)

lemma bt_adds:
  "bt_ok m \<Longrightarrow> bt_ok (fold (\<lambda>i. bt_add i k) is m) \<and>
    set (case_option [] id (bt_get (fold (\<lambda>i. bt_add i k) is m) j)) =
      set (case_option [] id (bt_get m j)) \<union> (if j \<in> set is then {k} else {})"
  by (induction "is" arbitrary: m) (auto simp: bt_add_def)

lemma importers_fold:
  assumes "bt_ok (mi_reverse_imports idx)"
  shows "set (importers_in (fold (\<lambda>x. add_imports (f x, g x)) xs idx) j) =
    set (importers_in idx j) \<union> {f x | x. x \<in> set xs \<and> j \<in> set (g x)}"
  using assms
proof (induction xs arbitrary: idx)
  case (Cons x xs)
  let ?idx = "add_imports (f x, g x) idx"
  have "bt_ok (mi_reverse_imports ?idx)"
    "set (importers_in ?idx j) = set (importers_in idx j) \<union> (if j \<in> set (g x) then {f x} else {})"
    using bt_adds [OF Cons.prems, of "f x" "g x" j] by (simp_all add: add_imports_def importers_in_def)
  then show ?case using Cons.IH [of ?idx] by auto
qed simp

text \<open>
  For modules with different keys the index holds each module's resolved imports, and a
  module is an importer of another exactly when the other is among its imports.
\<close>

lemma dependency_index_transposed:
  assumes "distinct (map mn_key graph)"
  shows "(\<forall>n\<in>set graph. bt_get (mi_imports_by_module (dependency_index graph)) (mn_key n) =
      Some (node_imports (bs_from_list (map mn_key graph)) n)) \<and>
    set (importers_in (dependency_index graph) imported) =
      {mn_key n | n. n \<in> set graph \<and> imported \<in> set (node_imports (bs_from_list (map mn_key graph)) n)}"
proof
  let ?keys = "bs_from_list (map mn_key graph)"
  let ?no = "bt_from_list (map (\<lambda>node. (mn_key node, [] :: string list)) graph)"
  show "\<forall>n\<in>set graph. bt_get (mi_imports_by_module (dependency_index graph)) (mn_key n) =
      Some (node_imports ?keys n)"
    unfolding dependency_index_def Let_def fold_imports_by_module
    by (rule ballI, rule bt.lookup_inserts_distinct [OF _ assms]) simp_all
  have "importers_in \<lparr>mi_imports_by_module = ?no, mi_reverse_imports = ?no\<rparr> imported = []"
    by (simp add: importers_in_def bt_get_from_list rev_map map_of_const)
  then show "set (importers_in (dependency_index graph) imported) =
      {mn_key n | n. n \<in> set graph \<and> imported \<in> set (node_imports ?keys n)}"
    unfolding dependency_index_def Let_def by (subst importers_fold) simp_all
qed

section \<open>Reachability\<close>

text \<open>A module and one that imports it, in the old or in the new index.\<close>

definition importer_rel ::
    "module_dependency_index option \<Rightarrow> module_dependency_index \<Rightarrow> (string \<times> string) set" where
  "importer_rel previous current = {(k, i). i \<in> set (reverse_importers previous current k)}"

lemma drain_sound:
  assumes "drain p c (q, v, a) = (v', a')"
  shows "set v \<subseteq> set v' \<and> set a \<subseteq> set a' \<and> set a' \<subseteq> set a \<union> (importer_rel p c)\<^sup>+ `` set q"
  using assms
proof (induction p c "(q, v, a)" arbitrary: q v a rule: drain.induct)
  case (2 p c k q v a)
  obtain q1 v1 a1 where f: "fold visit_importer (reverse_importers p c k) (q, v, a) = (q1, v1, a1)"
    by (metis prod_cases3)
  note s = visit_sets [OF f]
  have ih: "set v1 \<subseteq> set v' \<and> set a1 \<subseteq> set a' \<and> set a' \<subseteq> set a1 \<union> (importer_rel p c)\<^sup>+ `` set q1"
    using "2.hyps" [OF f] "2.prems" f by simp
  have xs: "set (reverse_importers p c k) \<subseteq> (importer_rel p c)\<^sup>+ `` set (k # q)"
    by (auto simp: importer_rel_def)
  have "set q1 \<subseteq> set q \<union> importer_rel p c `` {k}" using s(3) by (auto simp: importer_rel_def)
  then have "(importer_rel p c)\<^sup>+ `` set q1 \<subseteq> (importer_rel p c)\<^sup>+ `` set (k # q)"
    by (auto intro: trancl_into_trancl2)
  then show ?case using ih s(1,2) xs by blast
qed simp

text \<open>Every visited module has been expanded or still waits in the queue.\<close>

lemma drain_closed:
  assumes "drain p c (q, v, a) = (v', a')"
    and "\<forall>k\<in>set v - set q. set (reverse_importers p c k) \<subseteq> set v \<inter> set a"
  shows "\<forall>k\<in>set v'. set (reverse_importers p c k) \<subseteq> set v' \<inter> set a'"
  using assms
proof (induction p c "(q, v, a)" arbitrary: q v a rule: drain.induct)
  case (2 p c k q v a)
  obtain q1 v1 a1 where f: "fold visit_importer (reverse_importers p c k) (q, v, a) = (q1, v1, a1)"
    by (metis prod_cases3)
  note s = visit_sets [OF f]
  have "\<forall>j\<in>set v1 - set q1. set (reverse_importers p c j) \<subseteq> set v1 \<inter> set a1"
  proof
    fix j
    assume j: "j \<in> set v1 - set q1"
    then have "j \<in> set v" "j \<notin> set q" using s(1,3) by auto
    then have "j = k \<or> j \<in> set v - set (k # q)" by auto
    then show "set (reverse_importers p c j) \<subseteq> set v1 \<inter> set a1"
      using "2.prems"(2) s(1,2) by auto
  qed
  then show ?case using "2.hyps" [OF f] "2.prems"(1) f by simp
qed simp

lemma drain_affected:
  assumes "drain p c (q, q, a) = (v', a')"
  shows "set a' = set a \<union> (importer_rel p c)\<^sup>+ `` set q"
proof -
  note sound = drain_sound [OF assms]
  have closed: "\<forall>k\<in>set v'. set (reverse_importers p c k) \<subseteq> set v' \<inter> set a'"
    by (rule drain_closed [OF assms]) simp
  have "m \<in> set v' \<inter> set a'" if "(k, m) \<in> (importer_rel p c)\<^sup>+" "k \<in> set q" for k m
    using that
  proof (induction rule: trancl_induct)
    case (base y)
    then show ?case using closed sound by (auto simp: importer_rel_def)
  next
    case (step y z)
    then show ?case using closed by (auto simp: importer_rel_def)
  qed
  then show ?thesis using sound by blast
qed

lemma fold_known_set:
  "set (fold (\<lambda>key a. if P key then bs_insert key a else a) ks a) = set a \<union> {k\<in>set ks. P k}"
  by (induction ks arbitrary: a) auto

text \<open>
  C29: the modules to check again are the directly changed ones, the changed summaries still
  in the graph, and every module that imports a changed one through any chain of imports of the
  old or of the new index; and no other.
\<close>

theorem affected_modules_closure:
  "set (affected_modules previous current direct changed) =
     set direct \<union> {k\<in>set changed. bt_get (mi_imports_by_module current) k \<noteq> None} \<union>
     {m. \<exists>k\<in>set changed. (k, m) \<in> (importer_rel previous current)\<^sup>+}"
proof -
  let ?a = "fold (\<lambda>key a. if bt_get (mi_imports_by_module current) key \<noteq> None
    then bs_insert key a else a) changed direct"
  obtain v a where d: "drain previous current (changed, changed, ?a) = (v, a)" by fastforce
  then have "set (affected_modules previous current direct changed) = set a"
    by (simp add: affected_modules_def Let_def)
  also have "\<dots> = set ?a \<union> (importer_rel previous current)\<^sup>+ `` set changed"
    by (rule drain_affected [OF d])
  also have "(importer_rel previous current)\<^sup>+ `` set changed =
      {m. \<exists>k\<in>set changed. (k, m) \<in> (importer_rel previous current)\<^sup>+}"
    by auto
  finally show ?thesis unfolding fold_known_set .
qed

theorem affected_modules_closure_witness:
  "''b'' \<in> set (affected_modules None
     (dependency_index [sample_node ''a'' 1, importing_node ''b'' ''a.f'']) [''a''] [''a''])"
proof -
  have "''b'' \<in> set (reverse_importers None
      (dependency_index [sample_node ''a'' 1, importing_node ''b'' ''a.f'']) ''a'')"
    by code_simp
  then show ?thesis
    unfolding affected_modules_closure by (auto simp: importer_rel_def)
qed

text \<open>What is decoded was a file of this schema version.\<close>

lemma decode_snapshot_checks_version:
  "decode_snapshot from_json contents = Inr state \<Longrightarrow>
    \<exists>file. from_json contents = Inr file \<and> sn_schema_version file = SNAPSHOT_SCHEMA_VERSION"
  by (auto simp: decode_snapshot_def split: sum.splits if_splits)

lemma decode_encode_snapshot:
  "to_json = Inr \<circ> print \<Longrightarrow> (\<And>file. from_json (print file) = Inr file) \<Longrightarrow>
    encode_snapshot to_json state = Inr contents \<Longrightarrow> decode_snapshot from_json contents = Inr state"
  by (auto simp: encode_snapshot_def decode_snapshot_def)

end
