(* ===== verification/Lsp_Scheduler.thy ===== *)
theory Lsp_Scheduler
  imports BTree
begin

text \<open>
  The scheduler of the language server (crates/typepython_lsp, scheduler.rs): diagnostics wait
  for a debounce time, a batch replaces the one that waits, interactive requests may defer a
  due batch three times, and requests can be cancelled by id. An instant is a natural number
  of milliseconds; each operation that reads the clock takes the instant it reads.
\<close>

section \<open>JSON values\<close>

text \<open>
  \<^verbatim>\<open>serde_json::Value\<close>: integers are those of 64 bits, signed or unsigned; other
  numbers are kept as their text; an object is the list of its entries in key order.
\<close>

datatype json =
    JNull
  | JBool bool
  | JInt int
  | JReal string
  | JString string
  | JArray "json list"
  | JObject "(string \<times> json) list"

fun json_get :: "json \<Rightarrow> string \<Rightarrow> json option" where
  "json_get (JObject entries) key = bt_get entries key"
| "json_get _ key = None"

fun as_str :: "json \<Rightarrow> string option" where
  "as_str (JString s) = Some s"
| "as_str _ = None"

fun as_i64 :: "json \<Rightarrow> int option" where
  "as_i64 (JInt n) = (if - (2 ^ 63) \<le> n \<and> n < 2 ^ 63 then Some n else None)"
| "as_i64 _ = None"

definition json_object :: "(string \<times> json) list \<Rightarrow> json" where
  "json_object entries = JObject (bt_from_list entries)"

section \<open>State\<close>

definition MAX_HIGH_PRIORITY_DEFERRALS :: nat where
  "MAX_HIGH_PRIORITY_DEFERRALS = 3"

record pending_diagnostics =
  pd_revision :: u64
  pd_due_at :: nat
  pd_notifications :: "json list"
  pd_high_priority_deferrals :: nat

record lsp_scheduler =
  sc_background_mode :: bool
  sc_canceled_request_ids :: "string list"
  sc_pending :: "pending_diagnostics option"
  sc_next_revision :: u64
  sc_debounce :: nat

definition new_scheduler :: "nat \<Rightarrow> lsp_scheduler" where
  "new_scheduler debounce_ms =
     \<lparr>sc_background_mode = False, sc_canceled_request_ids = [], sc_pending = None,
      sc_next_revision = 0, sc_debounce = debounce_ms\<rparr>"

section \<open>Operations\<close>

definition enable_background_mode :: "lsp_scheduler \<Rightarrow> lsp_scheduler" where
  "enable_background_mode s = s\<lparr>sc_background_mode := True\<rparr>"

definition disable_background_mode :: "lsp_scheduler \<Rightarrow> lsp_scheduler" where
  "disable_background_mode s =
     s\<lparr>sc_background_mode := False, sc_pending := None, sc_canceled_request_ids := []\<rparr>"

definition schedule_diagnostics :: "nat \<Rightarrow> json list \<Rightarrow> lsp_scheduler \<Rightarrow> lsp_scheduler" where
  "schedule_diagnostics now notifications s =
     (let revision = sc_next_revision s + 1
      in s\<lparr>sc_next_revision := revision,
           sc_pending := Some \<lparr>pd_revision = revision, pd_due_at = now + sc_debounce s,
             pd_notifications = notifications, pd_high_priority_deferrals = 0\<rparr>\<rparr>)"

definition flush_all :: "lsp_scheduler \<Rightarrow> json list \<times> lsp_scheduler" where
  "flush_all s =
     ((case sc_pending s of None \<Rightarrow> [] | Some p \<Rightarrow> pd_notifications p), s\<lparr>sc_pending := None\<rparr>)"

definition immediate_or_deferred_notifications :: "lsp_scheduler \<Rightarrow> json list \<times> lsp_scheduler" where
  "immediate_or_deferred_notifications s = (if sc_background_mode s then ([], s) else flush_all s)"

definition next_wait_duration :: "nat \<Rightarrow> lsp_scheduler \<Rightarrow> nat option" where
  "next_wait_duration now s = map_option (\<lambda>p. pd_due_at p - now) (sc_pending s)"

definition is_high_priority_method :: "string \<Rightarrow> bool" where
  "is_high_priority_method meth \<longleftrightarrow> meth \<in> set [
     ''textDocument/hover'', ''textDocument/completion'', ''textDocument/signatureHelp'',
     ''textDocument/definition'', ''textDocument/references'', ''textDocument/rename'',
     ''textDocument/codeAction'', ''textDocument/documentSymbol'', ''workspace/symbol'',
     ''textDocument/formatting'']"

definition flush_due_after :: "nat \<Rightarrow> string \<Rightarrow> lsp_scheduler \<Rightarrow> json list \<times> lsp_scheduler" where
  "flush_due_after now meth s =
     (if \<not> sc_background_mode s then ([], s)
      else case sc_pending s of
          None \<Rightarrow> ([], s)
        | Some p \<Rightarrow>
            if now < pd_due_at p then ([], s)
            else if is_high_priority_method meth \<and>
                pd_high_priority_deferrals p < MAX_HIGH_PRIORITY_DEFERRALS
            then ([], s\<lparr>sc_pending :=
                   Some (p\<lparr>pd_high_priority_deferrals := pd_high_priority_deferrals p + 1\<rparr>)\<rparr>)
            else flush_all s)"

definition flush_due_timeout :: "nat \<Rightarrow> lsp_scheduler \<Rightarrow> json list \<times> lsp_scheduler" where
  "flush_due_timeout now s =
     (case sc_pending s of
        None \<Rightarrow> ([], s)
      | Some p \<Rightarrow> if pd_due_at p \<le> now then flush_all s else ([], s))"

text \<open>The decimal text of an integer.\<close>

definition show_int :: "int \<Rightarrow> string" where
  "show_int n = (if n < 0 then CHR ''-'' # show_nat (nat (- n)) else show_nat (nat n))"

definition request_id_key :: "json \<Rightarrow> string option" where
  "request_id_key rid =
     (case as_i64 rid of
        Some number \<Rightarrow> Some (''n:'' @ show_int number)
      | None \<Rightarrow> map_option (\<lambda>t. ''s:'' @ t) (as_str rid))"

definition cancel_request :: "json \<Rightarrow> lsp_scheduler \<Rightarrow> lsp_scheduler" where
  "cancel_request rid s =
     (case request_id_key rid of
        Some key \<Rightarrow> s\<lparr>sc_canceled_request_ids := bs_insert key (sc_canceled_request_ids s)\<rparr>
      | None \<Rightarrow> s)"

definition take_cancellation :: "json option \<Rightarrow> lsp_scheduler \<Rightarrow> bool \<times> lsp_scheduler" where
  "take_cancellation rid s =
     (case Option.bind rid request_id_key of
        None \<Rightarrow> (False, s)
      | Some key \<Rightarrow> (key \<in> set (sc_canceled_request_ids s),
          s\<lparr>sc_canceled_request_ids := filter (\<lambda>k. k \<noteq> key) (sc_canceled_request_ids s)\<rparr>))"

section \<open>Runs\<close>

datatype sched_op =
    Schedule nat "json list"
  | Immediate
  | DueAfter nat string
  | DueTimeout nat
  | FlushAll
  | EnableBackground
  | DisableBackground
  | Cancel json
  | TakeCancellation "json option"

fun sched_apply :: "sched_op \<Rightarrow> lsp_scheduler \<Rightarrow> json list \<times> lsp_scheduler" where
  "sched_apply (Schedule now ns) s = ([], schedule_diagnostics now ns s)"
| "sched_apply Immediate s = immediate_or_deferred_notifications s"
| "sched_apply (DueAfter now meth) s = flush_due_after now meth s"
| "sched_apply (DueTimeout now) s = flush_due_timeout now s"
| "sched_apply FlushAll s = flush_all s"
| "sched_apply EnableBackground s = ([], enable_background_mode s)"
| "sched_apply DisableBackground s = ([], disable_background_mode s)"
| "sched_apply (Cancel rid) s = ([], cancel_request rid s)"
| "sched_apply (TakeCancellation rid) s = ([], snd (take_cancellation rid s))"

fun scheduled_by :: "sched_op \<Rightarrow> json list list" where
  "scheduled_by (Schedule now ns) = [ns]"
| "scheduled_by _ = []"

text \<open>
  \<open>sched_run s batches out\<close>: from a new scheduler, some calls have scheduled \<open>batches\<close> and
  returned the notifications \<open>out\<close>, and \<open>s\<close> is the state they left.
\<close>

inductive sched_run :: "lsp_scheduler \<Rightarrow> json list list \<Rightarrow> json list \<Rightarrow> bool" where
  new: "sched_run (new_scheduler ms) [] []"
| call: "sched_run s batches out \<Longrightarrow> sched_apply op s = (notifications, s') \<Longrightarrow>
    sched_run s' (batches @ scheduled_by op) (out @ notifications)"

section \<open>Deliveries\<close>

text \<open>What a call may do to the waiting batch.\<close>

lemma sched_apply_cases:
  assumes "sched_apply op s = (ns, s')"
  obtains (scheduled) now batch where "op = Schedule now batch" "ns = []"
      "\<exists>r d. sc_pending s' = Some \<lparr>pd_revision = r, pd_due_at = d, pd_notifications = batch,
        pd_high_priority_deferrals = 0\<rparr>"
    | (kept) "scheduled_by op = []" "ns = []" "sc_pending s' = sc_pending s"
    | (dropped) "scheduled_by op = []" "ns = []" "sc_pending s' = None"
    | (delivered) p where "scheduled_by op = []" "sc_pending s = Some p" "ns = pd_notifications p"
        "sc_pending s' = None"
    | (deferred) p where "scheduled_by op = []" "sc_pending s = Some p" "ns = []"
        "pd_high_priority_deferrals p < MAX_HIGH_PRIORITY_DEFERRALS"
        "sc_pending s' = Some (p\<lparr>pd_high_priority_deferrals := pd_high_priority_deferrals p + 1\<rparr>)"
proof (cases op)
  case (Schedule now batch)
  with assms scheduled show ?thesis by (auto simp: schedule_diagnostics_def Let_def)
next
  case Immediate
  with assms kept delivered show ?thesis
    by (cases "sc_pending s")
      (auto simp: immediate_or_deferred_notifications_def flush_all_def split: if_splits)
next
  case (DueAfter now meth)
  with assms kept delivered deferred show ?thesis
    by (cases "sc_pending s") (auto simp: flush_due_after_def flush_all_def split: if_splits)
next
  case (DueTimeout now)
  with assms kept delivered show ?thesis
    by (cases "sc_pending s") (auto simp: flush_due_timeout_def flush_all_def split: if_splits)
next
  case FlushAll
  with assms kept delivered show ?thesis by (cases "sc_pending s") (auto simp: flush_all_def)
next
  case EnableBackground
  with assms kept show ?thesis by (auto simp: enable_background_mode_def)
next
  case DisableBackground
  with assms dropped show ?thesis by (auto simp: disable_background_mode_def)
next
  case (Cancel rid)
  with assms kept show ?thesis by (auto simp: cancel_request_def split: option.splits)
next
  case (TakeCancellation rid)
  with assms kept show ?thesis by (auto simp: take_cancellation_def split: option.splits)
qed

text \<open>A list of batches in order of scheduling, none twice.\<close>

definition picks :: "nat list \<Rightarrow> json list list \<Rightarrow> json list \<Rightarrow> bool" where
  "picks is batches out \<longleftrightarrow>
     sorted_wrt (<) is \<and> (\<forall>i\<in>set is. i < length batches) \<and> out = concat (map ((!) batches) is)"

lemma picks_more: "picks is batches out \<Longrightarrow> picks is (batches @ more_batches) out"
  by (auto simp: picks_def nth_append intro!: arg_cong [where f = concat])

lemma picks_last:
  "picks is batches out \<Longrightarrow> (\<forall>i\<in>set is. i < length batches - 1) \<Longrightarrow> batches \<noteq> [] \<Longrightarrow>
    picks (is @ [length batches - 1]) batches (out @ last batches)"
  by (auto simp: picks_def sorted_wrt_append last_conv_nth)

definition delivery_inv :: "lsp_scheduler \<Rightarrow> json list list \<Rightarrow> json list \<Rightarrow> bool" where
  "delivery_inv s batches out \<longleftrightarrow>
     (case sc_pending s of
        None \<Rightarrow> \<exists>is. picks is batches out
      | Some p \<Rightarrow> pd_high_priority_deferrals p \<le> MAX_HIGH_PRIORITY_DEFERRALS \<and> batches \<noteq> [] \<and>
          pd_notifications p = last batches \<and>
          (\<exists>is. picks is batches out \<and> (\<forall>i\<in>set is. i < length batches - 1)))"

lemma delivery_inv_run: "sched_run s batches out \<Longrightarrow> delivery_inv s batches out"
proof (induction rule: sched_run.induct)
  case (new ms)
  then show ?case by (auto simp: delivery_inv_def new_scheduler_def picks_def)
next
  case (call s batches out op ns s')
  from call.IH obtain js where js: "picks js batches out"
    by (auto simp: delivery_inv_def split: option.splits)
  from call.hyps(2) show ?case
  proof (cases rule: sched_apply_cases)
    case (scheduled now batch)
    have "\<forall>i\<in>set js. i < length batches" using js by (simp add: picks_def)
    then show ?thesis
      using scheduled picks_more [OF js, of "[batch]"] by (auto simp: delivery_inv_def)
  next
    case (delivered p)
    then show ?thesis using call.IH picks_last by (auto simp: delivery_inv_def)
  qed (use call.IH js in \<open>auto simp: delivery_inv_def split: option.splits\<close>)
qed

text \<open>
  C30: whatever is called in whatever order, the notifications returned are scheduled batches
  in the order of scheduling, each at most once, and a batch that waits is the newest one
  and has been deferred at most three times; a superseded batch is never delivered.
\<close>

theorem diagnostics_delivered_in_order:
  assumes "sched_run s batches out"
  shows "(\<exists>is. picks is batches out) \<and>
    (\<forall>p. sc_pending s = Some p \<longrightarrow>
       pd_high_priority_deferrals p \<le> MAX_HIGH_PRIORITY_DEFERRALS \<and> batches \<noteq> [] \<and>
       pd_notifications p = last batches)"
  using delivery_inv_run [OF assms] by (auto simp: delivery_inv_def split: option.splits)

theorem diagnostics_delivered_in_order_witness:
  "\<exists>is. picks is [[JInt 1], [JInt 2]] [JInt 2]"
proof -
  let ?s1 = "schedule_diagnostics 0 [JInt 1] (new_scheduler 40)"
  let ?s2 = "schedule_diagnostics 5 [JInt 2] ?s1"
  have "sched_run ?s1 [[JInt 1]] []"
    using sched_run.call [OF sched_run.new [of 40], of "Schedule 0 [JInt 1]"] by simp
  then have "sched_run ?s2 [[JInt 1], [JInt 2]] []"
    using sched_run.call [of ?s1 "[[JInt 1]]" "[]" "Schedule 5 [JInt 2]"] by simp
  then have "sched_run (snd (flush_all ?s2)) [[JInt 1], [JInt 2]] [JInt 2]"
    using sched_run.call [of ?s2 "[[JInt 1], [JInt 2]]" "[]" FlushAll]
    by (simp add: flush_all_def schedule_diagnostics_def Let_def)
  then show ?thesis using diagnostics_delivered_in_order by blast
qed

section \<open>Cancellation\<close>

lemma show_nat_inj: "show_nat m = show_nat n \<longleftrightarrow> m = n"
  by (metis digits_value_show_nat option.inject)

lemma show_nat_no_minus: "show_nat n \<noteq> CHR ''-'' # s"
proof
  assume "show_nat n = CHR ''-'' # s"
  then have "CHR ''-'' \<in> set ''0123456789''" using set_show_nat [of n] by auto
  then show False by simp
qed

lemma show_int_inj: "show_int m = show_int n \<longleftrightarrow> m = n"
  using show_nat_no_minus [of "nat m"] show_nat_no_minus [of "nat n"]
  by (auto simp: show_int_def show_nat_inj dest: sym [of "CHR ''-'' # _"])

text \<open>The ids the server can cancel, each with a key of its own.\<close>

fun cancellable :: "json \<Rightarrow> bool" where
  "cancellable (JInt n) \<longleftrightarrow> - (2 ^ 63) \<le> n \<and> n < 2 ^ 63"
| "cancellable (JString s) \<longleftrightarrow> True"
| "cancellable _ \<longleftrightarrow> False"

lemma request_id_key_None: "request_id_key rid = None \<longleftrightarrow> \<not> cancellable rid"
  by (cases rid) (auto simp: request_id_key_def)

lemma request_id_key_inj:
  "request_id_key a = Some k \<Longrightarrow> request_id_key b = Some k \<Longrightarrow> a = b"
  by (cases a; cases b) (auto simp: request_id_key_def show_int_inj split: if_splits)

end
