(* ===== verification/Lsp_Positions.thy ===== *)
theory Lsp_Positions
  imports Lsp_Scheduler
begin

text \<open>
  Positions and edits in documents (crates/typepython_lsp, requests/analysis/text.rs and
  requests/protocol.rs). A document is the list of its Unicode scalar values, as numbers; byte
  offsets count UTF-8 bytes, columns count UTF-16 code units. The 32-bit line and column
  numbers are naturals, with the code's saturation and truncation written out.
\<close>

section \<open>Errors\<close>

datatype lsp_error_kind =
    ParseError | InvalidRequest | MethodNotFound | InvalidParams | ContentModified | RequestFailed
  | Internal

fun jsonrpc_code :: "lsp_error_kind \<Rightarrow> int" where
  "jsonrpc_code ParseError = -32700"
| "jsonrpc_code InvalidRequest = -32600"
| "jsonrpc_code MethodNotFound = -32601"
| "jsonrpc_code InvalidParams = -32602"
| "jsonrpc_code Internal = -32603"
| "jsonrpc_code ContentModified = -32801"
| "jsonrpc_code RequestFailed = -32803"

record lsp_error =
  le_kind :: lsp_error_kind
  le_message :: string
  le_data :: "json option"

definition lsp_error :: "lsp_error_kind \<Rightarrow> string \<Rightarrow> lsp_error" where
  "lsp_error kind message = \<lparr>le_kind = kind, le_message = message, le_data = None\<rparr>"

definition with_data :: "lsp_error \<Rightarrow> json \<Rightarrow> lsp_error" where
  "with_data e data = e\<lparr>le_data := Some data\<rparr>"

definition with_tpy_code :: "lsp_error \<Rightarrow> string \<Rightarrow> lsp_error" where
  "with_tpy_code e code = with_data e (json_object [(''tpyCode'', JString code)])"

definition jsonrpc_response :: "lsp_error \<Rightarrow> json \<Rightarrow> json" where
  "jsonrpc_response e request_id =
     json_object [(''jsonrpc'', JString ''2.0''), (''id'', request_id),
       (''error'', json_object
          ([(''code'', JInt (jsonrpc_code (le_kind e))), (''message'', JString (le_message e))] @
           (case le_data e of None \<Rightarrow> [] | Some data \<Rightarrow> [(''data'', data)])))]"

section \<open>Encoded lengths\<close>

type_synonym document_text = "nat list"

definition utf8_width :: "nat \<Rightarrow> nat" where
  "utf8_width c = (if c < 0x80 then 1 else if c < 0x800 then 2 else if c < 0x10000 then 3 else 4)"

definition utf16_width :: "nat \<Rightarrow> nat" where
  "utf16_width c = (if c < 0x10000 then 1 else 2)"

definition byte_length :: "document_text \<Rightarrow> nat" where
  "byte_length text = sum_list (map utf8_width text)"

definition u32_max :: nat where
  "u32_max = 2 ^ 32 - 1"

definition saturating_add :: "nat \<Rightarrow> nat \<Rightarrow> nat" where
  "saturating_add a b = min (a + b) u32_max"

definition utf16_len :: "document_text \<Rightarrow> nat" where
  "utf16_len t = fold (\<lambda>c len. saturating_add len (utf16_width c)) t 0"

text \<open>\<^verbatim>\<open>text.get(..offset)\<close> and \<^verbatim>\<open>text.get(offset..)\<close>: nothing inside a scalar value.\<close>

fun split_at_byte :: "nat \<Rightarrow> document_text \<Rightarrow> (document_text \<times> document_text) option" where
  "split_at_byte offset [] = (if offset = 0 then Some ([], []) else None)"
| "split_at_byte offset (c # t) =
     (if offset = 0 then Some ([], c # t)
      else if offset < utf8_width c then None
      else map_option (\<lambda>(a, b). (c # a, b)) (split_at_byte (offset - utf8_width c) t))"

section \<open>Positions\<close>

record lsp_position =
  lp_line :: nat
  lp_character :: nat

record lsp_range =
  lr_start :: lsp_position
  lr_end :: lsp_position

text \<open>The text after the last line feed.\<close>

definition last_line :: "document_text \<Rightarrow> document_text" where
  "last_line t = rev (takeWhile (\<lambda>c. c \<noteq> 10) (rev t))"

definition position_at_byte_offset :: "document_text \<Rightarrow> nat \<Rightarrow> lsp_position option" where
  "position_at_byte_offset t offset =
     map_option (\<lambda>(prefix, _).
       \<lparr>lp_line = length (filter (\<lambda>c. c = 10) prefix) mod 2 ^ 32,
        lp_character = utf16_len (last_line prefix)\<rparr>) (split_at_byte offset t)"

definition full_document_range :: "document_text \<Rightarrow> lsp_range" where
  "full_document_range t =
     \<lparr>lr_start = \<lparr>lp_line = 0, lp_character = 0\<rparr>,
      lr_end = (case position_at_byte_offset t (byte_length t) of
          Some p \<Rightarrow> p | None \<Rightarrow> \<lparr>lp_line = 0, lp_character = 0\<rparr>)\<rparr>"

datatype position_conversion_error = LineOutOfBounds | CharacterOutOfBounds | SplitsCodePoint

fun column_from ::
    "nat \<Rightarrow> nat \<Rightarrow> document_text \<Rightarrow> nat \<Rightarrow> position_conversion_error + nat" where
  "column_from utf16_offset byte_offset [] character =
     (if utf16_offset = character then Inr byte_offset else Inl CharacterOutOfBounds)"
| "column_from utf16_offset byte_offset (c # t) character =
     (if utf16_offset = character then Inr byte_offset
      else (let next_offset = saturating_add utf16_offset (utf16_width c)
            in if character < next_offset then Inl SplitsCodePoint
               else column_from next_offset (byte_offset + utf8_width c) t character))"

definition byte_offset_at_utf16_column ::
    "document_text \<Rightarrow> nat \<Rightarrow> position_conversion_error + nat" where
  "byte_offset_at_utf16_column line_text character = column_from 0 0 line_text character"

text \<open>\<^verbatim>\<open>raw_line.strip_suffix('\r').unwrap_or(raw_line)\<close>.\<close>

definition strip_cr :: "document_text \<Rightarrow> document_text" where
  "strip_cr line = (if line \<noteq> [] \<and> last line = 13 then butlast line else line)"

definition first_line :: "document_text \<Rightarrow> document_text" where
  "first_line t = takeWhile (\<lambda>c. c \<noteq> 10) t"

text \<open>The loop over lines, on the line's number, its start and the text from there.\<close>

function find_line ::
    "nat \<Rightarrow> nat \<Rightarrow> document_text \<Rightarrow> lsp_position \<Rightarrow> position_conversion_error + nat" where
  "find_line line_number line_start remainder position =
     (if line_number = lp_line position
      then map_sum (\<lambda>e. e) (\<lambda>column. line_start + column)
             (byte_offset_at_utf16_column (strip_cr (first_line remainder)) (lp_character position))
      else (case dropWhile (\<lambda>c. c \<noteq> 10) remainder of
              [] \<Rightarrow> Inl LineOutOfBounds
            | _ # rest \<Rightarrow>
                find_line (saturating_add line_number 1)
                  (line_start + byte_length (first_line remainder) + 1) rest position))"
  by pat_completeness auto
termination
proof (relation "measure (\<lambda>(_, _, remainder, _). length remainder)")
  fix n b :: nat and r x p and rest :: "nat list"
  assume "dropWhile (\<lambda>c. c \<noteq> 10) r = x # rest"
  then have "length (x # rest) \<le> length r" by (metis length_dropWhile_le)
  then show "((saturating_add n 1, b + byte_length (first_line r) + 1, rest, p), n, b, r, p) \<in>
      measure (\<lambda>(_, _, remainder, _). length remainder)" by simp
qed simp
declare find_line.simps [simp del]

definition byte_offset_at_position ::
    "document_text \<Rightarrow> lsp_position \<Rightarrow> position_conversion_error + nat" where
  "byte_offset_at_position t position = find_line 0 0 t position"

definition line_prefix_at_position :: "document_text \<Rightarrow> lsp_position \<Rightarrow> document_text option" where
  "line_prefix_at_position t position =
     (case byte_offset_at_position t position of
        Inl _ \<Rightarrow> None | Inr offset \<Rightarrow> map_option (\<lambda>(a, _). last_line a) (split_at_byte offset t))"

definition line_prefix :: "document_text \<Rightarrow> lsp_position \<Rightarrow> document_text" where
  "line_prefix t position = (case line_prefix_at_position t position of None \<Rightarrow> [] | Some p \<Rightarrow> p)"

fun lines_of :: "document_text \<Rightarrow> document_text list" where
  "lines_of [] = [[]]"
| "lines_of (c # t) =
     (if c = 10 then [] # lines_of t
      else (case lines_of t of [] \<Rightarrow> [[c]] | l # ls \<Rightarrow> (c # l) # ls))"

definition lsp_position_from_scalar_column :: "document_text \<Rightarrow> nat \<Rightarrow> nat \<Rightarrow> lsp_position" where
  "lsp_position_from_scalar_column t one_based_line one_based_column =
     (let line = (one_based_line - 1) mod 2 ^ 32;
          scalar_column = one_based_column - 1;
          ls = lines_of t
      in \<lparr>lp_line = line,
          lp_character =
            (if line < length ls then utf16_len (take scalar_column (strip_cr (ls ! line)))
             else scalar_column mod 2 ^ 32)\<rparr>)"

definition range_contains :: "lsp_range \<Rightarrow> lsp_position \<Rightarrow> bool" where
  "range_contains rng position \<longleftrightarrow>
     (lp_line (lr_start rng) < lp_line position \<or>
      (lp_line position = lp_line (lr_start rng) \<and>
       lp_character (lr_start rng) \<le> lp_character position)) \<and>
     (lp_line position < lp_line (lr_end rng) \<or>
      (lp_line position = lp_line (lr_end rng) \<and>
       lp_character position \<le> lp_character (lr_end rng)))"

definition range_intersects :: "lsp_range \<Rightarrow> lsp_range \<Rightarrow> bool" where
  "range_intersects left right \<longleftrightarrow>
     \<not> (lp_line (lr_end left) < lp_line (lr_start right) \<or>
        lp_line (lr_end right) < lp_line (lr_start left) \<or>
        (lp_line (lr_end left) = lp_line (lr_start right) \<and>
         lp_character (lr_end left) < lp_character (lr_start right)) \<or>
        (lp_line (lr_end right) = lp_line (lr_start left) \<and>
         lp_character (lr_end right) < lp_character (lr_start left)))"

section \<open>Edits\<close>

record lsp_content_change_event =
  ce_range :: "lsp_range option"
  ce_range_length :: "nat option"
  ce_text :: document_text

definition conversion_message :: "string \<Rightarrow> lsp_position \<Rightarrow> position_conversion_error \<Rightarrow> string" where
  "conversion_message uri position e =
     (case e of
        LineOutOfBounds \<Rightarrow> ''TPY6002: didChange for `'' @ uri @ ''` references line '' @
          show_nat (lp_line position) @ '' beyond the current document''
      | CharacterOutOfBounds \<Rightarrow> ''TPY6002: didChange for `'' @ uri @ ''` references character '' @
          show_nat (lp_character position) @ '' beyond line '' @ show_nat (lp_line position)
      | SplitsCodePoint \<Rightarrow> ''TPY6002: didChange for `'' @ uri @
          ''` splits a UTF-16 code point at line '' @ show_nat (lp_line position) @
          '', character '' @ show_nat (lp_character position))"

definition tpy6002 :: "lsp_error_kind \<Rightarrow> string \<Rightarrow> lsp_error" where
  "tpy6002 kind message = with_tpy_code (lsp_error kind message) ''TPY6002''"

definition lsp_position_to_byte_offset ::
    "document_text \<Rightarrow> lsp_position \<Rightarrow> string \<Rightarrow> lsp_error + nat" where
  "lsp_position_to_byte_offset t position uri =
     map_sum (\<lambda>e. tpy6002 ContentModified (conversion_message uri position e)) (\<lambda>n. n)
       (byte_offset_at_position t position)"

text \<open>
  \<^verbatim>\<open>text.replace_range(start..end, replacement)\<close>; the offsets come from positions, so
  both are at boundaries and the last branch (where Rust would panic) is not taken.
\<close>

definition replace_range ::
    "document_text \<Rightarrow> nat \<Rightarrow> nat \<Rightarrow> document_text \<Rightarrow> document_text option" where
  "replace_range t start end_offset replacement =
     (case (split_at_byte start t, split_at_byte end_offset t) of
        (Some (a, _), Some (_, c)) \<Rightarrow> Some (a @ replacement @ c)
      | _ \<Rightarrow> None)"

datatype 'a lsp_result = Done 'a | Rejected lsp_error | Panicked

definition apply_ranged_change ::
    "document_text \<Rightarrow> lsp_range \<Rightarrow> document_text \<Rightarrow> string \<Rightarrow> document_text lsp_result" where
  "apply_ranged_change t rng replacement uri =
     (case lsp_position_to_byte_offset t (lr_start rng) uri of
        Inl e \<Rightarrow> Rejected e
      | Inr start \<Rightarrow>
          (case lsp_position_to_byte_offset t (lr_end rng) uri of
             Inl e \<Rightarrow> Rejected e
           | Inr end_offset \<Rightarrow>
               if end_offset < start
               then Rejected (tpy6002 ContentModified (''TPY6002: didChange for `'' @ uri @
                 ''` uses an invalid range with start after end''))
               else (case replace_range t start end_offset replacement of
                       Some t' \<Rightarrow> Done t' | None \<Rightarrow> Panicked)))"

definition apply_change ::
    "document_text \<Rightarrow> lsp_content_change_event \<Rightarrow> string \<Rightarrow> document_text lsp_result" where
  "apply_change t change uri =
     (case ce_range change of
        Some rng \<Rightarrow> apply_ranged_change t rng (ce_text change) uri
      | None \<Rightarrow>
          if ce_range_length change \<noteq> None
          then Rejected (tpy6002 ContentModified (''TPY6002: didChange for `'' @ uri @
            ''` provided `rangeLength` without `range`''))
          else Done (ce_text change))"

fun apply_content_changes ::
    "document_text \<Rightarrow> lsp_content_change_event list \<Rightarrow> string \<Rightarrow> document_text lsp_result" where
  "apply_content_changes t [] uri = Done t"
| "apply_content_changes t (change # changes) uri =
     (case apply_change t change uri of
        Done t' \<Rightarrow> apply_content_changes t' changes uri
      | Rejected e \<Rightarrow> Rejected e
      | Panicked \<Rightarrow> Panicked)"

section \<open>Lengths and boundaries\<close>

definition newlines :: "document_text \<Rightarrow> nat" where
  "newlines t = length (filter (\<lambda>c. c = 10) t)"

definition units :: "document_text \<Rightarrow> nat" where
  "units t = sum_list (map utf16_width t)"

lemma utf8_width_pos: "0 < utf8_width c" by (simp add: utf8_width_def)

lemma utf16_le_utf8: "0 < utf16_width c" "utf16_width c \<le> utf8_width c"
  by (simp_all add: utf16_width_def utf8_width_def)

lemma byte_length_simps [simp]:
  "byte_length [] = 0" "byte_length (c # t) = utf8_width c + byte_length t"
  "byte_length (a @ b) = byte_length a + byte_length b"
  by (simp_all add: byte_length_def)

lemma units_simps [simp]:
  "units [] = 0" "units (c # t) = utf16_width c + units t" "units (a @ b) = units a + units b"
  by (simp_all add: units_def)

lemma newlines_simps [simp]:
  "newlines [] = 0" "newlines (c # t) = (if c = 10 then 1 else 0) + newlines t"
  "newlines (a @ b) = newlines a + newlines b"
  by (simp_all add: newlines_def)

lemma units_le_bytes: "units t \<le> byte_length t"
  by (induction t) (use utf16_le_utf8(2) in \<open>auto intro: add_mono\<close>)

lemma units_zero: "units q = 0 \<longleftrightarrow> q = []"
  using utf16_le_utf8(1) [of "hd q"] by (cases q) auto

lemma newlines_le_bytes: "newlines t \<le> byte_length t"
  by (induction t) (auto simp: utf8_width_def)

lemma newlines_zero: "10 \<notin> set t \<longleftrightarrow> newlines t = 0"
  by (induction t) auto

lemma utf16_len_units: "n + units t \<le> u32_max \<Longrightarrow>
    fold (\<lambda>c len. saturating_add len (utf16_width c)) t n = n + units t"
  by (induction t arbitrary: n) (auto simp: saturating_add_def)

lemma split_at_byte_append [simp]: "split_at_byte (byte_length a) (a @ b) = Some (a, b)"
proof (induction a)
  case Nil
  then show ?case by (cases b) simp_all
next
  case (Cons c a)
  then show ?case using utf8_width_pos [of c] by simp
qed

lemma split_at_byte_Some: "split_at_byte n t = Some (a, b) \<longleftrightarrow> t = a @ b \<and> n = byte_length a"
proof
  show "split_at_byte n t = Some (a, b) \<Longrightarrow> t = a @ b \<and> n = byte_length a"
  proof (induction n t arbitrary: a b rule: split_at_byte.induct)
    case (2 n c t)
    show ?case
    proof (cases "n = 0")
      case False
      then obtain a' where "a = c # a'" "\<not> n < utf8_width c"
        "split_at_byte (n - utf8_width c) t = Some (a', b)"
        using "2.prems" by (auto split: if_splits)
      then show ?thesis using "2.IH" [OF False] False by force
    qed (use "2.prems" in simp)
  qed (simp split: if_splits)
qed auto

section \<open>Columns\<close>

lemma column_from_iff:
  "u + units t \<le> u32_max \<Longrightarrow>
    column_from u b t character = Inr offset \<longleftrightarrow>
      (\<exists>q r. t = q @ r \<and> character = u + units q \<and> offset = b + byte_length q)"
proof (induction t arbitrary: u b)
  case (Cons c t)
  have sat: "saturating_add u (utf16_width c) = u + utf16_width c"
    using Cons.prems by (simp add: saturating_add_def)
  show ?case
  proof (cases "u = character")
    case True
    then show ?thesis by (auto simp: units_zero)
  next
    case False
    have step: "(\<exists>q r. c # t = q @ r \<and> character = u + units q \<and> offset = b + byte_length q) \<longleftrightarrow>
        (\<exists>q r. t = q @ r \<and> character = u + utf16_width c + units q \<and> offset = b + utf8_width c + byte_length q)"
      (is "?L \<longleftrightarrow> ?R")
    proof
      assume ?L
      then obtain q r where q: "c # t = q @ r" "character = u + units q" "offset = b + byte_length q" by blast
      then obtain q' where "q = c # q'" using False by (cases q) auto
      then show ?R using q by (auto simp: add.assoc)
    next
      assume ?R
      then obtain q r where "t = q @ r" "character = u + utf16_width c + units q"
        "offset = b + utf8_width c + byte_length q" by blast
      then show ?L by (intro exI [of _ "c # q"] exI [of _ r]) simp
    qed
    show ?thesis
    proof (cases "character < u + utf16_width c")
      case True
      then show ?thesis using False sat unfolding step by auto
    next
      case less: False
      have "u + utf16_width c + units t \<le> u32_max" using Cons.prems by simp
      from Cons.IH [OF this, of "b + utf8_width c"] show ?thesis
        using False less sat unfolding step by simp
    qed
  qed
qed auto

section \<open>Lines\<close>

lemma first_line_split: "t = first_line t @ dropWhile (\<lambda>c. c \<noteq> 10) t"
  by (simp add: first_line_def)

lemma first_line_append: "10 \<notin> set q \<Longrightarrow> first_line (q @ r) = q @ first_line r"
  by (auto simp: first_line_def takeWhile_append)

lemma first_line_newline: "10 \<notin> set q \<Longrightarrow> first_line (q @ 10 # r) = q"
  by (simp add: first_line_append) (simp add: first_line_def)

lemma strip_cr_prefix: "\<exists>w. line = strip_cr line @ w"
  by (auto simp: strip_cr_def) (metis append_butlast_last_id)

lemma prefix_of_line:
  assumes "strip_cr (first_line t) = q @ r"
  shows "10 \<notin> set q" "\<exists>r'. t = q @ r'"
proof -
  obtain w where w: "first_line t = q @ r @ w" using strip_cr_prefix [of "first_line t"] assms by auto
  then show "10 \<notin> set q"
    by (metis (mono_tags, lifting) Un_iff first_line_def set_append set_takeWhileD)
  show "\<exists>r'. t = q @ r'" using first_line_split [of t] w by (metis append.assoc)
qed

text \<open>What an offset found for a position means: \<open>a\<close> are whole lines, \<open>q\<close> is inside one.\<close>

definition located :: "document_text \<Rightarrow> document_text \<Rightarrow> document_text \<Rightarrow> document_text \<Rightarrow> bool" where
  "located t a q r \<longleftrightarrow> t = a @ q @ r \<and> (a = [] \<or> last a = 10) \<and>
     (\<exists>w. strip_cr (first_line (q @ r)) = q @ w) \<and> 10 \<notin> set q"

lemma located_Cons_line:
  assumes "10 \<notin> set l"
  shows "located (l @ 10 # t) a q r \<longleftrightarrow>
    (a = [] \<and> l @ 10 # t = q @ r \<and> (\<exists>w. strip_cr l = q @ w)) \<or>
    (\<exists>a'. a = l @ 10 # a' \<and> located t a' q r)"
proof
  assume L: "located (l @ 10 # t) a q r"
  then have eq: "l @ 10 # t = a @ q @ r" and ends: "a = [] \<or> last a = 10" by (simp_all add: located_def)
  show "(a = [] \<and> l @ 10 # t = q @ r \<and> (\<exists>w. strip_cr l = q @ w)) \<or> (\<exists>a'. a = l @ 10 # a' \<and> located t a' q r)"
  proof (cases "a = []")
    case True
    then show ?thesis using L first_line_newline [OF assms, of t] by (auto simp: located_def)
  next
    case False
    then have "10 \<in> set a" using ends last_in_set by metis
    moreover have "a = l @ drop (length l) a \<or> length a \<le> length l"
      using eq by (metis append_eq_append_conv_if linorder_le_cases append_take_drop_id)
    ultimately obtain a' where a: "a = l @ 10 # a'"
    proof (cases "length a \<le> length l")
      case True
      then have "set a \<subseteq> set l" using eq by (metis append_eq_append_conv_if set_take_subset)
      then show ?thesis using \<open>10 \<in> set a\<close> assms by blast
    next
      case less: False
      then obtain d where d: "a = l @ d" "d \<noteq> []"
        using eq by (metis append_eq_append_conv_if append_take_drop_id less_imp_le_nat linorder_not_le append.right_neutral order_refl)
      then have "10 # t = d @ q @ r" using eq by simp
      then obtain a' where "d = 10 # a'" using d(2) by (cases d) auto
      then show ?thesis using that d(1) by simp
    qed
    then have "t = a' @ q @ r" using eq by simp
    moreover have "a' = [] \<or> last a' = 10" using ends a False by (auto split: if_splits)
    ultimately show ?thesis using L a by (auto simp: located_def)
  qed
next
  assume "(a = [] \<and> l @ 10 # t = q @ r \<and> (\<exists>w. strip_cr l = q @ w)) \<or> (\<exists>a'. a = l @ 10 # a' \<and> located t a' q r)"
  then show "located (l @ 10 # t) a q r"
  proof (elim disjE conjE exE)
    fix w
    assume *: "a = []" "l @ 10 # t = q @ r" "strip_cr l = q @ w"
    then have fl: "first_line (q @ r) = l" using first_line_newline [OF assms, of t] by simp
    then have "10 \<notin> set q" using prefix_of_line(1) [of "q @ r" q w] * by simp
    then show ?thesis using * fl by (auto simp: located_def)
  next
    fix a'
    assume "a = l @ 10 # a'" "located t a' q r"
    then show ?thesis by (auto simp: located_def)
  qed
qed

lemma located_no_newline:
  "10 \<notin> set t \<Longrightarrow> located t a q r \<longleftrightarrow> a = [] \<and> t = q @ r \<and> (\<exists>w. strip_cr t = q @ w)"
proof
  assume t: "10 \<notin> set t" and "located t a q r"
  then have l: "t = a @ q @ r" "a = [] \<or> last a = 10" "\<exists>w. strip_cr (first_line (q @ r)) = q @ w"
    by (simp_all add: located_def)
  have "a = []" using l(1,2) t by (metis Un_iff last_in_set set_append)
  moreover have "first_line t = t" using t by (simp add: first_line_def takeWhile_eq_all_conv) blast
  ultimately show "a = [] \<and> t = q @ r \<and> (\<exists>w. strip_cr t = q @ w)" using l by simp
next
  assume t: "10 \<notin> set t" and *: "a = [] \<and> t = q @ r \<and> (\<exists>w. strip_cr t = q @ w)"
  then have "first_line (q @ r) = t" by (auto simp: first_line_def takeWhile_eq_all_conv)
  then show "located t a q r" using t * by (auto simp: located_def)
qed

lemma line_column_iff:
  assumes "u32_max \<ge> units t" "10 \<notin> set l" "t = l \<or> (\<exists>t'. t = l @ 10 # t')"
  shows "byte_offset_at_utf16_column (strip_cr l) character = Inr column \<longleftrightarrow>
    (\<exists>q r. t = q @ r \<and> (\<exists>w. strip_cr l = q @ w) \<and> character = units q \<and> column = byte_length q)"
proof -
  obtain w where w: "l = strip_cr l @ w" using strip_cr_prefix by blast
  obtain z where z: "t = strip_cr l @ z" using assms(3) w by (metis append.assoc)
  have "units (strip_cr l) \<le> u32_max" using assms(1) z by simp
  then have "byte_offset_at_utf16_column (strip_cr l) character = Inr column \<longleftrightarrow>
      (\<exists>q r. strip_cr l = q @ r \<and> character = units q \<and> column = byte_length q)"
    unfolding byte_offset_at_utf16_column_def using column_from_iff [of 0 "strip_cr l" 0] by simp
  then show ?thesis using z by (metis append.assoc)
qed

lemma map_sum_eq_Inr: "map_sum (\<lambda>e. e) f x = Inr y \<longleftrightarrow> (\<exists>z. x = Inr z \<and> y = f z)"
  by (cases x) auto

lemma first_line_cases:
  obtains "t = first_line t" "dropWhile (\<lambda>c. c \<noteq> 10) t = []"
    | rest where "t = first_line t @ 10 # rest" "dropWhile (\<lambda>c. c \<noteq> 10) t = 10 # rest"
proof (cases "dropWhile (\<lambda>c. c \<noteq> 10) t")
  case Nil
  have "t = first_line t" using first_line_split [of t] unfolding Nil by simp
  then show ?thesis using that(1) Nil by blast
next
  case (Cons x rest)
  then have "x = 10" using hd_dropWhile [of "\<lambda>c. c \<noteq> 10" t] by simp
  moreover have "t = first_line t @ x # rest" using first_line_split [of t] unfolding Cons .
  ultimately show ?thesis using that(2) Cons by blast
qed

lemma first_line_no_newline: "10 \<notin> set (first_line t)"
  by (auto simp: first_line_def dest: set_takeWhileD)

lemma find_line_here:
  assumes "n = lp_line p" "units t \<le> u32_max"
  shows "find_line n start t p = Inr offset \<longleftrightarrow>
    (\<exists>q r. t = q @ r \<and> (\<exists>w. strip_cr (first_line t) = q @ w) \<and> lp_character p = units q \<and>
      offset = start + byte_length q)"
proof -
  have "t = first_line t \<or> (\<exists>t'. t = first_line t @ 10 # t')" by (rule first_line_cases [of t]) blast+
  note column = line_column_iff [OF assms(2) first_line_no_newline this, of "lp_character p"]
  have "find_line n start t p = map_sum (\<lambda>e. e) (\<lambda>column. start + column)
      (byte_offset_at_utf16_column (strip_cr (first_line t)) (lp_character p))"
    unfolding find_line.simps [of n start t p] using assms(1) by simp
  then show ?thesis unfolding map_sum_eq_Inr column by (simp add: map_sum_eq_Inr column) blast
qed

lemma find_line_iff:
  "n + newlines t \<le> u32_max \<Longrightarrow> units t \<le> u32_max \<Longrightarrow> n \<le> lp_line p \<Longrightarrow>
    find_line n start t p = Inr offset \<longleftrightarrow>
      (\<exists>a q r. located t a q r \<and> lp_line p = n + newlines a \<and> lp_character p = units q \<and>
        offset = start + byte_length (a @ q))"
proof (induction n start t p rule: find_line.induct)
  case (1 n start t p)
  let ?l = "first_line t"
  note here = find_line_here [of n p t start offset, OF _ "1.prems"(2)]
  have zero: "newlines ?l = 0" using first_line_no_newline by (simp add: newlines_zero)
  show ?case
  proof (cases rule: first_line_cases [of t])
    case 1
    then have loc: "located t a q r \<longleftrightarrow> a = [] \<and> t = q @ r \<and> (\<exists>w. strip_cr ?l = q @ w)" for a q r
      using located_no_newline [of t a q r] first_line_no_newline [of t] by simp
    show ?thesis
    proof (cases "n = lp_line p")
      case True
      then show ?thesis unfolding here [OF True] loc by auto
    next
      case False
      then have "find_line n start t p = Inl LineOutOfBounds"
        unfolding find_line.simps [of n start t p] 1(2) by simp
      then show ?thesis using False by (auto simp: loc)
    qed
  next
    case (2 rest)
    have loc: "located t a q r \<longleftrightarrow> (a = [] \<and> t = q @ r \<and> (\<exists>w. strip_cr ?l = q @ w)) \<or>
        (\<exists>a'. a = ?l @ 10 # a' \<and> located rest a' q r)" for a q r
      using located_Cons_line [OF first_line_no_newline, of t rest a q r] 2(1) by simp
    show ?thesis
    proof (cases "n = lp_line p")
      case True
      have at: "located t a q r \<and> lp_line p = n + newlines a \<longleftrightarrow>
          a = [] \<and> t = q @ r \<and> (\<exists>w. strip_cr ?l = q @ w)" for a q r
        unfolding loc using zero True by auto
      show ?thesis unfolding here [OF True] conj_assoc [symmetric] at by simp
    next
      case False
      have counts: "newlines t = 1 + newlines rest" "units rest \<le> units t"
        using arg_cong [OF 2(1), of newlines] arg_cong [OF 2(1), of units] zero by simp_all
      have sat: "saturating_add n 1 = n + 1" using counts(1) "1.prems"(1) by (simp add: saturating_add_def)
      have step: "find_line n start t p = find_line (n + 1) (start + byte_length ?l + 1) rest p"
        unfolding find_line.simps [of n start t p] 2(2) sat using False by simp
      have "find_line (n + 1) (start + byte_length ?l + 1) rest p = Inr offset \<longleftrightarrow>
        (\<exists>a q r. located rest a q r \<and> lp_line p = n + 1 + newlines a \<and> lp_character p = units q \<and>
          offset = start + byte_length ?l + 1 + byte_length (a @ q))"
        using "1.IH" [OF False 2(2)] "1.prems" counts False unfolding sat by simp
      also have "\<dots> \<longleftrightarrow> (\<exists>a q r. located t a q r \<and> lp_line p = n + newlines a \<and> lp_character p = units q \<and>
          offset = start + byte_length (a @ q))" (is "?L \<longleftrightarrow> ?R")
      proof
        assume ?L
        then obtain a q r where "located rest a q r" "lp_line p = n + 1 + newlines a"
          "lp_character p = units q" "offset = start + byte_length ?l + 1 + byte_length (a @ q)" by blast
        then show ?R using zero loc
          by (intro exI [of _ "?l @ 10 # a"] exI [of _ q] exI [of _ r]) (simp add: utf8_width_def)
      next
        assume ?R
        then obtain a q r where R: "located t a q r" "lp_line p = n + newlines a"
          "lp_character p = units q" "offset = start + byte_length (a @ q)" by blast
        then obtain a' where a': "a = ?l @ 10 # a'" "located rest a' q r" using False loc by auto
        then show ?L using R(2-4) zero
          by (intro exI [of _ a'] exI [of _ q] exI [of _ r]) (simp add: utf8_width_def)
      qed
      finally show ?thesis unfolding step .
    qed
  qed
qed

lemma last_line_located: "located t a q r \<Longrightarrow> last_line (a @ q) = q"
proof -
  assume l: "located t a q r"
  have q: "takeWhile (\<lambda>c. c \<noteq> 10) (rev q) = rev q"
    using l by (auto simp: located_def takeWhile_eq_all_conv)
  have "takeWhile (\<lambda>c. c \<noteq> 10) (rev q @ rev a) = rev q"
  proof (cases "a = []")
    case False
    then have "last a = 10" using l by (simp add: located_def)
    then have "rev a = 10 # rev (butlast a)"
      using False by (metis append_butlast_last_id rev.simps(2) rev_rev_ident rev_swap)
    then have "takeWhile (\<lambda>c. c \<noteq> 10) (rev a) = []" by (simp only: takeWhile.simps) simp
    then show ?thesis using q by (simp add: takeWhile_append)
  qed (use q in simp)
  then show ?thesis by (simp add: last_line_def)
qed

lemma located_exists: "\<exists>a q. t = a @ q \<and> (a = [] \<or> last a = 10) \<and> q = last_line t \<and> 10 \<notin> set q"
proof -
  let ?q = "last_line t" and ?a = "rev (dropWhile (\<lambda>c. c \<noteq> 10) (rev t))"
  have "rev (takeWhile (\<lambda>c. c \<noteq> 10) (rev t) @ dropWhile (\<lambda>c. c \<noteq> 10) (rev t)) = t"
    unfolding takeWhile_dropWhile_id by simp
  then have "t = ?a @ ?q" unfolding last_line_def rev_append by simp
  moreover have "?a = [] \<or> last ?a = 10"
    using hd_dropWhile [of "\<lambda>c. c \<noteq> 10" "rev t"] by (auto simp: last_rev)
  moreover have "10 \<notin> set ?q" by (auto simp: last_line_def dest: set_takeWhileD)
  ultimately show ?thesis by blast
qed

lemma position_located:
  assumes "byte_length t \<le> u32_max" "located t a q r"
  shows "position_at_byte_offset t (byte_length (a @ q)) =
    Some \<lparr>lp_line = newlines a, lp_character = units q\<rparr>"
proof -
  have t: "t = (a @ q) @ r" and q: "newlines q = 0"
    using assms(2) by (simp_all add: located_def newlines_zero)
  then have "newlines a \<le> u32_max" "units q \<le> u32_max"
    using assms(1) newlines_le_bytes [of a] units_le_bytes [of q] by simp_all
  then have "newlines (a @ q) mod 2 ^ 32 = newlines a" "utf16_len q = units q"
    using q utf16_len_units [of 0 q] by (simp_all add: u32_max_def utf16_len_def)
  moreover have "split_at_byte (byte_length (a @ q)) t = Some (a @ q, r)"
    unfolding t by (rule split_at_byte_append)
  ultimately show ?thesis
    by (simp add: position_at_byte_offset_def last_line_located [OF assms(2)] newlines_def)
qed

text \<open>The offset inside a line end \<^verbatim>\<open>\r\n\<close> (or after a final \<^verbatim>\<open>\r\<close>) has no position of its own.\<close>

definition after_cr :: "document_text \<Rightarrow> document_text \<Rightarrow> bool" where
  "after_cr before_text after_text \<longleftrightarrow>
     before_text \<noteq> [] \<and> last before_text = 13 \<and> (after_text = [] \<or> hd after_text = 10)"

lemma strip_cr_keeps:
  assumes "10 \<notin> set q" "\<not> after_cr q r"
  shows "\<exists>w. strip_cr (first_line (q @ r)) = q @ w"
proof (cases "first_line r = []")
  case True
  then have "r = [] \<or> hd r = 10" by (cases r) (auto simp: first_line_def split: if_splits)
  then show ?thesis
    using assms True by (auto simp: first_line_append strip_cr_def after_cr_def)
next
  case False
  then show ?thesis using assms(1) by (auto simp: first_line_append strip_cr_def butlast_append)
qed

lemma offset_iff:
  assumes "byte_length t \<le> u32_max"
  shows "byte_offset_at_position t p = Inr offset \<longleftrightarrow>
    (\<exists>a q r. located t a q r \<and> lp_line p = newlines a \<and> lp_character p = units q \<and>
      offset = byte_length (a @ q))"
  unfolding byte_offset_at_position_def
  using find_line_iff [of 0 t p 0 offset] newlines_le_bytes [of t] units_le_bytes [of t] assms by simp

text \<open>
  C32: in a document below 4 GiB, a position the server accepts is the position of the offset
  it is taken for, and every offset at a scalar value that is not inside a line end is found
  again from its position.
\<close>

theorem positions_roundtrip:
  assumes "byte_length t \<le> u32_max"
  shows "(byte_offset_at_position t p = Inr offset \<longrightarrow> position_at_byte_offset t offset = Some p) \<and>
    (split_at_byte offset t = Some (a, b) \<and> \<not> after_cr a b \<longrightarrow>
      (\<exists>p. position_at_byte_offset t offset = Some p \<and> byte_offset_at_position t p = Inr offset))"
proof (intro conjI impI)
  assume "byte_offset_at_position t p = Inr offset"
  then obtain a q r where "located t a q r" "lp_line p = newlines a" "lp_character p = units q"
    "offset = byte_length (a @ q)"
    unfolding offset_iff [OF assms] by blast
  then show "position_at_byte_offset t offset = Some p"
    using position_located [OF assms] by simp
next
  assume ab: "split_at_byte offset t = Some (a, b) \<and> \<not> after_cr a b"
  then have t: "t = a @ b" "offset = byte_length a" by (simp_all add: split_at_byte_Some)
  obtain c q where c: "a = c @ q" "c = [] \<or> last c = 10" "10 \<notin> set q"
    using located_exists [of a] by blast
  have "\<not> after_cr q b" using ab c(1) by (auto simp: after_cr_def)
  then have l: "located t c q b" using c t strip_cr_keeps by (simp add: located_def)
  show "\<exists>p. position_at_byte_offset t offset = Some p \<and> byte_offset_at_position t p = Inr offset"
    using position_located [OF assms l] l t c(1) unfolding offset_iff [OF assms] by force
qed

theorem positions_roundtrip_witness:
  "byte_offset_at_position [97, 10, 128512, 98] \<lparr>lp_line = 1, lp_character = 2\<rparr> = Inr 6 \<and>
   position_at_byte_offset [97, 10, 128512, 98] 6 = Some \<lparr>lp_line = 1, lp_character = 2\<rparr>"
proof -
  have "byte_offset_at_position [97, 10, 128512, 98] \<lparr>lp_line = 1, lp_character = 2\<rparr> = Inr 6"
    "byte_length [97, 10, 128512, 98] \<le> u32_max"
    by (simp_all add: byte_offset_at_position_def find_line.simps first_line_def strip_cr_def
        byte_offset_at_utf16_column_def saturating_add_def u32_max_def utf16_width_def utf8_width_def)
  then show ?thesis
    using positions_roundtrip [THEN conjunct1, of "[97, 10, 128512, 98]" "\<lparr>lp_line = 1, lp_character = 2\<rparr>" 6]
    by simp
qed

section \<open>Edits\<close>

lemma convert_iff:
  "lsp_position_to_byte_offset t p uri = Inr n \<longleftrightarrow> byte_offset_at_position t p = Inr n"
  by (cases "byte_offset_at_position t p") (simp_all add: lsp_position_to_byte_offset_def)

lemma offset_boundary:
  assumes "byte_length t \<le> u32_max" "byte_offset_at_position t p = Inr n"
  shows "\<exists>a b. t = a @ b \<and> n = byte_length a"
  using assms(2) unfolding offset_iff [OF assms(1)] located_def by (metis append.assoc)

lemma prefix_by_bytes:
  "a @ b = c @ d \<Longrightarrow> byte_length a \<le> byte_length c \<Longrightarrow> \<exists>m. c = a @ m"
proof (induction a arbitrary: c)
  case (Cons x a)
  then show ?case using utf8_width_pos [of x] by (cases c) auto
qed simp

text \<open>Whatever the size of the document, an offset found for a position is at a scalar value.\<close>

lemma column_from_boundary:
  "column_from u b t character = Inr offset \<Longrightarrow> \<exists>q r. t = q @ r \<and> offset = b + byte_length q"
proof (induction u b t character rule: column_from.induct)
  case (2 u b c t character)
  show ?case
  proof (cases "u = character")
    case True
    then show ?thesis using "2.prems" by (intro exI [of _ "[]"] exI [of _ "c # t"]) simp
  next
    case False
    then have "\<exists>q r. t = q @ r \<and> offset = b + utf8_width c + byte_length q"
      using "2.prems" "2.IH" [OF False refl] by (auto simp: Let_def split: if_splits)
    then obtain q r where "t = q @ r" "offset = b + utf8_width c + byte_length q" by blast
    then show ?thesis by (intro exI [of _ "c # q"] exI [of _ r]) simp
  qed
qed (simp split: if_splits)

lemma find_line_boundary:
  "find_line n start t p = Inr offset \<Longrightarrow> \<exists>a b. t = a @ b \<and> offset = start + byte_length a"
proof (induction n start t p rule: find_line.induct)
  case (1 n start t p)
  show ?case
  proof (cases "n = lp_line p")
    case True
    then have "map_sum (\<lambda>e. e) (\<lambda>column. start + column)
        (byte_offset_at_utf16_column (strip_cr (first_line t)) (lp_character p)) = Inr offset"
      using "1.prems" unfolding find_line.simps [of n start t p] by simp
    then obtain column where o: "offset = start + column"
      and c: "column_from 0 0 (strip_cr (first_line t)) (lp_character p) = Inr column"
      unfolding map_sum_eq_Inr byte_offset_at_utf16_column_def by blast
    obtain q r where q: "strip_cr (first_line t) = q @ r" "column = 0 + byte_length q"
      using column_from_boundary [OF c] by blast
    then obtain r' where "t = q @ r'" using prefix_of_line(2) [OF q(1)] by blast
    then show ?thesis using o q(2) by auto
  next
    case False
    note step = find_line.simps [of n start t p]
    show ?thesis
    proof (cases rule: first_line_cases [of t])
      case 1
      then show ?thesis using "1.prems" False unfolding step 1(2) by simp
    next
      case (2 rest)
      have "find_line (saturating_add n 1) (start + byte_length (first_line t) + 1) rest p = Inr offset"
        using "1.prems" False 2(2) unfolding step by simp
      then obtain a b where "rest = a @ b" "offset = start + byte_length (first_line t) + 1 + byte_length a"
        using "1.IH" [OF False 2(2)] by auto
      then show ?thesis
        using 2(1) by (intro exI [of _ "first_line t @ 10 # a"] exI [of _ b]) (simp add: utf8_width_def)
    qed
  qed
qed

lemma ranged_change_no_panic: "apply_ranged_change t rng replacement uri \<noteq> Panicked"
proof -
  have "split_at_byte n t \<noteq> None" if n: "lsp_position_to_byte_offset t p uri = Inr n" for n p
  proof -
    have "find_line 0 0 t p = Inr n" using n by (simp add: convert_iff byte_offset_at_position_def)
    then obtain a b where "t = a @ b" "n = 0 + byte_length a" using find_line_boundary by blast
    then show ?thesis by simp
  qed
  note boundary = this
  show ?thesis
  proof (cases "lsp_position_to_byte_offset t (lr_start rng) uri")
    case start: (Inr i)
    show ?thesis
    proof (cases "lsp_position_to_byte_offset t (lr_end rng) uri")
      case (Inr j)
      obtain a b where "split_at_byte i t = Some (a, b)" using boundary [OF start] by auto
      moreover obtain c d where "split_at_byte j t = Some (c, d)" using boundary [OF Inr] by auto
      ultimately show ?thesis using start Inr by (simp add: apply_ranged_change_def replace_range_def)
    qed (use start in \<open>simp add: apply_ranged_change_def\<close>)
  qed (simp add: apply_ranged_change_def)
qed

lemma content_changes_no_panic: "apply_content_changes t changes uri \<noteq> Panicked"
  by (induction changes arbitrary: t)
    (auto simp: apply_change_def ranged_change_no_panic split: lsp_result.splits option.splits)

text \<open>
  C33: an accepted edit replaces exactly the text between the two positions of its range and
  keeps the rest; it never panics, and it is refused only when a position of the range is not
  in the document or the range is backwards.
\<close>

theorem ranged_edit_replaces_range:
  assumes "byte_length t \<le> u32_max"
  shows "(case apply_ranged_change t rng replacement uri of
      Done t' \<Rightarrow> \<exists>a b c. t = a @ b @ c \<and> t' = a @ replacement @ c \<and>
        byte_offset_at_position t (lr_start rng) = Inr (byte_length a) \<and>
        byte_offset_at_position t (lr_end rng) = Inr (byte_length (a @ b))
    | Rejected e \<Rightarrow> le_kind e = ContentModified \<and>
        (\<forall>i j. byte_offset_at_position t (lr_start rng) = Inr i \<and>
          byte_offset_at_position t (lr_end rng) = Inr j \<longrightarrow> j < i)
    | Panicked \<Rightarrow> False)"
proof (cases "byte_offset_at_position t (lr_start rng)")
  case (Inl e)
  then show ?thesis
    by (simp add: apply_ranged_change_def lsp_position_to_byte_offset_def tpy6002_def
        with_tpy_code_def with_data_def lsp_error_def)
next
  case start: (Inr i)
  show ?thesis
  proof (cases "byte_offset_at_position t (lr_end rng)")
    case (Inl e)
    then show ?thesis using start
      by (simp add: apply_ranged_change_def lsp_position_to_byte_offset_def tpy6002_def
          with_tpy_code_def with_data_def lsp_error_def)
  next
    case (Inr j)
    obtain a b where a: "t = a @ b" "i = byte_length a" using offset_boundary [OF assms start] by blast
    obtain c d where c: "t = c @ d" "j = byte_length c" using offset_boundary [OF assms Inr] by blast
    show ?thesis
    proof (cases "j < i")
      case True
      then show ?thesis using start Inr
        by (simp add: apply_ranged_change_def lsp_position_to_byte_offset_def tpy6002_def
            with_tpy_code_def with_data_def lsp_error_def)
    next
      case False
      then obtain m where m: "c = a @ m" using prefix_by_bytes [of a b c d] a c by auto
      have "split_at_byte i t = Some (a, b)" "split_at_byte j t = Some (c, d)"
        using a c by (simp_all add: split_at_byte_Some)
      then have "apply_ranged_change t rng replacement uri = Done (a @ replacement @ d)"
        using start Inr False
        by (simp add: apply_ranged_change_def lsp_position_to_byte_offset_def replace_range_def)
      then show ?thesis using start Inr a c m by auto
    qed
  qed
qed

theorem ranged_edit_replaces_range_witness:
  "apply_ranged_change [97, 10, 98, 99] \<lparr>lr_start = \<lparr>lp_line = 1, lp_character = 0\<rparr>,
     lr_end = \<lparr>lp_line = 1, lp_character = 1\<rparr>\<rparr> [120, 121] ''u'' = Done [97, 10, 120, 121, 99] \<and>
   (\<exists>a b c. [97, 10, 98, 99 :: nat] = a @ b @ c \<and> [97, 10, 120, 121, 99] = a @ [120, 121] @ c)"
proof -
  let ?r = "\<lparr>lr_start = \<lparr>lp_line = 1, lp_character = 0\<rparr>, lr_end = \<lparr>lp_line = 1, lp_character = 1\<rparr>\<rparr>"
  have e: "apply_ranged_change [97, 10, 98, 99] ?r [120, 121] ''u'' = Done [97, 10, 120, 121, 99]"
    and small: "byte_length [97, 10, 98, 99] \<le> u32_max"
    by (simp_all add: byte_offset_at_position_def find_line.simps first_line_def strip_cr_def
        byte_offset_at_utf16_column_def saturating_add_def u32_max_def utf16_width_def utf8_width_def
        apply_ranged_change_def lsp_position_to_byte_offset_def replace_range_def)
  note th = ranged_edit_replaces_range [OF small, where rng = ?r and replacement = "[120, 121]" and uri = "''u''"]
  show ?thesis using th unfolding e lsp_result.case by blast
qed

end
