(* ===== verification/Lsp_Server.thy ===== *)
theory Lsp_Server
  imports Lsp_Positions
begin

text \<open>
  The language server (crates/typepython_lsp, server.rs and the document operations of
  analysis.rs): open documents with their versions, the dispatch of messages, the handlers of
  requests up to the query of the workspace, and the message loop with its writer. Arguments of
  the model, in the record \<open>host_ops\<close>: the conversion of a URI to a path (crate url), the
  deserialisers (serde), running a command, and the operations of the incremental workspace
  behind the open documents, each of which may answer, fail or panic. The writer is the record
  \<open>writer_ops\<close>; encoding, writing and flushing may fail.
\<close>

section \<open>Open documents\<close>

record overlay_document =
  ov_uri :: string
  ov_text :: document_text
  ov_version :: int

record 'w analysis_host =
  ah_overlays :: "(string \<times> overlay_document) list"
  ah_cached_workspace :: "'w option"

record lsp_watched_file_change =
  wf_uri :: string
  wf_change_type :: nat

text \<open>What the request handlers ask of the workspace.\<close>

datatype host_query =
    HoverAt string lsp_position
  | DefinitionAt string lsp_position
  | ReferencesAt string lsp_position bool
  | FormattingOf string
  | SignatureHelpAt string lsp_position
  | DocumentSymbolOf string
  | WorkspaceSymbolFor string
  | RenameAt string lsp_position string
  | CodeActionIn string lsp_range json
  | PreviewEmitOf string
  | FindTypeSourceAt string lsp_position
  | CompletionAt string lsp_position

text \<open>A command that ran: whether it succeeded, its status and what it printed.\<close>

record workflow_output =
  wo_success :: bool
  wo_status :: string
  wo_stdout :: string
  wo_stderr :: string

record 'w host_ops =
  ho_uri_to_path :: "string \<Rightarrow> lsp_error + string"
  ho_parse_changes :: "json \<Rightarrow> string + lsp_content_change_event list"
  ho_parse_watched :: "json \<Rightarrow> string + lsp_watched_file_change list"
  ho_parse_position :: "json \<Rightarrow> string + lsp_position"
  ho_parse_range :: "json \<Rightarrow> string + lsp_range"
  ho_config_dir :: string
  ho_run :: "string list \<Rightarrow> string + workflow_output"
  ho_project_update :: "string \<Rightarrow> overlay_document option \<Rightarrow> 'w \<Rightarrow> unit lsp_result \<times> 'w"
  ho_file_update :: "string \<Rightarrow> overlay_document option \<Rightarrow> 'w \<Rightarrow> unit lsp_result \<times> 'w"
  ho_diagnostics :: "'w analysis_host \<Rightarrow> (string \<times> json) list lsp_result \<times> 'w analysis_host"
  ho_query :: "host_query \<Rightarrow> 'w analysis_host \<Rightarrow> json lsp_result \<times> 'w analysis_host"

text \<open>\<^verbatim>\<open>if let Some(workspace) = self.cached_workspace.as_mut() { workspace.update(..)?; }\<close>.\<close>

definition update_workspace ::
    "(string \<Rightarrow> overlay_document option \<Rightarrow> 'w \<Rightarrow> unit lsp_result \<times> 'w) \<Rightarrow> string \<Rightarrow>
     overlay_document option \<Rightarrow> 'w analysis_host \<Rightarrow> unit lsp_result \<times> 'w analysis_host" where
  "update_workspace update path overlay host =
     (case ah_cached_workspace host of
        None \<Rightarrow> (Done (), host)
      | Some w \<Rightarrow>
          (let (outcome, w') = update path overlay w
           in (outcome, host\<lparr>ah_cached_workspace := Some w'\<rparr>)))"

definition open_document ::
    "'w host_ops \<Rightarrow> string \<Rightarrow> document_text \<Rightarrow> int \<Rightarrow> 'w analysis_host \<Rightarrow>
     unit lsp_result \<times> 'w analysis_host" where
  "open_document ops uri doc version host =
     (case ho_uri_to_path ops uri of
        Inl e \<Rightarrow> (Rejected e, host)
      | Inr path \<Rightarrow>
          (let overlay = \<lparr>ov_uri = uri, ov_text = doc, ov_version = version\<rparr>
           in update_workspace (ho_project_update ops) path (Some overlay)
                (host\<lparr>ah_overlays := bt_insert path overlay (ah_overlays host)\<rparr>)))"

definition version_message :: "int \<Rightarrow> int \<Rightarrow> string \<Rightarrow> string" where
  "version_message version current uri =
     ''TPY6002: didChange version '' @ show_int version @
     '' is out of sync with overlay version '' @ show_int current @ '' for `'' @ uri @ ''`''"

definition change_document ::
    "'w host_ops \<Rightarrow> string \<Rightarrow> int \<Rightarrow> lsp_content_change_event list \<Rightarrow> 'w analysis_host \<Rightarrow>
     unit lsp_result \<times> 'w analysis_host" where
  "change_document ops uri version changes host =
     (case ho_uri_to_path ops uri of
        Inl e \<Rightarrow> (Rejected e, host)
      | Inr path \<Rightarrow>
          (case bt_get (ah_overlays host) path of
             None \<Rightarrow> (Rejected (tpy6002 InvalidParams
                 (''TPY6002: didChange received for unopened overlay `'' @ uri @ ''`'')), host)
           | Some current \<Rightarrow>
               if version \<le> ov_version current
               then (Rejected (tpy6002 ContentModified
                       (version_message version (ov_version current) uri)), host)
               else if changes = []
               then (Rejected (tpy6002 InvalidParams
                       (''TPY6002: didChange received no content changes for `'' @ uri @ ''`'')), host)
               else (case apply_content_changes (ov_text current) changes uri of
                       Rejected e \<Rightarrow> (Rejected e, host)
                     | Panicked \<Rightarrow> (Panicked, host)
                     | Done doc \<Rightarrow>
                         (let overlay = \<lparr>ov_uri = uri, ov_text = doc, ov_version = version\<rparr>
                          in update_workspace (ho_project_update ops) path (Some overlay)
                               (host\<lparr>ah_overlays := bt_insert path overlay (ah_overlays host)\<rparr>)))))"

definition close_document ::
    "'w host_ops \<Rightarrow> string \<Rightarrow> 'w analysis_host \<Rightarrow> string lsp_result \<times> 'w analysis_host" where
  "close_document ops uri host =
     (case ho_uri_to_path ops uri of
        Inl e \<Rightarrow> (Rejected e, host)
      | Inr path \<Rightarrow>
          (case bt_get (ah_overlays host) path of
             None \<Rightarrow> (Rejected (tpy6002 InvalidParams
                 (''TPY6002: didClose received for unopened overlay `'' @ uri @ ''`'')), host)
           | Some _ \<Rightarrow>
               (case update_workspace (ho_project_update ops) path None
                       (host\<lparr>ah_overlays := bt_remove path (ah_overlays host)\<rparr>) of
                  (Done _, host') \<Rightarrow> (Done uri, host')
                | (Rejected e, host') \<Rightarrow> (Rejected e, host')
                | (Panicked, host') \<Rightarrow> (Panicked, host'))))"

definition is_deleted :: "lsp_watched_file_change \<Rightarrow> bool" where
  "is_deleted change \<longleftrightarrow> wf_change_type change = 3"

definition validate_change :: "lsp_watched_file_change \<Rightarrow> lsp_error option" where
  "validate_change change =
     (if wf_change_type change \<in> {1, 2, 3} then None
      else Some (lsp_error InvalidParams
        (''workspace/didChangeWatchedFiles received invalid file change type '' @
         show_nat (wf_change_type change))))"

fun change_watched_files ::
    "'w host_ops \<Rightarrow> lsp_watched_file_change list \<Rightarrow> string list \<Rightarrow> 'w analysis_host \<Rightarrow>
     string list lsp_result \<times> 'w analysis_host" where
  "change_watched_files ops [] cleared host = (Done cleared, host)"
| "change_watched_files ops (change # changes) cleared host =
     (case ho_uri_to_path ops (wf_uri change) of
        Inl e \<Rightarrow> (Rejected e, host)
      | Inr path \<Rightarrow>
          (let cleared' = (if is_deleted change \<and> bt_get (ah_overlays host) path = None
                           then cleared @ [wf_uri change] else cleared)
           in case update_workspace (ho_file_update ops) path (bt_get (ah_overlays host) path) host of
                (Done _, host') \<Rightarrow> change_watched_files ops changes cleared' host'
              | (Rejected e, host') \<Rightarrow> (Rejected e, host')
              | (Panicked, host') \<Rightarrow> (Panicked, host')))"

text \<open>An entry for every document with diagnostics, then an empty one for every other open document.\<close>

definition publish_diagnostics ::
    "'w host_ops \<Rightarrow> 'w analysis_host \<Rightarrow> (string \<times> json) list lsp_result \<times> 'w analysis_host" where
  "publish_diagnostics ops host =
     (case ho_diagnostics ops host of
        (Rejected e, host') \<Rightarrow> (Rejected e, host')
      | (Panicked, host') \<Rightarrow> (Panicked, host')
      | (Done by_uri, host') \<Rightarrow>
          (Done (fold (\<lambda>overlay notifications.
                  if list_ex (\<lambda>n. fst n = ov_uri overlay) notifications then notifications
                  else notifications @ [(ov_uri overlay, JArray [])])
                (map snd (ah_overlays host')) by_uri), host'))"

section \<open>Server\<close>

record 'w server =
  sv_analysis :: "'w analysis_host"
  sv_scheduler :: lsp_scheduler
  sv_shutdown_requested :: bool
  sv_exited :: bool

definition publish_diagnostics_notification :: "string \<Rightarrow> json \<Rightarrow> json" where
  "publish_diagnostics_notification uri diagnostics =
     json_object [(''jsonrpc'', JString ''2.0''),
       (''method'', JString ''textDocument/publishDiagnostics''),
       (''params'', json_object [(''uri'', JString uri), (''diagnostics'', diagnostics)])]"

definition request_ok_response :: "json option \<Rightarrow> json \<Rightarrow> json list" where
  "request_ok_response request_id value =
     (case request_id of
        None \<Rightarrow> []
      | Some i \<Rightarrow> [json_object [(''jsonrpc'', JString ''2.0''), (''id'', i), (''result'', value)]])"

text \<open>A required field of the parameters, and what the code makes of it.\<close>

definition require :: "'a option \<Rightarrow> lsp_error \<Rightarrow> lsp_error + 'a" where
  "require value e = (case value of None \<Rightarrow> Inl e | Some v \<Rightarrow> Inr v)"

abbreviation missing :: "string \<Rightarrow> lsp_error" where
  "missing message \<equiv> lsp_error InvalidParams message"

text \<open>Scalar values of a JSON string.\<close>

definition scalars :: "string \<Rightarrow> document_text" where
  "scalars s = map of_char s"

definition apply_did_open :: "'w host_ops \<Rightarrow> json \<Rightarrow> 'w analysis_host \<Rightarrow> unit lsp_result \<times> 'w analysis_host" where
  "apply_did_open ops params host =
     (case require (json_get params ''textDocument'') (missing ''didOpen missing `params.textDocument`'') of
        Inl e \<Rightarrow> (Rejected e, host)
      | Inr doc \<Rightarrow>
     (case require (Option.bind (json_get doc ''uri'') as_str)
             (missing ''didOpen missing `params.textDocument.uri`'') of
        Inl e \<Rightarrow> (Rejected e, host)
      | Inr uri \<Rightarrow>
     (case require (Option.bind (json_get doc ''text'') as_str)
             (missing ''didOpen missing `params.textDocument.text`'') of
        Inl e \<Rightarrow> (Rejected e, host)
      | Inr content \<Rightarrow>
     (case require (Option.bind (json_get doc ''version'') as_i64)
             (tpy6002 InvalidParams ''TPY6002: didOpen missing `params.textDocument.version`'') of
        Inl e \<Rightarrow> (Rejected e, host)
      | Inr version \<Rightarrow> open_document ops uri (scalars content) version host))))"

definition apply_did_change :: "'w host_ops \<Rightarrow> json \<Rightarrow> 'w analysis_host \<Rightarrow> unit lsp_result \<times> 'w analysis_host" where
  "apply_did_change ops params host =
     (case require (json_get params ''textDocument'') (missing ''didChange missing `params.textDocument`'') of
        Inl e \<Rightarrow> (Rejected e, host)
      | Inr doc \<Rightarrow>
     (case require (Option.bind (json_get doc ''uri'') as_str)
             (missing ''didChange missing `params.textDocument.uri`'') of
        Inl e \<Rightarrow> (Rejected e, host)
      | Inr uri \<Rightarrow>
     (case require (Option.bind (json_get doc ''version'') as_i64)
             (tpy6002 InvalidParams ''TPY6002: didChange missing `params.textDocument.version`'') of
        Inl e \<Rightarrow> (Rejected e, host)
      | Inr version \<Rightarrow>
     (case require (json_get params ''contentChanges'')
             (missing ''didChange missing `params.contentChanges`'') of
        Inl e \<Rightarrow> (Rejected e, host)
      | Inr raw \<Rightarrow>
     (case ho_parse_changes ops raw of
        Inl e \<Rightarrow> (Rejected (missing (''didChange has invalid `params.contentChanges`: '' @ e)), host)
      | Inr changes \<Rightarrow> change_document ops uri version changes host)))))"

definition apply_did_close :: "'w host_ops \<Rightarrow> json \<Rightarrow> 'w analysis_host \<Rightarrow> json list lsp_result \<times> 'w analysis_host" where
  "apply_did_close ops params host =
     (case require (Option.bind (Option.bind (json_get params ''textDocument'') (\<lambda>d. json_get d ''uri'')) as_str)
             (missing ''didClose missing `params.textDocument.uri`'') of
        Inl e \<Rightarrow> (Rejected e, host)
      | Inr uri \<Rightarrow>
          (case close_document ops uri host of
             (Done u, host') \<Rightarrow> (Done [publish_diagnostics_notification u (JArray [])], host')
           | (Rejected e, host') \<Rightarrow> (Rejected e, host')
           | (Panicked, host') \<Rightarrow> (Panicked, host')))"

definition apply_did_change_watched_files ::
    "'w host_ops \<Rightarrow> json \<Rightarrow> 'w analysis_host \<Rightarrow> json list lsp_result \<times> 'w analysis_host" where
  "apply_did_change_watched_files ops params host =
     (case require (json_get params ''changes'')
             (missing ''workspace/didChangeWatchedFiles missing `params.changes`'') of
        Inl e \<Rightarrow> (Rejected e, host)
      | Inr raw \<Rightarrow>
     (case ho_parse_watched ops raw of
        Inl e \<Rightarrow> (Rejected (missing
            (''workspace/didChangeWatchedFiles has invalid `params.changes`: '' @ e)), host)
      | Inr changes \<Rightarrow>
     (case List.map_filter validate_change changes of
        e # _ \<Rightarrow> (Rejected e, host)
      | [] \<Rightarrow>
          (case change_watched_files ops changes [] host of
             (Done uris, host') \<Rightarrow>
               (Done (map (\<lambda>u. publish_diagnostics_notification u (JArray [])) uris), host')
           | (Rejected e, host') \<Rightarrow> (Rejected e, host')
           | (Panicked, host') \<Rightarrow> (Panicked, host')))))"

definition schedule_diagnostics_batch ::
    "'w host_ops \<Rightarrow> nat \<Rightarrow> json list \<Rightarrow> 'w server \<Rightarrow> json list lsp_result \<times> 'w server" where
  "schedule_diagnostics_batch ops now notifications server =
     (case publish_diagnostics ops (sv_analysis server) of
        (Rejected e, host) \<Rightarrow> (Rejected e, server\<lparr>sv_analysis := host\<rparr>)
      | (Panicked, host) \<Rightarrow> (Panicked, server\<lparr>sv_analysis := host\<rparr>)
      | (Done published, host) \<Rightarrow>
          (let batch = notifications @ map (\<lambda>(u, d). publish_diagnostics_notification u d) published;
               (now_sent, scheduler) =
                 immediate_or_deferred_notifications (schedule_diagnostics now batch (sv_scheduler server))
           in (Done now_sent, server\<lparr>sv_analysis := host, sv_scheduler := scheduler\<rparr>)))"

definition initialize_result :: "string \<Rightarrow> json" where
  "initialize_result pkg_version =
     json_object [
       (''capabilities'', json_object [
          (''positionEncoding'', JString ''utf-16''),
          (''textDocumentSync'', json_object [(''openClose'', JBool True), (''change'', JInt 2)]),
          (''hoverProvider'', JBool True), (''definitionProvider'', JBool True),
          (''referencesProvider'', JBool True), (''documentFormattingProvider'', JBool True),
          (''signatureHelpProvider'', json_object [
             (''triggerCharacters'', JArray [JString ''('', JString '','']) ]),
          (''documentSymbolProvider'', JBool True), (''workspaceSymbolProvider'', JBool True),
          (''renameProvider'', JBool True), (''codeActionProvider'', JBool True),
          (''executeCommandProvider'', json_object [
             (''commands'', JArray (map JString [''typepython.migrateReport'', ''typepython.compat'',
                ''typepython.typeHealth'', ''typepython.previewEmit'', ''typepython.findTypeSource'']))]),
          (''completionProvider'', json_object [
             (''resolveProvider'', JBool False), (''triggerCharacters'', JArray [JString ''.''])])]),
       (''serverInfo'', json_object [(''name'', JString ''typepython''), (''version'', JString pkg_version)])]"

text \<open>The methods that query the workspace and answer with one value.\<close>

definition request_methods :: "string list" where
  "request_methods = [''textDocument/hover'', ''textDocument/definition'', ''textDocument/references'',
     ''textDocument/formatting'', ''textDocument/signatureHelp'', ''textDocument/documentSymbol'',
     ''workspace/symbol'', ''textDocument/rename'', ''textDocument/codeAction'',
     ''workspace/executeCommand'', ''textDocument/completion'']"

text \<open>
  The parameters of a request (\<^verbatim>\<open>text_document_position\<close>,
  \<^verbatim>\<open>text_document_range\<close> and the arguments of a command).
\<close>

fun as_bool :: "json \<Rightarrow> bool option" where
  "as_bool (JBool b) = Some b"
| "as_bool _ = None"

fun as_array :: "json \<Rightarrow> json list option" where
  "as_array (JArray xs) = Some xs"
| "as_array _ = None"

fun as_u64 :: "json \<Rightarrow> nat option" where
  "as_u64 (JInt n) = (if 0 \<le> n \<and> n < 2 ^ 64 then Some (nat n) else None)"
| "as_u64 _ = None"

definition nth_argument :: "nat \<Rightarrow> json list \<Rightarrow> json option" where
  "nth_argument k xs = (if k < length xs then Some (xs ! k) else None)"

definition document_uri :: "json \<Rightarrow> string \<Rightarrow> lsp_error + string" where
  "document_uri params message =
     require (Option.bind (Option.bind (json_get params ''textDocument'') (\<lambda>d. json_get d ''uri'')) as_str)
       (missing message)"

definition text_document_position :: "'w host_ops \<Rightarrow> json \<Rightarrow> lsp_error + string \<times> lsp_position" where
  "text_document_position ops params =
     (case document_uri params ''textDocument/position request missing `params.textDocument.uri`'' of
        Inl e \<Rightarrow> Inl e
      | Inr uri \<Rightarrow>
     (case require (json_get params ''position'')
             (missing ''textDocument/position request missing `params.position`'') of
        Inl e \<Rightarrow> Inl e
      | Inr raw \<Rightarrow>
     (case ho_parse_position ops raw of
        Inl e \<Rightarrow> Inl (missing (''textDocument/position request has invalid `params.position`: '' @ e))
      | Inr position \<Rightarrow> Inr (uri, position))))"

definition text_document_range :: "'w host_ops \<Rightarrow> json \<Rightarrow> lsp_error + string \<times> lsp_range" where
  "text_document_range ops params =
     (case document_uri params ''textDocument/range request missing `params.textDocument.uri`'' of
        Inl e \<Rightarrow> Inl e
      | Inr uri \<Rightarrow>
     (case require (json_get params ''range'')
             (missing ''textDocument/range request missing `params.range`'') of
        Inl e \<Rightarrow> Inl e
      | Inr raw \<Rightarrow>
     (case ho_parse_range ops raw of
        Inl e \<Rightarrow> Inl (missing (''textDocument/range request has invalid `params.range`: '' @ e))
      | Inr rng \<Rightarrow> Inr (uri, rng))))"

definition command_error :: "string \<Rightarrow> string \<Rightarrow> lsp_error" where
  "command_error command rest = missing (''workspace/executeCommand `'' @ command @ ''` '' @ rest)"

definition command_uri_argument :: "json \<Rightarrow> string \<Rightarrow> lsp_error + string" where
  "command_uri_argument params command =
     require (Option.bind (Option.bind (Option.bind (json_get params ''arguments'') as_array) (nth_argument 0)) as_str)
       (command_error command ''requires the current document URI as its first argument'')"

text \<open>The casts \<^verbatim>\<open>as u32\<close> keep the low 32 bits.\<close>

definition command_position_arguments :: "json \<Rightarrow> string \<Rightarrow> lsp_error + string \<times> lsp_position" where
  "command_position_arguments params command =
     (case require (Option.bind (json_get params ''arguments'') as_array)
             (command_error command ''requires arguments [uri, line, character]'') of
        Inl e \<Rightarrow> Inl e
      | Inr arguments \<Rightarrow>
     (case require (Option.bind (nth_argument 0 arguments) as_str)
             (command_error command ''requires the current document URI as its first argument'') of
        Inl e \<Rightarrow> Inl e
      | Inr uri \<Rightarrow>
     (case require (Option.bind (nth_argument 1 arguments) as_u64)
             (command_error command ''requires a zero-based line as its second argument'') of
        Inl e \<Rightarrow> Inl e
      | Inr line \<Rightarrow>
     (case require (Option.bind (nth_argument 2 arguments) as_u64)
             (command_error command ''requires a zero-based character as its third argument'') of
        Inl e \<Rightarrow> Inl e
      | Inr character \<Rightarrow>
          Inr (uri, \<lparr>lp_line = line mod 2 ^ 32, lp_character = character mod 2 ^ 32\<rparr>)))))"

definition workflow_command_args :: "string \<Rightarrow> string \<Rightarrow> lsp_error + string list" where
  "workflow_command_args command project =
     (if command = ''typepython.migrateReport'' then Inr [''migrate'', ''--project'', project, ''--report'']
      else if command = ''typepython.compat'' then Inr [''compat'', ''--project'', project]
      else if command = ''typepython.typeHealth'' then Inr [''type-health'', ''--project'', project]
      else Inl (missing (''workspace/executeCommand received unsupported TypePython command `'' @
        command @ ''`'')))"

definition workflow_stderr_suffix :: "string \<Rightarrow> string" where
  "workflow_stderr_suffix stderr = (if trim stderr = [] then [] else '': '' @ trim stderr)"

definition tpy6004 :: "string \<Rightarrow> lsp_error" where
  "tpy6004 message = with_tpy_code (lsp_error RequestFailed message) ''TPY6004''"

definition run_workflow :: "'w host_ops \<Rightarrow> string \<Rightarrow> lsp_error + json" where
  "run_workflow ops command =
     (case workflow_command_args command (ho_config_dir ops) of
        Inl e \<Rightarrow> Inl e
      | Inr args \<Rightarrow>
     (case ho_run ops args of
        Inl e \<Rightarrow> Inl (tpy6004 (''TPY6004: unable to run workflow command `'' @ command @ ''`: '' @ e))
      | Inr result \<Rightarrow>
          if \<not> wo_success result then
            Inl (tpy6004 (''TPY6004: workflow command `'' @ command @ ''` exited with status '' @
              wo_status result @ workflow_stderr_suffix (wo_stderr result)))
          else Inr (json_object [(''command'', JString command), (''argv'', JArray (map JString args)),
            (''stdout'', JString (wo_stdout result)), (''stderr'', JString (wo_stderr result))])))"

text \<open>The handlers, from the parameters to the query.\<close>

definition ask ::
    "'w host_ops \<Rightarrow> lsp_error + host_query \<Rightarrow> 'w analysis_host \<Rightarrow> json lsp_result \<times> 'w analysis_host" where
  "ask ops parsed host =
     (case parsed of Inl e \<Rightarrow> (Rejected e, host) | Inr q \<Rightarrow> ho_query ops q host)"

definition at_position ::
    "'w host_ops \<Rightarrow> (string \<Rightarrow> lsp_position \<Rightarrow> host_query) \<Rightarrow> json \<Rightarrow> lsp_error + host_query" where
  "at_position ops q params = map_sum id (\<lambda>(uri, position). q uri position) (text_document_position ops params)"

definition handle_references ::
    "'w host_ops \<Rightarrow> json \<Rightarrow> 'w analysis_host \<Rightarrow> json lsp_result \<times> 'w analysis_host" where
  "handle_references ops params host =
     (let include_declaration =
        (case Option.bind (Option.bind (json_get params ''context'')
                (\<lambda>c. json_get c ''includeDeclaration'')) as_bool of
           None \<Rightarrow> False | Some b \<Rightarrow> b)
      in ask ops (at_position ops (\<lambda>uri position. ReferencesAt uri position include_declaration) params) host)"

definition handle_workspace_symbol ::
    "'w host_ops \<Rightarrow> json \<Rightarrow> 'w analysis_host \<Rightarrow> json lsp_result \<times> 'w analysis_host" where
  "handle_workspace_symbol ops params host =
     ask ops (Inr (WorkspaceSymbolFor
       (case Option.bind (json_get params ''query'') as_str of None \<Rightarrow> [] | Some q \<Rightarrow> q))) host"

definition handle_rename ::
    "'w host_ops \<Rightarrow> json \<Rightarrow> 'w analysis_host \<Rightarrow> json lsp_result \<times> 'w analysis_host" where
  "handle_rename ops params host =
     (case text_document_position ops params of
        Inl e \<Rightarrow> (Rejected e, host)
      | Inr (uri, position) \<Rightarrow>
          ask ops (map_sum id (RenameAt uri position)
            (require (Option.bind (json_get params ''newName'') as_str)
              (missing ''rename request missing `params.newName`''))) host)"

definition handle_code_action ::
    "'w host_ops \<Rightarrow> json \<Rightarrow> 'w analysis_host \<Rightarrow> json lsp_result \<times> 'w analysis_host" where
  "handle_code_action ops params host =
     ask ops (map_sum id (\<lambda>(uri, rng). CodeActionIn uri rng params) (text_document_range ops params)) host"

definition handle_execute_command ::
    "'w host_ops \<Rightarrow> json \<Rightarrow> 'w analysis_host \<Rightarrow> json lsp_result \<times> 'w analysis_host" where
  "handle_execute_command ops params host =
     (case require (Option.bind (json_get params ''command'') as_str)
             (missing ''workspace/executeCommand request missing `params.command`'') of
        Inl e \<Rightarrow> (Rejected e, host)
      | Inr command \<Rightarrow>
          if command = ''typepython.previewEmit'' then
            ask ops (map_sum id PreviewEmitOf (command_uri_argument params command)) host
          else if command = ''typepython.findTypeSource'' then
            ask ops (map_sum id (\<lambda>(uri, position). FindTypeSourceAt uri position)
              (command_position_arguments params command)) host
          else (case run_workflow ops command of Inl e \<Rightarrow> Rejected e | Inr value \<Rightarrow> Done value, host))"

definition run_request ::
    "'w host_ops \<Rightarrow> string \<Rightarrow> json \<Rightarrow> 'w analysis_host \<Rightarrow> json lsp_result \<times> 'w analysis_host" where
  "run_request ops meth params host =
     (if meth = ''textDocument/hover'' then ask ops (at_position ops HoverAt params) host
      else if meth = ''textDocument/definition'' then ask ops (at_position ops DefinitionAt params) host
      else if meth = ''textDocument/references'' then handle_references ops params host
      else if meth = ''textDocument/formatting'' then
        ask ops (map_sum id FormattingOf (document_uri params
          ''textDocument/formatting request missing `params.textDocument.uri`'')) host
      else if meth = ''textDocument/signatureHelp'' then ask ops (at_position ops SignatureHelpAt params) host
      else if meth = ''textDocument/documentSymbol'' then
        ask ops (map_sum id DocumentSymbolOf (document_uri params
          ''textDocument/documentSymbol request missing `params.textDocument.uri`'')) host
      else if meth = ''workspace/symbol'' then handle_workspace_symbol ops params host
      else if meth = ''textDocument/rename'' then handle_rename ops params host
      else if meth = ''textDocument/codeAction'' then handle_code_action ops params host
      else if meth = ''workspace/executeCommand'' then handle_execute_command ops params host
      else ask ops (at_position ops CompletionAt params) host)"

text \<open>The rest of a document notification once its parameters are applied.\<close>

definition after_apply ::
    "'w host_ops \<Rightarrow> nat \<Rightarrow> 'w server \<Rightarrow> json list lsp_result \<times> 'w analysis_host \<Rightarrow>
     json list lsp_result \<times> 'w server" where
  "after_apply ops now server applied =
     (let server' = server\<lparr>sv_analysis := snd applied\<rparr>
      in case fst applied of
           Done cleared \<Rightarrow> schedule_diagnostics_batch ops now cleared server'
         | Rejected e \<Rightarrow> (Rejected e, server')
         | Panicked \<Rightarrow> (Panicked, server'))"

fun no_notifications :: "unit lsp_result \<times> 'h \<Rightarrow> json list lsp_result \<times> 'h" where
  "no_notifications (Done _, h) = (Done [], h)"
| "no_notifications (Rejected e, h) = (Rejected e, h)"
| "no_notifications (Panicked, h) = (Panicked, h)"

definition dispatch_message ::
    "'w host_ops \<Rightarrow> string \<Rightarrow> nat \<Rightarrow> string \<Rightarrow> json option \<Rightarrow> json \<Rightarrow> 'w server \<Rightarrow>
     json list lsp_result \<times> 'w server" where
  "dispatch_message ops pkg_version now meth request_id params server =
     (if meth = ''initialize'' then
        (Done (request_ok_response request_id (initialize_result pkg_version)), server)
      else if meth = ''initialized'' then (Done [], server)
      else if meth = ''$/cancelRequest'' then
        (Done [], case json_get params ''id'' of
           None \<Rightarrow> server
         | Some i \<Rightarrow> server\<lparr>sv_scheduler := cancel_request i (sv_scheduler server)\<rparr>)
      else if meth = ''shutdown'' then
        (Done (request_ok_response request_id JNull), server\<lparr>sv_shutdown_requested := True\<rparr>)
      else if meth = ''exit'' then (Done [], server\<lparr>sv_exited := True\<rparr>)
      else if meth = ''textDocument/didOpen'' then
        after_apply ops now server (no_notifications (apply_did_open ops params (sv_analysis server)))
      else if meth = ''textDocument/didChange'' then
        after_apply ops now server (no_notifications (apply_did_change ops params (sv_analysis server)))
      else if meth = ''textDocument/didClose'' then
        after_apply ops now server (apply_did_close ops params (sv_analysis server))
      else if meth = ''workspace/didChangeWatchedFiles'' then
        after_apply ops now server (apply_did_change_watched_files ops params (sv_analysis server))
      else if meth \<in> set request_methods then
        (case run_request ops meth params (sv_analysis server) of
           (Rejected e, host) \<Rightarrow> (Rejected e, server\<lparr>sv_analysis := host\<rparr>)
         | (Panicked, host) \<Rightarrow> (Panicked, server\<lparr>sv_analysis := host\<rparr>)
         | (Done value, host) \<Rightarrow>
             (Done (request_ok_response request_id value), server\<lparr>sv_analysis := host\<rparr>))
      else if request_id \<noteq> None then
        (Rejected (lsp_error MethodNotFound (''JSON-RPC method `'' @ meth @
          ''` is not supported by the TypePython language server'')), server)
      else (Done [], server))"

definition message_params :: "json \<Rightarrow> json" where
  "message_params message = (case json_get message ''params'' of None \<Rightarrow> JNull | Some p \<Rightarrow> p)"

text \<open>\<open>now\<close> is the clock when diagnostics are scheduled, \<open>later\<close> when due ones are flushed.\<close>

definition handle_message ::
    "'w host_ops \<Rightarrow> string \<Rightarrow> nat \<Rightarrow> nat \<Rightarrow> json \<Rightarrow> 'w server \<Rightarrow> json list lsp_result \<times> 'w server" where
  "handle_message ops pkg_version now later message server =
     (case Option.bind (json_get message ''method'') as_str of
        None \<Rightarrow> (Done [], server)
      | Some meth \<Rightarrow>
          (let request_id = json_get message ''id'';
               params = message_params message;
               (canceled, scheduler) = take_cancellation request_id (sv_scheduler server);
               server1 = server\<lparr>sv_scheduler := scheduler\<rparr>
           in if canceled then (Done [], server1)
              else (let (outcome, server2) =
                          dispatch_message ops pkg_version now meth request_id params server1;
                        flush = (\<lambda>responses.
                          let (due, scheduler) = flush_due_after later meth (sv_scheduler server2)
                          in (Done (responses @ due), server2\<lparr>sv_scheduler := scheduler\<rparr>))
                    in case outcome of
                         Done responses \<Rightarrow> flush responses
                       | Rejected e \<Rightarrow>
                           flush (case request_id of None \<Rightarrow> [] | Some i \<Rightarrow> [jsonrpc_response e i])
                       | Panicked \<Rightarrow> (Panicked, server2))))"

section \<open>The message loop\<close>

text \<open>
  What \<^verbatim>\<open>recv\<close> or \<^verbatim>\<open>recv_timeout\<close> gives the loop: a message (with the clock when it
  is handled), the end of the input, an error of the reader, or nothing in time.
\<close>

datatype incoming = Message nat nat json | EndOfInput | ReaderFailed lsp_error | TimedOut nat

datatype serve_outcome = Waiting | Finished | Failed lsp_error | Crashed

text \<open>
  The client at the other end: what the writer does with bytes and with a flush, on a state of its
  own, and the encoding of a message (\<^verbatim>\<open>serde_json::to_vec\<close>).
\<close>

record 'o writer_ops =
  wr_encode :: "json \<Rightarrow> string + u8 list"
  wr_write :: "u8 list \<Rightarrow> 'o \<Rightarrow> string option \<times> 'o"
  wr_flush :: "'o \<Rightarrow> string option \<times> 'o"

text \<open>\<^verbatim>\<open>io::Error\<close> as an error of the server.\<close>

definition io_failure :: "string option \<times> 'o \<Rightarrow> lsp_error option \<times> 'o" where
  "io_failure r = (map_option (lsp_error Internal) (fst r), snd r)"

definition message_header :: "u8 list \<Rightarrow> u8 list" where
  "message_header payload =
     map of_char (''Content-Length: '' @ show_nat (length payload) @ [CHR 0x0D, CHR 0x0A, CHR 0x0D, CHR 0x0A])"

definition write_message :: "'o writer_ops \<Rightarrow> json \<Rightarrow> 'o \<Rightarrow> lsp_error option \<times> 'o" where
  "write_message w value out =
     (case wr_encode w value of
        Inl e \<Rightarrow> (Some (lsp_error Internal (''unable to encode JSON-RPC payload: '' @ e)), out)
      | Inr payload \<Rightarrow>
          (case io_failure (wr_write w (message_header payload) out) of
             (Some e, out') \<Rightarrow> (Some e, out')
           | (None, out') \<Rightarrow> io_failure (wr_write w payload out')))"

text \<open>\<^verbatim>\<open>for response in responses { write_message(..)?; } writer.flush()?\<close>.\<close>

fun write_responses :: "'o writer_ops \<Rightarrow> json list \<Rightarrow> 'o \<Rightarrow> lsp_error option \<times> 'o" where
  "write_responses w [] out = io_failure (wr_flush w out)"
| "write_responses w (response # responses) out =
     (case write_message w response out of
        (Some e, out') \<Rightarrow> (Some e, out')
      | (None, out') \<Rightarrow> write_responses w responses out')"

text \<open>The end of the loop: what still waits is written, and the background mode ends.\<close>

definition finish_loop :: "'o writer_ops \<Rightarrow> 'w server \<Rightarrow> 'o \<Rightarrow> serve_outcome \<times> 'o \<times> 'w server" where
  "finish_loop w server out =
     (let (responses, sc) = flush_all (sv_scheduler server);
          server' = server\<lparr>sv_scheduler := sc\<rparr>
      in case write_responses w responses out of
           (Some e, out') \<Rightarrow> (Failed e, out', server')
         | (None, out') \<Rightarrow>
             (Finished, out', server\<lparr>sv_scheduler := disable_background_mode sc\<rparr>))"

fun serve_loop ::
    "'w host_ops \<Rightarrow> 'o writer_ops \<Rightarrow> string \<Rightarrow> incoming list \<Rightarrow> 'w server \<Rightarrow> 'o \<Rightarrow>
     serve_outcome \<times> 'o \<times> 'w server" where
  "serve_loop ops w v [] server out = (Waiting, out, server)"
| "serve_loop ops w v (incoming # rest) server out =
     (let continue = (\<lambda>responses s.
            case write_responses w responses out of
              (Some e, out') \<Rightarrow> (Failed e, out', s)
            | (None, out') \<Rightarrow>
                if sv_exited s then finish_loop w s out' else serve_loop ops w v rest s out')
      in case incoming of
           Message now later m \<Rightarrow>
             (case handle_message ops v now later m server of
                (Done responses, s) \<Rightarrow> continue responses s
              | (Rejected e, s) \<Rightarrow> (Failed e, out, s)
              | (Panicked, s) \<Rightarrow> (Crashed, out, s))
         | EndOfInput \<Rightarrow> finish_loop w server out
         | ReaderFailed e \<Rightarrow> (Failed e, out, server)
         | TimedOut now \<Rightarrow>
             (let (responses, sc) = flush_due_timeout now (sv_scheduler server)
              in continue responses (server\<lparr>sv_scheduler := sc\<rparr>)))"

definition serve ::
    "'w host_ops \<Rightarrow> 'o writer_ops \<Rightarrow> string \<Rightarrow> incoming list \<Rightarrow> 'w server \<Rightarrow> 'o \<Rightarrow>
     serve_outcome \<times> 'o \<times> 'w server" where
  "serve ops w v incoming server out =
     serve_loop ops w v incoming (server\<lparr>sv_scheduler := enable_background_mode (sv_scheduler server)\<rparr>) out"

definition new_server :: "nat \<Rightarrow> 'w server" where
  "new_server debounce_ms =
     \<lparr>sv_analysis = \<lparr>ah_overlays = [], ah_cached_workspace = None\<rparr>,
      sv_scheduler = new_scheduler debounce_ms, sv_shutdown_requested = False, sv_exited = False\<rparr>"

section \<open>The server keeps running\<close>

text \<open>The operations of the workspace return, with an answer or an error.\<close>

definition handlers_return :: "'w host_ops \<Rightarrow> bool" where
  "handlers_return ops \<longleftrightarrow>
     (\<forall>path overlay w. fst (ho_project_update ops path overlay w) \<noteq> Panicked) \<and>
     (\<forall>path overlay w. fst (ho_file_update ops path overlay w) \<noteq> Panicked) \<and>
     (\<forall>host. fst (ho_diagnostics ops host) \<noteq> Panicked) \<and>
     (\<forall>q host. fst (ho_query ops q host) \<noteq> Panicked)"

lemma update_workspace_no_panic:
  "(\<And>p v w. fst (update p v w) \<noteq> Panicked) \<Longrightarrow> fst (update_workspace update path overlay host) \<noteq> Panicked"
  by (simp add: update_workspace_def Let_def split_beta split: option.splits)

text \<open>A notification applied to the open documents never panics by itself.\<close>

lemma open_no_panic: "handlers_return ops \<Longrightarrow> fst (open_document ops uri doc version host) \<noteq> Panicked"
  by (simp add: open_document_def Let_def update_workspace_no_panic handlers_return_def split: sum.splits)

lemma change_no_panic: "handlers_return ops \<Longrightarrow> fst (change_document ops uri version changes host) \<noteq> Panicked"
  using content_changes_no_panic
  by (auto simp: change_document_def Let_def update_workspace_no_panic handlers_return_def
      split: sum.splits option.splits lsp_result.splits)

lemma close_no_panic:
  assumes "handlers_return ops"
  shows "fst (close_document ops uri host) \<noteq> Panicked"
proof (cases "ho_uri_to_path ops uri")
  case (Inr path)
  let ?u = "update_workspace (ho_project_update ops) path None
    (host\<lparr>ah_overlays := bt_remove path (ah_overlays host)\<rparr>)"
  have "fst ?u \<noteq> Panicked" by (rule update_workspace_no_panic) (use assms in \<open>simp add: handlers_return_def\<close>)
  then show ?thesis using Inr
    by (cases ?u; cases "fst ?u") (simp_all add: close_document_def split: option.splits)
qed (simp add: close_document_def)

lemma watched_no_panic:
  "handlers_return ops \<Longrightarrow> fst (change_watched_files ops changes cleared host) \<noteq> Panicked"
proof (induction ops changes cleared host rule: change_watched_files.induct)
  case (2 ops change changes cleared host)
  show ?case
  proof (cases "ho_uri_to_path ops (wf_uri change)")
    case (Inr path)
    let ?u = "update_workspace (ho_file_update ops) path (bt_get (ah_overlays host) path) host"
    have "fst ?u \<noteq> Panicked" by (rule update_workspace_no_panic) (use 2 in \<open>simp add: handlers_return_def\<close>)
    then show ?thesis using 2(1) [OF Inr refl] 2(2) Inr
      by (cases ?u; cases "fst ?u") (auto simp: Let_def split: lsp_result.splits)
  qed simp
qed simp

lemma apply_no_panic:
  assumes "handlers_return ops"
  shows "fst (apply_did_open ops params host) \<noteq> Panicked"
    "fst (apply_did_change ops params host) \<noteq> Panicked"
  using assms
  by (simp_all add: apply_did_open_def apply_did_change_def open_no_panic change_no_panic split: sum.splits)

lemma close_notification_no_panic:
  assumes "handlers_return ops"
  shows "fst (apply_did_close ops params host) \<noteq> Panicked"
proof -
  have "fst (case close_document ops uri host of
      (Done u, h) \<Rightarrow> (Done [publish_diagnostics_notification u (JArray [])], h)
    | (Rejected e, h) \<Rightarrow> (Rejected e, h) | (Panicked, h) \<Rightarrow> (Panicked, h)) \<noteq> Panicked" for uri
    using close_no_panic [OF assms, of uri host]
    by (cases "close_document ops uri host"; cases "fst (close_document ops uri host)") simp_all
  then show ?thesis by (simp add: apply_did_close_def split: sum.splits)
qed

lemma watched_notification_no_panic:
  assumes "handlers_return ops"
  shows "fst (apply_did_change_watched_files ops params host) \<noteq> Panicked"
proof -
  have "fst (case change_watched_files ops changes [] host of
      (Done uris, h) \<Rightarrow> (Done (map (\<lambda>u. publish_diagnostics_notification u (JArray [])) uris), h)
    | (Rejected e, h) \<Rightarrow> (Rejected e, h) | (Panicked, h) \<Rightarrow> (Panicked, h)) \<noteq> Panicked" for changes
    using watched_no_panic [OF assms, of changes "[]" host]
    by (cases "change_watched_files ops changes [] host";
        cases "fst (change_watched_files ops changes [] host)") simp_all
  then show ?thesis by (simp add: apply_did_change_watched_files_def split: sum.splits list.splits)
qed

lemma no_notifications_no_panic: "fst r \<noteq> Panicked \<Longrightarrow> fst (no_notifications r) \<noteq> Panicked"
  by (cases r rule: no_notifications.cases) simp_all

lemma publish_no_panic: "handlers_return ops \<Longrightarrow> fst (publish_diagnostics ops host) \<noteq> Panicked"
  by (cases "ho_diagnostics ops host"; cases "fst (ho_diagnostics ops host)")
    (auto simp: publish_diagnostics_def handlers_return_def dest: spec [of _ host])

lemma batch_no_panic:
  assumes "handlers_return ops"
  shows "fst (schedule_diagnostics_batch ops now ns server) \<noteq> Panicked"
  using publish_no_panic [OF assms, of "sv_analysis server"]
  by (cases "publish_diagnostics ops (sv_analysis server)";
      cases "fst (publish_diagnostics ops (sv_analysis server))")
    (simp_all add: schedule_diagnostics_batch_def Let_def split_beta)

lemma after_apply_no_panic:
  "handlers_return ops \<Longrightarrow> fst r \<noteq> Panicked \<Longrightarrow> fst (after_apply ops now server r) \<noteq> Panicked"
  by (cases "fst r") (simp_all add: after_apply_def Let_def batch_no_panic)

lemma ask_no_panic: "handlers_return ops \<Longrightarrow> fst (ask ops parsed host) \<noteq> Panicked"
  by (simp add: ask_def handlers_return_def split: sum.splits)

lemma run_request_no_panic: "handlers_return ops \<Longrightarrow> fst (run_request ops meth params host) \<noteq> Panicked"
  by (simp add: run_request_def handle_references_def handle_workspace_symbol_def handle_rename_def
      handle_code_action_def handle_execute_command_def Let_def ask_no_panic split: sum.splits prod.splits)

lemma dispatch_no_panic:
  assumes "handlers_return ops"
  shows "fst (dispatch_message ops v now meth i params server) \<noteq> Panicked"
proof -
  have "fst (case run_request ops meth params (sv_analysis server) of
           (Rejected e, host) \<Rightarrow> (Rejected e, server\<lparr>sv_analysis := host\<rparr>)
         | (Panicked, host) \<Rightarrow> (Panicked, server\<lparr>sv_analysis := host\<rparr>)
         | (Done value, host) \<Rightarrow>
             (Done (request_ok_response i value), server\<lparr>sv_analysis := host\<rparr>)) \<noteq> Panicked"
    using run_request_no_panic [OF assms, of meth params "sv_analysis server"]
    by (cases "run_request ops meth params (sv_analysis server)";
        cases "fst (run_request ops meth params (sv_analysis server))") simp_all
  then show ?thesis
    unfolding dispatch_message_def
    by (simp add: assms after_apply_no_panic no_notifications_no_panic apply_no_panic
        close_notification_no_panic watched_notification_no_panic)
qed

text \<open>Handling a message gives responses unless an operation of the workspace panics.\<close>

lemma handle_message_not_rejected: "fst (handle_message ops v now later message server) \<noteq> Rejected e"
  by (auto simp: handle_message_def Let_def split: option.splits prod.splits lsp_result.splits)

lemma handle_message_done:
  assumes "handlers_return ops"
  shows "\<exists>out s. handle_message ops v now later message server = (Done out, s)"
proof (cases "Option.bind (json_get message ''method'') as_str")
  case (Some meth)
  let ?i = "json_get message ''id''"
  let ?p = "message_params message"
  obtain c sc where t: "take_cancellation ?i (sv_scheduler server) = (c, sc)" by fastforce
  obtain r s2 where d: "dispatch_message ops v now meth ?i ?p (server\<lparr>sv_scheduler := sc\<rparr>) = (r, s2)"
    by fastforce
  then have "r \<noteq> Panicked" using dispatch_no_panic [OF assms, of v now meth ?i ?p] by (metis fst_conv)
  then show ?thesis
    using Some t d by (cases r) (auto simp: handle_message_def Let_def split: prod.splits option.splits)
qed (simp add: handle_message_def)

text \<open>An error that the client's end of the connection can give.\<close>

definition writer_fails :: "'o writer_ops \<Rightarrow> lsp_error \<Rightarrow> bool" where
  "writer_fails w e \<longleftrightarrow>
     (\<exists>value t. wr_encode w value = Inl t \<and>
        e = lsp_error Internal (''unable to encode JSON-RPC payload: '' @ t)) \<or>
     (\<exists>bytes out t. fst (wr_write w bytes out) = Some t \<and> e = lsp_error Internal t) \<or>
     (\<exists>out t. fst (wr_flush w out) = Some t \<and> e = lsp_error Internal t)"

lemma io_failure_cases:
  "io_failure r = (Some e, out') \<longleftrightarrow> (\<exists>t. fst r = Some t \<and> e = lsp_error Internal t) \<and> out' = snd r"
  by (auto simp: io_failure_def)

lemma write_message_fails: "write_message w value out = (Some e, out') \<Longrightarrow> writer_fails w e"
  by (auto simp: write_message_def writer_fails_def io_failure_cases
      split: sum.splits prod.splits option.splits)

lemma write_responses_fails: "write_responses w responses out = (Some e, out') \<Longrightarrow> writer_fails w e"
proof (induction w responses out rule: write_responses.induct)
  case (1 w out)
  then show ?case by (auto simp: io_failure_cases writer_fails_def)
next
  case (2 w response responses out)
  then show ?case by (auto dest: write_message_fails split: prod.splits option.splits)
qed

text \<open>What is true of the way the loop ended.\<close>

definition outcome_ok ::
    "'w host_ops \<Rightarrow> 'o writer_ops \<Rightarrow> incoming list \<Rightarrow> serve_outcome \<times> 'o \<times> 'w server \<Rightarrow> bool" where
  "outcome_ok ops w incoming r \<longleftrightarrow>
     (case r of (outcome, out, server) \<Rightarrow>
        (outcome = Crashed \<longrightarrow> \<not> handlers_return ops) \<and>
        (\<forall>e. outcome = Failed e \<longrightarrow> ReaderFailed e \<in> set incoming \<or> writer_fails w e) \<and>
        (outcome = Finished \<longrightarrow>
           (EndOfInput \<in> set incoming \<or> sv_exited server) \<and> sc_pending (sv_scheduler server) = None))"

lemma outcome_ok_finish:
  "EndOfInput \<in> set incoming \<or> sv_exited server \<Longrightarrow> outcome_ok ops w incoming (finish_loop w server out)"
  by (auto simp: outcome_ok_def finish_loop_def Let_def disable_background_mode_def
      dest: write_responses_fails split: prod.splits option.splits)

lemma outcome_ok_more: "outcome_ok ops w rest r \<Longrightarrow> outcome_ok ops w (x # rest) r"
  by (auto simp: outcome_ok_def split: prod.splits)

lemma serve_loop_outcome: "outcome_ok ops w incoming (serve_loop ops w v incoming server out)"
proof (induction incoming arbitrary: server out)
  case (Cons x rest)
  have continue: "outcome_ok ops w (x # rest) (case write_responses w responses out of
      (Some e, out') \<Rightarrow> (Failed e, out', s)
    | (None, out') \<Rightarrow> if sv_exited s then finish_loop w s out' else serve_loop ops w v rest s out')"
    for responses s
  proof (cases "write_responses w responses out")
    case (Pair failure out')
    then show ?thesis
      using Cons.IH [of s out'] outcome_ok_finish [of "x # rest" s ops w out']
      by (cases failure)
        (auto simp: outcome_ok_more outcome_ok_def dest: write_responses_fails)
  qed
  show ?case
  proof (cases x)
    case (Message now later m)
    obtain r s where h: "handle_message ops v now later m server = (r, s)" by fastforce
    show ?thesis
    proof (cases r)
      case (Done responses)
      then show ?thesis using continue [where responses = responses and s = s] h by (simp add: Message Let_def)
    next
      case (Rejected e)
      then show ?thesis using handle_message_not_rejected [of ops v now later m server e] h by simp
    next
      case Panicked
      then have "\<not> handlers_return ops"
        using handle_message_done [of ops v now later m server] h by auto
      then show ?thesis using h Panicked by (simp add: Message outcome_ok_def)
    qed
  next
    case EndOfInput
    then show ?thesis using outcome_ok_finish [of "x # rest" server ops w out] by simp
  next
    case (ReaderFailed e)
    then show ?thesis by (simp add: outcome_ok_def)
  next
    case (TimedOut now)
    then show ?thesis
      using continue [where responses = "fst (flush_due_timeout now (sv_scheduler server))"
          and s = "server\<lparr>sv_scheduler := snd (flush_due_timeout now (sv_scheduler server))\<rparr>"]
      by (simp add: Let_def split_beta)
  qed
qed (simp add: outcome_ok_def)

text \<open>
  C34: no message, edit or deadline by itself ends the server. The loop ends by a panic only when
  an operation of the workspace behind the handlers panics, with an error only when it is the
  error of the reader or of writing to the client, and otherwise only at the end of the input or
  after \<^verbatim>\<open>exit\<close>, and then no diagnostics are left waiting.
\<close>

theorem server_survives_messages:
  "(case serve ops w v incoming server out of (outcome, out', server') \<Rightarrow>
      (outcome = Crashed \<longrightarrow> \<not> handlers_return ops) \<and>
      (\<forall>e. outcome = Failed e \<longrightarrow> ReaderFailed e \<in> set incoming \<or> writer_fails w e) \<and>
      (outcome = Finished \<longrightarrow>
         (EndOfInput \<in> set incoming \<or> sv_exited server') \<and> sc_pending (sv_scheduler server') = None))"
  using serve_loop_outcome unfolding serve_def outcome_ok_def .

section \<open>Every request is answered once\<close>

lemma response_ids:
  "json_get (jsonrpc_response e i) ''id'' = Some i"
  "request_ok_response (Some i) value = [r] \<Longrightarrow> json_get r ''id'' = Some i"
  by (auto simp: jsonrpc_response_def request_ok_response_def json_object_def bt_get_from_list)

text \<open>The methods that are not answered: notifications of the protocol.\<close>

definition notification_methods :: "string list" where
  "notification_methods = [''initialized'', ''$/cancelRequest'', ''exit'', ''textDocument/didOpen'',
     ''textDocument/didChange'', ''textDocument/didClose'', ''workspace/didChangeWatchedFiles'']"

text \<open>The branches left for a request, whatever decides between them.\<close>

lemma answer_branches:
  assumes "(if a then (Done (request_ok_response i x), s)
      else if b then (Done (request_ok_response i y), s\<lparr>sv_shutdown_requested := True\<rparr>)
      else if c then (case q of (Rejected e, host) \<Rightarrow> (Rejected e, s\<lparr>sv_analysis := host\<rparr>)
        | (Panicked, host) \<Rightarrow> (Panicked, s\<lparr>sv_analysis := host\<rparr>)
        | (Done value, host) \<Rightarrow> (Done (request_ok_response i value), s\<lparr>sv_analysis := host\<rparr>))
      else if i \<noteq> None then (Rejected e0, s) else (Done [], s)) = (r, s')"
    and "c \<Longrightarrow> \<not> a \<and> \<not> b"
  shows "((\<exists>value. r = Done (request_ok_response i value)) \<or> (\<exists>e. r = Rejected e) \<or> r = Panicked) \<and>
    (r = Panicked \<longleftrightarrow> c \<and> fst q = Panicked) \<and> sv_scheduler s' = sv_scheduler s"
  using assms
  by (auto simp: request_ok_response_def split: if_split_asm prod.split_asm lsp_result.split_asm)

lemma not_in_seven:
  assumes "x \<notin> set [a, b, c, d, e, f, g]"
  shows "x \<noteq> a" "x \<noteq> b" "x \<noteq> c" "x \<noteq> d" "x \<noteq> e" "x \<noteq> f" "x \<noteq> g"
  using assms by simp_all

definition request_panics :: "'w host_ops \<Rightarrow> string \<Rightarrow> json \<Rightarrow> 'w server \<Rightarrow> bool" where
  "request_panics ops meth params server \<longleftrightarrow>
     meth \<in> set request_methods \<and> fst (run_request ops meth params (sv_analysis server)) = Panicked"

lemma dispatch_request:
  assumes "meth \<notin> set notification_methods"
    and "dispatch_message ops v now meth i params server = (r, s')"
  shows "(\<exists>value. r = Done (request_ok_response i value)) \<or> (\<exists>e. r = Rejected e) \<or> r = Panicked"
    and "r = Panicked \<longleftrightarrow> request_panics ops meth params server"
    and "sv_scheduler s' = sv_scheduler server"
proof -
  note m = not_in_seven [OF assms(1) [unfolded notification_methods_def]]
  note dispatch = assms(2) [unfolded dispatch_message_def if_not_P [OF m(1)] if_not_P [OF m(2)]
      if_not_P [OF m(3)] if_not_P [OF m(4)] if_not_P [OF m(5)] if_not_P [OF m(6)] if_not_P [OF m(7)]]
  have other: "meth \<in> set request_methods \<Longrightarrow> meth \<noteq> ''initialize'' \<and> meth \<noteq> ''shutdown''"
    by (auto simp: request_methods_def)
  show "(\<exists>value. r = Done (request_ok_response i value)) \<or> (\<exists>e. r = Rejected e) \<or> r = Panicked"
    by (rule answer_branches [OF dispatch other, THEN conjunct1])
  show "r = Panicked \<longleftrightarrow> request_panics ops meth params server"
    unfolding request_panics_def
    by (rule answer_branches [OF dispatch other, THEN conjunct2, THEN conjunct1])
  show "sv_scheduler s' = sv_scheduler server"
    by (rule answer_branches [OF dispatch other, THEN conjunct2, THEN conjunct2])
qed

lemma handle_message_request:
  assumes "json_get message ''method'' = Some (JString meth)"
    and "take_cancellation (json_get message ''id'') (sv_scheduler server) = (canceled, sc)"
  shows "handle_message ops v now later message server =
    (let server1 = server\<lparr>sv_scheduler := sc\<rparr>
     in if canceled then (Done [], server1)
        else (let (outcome, server2) = dispatch_message ops v now meth (json_get message ''id'')
                    (message_params message) server1;
                  flush = (\<lambda>responses. let (due, scheduler) = flush_due_after later meth (sv_scheduler server2)
                    in (Done (responses @ due), server2\<lparr>sv_scheduler := scheduler\<rparr>))
              in case outcome of Done responses \<Rightarrow> flush responses
                 | Rejected e \<Rightarrow> flush (case json_get message ''id'' of None \<Rightarrow> [] | Some i \<Rightarrow> [jsonrpc_response e i])
                 | Panicked \<Rightarrow> (Panicked, server2)))"
  using assms by (simp add: handle_message_def Let_def split: prod.splits lsp_result.splits)

text \<open>What a request that is not cancelled gives: its answer, and the diagnostics that are due.\<close>

lemma handle_request:
  assumes "json_get message ''method'' = Some (JString meth)" "meth \<notin> set notification_methods"
    and "take_cancellation (json_get message ''id'') (sv_scheduler server) = (False, sc)"
    and "\<not> request_panics ops meth (message_params message) (server\<lparr>sv_scheduler := sc\<rparr>)"
  shows "\<exists>answer due server'.
     handle_message ops v now later message server = (Done (answer @ due), server') \<and>
     map (\<lambda>a. json_get a ''id'') answer = (case json_get message ''id'' of None \<Rightarrow> [] | Some i \<Rightarrow> [Some i]) \<and>
     (due, sv_scheduler server') = flush_due_after later meth sc"
proof -
  let ?i = "json_get message ''id''" and ?s1 = "server\<lparr>sv_scheduler := sc\<rparr>"
  obtain r s2 where d: "dispatch_message ops v now meth ?i (message_params message) ?s1 = (r, s2)" by fastforce
  obtain due sc2 where f: "flush_due_after later meth sc = (due, sc2)" by fastforce
  note dr = dispatch_request [OF assms(2) d]
  have sc: "sv_scheduler s2 = sc" using dr(3) by simp
  from dr(1,2) assms(4) consider x where "r = Done (request_ok_response ?i x)" | e where "r = Rejected e" by blast
  then show ?thesis
  proof cases
    case (1 x)
    then show ?thesis
      using handle_message_request [OF assms(1,3)] d sc f response_ids(2) [of _ x]
      by (cases ?i) (auto simp: Let_def request_ok_response_def)
  next
    case (2 e)
    then show ?thesis
      using handle_message_request [OF assms(1,3)] d sc f response_ids(1) [of e]
      by (cases ?i) (auto simp: Let_def)
  qed
qed

text \<open>
  C35: a request that was cancelled before its turn gets no answer, changes nothing else and is
  forgotten, so the id can be used again; any other request gets exactly one answer, with its
  own id and before any due diagnostics, whether it succeeds, fails or is unknown, unless its
  handler panics, which is a panic of the server.
\<close>

theorem request_answered_once:
  assumes "json_get message ''method'' = Some (JString meth)" "json_get message ''id'' = Some i"
    and "meth \<notin> set notification_methods"
    and "take_cancellation (Some i) (sv_scheduler server) = (canceled, sc)"
  shows "(canceled \<longrightarrow> handle_message ops v now later message server =
        (Done [], server\<lparr>sv_scheduler := sc\<rparr>) \<and> fst (take_cancellation (Some i) sc) = False) \<and>
    (\<not> canceled \<longrightarrow>
       (if meth \<in> set request_methods \<and>
           fst (run_request ops meth (message_params message) (sv_analysis server)) = Panicked
        then fst (handle_message ops v now later message server) = Panicked
        else \<exists>answer due server'.
          handle_message ops v now later message server = (Done (answer # due), server') \<and>
          json_get answer ''id'' = Some i \<and>
          (due, sv_scheduler server') = flush_due_after later meth sc))"
proof (intro conjI impI)
  assume canceled
  then show "handle_message ops v now later message server = (Done [], server\<lparr>sv_scheduler := sc\<rparr>)"
    using handle_message_request [OF assms(1), of server canceled sc] assms(2,4) by simp
  show "fst (take_cancellation (Some i) sc) = False"
    using assms(4) by (auto simp: take_cancellation_def split: option.splits)
next
  assume "\<not> canceled"
  with assms have t: "take_cancellation (json_get message ''id'') (sv_scheduler server) = (False, sc)" by simp
  let ?s1 = "server\<lparr>sv_scheduler := sc\<rparr>" and ?p = "message_params message"
  obtain r s2 where d: "dispatch_message ops v now meth (json_get message ''id'') ?p ?s1 = (r, s2)" by fastforce
  have "request_panics ops meth ?p ?s1 \<Longrightarrow> fst (handle_message ops v now later message server) = Panicked"
    using dispatch_request(2) [OF assms(3) d] handle_message_request [OF assms(1) t] d by (simp add: Let_def)
  moreover have "\<not> request_panics ops meth ?p ?s1 \<Longrightarrow> \<exists>answer due server'.
      handle_message ops v now later message server = (Done (answer # due), server') \<and>
      json_get answer ''id'' = Some i \<and> (due, sv_scheduler server') = flush_due_after later meth sc"
    using handle_request [OF assms(1,3) t, of ops v now later] assms(2) by (fastforce simp: map_eq_Cons_conv)
  ultimately show "if meth \<in> set request_methods \<and> fst (run_request ops meth ?p (sv_analysis server)) = Panicked
      then fst (handle_message ops v now later message server) = Panicked
      else \<exists>answer due server'. handle_message ops v now later message server = (Done (answer # due), server') \<and>
        json_get answer ''id'' = Some i \<and> (due, sv_scheduler server') = flush_due_after later meth sc"
    by (simp add: request_panics_def)
qed

definition idle_ops :: "unit host_ops" where
  "idle_ops =
     \<lparr>ho_uri_to_path = Inr, ho_parse_changes = (\<lambda>_. Inr []), ho_parse_watched = (\<lambda>_. Inr []),
      ho_parse_position = (\<lambda>_. Inr \<lparr>lp_line = 0, lp_character = 0\<rparr>),
      ho_parse_range = (\<lambda>_. Inl ''no range''), ho_config_dir = ''/project'', ho_run = (\<lambda>_. Inl ''no command''),
      ho_project_update = (\<lambda>_ _ w. (Done (), w)), ho_file_update = (\<lambda>_ _ w. (Done (), w)),
      ho_diagnostics = (\<lambda>host. (Done [], host)), ho_query = (\<lambda>_ host. (Done JNull, host))\<rparr>"

lemma idle_ops_return: "handlers_return idle_ops"
  by (simp add: handlers_return_def idle_ops_def)

definition hover_request :: json where
  "hover_request = json_object [(''method'', JString ''textDocument/hover''), (''id'', JInt 4)]"

lemma hover_fields:
  "json_get hover_request ''method'' = Some (JString ''textDocument/hover'')"
  "json_get hover_request ''id'' = Some (JInt 4)" "''textDocument/hover'' \<notin> set notification_methods"
  by (simp_all add: hover_request_def json_object_def bt_get_from_list notification_methods_def)

theorem request_answered_once_witness:
  "\<exists>answer due server'.
     handle_message idle_ops ''1'' 0 0 hover_request (new_server 40) = (Done (answer # due), server') \<and>
     json_get answer ''id'' = Some (JInt 4)"
proof -
  have "take_cancellation (Some (JInt 4)) (sv_scheduler (new_server 40)) =
      (False, sv_scheduler (new_server 40 :: unit server))"
    by (simp add: take_cancellation_def new_server_def new_scheduler_def request_id_key_def)
  from request_answered_once [OF hover_fields this, of idle_ops "''1''" 0 0]
    run_request_no_panic [OF idle_ops_return, of "''textDocument/hover''"]
  show ?thesis by auto
qed

text \<open>A client that takes every message, and one that is gone.\<close>

definition open_client :: "u8 list writer_ops" where
  "open_client = \<lparr>wr_encode = (\<lambda>_. Inr [0]), wr_write = (\<lambda>bytes out. (None, out @ bytes)), wr_flush = Pair None\<rparr>"

definition closed_client :: "unit writer_ops" where
  "closed_client = \<lparr>wr_encode = (\<lambda>_. Inr [0]), wr_write = (\<lambda>_. Pair (Some ''Broken pipe'')), wr_flush = Pair None\<rparr>"

theorem server_survives_messages_witness:
  "(case serve idle_ops open_client ''1'' [Message 0 0 hover_request, EndOfInput] (new_server 40) [] of
      (outcome, out, server') \<Rightarrow> outcome = Finished \<and> sc_pending (sv_scheduler server') = None) \<and>
   fst (serve idle_ops closed_client ''1'' [Message 0 0 hover_request, EndOfInput] (new_server 40) ()) =
     Failed (lsp_error Internal ''Broken pipe'')"
proof
  have "fst (serve idle_ops open_client ''1'' [Message 0 0 hover_request, EndOfInput] (new_server 40) []) = Finished"
    by code_simp
  then show "case serve idle_ops open_client ''1'' [Message 0 0 hover_request, EndOfInput] (new_server 40) [] of
      (outcome, out, server') \<Rightarrow> outcome = Finished \<and> sc_pending (sv_scheduler server') = None"
    using server_survives_messages [where ops = idle_ops and w = open_client and v = "''1''"
        and incoming = "[Message 0 0 hover_request, EndOfInput]" and server = "new_server 40" and out = "[]"]
    by (simp split: prod.splits)
  show "fst (serve idle_ops closed_client ''1'' [Message 0 0 hover_request, EndOfInput] (new_server 40) ()) =
      Failed (lsp_error Internal ''Broken pipe'')"
    by code_simp
qed

section \<open>Due diagnostics are not held back\<close>

text \<open>The messages of a list handled in order, with what each gives, until one panics.\<close>

fun handle_messages ::
    "'w host_ops \<Rightarrow> string \<Rightarrow> (nat \<times> nat \<times> json) list \<Rightarrow> 'w server \<Rightarrow> json list list option \<times> 'w server" where
  "handle_messages ops v [] server = (Some [], server)"
| "handle_messages ops v ((now, later, m) # messages) server =
     (case handle_message ops v now later m server of
        (Done out, s) \<Rightarrow>
          (case handle_messages ops v messages s of (outs, s') \<Rightarrow> (map_option ((#) out) outs, s'))
      | (_, s) \<Rightarrow> (None, s))"

definition is_request :: "json \<Rightarrow> bool" where
  "is_request m \<longleftrightarrow>
     (case Option.bind (json_get m ''method'') as_str of
        Some meth \<Rightarrow> meth \<notin> set notification_methods | None \<Rightarrow> False)"

lemma as_str_Some: "as_str j = Some t \<longleftrightarrow> j = JString t"
  by (cases j) auto

lemma no_cancellation: "sc_canceled_request_ids s = [] \<Longrightarrow> take_cancellation rid s = (False, s)"
  by (cases s) (auto simp: take_cancellation_def split: option.splits)

lemma request_step:
  assumes "handlers_return ops" "is_request m" "sc_canceled_request_ids (sv_scheduler server) = []"
  obtains meth answer server' where
    "handle_message ops v now later m server =
       (Done (answer @ fst (flush_due_after later meth (sv_scheduler server))), server')"
    "length answer \<le> 1" "sv_scheduler server' = snd (flush_due_after later meth (sv_scheduler server))"
proof -
  from assms(2) obtain meth where m: "json_get m ''method'' = Some (JString meth)"
    and n: "meth \<notin> set notification_methods"
    by (auto simp: is_request_def as_str_Some bind_eq_Some_conv split: option.splits)
  have same: "server\<lparr>sv_scheduler := sv_scheduler server\<rparr> = server" by (cases server) simp
  have t: "take_cancellation (json_get m ''id'') (sv_scheduler server) = (False, sv_scheduler server)"
    by (rule no_cancellation [OF assms(3)])
  have "\<not> request_panics ops meth (message_params m) (server\<lparr>sv_scheduler := sv_scheduler server\<rparr>)"
    using run_request_no_panic [OF assms(1)] by (simp add: request_panics_def)
  from handle_request [OF m n t this, of v now later] obtain answer due server' where
    h: "handle_message ops v now later m server = (Done (answer @ due), server')"
    and a: "map (\<lambda>a. json_get a ''id'') answer = (case json_get m ''id'' of None \<Rightarrow> [] | Some i \<Rightarrow> [Some i])"
    and f: "(due, sv_scheduler server') = flush_due_after later meth (sv_scheduler server)" by blast
  from f have due: "due = fst (flush_due_after later meth (sv_scheduler server))"
    "sv_scheduler server' = snd (flush_due_after later meth (sv_scheduler server))" by (simp_all add: prod_eq_iff)
  have "length answer \<le> 1" using arg_cong [OF a, of length] by (simp split: option.splits)
  with that [of answer meth server'] h due show thesis by blast
qed

lemma flush_due_canceled: "sc_canceled_request_ids (snd (flush_due_after now meth s)) = sc_canceled_request_ids s"
  by (auto simp: flush_due_after_def flush_all_def split: option.splits)

lemma flush_due_mode: "sc_background_mode (snd (flush_due_after now meth s)) = sc_background_mode s"
  by (auto simp: flush_due_after_def flush_all_def split: option.splits)

text \<open>With nothing waiting, requests give their answers only.\<close>

lemma requests_when_idle:
  assumes "handlers_return ops" "sc_canceled_request_ids (sv_scheduler server) = []"
    and "sc_pending (sv_scheduler server) = None" "list_all (\<lambda>(now, later, m). is_request m) messages"
  shows "\<exists>outs server'. handle_messages ops v messages server = (Some outs, server') \<and>
    sc_pending (sv_scheduler server') = None \<and> length outs = length messages \<and>
    list_all (\<lambda>out. length out \<le> 1) outs"
  using assms
proof (induction messages arbitrary: server)
  case (Cons x messages)
  obtain now later m where x: "x = (now, later, m)" by (cases x)
  have f: "flush_due_after later meth (sv_scheduler server) = ([], sv_scheduler server)" for meth
    using Cons.prems(3) by (simp add: flush_due_after_def)
  obtain meth answer s' where h: "handle_message ops v now later m server = (Done answer, s')"
    "length answer \<le> 1" "sv_scheduler s' = sv_scheduler server"
    by (rule request_step [OF Cons.prems(1) _ Cons.prems(2), of m v now later]) (use Cons.prems(4) x f in auto)
  from Cons.IH [of s'] Cons.prems h obtain outs s2 where
    "handle_messages ops v messages s' = (Some outs, s2)" "sc_pending (sv_scheduler s2) = None"
    "length outs = length messages" "list_all (\<lambda>out. length out \<le> 1) outs" by auto
  then show ?case using h x by simp
qed simp

text \<open>The output of a message: at most one answer, and then the batch if this is its turn.\<close>

definition answer_then :: "json list \<Rightarrow> json list \<Rightarrow> bool" where
  "answer_then due out \<longleftrightarrow> (\<exists>answer. length answer \<le> 1 \<and> out = answer @ due)"

lemma answers_later:
  "answer_then [] out \<Longrightarrow> \<forall>j<length outs. answer_then (if j = i then batch else []) (outs ! j) \<Longrightarrow>
    \<forall>j<length (out # outs). answer_then (if j = Suc i then batch else []) ((out # outs) ! j)"
  by (auto simp: nth_Cons split: nat.splits)

lemma answers_now:
  "answer_then batch out \<Longrightarrow> list_all (\<lambda>out. length out \<le> 1) outs \<Longrightarrow>
    \<forall>j<length (out # outs). answer_then (if j = 0 then batch else []) ((out # outs) ! j)"
  by (auto simp: answer_then_def list_all_length nth_Cons split: nat.splits)

lemma flush_due_defers:
  assumes "sc_background_mode s" "sc_pending s = Some p" "\<not> now < pd_due_at p"
  shows "is_high_priority_method meth \<and> pd_high_priority_deferrals p < MAX_HIGH_PRIORITY_DEFERRALS \<Longrightarrow>
      flush_due_after now meth s = ([], s\<lparr>sc_pending :=
        Some (p\<lparr>pd_high_priority_deferrals := pd_high_priority_deferrals p + 1\<rparr>)\<rparr>)"
    and "\<not> (is_high_priority_method meth \<and> pd_high_priority_deferrals p < MAX_HIGH_PRIORITY_DEFERRALS) \<Longrightarrow>
      flush_due_after now meth s = (pd_notifications p, s\<lparr>sc_pending := None\<rparr>)"
  using assms by (auto simp: flush_due_after_def flush_all_def)

text \<open>
  C31: once a batch of diagnostics is due, requests cannot hold it back. Of any four requests in
  a row that were not cancelled and whose handlers return (fewer when the batch has been deferred
  before), exactly one is followed by the batch, every other message is at most an answer, and
  nothing is left waiting. A document notification among them would schedule a newer batch in its
  place, and a cancelled request is dropped before the batch is looked at.
\<close>

theorem due_batch_is_delivered:
  assumes "handlers_return ops" "sc_background_mode (sv_scheduler server)"
    and "sc_canceled_request_ids (sv_scheduler server) = []" "sc_pending (sv_scheduler server) = Some p"
    and "list_all (\<lambda>(now, later, m). is_request m \<and> pd_due_at p \<le> later) messages"
    and "MAX_HIGH_PRIORITY_DEFERRALS - pd_high_priority_deferrals p < length messages"
  shows "\<exists>i outs server'. i \<le> MAX_HIGH_PRIORITY_DEFERRALS - pd_high_priority_deferrals p \<and>
    handle_messages ops v messages server = (Some outs, server') \<and> length outs = length messages \<and>
    sc_pending (sv_scheduler server') = None \<and>
    (\<forall>j<length outs. answer_then (if j = i then pd_notifications p else []) (outs ! j))"
  using assms
proof (induction messages arbitrary: server p)
  case (Cons x messages)
  obtain now later m where x: "x = (now, later, m)" by (cases x)
  obtain meth answer s' where h: "handle_message ops v now later m server =
       (Done (answer @ fst (flush_due_after later meth (sv_scheduler server))), s')"
    and one: "length answer \<le> 1"
    and sc: "sv_scheduler s' = snd (flush_due_after later meth (sv_scheduler server))"
    by (rule request_step [OF Cons.prems(1) _ Cons.prems(3), of m v now later]) (use Cons.prems(5) x in auto)
  have due: "\<not> later < pd_due_at p" using Cons.prems(5) x by simp
  show ?case
  proof (cases "is_high_priority_method meth \<and> pd_high_priority_deferrals p < MAX_HIGH_PRIORITY_DEFERRALS")
    case True
    let ?p = "p\<lparr>pd_high_priority_deferrals := pd_high_priority_deferrals p + 1\<rparr>"
    have f: "flush_due_after later meth (sv_scheduler server) =
        ([], (sv_scheduler server)\<lparr>sc_pending := Some ?p\<rparr>)"
      using flush_due_defers(1) [OF Cons.prems(2,4) due True] by simp
    have "\<exists>i outs server'. i \<le> MAX_HIGH_PRIORITY_DEFERRALS - pd_high_priority_deferrals ?p \<and>
        handle_messages ops v messages s' = (Some outs, server') \<and> length outs = length messages \<and>
        sc_pending (sv_scheduler server') = None \<and>
        (\<forall>j<length outs. answer_then (if j = i then pd_notifications ?p else []) (outs ! j))"
      by (rule Cons.IH) (use Cons.prems True sc f in auto)
    then obtain i outs s2 where "i \<le> MAX_HIGH_PRIORITY_DEFERRALS - pd_high_priority_deferrals ?p \<and>
        handle_messages ops v messages s' = (Some outs, s2) \<and> length outs = length messages \<and>
        sc_pending (sv_scheduler s2) = None \<and>
        (\<forall>j<length outs. answer_then (if j = i then pd_notifications ?p else []) (outs ! j))"
      by (elim exE)
    moreover have "pd_notifications ?p = pd_notifications p" by simp
    ultimately have i: "i \<le> MAX_HIGH_PRIORITY_DEFERRALS - Suc (pd_high_priority_deferrals p)"
      and outs: "handle_messages ops v messages s' = (Some outs, s2)" "length outs = length messages"
      "sc_pending (sv_scheduler s2) = None"
      "\<forall>j<length outs. answer_then (if j = i then pd_notifications p else []) (outs ! j)"
      by (simp_all cong: if_cong)
    have "answer_then [] answer" using one by (auto simp: answer_then_def)
    note answers_later [OF this outs(4)]
    moreover have "Suc i \<le> MAX_HIGH_PRIORITY_DEFERRALS - pd_high_priority_deferrals p" using i True by linarith
    ultimately show ?thesis
      using outs h f x by (intro exI [of _ "Suc i"] exI [of _ "answer # outs"] exI [of _ s2]) simp
  next
    case False
    have f: "flush_due_after later meth (sv_scheduler server) =
        (pd_notifications p, (sv_scheduler server)\<lparr>sc_pending := None\<rparr>)"
      using flush_due_defers(2) [OF Cons.prems(2,4) due False] by simp
    have req: "list_all (\<lambda>(now, later, m). is_request m) messages"
      using Cons.prems(5) by (auto simp: list_all_iff)
    obtain outs s2 where outs: "handle_messages ops v messages s' = (Some outs, s2)"
      "sc_pending (sv_scheduler s2) = None" "length outs = length messages"
      "list_all (\<lambda>out. length out \<le> 1) outs"
      using requests_when_idle [OF Cons.prems(1) _ _ req, of s' v] Cons.prems(3) sc f by auto
    have "answer_then (pd_notifications p) (answer @ pd_notifications p)" using one by (auto simp: answer_then_def)
    from answers_now [OF this outs(4)] show ?thesis
      using outs h f x by (intro exI [of _ 0] exI [of _ "(answer @ pd_notifications p) # outs"] exI [of _ s2]) simp
  qed
qed simp

definition waiting_server :: "unit server" where
  "waiting_server = (new_server 40)\<lparr>sv_scheduler :=
     schedule_diagnostics 0 [JInt 7] (enable_background_mode (new_scheduler 40))\<rparr>"

theorem due_batch_is_delivered_witness:
  "\<exists>i outs server'. i \<le> 3 \<and>
    handle_messages idle_ops ''1'' (replicate 4 (50, 50, hover_request)) waiting_server = (Some outs, server') \<and>
    (\<forall>j<length outs. answer_then (if j = i then [JInt 7] else []) (outs ! j))"
proof -
  let ?p = "\<lparr>pd_revision = 1, pd_due_at = 40, pd_notifications = [JInt 7], pd_high_priority_deferrals = 0\<rparr>"
  have "sc_pending (sv_scheduler waiting_server) = Some ?p" "sc_background_mode (sv_scheduler waiting_server)"
    "sc_canceled_request_ids (sv_scheduler waiting_server) = []"
    by (simp_all add: waiting_server_def schedule_diagnostics_def enable_background_mode_def new_scheduler_def Let_def)
  moreover have "is_request hover_request" using hover_fields by (simp add: is_request_def)
  ultimately obtain i outs server' where "i \<le> 3"
    "handle_messages idle_ops ''1'' (replicate 4 (50, 50, hover_request)) waiting_server = (Some outs, server')"
    "\<forall>j<length outs. answer_then (if j = i then pd_notifications ?p else []) (outs ! j)"
    using due_batch_is_delivered [OF idle_ops_return, of waiting_server ?p "replicate 4 (50, 50, hover_request)" "''1''"]
    by (force simp: list_all_iff MAX_HIGH_PRIORITY_DEFERRALS_def)
  then show ?thesis unfolding pending_diagnostics.simps by blast
qed

section \<open>Versions of open documents\<close>

lemma update_workspace_overlays:
  "ah_overlays (snd (update_workspace update path overlay host)) = ah_overlays host"
  by (simp add: update_workspace_def Let_def split: option.splits prod.splits)

text \<open>A change is applied to an open document only with a greater version; else nothing changes.\<close>

lemma change_document_versions:
  assumes "change_document ops uri version changes host = (r, host')" "ho_uri_to_path ops uri = Inr path"
  shows "ah_overlays host' = ah_overlays host \<or>
    (\<exists>current doc. bt_get (ah_overlays host) path = Some current \<and> ov_version current < version \<and>
       apply_content_changes (ov_text current) changes uri = Done doc \<and>
       ah_overlays host' =
         bt_insert path \<lparr>ov_uri = uri, ov_text = doc, ov_version = version\<rparr> (ah_overlays host))"
  using assms by (auto simp: change_document_def Let_def
      dest!: arg_cong [where f = "\<lambda>x. ah_overlays (snd x)"]
      simp: update_workspace_overlays split: option.splits if_splits lsp_result.splits)

end
