(* ===== verification/Diagnostics.thy ===== *)
theory Diagnostics
  imports Rust_Prelude
begin

text \<open>
  Diagnostics (crates/typepython_diagnostics, lib.rs): the payload, its builders, and a report
  with its text form.
\<close>

datatype severity = Error | Warning | Note

definition severity_text :: "severity \<Rightarrow> string" where
  "severity_text s = (case s of Error \<Rightarrow> ''error'' | Warning \<Rightarrow> ''warning'' | Note \<Rightarrow> ''note'')"

record span =
  sn_path :: string
  sn_line :: nat
  sn_column :: nat
  sn_end_line :: nat
  sn_end_column :: nat

definition span_new :: "string \<Rightarrow> nat \<Rightarrow> nat \<Rightarrow> nat \<Rightarrow> nat \<Rightarrow> span" where
  "span_new path line column end_line end_column =
     \<lparr>sn_path = path, sn_line = line, sn_column = column, sn_end_line = end_line,
      sn_end_column = end_column\<rparr>"

datatype suggestion_applicability = MachineApplicable | MaybeIncorrect

record diagnostic_suggestion =
  sg_message :: string
  sg_span :: span
  sg_replacement :: string
  sg_applicability :: suggestion_applicability

record diagnostic =
  dg_code :: string
  dg_severity :: severity
  dg_message :: string
  dg_notes :: "string list"
  dg_suggestions :: "diagnostic_suggestion list"
  dg_span :: "span option"

definition diagnostic_error :: "string \<Rightarrow> string \<Rightarrow> diagnostic" where
  "diagnostic_error code message =
     \<lparr>dg_code = code, dg_severity = Error, dg_message = message, dg_notes = [],
      dg_suggestions = [], dg_span = None\<rparr>"

definition diagnostic_warning :: "string \<Rightarrow> string \<Rightarrow> diagnostic" where
  "diagnostic_warning code message =
     \<lparr>dg_code = code, dg_severity = Warning, dg_message = message, dg_notes = [],
      dg_suggestions = [], dg_span = None\<rparr>"

definition with_span :: "span \<Rightarrow> diagnostic \<Rightarrow> diagnostic" where
  "with_span s d = d\<lparr>dg_span := Some s\<rparr>"

definition with_note :: "string \<Rightarrow> diagnostic \<Rightarrow> diagnostic" where
  "with_note note d = d\<lparr>dg_notes := dg_notes d @ [note]\<rparr>"

definition with_suggestion ::
    "string \<Rightarrow> span \<Rightarrow> string \<Rightarrow> suggestion_applicability \<Rightarrow> diagnostic \<Rightarrow> diagnostic" where
  "with_suggestion message s replacement applicability d =
     d\<lparr>dg_suggestions := dg_suggestions d @
        [\<lparr>sg_message = message, sg_span = s, sg_replacement = replacement,
          sg_applicability = applicability\<rparr>]\<rparr>"

section \<open>Reports\<close>

type_synonym diagnostic_report = "diagnostic list"

definition report_push :: "diagnostic \<Rightarrow> diagnostic_report \<Rightarrow> diagnostic_report" where
  "report_push d r = r @ [d]"

definition has_errors :: "diagnostic_report \<Rightarrow> bool" where
  "has_errors r \<longleftrightarrow> list_ex (\<lambda>d. dg_severity d = Error) r"

definition report_is_empty :: "diagnostic_report \<Rightarrow> bool" where
  "report_is_empty r \<longleftrightarrow> r = []"

definition span_text :: "span \<Rightarrow> string" where
  "span_text s =
     show_nat (sn_line s) @ '':'' @ show_nat (sn_column s) @ ''-'' @
     show_nat (sn_end_line s) @ '':'' @ show_nat (sn_end_column s)"

definition diagnostic_lines :: "diagnostic \<Rightarrow> string list" where
  "diagnostic_lines d =
     [severity_text (dg_severity d) @ ''['' @ dg_code d @ '']: '' @ dg_message d] @
     (case dg_span d of Some s \<Rightarrow> [''  --> '' @ sn_path s @ '':'' @ span_text s] | None \<Rightarrow> []) @
     map (\<lambda>note. ''  = note: '' @ note) (dg_notes d) @
     map (\<lambda>g. ''  = help: '' @ sg_message g @ '' (replace '' @ sn_path (sg_span g) @ '':'' @
              span_text (sg_span g) @ '' with `'' @ sg_replacement g @ ''`; applicability: '' @
              (case sg_applicability g of MachineApplicable \<Rightarrow> ''MachineApplicable''
               | MaybeIncorrect \<Rightarrow> ''MaybeIncorrect'') @ '')'') (dg_suggestions d)"

definition as_text :: "diagnostic_report \<Rightarrow> string" where
  "as_text r = concat (map (\<lambda>l. l @ [CHR 0x0A]) (concat (map diagnostic_lines r)))"

end
