(* ===== verification/Effect_Rows.thy ===== *)
theory Effect_Rows
  imports Class_Resolution Public_Summary Diagnostics "HOL-Library.Option_ord"
begin

text \<open>
  Effect rows (crates/typepython_checking, effects.rs): effect kinds and rows, the facts read
  off decorators, framework providers and the standard library, and the summaries of the
  callables of a module. What the syntax crate collects from the source text is part of the
  context. A row is a \<^verbatim>\<open>BTreeSet\<close>: a set, listed in the order of the kinds.
\<close>

section \<open>Kinds and rows\<close>

datatype effect_kind =
    KUnsafe | KIoFs | KIoNet | KIoProc | KTime | KRandom | KRuntimeValidation | KTaintSanitize
  | KDeclared string

definition effect_label :: "effect_kind \<Rightarrow> string" where
  "effect_label k =
     (case k of KUnsafe \<Rightarrow> ''unsafe'' | KIoFs \<Rightarrow> ''io.fs'' | KIoNet \<Rightarrow> ''io.net'' | KIoProc \<Rightarrow> ''io.proc''
      | KTime \<Rightarrow> ''time'' | KRandom \<Rightarrow> ''random'' | KRuntimeValidation \<Rightarrow> ''runtime.validation''
      | KTaintSanitize \<Rightarrow> ''taint.sanitize'' | KDeclared name \<Rightarrow> name)"

text \<open>The derived order: the variants as declared, declared effects by name.\<close>

definition effect_rank :: "effect_kind \<Rightarrow> nat \<times> string" where
  "effect_rank k =
     (case k of KUnsafe \<Rightarrow> (0, []) | KIoFs \<Rightarrow> (1, []) | KIoNet \<Rightarrow> (2, []) | KIoProc \<Rightarrow> (3, [])
      | KTime \<Rightarrow> (4, []) | KRandom \<Rightarrow> (5, []) | KRuntimeValidation \<Rightarrow> (6, [])
      | KTaintSanitize \<Rightarrow> (7, []) | KDeclared name \<Rightarrow> (8, name))"

lemma effect_rank_inj: "effect_rank a = effect_rank b \<Longrightarrow> a = b"
  by (cases a; cases b) (simp_all add: effect_rank_def)

instantiation effect_kind :: linorder
begin

definition less_eq_effect_kind :: "effect_kind \<Rightarrow> effect_kind \<Rightarrow> bool" where
  "a \<le> b \<longleftrightarrow> effect_rank a \<le> effect_rank b"

definition less_effect_kind :: "effect_kind \<Rightarrow> effect_kind \<Rightarrow> bool" where
  "a < b \<longleftrightarrow> effect_rank a < effect_rank b"

instance
  by standard (auto simp: less_eq_effect_kind_def less_effect_kind_def intro: effect_rank_inj)

end

type_synonym effect_row = "effect_kind set"

definition row_labels :: "effect_row \<Rightarrow> string list" where
  "row_labels row = map effect_label (sorted_list_of_set row)"

definition row_covers :: "effect_row \<Rightarrow> effect_row \<Rightarrow> bool" where
  "row_covers row required \<longleftrightarrow> (\<forall>e\<in>required. e \<in> row)"

definition effect_kind_from_label :: "string \<Rightarrow> effect_kind" where
  "effect_kind_from_label label =
     (if label = ''unsafe'' then KUnsafe else if label = ''io.fs'' then KIoFs
      else if label = ''io.net'' then KIoNet else if label = ''io.proc'' then KIoProc
      else if label = ''time'' then KTime else if label = ''random'' then KRandom
      else if label = ''runtime.validation'' then KRuntimeValidation
      else if label = ''taint.sanitize'' then KTaintSanitize else KDeclared label)"

definition row_from_labels :: "string list \<Rightarrow> effect_row" where
  "row_from_labels labels = fold (\<lambda>l row. insert (effect_kind_from_label l) row) labels {}"

datatype effect_source =
    SrcDecorator string | SrcLifecycle string | SrcUnsafeBlock | SrcInferred string | SrcStdlib string

type_synonym effect_key = "string option \<times> string"

record effect_summary =
  ef_callable :: string
  ef_owner_type_name :: "string option"
  ef_pure :: bool
  ef_row :: effect_row
  ef_sources :: "effect_source list"
  ef_line :: nat

definition display_name :: "effect_summary \<Rightarrow> string" where
  "display_name s =
     (case ef_owner_type_name s of Some owner \<Rightarrow> owner @ ''.'' @ ef_callable s | None \<Rightarrow> ef_callable s)"

definition summary_key :: "effect_summary \<Rightarrow> effect_key" where
  "summary_key s = (ef_owner_type_name s, ef_callable s)"

definition is_inferred :: "effect_source \<Rightarrow> bool" where
  "is_inferred s = (case s of SrcInferred _ \<Rightarrow> True | _ \<Rightarrow> False)"

definition has_declared_effect_row :: "effect_summary \<Rightarrow> bool" where
  "has_declared_effect_row s \<longleftrightarrow> ef_row s \<noteq> {} \<and> list_ex (\<lambda>src. \<not> is_inferred src) (ef_sources s)"

record capability_scope =
  cs_line_start :: nat
  cs_line_end :: nat
  cs_grants :: effect_row
  cs_source :: effect_source

section \<open>Context\<close>

text \<open>
  The switches of the checker, and what it loads for a module: decorated callables, framework
  providers, call contexts (those of statements and those nested in expressions, the latter
  only when the source text is at hand), \<^verbatim>\<open>unsafe:\<close> ranges, and the lines of unsafe
  operations with whether they are inside such a block.
\<close>

record effect_context =
  cx_nodes :: "node list"
  cx_effect_rows :: bool
  cx_taint :: bool
  cx_callables :: "node \<Rightarrow> decorated_callable_site list option"
  cx_providers :: "node \<Rightarrow> framework_provider_site list option"
  cx_call_contexts :: "node \<Rightarrow> direct_call_context_site list"
  cx_nested_call_contexts :: "node \<Rightarrow> direct_call_context_site list"
  cx_unsafe_ranges :: "node \<Rightarrow> (nat \<times> nat) list"
  cx_unsafe_operations :: "node \<Rightarrow> (nat \<times> bool) list"

section \<open>Taint facts\<close>

datatype taint_fact_kind = TaintSource | TaintSink | TaintSanitizer

type_synonym taint_context = "string option"
type_synonym taint_fact = "taint_fact_kind \<times> taint_context"

definition decorator_short_name :: "string \<Rightarrow> string option" where
  "decorator_short_name decorator =
     (if contains_str ''effect:'' decorator then Some decorator
      else Some (last (split_char CHR ''.'' decorator)))"

definition taint_fact_from_decorator_name :: "string \<Rightarrow> taint_fact option" where
  "taint_fact_from_decorator_name decorator =
     (let (target, context) =
        (case split_once CHR '':'' decorator of
           Some (t, c) \<Rightarrow> (t, if c = [] then None else Some c) | None \<Rightarrow> (decorator, None));
        name = last (split_char CHR ''.'' target)
      in if name = ''source'' then Some (TaintSource, context)
         else if name = ''sink'' then Some (TaintSink, context)
         else if name = ''sanitizer'' \<or> name = ''effect_taint_sanitize'' then Some (TaintSanitizer, context)
         else None)"

definition taint_fact_from_effect_label :: "string \<Rightarrow> taint_fact option" where
  "taint_fact_from_effect_label label =
     (if label = ''taint.source'' then Some (TaintSource, None)
      else if label = ''taint.sink'' then Some (TaintSink, None)
      else if label = ''taint.sanitize'' then Some (TaintSanitizer, None) else None)"

definition effect_label_from_decorator :: "string \<Rightarrow> string option" where
  "effect_label_from_decorator decorator =
     (case split_once CHR '':'' decorator of
        None \<Rightarrow> None
      | Some (target, label) \<Rightarrow>
          if last (split_char CHR ''.'' target) = ''effect'' \<and> label \<noteq> [] then Some label else None)"

definition lifecycle_effect_decorator :: "string \<Rightarrow> bool" where
  "lifecycle_effect_decorator short \<longleftrightarrow>
     short \<in> set [''must_use'', ''must_call'', ''must_close'', ''must_dispose'', ''must_await'', ''must_consume'']"

definition named_effect_decorator :: "string \<Rightarrow> effect_kind option" where
  "named_effect_decorator short =
     map_of [(''effect'', KDeclared ''declared''), (''effectful'', KDeclared ''declared''),
       (''effect_unsafe'', KUnsafe), (''effect_io_fs'', KIoFs), (''effect_io_net'', KIoNet),
       (''effect_io_proc'', KIoProc), (''effect_time'', KTime), (''effect_random'', KRandom),
       (''effect_runtime_validation'', KRuntimeValidation), (''trusted_validator'', KRuntimeValidation)] short"

definition effect_kind_from_decorator :: "string \<Rightarrow> effect_kind option" where
  "effect_kind_from_decorator short =
     (case effect_label_from_decorator short of
        Some label \<Rightarrow> Some (effect_kind_from_label label)
      | None \<Rightarrow>
          (case taint_fact_from_decorator_name short of
             Some (TaintSource, _) \<Rightarrow> Some (KDeclared ''taint.source'')
           | Some (TaintSink, _) \<Rightarrow> Some (KDeclared ''taint.sink'')
           | Some (TaintSanitizer, _) \<Rightarrow> Some KTaintSanitize
           | None \<Rightarrow> named_effect_decorator short))"

section \<open>Framework providers\<close>

definition framework_capability_effect_kind :: "framework_capability \<Rightarrow> effect_kind option" where
  "framework_capability_effect_kind c =
     (case c of
        EffectUnsafe \<Rightarrow> Some KUnsafe | EffectIoFs \<Rightarrow> Some KIoFs | EffectIoNet \<Rightarrow> Some KIoNet
      | EffectIoProc \<Rightarrow> Some KIoProc | EffectTime \<Rightarrow> Some KTime | EffectRandom \<Rightarrow> Some KRandom
      | EffectRuntimeValidation \<Rightarrow> Some KRuntimeValidation
      | ValidatorWitness \<Rightarrow> Some KRuntimeValidation
      | EffectTaintSanitize \<Rightarrow> Some KTaintSanitize | TaintSanitizerCap \<Rightarrow> Some KTaintSanitize
      | TaintSourceCap \<Rightarrow> Some (KDeclared ''taint.source'')
      | TaintSinkCap \<Rightarrow> Some (KDeclared ''taint.sink'')
      | _ \<Rightarrow> None)"

definition capability_row :: "framework_capability list \<Rightarrow> effect_row" where
  "capability_row cs = set (List.map_filter framework_capability_effect_kind cs)"

definition adapter_effect_rows ::
    "effect_context \<Rightarrow> node \<Rightarrow> (string \<times> (effect_row \<times> effect_source)) list" where
  "adapter_effect_rows cx n =
     (case cx_providers cx n of
        None \<Rightarrow> []
      | Some providers \<Rightarrow>
          bt_from_list (List.map_filter (\<lambda>p.
            if fw_provider_kind p = Some FunctionDecorator \<and> capability_row (fw_capabilities p) \<noteq> {}
            then Some (fw_name p, capability_row (fw_capabilities p),
                   SrcDecorator (''framework_transform capability on `'' @ fw_name p @ ''`''))
            else None) providers))"

section \<open>Local summaries\<close>

type_synonym decorator_state = "bool \<times> effect_row \<times> effect_source list"

definition short_or_decorator :: "string \<Rightarrow> string" where
  "short_or_decorator decorator =
     (case decorator_short_name decorator of Some s \<Rightarrow> s | None \<Rightarrow> decorator)"

fun read_own_effect :: "string \<Rightarrow> decorator_state \<Rightarrow> decorator_state" where
  "read_own_effect decorator (is_pure, row, sources) =
     (let short = short_or_decorator decorator
      in if short \<in> set [''effect_pure'', ''pure''] then (True, row, sources @ [SrcDecorator decorator])
         else (case effect_kind_from_decorator short of
                 Some e \<Rightarrow> (is_pure, insert e row, sources @ [SrcDecorator decorator])
               | None \<Rightarrow>
                   if lifecycle_effect_decorator short
                   then (is_pure, insert (KDeclared ''resource.lifecycle'') row,
                         sources @ [SrcLifecycle decorator])
                   else (is_pure, row, sources)))"

fun read_adapter_effect ::
    "(string \<times> (effect_row \<times> effect_source)) list \<Rightarrow> string \<Rightarrow> decorator_state \<Rightarrow> decorator_state" where
  "read_adapter_effect adapters decorator (is_pure, row, sources) =
     (case (case bt_get adapters (short_or_decorator decorator) of
              Some a \<Rightarrow> Some a | None \<Rightarrow> bt_get adapters decorator) of
        Some (adapter_row, adapter_source) \<Rightarrow> (is_pure, row \<union> adapter_row, sources @ [adapter_source])
      | None \<Rightarrow> (is_pure, row, sources))"

definition read_decorator ::
    "(string \<times> (effect_row \<times> effect_source)) list \<Rightarrow> string \<Rightarrow> decorator_state \<Rightarrow> decorator_state" where
  "read_decorator adapters decorator st =
     read_adapter_effect adapters decorator (read_own_effect decorator st)"

definition local_summary ::
    "(string \<times> (effect_row \<times> effect_source)) list \<Rightarrow> decorated_callable_site \<Rightarrow> effect_summary option" where
  "local_summary adapters site =
     (let (is_pure, row, sources) = fold (read_decorator adapters) (dcs_decorators site) (False, {}, [])
      in if is_pure \<or> row \<noteq> {}
         then Some \<lparr>ef_callable = dcs_name site, ef_owner_type_name = dcs_owner_type_name site,
                    ef_pure = is_pure, ef_row = row, ef_sources = sources, ef_line = dcs_line site\<rparr>
         else None)"

definition collect_local_effect_summaries :: "effect_context \<Rightarrow> node \<Rightarrow> effect_summary list" where
  "collect_local_effect_summaries cx n =
     (case cx_callables cx n of
        None \<Rightarrow> []
      | Some callables \<Rightarrow> List.map_filter (local_summary (adapter_effect_rows cx n)) callables)"

section \<open>The standard library\<close>

definition stdlib_effect_symbols_for_module :: "string \<Rightarrow> string list" where
  "stdlib_effect_symbols_for_module m =
     (if m = ''time'' then [''monotonic'', ''perf_counter'', ''process_time'', ''sleep'', ''time'']
      else if m = ''random''
        then [''choice'', ''choices'', ''randint'', ''random'', ''randrange'', ''seed'', ''shuffle'']
      else if m = ''secrets''
        then [''choice'', ''randbelow'', ''token_bytes'', ''token_hex'', ''token_urlsafe'']
      else if m = ''subprocess'' then [''Popen'', ''call'', ''check_call'', ''check_output'', ''run'']
      else if m = ''os''
        then [''chdir'', ''getcwd'', ''listdir'', ''makedirs'', ''mkdir'', ''popen'', ''remove'',
              ''removedirs'', ''rename'', ''replace'', ''rmdir'', ''scandir'', ''stat'', ''system'', ''unlink'']
      else if m = ''urllib.request'' then [''urlopen'', ''urlretrieve''] else [])"

definition stdlib_effect_kind :: "string \<Rightarrow> string \<Rightarrow> effect_kind option" where
  "stdlib_effect_kind m symbol =
     (if m = ''time''
        then (if symbol \<in> set [''monotonic'', ''perf_counter'', ''process_time'', ''sleep'', ''time'']
              then Some KTime else None)
      else if m = ''random''
        then (if symbol \<in> set [''choice'', ''choices'', ''randint'', ''random'', ''randrange'', ''seed'', ''shuffle'']
              then Some KRandom else None)
      else if m = ''secrets''
        then (if symbol \<in> set [''choice'', ''randbelow'', ''token_bytes'', ''token_hex'', ''token_urlsafe'']
              then Some KRandom else None)
      else if m = ''subprocess''
        then (if symbol \<in> set [''Popen'', ''call'', ''check_call'', ''check_output'', ''run'']
              then Some KIoProc else None)
      else if m = ''os''
        then (if symbol \<in> set [''popen'', ''system''] then Some KIoProc
              else if symbol \<in> set [''chdir'', ''getcwd'', ''listdir'', ''makedirs'', ''mkdir'', ''remove'',
                ''removedirs'', ''rename'', ''replace'', ''rmdir'', ''scandir'', ''stat'', ''unlink'']
              then Some KIoFs else None)
      else if m = ''urllib.request''
        then (if symbol \<in> set [''urlopen'', ''urlretrieve''] then Some KIoNet else None)
      else None)"

definition stdlib_symbol_effect_row :: "string \<Rightarrow> string \<Rightarrow> effect_row option" where
  "stdlib_symbol_effect_row m symbol = map_option (\<lambda>e. {e}) (stdlib_effect_kind m symbol)"

definition stdlib_module_effect_methods :: "string \<Rightarrow> (string \<times> effect_row) list" where
  "stdlib_module_effect_methods m =
     List.map_filter (\<lambda>symbol. map_option (Pair symbol) (stdlib_symbol_effect_row m symbol))
       (stdlib_effect_symbols_for_module m)"

definition stdlib_import_summaries :: "bound_declaration \<Rightarrow> effect_summary list" where
  "stdlib_import_summaries d =
     (case import_target d of
        None \<Rightarrow> []
      | Some target \<Rightarrow>
          (case Option.bind (it_symbol_target target)
                  (\<lambda>s. stdlib_symbol_effect_row (ist_module_key s) (ist_symbol_name s)) of
             Some row \<Rightarrow>
               [\<lparr>ef_callable = d_name d, ef_owner_type_name = None, ef_pure = False, ef_row = row,
                 ef_sources = [SrcStdlib (it_raw_target target)], ef_line = 1\<rparr>]
           | None \<Rightarrow>
               map (\<lambda>(method_name, row).
                   \<lparr>ef_callable = method_name, ef_owner_type_name = Some (d_name d), ef_pure = False,
                    ef_row = row, ef_sources = [SrcStdlib (it_raw_target target @ ''.'' @ method_name)],
                    ef_line = 1\<rparr>)
                 (stdlib_module_effect_methods (it_raw_target target))))"

definition top_level_imports :: "node \<Rightarrow> bound_declaration list" where
  "top_level_imports n = filter (\<lambda>d. d_owner d = None \<and> d_kind d = DImport) (mn_declarations n)"

definition collect_stdlib_effect_summaries :: "node \<Rightarrow> effect_summary list" where
  "collect_stdlib_effect_summaries n = concat (map stdlib_import_summaries (top_level_imports n))"

end
