(* ===== verification/Effects.thy ===== *)
theory Effects
  imports Effect_Rows
begin

text \<open>
  Effects of calls (crates/typepython_checking, effects.rs): the call edges of a module, the
  inference of effect rows along them, the facts a module publishes, and the diagnostics for
  calls whose effects the caller does not cover.
\<close>

section \<open>Call edges\<close>

datatype effect_callee = CalleeFunction string | CalleeMethod string string

record effect_call_edge =
  ee_owner_type_name :: "string option"
  ee_owner_name :: string
  ee_callee :: effect_callee
  ee_line :: nat

definition owner_key :: "effect_call_edge \<Rightarrow> effect_key" where
  "owner_key e = (ee_owner_type_name e, ee_owner_name e)"

text \<open>The owner an expression belongs to, with the line its edges get.\<close>

type_synonym edge_owner = "string option \<times> string \<times> nat"

fun edge_of :: "edge_owner \<Rightarrow> effect_callee \<Rightarrow> effect_call_edge" where
  "edge_of (owner_type, owner, line) callee =
     \<lparr>ee_owner_type_name = owner_type, ee_owner_name = owner, ee_callee = callee, ee_line = line\<rparr>"

definition own_callees :: "direct_expr \<Rightarrow> effect_callee list" where
  "own_callees e =
     map CalleeFunction (opt_list (de_callee e)) @
     (case (de_method_owner_name e, de_method_name e) of
        (Some owner, Some m) \<Rightarrow> [CalleeMethod owner m] | _ \<Rightarrow> [])"

function expr_callees :: "direct_expr \<Rightarrow> effect_callee list" where
  "expr_callees e = own_callees e @ concat (map expr_callees (expr_parts e))"
  by pat_completeness auto
termination by (relation "measure size") (simp_all add: size_expr_parts)

declare expr_callees.simps [simp del]

definition collect_expr_call_edges :: "direct_expr option \<Rightarrow> edge_owner \<Rightarrow> effect_call_edge list" where
  "collect_expr_call_edges value owner =
     (case value of None \<Rightarrow> [] | Some e \<Rightarrow> map (edge_of owner) (expr_callees e))"

fun guard_callees :: "guard_condition_site \<Rightarrow> effect_callee list" where
  "guard_callees (GSPredicateCall _ callee) = [CalleeFunction callee]"
| "guard_callees (GSNot inner) = guard_callees inner"
| "guard_callees (GSAnd guards) = concat (map guard_callees guards)"
| "guard_callees (GSOr guards) = concat (map guard_callees guards)"
| "guard_callees (GSIsNone _ _) = []"
| "guard_callees (GSIsInstance _ _) = []"
| "guard_callees (GSTruthyName _) = []"

definition collect_guard_call_edges ::
    "guard_condition_site option \<Rightarrow> edge_owner \<Rightarrow> effect_call_edge list" where
  "collect_guard_call_edges guard owner =
     (case guard of None \<Rightarrow> [] | Some g \<Rightarrow> map (edge_of owner) (guard_callees g))"

text \<open>\<^verbatim>\<open>let Some(owner_name) = .. else { continue };\<close>\<close>

definition owned_edges ::
    "string option \<Rightarrow> string option \<Rightarrow> nat \<Rightarrow> (edge_owner \<Rightarrow> effect_call_edge list) \<Rightarrow>
     effect_call_edge list" where
  "owned_edges owner_name owner_type line collect =
     (case owner_name of None \<Rightarrow> [] | Some owner \<Rightarrow> collect (owner_type, owner, line))"

text \<open>The owner of a line, from the sites that know theirs; later sites win.\<close>

definition effect_owner_lookup :: "effect_context \<Rightarrow> node \<Rightarrow> nat \<Rightarrow> (string option \<times> string) option" where
  "effect_owner_lookup cx n =
     (let s = mn_sites n
      in map_of (rev (
        List.map_filter (\<lambda>a. map_option (\<lambda>owner. (as_line a, as_owner_type_name a, owner)) (as_owner_name a))
          (si_assignments s) @
        map (\<lambda>r. (rt_line r, rt_owner_type_name r, rt_owner_name r)) (si_returns s) @
        List.map_filter (\<lambda>c. map_option (\<lambda>owner. (dx_line c, dx_owner_type_name c, owner)) (dx_owner_name c))
          (cx_call_contexts cx n) @
        List.map_filter (\<lambda>m. map_option (\<lambda>owner. (mc_line m, mc_current_owner_type_name m, owner))
            (mc_current_owner_name m)) (si_method_calls s))))"

definition context_call_edges :: "direct_call_context_site \<Rightarrow> effect_call_edge list" where
  "context_call_edges c =
     owned_edges (dx_owner_name c) (dx_owner_type_name c) (dx_line c)
       (\<lambda>owner. [edge_of owner (CalleeFunction (dx_callee c))])"

definition call_site_edges ::
    "(nat \<Rightarrow> (string option \<times> string) option) \<Rightarrow> call_site \<Rightarrow> effect_call_edge list" where
  "call_site_edges owners c =
     (case owners (cl_line c) of
        None \<Rightarrow> []
      | Some (owner_type, owner_name) \<Rightarrow>
          (let owner = (owner_type, owner_name, cl_line c)
           in edge_of owner (CalleeFunction (cl_callee c)) #
              concat (map (\<lambda>v. collect_expr_call_edges (Some v) owner)
                (cl_arg_values c @ cl_starred_arg_values c @ cl_keyword_arg_values c @
                 cl_keyword_expansion_values c))))"

definition method_call_edges :: "method_call_site \<Rightarrow> effect_call_edge list" where
  "method_call_edges m =
     owned_edges (mc_current_owner_name m) (mc_current_owner_type_name m) (mc_line m)
       (\<lambda>owner. edge_of owner (CalleeMethod (mc_owner_name m) (mc_method m)) #
          concat (map (\<lambda>v. collect_expr_call_edges (Some v) owner)
            (mc_arg_values m @ mc_starred_arg_values m @ mc_keyword_arg_values m @
             mc_keyword_expansion_values m)))"

definition effect_call_edges :: "effect_context \<Rightarrow> node \<Rightarrow> effect_call_edge list" where
  "effect_call_edges cx n =
     (let s = mn_sites n; owners = effect_owner_lookup cx n
      in concat (map (\<lambda>a. owned_edges (as_owner_name a) (as_owner_type_name a) (as_line a)
             (collect_expr_call_edges (as_value a))) (si_assignments s)) @
         concat (map (\<lambda>r. collect_expr_call_edges (rt_value r)
             (rt_owner_type_name r, rt_owner_name r, rt_line r)) (si_returns s)) @
         concat (map (\<lambda>y. collect_expr_call_edges (yield_value_metadata y)
             (yl_owner_type_name y, yl_owner_name y, yl_line y)) (si_yields s)) @
         concat (map (\<lambda>g. owned_edges (if_owner_name g) (if_owner_type_name g) (if_line g)
             (collect_guard_call_edges (if_guard g))) (si_if_guards s)) @
         concat (map (\<lambda>g. owned_edges (at_owner_name g) (at_owner_type_name g) (at_line g)
             (collect_guard_call_edges (at_guard g))) (si_asserts s)) @
         concat (map (\<lambda>m. owned_edges (mt_owner_name m) (mt_owner_type_name m) (mt_line m)
             (collect_expr_call_edges (subject_metadata m))) (si_matches s)) @
         concat (map (\<lambda>f. owned_edges (fr_owner_name f) (fr_owner_type_name f) (fr_line f)
             (collect_expr_call_edges (iter_metadata f))) (si_for_loops s)) @
         concat (map (\<lambda>w. owned_edges (wt_owner_name w) (wt_owner_type_name w) (wt_line w)
             (collect_expr_call_edges (context_metadata w))) (si_with_statements s)) @
         concat (map context_call_edges (cx_call_contexts cx n)) @
         concat (map context_call_edges (cx_nested_call_contexts cx n)) @
         concat (map (call_site_edges owners) (si_calls s)) @
         concat (map method_call_edges (si_method_calls s)))"

section \<open>Summaries by name\<close>

text \<open>\<^verbatim>\<open>entry(..).or_insert(summary)\<close>: the first summary of a name stays.\<close>

definition function_summaries_by_name :: "effect_summary list \<Rightarrow> string \<Rightarrow> effect_summary option" where
  "function_summaries_by_name summaries =
     map_of (map (\<lambda>s. (ef_callable s, s)) (filter (\<lambda>s. ef_owner_type_name s = None) summaries))"

definition method_summaries_by_name ::
    "effect_summary list \<Rightarrow> string \<times> string \<Rightarrow> effect_summary option" where
  "method_summaries_by_name summaries =
     map_of (List.map_filter (\<lambda>s. map_option (\<lambda>owner. ((owner, ef_callable s), s)) (ef_owner_type_name s))
       summaries)"

definition keep_effectful :: "effect_summary option \<Rightarrow> effect_summary option" where
  "keep_effectful s = (case s of Some e \<Rightarrow> if ef_row e \<noteq> {} then Some e else None | None \<Rightarrow> None)"

definition effectful_function_summaries_by_name ::
    "effect_summary list \<Rightarrow> string \<Rightarrow> effect_summary option" where
  "effectful_function_summaries_by_name summaries name =
     keep_effectful (function_summaries_by_name summaries name)"

definition effectful_method_summaries_by_name ::
    "effect_summary list \<Rightarrow> string \<times> string \<Rightarrow> effect_summary option" where
  "effectful_method_summaries_by_name summaries key =
     keep_effectful (method_summaries_by_name summaries key)"

definition callee_summary :: "effect_summary list \<Rightarrow> effect_callee \<Rightarrow> effect_summary option" where
  "callee_summary summaries callee =
     (case callee of
        CalleeFunction name \<Rightarrow> effectful_function_summaries_by_name summaries name
      | CalleeMethod owner m \<Rightarrow> effectful_method_summaries_by_name summaries (owner, m))"

section \<open>Inference\<close>

type_synonym inferred = "(effect_key \<times> effect_summary) list"

text \<open>\<^verbatim>\<open>inferred.entry(key).or_insert_with(..)\<close> and what the loop does to the entry.\<close>

definition inferred_entry :: "inferred \<Rightarrow> effect_call_edge \<Rightarrow> effect_summary" where
  "inferred_entry inferred e =
     (case bt_get inferred (owner_key e) of
        Some s \<Rightarrow> s
      | None \<Rightarrow> \<lparr>ef_callable = ee_owner_name e, ef_owner_type_name = ee_owner_type_name e,
                 ef_pure = False, ef_row = {}, ef_sources = [], ef_line = ee_line e\<rparr>)"

definition absorb_callee :: "effect_call_edge \<Rightarrow> effect_summary \<Rightarrow> effect_summary \<Rightarrow> effect_summary" where
  "absorb_callee e callee entry =
     (let source = SrcInferred (display_name callee)
      in entry\<lparr>ef_row := ef_row entry \<union> ef_row callee,
           ef_sources := (if source \<in> set (ef_sources entry) then ef_sources entry
                          else ef_sources entry @ [source]),
           ef_line := min (ef_line entry) (ee_line e)\<rparr>)"

fun infer_edge ::
    "effect_summary list \<Rightarrow> effect_key set \<Rightarrow> effect_call_edge \<Rightarrow> inferred \<times> bool \<Rightarrow> inferred \<times> bool" where
  "infer_edge summaries declared e (inferred, changed) =
     (if owner_key e \<in> declared then (inferred, changed)
      else (case callee_summary summaries (ee_callee e) of
              None \<Rightarrow> (inferred, changed)
            | Some callee \<Rightarrow>
                (let entry = inferred_entry inferred e; entry1 = absorb_callee e callee entry
                 in (bt_insert (owner_key e) entry1 inferred, changed \<or> ef_row entry1 \<noteq> ef_row entry))))"

definition infer_round ::
    "effect_call_edge list \<Rightarrow> effect_key set \<Rightarrow> effect_summary list \<Rightarrow> inferred \<Rightarrow> inferred \<times> bool" where
  "infer_round edges declared_keys seeds inferred =
     fold (infer_edge (seeds @ map snd inferred) declared_keys) edges (inferred, False)"

text \<open>\<^verbatim>\<open>for _ in 0..8\<close>, left early when a round changes no row.\<close>

primrec infer_rounds ::
    "nat \<Rightarrow> effect_call_edge list \<Rightarrow> effect_key set \<Rightarrow> effect_summary list \<Rightarrow> inferred \<Rightarrow> inferred" where
  "infer_rounds 0 edges declared_keys seeds inferred = inferred"
| "infer_rounds (Suc k) edges declared_keys seeds inferred =
     (let (inferred1, changed) = infer_round edges declared_keys seeds inferred
      in if changed then infer_rounds k edges declared_keys seeds inferred1 else inferred1)"

definition declared_keys :: "effect_summary list \<Rightarrow> effect_key set" where
  "declared_keys seeds = summary_key ` set (filter (\<lambda>s. ef_pure s \<or> has_declared_effect_row s) seeds)"

definition collect_inferred_effect_summaries ::
    "effect_context \<Rightarrow> node \<Rightarrow> effect_summary list \<Rightarrow> effect_summary list" where
  "collect_inferred_effect_summaries cx n seeds =
     map snd (infer_rounds 8 (effect_call_edges cx n) (declared_keys seeds) seeds [])"

section \<open>Published facts\<close>

definition fact_source :: "effect_source \<Rightarrow> string" where
  "fact_source s =
     (case s of SrcDecorator name \<Rightarrow> name | SrcLifecycle name \<Rightarrow> name | SrcUnsafeBlock \<Rightarrow> ''unsafe:''
      | SrcInferred name \<Rightarrow> ''inferred:'' @ name | SrcStdlib name \<Rightarrow> ''stdlib:'' @ name)"

definition effect_source_from_fact_source :: "string \<Rightarrow> effect_source" where
  "effect_source_from_fact_source source =
     (case strip_prefix ''inferred:'' source of
        Some name \<Rightarrow> SrcInferred name
      | None \<Rightarrow> (case strip_prefix ''stdlib:'' source of
                   Some name \<Rightarrow> SrcStdlib name | None \<Rightarrow> SrcDecorator source))"

definition is_taint_effect_label :: "string \<Rightarrow> bool" where
  "is_taint_effect_label label = starts_with ''taint.'' label"

definition fact_of_summary :: "effect_context \<Rightarrow> effect_summary \<Rightarrow> summary_effect_fact" where
  "fact_of_summary cx s =
     \<lparr>sef_name = ef_callable s, sef_owner_type_name = ef_owner_type_name s, sef_pure = ef_pure s,
      sef_effects = filter (\<lambda>l. cx_effect_rows cx \<and> \<not> is_taint_effect_label l \<or>
                               cx_taint cx \<and> is_taint_effect_label l) (row_labels (ef_row s)),
      sef_sources = map fact_source (ef_sources s), sef_line = ef_line s\<rparr>"

definition collect_effect_summary_facts :: "effect_context \<Rightarrow> node \<Rightarrow> summary_effect_fact list" where
  "collect_effect_summary_facts cx n =
     (if \<not> cx_effect_rows cx \<and> \<not> cx_taint cx then []
      else (let local_summaries = collect_local_effect_summaries cx n;
                seeds = local_summaries @ collect_stdlib_effect_summaries n;
                summaries = local_summaries @ collect_inferred_effect_summaries cx n seeds;
                facts = filter (\<lambda>f. cx_effect_rows cx \<and> sef_pure f \<or> sef_effects f \<noteq> [])
                          (map (fact_of_summary cx) summaries)
            in sort_key (\<lambda>f. (sef_owner_type_name f, sef_name f, sef_line f)) facts))"

definition effect_summary_from_fact ::
    "string \<Rightarrow> string option \<Rightarrow> summary_effect_fact \<Rightarrow> effect_summary" where
  "effect_summary_from_fact callable owner_type f =
     \<lparr>ef_callable = callable, ef_owner_type_name = owner_type, ef_pure = sef_pure f,
      ef_row = row_from_labels (sef_effects f),
      ef_sources = map effect_source_from_fact_source (sef_sources f), ef_line = sef_line f\<rparr>"

definition imported_summaries_of :: "effect_context \<Rightarrow> bound_declaration \<Rightarrow> effect_summary list" where
  "imported_summaries_of cx d =
     (case resolve_target_from_declaration (cx_nodes cx) d of
        None \<Rightarrow> []
      | Some target \<Rightarrow>
          (case im_target target of
             None \<Rightarrow> []
           | Some target_declaration \<Rightarrow>
               if d_owner target_declaration \<noteq> None then []
               else (let facts = collect_effect_summary_facts cx (im_provider target)
                     in case d_kind target_declaration of
                          DFunction \<Rightarrow>
                            (case List.find (\<lambda>f. sef_owner_type_name f = None \<and>
                                     sef_name f = d_name target_declaration) facts of
                               Some f \<Rightarrow> [effect_summary_from_fact (d_name d) None f] | None \<Rightarrow> [])
                        | DClass \<Rightarrow>
                            map (\<lambda>f. effect_summary_from_fact (sef_name f) (Some (d_name d)) f)
                              (filter (\<lambda>f. sef_owner_type_name f = Some (d_name target_declaration)) facts)
                        | _ \<Rightarrow> [])))"

definition collect_imported_effect_summaries :: "effect_context \<Rightarrow> node \<Rightarrow> effect_summary list" where
  "collect_imported_effect_summaries cx n =
     concat (map (imported_summaries_of cx) (top_level_imports n))"

definition collect_visible_effect_summaries :: "effect_context \<Rightarrow> node \<Rightarrow> effect_summary list" where
  "collect_visible_effect_summaries cx n =
     (let summaries = collect_local_effect_summaries cx n @ collect_imported_effect_summaries cx n @
            collect_stdlib_effect_summaries n
      in summaries @ collect_inferred_effect_summaries cx n summaries)"

section \<open>Diagnostics of uncovered calls\<close>

definition caller_effect_summary ::
    "effect_summary list \<Rightarrow> string \<Rightarrow> string option \<Rightarrow> effect_summary option" where
  "caller_effect_summary summaries owner owner_type =
     (case Option.bind owner_type (\<lambda>t. method_summaries_by_name summaries (t, owner)) of
        Some s \<Rightarrow> Some s | None \<Rightarrow> function_summaries_by_name summaries owner)"

definition caller_effect_row_allows :: "effect_summary option \<Rightarrow> effect_row \<Rightarrow> bool" where
  "caller_effect_row_allows caller required \<longleftrightarrow>
     (case caller of
        Some s \<Rightarrow> \<not> ef_pure s \<and> has_declared_effect_row s \<and> row_covers (ef_row s) required
      | None \<Rightarrow> False)"

definition capability_scopes_allow :: "capability_scope list \<Rightarrow> nat \<Rightarrow> effect_row \<Rightarrow> bool" where
  "capability_scopes_allow scopes line row \<longleftrightarrow>
     row \<noteq> {} \<and>
     list_ex (\<lambda>s. cs_line_start s \<le> line \<and> line \<le> cs_line_end s \<and> row_covers (cs_grants s) row) scopes"

definition collect_capability_scopes :: "effect_context \<Rightarrow> node \<Rightarrow> capability_scope list" where
  "collect_capability_scopes cx n =
     (let ranges = (if cx_unsafe_ranges cx n = []
                    then map (\<lambda>(line, _). (line, line)) (filter snd (cx_unsafe_operations cx n))
                    else cx_unsafe_ranges cx n)
      in map (\<lambda>(first, last). \<lparr>cs_line_start = first, cs_line_end = last, cs_grants = {KUnsafe},
                              cs_source = SrcUnsafeBlock\<rparr>) ranges)"

text \<open>A call as the checker sees it: the owner and its type, the callee, the line.\<close>

type_synonym consumed_call = "string \<times> string option \<times> effect_callee \<times> nat"

definition value_calls ::
    "string \<Rightarrow> string option \<Rightarrow> direct_expr \<Rightarrow> nat \<Rightarrow> consumed_call list" where
  "value_calls owner owner_type value line =
     map (\<lambda>callee. (owner, owner_type, callee, line)) (own_callees value)"

definition consumed_calls :: "effect_context \<Rightarrow> node \<Rightarrow> consumed_call list" where
  "consumed_calls cx n =
     (let s = mn_sites n
      in concat (map (\<lambda>a. case as_owner_name a of None \<Rightarrow> []
           | Some owner \<Rightarrow> value_calls owner (as_owner_type_name a) (as_parts a) (as_line a)) (si_assignments s)) @
         concat (map (\<lambda>r. value_calls (rt_owner_name r) (rt_owner_type_name r) (rt_parts r) (rt_line r))
           (si_returns s)) @
         List.map_filter (\<lambda>c. map_option (\<lambda>owner.
             (owner, dx_owner_type_name c, CalleeFunction (dx_callee c), dx_line c)) (dx_owner_name c))
           (cx_call_contexts cx n) @
         List.map_filter (\<lambda>m. map_option (\<lambda>owner.
             (owner, mc_current_owner_type_name m, CalleeMethod (mc_owner_name m) (mc_method m), mc_line m))
             (mc_current_owner_name m)) (si_method_calls s) @
         map (\<lambda>e. (ee_owner_name e, ee_owner_type_name e, ee_callee e, ee_line e))
           (effect_call_edges cx n))"

definition effect_source_note :: "effect_summary \<Rightarrow> string" where
  "effect_source_note s =
     (case ef_sources s of
        [] \<Rightarrow> ''effect source is unknown''
      | SrcDecorator name # _ \<Rightarrow> ''effect declared by `'' @ name @ ''`''
      | SrcLifecycle name # _ \<Rightarrow> ''resource effect inferred from `'' @ name @ ''`''
      | SrcUnsafeBlock # _ \<Rightarrow> ''capability granted by `unsafe:` scope''
      | SrcInferred name # _ \<Rightarrow> ''effect inferred from `'' @ name @ ''`''
      | SrcStdlib name # _ \<Rightarrow> ''effect inferred from stdlib `'' @ name @ ''`'') @
     '' on line '' @ show_nat (ef_line s)"

definition effect_call_diagnostic ::
    "node \<Rightarrow> string \<Rightarrow> effect_summary option \<Rightarrow> effect_summary \<Rightarrow> nat \<Rightarrow> diagnostic" where
  "effect_call_diagnostic n owner caller callee line =
     (let caller_kind = (case caller of
            Some s \<Rightarrow> if ef_pure s then ''pure function'' else ''function'' | None \<Rightarrow> ''function'');
          callee_kind = (if ef_owner_type_name callee \<noteq> None then ''method'' else ''function'')
      in with_note (effect_source_note callee @ ''; add an effect declaration to the caller, remove `@effect_pure`, or isolate the call behind an explicit capability boundary'')
           (with_span (span_new (mn_path n) line 1 line 1)
              (diagnostic_warning ''TPY4026''
                 (caller_kind @ '' `'' @ owner @ ''` calls effectful '' @ callee_kind @ '' `'' @
                  display_name callee @ ''` with uncovered effect row `'' @
                  join_with '', '' (row_labels (ef_row callee)) @ ''`''))))"

type_synonym reported = "(string \<times> nat \<times> string) set"

fun maybe_push_effect_call_diagnostic ::
    "node \<Rightarrow> capability_scope list \<Rightarrow> effect_summary list \<Rightarrow> consumed_call \<Rightarrow>
     diagnostic list \<times> reported \<Rightarrow> diagnostic list \<times> reported" where
  "maybe_push_effect_call_diagnostic n scopes summaries (owner, owner_type, callee, line) (diagnostics, reported) =
     (case callee_summary summaries callee of
        None \<Rightarrow> (diagnostics, reported)
      | Some callee_sum \<Rightarrow>
          (let caller = caller_effect_summary summaries owner owner_type;
               key = (owner, line, display_name callee_sum)
           in if \<not> caller_effect_row_allows caller (ef_row callee_sum) \<and>
                 \<not> capability_scopes_allow scopes line (ef_row callee_sum) \<and> key \<notin> reported
              then (diagnostics @ [effect_call_diagnostic n owner caller callee_sum line], insert key reported)
              else (diagnostics, reported)))"

text \<open>The second half of \<^verbatim>\<open>effect_capability_diagnostics\<close>, after the taint diagnostics.\<close>

definition callee_of_summary :: "effect_summary \<Rightarrow> effect_callee" where
  "callee_of_summary s =
     (case ef_owner_type_name s of None \<Rightarrow> CalleeFunction (ef_callable s)
      | Some owner \<Rightarrow> CalleeMethod owner (ef_callable s))"

definition effect_row_diagnostics :: "effect_context \<Rightarrow> node \<Rightarrow> diagnostic list \<Rightarrow> diagnostic list" where
  "effect_row_diagnostics cx n diagnostics =
     (let summaries = collect_visible_effect_summaries cx n; scopes = collect_capability_scopes cx n
      in if summaries = [] then diagnostics
         else if list_all (\<lambda>s. callee_summary summaries (callee_of_summary s) = None) summaries
         then diagnostics
         else fst (fold (maybe_push_effect_call_diagnostic n scopes summaries) (consumed_calls cx n)
                (diagnostics, {})))"

end
