(* ===== verification/Effect_Props.thy ===== *)
theory Effect_Props
  imports Effects
begin

text \<open>
  What effect inference and its diagnostics establish: inferred rows are the effects reachable
  along calls, published facts survive being read back, and uncovered calls are reported once.
\<close>

section \<open>Lookups by key\<close>

definition callee_key :: "effect_callee \<Rightarrow> effect_key" where
  "callee_key c = (case c of CalleeFunction f \<Rightarrow> (None, f) | CalleeMethod owner m \<Rightarrow> (Some owner, m))"

definition summary_at :: "effect_summary list \<Rightarrow> effect_key \<Rightarrow> effect_summary option" where
  "summary_at summaries k = List.find (\<lambda>s. summary_key s = k) summaries"

definition row_at :: "effect_summary list \<Rightarrow> effect_key \<Rightarrow> effect_row" where
  "row_at summaries k = (case summary_at summaries k of Some s \<Rightarrow> ef_row s | None \<Rightarrow> {})"

lemma function_summary_at: "function_summaries_by_name summaries f = summary_at summaries (None, f)"
  by (induction summaries) (auto simp: function_summaries_by_name_def summary_at_def summary_key_def)

lemma method_summary_at: "method_summaries_by_name summaries (owner, m) = summary_at summaries (Some owner, m)"
  by (induction summaries)
     (auto simp: method_summaries_by_name_def summary_at_def summary_key_def List.map_filter_simps
       split: option.splits)

lemma callee_summary_at: "callee_summary summaries c = keep_effectful (summary_at summaries (callee_key c))"
  by (cases c) (simp_all add: callee_summary_def callee_key_def effectful_function_summaries_by_name_def
      effectful_method_summaries_by_name_def function_summary_at method_summary_at)

lemma callee_summary_row:
  "callee_summary summaries c = None \<longleftrightarrow> row_at summaries (callee_key c) = {}"
  "callee_summary summaries c = Some s \<Longrightarrow> ef_row s = row_at summaries (callee_key c)"
  by (auto simp: callee_summary_at keep_effectful_def row_at_def split: option.splits if_splits)

lemma summary_at_append:
  "summary_at (xs @ ys) k = (case summary_at xs k of Some s \<Rightarrow> Some s | None \<Rightarrow> summary_at ys k)"
  by (induction xs) (simp_all add: summary_at_def)

lemma summary_at_None: "summary_at xs k = None \<longleftrightarrow> k \<notin> summary_key ` set xs"
  by (auto simp: summary_at_def find_None_iff)

section \<open>Inferred maps\<close>

definition inferred_ok :: "inferred \<Rightarrow> bool" where
  "inferred_ok m \<longleftrightarrow> bt_ok m \<and> (\<forall>k s. bt_get m k = Some s \<longrightarrow> summary_key s = k)"

definition inferred_row :: "inferred \<Rightarrow> effect_key \<Rightarrow> effect_row" where
  "inferred_row m k = (case bt_get m k of Some s \<Rightarrow> ef_row s | None \<Rightarrow> {})"

lemma summary_at_inferred: "inferred_ok m \<Longrightarrow> summary_at (map snd m) k = bt_get m k"
proof -
  assume "inferred_ok m"
  then have "\<forall>(k, s)\<in>set m. summary_key s = k" using bt_get_Some_iff [of m] by (auto simp: inferred_ok_def)
  then show ?thesis
    by (induction m) (auto simp: summary_at_def bt_get_def)
qed

lemma row_at_inferred: "inferred_ok m \<Longrightarrow> row_at (map snd m) k = inferred_row m k"
  by (simp add: row_at_def inferred_row_def summary_at_inferred)

definition edge_gain :: "effect_summary list \<Rightarrow> effect_key set \<Rightarrow> effect_call_edge \<Rightarrow> effect_key \<Rightarrow> effect_row" where
  "edge_gain S D e k = (if k = owner_key e \<and> k \<notin> D then row_at S (callee_key (ee_callee e)) else {})"

lemma infer_edge_skip:
  "owner_key e \<in> D \<or> callee_summary S (ee_callee e) = None \<Longrightarrow> infer_edge S D e (m, c) = (m, c)"
  by auto

lemma inferred_entry_row: "ef_row (inferred_entry m e) = inferred_row m (owner_key e)"
  by (simp add: inferred_entry_def inferred_row_def split: option.split)

lemma absorb_row: "ef_row (absorb_callee e s entry) = ef_row entry \<union> ef_row s"
  by (simp add: absorb_callee_def Let_def)

lemma absorbed_key: "inferred_ok m \<Longrightarrow> summary_key (absorb_callee e s (inferred_entry m e)) = owner_key e"
  by (auto simp: absorb_callee_def Let_def inferred_entry_def inferred_ok_def summary_key_def owner_key_def
      split: option.split)

lemma infer_edge_step:
  assumes "inferred_ok m" "infer_edge S D e (m, c) = (m', c')"
  shows "inferred_ok m' \<and> inferred_row m' = (\<lambda>k. inferred_row m k \<union> edge_gain S D e k) \<and>
    (c' \<longleftrightarrow> c \<or> inferred_row m' \<noteq> inferred_row m)"
proof (cases "owner_key e \<in> D \<or> callee_summary S (ee_callee e) = None")
  case True
  then have "m' = m" "c' = c" using assms(2) infer_edge_skip [OF True] by simp_all
  moreover have "edge_gain S D e k = {}" for k
    using True callee_summary_row(1) [of S "ee_callee e"] by (auto simp: edge_gain_def)
  ultimately show ?thesis using assms(1) by simp
next
  case False
  then obtain s where s: "callee_summary S (ee_callee e) = Some s" and d: "owner_key e \<notin> D" by auto
  let ?r = "inferred_row m (owner_key e) \<union> ef_row s"
  let ?v = "absorb_callee e s (inferred_entry m e)"
  have m': "m' = bt_insert (owner_key e) ?v m" and c': "c' \<longleftrightarrow> c \<or> ?r \<noteq> inferred_row m (owner_key e)"
    using assms(2) d s by (simp_all add: absorb_row inferred_entry_row Let_def)
  have ok: "inferred_ok m'" using assms(1) absorbed_key [OF assms(1)] by (auto simp: m' inferred_ok_def)
  have row: "inferred_row m' k = inferred_row m k \<union> edge_gain S D e k" for k
    using d callee_summary_row(2) [OF s] assms(1)
    by (cases "k = owner_key e")
       (simp_all add: m' inferred_row_def [of "bt_insert _ _ _"] edge_gain_def inferred_ok_def
          absorb_row inferred_entry_row inferred_row_def [of m, symmetric])
  have same: "inferred_row m' = inferred_row m" if "?r = inferred_row m (owner_key e)"
  proof
    show "inferred_row m' k = inferred_row m k" for k
      using that callee_summary_row(2) [OF s] by (cases "k = owner_key e") (auto simp: row edge_gain_def)
  qed
  have "inferred_row m' (owner_key e) = ?r"
    using d callee_summary_row(2) [OF s] by (simp add: row edge_gain_def)
  then have "inferred_row m' = inferred_row m \<longleftrightarrow> ?r = inferred_row m (owner_key e)" using same by metis
  then show ?thesis using ok row c' by blast
qed

lemma sandwich: "(a :: 'a::order) \<le> b \<Longrightarrow> b \<le> c \<Longrightarrow> c = a \<longleftrightarrow> b = a \<and> c = b"
  by auto

lemma infer_round_step:
  assumes "inferred_ok m" "fold (infer_edge S D) edges (m, c) = (m', c')"
  shows "inferred_ok m' \<and> inferred_row m' = (\<lambda>k. inferred_row m k \<union> (\<Union>e\<in>set edges. edge_gain S D e k)) \<and>
    (c' \<longleftrightarrow> c \<or> inferred_row m' \<noteq> inferred_row m)"
  using assms
proof (induction edges arbitrary: m c)
  case (Cons e edges)
  obtain m1 c1 where e: "infer_edge S D e (m, c) = (m1, c1)" by fastforce
  note step = infer_edge_step [OF Cons.prems(1) e]
  have rest: "inferred_ok m' \<and>
      inferred_row m' = (\<lambda>k. inferred_row m1 k \<union> (\<Union>e\<in>set edges. edge_gain S D e k)) \<and>
      (c' \<longleftrightarrow> c1 \<or> inferred_row m' \<noteq> inferred_row m1)"
    using Cons.IH [of m1 c1] step Cons.prems(2) e by simp
  have row: "inferred_row m' = (\<lambda>k. inferred_row m k \<union> (\<Union>e\<in>set (e # edges). edge_gain S D e k))"
    using step rest by auto
  have up: "inferred_row m k \<subseteq> inferred_row m1 k" "inferred_row m1 k \<subseteq> inferred_row m' k" for k
    using step rest by simp_all
  have "inferred_row m' = inferred_row m \<longleftrightarrow> inferred_row m1 = inferred_row m \<and> inferred_row m' = inferred_row m1"
    using sandwich [of "inferred_row m" "inferred_row m1" "inferred_row m'"] up by (auto simp: le_fun_def)
  then show ?case using step rest row by blast
qed simp

section \<open>Propagation along calls\<close>

text \<open>What reaches a key along at most \<open>j\<close> steps of a relation.\<close>

primrec flow_rows :: "('k \<Rightarrow> 'k \<Rightarrow> bool) \<Rightarrow> ('k \<Rightarrow> 'e set) \<Rightarrow> nat \<Rightarrow> 'k \<Rightarrow> 'e set" where
  "flow_rows C s 0 = (\<lambda>a. {})"
| "flow_rows C s (Suc j) = (\<lambda>a. flow_rows C s j a \<union> (\<Union>b\<in>{b. C a b}. s b \<union> flow_rows C s j b))"

lemma relpowp_first: "(C ^^ Suc k) a b \<longleftrightarrow> (\<exists>c. C a c \<and> (C ^^ k) c b)"
  by (metis relpowp_Suc_I2 relpowp_Suc_D2)

lemma shifted: "(\<exists>k<j. P k) \<or> P 0 \<or> (\<exists>k<j. P (Suc k)) \<longleftrightarrow> P 0 \<or> (\<exists>k<j. P (Suc k))"
  by (metis Suc_lessD not0_implies_Suc)

lemma flow_rows_reach: "x \<in> flow_rows C s j a \<longleftrightarrow> (\<exists>k<j. \<exists>b. (C ^^ Suc k) a b \<and> x \<in> s b)"
proof (induction j arbitrary: a)
  case (Suc j)
  let ?P = "\<lambda>k a. \<exists>b. (C ^^ k) a b \<and> x \<in> s b"
  have first: "?P (Suc k) a \<longleftrightarrow> (\<exists>c. C a c \<and> ?P k c)" for k a
    unfolding relpowp_first by blast
  have "x \<in> flow_rows C s (Suc j) a \<longleftrightarrow>
      (\<exists>k<j. ?P (Suc k) a) \<or> (\<exists>c. C a c \<and> ?P 0 c) \<or> (\<exists>k<j. \<exists>c. C a c \<and> ?P (Suc k) c)"
    unfolding flow_rows.simps Un_iff UN_iff mem_Collect_eq Suc.IH by (auto simp del: relpowp.simps(2))
  also have "\<dots> \<longleftrightarrow> (\<exists>k<j. ?P (Suc k) a) \<or> ?P (Suc 0) a \<or> (\<exists>k<j. ?P (Suc (Suc k)) a)"
    unfolding first ..
  also have "\<dots> \<longleftrightarrow> (\<exists>k<Suc j. ?P (Suc k) a)"
    unfolding Ex_less_Suc2 by (rule shifted)
  finally show ?case .
qed simp

lemma flow_rows_stable: "flow_rows C s (Suc j) = flow_rows C s j \<Longrightarrow> flow_rows C s (i + j) = flow_rows C s j"
  by (induction i) simp_all

definition effect_calls :: "effect_call_edge list \<Rightarrow> effect_key set \<Rightarrow> effect_key \<Rightarrow> effect_key \<Rightarrow> bool" where
  "effect_calls edges D a b \<longleftrightarrow>
     a \<notin> D \<and> (\<exists>e\<in>set edges. owner_key e = a \<and> callee_key (ee_callee e) = b)"

abbreviation call_flow where
  "call_flow edges D seeds \<equiv> flow_rows (effect_calls edges D) (row_at seeds)"

text \<open>No seed stands for an owner whose row is inferred.\<close>

definition seeds_declared :: "effect_call_edge list \<Rightarrow> effect_key set \<Rightarrow> effect_summary list \<Rightarrow> bool" where
  "seeds_declared edges D seeds \<longleftrightarrow> (\<forall>e\<in>set edges. owner_key e \<in> summary_key ` set seeds \<longrightarrow> owner_key e \<in> D)"

lemma flow_no_seed:
  assumes "seeds_declared edges D seeds" "b \<in> summary_key ` set seeds"
  shows "call_flow edges D seeds j b = {}"
proof (induction j)
  case (Suc j)
  have "\<not> effect_calls edges D b c" for c
    using assms by (auto simp: seeds_declared_def effect_calls_def)
  then show ?case using Suc by simp
qed simp

lemma round_flow:
  assumes "seeds_declared edges D seeds" "inferred_ok m" "inferred_row m = call_flow edges D seeds j"
    and "infer_round edges D seeds m = (m', c')"
  shows "inferred_ok m' \<and> inferred_row m' = call_flow edges D seeds (Suc j) \<and>
    (c' \<longleftrightarrow> call_flow edges D seeds (Suc j) \<noteq> call_flow edges D seeds j)"
proof -
  let ?S = "seeds @ map snd m"
  have row: "row_at ?S b = row_at seeds b \<union> call_flow edges D seeds j b" for b
  proof (cases "b \<in> summary_key ` set seeds")
    case True
    then show ?thesis
      using flow_no_seed [OF assms(1) True] summary_at_None [of seeds b]
      by (auto simp: row_at_def summary_at_append split: option.splits)
  next
    case False
    then have "summary_at seeds b = None" by (simp add: summary_at_None)
    then show ?thesis
      using row_at_inferred [OF assms(2), of b] assms(3) by (simp add: row_at_def summary_at_append)
  qed
  have gain: "(\<Union>e\<in>set edges. edge_gain ?S D e a) =
      (\<Union>b\<in>{b. effect_calls edges D a b}. row_at seeds b \<union> call_flow edges D seeds j b)" for a
    by (auto simp: edge_gain_def effect_calls_def row split: if_splits)
  show ?thesis
    using infer_round_step [OF assms(2) assms(4) [unfolded infer_round_def]] gain assms(3) by simp
qed

lemma rounds_flow:
  assumes "seeds_declared edges D seeds" "inferred_ok m" "inferred_row m = call_flow edges D seeds j"
  shows "inferred_ok (infer_rounds k edges D seeds m) \<and>
    inferred_row (infer_rounds k edges D seeds m) = call_flow edges D seeds (k + j)"
  using assms(2,3)
proof (induction k arbitrary: m j)
  case (Suc k)
  obtain m' c' where r: "infer_round edges D seeds m = (m', c')" by fastforce
  note step = round_flow [OF assms(1) Suc.prems r]
  show ?case
  proof (cases c')
    case True
    then show ?thesis using Suc.IH [of m' "Suc j"] step r by simp
  next
    case False
    then have "call_flow edges D seeds (Suc j) = call_flow edges D seeds j" using step by simp
    from flow_rows_stable [OF this, of "Suc k"] show ?thesis using step r False by simp
  qed
qed simp

lemma inferred_reach:
  assumes "seeds_declared (effect_call_edges cx n) (declared_keys seeds) seeds"
  shows "x \<in> row_at (collect_inferred_effect_summaries cx n seeds) a \<longleftrightarrow>
    (\<exists>k<8. \<exists>b. (effect_calls (effect_call_edges cx n) (declared_keys seeds) ^^ Suc k) a b \<and> x \<in> row_at seeds b)"
proof -
  have "inferred_ok []" "inferred_row [] = (\<lambda>_. {})" by (simp_all add: inferred_ok_def inferred_row_def fun_eq_iff)
  with rounds_flow [OF assms, of "[]" 0 8] show ?thesis
    by (simp add: collect_inferred_effect_summaries_def row_at_inferred flow_rows_reach del: relpowp.simps)
qed

section \<open>The seeds of a module\<close>

text \<open>\<^verbatim>\<open>inference_seeds\<close> of \<^verbatim>\<open>collect_effect_summary_facts\<close>.\<close>

definition module_seeds :: "effect_context \<Rightarrow> node \<Rightarrow> effect_summary list" where
  "module_seeds cx n = collect_local_effect_summaries cx n @ collect_stdlib_effect_summaries n"

lemma bt_get_from_list_mem: "bt_get (bt_from_list kvs) k = Some v \<Longrightarrow> (k, v) \<in> set kvs"
  using map_of_SomeD [of "rev kvs" k v] by (simp add: bt_get_from_list)

lemma adapter_source_declared:
  assumes "bt_get (adapter_effect_rows cx n) k = Some (row, src)"
  shows "\<not> is_inferred src"
proof (cases "cx_providers cx n")
  case None
  then show ?thesis using assms by (simp add: adapter_effect_rows_def)
next
  case (Some ps)
  show ?thesis
    using bt_get_from_list_mem [OF assms [unfolded adapter_effect_rows_def Some option.case]]
    by (auto simp: mem_map_filter is_inferred_def split: if_splits)
qed

definition declares_row :: "bool \<times> effect_row \<times> effect_source list \<Rightarrow> bool" where
  "declares_row st \<longleftrightarrow> (case st of (_, row, sources) \<Rightarrow> row \<noteq> {} \<longrightarrow> list_ex (\<lambda>s. \<not> is_inferred s) sources)"

lemma read_own_declares: "declares_row st \<Longrightarrow> declares_row (read_own_effect d st)"
  by (cases st) (simp add: declares_row_def Let_def is_inferred_def split: option.split del: list.set)

lemma read_adapter_declares:
  "declares_row st \<Longrightarrow> declares_row (read_adapter_effect (adapter_effect_rows cx n) d st)"
  by (cases st) (auto simp: declares_row_def dest: adapter_source_declared split: option.splits)

lemma read_decorator_declares:
  "declares_row st \<Longrightarrow> declares_row (read_decorator (adapter_effect_rows cx n) d st)"
  by (simp add: read_decorator_def read_own_declares read_adapter_declares)

lemma local_summary_declared:
  assumes "local_summary (adapter_effect_rows cx n) site = Some s"
  shows "ef_pure s \<or> has_declared_effect_row s"
proof -
  have "declares_row (fold (read_decorator (adapter_effect_rows cx n)) ds st)" if "declares_row st" for ds st
    using that by (induction ds arbitrary: st) (simp_all add: read_decorator_declares)
  from this [of "(False, {}, [])" "dcs_decorators site"]
  show ?thesis using assms
    by (auto simp: local_summary_def declares_row_def has_declared_effect_row_def split: prod.splits if_splits)
qed

lemma stdlib_row_not_empty: "stdlib_symbol_effect_row m symbol = Some row \<Longrightarrow> row \<noteq> {}"
  by (auto simp: stdlib_symbol_effect_row_def)

lemma stdlib_summary_declared: "s \<in> set (stdlib_import_summaries d) \<Longrightarrow> has_declared_effect_row s"
  by (auto simp: stdlib_import_summaries_def stdlib_module_effect_methods_def has_declared_effect_row_def
      is_inferred_def mem_map_filter dest: stdlib_row_not_empty split: option.splits bind_splits)

lemma module_seeds_declared: "seeds_declared edges (declared_keys (module_seeds cx n)) (module_seeds cx n)"
proof -
  have "ef_pure s \<or> has_declared_effect_row s" if "s \<in> set (module_seeds cx n)" for s
    using that local_summary_declared [of cx n _ s] stdlib_summary_declared [of s]
    by (auto simp: module_seeds_def collect_local_effect_summaries_def collect_stdlib_effect_summaries_def
        mem_map_filter split: option.splits)
  then show ?thesis by (auto simp: seeds_declared_def declared_keys_def)
qed

section \<open>Reports\<close>

definition call_summaries where "call_summaries cx n = collect_visible_effect_summaries cx n"

definition uncovered_call :: "effect_context \<Rightarrow> node \<Rightarrow> consumed_call \<Rightarrow> bool" where
  "uncovered_call cx n c \<longleftrightarrow>
     (case c of (owner, owner_type, callee, line) \<Rightarrow>
        (case callee_summary (call_summaries cx n) callee of
           None \<Rightarrow> False
         | Some s \<Rightarrow>
             \<not> caller_effect_row_allows (caller_effect_summary (call_summaries cx n) owner owner_type) (ef_row s) \<and>
             \<not> capability_scopes_allow (collect_capability_scopes cx n) line (ef_row s)))"

definition report_key :: "effect_context \<Rightarrow> node \<Rightarrow> consumed_call \<Rightarrow> string \<times> nat \<times> string" where
  "report_key cx n c =
     (case c of (owner, _, callee, line) \<Rightarrow>
        (owner, line, display_name (the (callee_summary (call_summaries cx n) callee))))"

definition call_diagnostic :: "effect_context \<Rightarrow> node \<Rightarrow> consumed_call \<Rightarrow> diagnostic" where
  "call_diagnostic cx n c =
     (case c of (owner, owner_type, callee, line) \<Rightarrow>
        effect_call_diagnostic n owner (caller_effect_summary (call_summaries cx n) owner owner_type)
          (the (callee_summary (call_summaries cx n) callee)) line)"

lemma push_step:
  "maybe_push_effect_call_diagnostic n (collect_capability_scopes cx n) (call_summaries cx n) c (ds, R) =
     (if uncovered_call cx n c \<and> report_key cx n c \<notin> R
      then (ds @ [call_diagnostic cx n c], insert (report_key cx n c) R) else (ds, R))"
  by (cases c) (auto simp: uncovered_call_def report_key_def call_diagnostic_def Let_def split: option.splits)

text \<open>The calls reported, when the keys \<open>R\<close> were reported before.\<close>

definition reported_calls ::
    "effect_context \<Rightarrow> node \<Rightarrow> consumed_call list \<Rightarrow> reported \<Rightarrow> consumed_call list \<Rightarrow> bool" where
  "reported_calls cx n calls R cs \<longleftrightarrow>
     set cs \<subseteq> {c \<in> set calls. uncovered_call cx n c} \<and> distinct (map (report_key cx n) cs) \<and>
     report_key cx n ` set cs \<inter> R = {} \<and>
     report_key cx n ` {c \<in> set calls. uncovered_call cx n c} \<subseteq> report_key cx n ` set cs \<union> R"

lemma reported_calls_push:
  "reported_calls cx n calls (insert (report_key cx n c) R) cs \<Longrightarrow> uncovered_call cx n c \<Longrightarrow>
     report_key cx n c \<notin> R \<Longrightarrow> reported_calls cx n (c # calls) R (c # cs)"
  by (auto simp: reported_calls_def)

lemma reported_calls_skip:
  "reported_calls cx n calls R cs \<Longrightarrow> \<not> (uncovered_call cx n c \<and> report_key cx n c \<notin> R) \<Longrightarrow>
     reported_calls cx n (c # calls) R cs"
  by (auto simp: reported_calls_def)

lemma push_loop:
  "\<exists>cs. fst (fold (maybe_push_effect_call_diagnostic n (collect_capability_scopes cx n) (call_summaries cx n)) calls (ds, R)) =
       ds @ map (call_diagnostic cx n) cs \<and> reported_calls cx n calls R cs"
proof (induction calls arbitrary: ds R)
  case Nil
  show ?case by (simp add: reported_calls_def)
next
  case (Cons c calls)
  show ?case
  proof (cases "uncovered_call cx n c \<and> report_key cx n c \<notin> R")
    case True
    obtain cs where "fst (fold (maybe_push_effect_call_diagnostic n (collect_capability_scopes cx n)
          (call_summaries cx n)) calls (ds @ [call_diagnostic cx n c], insert (report_key cx n c) R)) =
        (ds @ [call_diagnostic cx n c]) @ map (call_diagnostic cx n) cs"
      "reported_calls cx n calls (insert (report_key cx n c) R) cs"
      using Cons.IH by blast
    then show ?thesis using True by (intro exI [of _ "c # cs"]) (simp add: push_step reported_calls_push)
  next
    case False
    then show ?thesis using Cons.IH [of ds R] reported_calls_skip [OF _ False] by (auto simp: push_step)
  qed
qed

lemma callee_summary_member:
  assumes "callee_summary S c = Some s"
  shows "s \<in> set S \<and> callee_of_summary s = c"
proof -
  have "summary_at S (callee_key c) = Some s"
    using assms by (auto simp: callee_summary_at keep_effectful_def split: option.splits if_splits)
  then have "s \<in> set S" "summary_key s = callee_key c" by (auto simp: summary_at_def find_Some_iff)
  then show ?thesis
    by (cases c; cases "ef_owner_type_name s") (auto simp: callee_of_summary_def callee_key_def summary_key_def)
qed

lemma reports_loop:
  "effect_row_diagnostics cx n ds =
     fst (fold (maybe_push_effect_call_diagnostic n (collect_capability_scopes cx n) (call_summaries cx n))
       (consumed_calls cx n) (ds, {}))"
proof -
  let ?S = "call_summaries cx n"
  have quiet: "fst (fold (maybe_push_effect_call_diagnostic n (collect_capability_scopes cx n) ?S) calls (ds, R)) = ds"
    if "\<And>c. callee_summary ?S c = None" for calls R
  proof (induction calls)
    case (Cons c calls)
    then show ?case using that by (cases c) (simp add: push_step uncovered_call_def)
  qed simp
  have none: "callee_summary ?S c = None" if "list_all (\<lambda>s. callee_summary ?S (callee_of_summary s) = None) ?S" for c
    using that callee_summary_member [of ?S c] by (cases "callee_summary ?S c") (auto simp: list_all_iff)
  show ?thesis
    using quiet none
    by (auto simp: effect_row_diagnostics_def Let_def call_summaries_def [symmetric])
qed

section \<open>Imported names\<close>

text \<open>Only the owners of calls get an inferred row.\<close>

lemma infer_edge_keys:
  "inferred_ok m \<Longrightarrow> infer_edge S D e (m, c) = (m', c') \<Longrightarrow> bt_get m' k \<noteq> None \<Longrightarrow>
     bt_get m k \<noteq> None \<or> k = owner_key e"
  by (auto simp: Let_def inferred_ok_def split: if_splits option.splits)

lemma infer_fold_keys:
  "inferred_ok m \<Longrightarrow> fold (infer_edge S D) edges (m, c) = (m', c') \<Longrightarrow> bt_get m' k \<noteq> None \<Longrightarrow>
     bt_get m k \<noteq> None \<or> k \<in> owner_key ` set edges"
proof (induction edges arbitrary: m c)
  case (Cons e edges)
  obtain m1 c1 where e: "infer_edge S D e (m, c) = (m1, c1)" by fastforce
  have "inferred_ok m1" using infer_edge_step [OF Cons.prems(1) e] by blast
  then have "bt_get m1 k \<noteq> None \<or> k \<in> owner_key ` set edges"
    using Cons.IH [of m1 c1] Cons.prems e by simp
  then show ?case using infer_edge_keys [OF Cons.prems(1) e, of k] by auto
qed simp

lemma infer_rounds_keys:
  "inferred_ok m \<Longrightarrow> bt_get (infer_rounds j edges D seeds m) k \<noteq> None \<Longrightarrow>
     bt_get m k \<noteq> None \<or> k \<in> owner_key ` set edges"
proof (induction j arbitrary: m)
  case (Suc j)
  obtain m1 c where r: "infer_round edges D seeds m = (m1, c)" by fastforce
  then have f: "fold (infer_edge (seeds @ map snd m) D) edges (m, False) = (m1, c)"
    by (simp add: infer_round_def)
  have "inferred_ok m1" using infer_round_step [OF Suc.prems(1) f] by blast
  then have "bt_get m1 k \<noteq> None \<or> k \<in> owner_key ` set edges"
    using Suc r by (cases c) auto
  then show ?case using infer_fold_keys [OF Suc.prems(1) f] by blast
qed simp

lemma infer_rounds_ok: "inferred_ok m \<Longrightarrow> inferred_ok (infer_rounds j edges D seeds m)"
proof (induction j arbitrary: m)
  case (Suc j)
  obtain m1 c where r: "infer_round edges D seeds m = (m1, c)" by fastforce
  then have "inferred_ok m1" using infer_round_step [OF Suc.prems, of "seeds @ map snd m" D edges False m1 c]
    by (simp add: infer_round_def)
  then show ?case using Suc.IH r by simp
qed simp

lemma inferred_keys:
  assumes "k \<notin> owner_key ` set (effect_call_edges cx n)"
  shows "summary_at (collect_inferred_effect_summaries cx n seeds) k = None"
proof -
  have ok: "inferred_ok []" by (simp add: inferred_ok_def bt_ok_def bt_get_def)
  then show ?thesis
    using infer_rounds_keys [OF ok, of 8 "effect_call_edges cx n" "declared_keys seeds" seeds k] assms
    by (auto simp: collect_inferred_effect_summaries_def summary_at_inferred infer_rounds_ok bt_get_def
        simp del: infer_rounds.simps)
qed

text \<open>An import that is the only one of its name, seen through the summaries of the module.\<close>

definition sole_import :: "node \<Rightarrow> bound_declaration \<Rightarrow> bool" where
  "sole_import n d \<longleftrightarrow> filter (\<lambda>i. d_name i = d_name d) (top_level_imports n) = [d]"

lemma imported_summary_name:
  "s \<in> set (imported_summaries_of cx i) \<Longrightarrow> summary_key s = (None, name) \<Longrightarrow> d_name i = name"
  by (auto simp: imported_summaries_of_def Let_def summary_key_def effect_summary_from_fact_def
      split: option.splits if_splits declaration_kind.splits)

lemma imported_of_others:
  "list_all (\<lambda>i. d_name i \<noteq> name) is \<Longrightarrow>
     summary_at (concat (map (imported_summaries_of cx) is)) (None, name) = None"
  by (fastforce simp: summary_at_None list_all_iff dest: imported_summary_name [OF _ sym])

lemma filter_single:
  assumes "filter P xs = [x]"
  obtains ys zs where "xs = ys @ x # zs" "list_all (\<lambda>y. \<not> P y) ys" "list_all (\<lambda>y. \<not> P y) zs"
proof -
  from assms obtain us vs where "xs = us @ x # vs" "\<forall>u\<in>set us. \<not> P u" "filter P vs = []"
    by (auto simp: filter_eq_Cons_iff)
  with that [of us vs] show thesis by (simp add: list_all_iff filter_empty_conv)
qed

lemma imported_of_sole:
  assumes "sole_import n d"
  shows "summary_at (collect_imported_effect_summaries cx n) (None, d_name d) =
    summary_at (imported_summaries_of cx d) (None, d_name d)"
proof -
  obtain ys zs where split: "top_level_imports n = ys @ d # zs"
    "list_all (\<lambda>i. d_name i \<noteq> d_name d) ys" "list_all (\<lambda>i. d_name i \<noteq> d_name d) zs"
    using assms unfolding sole_import_def by (rule filter_single)
  then show ?thesis
    unfolding collect_imported_effect_summaries_def split(1)
    by (simp add: summary_at_append imported_of_others [OF split(2)] imported_of_others [OF split(3)] split: option.split)
qed

lemma visible_import:
  assumes "sole_import n d"
    and "(None, d_name d) \<notin> summary_key ` set (collect_local_effect_summaries cx n @ collect_stdlib_effect_summaries n)"
    and "(None, d_name d) \<notin> owner_key ` set (effect_call_edges cx n)"
  shows "summary_at (call_summaries cx n) (None, d_name d) = summary_at (imported_summaries_of cx d) (None, d_name d)"
proof -
  have "summary_at (collect_local_effect_summaries cx n) (None, d_name d) = None"
    "summary_at (collect_stdlib_effect_summaries n) (None, d_name d) = None"
    using assms(2) unfolding summary_at_None set_append by blast+
  then show ?thesis
    by (simp add: call_summaries_def collect_visible_effect_summaries_def Let_def summary_at_append
        imported_of_sole [OF assms(1)] inferred_keys [OF assms(3)] split: option.split)
qed

section \<open>Sample modules\<close>

text \<open>Functions that return the result of a call, as the binder records them.\<close>

definition call_expr :: "string \<Rightarrow> direct_expr" where
  "call_expr f =
     Direct_Expr None False (Some f) None None None None False None None False None None None None None
       None None None None None None None None None None None None"

definition returns_call :: "nat \<Rightarrow> string \<Rightarrow> string \<Rightarrow> syntax_statement" where
  "returns_call line owner callee =
     StReturn \<lparr>rs_owner_name = owner, rs_owner_type_name = None, rs_value = call_expr callee, rs_line = line\<rparr>"

definition sample_module :: "string \<Rightarrow> syntax_statement list \<Rightarrow> node" where
  "sample_module key statements =
     node_of_binding (\<lambda>_. 0) (bind (key @ ''.tpy'') key TypePythonSource statements)"

definition decorated :: "string \<Rightarrow> string \<Rightarrow> nat \<Rightarrow> decorated_callable_site" where
  "decorated name decorator line =
     \<lparr>dcs_owner_type_name = None, dcs_name = name, dcs_decorators = [decorator], dcs_line = line\<rparr>"

definition sample_context ::
    "node list \<Rightarrow> (string \<Rightarrow> decorated_callable_site list) \<Rightarrow> effect_context" where
  "sample_context nodes callables =
     \<lparr>cx_nodes = nodes, cx_effect_rows = True, cx_taint = False,
      cx_callables = \<lambda>n. Some (callables (mn_key n)),
      cx_providers = \<lambda>_. None, cx_call_contexts = \<lambda>_. [], cx_nested_call_contexts = \<lambda>_. [],
      cx_unsafe_ranges = \<lambda>_. [], cx_unsafe_operations = \<lambda>_. []\<rparr>"

text \<open>A pure function above a chain of \<open>k\<close> calls that ends in the network.\<close>

definition chain_name :: "nat \<Rightarrow> string" where
  "chain_name i = [''abcdefghij'' ! i]"

definition chain_module :: "nat \<Rightarrow> node" where
  "chain_module k = sample_module ''chain''
     (returns_call 1 ''main'' (chain_name 0) #
      map (\<lambda>i. returns_call (i + 2) (chain_name i) (chain_name (Suc i))) [0..<k])"

definition chain_context :: "nat \<Rightarrow> effect_context" where
  "chain_context k = sample_context [chain_module k]
     (\<lambda>_. [decorated ''main'' ''effect_pure'' 1, decorated (chain_name k) ''effect_io_net'' 99])"

definition reports_at :: "nat \<Rightarrow> diagnostic list \<Rightarrow> nat" where
  "reports_at line ds = length (filter (\<lambda>d. map_option sn_line (dg_span d) = Some line) ds)"

lemma chain_of_eight: "reports_at 1 (effect_row_diagnostics (chain_context 8) (chain_module 8) []) = 1"
  by code_simp

lemma chain_of_nine: "reports_at 1 (effect_row_diagnostics (chain_context 9) (chain_module 9) []) = 0"
  by code_simp

text \<open>The same function imported from the module that defines it and from one that re-exports it.\<close>

definition facade_context :: effect_context where
  "facade_context = sample_context
     [sample_module ''net'' [StFunctionDef \<lparr>fs_name = ''fetch'', fs_type_params = [], fs_params = [],
        fs_returns = None, fs_returns_expr = None, fs_is_async = False, fs_is_override = False,
        fs_is_deprecated = False, fs_deprecation_message = None, fs_line = 1\<rparr>],
      sample_module ''api'' [StImport [\<lparr>ib_local_name = ''fetch'', ib_source_path = ''net.fetch''\<rparr>] 1]]
     (\<lambda>key. if key = ''net'' then [decorated ''fetch'' ''effect_io_net'' 1]
           else if key = ''app'' then [decorated ''main'' ''effect_pure'' 2] else [])"

definition app_module :: "string \<Rightarrow> node" where
  "app_module source = sample_module ''app''
     [StImport [\<lparr>ib_local_name = ''fetch'', ib_source_path = source\<rparr>] 1, returns_call 3 ''main'' ''fetch'']"

section \<open>Properties\<close>

text \<open>
  C10: the rows inferred in a module are the effects its calls reach. A callable gets an effect
  exactly when at most eight calls of the module, through callables without a declared row, lead
  to a declared, stdlib or adapter row with it. The bound shows: above a chain of eight calls a
  pure function is reported, above nine it is not.
\<close>

theorem inferred_effects_reach_eight_calls:
  "(x \<in> row_at (collect_inferred_effect_summaries cx n (module_seeds cx n)) a \<longleftrightarrow>
     (\<exists>k<8. \<exists>b. (effect_calls (effect_call_edges cx n) (declared_keys (module_seeds cx n)) ^^ Suc k) a b \<and>
        x \<in> row_at (module_seeds cx n) b)) \<and>
   reports_at 1 (effect_row_diagnostics (chain_context 8) (chain_module 8) []) = 1 \<and>
   reports_at 1 (effect_row_diagnostics (chain_context 9) (chain_module 9) []) = 0"
  using inferred_reach [OF module_seeds_declared] chain_of_eight chain_of_nine by blast

text \<open>
  C13: every uncovered call is reported, once. The diagnostics added are those of a list of
  calls of the module whose effects neither the caller's declared row nor an \<^verbatim>\<open>unsafe:\<close>
  scope on the line covers; no two of them have the same owner, line and callee, and each
  uncovered call has one with its owner, line and callee.
\<close>

theorem uncovered_calls_reported_once:
  "\<exists>cs. effect_row_diagnostics cx n ds = ds @ map (call_diagnostic cx n) cs \<and>
     set cs \<subseteq> {c \<in> set (consumed_calls cx n). uncovered_call cx n c} \<and>
     distinct (map (report_key cx n) cs) \<and>
     report_key cx n ` set cs = report_key cx n ` {c \<in> set (consumed_calls cx n). uncovered_call cx n c}"
  using push_loop [of n cx "consumed_calls cx n" ds "{}"]
  by (auto simp: reports_loop reported_calls_def)

text \<open>
  The call of a function whose name a module gets by one import, and of which it declares and
  infers nothing of its own.
\<close>

lemma reexport_sample:
  "reports_at 3 (effect_row_diagnostics facade_context (app_module ''net.fetch'') []) = 1 \<and>
   effect_row_diagnostics facade_context (app_module ''api.fetch'') [] = []"
  by code_simp

text \<open>
  C16: a re-export loses the effects. Take a name that a module gets by one import only, and for
  which it has no summary of its own, from the standard library or inferred. If the import leads to
  a function of the module it names, a call of it has the effects that module publishes for the
  function. If it leads to a declaration that is itself an import, a call of it has no effects: in
  no context, and whatever the function behind the re-export does, is such a call reported.
\<close>

theorem reexported_effects_are_lost:
  assumes "sole_import n d"
    and "(None, d_name d) \<notin> summary_key ` set (collect_local_effect_summaries cx n @ collect_stdlib_effect_summaries n)"
    and "(None, d_name d) \<notin> owner_key ` set (effect_call_edges cx n)"
    and "resolve_target_from_declaration (cx_nodes cx) d = Some t" "im_target t = Some target" "d_owner target = None"
  shows "(d_kind target = DFunction \<longrightarrow>
      callee_summary (collect_visible_effect_summaries cx n) (CalleeFunction (d_name d)) =
        keep_effectful (map_option (effect_summary_from_fact (d_name d) None)
          (List.find (\<lambda>f. sef_owner_type_name f = None \<and> sef_name f = d_name target)
            (collect_effect_summary_facts cx (im_provider t))))) \<and>
    (d_kind target = DImport \<longrightarrow>
      (\<exists>cs. effect_row_diagnostics cx n ds = ds @ map (call_diagnostic cx n) cs \<and>
        list_all (\<lambda>(owner, owner_type, callee, line). callee \<noteq> CalleeFunction (d_name d)) cs))"
proof (intro conjI impI)
  have visible: "callee_summary (call_summaries cx n) (CalleeFunction (d_name d)) =
      keep_effectful (summary_at (imported_summaries_of cx d) (None, d_name d))"
    by (simp add: callee_summary_at callee_key_def visible_import [OF assms(1-3)])
  show "callee_summary (collect_visible_effect_summaries cx n) (CalleeFunction (d_name d)) =
      keep_effectful (map_option (effect_summary_from_fact (d_name d) None)
        (List.find (\<lambda>f. sef_owner_type_name f = None \<and> sef_name f = d_name target)
          (collect_effect_summary_facts cx (im_provider t))))" if "d_kind target = DFunction"
    using that assms(4-6) unfolding call_summaries_def [symmetric] visible
    by (auto simp: imported_summaries_of_def Let_def summary_at_def summary_key_def effect_summary_from_fact_def
        split: option.split)
  assume "d_kind target = DImport"
  then have "imported_summaries_of cx d = []" using assms(4-6) by (simp add: imported_summaries_of_def Let_def)
  then have silent: "callee_summary (call_summaries cx n) (CalleeFunction (d_name d)) = None"
    unfolding visible by (simp add: summary_at_def keep_effectful_def)
  obtain cs where "effect_row_diagnostics cx n ds = ds @ map (call_diagnostic cx n) cs"
    and "reported_calls cx n (consumed_calls cx n) {} cs"
    using push_loop [of n cx "consumed_calls cx n" ds "{}"] reports_loop by metis
  moreover from this(2) have "\<forall>c\<in>set cs. uncovered_call cx n c" by (auto simp: reported_calls_def)
  moreover have "\<not> uncovered_call cx n (owner, owner_type, CalleeFunction (d_name d), line)" for owner owner_type line
    by (simp add: uncovered_call_def silent)
  ultimately show "\<exists>cs. effect_row_diagnostics cx n ds = ds @ map (call_diagnostic cx n) cs \<and>
      list_all (\<lambda>(owner, owner_type, callee, line). callee \<noteq> CalleeFunction (d_name d)) cs"
    by (intro exI [of _ cs]) (auto simp: list_all_iff)
qed

text \<open>The application imports the network function through the re-exporting module.\<close>

definition fetch_import :: bound_declaration where
  "fetch_import = hd (top_level_imports (app_module ''api.fetch''))"

theorem reexported_effects_are_lost_witness:
  "\<exists>cs. effect_row_diagnostics facade_context (app_module ''api.fetch'') [] =
      map (call_diagnostic facade_context (app_module ''api.fetch'')) cs \<and>
    list_all (\<lambda>(owner, owner_type, callee, line). callee \<noteq> CalleeFunction ''fetch'') cs"
proof -
  let ?n = "app_module ''api.fetch''" and ?d = fetch_import
  obtain t where t: "resolve_target_from_declaration (cx_nodes facade_context) ?d = Some t"
    "map_option d_kind (im_target t) = Some DImport" "map_option d_owner (im_target t) = Some None"
  proof -
    have "Option.bind (resolve_target_from_declaration (cx_nodes facade_context) ?d)
        (\<lambda>t. map_option (\<lambda>d. (d_kind d, d_owner d)) (im_target t)) = Some (DImport, None)" by code_simp
    then show thesis using that by (auto simp: bind_eq_Some_conv)
  qed
  then obtain target where target: "im_target t = Some target" "d_owner target = None" "d_kind target = DImport" by auto
  have "map d_name (top_level_imports ?n) = [''fetch'']" by code_simp
  then have one: "top_level_imports ?n = [?d]" "d_name ?d = ''fetch''" by (auto simp: fetch_import_def map_eq_Cons_conv)
  then have sole: "sole_import ?n ?d" by (simp add: sole_import_def)
  have keys: "''fetch'' \<notin> snd ` set (map summary_key (collect_local_effect_summaries facade_context ?n @ collect_stdlib_effect_summaries ?n))"
    "''fetch'' \<notin> snd ` set (map owner_key (effect_call_edges facade_context ?n))" by code_simp+
  then have fresh: "(None, d_name ?d) \<notin> summary_key ` set (collect_local_effect_summaries facade_context ?n @ collect_stdlib_effect_summaries ?n)"
    "(None, d_name ?d) \<notin> owner_key ` set (effect_call_edges facade_context ?n)"
    unfolding one(2) set_map [symmetric] using keys by (metis image_eqI snd_conv)+
  show ?thesis
    using reexported_effects_are_lost [OF sole fresh t(1) target(1,2), of "[]"] target(3) one(2) by simp
qed

end
