(* ===== verification/Taint.thy ===== *)
theory Taint
  imports Effect_Props
begin

text \<open>
  Taint (crates/typepython_checking, effects.rs): which callables are sources, sinks and
  sanitizers, how taint moves through the expressions and local names of a module, and the
  diagnostics for tainted arguments of sinks. Facts and contexts are \<^verbatim>\<open>BTreeSet\<close>s whose
  order is never looked at: sets.
\<close>

section \<open>Facts of callables\<close>

definition taint_contexts_for_kind ::
    "taint_fact_kind \<Rightarrow> taint_fact set \<Rightarrow> taint_context set option" where
  "taint_contexts_for_kind kind facts =
     (let contexts = snd ` (Set.filter (\<lambda>f. fst f = kind) facts)
      in if contexts \<noteq> {} then Some contexts else None)"

abbreviation taint_source_contexts where "taint_source_contexts \<equiv> taint_contexts_for_kind TaintSource"
abbreviation taint_sink_contexts where "taint_sink_contexts \<equiv> taint_contexts_for_kind TaintSink"
abbreviation taint_sanitizer_contexts where
  "taint_sanitizer_contexts \<equiv> taint_contexts_for_kind TaintSanitizer"

definition taint_decorator_facts_from_decorator :: "string \<Rightarrow> taint_fact set" where
  "taint_decorator_facts_from_decorator decorator =
     (let short = (case decorator_short_name decorator of Some s \<Rightarrow> s | None \<Rightarrow> decorator)
      in set (opt_list (taint_fact_from_decorator_name short) @
              opt_list (Option.bind (effect_label_from_decorator short) taint_fact_from_effect_label)))"

definition taint_decorator_facts_from_effect_summary :: "summary_effect_fact \<Rightarrow> taint_fact set" where
  "taint_decorator_facts_from_effect_summary f =
     (let facts = \<Union> (set (map taint_decorator_facts_from_decorator (sef_sources f)))
      in if facts = {} then set (List.map_filter taint_fact_from_effect_label (sef_effects f)) else facts)"

definition taint_capability_fact :: "framework_capability \<Rightarrow> taint_fact option" where
  "taint_capability_fact c =
     (case c of TaintSourceCap \<Rightarrow> Some (TaintSource, None) | TaintSinkCap \<Rightarrow> Some (TaintSink, None)
      | TaintSanitizerCap \<Rightarrow> Some (TaintSanitizer, None) | _ \<Rightarrow> None)"

definition find_map :: "('a \<Rightarrow> 'b option) \<Rightarrow> 'a list \<Rightarrow> 'b option" where
  "find_map f xs = (case List.map_filter f xs of [] \<Rightarrow> None | y # _ \<Rightarrow> Some y)"

definition adapter_taint_decorators :: "effect_context \<Rightarrow> node \<Rightarrow> string \<Rightarrow> taint_fact option" where
  "adapter_taint_decorators cx n =
     (case cx_providers cx n of
        None \<Rightarrow> Map.empty
      | Some providers \<Rightarrow>
          map_of (rev (List.map_filter (\<lambda>p.
            if fw_provider_kind p = Some FunctionDecorator
            then map_option (Pair (fw_name p)) (find_map taint_capability_fact (fw_capabilities p))
            else None) providers)))"

definition site_taint_facts ::
    "(string \<Rightarrow> taint_fact option) \<Rightarrow> decorated_callable_site \<Rightarrow> taint_fact set" where
  "site_taint_facts adapters site =
     \<Union> (set (map (\<lambda>d. taint_decorator_facts_from_decorator d \<union>
         set (opt_list (Option.bind (decorator_short_name d) adapters)) \<union> set (opt_list (adapters d)))
       (dcs_decorators site)))"

text \<open>
  The facts of the functions and methods of a module: those of decorators, the last site of a
  name counting, and for imported callables those their summaries carry.
\<close>

type_synonym taint_table = "effect_key \<Rightarrow> taint_fact set option"

definition extend_facts :: "effect_key \<times> taint_fact set \<Rightarrow> taint_table \<Rightarrow> taint_table" where
  "extend_facts e table =
     (case e of (key, facts) \<Rightarrow>
        table(key \<mapsto> (case table key of Some old \<Rightarrow> old \<union> facts | None \<Rightarrow> facts)))"

definition imported_facts_of :: "effect_context \<Rightarrow> bound_declaration \<Rightarrow> (effect_key \<times> taint_fact set) list" where
  "imported_facts_of cx d =
     (case resolve_target_from_declaration (cx_nodes cx) d of
        None \<Rightarrow> []
      | Some target \<Rightarrow>
          (case im_target target of
             None \<Rightarrow> []
           | Some t \<Rightarrow>
               if d_owner t \<noteq> None then []
               else (let facts = collect_effect_summary_facts cx (im_provider target)
                     in case d_kind t of
                          DFunction \<Rightarrow>
                            (case List.find (\<lambda>f. sef_owner_type_name f = None \<and> sef_name f = d_name t) facts of
                               None \<Rightarrow> []
                             | Some f \<Rightarrow>
                                 (let fs = taint_decorator_facts_from_effect_summary f
                                  in if fs \<noteq> {} then [((None, d_name d), fs)] else []))
                        | DClass \<Rightarrow>
                            List.map_filter (\<lambda>f.
                                let fs = taint_decorator_facts_from_effect_summary f
                                in if fs \<noteq> {} then Some ((Some (d_name d), sef_name f), fs) else None)
                              (filter (\<lambda>f. sef_owner_type_name f = Some (d_name t)) facts)
                        | _ \<Rightarrow> [])))"

text \<open>
  \<^verbatim>\<open>imported_taint_decorators\<close> collects into a map, so the last import of a function
  name counts; the methods are merged.
\<close>

definition imported_taint_decorators :: "effect_context \<Rightarrow> node \<Rightarrow> taint_table" where
  "imported_taint_decorators cx n =
     map_of (rev (filter (\<lambda>e. fst (fst e) = None) (concat (map (imported_facts_of cx) (top_level_imports n)))))"

definition imported_taint_method_decorators :: "effect_context \<Rightarrow> node \<Rightarrow> taint_table" where
  "imported_taint_method_decorators cx n =
     fold extend_facts
       (filter (\<lambda>e. fst (fst e) \<noteq> None) (concat (map (imported_facts_of cx) (top_level_imports n)))) Map.empty"

definition local_taint_table :: "effect_context \<Rightarrow> node \<Rightarrow> decorated_callable_site list \<Rightarrow> taint_table" where
  "local_taint_table cx n callables =
     map_of (rev (List.map_filter (\<lambda>site.
         let facts = site_taint_facts (adapter_taint_decorators cx n) site
         in if facts = {} then None else Some ((dcs_owner_type_name site, dcs_name site), facts))
       callables))"

definition merge_tables :: "taint_table \<Rightarrow> taint_table \<Rightarrow> taint_table" where
  "merge_tables table imported key =
     (case imported key of
        None \<Rightarrow> table key
      | Some facts \<Rightarrow> Some ((case table key of Some old \<Rightarrow> old | None \<Rightarrow> {}) \<union> facts))"

definition taint_table :: "effect_context \<Rightarrow> node \<Rightarrow> decorated_callable_site list \<Rightarrow> taint_table" where
  "taint_table cx n callables =
     merge_tables (merge_tables (local_taint_table cx n callables) (imported_taint_decorators cx n))
       (imported_taint_method_decorators cx n)"

definition function_facts :: "taint_table \<Rightarrow> string option \<Rightarrow> taint_fact set option" where
  "function_facts table callee = Option.bind callee (\<lambda>f. table (None, f))"

definition taint_method_facts ::
    "taint_table \<Rightarrow> string option \<Rightarrow> string option \<Rightarrow> taint_fact set option" where
  "taint_method_facts table owner_name method_name =
     Option.bind owner_name (\<lambda>owner. Option.bind method_name (\<lambda>m. table (Some owner, m)))"

section \<open>Contexts\<close>

definition taint_context_matches :: "taint_context \<Rightarrow> taint_context \<Rightarrow> bool" where
  "taint_context_matches source sink \<longleftrightarrow> source = None \<or> sink = None \<or> source = sink"

definition taint_contexts_matching_required ::
    "taint_context set \<Rightarrow> taint_context set option \<Rightarrow> taint_context set" where
  "taint_contexts_matching_required contexts required =
     (case required of
        None \<Rightarrow> contexts
      | Some rs \<Rightarrow> Set.filter (\<lambda>c. \<exists>r\<in>rs. taint_context_matches c r) contexts)"

definition sanitizer_context_covers :: "taint_context \<Rightarrow> taint_context \<Rightarrow> bool" where
  "sanitizer_context_covers sanitizer required \<longleftrightarrow>
     sanitizer = None \<or> (required \<noteq> None \<and> sanitizer = required)"

definition unsanitized_contexts_after_sanitizer ::
    "taint_context set \<Rightarrow> taint_context set option \<Rightarrow> taint_context set" where
  "unsanitized_contexts_after_sanitizer sanitizers required =
     (case required of
        None \<Rightarrow> {}
      | Some rs \<Rightarrow> Set.filter (\<lambda>r. \<not> (\<exists>s\<in>sanitizers. sanitizer_context_covers s r)) rs)"

definition sanitizer_contexts_cover_all :: "taint_context set \<Rightarrow> bool" where
  "sanitizer_contexts_cover_all contexts \<longleftrightarrow> None \<in> contexts"

section \<open>Taint of an expression\<close>

type_synonym tainted_locals = "string option \<times> string \<Rightarrow> taint_context set option"

definition or_empty :: "'a set option \<Rightarrow> 'a set" where
  "or_empty s = (case s of Some x \<Rightarrow> x | None \<Rightarrow> {})"

definition contexts_of :: "taint_fact_kind \<Rightarrow> taint_fact set option \<Rightarrow> taint_context set option" where
  "contexts_of kind facts = Option.bind facts (taint_contexts_for_kind kind)"

definition source_taint :: "taint_fact set option \<Rightarrow> taint_context set option \<Rightarrow> taint_context set" where
  "source_taint facts required =
     (case contexts_of TaintSource facts of
        Some cs \<Rightarrow> taint_contexts_matching_required cs required | None \<Rightarrow> {})"

definition local_taint ::
    "tainted_locals \<Rightarrow> string option \<Rightarrow> string option \<Rightarrow> taint_context set option \<Rightarrow> taint_context set" where
  "local_taint locals owner name required =
     (case Option.bind name (\<lambda>x. locals (owner, x)) of
        Some cs \<Rightarrow> taint_contexts_matching_required cs required | None \<Rightarrow> {})"

function argument_taint_contexts ::
    "taint_table \<Rightarrow> tainted_locals \<Rightarrow> string option \<Rightarrow> taint_context set option \<Rightarrow> direct_expr \<Rightarrow>
     taint_context set" where
  "argument_taint_contexts table locals owner required e =
     (let by_function = function_facts table (de_callee e);
          by_method = taint_method_facts table (de_method_owner_name e) (de_method_name e)
      in case contexts_of TaintSanitizer by_function of
           Some cs \<Rightarrow> unsanitized_contexts_after_sanitizer cs required
         | None \<Rightarrow>
             (case contexts_of TaintSanitizer by_method of
                Some cs \<Rightarrow> unsanitized_contexts_after_sanitizer cs required
              | None \<Rightarrow>
                  source_taint by_function required \<union> source_taint by_method required \<union>
                  local_taint locals owner (de_name e) required \<union>
                  \<Union> (set (map (argument_taint_contexts table locals owner required) (operand_parts e)))))"
  by pat_completeness auto
termination
  by (relation "measure (\<lambda>(_, _, _, _, e). size e)") (simp_all add: size_operand)

declare argument_taint_contexts.simps [simp del]

definition argument_is_unsanitized_source ::
    "taint_table \<Rightarrow> tainted_locals \<Rightarrow> string option \<Rightarrow> taint_context set \<Rightarrow> direct_expr \<Rightarrow> bool" where
  "argument_is_unsanitized_source table locals owner required e \<longleftrightarrow>
     argument_taint_contexts table locals owner (Some required) e \<noteq> {}"

section \<open>Owners of lines\<close>

definition extend_owner_range ::
    "string option \<Rightarrow> nat \<Rightarrow> (string option \<times> nat \<times> nat) list \<Rightarrow> (string option \<times> nat \<times> nat) list" where
  "extend_owner_range owner line ranges =
     (case bt_get ranges owner of
        Some (first_line, last_line) \<Rightarrow> bt_insert owner (min first_line line, max last_line line) ranges
      | None \<Rightarrow> bt_insert owner (line, line) ranges)"

definition owner_lines :: "node \<Rightarrow> (nat \<times> string option) list" where
  "owner_lines n =
     map (\<lambda>a. (as_line a, as_owner_name a)) (si_assignments (mn_sites n)) @
     map (\<lambda>r. (rt_line r, Some (rt_owner_name r))) (si_returns (mn_sites n))"

definition owner_line_ranges :: "node \<Rightarrow> (string option \<times> nat \<times> nat) list" where
  "owner_line_ranges n = fold (\<lambda>(line, owner). extend_owner_range owner line) (owner_lines n) []"

definition owner_line_markers :: "node \<Rightarrow> (nat \<times> string option) list" where
  "owner_line_markers n = sort_key fst (owner_lines n)"

definition owner_for_line ::
    "(string option \<times> nat \<times> nat) list \<Rightarrow> (nat \<times> string option) list \<Rightarrow> nat \<Rightarrow> string option" where
  "owner_for_line ranges markers line =
     (case find_map (\<lambda>(owner, first_line, last_line). if first_line \<le> line \<and> line \<le> last_line then owner else None) ranges of
        Some owner \<Rightarrow> Some owner
      | None \<Rightarrow> (case List.find (\<lambda>(l, _). l \<le> line) (rev markers) of
                   Some (_, owner) \<Rightarrow> owner | None \<Rightarrow> None))"

section \<open>Events\<close>

datatype taint_event =
    TaintAssignment assignment_site
  | TaintCall call_site
  | TaintMethodCall method_call_site

definition event_sort_key :: "taint_event \<Rightarrow> nat \<times> nat" where
  "event_sort_key e =
     (case e of
        TaintCall c \<Rightarrow> (cl_line c, 0) | TaintMethodCall m \<Rightarrow> (mc_line m, 0)
      | TaintAssignment a \<Rightarrow> (as_line a, 1))"

definition taint_events :: "node \<Rightarrow> taint_event list" where
  "taint_events n =
     (let s = mn_sites n
      in sort_key event_sort_key
           (map TaintAssignment (si_assignments s) @ map TaintCall (si_calls s) @
            map TaintMethodCall (si_method_calls s)))"

definition taint_sink_diagnostic :: "node \<Rightarrow> string \<Rightarrow> nat \<Rightarrow> diagnostic" where
  "taint_sink_diagnostic n sink_name line =
     with_note ''wrap the source value in a callable marked `@sanitizer` before passing it to a `@sink`''
       (with_span (span_new (mn_path n) line 1 line 1)
          (diagnostic_error ''TPY4028''
             (''tainted source result flows into sink `'' @ sink_name @ ''` without a sanitizer'')))"

text \<open>
  The state of the walk: what it reported, the tainted names per owner, and the owners and lines
  of calls of source and sanitizer methods.
\<close>

record taint_state =
  tt_diagnostics :: "diagnostic list"
  tt_locals :: tainted_locals
  tt_source_lines :: "string option \<times> nat \<Rightarrow> taint_context set option"
  tt_sanitizer_lines :: "string option \<times> nat \<Rightarrow> taint_context set option"

definition empty_taint_state :: taint_state where
  "empty_taint_state =
     \<lparr>tt_diagnostics = [], tt_locals = Map.empty, tt_source_lines = Map.empty,
      tt_sanitizer_lines = Map.empty\<rparr>"

definition report_tainted ::
    "node \<Rightarrow> taint_table \<Rightarrow> string option \<Rightarrow> taint_fact set option \<Rightarrow> direct_expr list \<Rightarrow> string \<Rightarrow> nat \<Rightarrow>
     taint_state \<Rightarrow> taint_state" where
  "report_tainted n table owner facts args sink_name line st =
     (case contexts_of TaintSink facts of
        Some required \<Rightarrow>
          (if list_ex (argument_is_unsanitized_source table (tt_locals st) owner required) args
           then st\<lparr>tt_diagnostics := tt_diagnostics st @ [taint_sink_diagnostic n sink_name line]\<rparr> else st)
      | None \<Rightarrow> st)"

definition remember_line ::
    "string option \<times> nat \<Rightarrow> taint_context set option \<Rightarrow>
     (string option \<times> nat \<Rightarrow> taint_context set option) \<Rightarrow>
     string option \<times> nat \<Rightarrow> taint_context set option" where
  "remember_line key contexts m = (case contexts of Some cs \<Rightarrow> m(key \<mapsto> cs) | None \<Rightarrow> m)"

text \<open>The taint an assignment gives its target, and the contexts its value was sanitized for.\<close>

definition assigned_taint :: "taint_table \<Rightarrow> taint_state \<Rightarrow> assignment_site \<Rightarrow> taint_context set" where
  "assigned_taint table st a =
     (let p = as_parts a; owner = as_owner_name a
      in (case as_value a of Some v \<Rightarrow> argument_taint_contexts table (tt_locals st) owner None v | None \<Rightarrow> {}) \<union>
         or_empty (contexts_of TaintSource (function_facts table (de_callee p))) \<union>
         or_empty (contexts_of TaintSource
           (taint_method_facts table (de_method_owner_name p) (de_method_name p))) \<union>
         or_empty (tt_source_lines st (owner, as_line a)))"

definition sanitized_taint :: "taint_table \<Rightarrow> taint_state \<Rightarrow> assignment_site \<Rightarrow> taint_context set" where
  "sanitized_taint table st a =
     (let p = as_parts a
      in or_empty (contexts_of TaintSanitizer (function_facts table (de_callee p))) \<union>
         or_empty (contexts_of TaintSanitizer
           (taint_method_facts table (de_method_owner_name p) (de_method_name p))) \<union>
         or_empty (tt_sanitizer_lines st (as_owner_name a, as_line a)))"

definition assign_taint ::
    "taint_context set \<Rightarrow> taint_context set \<Rightarrow> taint_context set option \<Rightarrow> taint_context set option" where
  "assign_taint tainted sanitized existing =
     (if sanitized \<noteq> {}
      then (if sanitizer_contexts_cover_all sanitized then None
            else (case existing of
                    None \<Rightarrow> None
                  | Some cs \<Rightarrow> if cs - sanitized = {} then None else Some (cs - sanitized)))
      else if tainted \<noteq> {} then Some tainted else None)"

definition taint_step ::
    "node \<Rightarrow> taint_table \<Rightarrow> (nat \<Rightarrow> string option) \<Rightarrow> taint_event \<Rightarrow> taint_state \<Rightarrow> taint_state" where
  "taint_step n table owner_at event st =
     (case event of
        TaintCall c \<Rightarrow>
          report_tainted n table (owner_at (cl_line c)) (table (None, cl_callee c)) (cl_arg_values c)
            (cl_callee c) (cl_line c) st
      | TaintMethodCall m \<Rightarrow>
          (let owner = (case mc_current_owner_name m of Some o' \<Rightarrow> Some o' | None \<Rightarrow> owner_at (mc_line m));
               facts = table (Some (mc_owner_name m), mc_method m);
               st1 = st\<lparr>tt_source_lines :=
                   remember_line (owner, mc_line m) (contexts_of TaintSource facts) (tt_source_lines st),
                 tt_sanitizer_lines :=
                   remember_line (owner, mc_line m) (contexts_of TaintSanitizer facts) (tt_sanitizer_lines st)\<rparr>
           in report_tainted n table owner facts (mc_arg_values m)
                (mc_owner_name m @ ''.'' @ mc_method m) (mc_line m) st1)
      | TaintAssignment a \<Rightarrow>
          (let key = (as_owner_name a, as_name a)
           in st\<lparr>tt_locals := (tt_locals st)(key :=
                assign_taint (assigned_taint table st a) (sanitized_taint table st a) (tt_locals st key))\<rparr>))"

definition taint_source_sink_diagnostics :: "effect_context \<Rightarrow> node \<Rightarrow> diagnostic list" where
  "taint_source_sink_diagnostics cx n =
     (case cx_callables cx n of
        None \<Rightarrow> []
      | Some callables \<Rightarrow>
          tt_diagnostics (fold (taint_step n (taint_table cx n callables)
              (owner_for_line (owner_line_ranges n) (owner_line_markers n))) (taint_events n) empty_taint_state))"

section \<open>Effects and taint together\<close>

definition effect_capability_diagnostics :: "effect_context \<Rightarrow> node \<Rightarrow> bool \<Rightarrow> diagnostic list" where
  "effect_capability_diagnostics cx n strict =
     (if \<not> strict \<or> mn_kind n \<noteq> TypePythonSource then []
      else if \<not> cx_effect_rows cx \<and> \<not> cx_taint cx then []
      else (let diagnostics = (if cx_taint cx then taint_source_sink_diagnostics cx n else [])
            in if \<not> cx_effect_rows cx then diagnostics else effect_row_diagnostics cx n diagnostics))"

section \<open>How taint moves\<close>

lemma report_tainted_locals [simp]: "tt_locals (report_tainted n t owner facts args name line st) = tt_locals st"
  by (simp add: report_tainted_def split: option.splits)

lemma report_tainted_grows: "set (tt_diagnostics st) \<subseteq> set (tt_diagnostics (report_tainted n t owner facts args name line st))"
  by (auto simp: report_tainted_def split: option.splits)

definition assigns :: "string option \<Rightarrow> string \<Rightarrow> taint_event \<Rightarrow> bool" where
  "assigns owner name event \<longleftrightarrow>
     (case event of TaintAssignment a \<Rightarrow> as_owner_name a = owner \<and> as_name a = name | _ \<Rightarrow> False)"

lemma taint_step_keeps:
  "\<not> assigns owner name event \<Longrightarrow>
     tt_locals (taint_step n table owner_at event st) (owner, name) = tt_locals st (owner, name)"
  by (cases event) (auto simp: taint_step_def assigns_def Let_def)

lemma taint_step_grows: "set (tt_diagnostics st) \<subseteq> set (tt_diagnostics (taint_step n table owner_at event st))"
proof (cases event)
  case (TaintMethodCall m)
  then show ?thesis
    unfolding taint_step_def Let_def
    by (simp only: taint_event.case) (rule subset_trans [OF _ report_tainted_grows], simp)
qed (simp_all add: taint_step_def Let_def report_tainted_grows)

lemma taint_fold_keeps:
  "list_all (\<lambda>e. \<not> assigns owner name e) es \<Longrightarrow>
     tt_locals (fold (taint_step n table owner_at) es st) (owner, name) = tt_locals st (owner, name)"
  by (induction es arbitrary: st) (simp_all add: taint_step_keeps)

lemma taint_fold_grows: "set (tt_diagnostics st) \<subseteq> set (tt_diagnostics (fold (taint_step n table owner_at) es st))"
proof (induction es arbitrary: st)
  case (Cons e es)
  then show ?case using taint_step_grows [of st n table owner_at e] by (simp, meson subset_trans)
qed simp

text \<open>An expression that is just a name.\<close>

definition plain_name :: "string \<Rightarrow> direct_expr \<Rightarrow> bool" where
  "plain_name x e \<longleftrightarrow>
     de_name e = Some x \<and> de_callee e = None \<and> (de_method_owner_name e = None \<or> de_method_name e = None)"

lemma plain_name_taint:
  assumes "plain_name x e" "locals (owner, x) = Some cs" "c \<in> cs" "r \<in> required" "taint_context_matches c r"
  shows "argument_is_unsanitized_source table locals owner required e"
proof -
  have "function_facts table (de_callee e) = None"
    "taint_method_facts table (de_method_owner_name e) (de_method_name e) = None"
    using assms(1) by (auto simp: plain_name_def function_facts_def taint_method_facts_def bind_eq_None_conv)
  moreover have "c \<in> local_taint locals owner (de_name e) (Some required)"
    using assms by (auto simp: local_taint_def plain_name_def taint_contexts_matching_required_def)
  ultimately show ?thesis
    by (auto simp: argument_is_unsanitized_source_def argument_taint_contexts.simps [of _ _ _ _ e] contexts_of_def Let_def)
qed

section \<open>A sample\<close>

text \<open>
  A source and a sink for \<^verbatim>\<open>html\<close>, and a sanitizer for \<^verbatim>\<open>sql\<close>; the
  sanitizer's result goes into the sink, directly or through a local name.
\<close>

definition sample_call :: "string \<Rightarrow> direct_expr \<Rightarrow> nat \<Rightarrow> call_site" where
  "sample_call callee arg line =
     \<lparr>cl_callee = callee, cl_source_range = None, cl_arg_count = 1, cl_arg_values = [arg],
      cl_starred_arg_values = [], cl_keyword_names = [], cl_keyword_arg_values = [],
      cl_keyword_expansion_values = [], cl_line = line\<rparr>"

definition sample_assignment :: "string \<Rightarrow> direct_expr \<Rightarrow> nat \<Rightarrow> syntax_statement" where
  "sample_assignment name v line =
     StValue \<lparr>vs_names = [name], vs_destructuring_target_names = None, vs_annotation = None,
       vs_annotation_expr = None, vs_value = v, vs_owner_name = None, vs_owner_type_name = None,
       vs_is_final = False, vs_is_class_var = False, vs_line = line\<rparr>"

definition name_expr :: "string \<Rightarrow> direct_expr" where
  "name_expr x =
     Direct_Expr None False None None (Some x) None None False None None False None None None None None
       None None None None None None None None None None None None"

definition page_context :: effect_context where
  "page_context = (sample_context [] (\<lambda>_. [decorated ''body'' ''source:html'' 1,
       decorated ''escape_sql'' ''sanitizer:sql'' 2, decorated ''render_html'' ''sink:html'' 3]))\<lparr>cx_taint := True\<rparr>"

definition inline_page :: node where
  "inline_page = sample_module ''page'' [StCall (sample_call ''render_html'' (call_expr ''escape_sql'') 5)]"

definition local_page :: node where
  "local_page = sample_module ''page''
     [sample_assignment ''y'' (call_expr ''escape_sql'') 5, StCall (sample_call ''render_html'' (name_expr ''y'') 6)]"

definition raw_page :: node where
  "raw_page = sample_module ''page''
     [sample_assignment ''y'' (call_expr ''body'') 5, StCall (sample_call ''render_html'' (name_expr ''y'') 6)]"

section \<open>Properties\<close>

text \<open>
  C1: a tainted local reaches a sink only with a report. When an assignment gives a name the
  taint \<open>t\<close> and its value went through no sanitizer, the name is not assigned again, and a
  later call in the same owner passes it to a sink for a matching context, the module gets an
  error at the line of that call, whatever else happens before, between and after.
\<close>

theorem tainted_local_is_reported:
  assumes "cx_callables cx n = Some callables" "table = taint_table cx n callables"
    and "taint_events n = before @ TaintAssignment a # between @ TaintCall c # after"
    and "st = fold (taint_step n table (owner_for_line (owner_line_ranges n) (owner_line_markers n))) before empty_taint_state"
    and "t \<in> assigned_taint table st a" "sanitized_taint table st a = {}"
    and "list_all (\<lambda>e. \<not> assigns (as_owner_name a) (as_name a) e) between"
    and "owner_for_line (owner_line_ranges n) (owner_line_markers n) (cl_line c) = as_owner_name a"
    and "e \<in> set (cl_arg_values c)" "plain_name (as_name a) e"
    and "contexts_of TaintSink (table (None, cl_callee c)) = Some required"
    and "r \<in> required" "taint_context_matches t r"
  shows "taint_sink_diagnostic n (cl_callee c) (cl_line c) \<in> set (taint_source_sink_diagnostics cx n)"
proof -
  let ?step = "taint_step n table (owner_for_line (owner_line_ranges n) (owner_line_markers n))"
  let ?st = "fold ?step between (?step (TaintAssignment a) st)"
  have "tt_locals ?st (as_owner_name a, as_name a) = Some (assigned_taint table st a)"
    unfolding taint_fold_keeps [OF assms(7)] using assms(5,6)
    by (auto simp: taint_step_def Let_def assign_taint_def)
  then have "argument_is_unsanitized_source table (tt_locals ?st) (as_owner_name a) required e"
    using plain_name_taint assms(5,10,12,13) by metis
  then have "taint_sink_diagnostic n (cl_callee c) (cl_line c) \<in> set (tt_diagnostics (?step (TaintCall c) ?st))"
    using assms(8,9,11) by (auto simp: taint_step_def report_tainted_def list_ex_iff)
  then have "taint_sink_diagnostic n (cl_callee c) (cl_line c) \<in>
      set (tt_diagnostics (fold ?step after (?step (TaintCall c) ?st)))"
    using taint_fold_grows by blast
  then show ?thesis
    unfolding taint_source_sink_diagnostics_def using assms(1-4) by simp
qed

theorem tainted_local_is_reported_witness:
  "taint_sink_diagnostic raw_page ''render_html'' 6 \<in> set (taint_source_sink_diagnostics page_context raw_page)"
proof -
  let ?callables = "[decorated ''body'' ''source:html'' 1, decorated ''escape_sql'' ''sanitizer:sql'' 2,
      decorated ''render_html'' ''sink:html'' 3]"
  let ?table = "taint_table page_context raw_page ?callables"
  let ?a = "hd (si_assignments (mn_sites raw_page))"
  let ?c = "hd (si_calls (mn_sites raw_page))"
  have "cl_callee ?c = ''render_html''" "cl_line ?c = 6" by code_simp+
  moreover have "taint_sink_diagnostic raw_page (cl_callee ?c) (cl_line ?c) \<in>
      set (taint_source_sink_diagnostics page_context raw_page)"
  proof (rule tainted_local_is_reported)
    show "cx_callables page_context raw_page = Some ?callables" by code_simp
    show "taint_events raw_page = [] @ TaintAssignment ?a # [] @ TaintCall ?c # []" by code_simp
    show "empty_taint_state = fold (taint_step raw_page ?table (owner_for_line (owner_line_ranges raw_page)
        (owner_line_markers raw_page))) [] empty_taint_state" by simp
    show "Some ''html'' \<in> assigned_taint ?table empty_taint_state ?a"
      "sanitized_taint ?table empty_taint_state ?a = {}" by code_simp+
    show "owner_for_line (owner_line_ranges raw_page) (owner_line_markers raw_page) (cl_line ?c) = as_owner_name ?a"
      by code_simp
    show "name_expr ''y'' \<in> set (cl_arg_values ?c)" "plain_name (as_name ?a) (name_expr ''y'')" by code_simp+
    show "contexts_of TaintSink (?table (None, cl_callee ?c)) = Some {Some ''html''}" by code_simp
    show "Some ''html'' \<in> {Some ''html''}" "taint_context_matches (Some ''html'') (Some ''html'')"
      by (simp_all add: taint_context_matches_def)
  qed simp_all
  ultimately show ?thesis by simp
qed

text \<open>
  A sanitizer for another context clears a local. Passing the result of a \<^verbatim>\<open>sql\<close>
  sanitizer to an \<^verbatim>\<open>html\<close> sink is an error when it is passed directly, and not when
  it is assigned to a name first; the unsanitized source is reported through the name too.
\<close>

lemma partial_sanitizer_clears_local:
  "length (effect_capability_diagnostics page_context inline_page True) = 1 \<and>
   effect_capability_diagnostics page_context local_page True = [] \<and>
   length (effect_capability_diagnostics page_context raw_page True) = 1"
  by code_simp

end
