(* ===== verification/Narrowing.thy ===== *)
theory Narrowing
  imports Assignability Effect_Rows Type_Assign
begin

text \<open>
  Narrowing (crates/typepython_checking, type_system/flow.rs, with
  \<^verbatim>\<open>resolve_function_provider_with_node\<close> of calls/callable_resolution.rs): what the guards
  of \<^verbatim>\<open>if\<close> and \<^verbatim>\<open>assert\<close> say about the type of a name at a line, and
  which assignments and deletions between make them void. The test of a branch against a type is
  the fuelled relation of the theory Assignability, so a narrowed type is an option.
\<close>

section \<open>Keeping and removing branches\<close>

definition is_name :: "string \<Rightarrow> semantic_type \<Rightarrow> bool" where
  "is_name name t \<longleftrightarrow> strip_annotated t = SName name"

text \<open>\<^verbatim>\<open>types.iter().any(|ty| semantic_type_matches(node, nodes, ty, branch))\<close>.\<close>

definition matches_any ::
    "nat \<Rightarrow> node list \<Rightarrow> node \<Rightarrow> semantic_type list \<Rightarrow> semantic_type \<Rightarrow> bool option" where
  "matches_any fuel nodes n types branch =
     any_opt (\<lambda>ty. type_matches fuel default_options nodes n {} ty branch) types"

definition narrow_to_instance ::
    "nat \<Rightarrow> node list \<Rightarrow> node \<Rightarrow> semantic_type \<Rightarrow> semantic_type list \<Rightarrow> semantic_type option" where
  "narrow_to_instance fuel nodes n base types =
     (case semantic_union_branches base of
        None \<Rightarrow> Some (join_semantic_type_candidates types)
      | Some branches \<Rightarrow>
          map_option (\<lambda>kept. join_semantic_type_candidates (if kept = [] then types else kept))
            (filter_opt (matches_any fuel nodes n types) branches))"

definition remove_instance ::
    "nat \<Rightarrow> node list \<Rightarrow> node \<Rightarrow> semantic_type \<Rightarrow> semantic_type list \<Rightarrow> semantic_type option" where
  "remove_instance fuel nodes n base types =
     (case semantic_union_branches base of
        None \<Rightarrow> Some base
      | Some branches \<Rightarrow>
          map_option (\<lambda>kept. if kept = [] then base else join_semantic_type_candidates kept)
            (filter_opt (\<lambda>b. map_option Not (matches_any fuel nodes n types b)) branches))"

definition remove_none_semantic_branch :: "semantic_type \<Rightarrow> semantic_type option" where
  "remove_none_semantic_branch base =
     (case semantic_union_branches base of
        None \<Rightarrow> None
      | Some branches \<Rightarrow>
          (let kept = filter (\<lambda>b. \<not> is_name ''None'' b) branches
           in if kept = [] then None else Some (join_semantic_type_candidates kept)))"

definition semantic_literal_bool_value :: "semantic_type \<Rightarrow> bool option" where
  "semantic_literal_bool_value ty =
     (case semantic_generic_parts ty of
        Some (head, [arg]) \<Rightarrow>
          (if head \<noteq> ''Literal'' then None
           else if is_name ''True'' arg then Some True
           else if is_name ''False'' arg then Some False
           else None)
      | _ \<Rightarrow> None)"

definition FALSIFIABLE_NAMES :: "string list" where
  "FALSIFIABLE_NAMES =
     [''bytes'', ''str'', ''int'', ''float'', ''complex'', ''list'', ''dict'', ''set'', ''tuple'']"

definition semantic_is_definitely_truthy_branch :: "semantic_type \<Rightarrow> bool" where
  "semantic_is_definitely_truthy_branch b \<longleftrightarrow>
     semantic_literal_bool_value b = Some True \<or>
     \<not> (semantic_literal_bool_value b = Some False \<or> is_name ''None'' b \<or> is_name ''bool'' b) \<and>
     (case strip_annotated b of SName name \<Rightarrow> name \<notin> set FALSIFIABLE_NAMES | _ \<Rightarrow> True)"

definition apply_truthy_semantic_narrowing :: "semantic_type \<Rightarrow> bool \<Rightarrow> semantic_type" where
  "apply_truthy_semantic_narrowing base branch_true =
     (case semantic_literal_bool_value base of
        Some v \<Rightarrow>
          (if branch_true = v then base
           else SGeneric ''Literal'' [SName (if \<not> v then ''True'' else ''False'')])
      | None \<Rightarrow>
          if is_name ''bool'' base then base
          else (case semantic_union_branches base of
                  None \<Rightarrow> base
                | Some branches \<Rightarrow>
                    (let non_none = filter (\<lambda>b. \<not> is_name ''None'' b) branches
                     in if list_ex (is_name ''None'') branches \<and>
                           list_all semantic_is_definitely_truthy_branch non_none
                        then (if branch_true then join_semantic_type_candidates non_none
                              else SName ''None'')
                        else base)))"

section \<open>Predicate calls\<close>

definition resolve_function_provider ::
    "node list \<Rightarrow> node \<Rightarrow> string \<Rightarrow> (node \<times> bound_declaration) option" where
  "resolve_function_provider nodes n name =
     (case find_of_kind DFunction n name of
        Some d \<Rightarrow> Some (n, d)
      | None \<Rightarrow>
          (let in_module = (\<lambda>key symbol.
                 Option.bind (find_module nodes key) (\<lambda>m. map_option (Pair m) (find_of_kind DFunction m symbol)));
               imported = Option.bind (resolve_imported_target n nodes name) function_provider
           in case rsplit_once CHR ''.'' name of
                None \<Rightarrow> imported
              | Some (module_path, symbol) \<Rightarrow>
                  (case in_module module_path symbol of
                     Some found \<Rightarrow> Some found
                   | None \<Rightarrow>
                       (case split_once CHR ''.'' module_path of
                          None \<Rightarrow> imported
                        | Some (head, tail) \<Rightarrow>
                            (case Option.bind (resolve_imported_target n nodes head) module_target of
                               None \<Rightarrow> imported
                             | Some m \<Rightarrow>
                                 (case in_module (mn_key m @ ''.'' @ tail) symbol of
                                    Some found \<Rightarrow> Some found
                                  | None \<Rightarrow> imported))))))"

text \<open>
  The context adds a switch. The source facts are those of the theory Effect_Rows: for
  providers \<open>cx_providers\<close> answers \<open>None\<close> when framework adapters are off.
\<close>

record narrowing_context =
  nc_source :: effect_context
  nc_validator_witnesses :: bool

definition validator_decorators_for_function ::
    "narrowing_context \<Rightarrow> node \<Rightarrow> bound_declaration \<Rightarrow> string list" where
  "validator_decorators_for_function cx n d =
     (case cx_callables (nc_source cx) n of
        None \<Rightarrow> []
      | Some callables \<Rightarrow>
          (case List.find (\<lambda>s. dcs_owner_type_name s = None \<and> dcs_name s = d_name d) callables of
             Some s \<Rightarrow> dcs_decorators s | None \<Rightarrow> []))"

definition validator_witness_provider_names :: "narrowing_context \<Rightarrow> node \<Rightarrow> string set" where
  "validator_witness_provider_names cx n =
     (case cx_providers (nc_source cx) n of
        None \<Rightarrow> {}
      | Some providers \<Rightarrow>
          set (map fw_name (filter (\<lambda>p. fw_provider_kind p = Some FunctionDecorator \<and>
                 ValidatorWitness \<in> set (fw_capabilities p)) providers)))"

definition validator_trust_marker :: "string \<Rightarrow> bool" where
  "validator_trust_marker marker \<longleftrightarrow> marker \<in> {''trusted'', ''generated''}"

text \<open>The target and the trust of a decorator text.\<close>

definition validator_decorator_metadata :: "string \<Rightarrow> (string \<times> string) option" where
  "validator_decorator_metadata decorator =
     (case split_once CHR '':'' decorator of
        None \<Rightarrow> None
      | Some (_, rest) \<Rightarrow>
          (case rsplit_once CHR '':'' rest of
             None \<Rightarrow> None
           | Some (target, trust) \<Rightarrow>
               if trim target \<noteq> [] \<and> validator_trust_marker (trim trust)
               then Some (trim target, trim trust) else None))"

definition generated_validator_witness_type ::
    "narrowing_context \<Rightarrow> node \<Rightarrow> bound_declaration \<Rightarrow> semantic_type \<Rightarrow> semantic_type option" where
  "generated_validator_witness_type cx n d returns =
     (if \<not> is_name ''bool'' returns then None
      else (case List.map_filter validator_decorator_metadata (validator_decorators_for_function cx n d) of
              [] \<Rightarrow> None
            | (target, _) # _ \<Rightarrow> Some (lower_type_text_or_name target)))"

definition validator_witness_trusted_by_boundary_metadata ::
    "narrowing_context \<Rightarrow> node \<Rightarrow> bound_declaration \<Rightarrow> bool" where
  "validator_witness_trusted_by_boundary_metadata cx n d \<longleftrightarrow>
     list_ex (\<lambda>decorator.
         (case split_once CHR '':'' decorator of Some (name, _) \<Rightarrow> name | None \<Rightarrow> decorator)
           \<in> validator_witness_provider_names cx n)
       (validator_decorators_for_function cx n d)"

definition validator_witness_trust_marker :: "semantic_type \<Rightarrow> bool" where
  "validator_witness_trust_marker marker \<longleftrightarrow>
     (case strip_annotated marker of
        SGeneric head [arg] \<Rightarrow>
          head = ''Literal'' \<and>
          render_semantic_type arg \<in> {CHR 0x22 # ''trusted'' @ [CHR 0x22], CHR 0x22 # ''generated'' @ [CHR 0x22]}
      | _ \<Rightarrow> False)"

definition validator_witness_return_is_trusted :: "semantic_type list \<Rightarrow> bool" where
  "validator_witness_return_is_trusted args \<longleftrightarrow>
     length args > 1 \<and> validator_witness_trust_marker (args ! 1)"

datatype guard_kind = KTypeGuard | KTypeIs | KValidatorWitness

definition parse_guard_return_kind ::
    "narrowing_context \<Rightarrow> node list \<Rightarrow> node \<Rightarrow> string \<Rightarrow> (guard_kind \<times> semantic_type \<times> bool) option" where
  "parse_guard_return_kind cx nodes n callee =
     (case resolve_function_provider nodes n callee of
        None \<Rightarrow> None
      | Some (function_node, d) \<Rightarrow>
          (case declaration_signature_return_semantic_type d of
             None \<Rightarrow> None
           | Some returns \<Rightarrow>
               (case (if nc_validator_witnesses cx
                      then generated_validator_witness_type cx function_node d returns else None) of
                  Some guarded \<Rightarrow> Some (KValidatorWitness, guarded, True)
                | None \<Rightarrow>
                    (case strip_annotated returns of
                       SGeneric head args \<Rightarrow>
                         (if head = ''TypeGuard'' \<and> length args = 1 then Some (KTypeGuard, hd args, True)
                          else if head = ''TypeIs'' \<and> length args = 1 then Some (KTypeIs, hd args, True)
                          else if nc_validator_witnesses cx \<and> head = ''ValidatorWitness'' \<and>
                                  length args \<in> {1, 2}
                          then Some (KValidatorWitness, hd args,
                                 validator_witness_return_is_trusted args \<or>
                                 validator_witness_trusted_by_boundary_metadata cx function_node d)
                          else None)
                     | _ \<Rightarrow> None))))"

definition apply_predicate_guard ::
    "nat \<Rightarrow> narrowing_context \<Rightarrow> node list \<Rightarrow> node \<Rightarrow> semantic_type \<Rightarrow> string \<Rightarrow> bool \<Rightarrow> semantic_type option" where
  "apply_predicate_guard fuel cx nodes n base callee branch_true =
     (case parse_guard_return_kind cx nodes n callee of
        None \<Rightarrow> Some base
      | Some (kind, guarded, trusted) \<Rightarrow>
          if kind \<noteq> KValidatorWitness \<and> branch_true then narrow_to_instance fuel nodes n base [guarded]
          else if kind = KValidatorWitness \<and> branch_true \<and> nc_validator_witnesses cx \<and> trusted \<and>
                  is_name ''unknown'' base then Some guarded
          else if kind = KTypeIs \<and> \<not> branch_true then remove_instance fuel nodes n base [guarded]
          else Some base)"

section \<open>Guards\<close>

text \<open>
  \<open>guard_chain\<close> is the fold over the parts; \<open>guard_join\<close> gives each part the type that is left
  after the parts before it went the other way, and collects what it leaves.
\<close>

fun apply_guard ::
    "nat \<Rightarrow> narrowing_context \<Rightarrow> node list \<Rightarrow> node \<Rightarrow> string \<Rightarrow> semantic_type \<Rightarrow>
     guard_condition_site \<Rightarrow> bool \<Rightarrow> semantic_type option"
  and guard_chain ::
    "nat \<Rightarrow> narrowing_context \<Rightarrow> node list \<Rightarrow> node \<Rightarrow> string \<Rightarrow> semantic_type \<Rightarrow>
     guard_condition_site list \<Rightarrow> bool \<Rightarrow> semantic_type option"
  and guard_join ::
    "nat \<Rightarrow> narrowing_context \<Rightarrow> node list \<Rightarrow> node \<Rightarrow> string \<Rightarrow> semantic_type list \<Rightarrow> semantic_type \<Rightarrow>
     guard_condition_site list \<Rightarrow> bool \<Rightarrow> semantic_type option" where
  "apply_guard fuel cx nodes n x base (GSIsNone name negated) branch_true =
     (if name \<noteq> x then Some base
      else if branch_true \<noteq> negated then Some (SName ''None'')
      else Some (case remove_none_semantic_branch base of Some t \<Rightarrow> t | None \<Rightarrow> base))"
| "apply_guard fuel cx nodes n x base (GSIsInstance name types) branch_true =
     (if name \<noteq> x then Some base
      else if branch_true then narrow_to_instance fuel nodes n base (map lower_type_text_or_name types)
      else remove_instance fuel nodes n base (map lower_type_text_or_name types))"
| "apply_guard fuel cx nodes n x base (GSPredicateCall name callee) branch_true =
     (if name \<noteq> x then Some base else apply_predicate_guard fuel cx nodes n base callee branch_true)"
| "apply_guard fuel cx nodes n x base (GSTruthyName name) branch_true =
     (if name \<noteq> x then Some base else Some (apply_truthy_semantic_narrowing base branch_true))"
| "apply_guard fuel cx nodes n x base (GSNot inner) branch_true =
     apply_guard fuel cx nodes n x base inner (\<not> branch_true)"
| "apply_guard fuel cx nodes n x base (GSAnd parts) branch_true =
     (if branch_true then guard_chain fuel cx nodes n x base parts True
      else guard_join fuel cx nodes n x [] base parts False)"
| "apply_guard fuel cx nodes n x base (GSOr parts) branch_true =
     (if branch_true then guard_join fuel cx nodes n x [] base parts True
      else guard_chain fuel cx nodes n x base parts False)"
| "guard_chain fuel cx nodes n x current [] branch_true = Some current"
| "guard_chain fuel cx nodes n x current (part # parts) branch_true =
     (case apply_guard fuel cx nodes n x current part branch_true of
        None \<Rightarrow> None | Some t \<Rightarrow> guard_chain fuel cx nodes n x t parts branch_true)"
| "guard_join fuel cx nodes n x joined current [] branch_true =
     Some (join_semantic_type_candidates joined)"
| "guard_join fuel cx nodes n x joined current (part # parts) branch_true =
     (case apply_guard fuel cx nodes n x current part branch_true of
        None \<Rightarrow> None
      | Some t \<Rightarrow>
          (case apply_guard fuel cx nodes n x current part (\<not> branch_true) of
             None \<Rightarrow> None
           | Some other \<Rightarrow> guard_join fuel cx nodes n x (joined @ [t]) other parts branch_true))"

section \<open>Reassignment\<close>

definition directly_reassigned_after_line ::
    "node \<Rightarrow> string option \<Rightarrow> string option \<Rightarrow> string \<Rightarrow> nat \<Rightarrow> nat \<Rightarrow> bool" where
  "directly_reassigned_after_line n owner owner_type name after current \<longleftrightarrow>
     list_ex (\<lambda>a. as_name a = name \<and> as_owner_name a = owner \<and> as_owner_type_name a = owner_type \<and>
                  after < as_line a \<and> as_line a < current) (si_assignments (mn_sites n)) \<or>
     list_ex (\<lambda>i. name \<in> set (iv_names i) \<and> iv_owner_name i = owner \<and>
                  iv_owner_type_name i = owner_type \<and> after < iv_line i \<and> iv_line i < current)
       (si_invalidations (mn_sites n))"

text \<open>
  The names that are assigned the value of the name, or of such a name, with the line where
  they are first. \<^verbatim>\<open>tracked\<close> holds them and the name itself.
\<close>

definition alias_step ::
    "string \<Rightarrow> assignment_site \<Rightarrow> (string \<times> nat) list \<Rightarrow> (string \<times> nat) list" where
  "alias_step name a aliases =
     (case de_name (as_parts a) of
        None \<Rightarrow> aliases
      | Some source \<Rightarrow>
          if (source = name \<or> bt_get aliases source \<noteq> None) \<and> as_name a \<noteq> name
          then bt_insert_if_absent (as_name a) (as_line a) aliases else aliases)"

definition aliases_after_line ::
    "node \<Rightarrow> string option \<Rightarrow> string option \<Rightarrow> string \<Rightarrow> nat \<Rightarrow> nat \<Rightarrow> (string \<times> nat) list" where
  "aliases_after_line n owner owner_type name after current =
     fold (alias_step name)
       (sort_key as_line
          (filter (\<lambda>a. as_owner_name a = owner \<and> as_owner_type_name a = owner_type \<and>
                       after < as_line a \<and> as_line a < current) (si_assignments (mn_sites n)))) []"

definition name_reassigned_after_line ::
    "node \<Rightarrow> string option \<Rightarrow> string option \<Rightarrow> string \<Rightarrow> nat \<Rightarrow> nat \<Rightarrow> bool" where
  "name_reassigned_after_line n owner owner_type name after current \<longleftrightarrow>
     directly_reassigned_after_line n owner owner_type name after current \<or>
     list_ex (\<lambda>(alias, line). directly_reassigned_after_line n owner owner_type alias line current)
       (aliases_after_line n owner owner_type name after current)"

definition latest_delete_invalidation_line ::
    "node \<Rightarrow> string option \<Rightarrow> string option \<Rightarrow> nat \<Rightarrow> string \<Rightarrow> nat option" where
  "latest_delete_invalidation_line n owner owner_type current name =
     map_option iv_line
       (List.find (\<lambda>i. iv_kind i = DeleteName \<and> name \<in> set (iv_names i) \<and> iv_owner_name i = owner \<and>
                       iv_owner_type_name i = owner_type \<and> iv_line i < current)
          (rev (si_invalidations (mn_sites n))))"

definition latest_assignment_in_range ::
    "node \<Rightarrow> string option \<Rightarrow> string option \<Rightarrow> string \<Rightarrow> nat \<Rightarrow> nat \<Rightarrow> assignment_site option" where
  "latest_assignment_in_range n owner owner_type name start stop =
     List.find (\<lambda>a. as_name a = name \<and> as_owner_name a = owner \<and> as_owner_type_name a = owner_type \<and>
                    start \<le> as_line a \<and> as_line a \<le> stop)
       (rev (si_assignments (mn_sites n)))"

section \<open>The guards in force at a line\<close>

definition branch_has_return ::
    "node \<Rightarrow> string option \<Rightarrow> string option \<Rightarrow> nat \<Rightarrow> nat \<Rightarrow> bool" where
  "branch_has_return n owner owner_type start stop \<longleftrightarrow>
     list_ex (\<lambda>r. rt_owner_name r = (case owner of Some o' \<Rightarrow> o' | None \<Rightarrow> []) \<and>
                  rt_owner_type_name r = owner_type \<and> start \<le> rt_line r \<and> rt_line r \<le> stop)
       (si_returns (mn_sites n))"

definition site_applies ::
    "node \<Rightarrow> string option \<Rightarrow> string option \<Rightarrow> nat \<Rightarrow> string \<Rightarrow>
     string option \<Rightarrow> string option \<Rightarrow> nat \<Rightarrow> bool" where
  "site_applies n owner owner_type current name site_owner site_owner_type line \<longleftrightarrow>
     site_owner = owner \<and> site_owner_type = owner_type \<and> line < current \<and>
     \<not> name_reassigned_after_line n owner owner_type name line current"

text \<open>Guards with their lines and the outcome that holds at the line.\<close>

type_synonym line_guard = "nat \<times> bool \<times> guard_condition_site"

definition if_guards_at ::
    "node \<Rightarrow> string option \<Rightarrow> string option \<Rightarrow> nat \<Rightarrow> string \<Rightarrow> line_guard list" where
  "if_guards_at n owner owner_type current name =
     sort_key fst (List.map_filter (\<lambda>g.
       (if \<not> site_applies n owner owner_type current name (if_owner_name g) (if_owner_type_name g) (if_line g)
        then None
        else (case (if if_true_start_line g \<le> current \<and> current \<le> if_true_end_line g then Some True
                    else (case (if_false_start_line g, if_false_end_line g) of
                            (Some start, Some stop) \<Rightarrow>
                              if start \<le> current \<and> current \<le> stop then Some False else None
                          | _ \<Rightarrow> None)) of
                None \<Rightarrow> None
              | Some outcome \<Rightarrow> map_option (\<lambda>c. (if_line g, outcome, c)) (if_guard g))))
       (si_if_guards (mn_sites n)))"

definition post_if_guards_at ::
    "node \<Rightarrow> string option \<Rightarrow> string option \<Rightarrow> nat \<Rightarrow> string \<Rightarrow> line_guard list" where
  "post_if_guards_at n owner owner_type current name =
     sort_key fst (List.map_filter (\<lambda>g.
       (if \<not> (site_applies n owner owner_type current name (if_owner_name g) (if_owner_type_name g) (if_line g) \<and>
              (case if_false_end_line g of Some l \<Rightarrow> l | None \<Rightarrow> if_true_end_line g) < current)
        then None
        else (let true_terminal =
                    branch_has_return n owner owner_type (if_true_start_line g) (if_true_end_line g);
                  false_terminal =
                    (case (if_false_start_line g, if_false_end_line g) of
                       (Some start, Some stop) \<Rightarrow> branch_has_return n owner owner_type start stop
                     | _ \<Rightarrow> False)
              in case (if true_terminal \<and> \<not> false_terminal then Some False
                       else if \<not> true_terminal \<and> false_terminal \<and> if_false_start_line g \<noteq> None then Some True
                       else None) of
                   None \<Rightarrow> None
                 | Some outcome \<Rightarrow> map_option (\<lambda>c. (if_line g, outcome, c)) (if_guard g))))
       (si_if_guards (mn_sites n)))"

definition asserts_at ::
    "node \<Rightarrow> string option \<Rightarrow> string option \<Rightarrow> nat \<Rightarrow> string \<Rightarrow> line_guard list" where
  "asserts_at n owner owner_type current name =
     sort_key fst (List.map_filter (\<lambda>g.
       (if site_applies n owner owner_type current name (at_owner_name g) (at_owner_type_name g) (at_line g)
        then map_option (\<lambda>c. (at_line g, True, c)) (at_guard g) else None))
       (si_asserts (mn_sites n)))"

fun apply_guards ::
    "nat \<Rightarrow> narrowing_context \<Rightarrow> node list \<Rightarrow> node \<Rightarrow> string \<Rightarrow> line_guard list \<Rightarrow> semantic_type \<Rightarrow>
     semantic_type option" where
  "apply_guards fuel cx nodes n x [] base = Some base"
| "apply_guards fuel cx nodes n x ((_, outcome, guard) # rest) base =
     (case apply_guard fuel cx nodes n x base guard outcome of
        None \<Rightarrow> None | Some t \<Rightarrow> apply_guards fuel cx nodes n x rest t)"

definition apply_guard_narrowing ::
    "nat \<Rightarrow> narrowing_context \<Rightarrow> node list \<Rightarrow> node \<Rightarrow> string option \<Rightarrow> string option \<Rightarrow> nat \<Rightarrow> string \<Rightarrow>
     semantic_type \<Rightarrow> semantic_type option" where
  "apply_guard_narrowing fuel cx nodes n owner owner_type current x base =
     apply_guards fuel cx nodes n x
       (if_guards_at n owner owner_type current x @ post_if_guards_at n owner owner_type current x @
        asserts_at n owner owner_type current x) base"

text \<open>\<^verbatim>\<open>validator_witness_trust_boundary_note\<close>: the note of the first guard that gets one.\<close>

definition witness_note ::
    "narrowing_context \<Rightarrow> node list \<Rightarrow> node \<Rightarrow> string option \<Rightarrow> string option \<Rightarrow> nat \<Rightarrow> string \<Rightarrow>
     guard_condition_site if_site \<Rightarrow> string option" where
  "witness_note cx nodes n owner owner_type current x g =
     (case if_guard g of
        Some (GSPredicateCall name callee) \<Rightarrow>
          (if name \<noteq> x then None
           else (case parse_guard_return_kind cx nodes n callee of
                   Some (KValidatorWitness, _, trusted) \<Rightarrow>
                     (if \<not> trusted
                      then Some (''validator witness `'' @ callee @
                             ''` crossed an untrusted boundary; add explicit Literal['' @
                             [CHR 0x22] @ ''trusted'' @ [CHR 0x22] @ '']/Literal['' @ [CHR 0x22] @ ''generated'' @
                             [CHR 0x22] @
                             ''] metadata or adapter validator_witness capability before using `'' @ x @
                             ''` as narrowed'')
                      else if name_reassigned_after_line n owner owner_type x (if_line g) current
                      then Some (''validator witness `'' @ callee @
                             ''` was invalidated by assignment or mutation of `'' @ x @ ''` after validation'')
                      else None)
                 | _ \<Rightarrow> None))
      | _ \<Rightarrow> None)"

definition validator_witness_trust_boundary_note ::
    "narrowing_context \<Rightarrow> node list \<Rightarrow> node \<Rightarrow> string option \<Rightarrow> string option \<Rightarrow> nat \<Rightarrow> string \<Rightarrow>
     string option" where
  "validator_witness_trust_boundary_note cx nodes n owner owner_type current x =
     (if \<not> nc_validator_witnesses cx then None
      else (case List.map_filter (witness_note cx nodes n owner owner_type current x)
                   (filter (\<lambda>g. if_owner_name g = owner \<and> if_owner_type_name g = owner_type \<and>
                                if_line g < current) (si_if_guards (mn_sites n))) of
              [] \<Rightarrow> None | note # _ \<Rightarrow> Some note))"

section \<open>Exceptions, and unions of texts\<close>

definition normalize_exception_binding_type :: "string \<Rightarrow> string" where
  "normalize_exception_binding_type exception =
     (let t = trim exception
      in case Option.bind (strip_prefix ''('' t) (strip_suffix '')'') of
           Some inner \<Rightarrow>
             ''Union['' @ join_with '', '' (map normalize_type_text (split_top_level_type_args inner)) @ '']''
         | None \<Rightarrow> normalize_type_text t)"

definition resolve_exception_binding_semantic_type ::
    "node \<Rightarrow> string option \<Rightarrow> string option \<Rightarrow> nat \<Rightarrow> string \<Rightarrow> semantic_type option" where
  "resolve_exception_binding_semantic_type n owner owner_type current name =
     map_option (\<lambda>s. lower_type_text_or_name (normalize_exception_binding_type (eh_exception_type s)))
       (List.find (\<lambda>s. eh_binding_name s = Some name \<and> eh_owner_name s = owner \<and>
                       eh_owner_type_name s = owner_type \<and> eh_line s < current \<and> current \<le> eh_end_line s)
          (rev (si_except_handlers (mn_sites n))))"

definition join_union_branches :: "string list \<Rightarrow> string" where
  "join_union_branches branches =
     (if length branches = 1 then hd branches else ''Union['' @ join_with '', '' branches @ '']'')"

text \<open>The fuel is that of \<open>union_branches\<close>.\<close>

definition remove_none_branch :: "nat \<Rightarrow> string \<Rightarrow> string option option" where
  "remove_none_branch fuel base =
     map_option (\<lambda>found.
         (case found of
            None \<Rightarrow> None
          | Some branches \<Rightarrow>
              (let kept = filter (\<lambda>b. b \<noteq> ''None'') branches
               in if kept = [] then None else Some (join_union_branches kept))))
       (union_branches fuel (normalize_type_text base))"

fun collect_type_candidates :: "nat \<Rightarrow> string list \<Rightarrow> string list \<Rightarrow> string list option" where
  "collect_type_candidates fuel branches [] = Some branches"
| "collect_type_candidates fuel branches (candidate # rest) =
     (case union_branches fuel candidate of
        None \<Rightarrow> None
      | Some (Some bs) \<Rightarrow> collect_type_candidates fuel (foldl push_new branches bs) rest
      | Some None \<Rightarrow> collect_type_candidates fuel (push_new branches candidate) rest)"

definition join_type_candidates :: "nat \<Rightarrow> string list \<Rightarrow> string option" where
  "join_type_candidates fuel candidates =
     map_option join_union_branches (collect_type_candidates fuel [] candidates)"

definition join_branch_types :: "nat \<Rightarrow> string list \<Rightarrow> string option" where
  "join_branch_types fuel types =
     (if ''Any'' \<in> set types then Some ''Any'' else join_type_candidates fuel types)"

end
