(* ===== verification/Narrowing_Props.thy ===== *)
theory Narrowing_Props
  imports Narrowing
begin

text \<open>
  What narrowing promises: the value a name has at a line is of the narrowed type, when the
  guards in force there came out as the code assumes. Values are modelled by what the guards can
  ask of them.
\<close>

section \<open>Values\<close>

text \<open>
  An object is an instance of some types, and true or false as a condition. \<open>None\<close> and the two
  truth values are objects of their own; \<^verbatim>\<open>bool\<close> is a subclass of \<^verbatim>\<open>int\<close>.
\<close>

datatype py_value = PyNone | PyBool bool | PyObject "semantic_type list" bool

fun truthy :: "py_value \<Rightarrow> bool" where
  "truthy PyNone = False"
| "truthy (PyBool b) = b"
| "truthy (PyObject types b) = b"

definition instance_of :: "py_value \<Rightarrow> semantic_type \<Rightarrow> bool" where
  "instance_of v t = (case v of PyObject types _ \<Rightarrow> t \<in> set types | _ \<Rightarrow> False)"

fun has_type :: "py_value \<Rightarrow> semantic_type \<Rightarrow> bool" where
  "has_type v (SAnnotated t metadata) = has_type v t"
| "has_type v (SUnion branches) = list_ex (has_type v) branches"
| "has_type v (SGeneric head args) =
     (if head = ''Optional'' \<and> length args = 1 then list_ex (has_type v) args \<or> v = PyNone
      else case semantic_literal_bool_value (SGeneric head args) of
             Some b \<Rightarrow> v = PyBool b
           | None \<Rightarrow> instance_of v (SGeneric head args))"
| "has_type v (SName name) =
     (if name = ''Any'' then True
      else if name = ''None'' then v = PyNone
      else if name = ''bool'' then v \<in> {PyBool True, PyBool False}
      else instance_of v (SName name) \<or> name = ''int'' \<and> v \<in> {PyBool True, PyBool False})"
| "has_type v t = instance_of v t"

text \<open>A value that is false although the code takes one of its types for always true is not honest.\<close>

fun honest :: "py_value \<Rightarrow> bool" where
  "honest (PyObject types False) = list_all (\<lambda>t. \<not> semantic_is_definitely_truthy_branch t) types"
| "honest v = True"

text \<open>Python's evaluation of a guard; \<open>pred\<close> is what the predicate functions answer.\<close>

fun holds :: "(string \<Rightarrow> py_value) \<Rightarrow> (string \<Rightarrow> py_value \<Rightarrow> bool) \<Rightarrow> guard_condition_site \<Rightarrow> bool" where
  "holds \<sigma> pred (GSIsNone name negated) \<longleftrightarrow> (\<sigma> name = PyNone) \<noteq> negated"
| "holds \<sigma> pred (GSIsInstance name types) \<longleftrightarrow> list_ex (\<lambda>t. has_type (\<sigma> name) (lower_type_text_or_name t)) types"
| "holds \<sigma> pred (GSPredicateCall name callee) \<longleftrightarrow> pred callee (\<sigma> name)"
| "holds \<sigma> pred (GSTruthyName name) \<longleftrightarrow> truthy (\<sigma> name)"
| "holds \<sigma> pred (GSNot g) \<longleftrightarrow> \<not> holds \<sigma> pred g"
| "holds \<sigma> pred (GSAnd gs) \<longleftrightarrow> list_all (holds \<sigma> pred) gs"
| "holds \<sigma> pred (GSOr gs) \<longleftrightarrow> list_ex (holds \<sigma> pred) gs"

section \<open>Joined types\<close>

lemma has_type_strip: "has_type v (strip_annotated t) = has_type v t"
  by (induction t rule: strip_annotated.induct) simp_all

lemma has_type_branches:
  assumes "semantic_union_branches t = Some bs"
  shows "has_type v t \<longleftrightarrow> (\<exists>b\<in>set bs. has_type v b)"
proof -
  have "has_type v (strip_annotated t) \<longleftrightarrow> (\<exists>b\<in>set bs. has_type v b)"
    using assms by (auto simp: semantic_union_branches_def list_ex_iff length_Suc_conv
        split: semantic_type.splits if_splits)
  then show ?thesis by (simp only: has_type_strip)
qed

lemma has_type_flat: "has_type v t \<longleftrightarrow> (\<exists>b\<in>flat_branches t. has_type v b)"
  by (auto simp: flat_branches_def has_type_branches split: option.splits)

lemma join_shape:
  "\<exists>bs. set bs = \<Union> (flat_branches ` set cs) \<and>
     join_semantic_type_candidates cs = (if length bs = 1 then hd bs else SUnion bs)"
  using join_collects_branches [of cs] by blast

lemma has_type_join: "has_type v (join_semantic_type_candidates cs) \<longleftrightarrow> (\<exists>c\<in>set cs. has_type v c)"
proof -
  obtain bs where bs: "set bs = \<Union> (flat_branches ` set cs)"
    and j: "join_semantic_type_candidates cs = (if length bs = 1 then hd bs else SUnion bs)"
    using join_shape by blast
  have "has_type v (join_semantic_type_candidates cs) \<longleftrightarrow> (\<exists>b\<in>set bs. has_type v b)"
    unfolding j by (cases bs) (auto simp: list_ex_iff)
  also have "\<dots> \<longleftrightarrow> (\<exists>c\<in>set cs. has_type v c)"
    by (subst (2) has_type_flat) (auto simp: bs)
  finally show ?thesis .
qed

section \<open>Plain types\<close>

text \<open>
  The types and guards that the theorem below covers: branches that are classes, instances of
  generic classes, truth values or callables, no alias, no nested union and no \<^verbatim>\<open>Any\<close>; a test
  against one class; predicates that keep what their annotation says.
\<close>

definition no_alias :: "node list \<Rightarrow> node \<Rightarrow> string \<Rightarrow> bool" where
  "no_alias nodes n name \<longleftrightarrow> resolve_direct_type_alias nodes n name = None"

definition plain_branch :: "node list \<Rightarrow> node \<Rightarrow> semantic_type \<Rightarrow> bool" where
  "plain_branch nodes n b \<longleftrightarrow>
     (case strip_annotated b of
        SName name \<Rightarrow> name \<noteq> ''Any'' \<and> no_alias nodes n name
      | SGeneric head args \<Rightarrow>
          head \<notin> {''Optional'', ''Tainted''} \<and> no_alias nodes n head \<and>
          (head = ''Literal'' \<longrightarrow> args \<in> {[SName ''True''], [SName ''False'']})
      | SCallable _ _ \<Rightarrow> True
      | _ \<Rightarrow> False)"

definition plain_type :: "node list \<Rightarrow> node \<Rightarrow> semantic_type \<Rightarrow> bool" where
  "plain_type nodes n t \<longleftrightarrow> (\<forall>b\<in>flat_branches t. plain_branch nodes n b)"

definition plain_test :: "node list \<Rightarrow> node \<Rightarrow> semantic_type \<Rightarrow> bool" where
  "plain_test nodes n t \<longleftrightarrow>
     (case t of SName name \<Rightarrow> name \<noteq> ''Any'' \<and> no_alias nodes n name | _ \<Rightarrow> False)"

lemma plain_branch_no_union: "plain_branch nodes n b \<Longrightarrow> semantic_union_branches b = None"
  by (auto simp: plain_branch_def semantic_union_branches_def split: semantic_type.splits)

lemma plain_branch_flat: "plain_branch nodes n b \<Longrightarrow> flat_branches b = {b}"
  by (simp add: flat_branches_def plain_branch_no_union)

lemma plain_branch_type: "plain_branch nodes n b \<Longrightarrow> plain_type nodes n b"
  by (simp add: plain_type_def plain_branch_flat)

lemma plain_join:
  assumes "\<forall>c\<in>set cs. plain_type nodes n c"
  shows "plain_type nodes n (join_semantic_type_candidates cs)"
proof -
  obtain bs where bs: "set bs = \<Union> (flat_branches ` set cs)"
    and j: "join_semantic_type_candidates cs = (if length bs = 1 then hd bs else SUnion bs)"
    using join_shape by blast
  have all: "\<forall>b\<in>set bs. plain_branch nodes n b" using assms by (auto simp: bs plain_type_def)
  show ?thesis
  proof (cases "length bs = 1")
    case True
    then obtain b where "bs = [b]" by (auto simp: length_Suc_conv)
    then show ?thesis using all j by (simp add: plain_branch_type)
  next
    case False
    then show ?thesis using all unfolding j
      by (simp add: plain_type_def flat_branches_def semantic_union_branches_def)
  qed
qed

lemma plain_test_branch: "plain_test nodes n t \<Longrightarrow> plain_branch nodes n t"
  by (cases t) (simp_all add: plain_test_def plain_branch_def)

section \<open>Matching a plain test\<close>

lemma erase_plain_branch:
  assumes "plain_branch nodes n b" and "strip_annotated b = SGeneric head args"
  shows "\<exists>args'. erase_taint_qualifiers (SGeneric head args) = SGeneric head args'"
proof -
  from assms have "head \<noteq> ''Tainted''" by (simp add: plain_branch_def)
  then show ?thesis by (auto split: list.splits)
qed

lemma plain_no_enum_owner:
  assumes "plain_branch nodes n b"
  shows "semantic_enum_member_owner_name (erase_taint_qualifiers (strip_annotated b)) = None"
proof (cases "strip_annotated b")
  case (SGeneric head args)
  show ?thesis
  proof (cases "head = ''Literal''")
    case True
    with assms SGeneric have "args = [SName ''True''] \<or> args = [SName ''False'']"
      by (simp add: plain_branch_def)
    then show ?thesis using SGeneric True
      by (auto simp: semantic_enum_member_owner_name_def rsplit_once_def)
  next
    case False
    obtain args' where "erase_taint_qualifiers (SGeneric head args) = SGeneric head args'"
      using erase_plain_branch [OF assms SGeneric] by blast
    moreover have "semantic_enum_member_owner_name (SGeneric head args') = None"
      using False by (simp add: semantic_enum_member_owner_name_def split: list.splits semantic_type.splits)
    ultimately show ?thesis using SGeneric by (simp only:)
  qed
qed (use assms in \<open>simp_all add: plain_branch_def semantic_enum_member_owner_name_def\<close>)

lemma expand_plain_branch:
  assumes "case strip_annotated t of
      SName m \<Rightarrow> no_alias nodes n m | SGeneric h _ \<Rightarrow> no_alias nodes n h | _ \<Rightarrow> True"
  shows "expand_alias_once (Suc fuel) nodes n t = Some None"
  using assms by (auto simp: no_alias_def split: semantic_type.splits)

lemma strip_annotated_idem [simp]: "strip_annotated (strip_annotated t) = strip_annotated t"
  by (induction t rule: strip_annotated.induct) simp_all

lemma erased_plain_branch:
  assumes "plain_branch nodes n b"
  defines "a \<equiv> erase_taint_qualifiers (strip_annotated b)"
  shows "expand_alias_once (Suc fuel) nodes n a = Some None" and "semantic_union_branches a = None"
    and "\<not> is_any a" and "a = SName m \<longleftrightarrow> is_name m b"
proof -
  have "expand_alias_once (Suc fuel) nodes n a = Some None \<and> semantic_union_branches a = None \<and>
    \<not> is_any a \<and> (a = SName m \<longleftrightarrow> is_name m b)"
  proof (cases "strip_annotated b")
    case (SGeneric head args)
    obtain args' where a: "a = SGeneric head args'"
      using erase_plain_branch [OF assms(1) SGeneric] SGeneric unfolding a_def by auto
    from assms(1) SGeneric have "no_alias nodes n head" "head \<noteq> ''Optional''"
      by (simp_all add: plain_branch_def)
    then show ?thesis using SGeneric
      by (simp add: a expand_plain_branch semantic_union_branches_def is_any_def is_name_def
          del: expand_alias_once.simps)
  qed (use assms(1) in \<open>simp_all add: a_def plain_branch_def expand_plain_branch semantic_union_branches_def
         is_any_def is_name_def del: expand_alias_once.simps\<close>)
  then show "expand_alias_once (Suc fuel) nodes n a = Some None" "semantic_union_branches a = None"
    "\<not> is_any a" "a = SName m \<longleftrightarrow> is_name m b" by blast+
qed

lemma match_plain:
  assumes t: "plain_test nodes n (SName m)" and b: "plain_branch nodes n b"
  shows "type_matches (Suc (Suc fuel)) default_options nodes n {} (SName m) b = Some (is_name m b)"
proof -
  let ?a = "erase_taint_qualifiers (strip_annotated b)"
  from t have m: "m \<noteq> ''Any''" "no_alias nodes n m" by (simp_all add: plain_test_def)
  have "match_step (expand_alias_once (Suc fuel) nodes n) call (SName m) ?a = Some False" for call
    using m by (simp add: match_step_def expand_plain_branch erased_plain_branch(1,2) [OF b]
        semantic_union_branches_def match_generic_def plain_no_enum_owner [OF b]
        semantic_generic_parts_def del: expand_alias_once.simps)
  moreover have "normalize_for_options default_options (SName m) = SName m"
    "normalize_for_options default_options b = ?a"
    by (simp_all add: normalize_for_options_def default_options_def)
  moreover have "\<not> is_any (SName m)" using m by (simp add: is_any_def)
  moreover have "SName m = ?a \<longleftrightarrow> is_name m b"
    using erased_plain_branch(4) [OF b, of m] by (metis (full_types))
  ultimately show ?thesis
    by (cases "is_name m b") (simp_all only: type_matches.simps(2) Let_def erased_plain_branch(3) [OF b] empty_iff if_False
        simp_thms split: if_split)
qed

section \<open>One guard\<close>

text \<open>A step is sound for a value when it keeps the value in a type that stays plain.\<close>

definition sound_step ::
    "node list \<Rightarrow> node \<Rightarrow> (py_value \<Rightarrow> bool) \<Rightarrow> semantic_type option \<Rightarrow> py_value \<Rightarrow> bool" where
  "sound_step nodes n before result v \<longleftrightarrow>
     (\<exists>t. result = Some t \<and> plain_type nodes n t \<and> (before v \<longrightarrow> has_type v t))"

lemma sound_stepI:
  "plain_type nodes n t \<Longrightarrow> (before v \<Longrightarrow> has_type v t) \<Longrightarrow> sound_step nodes n before (Some t) v"
  by (simp add: sound_step_def)

lemma plain_branches:
  "plain_type nodes n base \<Longrightarrow> semantic_union_branches base = Some bs \<Longrightarrow> \<forall>b\<in>set bs. plain_branch nodes n b"
  by (simp add: plain_type_def flat_branches_def)

lemma join_kept:
  assumes "plain_type nodes n base" and "semantic_union_branches base = Some bs" and "set kept \<subseteq> set bs"
  shows "plain_type nodes n (join_semantic_type_candidates kept)"
  using plain_branches [OF assms(1,2)] assms(3)
  by (intro plain_join ballI plain_branch_type) blast

lemma has_type_name: "is_name m b \<Longrightarrow> has_type v b = has_type v (SName m)"
  using has_type_strip [of v b] by (simp only: is_name_def)

lemma matches_plain_test:
  assumes "plain_test nodes n ty" and "plain_branch nodes n b" and "fuel \<ge> 2"
  shows "matches_any fuel nodes n [ty] b = Some (strip_annotated b = ty)"
proof -
  obtain m where ty: "ty = SName m" using assms(1) by (cases ty) (simp_all add: plain_test_def)
  obtain f where "fuel = Suc (Suc f)" using assms(3) by (metis Suc_le_D numeral_2_eq_2 Suc_le_mono)
  with match_plain [OF assms(1) [unfolded ty] assms(2), of f] show ?thesis
    by (simp add: ty matches_any_def is_name_def del: type_matches.simps)
qed

lemma narrow_to_instance_sound:
  assumes base: "plain_type nodes n base" and ty: "plain_test nodes n ty" and fuel: "fuel \<ge> 2"
    and pre: "before v \<Longrightarrow> has_type v ty"
  shows "sound_step nodes n before (narrow_to_instance fuel nodes n base [ty]) v"
proof -
  have only: "plain_type nodes n (join_semantic_type_candidates [ty])"
    by (intro plain_join) (simp add: plain_branch_type plain_test_branch [OF ty])
  show ?thesis
  proof (cases "semantic_union_branches base")
    case None
    then show ?thesis using only pre
      by (simp add: narrow_to_instance_def sound_step_def has_type_join)
  next
    case (Some bs)
    have kept: "filter_opt (matches_any fuel nodes n [ty]) bs =
        Some (filter (\<lambda>b. strip_annotated b = ty) bs)"
      using plain_branches [OF base Some] matches_plain_test [OF ty _ fuel] by (intro filter_opt_Some) blast
    have "has_type v b" if "before v" "strip_annotated b = ty" for b
      using pre [OF that(1)] has_type_strip [of v b] that(2) by simp
    then show ?thesis using only pre join_kept [OF base Some]
      by (auto simp: narrow_to_instance_def sound_step_def has_type_join Some kept filter_empty_conv)
  qed
qed

lemma remove_instance_sound:
  assumes base: "plain_type nodes n base" and ty: "plain_test nodes n ty" and fuel: "fuel \<ge> 2"
    and pre: "before v \<Longrightarrow> has_type v base \<and> \<not> has_type v ty"
  shows "sound_step nodes n before (remove_instance fuel nodes n base [ty]) v"
proof (cases "semantic_union_branches base")
  case None
  then show ?thesis using base pre by (simp add: remove_instance_def sound_step_def)
next
  case (Some bs)
  have "map_option Not (matches_any fuel nodes n [ty] b) = Some (strip_annotated b \<noteq> ty)"
    if "b \<in> set bs" for b
    using matches_plain_test [OF ty _ fuel, of b] plain_branches [OF base Some] that by simp
  then have kept: "filter_opt (\<lambda>b. map_option Not (matches_any fuel nodes n [ty] b)) bs =
      Some (filter (\<lambda>b. strip_annotated b \<noteq> ty) bs)"
    by (rule filter_opt_Some)
  have "\<exists>b\<in>set bs. has_type v b \<and> strip_annotated b \<noteq> ty" if "before v"
    using pre [OF that] has_type_branches [OF Some] has_type_strip by metis
  then show ?thesis using base pre join_kept [OF base Some]
    by (auto simp: remove_instance_def sound_step_def has_type_join Some kept filter_empty_conv)
qed

lemma has_type_None: "is_name ''None'' b \<Longrightarrow> has_type v b \<longleftrightarrow> v = PyNone"
  by (simp add: has_type_name)

lemma remove_none_sound:
  assumes base: "plain_type nodes n base" and pre: "before v \<Longrightarrow> has_type v base \<and> v \<noteq> PyNone"
  shows "sound_step nodes n before
    (Some (case remove_none_semantic_branch base of Some t \<Rightarrow> t | None \<Rightarrow> base)) v"
proof (cases "semantic_union_branches base")
  case None
  then show ?thesis using base pre by (simp add: remove_none_semantic_branch_def sound_step_def)
next
  case (Some bs)
  have "\<exists>b\<in>set bs. has_type v b \<and> \<not> is_name ''None'' b" if "before v"
    using pre [OF that] has_type_branches [OF Some] has_type_None by blast
  then show ?thesis using base pre join_kept [OF base Some]
    by (auto simp: remove_none_semantic_branch_def sound_step_def Some Let_def has_type_join)
qed

lemma literal_bool_type:
  assumes "semantic_literal_bool_value t = Some b"
  shows "has_type v t \<longleftrightarrow> v = PyBool b"
proof -
  obtain args where s: "strip_annotated t = SGeneric ''Literal'' args"
    using assms by (auto simp: semantic_literal_bool_value_def semantic_generic_parts_def
        split: semantic_type.splits list.splits if_splits)
  have "semantic_literal_bool_value (SGeneric ''Literal'' args) = Some b"
    using assms s by (simp add: semantic_literal_bool_value_def semantic_generic_parts_def)
  with s have "has_type v (strip_annotated t) \<longleftrightarrow> v = PyBool b" by simp
  then show ?thesis by (simp only: has_type_strip)
qed

text \<open>The branches of a plain type are honest about being always true.\<close>

lemma truthy_strip:
  "semantic_is_definitely_truthy_branch (strip_annotated b) = semantic_is_definitely_truthy_branch b"
  by (simp add: semantic_is_definitely_truthy_branch_def semantic_literal_bool_value_def
      semantic_generic_parts_def is_name_def)

lemma honest_instance:
  assumes "honest v" and "instance_of v t" and "semantic_is_definitely_truthy_branch t"
  shows "truthy v"
  using assms by (cases v rule: honest.cases) (auto simp: instance_of_def list_all_iff)

lemma truthy_branch:
  assumes b: "plain_branch nodes n b" and v: "has_type v b" "honest v"
    and always: "semantic_is_definitely_truthy_branch b"
  shows "truthy v"
proof -
  let ?s = "strip_annotated b"
  have v': "has_type v ?s" and s: "semantic_is_definitely_truthy_branch ?s"
    using v always by (simp_all only: has_type_strip truthy_strip)
  have inst: "truthy v" if "instance_of v ?s"
    using honest_instance [OF v(2) that s] .
  show ?thesis
  proof (cases ?s)
    case (SName name)
    have "name \<notin> {''Any'', ''None'', ''bool'', ''int''}"
      using b s SName by (simp add: plain_branch_def semantic_is_definitely_truthy_branch_def
          semantic_literal_bool_value_def semantic_generic_parts_def is_name_def FALSIFIABLE_NAMES_def)
    then show ?thesis using v' inst SName by simp
  next
    case (SGeneric head args)
    show ?thesis
    proof (cases "semantic_literal_bool_value ?s")
      case None
      then show ?thesis using v' inst SGeneric b by (simp add: plain_branch_def)
    next
      case (Some c)
      then have "v = PyBool c" using v' by (simp only: literal_bool_type)
      moreover have "c" using s Some
        unfolding semantic_is_definitely_truthy_branch_def by auto
      ultimately show ?thesis by simp
    qed
  qed (use b v' inst in \<open>simp_all add: plain_branch_def\<close>)
qed

lemma plain_bool: "no_alias nodes n ''Literal'' \<Longrightarrow>
    plain_type nodes n (SGeneric ''Literal'' [SName (if b then ''True'' else ''False'')])"
  by (rule plain_branch_type) (simp add: plain_branch_def)

lemma plain_none: "no_alias nodes n ''None'' \<Longrightarrow> plain_type nodes n (SName ''None'')"
  by (rule plain_branch_type) (simp add: plain_branch_def)

lemma truthy_union:
  assumes base: "plain_type nodes n base" and v: "honest v" and none: "no_alias nodes n ''None''"
    and bs: "semantic_union_branches base = Some bs"
    and always: "\<And>b. b \<in> set bs \<Longrightarrow> \<not> is_name ''None'' b \<Longrightarrow> semantic_is_definitely_truthy_branch b"
    and pre: "before v \<Longrightarrow> has_type v base \<and> truthy v = outcome"
  shows "sound_step nodes n before
    (Some (if outcome then join_semantic_type_candidates (filter (\<lambda>b. \<not> is_name ''None'' b) bs)
           else SName ''None'')) v"
proof -
  let ?rest = "filter (\<lambda>b. \<not> is_name ''None'' b) bs"
  have "(outcome \<longrightarrow> (\<exists>b\<in>set ?rest. has_type v b)) \<and> (\<not> outcome \<longrightarrow> v = PyNone)" if ok: "before v"
  proof -
    obtain b where b: "b \<in> set bs" "has_type v b"
      using pre [OF ok] has_type_branches [OF bs] by blast
    have "truthy v" if "\<not> is_name ''None'' b"
      using truthy_branch plain_branches [OF base bs] b v always [OF b(1) that] by blast
    then show ?thesis using b pre [OF ok] has_type_None [of b v] by auto
  qed
  then show ?thesis
    using join_kept [OF base bs, of ?rest] plain_none [OF none]
    by (auto simp: sound_step_def has_type_join)
qed

lemma truthy_narrowing_sound:
  assumes base: "plain_type nodes n base" and v: "honest v"
    and names: "no_alias nodes n ''Literal''" "no_alias nodes n ''None''"
    and pre: "before v \<Longrightarrow> has_type v base \<and> truthy v = outcome"
  shows "sound_step nodes n before (Some (apply_truthy_semantic_narrowing base outcome)) v"
proof -
  have same: ?thesis if "apply_truthy_semantic_narrowing base outcome = base"
    using that base pre by (simp add: sound_step_def)
  show ?thesis
  proof (cases "semantic_literal_bool_value base")
    case (Some b)
    show ?thesis
    proof (cases "outcome = b")
      case True
      with Some show ?thesis by (intro same) (simp add: apply_truthy_semantic_narrowing_def)
    next
      case False
      then have "\<not> before v" using pre literal_bool_type [OF Some, of v] by auto
      then show ?thesis
        using Some False plain_bool [OF names(1), of "\<not> b"]
        by (simp add: apply_truthy_semantic_narrowing_def sound_step_def)
    qed
  next
    case lit: None
    consider "is_name ''bool'' base \<or> semantic_union_branches base = None"
      | bs where "semantic_union_branches base = Some bs" "\<not> is_name ''bool'' base"
      by blast
    then show ?thesis
    proof cases
      case 1
      with lit show ?thesis by (intro same) (auto simp: apply_truthy_semantic_narrowing_def)
    next
      case 2
      show ?thesis
      proof (cases "list_ex (is_name ''None'') bs \<and>
          list_all semantic_is_definitely_truthy_branch (filter (\<lambda>b. \<not> is_name ''None'' b) bs)")
        case False
        with lit 2 show ?thesis
          by (intro same) (simp only: apply_truthy_semantic_narrowing_def Let_def option.case if_False)
      next
        case True
        then have "apply_truthy_semantic_narrowing base outcome =
            (if outcome then join_semantic_type_candidates (filter (\<lambda>b. \<not> is_name ''None'' b) bs)
             else SName ''None'')"
          using lit 2 by (simp only: apply_truthy_semantic_narrowing_def Let_def option.case
              if_False if_True simp_thms)
        with truthy_union [OF base v names(2) 2(1) _ pre] True show ?thesis
          by (simp add: list_all_iff)
      qed
    qed
  qed
qed

section \<open>All guards\<close>

definition plain_predicate ::
    "narrowing_context \<Rightarrow> node list \<Rightarrow> node \<Rightarrow> (string \<Rightarrow> py_value \<Rightarrow> bool) \<Rightarrow> string \<Rightarrow> bool" where
  "plain_predicate cx nodes n pred callee \<longleftrightarrow>
     (case parse_guard_return_kind cx nodes n callee of
        None \<Rightarrow> True
      | Some (kind, guarded, _) \<Rightarrow>
          plain_test nodes n guarded \<and> (\<forall>v. pred callee v \<longrightarrow> has_type v guarded) \<and>
          (kind = KTypeIs \<longrightarrow> (\<forall>v. has_type v guarded \<longrightarrow> pred callee v)))"

fun plain_guard ::
    "narrowing_context \<Rightarrow> node list \<Rightarrow> node \<Rightarrow> (string \<Rightarrow> py_value \<Rightarrow> bool) \<Rightarrow> string \<Rightarrow>
     guard_condition_site \<Rightarrow> bool" where
  "plain_guard cx nodes n pred x (GSIsInstance name types) \<longleftrightarrow>
     (name = x \<longrightarrow> length types = 1 \<and> list_all (\<lambda>t. plain_test nodes n (lower_type_text_or_name t)) types)"
| "plain_guard cx nodes n pred x (GSPredicateCall name callee) \<longleftrightarrow>
     (name = x \<longrightarrow> plain_predicate cx nodes n pred callee)"
| "plain_guard cx nodes n pred x (GSNot g) \<longleftrightarrow> plain_guard cx nodes n pred x g"
| "plain_guard cx nodes n pred x (GSAnd gs) \<longleftrightarrow> list_all (plain_guard cx nodes n pred x) gs"
| "plain_guard cx nodes n pred x (GSOr gs) \<longleftrightarrow> list_all (plain_guard cx nodes n pred x) gs"
| "plain_guard cx nodes n pred x g \<longleftrightarrow> True"

lemma predicate_sound:
  assumes base: "plain_type nodes n base" and p: "plain_predicate cx nodes n pred callee"
    and fuel: "fuel \<ge> 2" and pre: "before v \<Longrightarrow> has_type v base \<and> pred callee v = outcome"
  shows "sound_step nodes n before (apply_predicate_guard fuel cx nodes n base callee outcome) v"
proof (cases "parse_guard_return_kind cx nodes n callee")
  case None
  then show ?thesis using base pre by (simp add: apply_predicate_guard_def sound_step_def)
next
  case (Some result)
  obtain kind guarded trusted where r: "result = (kind, guarded, trusted)" by (cases result)
  have g: "plain_test nodes n guarded" "\<And>v. pred callee v \<Longrightarrow> has_type v guarded"
    "\<And>v. kind = KTypeIs \<Longrightarrow> has_type v guarded \<Longrightarrow> pred callee v"
    using p Some r by (auto simp: plain_predicate_def)
  have keep: "sound_step nodes n before (Some base) v" using base pre by (simp add: sound_step_def)
  have guarded: "sound_step nodes n before (Some guarded) v" if outcome
    using pre g(1,2) that by (simp add: sound_step_def plain_branch_type plain_test_branch)
  have to: "sound_step nodes n before (narrow_to_instance fuel nodes n base [guarded]) v" if outcome
    using narrow_to_instance_sound [where before = before, OF base g(1) fuel] pre g(2) that by blast
  have away: "sound_step nodes n before (remove_instance fuel nodes n base [guarded]) v"
    if "\<not> outcome" "kind = KTypeIs"
    using remove_instance_sound [where before = before, OF base g(1) fuel] pre g(3) that by blast
  show ?thesis
    using keep guarded to away by (auto simp: apply_predicate_guard_def Some r)
qed

definition narrowing_ok :: "nat \<Rightarrow> node list \<Rightarrow> node \<Rightarrow> py_value \<Rightarrow> bool" where
  "narrowing_ok fuel nodes n v \<longleftrightarrow>
     fuel \<ge> 2 \<and> honest v \<and> no_alias nodes n ''Literal'' \<and> no_alias nodes n ''None''"

lemma guard_sound:
  "narrowing_ok fuel nodes n (\<sigma> x) \<Longrightarrow> plain_guard cx nodes n pred x g \<Longrightarrow> plain_type nodes n base \<Longrightarrow>
   sound_step nodes n (\<lambda>v. has_type v base \<and> holds \<sigma> pred g = outcome)
     (apply_guard fuel cx nodes n x base g outcome) (\<sigma> x)"
  "narrowing_ok fuel nodes n (\<sigma> x) \<Longrightarrow> list_all (plain_guard cx nodes n pred x) gs \<Longrightarrow>
   plain_type nodes n base \<Longrightarrow>
   sound_step nodes n (\<lambda>v. has_type v base \<and> list_all (\<lambda>g. holds \<sigma> pred g = outcome) gs)
     (guard_chain fuel cx nodes n x base gs outcome) (\<sigma> x)"
  "narrowing_ok fuel nodes n (\<sigma> x) \<Longrightarrow> list_all (plain_guard cx nodes n pred x) gs \<Longrightarrow>
   plain_type nodes n base \<Longrightarrow> \<forall>t\<in>set joined. plain_type nodes n t \<Longrightarrow>
   sound_step nodes n
     (\<lambda>v. (\<exists>t\<in>set joined. has_type v t) \<or>
          has_type v base \<and> list_ex (\<lambda>g. holds \<sigma> pred g = outcome) gs)
     (guard_join fuel cx nodes n x joined base gs outcome) (\<sigma> x)"
proof (induction fuel cx nodes n x base g outcome and fuel cx nodes n x base gs outcome
    and fuel cx nodes n x joined base gs outcome rule: apply_guard_guard_chain_guard_join.induct)
  case (1 fuel cx nodes n x base name negated outcome)
  have "plain_type nodes n (SName ''None'')" using 1 plain_none by (simp add: narrowing_ok_def)
  then show ?case
    using 1 remove_none_sound [OF 1(3), of "\<lambda>v. has_type v base \<and> holds \<sigma> pred (GSIsNone x negated) = outcome" "\<sigma> x"]
    by (auto simp: sound_step_def)
next
  case (2 fuel cx nodes n x base name types outcome)
  show ?case
  proof (cases "name = x")
    case True
    then obtain ty where ty: "types = [ty]" "plain_test nodes n (lower_type_text_or_name ty)"
      using 2(2) by (auto simp: length_Suc_conv)
    have fuel: "fuel \<ge> 2" using 2(1) by (simp add: narrowing_ok_def)
    let ?before = "\<lambda>v. has_type v base \<and> has_type (\<sigma> x) (lower_type_text_or_name ty) = outcome"
    show ?thesis
      using narrow_to_instance_sound [OF 2(3) ty(2) fuel, of ?before "\<sigma> x"]
        remove_instance_sound [OF 2(3) ty(2) fuel, of ?before "\<sigma> x"] True ty(1)
      by (cases outcome) simp_all
  qed (use 2 in \<open>simp add: sound_step_def\<close>)
next
  case (3 fuel cx nodes n x base name callee outcome)
  then show ?case
    using predicate_sound [OF 3(3), of cx pred callee fuel
        "\<lambda>v. has_type v base \<and> pred callee (\<sigma> x) = outcome" "\<sigma> x" outcome]
    by (cases "name = x") (simp_all add: narrowing_ok_def sound_step_def)
next
  case (4 fuel cx nodes n x base name outcome)
  then show ?case
    using truthy_narrowing_sound [OF 4(3), of "\<sigma> x"
        "\<lambda>v. has_type v base \<and> truthy (\<sigma> x) = outcome" outcome]
    by (cases "name = x") (simp_all add: narrowing_ok_def sound_step_def)
next
  case (5 fuel cx nodes n x base inner outcome)
  then show ?case by (auto simp: sound_step_def)
next
  case (6 fuel cx nodes n x base parts outcome)
  then show ?case by (auto simp: sound_step_def list_all_iff list_ex_iff)
next
  case (7 fuel cx nodes n x base parts outcome)
  then show ?case by (auto simp: sound_step_def list_all_iff list_ex_iff)
next
  case (8 fuel cx nodes n x current outcome)
  then show ?case by (simp add: sound_step_def)
next
  case (9 fuel cx nodes n x current part parts outcome)
  then obtain t where t: "apply_guard fuel cx nodes n x current part outcome = Some t"
      "plain_type nodes n t" "has_type (\<sigma> x) current \<and> holds \<sigma> pred part = outcome \<longrightarrow> has_type (\<sigma> x) t"
    by (auto simp: sound_step_def)
  with 9 show ?case by (auto simp: sound_step_def)
next
  case (10 fuel cx nodes n x joined current outcome)
  then show ?case by (simp add: sound_step_def plain_join has_type_join)
next
  case (11 fuel cx nodes n x joined current part parts outcome)
  obtain t where t: "apply_guard fuel cx nodes n x current part outcome = Some t"
      "plain_type nodes n t" "has_type (\<sigma> x) current \<and> holds \<sigma> pred part = outcome \<longrightarrow> has_type (\<sigma> x) t"
    using 11 by (auto simp: sound_step_def)
  obtain r where r: "apply_guard fuel cx nodes n x current part (\<not> outcome) = Some r"
      "plain_type nodes n r" "has_type (\<sigma> x) current \<and> holds \<sigma> pred part = (\<not> outcome) \<longrightarrow> has_type (\<sigma> x) r"
    using 11 t(1) by (auto simp: sound_step_def)
  have rest: "sound_step nodes n
      (\<lambda>v. (\<exists>s\<in>set (joined @ [t]). has_type v s) \<or>
        has_type v r \<and> list_ex (\<lambda>g. holds \<sigma> pred g = outcome) parts)
      (guard_join fuel cx nodes n x (joined @ [t]) r parts outcome) (\<sigma> x)"
    using 11 t r by auto
  show ?case using rest t r by (auto simp: sound_step_def)
qed

section \<open>A line\<close>

lemma apply_guards_sound:
  assumes "narrowing_ok fuel nodes n (\<sigma> x)" and "plain_type nodes n base" and "has_type (\<sigma> x) base"
    and "list_all (\<lambda>(_, outcome, g). plain_guard cx nodes n pred x g \<and> holds \<sigma> pred g = outcome) gs"
  shows "\<exists>t. apply_guards fuel cx nodes n x gs base = Some t \<and> has_type (\<sigma> x) t"
  using assms(2-4)
proof (induction gs arbitrary: base)
  case Nil
  then show ?case by simp
next
  case (Cons entry gs)
  obtain line outcome g where e: "entry = (line, outcome, g)" by (cases entry)
  obtain t where "apply_guard fuel cx nodes n x base g outcome = Some t"
      "plain_type nodes n t" "has_type (\<sigma> x) t"
    using guard_sound(1) [where \<sigma> = \<sigma> and x = x and cx = cx and pred = pred and g = g and base = base
        and outcome = outcome, OF assms(1)] Cons.prems
    by (auto simp: e sound_step_def)
  with Cons show ?case by (simp add: e)
qed

definition guards_at ::
    "node \<Rightarrow> string option \<Rightarrow> string option \<Rightarrow> nat \<Rightarrow> string \<Rightarrow> line_guard list" where
  "guards_at n owner owner_type line x =
     if_guards_at n owner owner_type line x @ post_if_guards_at n owner owner_type line x @
     asserts_at n owner owner_type line x"

text \<open>
  C12: narrowing is sound. At a line of an owner take a name whose value is of its declared
  type, and let every guard that the code takes to be in force there (of the \<^verbatim>\<open>if\<close>
  statements around the line, of those before it one of whose branches returns, and of the
  asserts before it) have come out as the code assumes. Then the narrowed type exists, whatever
  the fuel above one, and the value is of it. The types and guards are plain: no alias, no
  \<^verbatim>\<open>Any\<close> and no union within a union among the branches, one class per
  \<^verbatim>\<open>isinstance\<close>, and predicates that keep the promise of their
  \<^verbatim>\<open>TypeGuard\<close> or \<^verbatim>\<open>TypeIs\<close>; and the value is honest about being
  true or false.
\<close>

theorem narrowing_sound:
  assumes "fuel \<ge> 2" and "no_alias nodes n ''Literal''" and "no_alias nodes n ''None''"
    and "plain_type nodes n base" and "honest (\<sigma> x)" and "has_type (\<sigma> x) base"
    and "list_all (\<lambda>(_, outcome, g). plain_guard cx nodes n pred x g \<and> holds \<sigma> pred g = outcome)
           (guards_at n owner owner_type line x)"
  shows "\<exists>t. apply_guard_narrowing fuel cx nodes n owner owner_type line x base = Some t \<and>
           has_type (\<sigma> x) t"
  using apply_guards_sound [of fuel nodes n \<sigma> x base cx pred "guards_at n owner owner_type line x"] assms
  by (simp add: apply_guard_narrowing_def guards_at_def narrowing_ok_def)

text \<open>A function with \<^verbatim>\<open>if\<close> statements, one return and asserts.\<close>

definition return_at :: "string \<Rightarrow> nat \<Rightarrow> return_site" where
  "return_at owner line =
     \<lparr>rt_owner_name = owner, rt_owner_type_name = None, rt_value = None, rt_parts = empty_expr,
      rt_if_guard = None, rt_line = line\<rparr>"

definition if_at :: "string \<Rightarrow> guard_condition_site \<Rightarrow> nat \<Rightarrow> nat \<Rightarrow> guard_condition_site if_site" where
  "if_at owner guard line stop =
     \<lparr>if_owner_name = Some owner, if_owner_type_name = None, if_guard = Some guard, if_line = line,
      if_true_start_line = line + 1, if_true_end_line = stop, if_false_start_line = None,
      if_false_end_line = None\<rparr>"

definition assert_at :: "string \<Rightarrow> guard_condition_site \<Rightarrow> nat \<Rightarrow> guard_condition_site assert_site" where
  "assert_at owner guard line =
     \<lparr>at_owner_name = Some owner, at_owner_type_name = None, at_guard = Some guard, at_line = line\<rparr>"

definition guarded_node ::
    "guard_condition_site if_site list \<Rightarrow> return_site \<Rightarrow> guard_condition_site assert_site list \<Rightarrow> node" where
  "guarded_node ifs r asserts =
     (plain_node ''app'' [])
       \<lparr>mn_sites := no_sites\<lparr>si_if_guards := ifs, si_returns := [r], si_asserts := asserts\<rparr>\<rparr>"

definition no_facts :: narrowing_context where
  "no_facts = \<lparr>nc_source = \<lparr>cx_nodes = [], cx_effect_rows = False, cx_taint = False,
       cx_callables = (\<lambda>n. None), cx_providers = (\<lambda>n. None), cx_call_contexts = (\<lambda>n. []),
       cx_nested_call_contexts = (\<lambda>n. []), cx_unsafe_ranges = (\<lambda>n. []), cx_unsafe_operations = (\<lambda>n. [])\<rparr>,
     nc_validator_witnesses = False\<rparr>"

definition dog_node :: node where
  "dog_node = guarded_node [if_at ''f'' (GSOr [GSIsNone ''x'' False, GSNot (GSTruthyName ''x'')]) 2 3]
     (return_at ''f'' 3) [assert_at ''f'' (GSIsInstance ''x'' [''Dog'']) 4]"

definition dog :: "semantic_type" where "dog = SName ''Dog''"

lemma dog_guards:
  "guards_at dog_node (Some ''f'') None 5 ''x'' =
     [(2, False, GSOr [GSIsNone ''x'' False, GSNot (GSTruthyName ''x'')]),
      (4, True, GSIsInstance ''x'' [''Dog''])]"
  by code_simp

lemma dog_names:
  "no_alias [dog_node] dog_node ''Literal''" "no_alias [dog_node] dog_node ''None''"
  "no_alias [dog_node] dog_node ''Dog''" "lower_type_text_or_name ''Dog'' = SName ''Dog''"
  by code_simp+

lemma narrowing_sound_witness:
  "\<exists>t. apply_guard_narrowing 2 no_facts [dog_node] dog_node (Some ''f'') None 5 ''x''
         (SGeneric ''Optional'' [dog]) = Some t \<and> has_type (PyObject [dog] True) t"
proof (rule narrowing_sound [where \<sigma> = "\<lambda>_. PyObject [dog] True" and pred = "\<lambda>_ _. False"])
  show "list_all (\<lambda>(_, outcome, g). plain_guard no_facts [dog_node] dog_node (\<lambda>_ _. False) ''x'' g \<and>
          holds (\<lambda>_. PyObject [dog] True) (\<lambda>_ _. False) g = outcome)
        (guards_at dog_node (Some ''f'') None 5 ''x'')"
    by (simp add: dog_guards dog_names plain_test_def dog_def instance_of_def)
  show "plain_type [dog_node] dog_node (SGeneric ''Optional'' [dog])"
    by (simp add: plain_type_def flat_branches_def semantic_union_branches_def plain_branch_def
        dog_names dog_def)
  show "has_type (PyObject [dog] True) (SGeneric ''Optional'' [dog])"
    by (simp add: dog_def instance_of_def)
qed (simp_all add: dog_names)

section \<open>What narrowing keeps\<close>

text \<open>A branch that a test against these classes takes: one that names a class, or \<^verbatim>\<open>Any\<close>.\<close>

definition taken :: "semantic_type list \<Rightarrow> semantic_type \<Rightarrow> bool" where
  "taken types b \<longleftrightarrow> is_name ''Any'' b \<or> strip_annotated b \<in> set types"

definition testable :: "nat \<Rightarrow> node list \<Rightarrow> node \<Rightarrow> semantic_type list \<Rightarrow> semantic_type list \<Rightarrow> bool" where
  "testable fuel nodes n bs types \<longleftrightarrow>
     fuel \<ge> 2 \<and> types \<noteq> [] \<and> (\<forall>ty\<in>set types. plain_test nodes n ty) \<and>
     (\<forall>b\<in>set bs. plain_branch nodes n b \<or> is_name ''Any'' b)"

lemma match_any:
  assumes "is_name ''Any'' b" and "fuel \<ge> 2"
  shows "type_matches fuel default_options nodes n {} ty b = Some True"
proof -
  obtain f where f: "fuel = Suc f" using assms(2) by (cases fuel) simp_all
  have "strip_annotated b = SName ''Any''" using assms(1) by (simp add: is_name_def)
  then have "is_any (normalize_for_options default_options b)"
    by (simp add: normalize_for_options_def default_options_def is_any_def)
  then show ?thesis by (simp add: f Let_def)
qed

lemma matches_taken:
  assumes t: "testable fuel nodes n bs types" and b: "b \<in> set bs"
  shows "matches_any fuel nodes n types b = Some (taken types b)"
proof -
  have fuel: "fuel \<ge> 2" and types: "types \<noteq> []"
    and plain: "\<And>ty. ty \<in> set types \<Longrightarrow> plain_test nodes n ty"
    and branch: "plain_branch nodes n b \<or> is_name ''Any'' b"
    using t b by (auto simp: testable_def)
  have "type_matches fuel default_options nodes n {} ty b =
      Some (is_name ''Any'' b \<or> strip_annotated b = ty)" if ty: "ty \<in> set types" for ty
  proof (cases "is_name ''Any'' b")
    case True
    then show ?thesis by (simp only: match_any [OF True fuel] simp_thms)
  next
    case False
    with matches_plain_test [OF plain [OF ty] _ fuel, of b] branch show ?thesis
      by (auto simp: matches_any_def split: option.splits if_splits)
  qed
  then have "matches_any fuel nodes n types b =
      Some (\<exists>ty\<in>set types. is_name ''Any'' b \<or> strip_annotated b = ty)"
    unfolding matches_any_def by (rule any_opt_Some)
  moreover have "(\<exists>ty\<in>set types. is_name ''Any'' b \<or> strip_annotated b = ty) = taken types b"
    using types by (cases types) (auto simp: taken_def)
  ultimately show ?thesis by simp
qed

lemma narrow_to_instance_exact:
  assumes t: "testable fuel nodes n bs types" and bs: "semantic_union_branches base = Some bs"
  shows "\<exists>t. narrow_to_instance fuel nodes n base types = Some t \<and>
    (has_type v t \<longleftrightarrow> (if \<exists>b\<in>set bs. taken types b then \<exists>b\<in>set bs. taken types b \<and> has_type v b
                     else \<exists>ty\<in>set types. has_type v ty))"
proof -
  have "filter_opt (matches_any fuel nodes n types) bs = Some (filter (taken types) bs)"
    using matches_taken [OF t] by (rule filter_opt_Some)
  then show ?thesis
    by (auto simp: narrow_to_instance_def bs has_type_join filter_empty_conv)
qed

lemma remove_instance_exact:
  assumes t: "testable fuel nodes n bs types" and bs: "semantic_union_branches base = Some bs"
  shows "\<exists>t. remove_instance fuel nodes n base types = Some t \<and>
    (has_type v t \<longleftrightarrow> (if \<exists>b\<in>set bs. \<not> taken types b then \<exists>b\<in>set bs. \<not> taken types b \<and> has_type v b
                     else has_type v base))"
proof -
  have "filter_opt (\<lambda>b. map_option Not (matches_any fuel nodes n types b)) bs =
      Some (filter (\<lambda>b. \<not> taken types b) bs)"
    using matches_taken [OF t] by (intro filter_opt_Some) simp
  then show ?thesis
    by (auto simp: remove_instance_def bs has_type_join filter_empty_conv)
qed

lemma union_is_no_name: "semantic_union_branches t = Some bs \<Longrightarrow> \<not> is_name m t"
  by (auto simp: semantic_union_branches_def is_name_def)

lemma union_is_no_literal:
  "semantic_union_branches t = Some bs \<Longrightarrow> semantic_literal_bool_value t = None"
  by (auto simp: semantic_union_branches_def semantic_literal_bool_value_def semantic_generic_parts_def
      split: semantic_type.splits if_splits list.splits)

text \<open>What the test of a name as a condition takes for \<^verbatim>\<open>None\<close>.\<close>

definition only_none_is_false :: "semantic_type list \<Rightarrow> bool" where
  "only_none_is_false bs \<longleftrightarrow>
     (\<exists>b\<in>set bs. is_name ''None'' b) \<and>
     (\<forall>b\<in>set bs. is_name ''None'' b \<or> semantic_is_definitely_truthy_branch b)"

lemma truthy_narrowing_exact:
  assumes bs: "semantic_union_branches base = Some bs" and v: "has_type v base"
  shows "has_type v (apply_truthy_semantic_narrowing base (truthy v)) \<longleftrightarrow>
    (only_none_is_false bs \<longrightarrow> truthy v \<or> v = PyNone)"
proof -
  let ?rest = "filter (\<lambda>b. \<not> is_name ''None'' b) bs"
  have t: "apply_truthy_semantic_narrowing base outcome =
      (if only_none_is_false bs then if outcome then join_semantic_type_candidates ?rest else SName ''None''
       else base)" for outcome
    by (auto simp: apply_truthy_semantic_narrowing_def only_none_is_false_def bs union_is_no_name [OF bs]
        union_is_no_literal [OF bs] Let_def list_ex_iff list_all_iff)
  obtain b where b: "b \<in> set bs" "has_type v b" using v has_type_branches [OF bs] by blast
  have "\<exists>b\<in>set ?rest. has_type v b" if "truthy v"
    using that b has_type_None [of b v] by auto
  then show ?thesis using v by (auto simp: t has_type_join)
qed

text \<open>
  C25: which values narrowing keeps and which it loses. A name with a value of its declared type,
  a union with these branches, is tested, and the narrowed type is that of the branch in which
  the test came out. (1) When the name is tested as a condition, its value is lost just when it
  is false, is not \<^verbatim>\<open>None\<close>, and the code holds \<^verbatim>\<open>None\<close> for the
  only false value of the union: every other branch is one it counts as always true, and nested
  unions and generic containers are among those. So a zero of
  \<^verbatim>\<open>Optional[int | str]\<close> and the empty list of
  \<^verbatim>\<open>Optional[list[int]]\<close> are lost. (2) When it is tested against classes, the
  branches that name one of them and those that are \<^verbatim>\<open>Any\<close> are taken. A value
  that passes is kept just when it is of a taken branch, or when there is none; a value that
  fails just when it is of another branch, or when all are taken. So an object that passes
  \<^verbatim>\<open>isinstance(x, (int, Dog))\<close> as a \<^verbatim>\<open>Dog\<close> is lost from
  \<^verbatim>\<open>int | Animal\<close>, and so is what only \<^verbatim>\<open>Any\<close> allowed when
  the test fails. The classes have no alias, and the branches are plain or
  \<^verbatim>\<open>Any\<close>.
\<close>

theorem narrowing_loses_values:
  assumes "semantic_union_branches base = Some bs" and "has_type (\<sigma> x) base"
  shows "(\<exists>t. apply_guard fuel cx nodes n x base (GSTruthyName x) (holds \<sigma> pred (GSTruthyName x)) = Some t \<and>
            (has_type (\<sigma> x) t \<longleftrightarrow> \<not> (only_none_is_false bs \<and> \<not> truthy (\<sigma> x) \<and> \<sigma> x \<noteq> PyNone))) \<and>
         (testable fuel nodes n bs (map lower_type_text_or_name classes) \<longrightarrow>
          (\<exists>t. apply_guard fuel cx nodes n x base (GSIsInstance x classes)
                 (holds \<sigma> pred (GSIsInstance x classes)) = Some t \<and>
            (has_type (\<sigma> x) t \<longleftrightarrow>
              (let picked = (\<lambda>b. taken (map lower_type_text_or_name classes) b =
                               holds \<sigma> pred (GSIsInstance x classes))
               in (\<exists>b\<in>set bs. picked b \<and> has_type (\<sigma> x) b) \<or> (\<forall>b\<in>set bs. \<not> picked b)))))"
  (is "?condition \<and> ?tested")
proof
  show ?condition using truthy_narrowing_exact [OF assms] by auto
  show ?tested
  proof
    assume t: "testable fuel nodes n bs (map lower_type_text_or_name classes)"
    let ?passes = "holds \<sigma> pred (GSIsInstance x classes)"
    have passes: "?passes \<longleftrightarrow> (\<exists>ty\<in>set (map lower_type_text_or_name classes). has_type (\<sigma> x) ty)"
      by (simp add: list_ex_iff)
    show "\<exists>t. apply_guard fuel cx nodes n x base (GSIsInstance x classes) ?passes = Some t \<and>
            (has_type (\<sigma> x) t \<longleftrightarrow>
              (let picked = (\<lambda>b. taken (map lower_type_text_or_name classes) b = ?passes)
               in (\<exists>b\<in>set bs. picked b \<and> has_type (\<sigma> x) b) \<or> (\<forall>b\<in>set bs. \<not> picked b)))"
    proof (cases ?passes)
      case True
      obtain r where "narrow_to_instance fuel nodes n base (map lower_type_text_or_name classes) = Some r"
        "has_type (\<sigma> x) r \<longleftrightarrow>
          (if \<exists>b\<in>set bs. taken (map lower_type_text_or_name classes) b
           then \<exists>b\<in>set bs. taken (map lower_type_text_or_name classes) b \<and> has_type (\<sigma> x) b
           else \<exists>ty\<in>set (map lower_type_text_or_name classes). has_type (\<sigma> x) ty)"
        using narrow_to_instance_exact [OF t assms(1), of "\<sigma> x"] by blast
      with True passes show ?thesis by (auto simp: Let_def)
    next
      case False
      obtain r where "remove_instance fuel nodes n base (map lower_type_text_or_name classes) = Some r"
        "has_type (\<sigma> x) r \<longleftrightarrow>
          (if \<exists>b\<in>set bs. \<not> taken (map lower_type_text_or_name classes) b
           then \<exists>b\<in>set bs. \<not> taken (map lower_type_text_or_name classes) b \<and> has_type (\<sigma> x) b
           else has_type (\<sigma> x) base)"
        using remove_instance_exact [OF t assms(1), of "\<sigma> x"] by blast
      with False assms(2) show ?thesis by (auto simp: Let_def)
    qed
  qed
qed

definition rover :: py_value where "rover = PyObject [dog, SName ''Animal''] True"

lemma lost_samples:
  "semantic_union_branches (lower_type_text_or_name ''Optional[int | str]'') =
     Some [SUnion [SName ''int'', SName ''str''], SName ''None'']"
  "only_none_is_false [SUnion [SName ''int'', SName ''str''], SName ''None'']"
  "has_type (PyObject [SName ''int''] False) (lower_type_text_or_name ''Optional[int | str]'')"
  "testable 2 [dog_node] dog_node [SName ''int'', SName ''Animal'']
     (map lower_type_text_or_name [''int'', ''Dog''])"
  "holds (\<lambda>_. rover) (\<lambda>_ _. False) (GSIsInstance ''x'' [''int'', ''Dog''])"
  "\<not> has_type rover (SName ''int'')"
  "taken (map lower_type_text_or_name [''int'', ''Dog'']) (SName ''int'')"
  "\<not> taken (map lower_type_text_or_name [''int'', ''Dog'']) (SName ''Animal'')"
  by code_simp+

lemma narrowing_loses_values_witness:
  "(\<exists>t. apply_guard 3 no_facts [] dog_node ''x'' (lower_type_text_or_name ''Optional[int | str]'')
         (GSTruthyName ''x'') False = Some t \<and> \<not> has_type (PyObject [SName ''int''] False) t) \<and>
   (\<exists>t. apply_guard 2 no_facts [dog_node] dog_node ''x'' (SUnion [SName ''int'', SName ''Animal''])
         (GSIsInstance ''x'' [''int'', ''Dog'']) True = Some t \<and> \<not> has_type rover t)"
proof
  show "\<exists>t. apply_guard 3 no_facts [] dog_node ''x'' (lower_type_text_or_name ''Optional[int | str]'')
         (GSTruthyName ''x'') False = Some t \<and> \<not> has_type (PyObject [SName ''int''] False) t"
    using narrowing_loses_values [where \<sigma> = "\<lambda>_. PyObject [SName ''int''] False" and x = "''x''"
        and fuel = 3 and cx = no_facts and nodes = "[]" and n = dog_node and pred = "\<lambda>_ _. False",
        OF lost_samples(1,3)] lost_samples(2)
    by simp
  have typed: "has_type rover (SUnion [SName ''int'', SName ''Animal''])" by code_simp
  have branches: "semantic_union_branches (SUnion [SName ''int'', SName ''Animal'']) =
      Some [SName ''int'', SName ''Animal'']" by code_simp
  have "\<exists>t. apply_guard 2 no_facts [dog_node] dog_node ''x''
        (SUnion [SName ''int'', SName ''Animal'']) (GSIsInstance ''x'' [''int'', ''Dog'']) True = Some t \<and>
      (has_type rover t \<longleftrightarrow>
        (let picked = (\<lambda>b. taken (map lower_type_text_or_name [''int'', ''Dog'']) b = True)
         in (\<exists>b\<in>set [SName ''int'', SName ''Animal'']. picked b \<and> has_type rover b) \<or>
            (\<forall>b\<in>set [SName ''int'', SName ''Animal'']. \<not> picked b)))"
    by (rule narrowing_loses_values [where \<sigma> = "\<lambda>_. rover" and x = "''x''" and fuel = 2 and cx = no_facts
        and nodes = "[dog_node]" and n = dog_node and pred = "\<lambda>_ _. False"
        and classes = "[''int'', ''Dog'']", THEN conjunct2, THEN mp, OF branches typed lost_samples(4),
        unfolded eqTrueI [OF lost_samples(5)]])
  then show "\<exists>t. apply_guard 2 no_facts [dog_node] dog_node ''x'' (SUnion [SName ''int'', SName ''Animal''])
         (GSIsInstance ''x'' [''int'', ''Dog'']) True = Some t \<and> \<not> has_type rover t"
    using lost_samples(6-8)
    by (elim exE conjE, intro exI conjI)
      (assumption, simp only: Let_def list.set ball_simps bex_simps simp_thms)
qed

text \<open>
  What the theorem of \<^verbatim>\<open>isinstance\<close> says of an \<^verbatim>\<open>Any\<close> branch, and
  what a conditional return does: after \<^verbatim>\<open>if x is None:\<close> with a return under a
  further condition, \<^verbatim>\<open>x\<close> is no longer \<^verbatim>\<open>None\<close>, although it may be.
\<close>

lemma lost_values_sample:
  "(let base = SUnion [SName ''Any'', SName ''str'', SName ''int'']; real = PyObject [SName ''float''] True;
        test = GSIsInstance ''x'' [''int'']
    in apply_guard 3 no_facts [] dog_node ''x'' base test False = Some (SName ''str'') \<and>
      has_type real base \<and> \<not> holds (\<lambda>_. real) (\<lambda>_ _. False) test \<and> \<not> has_type real (SName ''str'')) \<and>
   (let n = guarded_node [if_at ''f'' (GSIsNone ''x'' False) 2 4, if_at ''f'' (GSTruthyName ''flag'') 3 4] (return_at ''f'' 4) []
    in apply_guard_narrowing 3 no_facts [n] n (Some ''f'') None 6 ''x'' (SGeneric ''Optional'' [dog]) =
        Some dog \<and>
      has_type PyNone (SGeneric ''Optional'' [dog]) \<and> \<not> has_type PyNone dog)"
  by (intro conjI; code_simp)

end
