(* ===== verification/Member_Types.thy ===== *)
theory Member_Types
  imports Assignability
begin

text \<open>
  Members with their types (crates/typepython_checking, type_system/expressions.rs and
  type_system/members.rs, \<^verbatim>\<open>is_descriptor_type\<close> of calls/dataclass.rs and
  \<^verbatim>\<open>resolve_scope_owner_declaration\<close> of type_system/contextual.rs): the search that
  carries the type arguments along the bases, the type of a readable member and of a method's
  result on an owner type, parameters in scope, and the types that loops and awaits unwrap. An
  outer \<open>None\<close> is a search out of fuel or the panic of \<open>owner_generic_substitutions\<close>.
\<close>

section \<open>Resolved members\<close>

record resolved_member =
  rm_declaration :: bound_declaration
  rm_declaring :: class_ref
  rm_declaring_type :: semantic_type

definition specialized_class_type :: "semantic_type \<Rightarrow> bound_declaration \<Rightarrow> semantic_type" where
  "specialized_class_type owner_type d =
     (case strip_annotated owner_type of
        SGeneric _ args \<Rightarrow> SGeneric (d_name d) args | _ \<Rightarrow> SName (d_name d))"

definition specialized_class_base_type ::
    "bound_declaration \<Rightarrow> semantic_type \<Rightarrow> string \<Rightarrow> semantic_type option" where
  "specialized_class_base_type d declaring_type rendered_base =
     map_option (\<lambda>s. substitute s (lower_type_text_or_name rendered_base))
       (owner_generic_substitutions declaring_type d)"

text \<open>The base a rendered text leads to, with its type.\<close>

definition typed_base ::
    "node list \<Rightarrow> class_ref \<Rightarrow> semantic_type \<Rightarrow> string \<Rightarrow> (class_ref \<times> semantic_type) option option" where
  "typed_base nodes c declaring_type base =
     map_option (\<lambda>base_type.
         Option.bind (semantic_nominal_owner_name base_type) (\<lambda>name.
           map_option (\<lambda>b. (b, base_type)) (resolve_direct_base nodes (fst c) name)))
       (specialized_class_base_type (snd c) declaring_type base)"

text \<open>
  The two searches for a member: \<open>local\<close> is what a class itself has, with its type.
\<close>

primrec typed_member_search ::
    "nat \<Rightarrow> node list \<Rightarrow> (class_ref \<Rightarrow> semantic_type \<Rightarrow> 'r option) \<Rightarrow> class_ref \<times> semantic_type \<Rightarrow>
     (string \<times> string) set \<Rightarrow> ('r option \<times> (string \<times> string) set) option" where
  "typed_member_search 0 nodes local c visited = None"
| "typed_member_search (Suc fuel) nodes local c visited =
     (if class_key (fst c) \<in> visited then Some (None, visited)
      else (let declaring_type = specialized_class_type (snd c) (snd (fst c));
                visited' = insert (class_key (fst c)) visited
            in case local (fst c) declaring_type of
                 Some r \<Rightarrow> Some (Some r, visited')
               | None \<Rightarrow>
                   first_with
                     (\<lambda>base visited.
                        case typed_base nodes (fst c) declaring_type base of
                          None \<Rightarrow> None
                        | Some None \<Rightarrow> Some (None, visited)
                        | Some (Some b) \<Rightarrow> typed_member_search fuel nodes local b visited)
                     (rendered_class_bases (snd (fst c))) visited'))"

definition find_resolved_member_declaration ::
    "node list \<Rightarrow> class_ref \<Rightarrow> semantic_type \<Rightarrow> string \<Rightarrow> (bound_declaration \<Rightarrow> bool) \<Rightarrow>
     resolved_member option option" where
  "find_resolved_member_declaration nodes c owner_type member_name accepts =
     map_option fst (typed_member_search (class_fuel nodes) nodes
       (\<lambda>c t. map_option (\<lambda>d. \<lparr>rm_declaration = d, rm_declaring = c, rm_declaring_type = t\<rparr>)
                (local_member member_name accepts c))
       (c, owner_type) {})"

definition find_member_declaration ::
    "node list \<Rightarrow> class_ref \<Rightarrow> string \<Rightarrow> (bound_declaration \<Rightarrow> bool) \<Rightarrow> bound_declaration option option" where
  "find_member_declaration nodes c member_name accepts =
     map_option (map_option rm_declaration)
       (find_resolved_member_declaration nodes c (SName (d_name (snd c))) member_name accepts)"

definition is_callable_declaration :: "bound_declaration \<Rightarrow> bool" where
  "is_callable_declaration d \<longleftrightarrow> d_kind d \<in> {DFunction, DOverload}"

definition is_readable_declaration :: "bound_declaration \<Rightarrow> bool" where
  "is_readable_declaration d \<longleftrightarrow>
     d_kind d = DValue \<or> d_kind d = DFunction \<and> d_method_kind d = Some PropertyMethod"

definition find_owned_value_declaration ::
    "node list \<Rightarrow> class_ref \<Rightarrow> string \<Rightarrow> bound_declaration option option" where
  "find_owned_value_declaration nodes c name = find_member_declaration nodes c name (\<lambda>d. d_kind d = DValue)"

definition find_owned_readable_member_declaration ::
    "node list \<Rightarrow> class_ref \<Rightarrow> string \<Rightarrow> bound_declaration option option" where
  "find_owned_readable_member_declaration nodes c name =
     find_member_declaration nodes c name is_readable_declaration"

definition find_resolved_readable_member_declaration ::
    "node list \<Rightarrow> class_ref \<Rightarrow> semantic_type \<Rightarrow> string \<Rightarrow> resolved_member option option" where
  "find_resolved_readable_member_declaration nodes c owner_type name =
     find_resolved_member_declaration nodes c owner_type name is_readable_declaration"

definition find_owned_callable_declaration ::
    "node list \<Rightarrow> class_ref \<Rightarrow> string \<Rightarrow> bound_declaration option option" where
  "find_owned_callable_declaration nodes c name = find_member_declaration nodes c name is_callable_declaration"

text \<open>All overloads of the first class that has the method.\<close>

definition local_callables :: "string \<Rightarrow> class_ref \<Rightarrow> semantic_type \<Rightarrow> resolved_member list option" where
  "local_callables member_name c t =
     (let local = filter (\<lambda>d. (case d_owner d of Some w \<Rightarrow> do_name w = d_name (snd c) | None \<Rightarrow> False) \<and>
                              d_name d = member_name \<and> is_callable_declaration d) (mn_declarations (fst c))
      in if local = [] then None
         else Some (map (\<lambda>d. \<lparr>rm_declaration = d, rm_declaring = c, rm_declaring_type = t\<rparr>) local))"

definition find_resolved_callable_declarations ::
    "node list \<Rightarrow> class_ref \<Rightarrow> semantic_type \<Rightarrow> string \<Rightarrow> resolved_member list option" where
  "find_resolved_callable_declarations nodes c owner_type member_name =
     map_option (\<lambda>(found, _). case found of Some ms \<Rightarrow> ms | None \<Rightarrow> [])
       (typed_member_search (class_fuel nodes) nodes (local_callables member_name) (c, owner_type) {})"

definition find_owned_callable_declarations ::
    "node list \<Rightarrow> class_ref \<Rightarrow> string \<Rightarrow> bound_declaration list option" where
  "find_owned_callable_declarations nodes c member_name =
     map_option (map rm_declaration)
       (find_resolved_callable_declarations nodes c (SName (d_name (snd c))) member_name)"

section \<open>Enumerations and descriptors\<close>

definition ENUM_BASES :: "string list" where
  "ENUM_BASES = [''Enum'', ''IntEnum'', ''StrEnum'', ''Flag'', ''IntFlag'', ''enum.Enum'', ''enum.IntEnum'',
     ''enum.StrEnum'', ''enum.Flag'', ''enum.IntFlag'']"

definition FLAG_BASES :: "string list" where
  "FLAG_BASES = [''Flag'', ''IntFlag'', ''enum.Flag'', ''enum.IntFlag'']"

text \<open>These searches keep no set of visited classes.\<close>

primrec has_base_among :: "string list \<Rightarrow> nat \<Rightarrow> node list \<Rightarrow> class_ref \<Rightarrow> bool option" where
  "has_base_among names 0 nodes c = None"
| "has_base_among names (Suc fuel) nodes c =
     any_opt (\<lambda>base.
         if base \<in> set names then Some True
         else (case resolve_direct_base nodes (fst c) base of
                 None \<Rightarrow> Some False
               | Some b \<Rightarrow> has_base_among names fuel nodes b))
       (rendered_class_bases (snd c))"

definition is_enum_like_class :: "nat \<Rightarrow> node list \<Rightarrow> class_ref \<Rightarrow> bool option" where
  "is_enum_like_class = has_base_among ENUM_BASES"

definition is_flag_enum_like_class :: "nat \<Rightarrow> node list \<Rightarrow> class_ref \<Rightarrow> bool option" where
  "is_flag_enum_like_class = has_base_among FLAG_BASES"

definition is_descriptor_type :: "node list \<Rightarrow> node \<Rightarrow> string \<Rightarrow> bool option" where
  "is_descriptor_type nodes n type_name =
     (let name = (case annotated_inner type_name of Some t \<Rightarrow> t | None \<Rightarrow> normalize_type_text type_name)
      in case resolve_direct_base nodes n name of
           None \<Rightarrow> Some False
         | Some c \<Rightarrow>
             any_opt (\<lambda>member. map_option (\<lambda>d. d \<noteq> None) (find_owned_callable_declaration nodes c member))
               [''__get__'', ''__set__'', ''__delete__''])"

definition resolve_descriptor_get :: "node list \<Rightarrow> node \<Rightarrow> bound_declaration \<Rightarrow> semantic_type option option" where
  "resolve_descriptor_get nodes n d =
     (case declaration_value_annotation_text d of
        None \<Rightarrow> Some None
      | Some name \<Rightarrow>
          (case is_descriptor_type nodes n name of
             None \<Rightarrow> None
           | Some False \<Rightarrow> Some None
           | Some True \<Rightarrow>
               (case resolve_direct_base nodes n name of
                  None \<Rightarrow> Some None
                | Some c \<Rightarrow>
                    map_option (\<lambda>get. Option.bind get declaration_signature_return_semantic_type)
                      (find_owned_callable_declaration nodes c ''__get__''))))"

section \<open>Types of members\<close>

text \<open>\<^verbatim>\<open>resolve_readable_member_semantic_type_for_declaring_type\<close>.\<close>

definition readable_member_type ::
    "node list \<Rightarrow> node \<Rightarrow> resolved_member \<Rightarrow> semantic_type \<Rightarrow> semantic_type option option" where
  "readable_member_type nodes n m self_type =
     (case owner_generic_substitutions (rm_declaring_type m) (snd (rm_declaring m)) of
        None \<Rightarrow> None
      | Some substitutions \<Rightarrow>
          (let d = rm_declaration m;
               present = (\<lambda>t. rewrite_typing n (substitute_self_with (Some self_type) (substitute substitutions t)))
           in if d_kind d = DValue
              then (case resolve_descriptor_get nodes n d of
                      None \<Rightarrow> None
                    | Some (Some t) \<Rightarrow> Some (Some (rewrite_typing n t))
                    | Some None \<Rightarrow>
                        Some (map_option present
                          (case declaration_value_annotation_semantic_type d of
                             Some t \<Rightarrow> Some t
                           | None \<Rightarrow>
                               (case Option.bind (declaration_value_annotation_text d) normalized_direct_return_annotation of
                                  Some text \<Rightarrow> Some (lower_type_text_or_name text)
                                | None \<Rightarrow>
                                    map_option (\<lambda>v. lower_type_text_or_name (rewrite_imported_typing_aliases n v))
                                      (inferred_value_type_semantic_text d)))))
              else if d_kind d = DFunction \<and> d_method_kind d = Some PropertyMethod
              then Some (map_option present (declaration_signature_return_semantic_type d))
              else Some None))"

text \<open>\<^verbatim>\<open>.collect::<Option<Vec<_>>>()\<close> of the branches of a union, joined.\<close>

fun collect_branches ::
    "('a \<Rightarrow> 'b option option) \<Rightarrow> 'a list \<Rightarrow> 'b list option option" where
  "collect_branches f [] = Some (Some [])"
| "collect_branches f (x # xs) =
     (case f x of
        None \<Rightarrow> None
      | Some None \<Rightarrow> Some None
      | Some (Some y) \<Rightarrow> map_option (map_option (\<lambda>ys. y # ys)) (collect_branches f xs))"

text \<open>
  \<^verbatim>\<open>resolve_member_semantic_type_on_owner_type_with_self_type\<close>; \<open>generated\<close> answers for
  a member that only a framework adapter generates.
\<close>

primrec member_type_on_owner ::
    "nat \<Rightarrow> (string \<Rightarrow> string \<Rightarrow> semantic_type option) \<Rightarrow> assignability_options \<Rightarrow> node list \<Rightarrow> node \<Rightarrow>
     string \<Rightarrow> semantic_type \<Rightarrow> semantic_type option \<Rightarrow> semantic_type option option" where
  "member_type_on_owner 0 generated opts nodes n member_name owner_type self_type = None"
| "member_type_on_owner (Suc fuel) generated opts nodes n member_name owner_type self_type =
     (case semantic_member_union_branches owner_type (ao_strict_nulls opts) of
        Some branches \<Rightarrow>
          map_option (map_option join_semantic_type_candidates)
            (collect_branches (\<lambda>b. member_type_on_owner fuel generated opts nodes n member_name b
                 (case self_type of Some s \<Rightarrow> Some s | None \<Rightarrow> Some b)) branches)
      | None \<Rightarrow>
          (case semantic_nominal_owner_name owner_type of
             None \<Rightarrow> Some None
           | Some owner_name \<Rightarrow>
               (case resolve_direct_base nodes n owner_name of
                  None \<Rightarrow> Some None
                | Some c \<Rightarrow>
                    (case find_resolved_readable_member_declaration nodes c owner_type member_name of
                       None \<Rightarrow> None
                     | Some None \<Rightarrow>
                         Some (if ao_framework_adapters opts then generated owner_name member_name else None)
                     | Some (Some m) \<Rightarrow>
                         (case is_enum_like_class fuel nodes c of
                            None \<Rightarrow> None
                          | Some True \<Rightarrow>
                              Some (Some (lower_type_text_or_name
                                (''Literal['' @ d_name (snd c) @ ''.'' @ member_name @ '']'')))
                          | Some False \<Rightarrow>
                              readable_member_type nodes n m
                                (case self_type of Some s \<Rightarrow> s | None \<Rightarrow> owner_type))))))"

text \<open>\<^verbatim>\<open>resolve_method_return_semantic_type_on_owner_type_with_self_type\<close>.\<close>

primrec method_return_on_owner ::
    "nat \<Rightarrow> assignability_options \<Rightarrow> node list \<Rightarrow> node \<Rightarrow> string \<Rightarrow> semantic_type \<Rightarrow>
     semantic_type option \<Rightarrow> semantic_type option option" where
  "method_return_on_owner 0 opts nodes n method_name owner_type self_type = None"
| "method_return_on_owner (Suc fuel) opts nodes n method_name owner_type self_type =
     (case semantic_member_union_branches owner_type (ao_strict_nulls opts) of
        Some branches \<Rightarrow>
          map_option (map_option join_semantic_type_candidates)
            (collect_branches (\<lambda>b. method_return_on_owner fuel opts nodes n method_name b
                 (case self_type of Some s \<Rightarrow> Some s | None \<Rightarrow> Some b)) branches)
      | None \<Rightarrow>
          (case Option.bind (semantic_nominal_owner_name owner_type) (resolve_direct_base nodes n) of
             None \<Rightarrow> Some None
           | Some c \<Rightarrow>
               (case find_resolved_callable_declarations nodes c owner_type method_name of
                  None \<Rightarrow> None
                | Some [m] \<Rightarrow>
                    (if d_kind (rm_declaration m) = DOverload then Some None
                     else (case owner_generic_substitutions (rm_declaring_type m) (snd (rm_declaring m)) of
                             None \<Rightarrow> None
                           | Some s \<Rightarrow>
                               Some (map_option
                                 (\<lambda>t. rewrite_typing n (substitute_self_with
                                    (Some (case self_type of Some s \<Rightarrow> s | None \<Rightarrow> owner_type))
                                    (substitute (without_shadowed_generic_params s (rm_declaration m)) t)))
                                 (declaration_signature_return_semantic_type (rm_declaration m)))))
                | Some _ \<Rightarrow> Some None)))"

text \<open>\<^verbatim>\<open>method_returns_self_on_owner_type\<close>.\<close>

primrec method_returns_self_on_owner_type ::
    "nat \<Rightarrow> assignability_options \<Rightarrow> node list \<Rightarrow> node \<Rightarrow> string \<Rightarrow> semantic_type \<Rightarrow> bool option" where
  "method_returns_self_on_owner_type 0 opts nodes n method_name owner_type = None"
| "method_returns_self_on_owner_type (Suc fuel) opts nodes n method_name owner_type =
     (case semantic_member_union_branches owner_type (ao_strict_nulls opts) of
        Some branches \<Rightarrow>
          if branches = [] then Some False
          else all_opt (method_returns_self_on_owner_type fuel opts nodes n method_name) branches
      | None \<Rightarrow>
          (case Option.bind (semantic_nominal_owner_name owner_type) (resolve_direct_base nodes n) of
             None \<Rightarrow> Some False
           | Some c \<Rightarrow>
               map_option (\<lambda>methods. methods \<noteq> [] \<and>
                   list_all (\<lambda>d. map_option strip_annotated (declaration_signature_return_semantic_type d) =
                                 Some (SName ''Self'')) methods)
                 (find_owned_callable_declarations nodes c method_name)))"

section \<open>Names in scope\<close>

definition semantic_type_from_scope_param :: "semantic_callable_param \<Rightarrow> semantic_type" where
  "semantic_type_from_scope_param p =
     (if sp_variadic p
      then (case sp_annotation p of
              Some a \<Rightarrow>
                (case strip_annotated a of
                   SUnpack _ \<Rightarrow> SGeneric ''tuple'' [a] | _ \<Rightarrow> SGeneric ''tuple'' [a, SName ''...''])
            | None \<Rightarrow> SGeneric ''tuple'' [SName ''dynamic'', SName ''...''])
      else if sp_keyword_variadic p
      then SGeneric ''dict''
             [SName ''str'', case sp_annotation p of Some a \<Rightarrow> a | None \<Rightarrow> SName ''dynamic'']
      else annotation_or_dynamic p)"

definition resolve_scope_owner_declaration ::
    "node \<Rightarrow> string option \<Rightarrow> string option \<Rightarrow> bound_declaration option" where
  "resolve_scope_owner_declaration n owner owner_type =
     Option.bind owner (\<lambda>name.
       List.find (\<lambda>d. d_kind d = DFunction \<and> d_name d = name \<and> map_option do_name (d_owner d) = owner_type)
         (mn_declarations n))"

definition resolve_scope_param_semantic_type ::
    "node \<Rightarrow> string option \<Rightarrow> string option \<Rightarrow> string \<Rightarrow> semantic_type option" where
  "resolve_scope_param_semantic_type n owner owner_type name =
     Option.bind (resolve_scope_owner_declaration n owner owner_type) (\<lambda>d.
     Option.bind (declaration_callable_semantics d) (\<lambda>c.
       map_option semantic_type_from_scope_param
         (List.find (\<lambda>p. sp_name p = name)
            (case owner_type of
               Some t \<Rightarrow> callable_semantic_params_with_self c t | None \<Rightarrow> sc_semantic_params c))))"

definition resolve_receiver_name_semantic_type ::
    "node \<Rightarrow> string option \<Rightarrow> string option \<Rightarrow> string \<Rightarrow> semantic_type option" where
  "resolve_receiver_name_semantic_type n owner owner_type name =
     (case (owner_type, owner) of
        (Some t, Some f) \<Rightarrow>
          (case List.find (\<lambda>d. d_kind d = DFunction \<and> d_name d = f \<and>
                               (case d_owner d of Some w \<Rightarrow> do_name w = t | None \<Rightarrow> False)) (mn_declarations n) of
             None \<Rightarrow> None
           | Some d \<Rightarrow>
               (let kind = (case d_method_kind d of Some k \<Rightarrow> k | None \<Rightarrow> InstanceMethod)
                in if kind \<in> {InstanceMethod, PropertyMethod, PropertySetterMethod} \<and> name = ''self''
                   then Some (SName t)
                   else if kind = ClassMethod \<and> name = ''cls'' then Some (SGeneric ''type'' [SName t])
                   else None))
      | _ \<Rightarrow> None)"

definition type_param_named :: "string \<Rightarrow> bound_declaration \<Rightarrow> generic_type_param option" where
  "type_param_named name d = List.find (\<lambda>p. gp_name p = name) (d_type_params d)"

definition scoped_type_param_bound_without_provenance ::
    "node \<Rightarrow> string option \<Rightarrow> string option \<Rightarrow> semantic_type \<Rightarrow> semantic_type option" where
  "scoped_type_param_bound_without_provenance n owner owner_type t =
     (case strip_annotated t of
        SName name \<Rightarrow>
          (let of_callable = Option.bind (resolve_scope_owner_declaration n owner owner_type) (type_param_named name);
               of_class = Option.bind owner_type (\<lambda>class.
                 Option.bind (find_of_kind DClass n class) (type_param_named name))
           in case (case of_callable of Some p \<Rightarrow> Some p | None \<Rightarrow> of_class) of
                None \<Rightarrow> None
              | Some p \<Rightarrow>
                  if gp_kind p \<noteq> GTypeVar then None
                  else (case gp_bound_expr p of
                          Some bound \<Rightarrow> Some (lower_type_expr bound)
                        | None \<Rightarrow>
                            if gp_constraint_exprs p = [] then None
                            else Some (join_semantic_type_candidates (map lower_type_expr (gp_constraint_exprs p)))))
      | _ \<Rightarrow> None)"

fun semantic_type_mentions_name :: "string \<Rightarrow> semantic_type \<Rightarrow> bool"
  and params_mention_name :: "string \<Rightarrow> semantic_callable_params \<Rightarrow> bool" where
  "semantic_type_mentions_name name (SName m) \<longleftrightarrow> m = name"
| "semantic_type_mentions_name name (SGeneric head args) \<longleftrightarrow> list_ex (semantic_type_mentions_name name) args"
| "semantic_type_mentions_name name (SUnion branches) \<longleftrightarrow> list_ex (semantic_type_mentions_name name) branches"
| "semantic_type_mentions_name name (SCallable params r) \<longleftrightarrow>
     params_mention_name name params \<or> semantic_type_mentions_name name r"
| "semantic_type_mentions_name name (SUnpack inner) \<longleftrightarrow> semantic_type_mentions_name name inner"
| "semantic_type_mentions_name name (SAnnotated v metadata) \<longleftrightarrow> semantic_type_mentions_name name v"
| "params_mention_name name SEllipsis \<longleftrightarrow> False"
| "params_mention_name name (SParamList types) \<longleftrightarrow> list_ex (semantic_type_mentions_name name) types"
| "params_mention_name name (SConcatenate types) \<longleftrightarrow> list_ex (semantic_type_mentions_name name) types"
| "params_mention_name name (SSingle t) \<longleftrightarrow> semantic_type_mentions_name name t"

definition scoped_callable_returns_type_param ::
    "node \<Rightarrow> string option \<Rightarrow> string option \<Rightarrow> string \<Rightarrow> string \<Rightarrow> bool" where
  "scoped_callable_returns_type_param n owner owner_type callable_name type_param_name \<longleftrightarrow>
     (case Option.bind (resolve_scope_param_semantic_type n owner owner_type callable_name) semantic_callable_parts of
        Some (_, returns) \<Rightarrow> strip_annotated returns = SName type_param_name | None \<Rightarrow> False)"

section \<open>Awaiting and iterating\<close>

definition typing_names :: "string \<Rightarrow> string list" where
  "typing_names name = [name, ''typing.'' @ name, ''collections.abc.'' @ name]"

definition unwrap_awaitable_semantic_type :: "semantic_type \<Rightarrow> semantic_type option" where
  "unwrap_awaitable_semantic_type t =
     (case strip_annotated t of
        SGeneric head args \<Rightarrow>
          (if head \<in> set (typing_names ''Awaitable'') \<and> length args = 1 then Some (args ! 0)
           else if head \<in> set (typing_names ''Coroutine'') \<and> length args = 3 then Some (args ! 2)
           else None)
      | _ \<Rightarrow> None)"

definition unwrap_generator_yield_semantic_type :: "semantic_type \<Rightarrow> semantic_type option" where
  "unwrap_generator_yield_semantic_type t =
     (case strip_annotated t of
        SGeneric head args \<Rightarrow>
          (if head \<in> set (typing_names ''Generator'') \<and> args \<noteq> [] then Some (hd args) else None)
      | _ \<Rightarrow> None)"

definition ITERABLE_HEADS :: "string list" where
  "ITERABLE_HEADS =
     typing_names ''Generator'' @ typing_names ''Iterator'' @ typing_names ''Iterable'' @
     typing_names ''Sequence'' @ [''list'', ''set'', ''frozenset'']"

text \<open>Both branches of the code for tuples give the first element, also of a fixed shape.\<close>

definition unwrap_yield_from_semantic_type :: "semantic_type \<Rightarrow> semantic_type option" where
  "unwrap_yield_from_semantic_type t =
     (case strip_annotated t of
        SGeneric head args \<Rightarrow>
          (if head \<in> set ITERABLE_HEADS \<and> args \<noteq> [] then Some (hd args)
           else if head = ''tuple''
           then (let expanded = expanded_tuple_shape_semantic_args args
                 in if expanded = [] then None else Some (hd expanded))
           else None)
      | _ \<Rightarrow> None)"

definition unwrap_for_iterable_semantic_type :: "semantic_type \<Rightarrow> semantic_type option" where
  "unwrap_for_iterable_semantic_type t =
     (if strip_annotated t = SName ''range'' then Some (SName ''int'') else unwrap_yield_from_semantic_type t)"

end
