(* ===== verification/Reporting.thy ===== *)
theory Reporting
  imports Narrowing Member_Types Diagnostics
begin

text \<open>
  Reporting (crates/typepython_checking, calls/reporting.rs): why a type is not assignable, the
  diagnostics for unresolved imports and deprecated declarations, and the description of a
  return. The functions that ask for assignability, or split texts at unions, take the fuel of
  those relations.
\<close>

section \<open>Assignability failures\<close>

definition diagnostic_type_text :: "semantic_type \<Rightarrow> string" where
  "diagnostic_type_text t = render_semantic_type t"

record assignability_failure =
  fl_expected :: string
  fl_actual :: string
  fl_mismatch_path :: "string list"
  fl_detail :: "string option"

definition primary_reason_note :: "assignability_failure \<Rightarrow> string" where
  "primary_reason_note f =
     ''reason: `'' @ fl_actual f @ ''` is not assignable to `'' @ fl_expected f @
     ''` under semantic type checking''"

definition split_generic_type :: "string \<Rightarrow> (string \<times> string list) option" where
  "split_generic_type annotation =
     (let t = trim annotation
      in case (split_once CHR ''['' t, strip_suffix '']'' t) of
           (Some (head, _), Some inner) \<Rightarrow>
             Some (head, map normalize_type_text (split_top_level_type_args (drop (length head + 1) inner)))
         | _ \<Rightarrow> None)"

definition expanded_tuple_shape_args :: "string list \<Rightarrow> string list" where
  "expanded_tuple_shape_args args =
     map render_semantic_type (expanded_tuple_shape_semantic_args (map lower_type_text_or_name args))"

definition type_supports_mismatch_path :: "nat \<Rightarrow> string \<Rightarrow> bool option" where
  "type_supports_mismatch_path fuel t =
     map_option (\<lambda>branches. branches \<noteq> None \<or> split_generic_type t \<noteq> None) (union_branches fuel t)"

definition attach_notes :: "nat \<Rightarrow> assignability_failure \<Rightarrow> diagnostic \<Rightarrow> diagnostic option" where
  "attach_notes fuel f d =
     (let d = with_note (primary_reason_note f) d
      in map_option (\<lambda>supported.
           (if \<not> supported then d
            else (let d = with_note (''target: `'' @ fl_expected f @ ''`'')
                            (with_note (''source: `'' @ fl_actual f @ ''`'') d);
                      d = (if fl_mismatch_path f = [] then d
                           else with_note (''mismatch at: '' @
                                  join_with '' '' (map (\<lambda>segment. ''-> '' @ segment) (fl_mismatch_path f))) d)
                  in case fl_detail f of Some detail \<Rightarrow> with_note detail d | None \<Rightarrow> d)))
           (or_opt (type_supports_mismatch_path fuel (fl_expected f))
                   (type_supports_mismatch_path fuel (fl_actual f))))"

definition push_segment :: "string list \<Rightarrow> string \<Rightarrow> string list" where
  "push_segment path segment = (if path \<noteq> [] \<and> last path = segment then path else path @ [segment])"

text \<open>\<^verbatim>\<open>.or_else(|| Some(message))\<close> of a nested search.\<close>

definition detail_or ::
    "string \<Rightarrow> (string option \<times> string list) option \<Rightarrow> (string option \<times> string list) option" where
  "detail_or message found =
     map_option (\<lambda>(detail, path). (Some (case detail of Some d \<Rightarrow> d | None \<Rightarrow> message), path)) found"

text \<open>
  The branch of a union that no target branch takes, and, for two generic types, the argument
  that is not assignable: \<open>assign\<close> is \<^verbatim>\<open>direct_type_is_assignable_with_options\<close> in the
  module, \<open>go\<close> the nested search. A result is the detail and the path; the inner \<open>None\<close> of
  \<open>generic_mismatch\<close> and its parts says that the search goes on.
\<close>

definition union_mismatch ::
    "nat \<Rightarrow> (string \<Rightarrow> string \<Rightarrow> bool option) \<Rightarrow> string \<Rightarrow> string \<Rightarrow> string option option" where
  "union_mismatch fuel assign expected actual =
     (case (union_branches fuel expected, union_branches fuel actual) of
        (Some (Some expected_branches), Some (Some actual_branches)) \<Rightarrow>
          find_opt (\<lambda>b. map_option Not (any_opt (\<lambda>target. assign target b) expected_branches)) actual_branches
      | (Some _, Some _) \<Rightarrow> Some None
      | _ \<Rightarrow> None)"

fun argument_mismatch ::
    "(string \<Rightarrow> string \<Rightarrow> bool option) \<Rightarrow> (string \<Rightarrow> string \<Rightarrow> (string option \<times> string list) option) \<Rightarrow>
     (string \<times> string \<times> string) list \<Rightarrow> (string option \<times> string list) option option" where
  "argument_mismatch assign go [] = Some None"
| "argument_mismatch assign go ((what, expected, actual) # rest) =
     (case assign expected actual of
        None \<Rightarrow> None
      | Some True \<Rightarrow> argument_mismatch assign go rest
      | Some False \<Rightarrow>
          map_option Some
            (detail_or (what @ ''`'' @ actual @ ''` is not assignable to `'' @ expected @ ''`'')
              (go expected actual)))"

definition sequence_element_text :: "nat \<Rightarrow> string \<Rightarrow> string list \<Rightarrow> string option" where
  "sequence_element_text fuel head args =
     (if head = ''tuple''
      then (if length args = 2 \<and> args ! 1 = ''...'' then Some (hd args) else join_branch_types fuel args)
      else Some (case args of a # _ \<Rightarrow> a | [] \<Rightarrow> []))"

definition bridge_mismatch ::
    "nat \<Rightarrow> (string \<Rightarrow> string \<Rightarrow> bool option) \<Rightarrow> (string \<Rightarrow> string \<Rightarrow> (string option \<times> string list) option) \<Rightarrow>
     string \<times> string list \<Rightarrow> string \<times> string list \<Rightarrow> (string option \<times> string list) option option" where
  "bridge_mismatch fuel assign go expected actual =
     (let (expected_head, expected_args) = expected; (actual_head, actual_args) = actual
      in if expected_head = ''Sequence'' \<and> actual_head \<in> {''list'', ''tuple''} \<and> expected_args \<noteq> []
         then (case sequence_element_text fuel actual_head actual_args of
                 None \<Rightarrow> None
               | Some element \<Rightarrow>
                   argument_mismatch assign go [(''element type '', hd expected_args, element)])
         else if expected_head = ''Mapping'' \<and> actual_head = ''dict'' \<and> length expected_args = 2 \<and>
                 length actual_args = 2
         then argument_mismatch assign go
                [(''mapping key type '', expected_args ! 0, actual_args ! 0),
                 (''mapping value type '', expected_args ! 1, actual_args ! 1)]
         else Some None)"

definition generic_mismatch ::
    "nat \<Rightarrow> (string \<Rightarrow> string \<Rightarrow> bool option) \<Rightarrow> (string \<Rightarrow> string \<Rightarrow> (string option \<times> string list) option) \<Rightarrow>
     string list \<Rightarrow> string \<Rightarrow> string \<Rightarrow> (string option \<times> string list) option" where
  "generic_mismatch fuel assign go path expected actual =
     (case (split_generic_type expected, split_generic_type actual) of
        (Some (expected_head, expected_args0), Some (actual_head, actual_args0)) \<Rightarrow>
          (let both = (expected_head = ''tuple'' \<and> actual_head = ''tuple'');
               expected_args = (if both then expanded_tuple_shape_args expected_args0 else expected_args0);
               actual_args = (if both then expanded_tuple_shape_args actual_args0 else actual_args0)
           in if both \<and> length actual_args = 2 \<and> actual_args ! 1 = ''...'' \<and>
                 \<not> (length expected_args = 2 \<and> expected_args ! 1 = ''...'')
              then Some (Some (''`'' @ actual @
                     ''` is a variable-length tuple and is not assignable to fixed tuple `'' @ expected @ ''`''), path)
              else (let same = (expected_head = actual_head \<and> length expected_args = length actual_args)
                    in case (if same
                             then argument_mismatch assign go
                                    (map (\<lambda>(e, a). ([], e, a)) (zip expected_args actual_args))
                             else Some None) of
                         None \<Rightarrow> None
                       | Some (Some result) \<Rightarrow> Some result
                       | Some None \<Rightarrow>
                           if same \<and> expected_head = ''tuple'' \<and> expected_args \<noteq> actual_args
                           then Some (Some (''tuple shape `'' @ actual @ ''` is not assignable to `'' @
                                  expected @ ''`''), path)
                           else map_option (\<lambda>r. case r of Some result \<Rightarrow> result | None \<Rightarrow> (None, path))
                                  (bridge_mismatch fuel assign go (expected_head, expected_args)
                                     (actual_head, actual_args))))
      | _ \<Rightarrow> Some (None, path))"

primrec first_type_mismatch_detail ::
    "nat \<Rightarrow> nat \<Rightarrow> (string \<Rightarrow> string \<Rightarrow> bool option) \<Rightarrow> string list \<Rightarrow> string \<Rightarrow> string \<Rightarrow>
     (string option \<times> string list) option" where
  "first_type_mismatch_detail 0 fuel assign path e a = Some (None, path)"
| "first_type_mismatch_detail (Suc depth) fuel assign path e a =
     (let expected = normalize_type_text e; actual = normalize_type_text a;
          path = push_segment path actual
      in case union_mismatch fuel assign expected actual of
           None \<Rightarrow> None
         | Some (Some unmatched) \<Rightarrow>
             Some (Some (''union branch `'' @ unmatched @
                    ''` is not assignable to any target branch in `'' @ expected @ ''`''),
                   push_segment path unmatched)
         | Some None \<Rightarrow>
             generic_mismatch fuel assign (first_type_mismatch_detail depth fuel assign path) path
               expected actual)"

definition semantic_type_assignability_failure ::
    "nat \<Rightarrow> assignability_options \<Rightarrow> node list \<Rightarrow> node \<Rightarrow> semantic_type \<Rightarrow> semantic_type \<Rightarrow>
     assignability_failure option option" where
  "semantic_type_assignability_failure fuel opts nodes n expected actual =
     (case is_assignable fuel opts nodes n expected actual of
        None \<Rightarrow> None
      | Some True \<Rightarrow> Some None
      | Some False \<Rightarrow>
          (let e = diagnostic_type_text expected; a = diagnostic_type_text actual
           in map_option (\<lambda>(detail, path). Some
                  \<lparr>fl_expected = e, fl_actual = a, fl_mismatch_path = path, fl_detail = detail\<rparr>)
                (first_type_mismatch_detail 8 fuel (direct_type_is_assignable fuel opts nodes n) [] e a)))"

definition attach_type_mismatch_notes ::
    "nat \<Rightarrow> assignability_options \<Rightarrow> node list \<Rightarrow> node \<Rightarrow> string \<Rightarrow> string \<Rightarrow> diagnostic \<Rightarrow>
     diagnostic option" where
  "attach_type_mismatch_notes fuel opts nodes n expected actual d =
     (case semantic_type_assignability_failure fuel opts nodes n
             (lower_type_text_or_name expected) (lower_type_text_or_name actual) of
        None \<Rightarrow> None
      | Some None \<Rightarrow> Some d
      | Some (Some failure) \<Rightarrow> attach_notes fuel failure d)"

section \<open>Unresolved imports\<close>

definition first_segment :: "string \<Rightarrow> string" where
  "first_segment key = hd (split_char CHR ''.'' key)"

definition unresolved_import :: "node list \<Rightarrow> node \<Rightarrow> bound_declaration \<Rightarrow> diagnostic option" where
  "unresolved_import nodes n d =
     (case declaration_import_target_ref d of
        None \<Rightarrow> None
      | Some import_ref \<Rightarrow>
          (let raw = it_raw_target import_ref;
               target = resolve_target_from_declaration nodes d;
               root = first_segment (case target of Some t \<Rightarrow> mn_key (im_provider t) | None \<Rightarrow> raw)
           in if root \<notin> set (map (\<lambda>m. first_segment (mn_key m)) nodes) then None
              else if (case target of
                         Some t \<Rightarrow> module_target t \<noteq> None \<or> im_target t \<noteq> None | None \<Rightarrow> False)
              then None
              else Some (diagnostic_error ''TPY3001''
                     (''module `'' @ mn_path n @ ''` imports unresolved same-project target `'' @ raw @ ''`''))))"

definition unresolved_import_diagnostics :: "node list \<Rightarrow> node \<Rightarrow> diagnostic list" where
  "unresolved_import_diagnostics nodes n =
     List.map_filter (unresolved_import nodes n) (filter (\<lambda>d. d_kind d = DImport) (mn_declarations n))"

section \<open>Deprecated declarations\<close>

datatype diagnostic_level = Ignore_Level | Warning_Level | Error_Level

definition deprecated_diagnostic ::
    "diagnostic_level \<Rightarrow> string \<Rightarrow> string option \<Rightarrow> diagnostic option" where
  "deprecated_diagnostic level message note =
     map_option (\<lambda>d. case note of Some t \<Rightarrow> if t \<noteq> [] then with_note t d else d | None \<Rightarrow> d)
       (case level of
          Ignore_Level \<Rightarrow> None
        | Warning_Level \<Rightarrow> Some (diagnostic_warning ''TPY4101'' message)
        | Error_Level \<Rightarrow> Some (diagnostic_error ''TPY4101'' message))"

definition deprecated_use ::
    "diagnostic_level \<Rightarrow> string \<Rightarrow> bound_declaration option \<Rightarrow> diagnostic list" where
  "deprecated_use level message target =
     (case target of
        None \<Rightarrow> []
      | Some d \<Rightarrow>
          if d_is_deprecated d then opt_list (deprecated_diagnostic level message (d_deprecation_message d))
          else [])"

definition import_declaration_target :: "node list \<Rightarrow> bound_declaration \<Rightarrow> bound_declaration option" where
  "import_declaration_target nodes d = Option.bind (resolve_target_from_declaration nodes d) im_target"

definition deprecated_call :: "diagnostic_level \<Rightarrow> node list \<Rightarrow> node \<Rightarrow> call_site \<Rightarrow> diagnostic list" where
  "deprecated_call level nodes n call =
     (let m = ''module `'' @ mn_path n
      in case resolve_function_provider nodes n (cl_callee call) of
           Some (_, d) \<Rightarrow>
             deprecated_use level (m @ ''` calls deprecated declaration `'' @ cl_callee call @ ''`'') (Some d)
         | None \<Rightarrow>
             deprecated_use level (m @ ''` instantiates deprecated declaration `'' @ cl_callee call @ ''`'')
               (map_option snd (resolve_direct_base nodes n (cl_callee call))))"

definition deprecated_member ::
    "diagnostic_level \<Rightarrow> node list \<Rightarrow> node \<Rightarrow>
     (class_ref \<Rightarrow> string \<Rightarrow> bound_declaration option option) \<Rightarrow> string \<Rightarrow> string \<Rightarrow> string \<Rightarrow>
     diagnostic list option" where
  "deprecated_member level nodes n find_member verb owner member =
     (case resolve_direct_base nodes n owner of
        None \<Rightarrow> Some []
      | Some c \<Rightarrow>
          map_option
            (deprecated_use level (''module `'' @ mn_path n @ ''` '' @ verb @ '' deprecated member `'' @
               member @ ''` on `'' @ owner @ ''`''))
            (find_member c member))"

definition deprecated_use_diagnostics ::
    "node list \<Rightarrow> node \<Rightarrow> diagnostic_level \<Rightarrow> diagnostic list option" where
  "deprecated_use_diagnostics nodes n level =
     (case (concat_opt (\<lambda>a. deprecated_member level nodes n (find_owned_value_declaration nodes) ''uses''
               (ma_owner_name a) (ma_member a)) (si_member_accesses (mn_sites n)),
            concat_opt (\<lambda>c. deprecated_member level nodes n (find_owned_callable_declaration nodes) ''calls''
               (mc_owner_name c) (mc_method c)) (si_method_calls (mn_sites n))) of
        (Some accesses, Some calls) \<Rightarrow> Some
          (concat (map (\<lambda>d. deprecated_use level
               (''module `'' @ mn_path n @ ''` imports deprecated declaration `'' @ d_name d @ ''`'')
               (import_declaration_target nodes d)) (filter (\<lambda>d. d_kind d = DImport) (mn_declarations n))) @
           concat (map (deprecated_call level nodes n) (si_calls (mn_sites n))) @ accesses @ calls)
      | _ \<Rightarrow> None)"

section \<open>Returns\<close>

definition same_return_owner :: "return_site \<Rightarrow> return_site \<Rightarrow> bool" where
  "same_return_owner left right \<longleftrightarrow>
     rt_owner_name left = rt_owner_name right \<and> rt_owner_type_name left = rt_owner_type_name right"

definition describe_return_trace_expression :: "return_site \<Rightarrow> string" where
  "describe_return_trace_expression site =
     (let e = rt_parts site
      in if de_name e = None \<and> de_member_name e = None \<and> de_method_name e = None \<and> de_callee e = None \<and>
            de_lambda e = None \<and> de_list_elements e = None \<and> de_set_elements e = None \<and>
            de_dict_entries e = None \<and> de_subscript_target e = None
         then ''bare return''
         else case de_name e of Some name \<Rightarrow> ''return '' @ name | None \<Rightarrow>
         case (de_member_owner_name e, de_member_name e) of
           (Some owner, Some member) \<Rightarrow> ''return '' @ owner @ ''.'' @ member | _ \<Rightarrow>
         case (de_method_owner_name e, de_method_name e) of
           (Some owner, Some m) \<Rightarrow> ''return '' @ owner @ ''.'' @ m @ ''(...)'' | _ \<Rightarrow>
         case de_callee e of Some callee \<Rightarrow> ''return '' @ callee @ ''(...)'' | None \<Rightarrow>
         case de_subscript_string_key e of
           Some key \<Rightarrow> ''return [...]['' @ [CHR 0x22] @ key @ [CHR 0x22] @ '']'' | None \<Rightarrow>
         if de_lambda e \<noteq> None then ''return lambda''
         else if de_dict_entries e \<noteq> None then ''return dict literal''
         else if de_list_elements e \<noteq> None then ''return list literal''
         else if de_set_elements e \<noteq> None then ''return set literal''
         else ''return expression'')"

end
