(* ===== verification/Declaration_Checks.thy ===== *)
theory Declaration_Checks
  imports Reporting
begin

text \<open>
  Checks of declarations (crates/typepython_checking, declarations.rs): overriding, final and
  abstract members, interfaces, duplicates and overloads, and the exhaustiveness of
  \<^verbatim>\<open>match\<close> over sealed classes, enumerations and literals. The context holds the
  options, the fuel of the relations asked, the source text of a module with the method
  signatures the syntax crate finds in a text, and the type of a \<^verbatim>\<open>match\<close> subject.
\<close>

record declaration_context =
  dc_fuel :: nat
  dc_options :: assignability_options
  dc_source :: "node \<Rightarrow> string option"
  dc_method_sites :: "string \<Rightarrow> direct_method_signature_site list"
  dc_subject_type :: "node \<Rightarrow> match_site \<Rightarrow> semantic_type option"

definition declared_in :: "string \<Rightarrow> bound_declaration \<Rightarrow> bool" where
  "declared_in name d \<longleftrightarrow> (case d_owner d of Some w \<Rightarrow> do_name w = name | None \<Rightarrow> False)"

definition members_of :: "node \<Rightarrow> string \<Rightarrow> bound_declaration list" where
  "members_of n name = filter (declared_in name) (mn_declarations n)"

definition top_classes :: "node \<Rightarrow> bound_declaration list" where
  "top_classes n = filter (\<lambda>d. d_kind d = DClass \<and> d_owner d = None) (mn_declarations n)"

definition resolved_bases :: "node list \<Rightarrow> node \<Rightarrow> bound_declaration \<Rightarrow> class_ref list" where
  "resolved_bases nodes n d = List.map_filter (resolve_direct_base nodes n) (rendered_class_bases d)"

section \<open>Overriding\<close>

definition show_count :: "nat option \<Rightarrow> string" where
  "show_count c = (case c of Some k \<Rightarrow> ''Some('' @ show_nat k @ '')'' | None \<Rightarrow> ''None'')"

definition type_reason :: "semantic_type \<Rightarrow> semantic_type \<Rightarrow> string" where
  "type_reason expected actual =
     primary_reason_note \<lparr>fl_expected = diagnostic_type_text expected,
       fl_actual = diagnostic_type_text actual, fl_mismatch_path = [], fl_detail = None\<rparr>"

definition diagnostic_note :: "override_failure \<Rightarrow> string" where
  "diagnostic_note failure =
     (case failure of
        MethodKindMismatch \<Rightarrow>
          ''reason: overriding member changes method kind (instance/class/static/property)''
      | ParameterCountMismatch child base \<Rightarrow>
          ''reason: overriding member declares '' @ show_nat child @
          '' parameter(s) but the base member declares '' @ show_nat base
      | SpecialContextManagerArityMismatch child base \<Rightarrow>
          ''reason: special ContextManager override keeps only arity compatibility here, but child count '' @
          show_count child @ '' does not match base count '' @ show_count base
      | ParameterModifierMismatch name \<Rightarrow>
          ''reason: parameter `'' @ name @ ''` changes positional/keyword/default/variadic modifiers''
      | ParameterNameMismatch child base \<Rightarrow>
          ''reason: overriding parameter name `'' @ child @ ''` does not match base parameter `'' @ base @ ''`''
      | ParameterTypeMismatch name expected actual \<Rightarrow>
          ''reason: parameter `'' @ name @ ''` is not contravariant with the base declaration; '' @
          type_reason expected actual
      | ReturnTypeMismatch expected actual \<Rightarrow>
          ''reason: return type is not covariant with the base declaration; '' @
          type_reason expected actual)"

definition override_compatibility_of ::
    "declaration_context \<Rightarrow> node list \<Rightarrow> node \<Rightarrow> bound_declaration \<Rightarrow> bound_declaration \<Rightarrow> class_ref \<Rightarrow>
     diagnostic list option" where
  "override_compatibility_of cx nodes n class member base =
     (case List.find (\<lambda>d. declared_in (d_name (snd base)) d \<and> d_name d = d_name member \<and> d_kind d = d_kind member)
             (mn_declarations (fst base)) of
        None \<Rightarrow> Some []
      | Some base_member \<Rightarrow>
          map_option (\<lambda>failure. case failure of None \<Rightarrow> [] | Some f \<Rightarrow>
              [with_note (diagnostic_note f) (diagnostic_error ''TPY4005''
                 (''type `'' @ d_name class @ ''` in module `'' @ mn_path n @ ''` overrides member `'' @
                  d_name member @ ''` from base `'' @ d_name (snd base) @
                  ''` with an incompatible signature or annotation''))])
            (method_override_incompatibility (is_assignable (dc_fuel cx) (dc_options cx) nodes n)
               member base_member))"

definition override_compatibility_diagnostics ::
    "declaration_context \<Rightarrow> node list \<Rightarrow> node \<Rightarrow> diagnostic list option" where
  "override_compatibility_diagnostics cx nodes n =
     concat_opt (\<lambda>class.
       concat_opt (\<lambda>member.
         concat_opt (override_compatibility_of cx nodes n class member) (resolved_bases nodes n class))
         (members_of n (d_name class)))
       (top_classes n)"

text \<open>The class of a member, and whether a direct base of it has a member of that name.\<close>

definition owner_declaration :: "node \<Rightarrow> declaration_owner \<Rightarrow> bound_declaration option" where
  "owner_declaration n w =
     List.find (\<lambda>c. d_name c = do_name w \<and> d_owner c = None \<and> d_class_kind c = Some (do_kind w))
       (mn_declarations n)"

definition overrides_any :: "node list \<Rightarrow> node \<Rightarrow> declaration_owner \<Rightarrow> string \<Rightarrow> bool" where
  "overrides_any nodes n w name \<longleftrightarrow>
     (case owner_declaration n w of
        None \<Rightarrow> False
      | Some class \<Rightarrow>
          list_ex (\<lambda>base. list_ex (\<lambda>d. d_name d = name \<and> declared_in (d_name (snd base)) d)
                          (mn_declarations (fst base)))
            (resolved_bases nodes n class))"

definition override_insertion_span ::
    "declaration_context \<Rightarrow> string \<Rightarrow> string \<Rightarrow> string \<Rightarrow> string \<Rightarrow> span option" where
  "override_insertion_span cx source owner_type_name method_name path =
     Option.bind (List.find (\<lambda>s. mg_owner_type_name s = owner_type_name \<and> mg_name s = method_name)
                    (dc_method_sites cx source))
       (\<lambda>s. let line = mg_line s; lines = str_lines source; at = line - 1
            in if at < length lines
               then (let column = length (takeWhile is_ws (lines ! at)) + 1
                     in Some (span_new path line column line column))
               else None)"

definition missing_override ::
    "declaration_context \<Rightarrow> node list \<Rightarrow> node \<Rightarrow> bound_declaration \<Rightarrow> diagnostic option" where
  "missing_override cx nodes n d =
     (case d_owner d of
        None \<Rightarrow> None
      | Some w \<Rightarrow>
          if \<not> overrides_any nodes n w (d_name d) then None
          else (let diagnostic = diagnostic_error ''TPY4005''
                      (''member `'' @ d_name d @ ''` in type `'' @ do_name w @ ''` in module `'' @ mn_path n @
                       ''` overrides a direct base member but is missing @override'');
                    at = Option.bind (dc_source cx n)
                      (\<lambda>source. override_insertion_span cx source (do_name w) (d_name d) (mn_path n))
                in Some (case at of
                     None \<Rightarrow> diagnostic
                   | Some s \<Rightarrow> with_suggestion ''Insert `@override` above the overriding method'' s
                       (''@override'' @ [CHR 0x0A]) MachineApplicable diagnostic)))"

definition missing_override_diagnostics ::
    "declaration_context \<Rightarrow> node list \<Rightarrow> node \<Rightarrow> diagnostic list" where
  "missing_override_diagnostics cx nodes n =
     List.map_filter (missing_override cx nodes n)
       (filter (\<lambda>d. d_owner d \<noteq> None \<and> d_kind d = DFunction \<and> \<not> d_is_override d) (mn_declarations n))"

definition override_diagnostics :: "node list \<Rightarrow> node \<Rightarrow> diagnostic list" where
  "override_diagnostics nodes n =
     List.map_filter (\<lambda>d.
         map_option (diagnostic_error ''TPY4005'')
           (case d_owner d of
              None \<Rightarrow> Some (''declaration `'' @ d_name d @ ''` in module `'' @ mn_path n @
                ''` is marked with @override but has no base member to override'')
            | Some w \<Rightarrow>
                if overrides_any nodes n w (d_name d) then None
                else Some (''member `'' @ d_name d @ ''` in type `'' @ do_name w @ ''` in module `'' @ mn_path n @
                  ''` is marked with @override but no direct base member was found'')))
       (filter d_is_override (mn_declarations n))"

section \<open>Final declarations\<close>

definition has_final_member ::
    "(bound_declaration \<Rightarrow> bool) \<Rightarrow> class_ref \<Rightarrow> bound_declaration \<Rightarrow> bool" where
  "has_final_member final base member \<longleftrightarrow>
     list_ex (\<lambda>d. declared_in (d_name (snd base)) d \<and> d_name d = d_name member \<and> final d)
       (mn_declarations (fst base))"

definition final_decorator_diagnostics :: "node list \<Rightarrow> node \<Rightarrow> diagnostic list" where
  "final_decorator_diagnostics nodes n =
     concat (map (\<lambda>class.
       concat (map (\<lambda>base.
         (if d_is_final_decorator (snd base)
          then [diagnostic_error ''TPY4005'' (''type `'' @ d_name class @ ''` in module `'' @ mn_path n @
                  ''` subclasses final class `'' @ d_name (snd base) @ ''`'')] else []) @
         map (\<lambda>member. diagnostic_error ''TPY4005''
                (''type `'' @ d_name class @ ''` in module `'' @ mn_path n @ ''` overrides final member `'' @
                 d_name member @ ''` from base `'' @ d_name (snd base) @ ''`''))
           (filter (has_final_member d_is_final_decorator base) (members_of n (d_name class))))
         (resolved_bases nodes n class)))
       (top_classes n))"

definition final_override_diagnostics :: "node list \<Rightarrow> node \<Rightarrow> diagnostic list" where
  "final_override_diagnostics nodes n =
     concat (map (\<lambda>class.
       concat (map (\<lambda>base.
         map (\<lambda>member. diagnostic_error ''TPY4006''
                (''type `'' @ d_name class @ ''` in module `'' @ mn_path n @ ''` overrides Final member `'' @
                 d_name member @ ''` from base `'' @ d_name (snd base) @ ''`''))
           (filter (has_final_member d_is_final base) (members_of n (d_name class))))
         (resolved_bases nodes n class)))
       (top_classes n))"

section \<open>Abstract members\<close>

text \<open>\<^verbatim>\<open>abstract_member_index\<close>: the last declaration of a member gives the kind.\<close>

definition abstract_member_index ::
    "bound_declaration list \<Rightarrow> ((string \<times> string) \<times> declaration_kind) list" where
  "abstract_member_index ds =
     bt_from_list (List.map_filter (\<lambda>d.
       case d_owner d of
         Some w \<Rightarrow> if d_is_abstract_method d then Some ((do_name w, d_name d), d_kind d) else None
       | None \<Rightarrow> None) ds)"

definition implements :: "node \<Rightarrow> string \<Rightarrow> string \<times> declaration_kind \<Rightarrow> bool" where
  "implements n class_name member \<longleftrightarrow>
     list_ex (\<lambda>d. d_name d = fst member \<and> d_kind d = snd member \<and> \<not> d_is_abstract_method d)
       (members_of n class_name)"

text \<open>The abstract members of one resolved base that the class does not implement itself.\<close>

definition unimplemented_of :: "node \<Rightarrow> bound_declaration \<Rightarrow> class_ref \<Rightarrow> string list" where
  "unimplemented_of n class base =
     map fst (filter (\<lambda>member. \<not> implements n (d_name class) member)
       (List.map_filter (\<lambda>((owner, name), kind).
            if owner = d_name (snd base) then Some (name, kind) else None)
          (abstract_member_index (mn_declarations (fst base)))))"

definition own_abstract :: "node \<Rightarrow> string \<Rightarrow> bool" where
  "own_abstract n class_name \<longleftrightarrow> list_ex d_is_abstract_method (members_of n class_name)"

definition abstract_member_diagnostics :: "node list \<Rightarrow> node \<Rightarrow> diagnostic list" where
  "abstract_member_diagnostics nodes n =
     concat (map (\<lambda>class.
       (if own_abstract n (d_name class) then []
        else concat (map (\<lambda>base.
               map (\<lambda>member. diagnostic_error ''TPY4008''
                      (''type `'' @ d_name class @ ''` in module `'' @ mn_path n @
                       ''` does not implement abstract member `'' @ member @ ''` from `'' @
                       d_name (snd base) @ ''`''))
                 (unimplemented_of n class base))
               (resolved_bases nodes n class))))
       (filter (\<lambda>d. d_class_kind d = Some OClass) (top_classes n)))"

definition is_abstract_class :: "node list \<Rightarrow> class_ref \<Rightarrow> bool" where
  "is_abstract_class nodes c \<longleftrightarrow>
     own_abstract (fst c) (d_name (snd c)) \<or>
     list_ex (\<lambda>base. unimplemented_of (fst c) (snd c) base \<noteq> []) (resolved_bases nodes (fst c) (snd c))"

definition abstract_instantiation ::
    "node list \<Rightarrow> node \<Rightarrow> call_site \<Rightarrow> diagnostic option" where
  "abstract_instantiation nodes n call =
     map_option (\<lambda>name. diagnostic_error ''TPY4007''
         (''module `'' @ mn_path n @ ''` directly instantiates abstract class `'' @ name @ ''`''))
       (if list_ex (\<lambda>class. d_name class = cl_callee call \<and> is_abstract_class nodes (n, class)) (top_classes n)
        then Some (cl_callee call)
        else (case resolve_direct_base nodes n (cl_callee call) of
                None \<Rightarrow> None
              | Some c \<Rightarrow> if is_abstract_class nodes c then Some (d_name (snd c)) else None))"

definition abstract_instantiation_diagnostics :: "node list \<Rightarrow> node \<Rightarrow> diagnostic list" where
  "abstract_instantiation_diagnostics nodes n =
     List.map_filter (abstract_instantiation nodes n) (si_calls (mn_sites n))"

section \<open>Interfaces\<close>

definition missing_interface_member ::
    "declaration_context \<Rightarrow> node list \<Rightarrow> node \<Rightarrow> bound_declaration \<Rightarrow> class_ref \<Rightarrow>
     string \<times> bound_declaration \<Rightarrow> diagnostic list option" where
  "missing_interface_member cx nodes n class base requirement =
     map_option (\<lambda>ok. if ok then [] else
         [diagnostic_error ''TPY4008''
            (''type `'' @ d_name class @ ''` in module `'' @ mn_path n @
             ''` does not implement interface member `'' @ fst requirement @ ''` from `'' @
             d_name (snd base) @ ''`'')])
       (actual_member_satisfies_requirement nodes (is_assignable (dc_fuel cx) (dc_options cx) nodes n)
          (n, class) (fst requirement) (snd requirement))"

definition interface_implementation_diagnostics ::
    "declaration_context \<Rightarrow> node list \<Rightarrow> node \<Rightarrow> diagnostic list option" where
  "interface_implementation_diagnostics cx nodes n =
     concat_opt (\<lambda>class.
       concat_opt (\<lambda>base.
         (case is_interface_like_declaration nodes base of
            None \<Rightarrow> None
          | Some False \<Rightarrow> Some []
          | Some True \<Rightarrow>
              (case collect_interface_members nodes base of
                 None \<Rightarrow> None
               | Some members \<Rightarrow> concat_opt (missing_interface_member cx nodes n class base) members)))
         (resolved_bases nodes n class))
       (filter (\<lambda>d. d_class_kind d \<noteq> Some OInterface) (top_classes n))"

section \<open>Sealed hierarchies\<close>

text \<open>\<^verbatim>\<open>resolve_sealed_root_with_visited\<close>.\<close>

primrec sealed_root_with_visited ::
    "nat \<Rightarrow> node list \<Rightarrow> node \<Rightarrow> string \<Rightarrow> (string \<times> string) set \<Rightarrow>
     (class_ref option \<times> (string \<times> string) set) option" where
  "sealed_root_with_visited 0 nodes n type_name visited = None"
| "sealed_root_with_visited (Suc fuel) nodes n type_name visited =
     (case resolve_direct_base nodes n type_name of
        None \<Rightarrow> Some (None, visited)
      | Some c \<Rightarrow>
          if class_key c \<in> visited then Some (None, visited)
          else if d_class_kind (snd c) = Some OSealedClass then Some (Some c, insert (class_key c) visited)
          else first_with (sealed_root_with_visited fuel nodes (fst c)) (rendered_class_bases (snd c))
                 (insert (class_key c) visited))"

definition resolve_sealed_root :: "node list \<Rightarrow> node \<Rightarrow> string \<Rightarrow> class_ref option option" where
  "resolve_sealed_root nodes n type_name =
     map_option fst (sealed_root_with_visited (Suc (class_fuel nodes)) nodes n type_name {})"

text \<open>\<^verbatim>\<open>sealed_descends_from_with_visited\<close>: \<open>Some ()\<close> is true.\<close>

primrec sealed_descends_with_visited ::
    "nat \<Rightarrow> node list \<Rightarrow> string \<Rightarrow> class_ref \<Rightarrow> (string \<times> string) set \<Rightarrow>
     (unit option \<times> (string \<times> string) set) option" where
  "sealed_descends_with_visited 0 nodes root c visited = None"
| "sealed_descends_with_visited (Suc fuel) nodes root c visited =
     (if class_key c \<in> visited then Some (None, visited)
      else first_with
             (\<lambda>base visited.
                if base = root then Some (Some (), visited)
                else (case resolve_direct_base nodes (fst c) base of
                        None \<Rightarrow> Some (None, visited)
                      | Some b \<Rightarrow> sealed_descends_with_visited fuel nodes root b visited))
             (rendered_class_bases (snd c)) (insert (class_key c) visited))"

definition sealed_descends_from :: "node list \<Rightarrow> class_ref \<Rightarrow> string \<Rightarrow> bool option" where
  "sealed_descends_from nodes c root =
     map_option (\<lambda>(r, _). r \<noteq> None) (sealed_descends_with_visited (Suc (class_fuel nodes)) nodes root c {})"

text \<open>
  \<^verbatim>\<open>collect_sealed_descendants\<close>: the loop over a stack of names, and its body for the
  classes that name the popped one as a base.
\<close>

definition push_descendant :: "string \<Rightarrow> string list \<times> string list \<Rightarrow> string list \<times> string list" where
  "push_descendant name state =
     (let (descendants, stack) = state
      in if name \<in> set descendants then state else (bs_insert name descendants, stack @ [name]))"

definition direct_subclasses :: "node \<Rightarrow> string \<Rightarrow> string list" where
  "direct_subclasses n current = map d_name (filter (\<lambda>d. has_class_base d current) (top_classes n))"

definition unseen :: "node \<Rightarrow> string list \<Rightarrow> nat" where
  "unseen n descendants = card (set (map d_name (top_classes n)) - set descendants)"

lemma push_descendant_unseen:
  assumes "name \<in> set (map d_name (top_classes n))" "push_descendant name (d, s) = (d', s')"
  shows "2 * unseen n d' + length s' \<le> 2 * unseen n d + length s"
proof (cases "name \<in> set d")
  case False
  let ?names = "set (map d_name (top_classes n))"
  have "?names - set (bs_insert name d) = (?names - set d) - {name}" by auto
  moreover have "card ((?names - set d) - {name}) < card (?names - set d)"
    using assms(1) False by (intro psubset_card_mono) auto
  ultimately have "unseen n d' < unseen n d" "length s' = Suc (length s)"
    using assms(2) False by (auto simp: push_descendant_def unseen_def)
  then show ?thesis by simp
qed (use assms(2) in \<open>simp add: push_descendant_def\<close>)

lemma push_descendants_unseen:
  "set names \<subseteq> set (map d_name (top_classes n)) \<Longrightarrow> fold push_descendant names (d, s) = (d', s') \<Longrightarrow>
     2 * unseen n d' + length s' \<le> 2 * unseen n d + length s"
proof (induction names arbitrary: d s)
  case (Cons name names)
  obtain d1 s1 where p: "push_descendant name (d, s) = (d1, s1)" by fastforce
  then have "2 * unseen n d' + length s' \<le> 2 * unseen n d1 + length s1"
    using Cons by (simp del: set_map)
  then show ?case using push_descendant_unseen [OF _ p, of n] Cons.prems(1) by simp
qed simp

function collect_descendants :: "node \<Rightarrow> string list \<times> string list \<Rightarrow> string list" where
  "collect_descendants n (descendants, stack) =
     (if stack = [] then descendants
      else collect_descendants n
             (fold push_descendant (direct_subclasses n (last stack)) (descendants, butlast stack)))"
  by pat_completeness auto
termination
proof (relation "measure (\<lambda>(n, descendants, stack). 2 * unseen n descendants + length stack)")
  fix n descendants and stack :: "string list"
  assume "stack \<noteq> []"
  obtain d s where f: "fold push_descendant (direct_subclasses n (last stack)) (descendants, butlast stack) = (d, s)"
    by fastforce
  have "2 * unseen n d + length s \<le> 2 * unseen n descendants + length (butlast stack)"
    by (rule push_descendants_unseen [OF _ f]) (auto simp: direct_subclasses_def)
  then show "((n, fold push_descendant (direct_subclasses n (last stack)) (descendants, butlast stack)),
      n, descendants, stack) \<in> measure (\<lambda>(n, descendants, stack). 2 * unseen n descendants + length stack)"
    using \<open>stack \<noteq> []\<close> f by (cases stack rule: rev_cases) auto
qed simp

definition collect_sealed_descendants :: "node \<Rightarrow> string \<Rightarrow> string list" where
  "collect_sealed_descendants n root = collect_descendants n ([], [root])"

declare collect_descendants.simps [simp del]

section \<open>Exhaustive matches\<close>

definition unguarded_patterns :: "match_site \<Rightarrow> match_pattern list" where
  "unguarded_patterns site = concat (map mk_patterns (filter (\<lambda>c. \<not> mk_has_guard c) (mt_cases site)))"

definition has_wildcard :: "match_site \<Rightarrow> bool" where
  "has_wildcard site \<longleftrightarrow> PWildcard \<in> set (unguarded_patterns site)"

definition leading_space_count :: "string \<Rightarrow> nat" where
  "leading_space_count line = length (takeWhile (\<lambda>c. c = CHR '' '') line)"

text \<open>\<^verbatim>\<open>lines.get(line.checked_sub(1)?)\<close>.\<close>

definition line_at :: "string list \<Rightarrow> nat \<Rightarrow> string option" where
  "line_at lines line = (if line = 0 \<or> length lines < line then None else Some (lines ! (line - 1)))"

definition render_case_arm :: "nat \<Rightarrow> string \<Rightarrow> string" where
  "render_case_arm case_indent arm =
     join_with [CHR 0x0A]
       (map (\<lambda>(index, line). replicate (if index = 0 then case_indent else case_indent + 4) (CHR '' '') @
               trim_start line)
          (zip [0..<length (str_lines arm)] (str_lines arm)))"

definition match_case_insertion_edit ::
    "string \<Rightarrow> string \<Rightarrow> match_site \<Rightarrow> string list \<Rightarrow> (span \<times> string) option" where
  "match_case_insertion_edit source path site rendered_cases =
     (if rendered_cases = [] then None
      else (let lines = str_lines source
            in map_option (\<lambda>match_line.
                 (let match_indent = leading_space_count match_line;
                      case_indent =
                        (case List.find (\<lambda>indent. match_indent < indent)
                                (map leading_space_count
                                   (List.map_filter (\<lambda>c. line_at lines (mk_line c)) (mt_cases site))) of
                           Some indent \<Rightarrow> indent | None \<Rightarrow> match_indent + 4);
                      rendered = join_with [CHR 0x0A] (map (render_case_arm case_indent) rendered_cases)
                  in case List.find (\<lambda>(index, line). trim line \<noteq> [] \<and> leading_space_count line \<le> match_indent)
                            (drop (mt_line site) (zip [0..<length lines] lines)) of
                       Some (index, _) \<Rightarrow>
                         (span_new path (index + 1) 1 (index + 1) 1, rendered @ [CHR 0x0A])
                     | None \<Rightarrow>
                         (let last_line = max (length lines) 1;
                              last_col = (if lines = [] then 1 else length (last lines) + 1)
                          in (span_new path last_line last_col last_line last_col,
                              CHR 0x0A # rendered @ [CHR 0x0A]))))
                 (line_at lines (mt_line site))))"

definition attach_match_case_suggestion ::
    "string option \<Rightarrow> string \<Rightarrow> match_site \<Rightarrow> string list \<Rightarrow> diagnostic \<Rightarrow> diagnostic" where
  "attach_match_case_suggestion source path site rendered_cases d =
     (case Option.bind source (\<lambda>s. match_case_insertion_edit s path site rendered_cases) of
        None \<Rightarrow> d
      | Some (s, replacement) \<Rightarrow>
          with_suggestion ''Add missing `match` case arms'' s replacement MachineApplicable d)"

text \<open>The diagnostic for the missing cases, none when there are none.\<close>

definition missing_cases_diagnostic ::
    "declaration_context \<Rightarrow> node \<Rightarrow> match_site \<Rightarrow> string \<Rightarrow> string \<Rightarrow> (string \<Rightarrow> string) \<Rightarrow> string list \<Rightarrow>
     diagnostic option" where
  "missing_cases_diagnostic cx n site over what arm missing =
     (if missing = [] then None
      else Some (attach_match_case_suggestion (dc_source cx n) (mn_path n) site
             (map (\<lambda>name. ''case '' @ arm name @ '':'' @ [CHR 0x0A] @ ''    ...'') missing)
             (diagnostic_error ''TPY4009''
               (''non-exhaustive `match` over '' @ over @ '' in module `'' @ mn_path n @ ''`; missing '' @
                what @ '': '' @ join_with '', '' missing))))"

text \<open>The names an unguarded class pattern covers in the module of the sealed root.\<close>

definition covered_by ::
    "node list \<Rightarrow> node \<Rightarrow> class_ref \<Rightarrow> match_pattern \<Rightarrow> string list option" where
  "covered_by nodes n root pattern =
     (case (case pattern of PClass name \<Rightarrow> resolve_direct_base nodes n name | _ \<Rightarrow> None) of
        None \<Rightarrow> Some []
      | Some c \<Rightarrow>
          if mn_key (fst c) \<noteq> mn_key (fst root) then Some []
          else if d_name (snd c) = d_name (snd root)
          then Some (collect_sealed_descendants (fst root) (d_name (snd root)))
          else map_option (\<lambda>descends.
                 if descends then d_name (snd c) # collect_sealed_descendants (fst root) (d_name (snd c)) else [])
               (sealed_descends_from nodes c (d_name (snd root))))"

definition sealed_match ::
    "declaration_context \<Rightarrow> node list \<Rightarrow> node \<Rightarrow> match_site \<Rightarrow> diagnostic list option" where
  "sealed_match cx nodes n site =
     (if has_wildcard site then Some []
      else (case dc_subject_type cx n site of
              None \<Rightarrow> Some []
            | Some subject \<Rightarrow>
                (case resolve_sealed_root nodes n (render_semantic_type subject) of
                   None \<Rightarrow> None
                 | Some None \<Rightarrow> Some []
                 | Some (Some root) \<Rightarrow>
                     (let closure = collect_sealed_descendants (fst root) (d_name (snd root))
                      in if closure = [] then Some []
                         else map_option (\<lambda>covered.
                                opt_list (missing_cases_diagnostic cx n site
                                  (''sealed root `'' @ d_name (snd root) @ ''`'') ''subclasses'' (\<lambda>name. name)
                                  (filter (\<lambda>name. name \<notin> set covered) closure)))
                              (concat_opt (covered_by nodes n root) (unguarded_patterns site))))))"

definition sealed_match_exhaustiveness_diagnostics ::
    "declaration_context \<Rightarrow> node list \<Rightarrow> node \<Rightarrow> diagnostic list option" where
  "sealed_match_exhaustiveness_diagnostics cx nodes n =
     concat_opt (sealed_match cx nodes n) (si_matches (mn_sites n))"

definition resolve_match_subject_enum_type :: "semantic_type \<Rightarrow> string" where
  "resolve_match_subject_enum_type subject =
     (let t = strip_annotated subject
      in case t of
           SGeneric head [SName name] \<Rightarrow>
             (if head = ''Literal''
              then (case rsplit_once CHR ''.'' name of
                      Some (owner, _) \<Rightarrow> normalize_type_text owner | None \<Rightarrow> render_semantic_type t)
              else render_semantic_type t)
         | _ \<Rightarrow> render_semantic_type t)"

definition enum_member_name_from_pattern :: "string \<Rightarrow> match_pattern \<Rightarrow> string option" where
  "enum_member_name_from_pattern enum_name pattern =
     (case pattern of
        PLiteral v \<Rightarrow>
          (case rsplit_once CHR ''.'' v of
             Some (owner, member) \<Rightarrow> if owner = enum_name then Some member else None
           | None \<Rightarrow> None)
      | _ \<Rightarrow> None)"

definition enum_match ::
    "declaration_context \<Rightarrow> node list \<Rightarrow> node \<Rightarrow> match_site \<Rightarrow> diagnostic list option" where
  "enum_match cx nodes n site =
     (if has_wildcard site then Some []
      else (case dc_subject_type cx n site of
              None \<Rightarrow> Some []
            | Some subject \<Rightarrow>
                (case resolve_direct_base nodes n (resolve_match_subject_enum_type subject) of
                   None \<Rightarrow> Some []
                 | Some c \<Rightarrow>
                     (case and_opt (is_enum_like_class (dc_fuel cx) nodes c)
                              (map_option Not (is_flag_enum_like_class (dc_fuel cx) nodes c)) of
                        None \<Rightarrow> None
                      | Some False \<Rightarrow> Some []
                      | Some True \<Rightarrow>
                          (let members = bs_from_list (map d_name
                                 (filter (\<lambda>d. d_kind d = DValue) (members_of (fst c) (d_name (snd c)))));
                               covered = List.map_filter (enum_member_name_from_pattern (d_name (snd c)))
                                 (unguarded_patterns site)
                           in Some (opt_list (missing_cases_diagnostic cx n site
                                (''enum `'' @ d_name (snd c) @ ''`'') ''members''
                                (\<lambda>name. d_name (snd c) @ ''.'' @ name)
                                (filter (\<lambda>name. name \<notin> set covered) members))))))))"

definition enum_match_exhaustiveness_diagnostics ::
    "declaration_context \<Rightarrow> node list \<Rightarrow> node \<Rightarrow> diagnostic list option" where
  "enum_match_exhaustiveness_diagnostics cx nodes n =
     concat_opt (enum_match cx nodes n) (si_matches (mn_sites n))"

fun literal_match_subject_values :: "semantic_type \<Rightarrow> string list option" where
  "literal_match_subject_values (SAnnotated t metadata) = literal_match_subject_values t"
| "literal_match_subject_values (SGeneric head args) =
     (if head = ''Literal'' \<and> args \<noteq> [] then Some (map render_semantic_type args) else None)"
| "literal_match_subject_values (SUnion branches) =
     concat_opt literal_match_subject_values branches"
| "literal_match_subject_values (SName name) = (if name = ''None'' then Some [''None''] else None)"
| "literal_match_subject_values _ = None"

definition literal_match :: "declaration_context \<Rightarrow> node \<Rightarrow> match_site \<Rightarrow> diagnostic option" where
  "literal_match cx n site =
     (if has_wildcard site then None
      else (case Option.bind (dc_subject_type cx n site) literal_match_subject_values of
              None \<Rightarrow> None
            | Some subject_values \<Rightarrow>
                (let literals = bs_from_list subject_values;
                     covered = List.map_filter (\<lambda>p. case p of PLiteral v \<Rightarrow> Some v | _ \<Rightarrow> None)
                       (unguarded_patterns site)
                 in if length literals < 2 then None
                    else missing_cases_diagnostic cx n site ''literal set'' ''cases'' (\<lambda>v. v)
                           (filter (\<lambda>v. v \<notin> set covered) literals))))"

definition literal_match_exhaustiveness_diagnostics ::
    "declaration_context \<Rightarrow> node \<Rightarrow> diagnostic list" where
  "literal_match_exhaustiveness_diagnostics cx n =
     List.map_filter (literal_match cx n) (si_matches (mn_sites n))"

section \<open>Duplicates\<close>

text \<open>The derived order of \<^verbatim>\<open>DeclarationOwnerKind\<close>.\<close>

definition owner_kind_rank :: "declaration_owner_kind \<Rightarrow> nat" where
  "owner_kind_rank k =
     (case k of OClass \<Rightarrow> 0 | OInterface \<Rightarrow> 1 | ODataClass \<Rightarrow> 2 | OSealedClass \<Rightarrow> 3)"

type_synonym declaration_space =
  "string option \<times> declaration_owner_kind option \<times> bound_declaration list"

definition declaration_spaces :: "bound_declaration list \<Rightarrow> declaration_space list" where
  "declaration_spaces ds =
     map (\<lambda>((owner, _), space). (owner, map_option do_kind (d_owner (hd space)), space))
       (fold (\<lambda>d. bt_push (map_option do_name (d_owner d),
                           map_option (\<lambda>w. owner_kind_rank (do_kind w)) (d_owner d)) d) ds [])"

definition classvar_placement_diagnostic ::
    "string \<Rightarrow> string option \<Rightarrow> bound_declaration \<Rightarrow> diagnostic option" where
  "classvar_placement_diagnostic path owner_name d =
     (if \<not> d_is_class_var d \<or> owner_name \<noteq> None then None
      else Some (diagnostic_error ''TPY4001''
             (''module `'' @ path @ ''` uses ClassVar binding `'' @ d_name d @
              ''` outside a class attribute declaration'')))"

definition named :: "string \<Rightarrow> bound_declaration list \<Rightarrow> bound_declaration list" where
  "named name ds = filter (\<lambda>d. d_name d = name) ds"

definition count_kind :: "declaration_kind \<Rightarrow> bound_declaration list \<Rightarrow> nat" where
  "count_kind k ds = length (filter (\<lambda>d. d_kind d = k) ds)"

definition in_space :: "string \<Rightarrow> string option \<Rightarrow> string" where
  "in_space path owner_name =
     (case owner_name of
        Some owner \<Rightarrow> ''type `'' @ owner @ ''` in module `'' @ path @ ''`''
      | None \<Rightarrow> ''module `'' @ path @ ''`'')"

definition final_reassignment_diagnostic ::
    "string \<Rightarrow> string option \<Rightarrow> string \<Rightarrow> bound_declaration list \<Rightarrow> diagnostic option" where
  "final_reassignment_diagnostic path owner_name duplicate ds =
     (if filter d_is_final (named duplicate ds) = [] then None
      else if length (named duplicate ds) \<le> 1 then None
      else Some (diagnostic_error ''TPY4006''
             (in_space path owner_name @ '' reassigns Final binding `'' @ duplicate @ ''`'')))"

definition duplicate_message :: "string \<Rightarrow> string option \<Rightarrow> string \<Rightarrow> string" where
  "duplicate_message path owner_name duplicate =
     in_space path owner_name @ (case owner_name of Some _ \<Rightarrow> '' declares member `'' | None \<Rightarrow> '' declares `'') @
     duplicate @ ''` more than once in the same declaration space''"

definition is_permitted_external_overload_group ::
    "source_kind \<Rightarrow> string \<Rightarrow> bound_declaration list \<Rightarrow> bool" where
  "is_permitted_external_overload_group module_kind duplicate ds \<longleftrightarrow>
     module_kind \<noteq> TypePythonSource \<and> list_all (\<lambda>d. d_kind d = DOverload) (named duplicate ds)"

definition is_invalid_duplicate_group :: "bound_declaration list \<Rightarrow> bool" where
  "is_invalid_duplicate_group ds \<longleftrightarrow>
     1 < length ds \<and>
     \<not> (1 \<le> count_kind DOverload ds \<and> count_kind DFunction ds = 1 \<and>
        count_kind DOverload ds + count_kind DFunction ds = length ds) \<and>
     \<not> (length ds = 2 \<and> list_all (\<lambda>d. d_kind d = DFunction) ds \<and>
        list_ex (\<lambda>d. d_method_kind d = Some PropertyMethod) ds \<and>
        list_ex (\<lambda>d. d_method_kind d = Some PropertySetterMethod) ds)"

definition invalid_duplicates :: "bound_declaration list \<Rightarrow> string list" where
  "invalid_duplicates ds =
     map fst (filter (\<lambda>(_, group). is_invalid_duplicate_group group)
       (fold (\<lambda>d. bt_push (d_name d) d) ds []))"

definition overload_shape_message :: "string \<Rightarrow> string option \<Rightarrow> string \<Rightarrow> string \<Rightarrow> string" where
  "overload_shape_message path owner_name duplicate suffix =
     in_space path owner_name @ '' declares overloads for `'' @ duplicate @ ''` '' @ suffix"

definition overload_shape_diagnostic ::
    "string \<Rightarrow> source_kind \<Rightarrow> string option \<Rightarrow> declaration_owner_kind option \<Rightarrow> string \<Rightarrow>
     bound_declaration list \<Rightarrow> diagnostic option" where
  "overload_shape_diagnostic path module_kind owner_name owner_kind duplicate ds =
     (let overloads = count_kind DOverload (named duplicate ds);
          functions = count_kind DFunction (named duplicate ds)
      in if owner_kind = Some OInterface then None
         else if overloads = 0 then None
         else if module_kind \<noteq> TypePythonSource \<and> functions = 0 then None
         else if functions = 1 then None
         else Some (diagnostic_error ''TPY4004''
                (overload_shape_message path owner_name duplicate
                  (if functions = 0 then ''without a concrete implementation''
                   else ''with more than one concrete implementation''))))"

definition property_mismatch ::
    "string \<Rightarrow> (string option \<times> string) \<times> bound_declaration list \<Rightarrow> diagnostic option" where
  "property_mismatch path entry =
     (let ((owner_name, member_name), ds) = entry;
          method_of = (\<lambda>k. List.find (\<lambda>d. d_kind d = DFunction \<and> d_method_kind d = Some k) ds)
      in Option.bind (method_of PropertyMethod) (\<lambda>getter.
         Option.bind (method_of PropertySetterMethod) (\<lambda>setter.
         Option.bind (declaration_signature_return_semantic_type getter) (\<lambda>getter_type.
         Option.bind (declaration_semantic_signature_params setter) (\<lambda>params.
           if length params < 2 then None
           else (let setter_type = annotation_or_dynamic (params ! 1)
                 in if getter_type = setter_type then None
                    else Some (diagnostic_error ''TPY4001''
                           (in_space path owner_name @ '' declares property `'' @ member_name @
                            ''` with getter type `'' @ render_semantic_type getter_type @
                            ''` but setter expects `'' @ render_semantic_type setter_type @ ''`''))))))))"

definition property_setter_compatibility_diagnostics ::
    "string \<Rightarrow> bound_declaration list \<Rightarrow> diagnostic list" where
  "property_setter_compatibility_diagnostics path ds =
     List.map_filter (property_mismatch path)
       (fold (\<lambda>d. bt_push (map_option do_name (d_owner d), d_name d) d) ds [])"

text \<open>The diagnostic of one duplicate name of a space.\<close>

definition duplicate_name_diagnostic ::
    "string \<Rightarrow> source_kind \<Rightarrow> declaration_space \<Rightarrow> string \<Rightarrow> diagnostic option" where
  "duplicate_name_diagnostic path module_kind space duplicate =
     (let (owner_name, owner_kind, ds) = space
      in case final_reassignment_diagnostic path owner_name duplicate ds of
           Some d \<Rightarrow> Some d
         | None \<Rightarrow>
             (case overload_shape_diagnostic path module_kind owner_name owner_kind duplicate ds of
                Some d \<Rightarrow> Some d
              | None \<Rightarrow>
                  if is_permitted_external_overload_group module_kind duplicate ds then None
                  else Some (diagnostic_error ''TPY4004'' (duplicate_message path owner_name duplicate))))"

definition space_diagnostics :: "string \<Rightarrow> source_kind \<Rightarrow> declaration_space \<Rightarrow> diagnostic list" where
  "space_diagnostics path module_kind space =
     (let (owner_name, owner_kind, ds) = space
      in List.map_filter (classvar_placement_diagnostic path owner_name) ds @
         List.map_filter (duplicate_name_diagnostic path module_kind space) (invalid_duplicates ds))"

definition duplicate_diagnostics ::
    "string \<Rightarrow> source_kind \<Rightarrow> bound_declaration list \<Rightarrow> diagnostic list" where
  "duplicate_diagnostics path module_kind ds =
     property_setter_compatibility_diagnostics path ds @
     concat (map (space_diagnostics path module_kind) (declaration_spaces ds))"

end
