(* ===== verification/Declaration_Props.thy ===== *)
theory Declaration_Props
  imports Declaration_Checks
begin

text \<open>
  Properties of the declaration checks: the closure of a sealed class, the exhaustiveness of a
  \<^verbatim>\<open>match\<close> over it, and what the checks of overriding and abstract members miss.
\<close>

section \<open>The closure of a sealed class\<close>

definition inherits_from :: "node \<Rightarrow> string \<Rightarrow> string \<Rightarrow> bool" where
  "inherits_from m a b \<longleftrightarrow> a \<in> set (direct_subclasses m b)"

lemma inherits_from_iff:
  "inherits_from m a b \<longleftrightarrow> (\<exists>d\<in>set (top_classes m). d_name d = a \<and> has_class_base d b)"
  by (auto simp: inherits_from_def direct_subclasses_def)

lemma push_descendant_sets:
  "push_descendant name (d, s) = (d', s') \<Longrightarrow>
     set d' = insert name (set d) \<and> set s \<subseteq> set s' \<and> set d' - set d \<subseteq> set s' \<and> set s' \<subseteq> insert name (set s)"
  by (auto simp: push_descendant_def split: if_splits)

lemma push_descendants_sets:
  "fold push_descendant names (d, s) = (d', s') \<Longrightarrow>
     set d' = set names \<union> set d \<and> set s \<subseteq> set s' \<and> set d' - set d \<subseteq> set s' \<and> set s' \<subseteq> set names \<union> set s"
proof (induction names arbitrary: d s)
  case (Cons name names)
  obtain d1 s1 where p: "push_descendant name (d, s) = (d1, s1)" by fastforce
  then have "fold push_descendant names (d1, s1) = (d', s')" using Cons.prems by simp
  note rest = Cons.IH [OF this] and first = push_descendant_sets [OF p]
  have "set d' - set d \<subseteq> (set d' - set d1) \<union> (set d1 - set d)" by blast
  also have "\<dots> \<subseteq> set s'" using rest first by blast
  finally have new: "set d' - set d \<subseteq> set s'" .
  have "set d' = set (name # names) \<union> set d" using rest first by simp
  moreover have "set s \<subseteq> set s'" "set s' \<subseteq> set (name # names) \<union> set s"
    using rest first by auto
  ultimately show ?case using new by blast
qed simp

lemma collect_descendants_closed:
  assumes "set stack \<subseteq> insert root (set descendants)"
    and "\<forall>x\<in>insert root (set descendants) - set stack. set (direct_subclasses m x) \<subseteq> set descendants"
    and "\<forall>x\<in>set descendants. (inherits_from m)\<^sup>+\<^sup>+ x root"
  shows "set (collect_descendants m (descendants, stack)) = {a. (inherits_from m)\<^sup>+\<^sup>+ a root}"
  using assms
proof (induction m "(descendants, stack)" arbitrary: descendants stack rule: collect_descendants.induct)
  case (1 m descendants stack)
  show ?case
  proof (cases "stack = []")
    case True
    have "a \<in> set descendants" if "(inherits_from m)\<^sup>+\<^sup>+ a root" for a
      using that
    proof (induction rule: converse_tranclp_induct)
      case (base a)
      then show ?case using 1(3) True by (auto simp: inherits_from_def)
    next
      case (step a b)
      then show ?case using 1(3) True by (auto simp: inherits_from_def)
    qed
    then show ?thesis using 1(4) True by (auto simp: collect_descendants.simps)
  next
    case False
    let ?top = "last stack" and ?names = "direct_subclasses m (last stack)"
    obtain d s where f: "fold push_descendant ?names (descendants, butlast stack) = (d, s)" by fastforce
    note sets = push_descendants_sets [OF f]
    have top: "?top \<in> insert root (set descendants)" using last_in_set [OF False] 1(2) by blast
    have above: "(inherits_from m)\<^sup>+\<^sup>+ x root" if "x \<in> set ?names" for x
    proof (cases "?top = root")
      case True
      then show ?thesis using that by (auto simp: inherits_from_def)
    next
      case other: False
      then have up: "(inherits_from m)\<^sup>+\<^sup>+ ?top root" using top 1(4) by simp
      have "inherits_from m x ?top" using that by (simp add: inherits_from_def)
      then show ?thesis using up by (meson tranclp_trans tranclp.r_into_trancl)
    qed
    have stack: "set stack = insert ?top (set (butlast stack))"
      using False by (cases stack rule: rev_cases) auto
    have "set (collect_descendants m (d, s)) = {a. (inherits_from m)\<^sup>+\<^sup>+ a root}"
    proof (rule 1(1) [OF False])
      show "fold push_descendant ?names (descendants, butlast stack) = (d, s)" by (rule f)
      show "set s \<subseteq> insert root (set d)" using sets 1(2) stack by auto
      show "\<forall>x\<in>insert root (set d) - set s. set (direct_subclasses m x) \<subseteq> set d"
      proof
        fix x assume x: "x \<in> insert root (set d) - set s"
        then have "x \<in> insert root (set descendants)" "x = ?top \<or> x \<notin> set stack"
          using sets stack by auto
        then show "set (direct_subclasses m x) \<subseteq> set d" using sets 1(3) by blast
      qed
      show "\<forall>x\<in>set d. (inherits_from m)\<^sup>+\<^sup>+ x root" using sets 1(4) above by auto
    qed
    then show ?thesis using False f by (simp add: collect_descendants.simps [of m descendants stack])
  qed
qed

lemma sealed_descendants_closure:
  "set (collect_sealed_descendants m root) = {a. (inherits_from m)\<^sup>+\<^sup>+ a root}"
  unfolding collect_sealed_descendants_def by (rule collect_descendants_closed) auto

section \<open>Descending from a name\<close>

text \<open>
  The search for a base of a given name as a search over classes, with one more element, the
  name itself.
\<close>

definition named_bases :: "node list \<Rightarrow> string \<Rightarrow> class_ref option \<Rightarrow> class_ref option list" where
  "named_bases nodes root c =
     (case c of
        None \<Rightarrow> []
      | Some c \<Rightarrow> List.map_filter
          (\<lambda>base. if base = root then Some None else map_option Some (resolve_direct_base nodes (fst c) base))
          (rendered_class_bases (snd c)))"

definition is_root :: "class_ref option \<Rightarrow> unit option" where
  "is_root c = (if c = None then Some () else None)"

lemma is_root_simps [simp]: "is_root None = Some ()" "is_root (Some c) = None"
  by (simp_all add: is_root_def)

interpretation sealed: class_search "map_option class_key" "named_bases nodes root" is_root
    "insert None (Some ` class_universe nodes)" for nodes root
proof unfold_locales
  fix c :: "class_ref option"
  assume "c \<in> insert None (Some ` class_universe nodes)"
  then show "set (named_bases nodes root c) \<subseteq> insert None (Some ` class_universe nodes)"
    using direct_bases_closed [of _ nodes]
    by (fastforce simp: named_bases_def direct_bases_def mem_map_filter split: if_splits)
next
  fix c d :: "class_ref option"
  assume "c \<in> insert None (Some ` class_universe nodes)" "d \<in> insert None (Some ` class_universe nodes)"
    "map_option class_key c = map_option class_key d"
  then show "c = d" by (auto dest: class_key_inj)
qed (simp add: finite_class_universe)


lemma card_named_universe:
  "card (insert None (Some ` class_universe nodes)) < Suc (class_fuel nodes)"
  using card_class_universe [of nodes] finite_class_universe [of nodes]
  by (simp add: card_image card_insert_if)

text \<open>What the search over the extended classes answers, the code answers.\<close>

definition follows :: "('r option \<times> (string \<times> string) option set) option \<Rightarrow>
    ('r option \<times> (string \<times> string) set) option \<Rightarrow> bool" where
  "follows x y \<longleftrightarrow> (\<forall>r w. x = Some (r, w) \<longrightarrow> (\<exists>v. w = Some ` v \<and> y = Some (r, v)))"

lemma follows_first_with:
  assumes "\<And>x v. x \<in> set xs \<Longrightarrow> follows (case g x of None \<Rightarrow> Some (None, Some ` v) | Some c \<Rightarrow> f c (Some ` v)) (h x v)"
  shows "follows (first_with f (List.map_filter g xs) (Some ` v)) (first_with h xs v)"
  using assms
proof (induction xs arbitrary: v)
  case (Cons x xs)
  let ?first = "case g x of None \<Rightarrow> Some (None, Some ` v) | Some c \<Rightarrow> f c (Some ` v)"
  have x: "follows ?first (h x v)" by (rule Cons.prems) simp
  have rest: "follows (first_with f (List.map_filter g xs) (Some ` v)) (first_with h xs v)" for v
    by (rule Cons.IH, rule Cons.prems) simp
  have run: "first_with f (List.map_filter g (x # xs)) (Some ` v) =
      (case ?first of None \<Rightarrow> None | Some (Some r, w) \<Rightarrow> Some (Some r, w)
       | Some (None, w) \<Rightarrow> first_with f (List.map_filter g xs) w)"
    by (simp add: map_filter_simps split: option.splits)
  show ?case
  proof (cases ?first)
    case None
    then show ?thesis unfolding run by (simp add: follows_def)
  next
    case (Some a)
    then obtain r w where first: "?first = Some (r, w)" by (cases a) simp
    then obtain v1 where w: "w = Some ` v1" and h: "h x v = Some (r, v1)"
      using x by (auto simp: follows_def)
    show ?thesis
    proof (cases r)
      case None
      then show ?thesis unfolding run using first h rest [of v1] w by simp
    next
      case (Some b)
      then show ?thesis unfolding run using first h w by (simp add: follows_def)
    qed
  qed
qed (simp add: follows_def)

lemma descends_search:
  "follows (sealed.search nodes root fuel (Some c) (Some ` v)) (sealed_descends_with_visited fuel nodes root c v)"
proof (induction fuel arbitrary: c v)
  case (Suc fuel)
  show ?case
  proof (cases "class_key c \<in> v")
    case False
    let ?h = "\<lambda>base visited. if base = root then Some (Some (), visited)
                else (case resolve_direct_base nodes (fst c) base of
                        None \<Rightarrow> Some (None, visited)
                      | Some b \<Rightarrow> sealed_descends_with_visited fuel nodes root b visited)"
    have bases: "named_bases nodes root (Some c) = List.map_filter
        (\<lambda>base. if base = root then Some None else map_option Some (resolve_direct_base nodes (fst c) base))
        (rendered_class_bases (snd c))" by (simp add: named_bases_def)
    have hit: "sealed.search nodes root fuel None w = None \<or> sealed.search nodes root fuel None w = Some (Some (), w)" for w
      by (cases fuel) simp_all
    have step: "follows (case (if x = root then Some None else map_option Some (resolve_direct_base nodes (fst c) x)) of
            None \<Rightarrow> Some (None, Some ` v) | Some c \<Rightarrow> sealed.search nodes root fuel c (Some ` v)) (?h x v)" for x v
      using Suc.IH hit [of "Some ` v"] by (auto simp: follows_def split: option.splits)
    have "follows (first_with (sealed.search nodes root fuel) (named_bases nodes root (Some c))
              (Some ` insert (class_key c) v))
            (first_with ?h (rendered_class_bases (snd c)) (insert (class_key c) v))"
      unfolding bases by (rule follows_first_with, rule step)
    then show ?thesis using False by auto
  qed (auto simp: follows_def)
qed (simp add: follows_def)

lemma named_bases_reach:
  "(\<lambda>x y. y \<in> set (named_bases nodes root x))\<^sup>*\<^sup>* (Some c) None \<longleftrightarrow>
     (\<exists>d. (\<lambda>x y. y \<in> set (direct_bases nodes x))\<^sup>*\<^sup>* c d \<and> root \<in> set (rendered_class_bases (snd d)))"
  (is "?E\<^sup>*\<^sup>* _ _ \<longleftrightarrow> ?R c")
proof
  have "c \<noteq> None \<Longrightarrow> ?R (the c)" if "?E\<^sup>*\<^sup>* c None" for c
    using that
  proof (induction rule: converse_rtranclp_induct)
    case (step x y)
    then obtain a where x: "x = Some a" by auto
    show ?case
    proof (cases y)
      case None
      then show ?thesis
        using step.hyps(1) x
        by (fastforce simp: named_bases_def mem_map_filter split: if_splits intro: exI [of _ a])
    next
      case (Some b)
      then have "b \<in> set (direct_bases nodes a)"
        using step.hyps(1) x by (auto simp: named_bases_def direct_bases_def mem_map_filter split: if_splits)
      then show ?thesis using step.IH Some x by (auto intro: converse_rtranclp_into_rtranclp)
    qed
  qed simp
  from this [of "Some c"] show "?E\<^sup>*\<^sup>* (Some c) None \<Longrightarrow> ?R c" by simp
next
  assume "?R c"
  then obtain d where d: "(\<lambda>x y. y \<in> set (direct_bases nodes x))\<^sup>*\<^sup>* c d"
    "root \<in> set (rendered_class_bases (snd d))" by blast
  have hit: "?E (Some a) None" if "root \<in> set (rendered_class_bases (snd a))" for a
    using that by (auto simp: named_bases_def mem_map_filter)
  show "?E\<^sup>*\<^sup>* (Some c) None"
    using d
  proof (induction rule: converse_rtranclp_induct)
    case base
    then show ?case using hit by blast
  next
    case (step a b)
    then obtain base where base: "base \<in> set (rendered_class_bases (snd a))"
      "resolve_direct_base nodes (fst a) base = Some b" by (auto simp: direct_bases_def mem_map_filter)
    show ?case
    proof (cases "base = root")
      case True
      then show ?thesis using hit base by blast
    next
      case False
      have "?E (Some a) (Some b)"
        unfolding named_bases_def mem_map_filter option.case
        by (rule bexI [of _ base]) (use base False in simp_all)
      then show ?thesis by (rule converse_rtranclp_into_rtranclp) (rule step.IH [OF step.prems])
    qed
  qed
qed

lemma sealed_descends_correct:
  assumes "canonical nodes c"
  shows "sealed_descends_from nodes c root =
     Some (\<exists>d. (\<lambda>x y. y \<in> set (direct_bases nodes x))\<^sup>*\<^sup>* c d \<and> root \<in> set (rendered_class_bases (snd d)))"
proof -
  have edge: "sealed.edge nodes root = (\<lambda>x y. y \<in> set (named_bases nodes root x))"
    by (intro ext) (simp add: sealed.edge_def)
  have "Some c \<in> insert None (Some ` class_universe nodes)" using assms by (simp add: class_universe_def)
  from sealed.search_correct [where root = root, OF this card_named_universe] obtain r w
    where s: "sealed.search nodes root (Suc (class_fuel nodes)) (Some c) {} = Some (r, w)"
    and r: "r \<noteq> None \<longleftrightarrow> (\<exists>d. (sealed.edge nodes root)\<^sup>*\<^sup>* (Some c) d \<and> is_root d \<noteq> None)"
    by blast
  have "r \<noteq> None \<longleftrightarrow> (sealed.edge nodes root)\<^sup>*\<^sup>* (Some c) None"
    unfolding r by (metis is_root_simps option.exhaust option.distinct(1))
  moreover obtain v where "sealed_descends_with_visited (Suc (class_fuel nodes)) nodes root c {} = Some (r, v)"
    using descends_search [of nodes root "Suc (class_fuel nodes)" c "{}"] s
    unfolding follows_def image_empty by blast
  ultimately show ?thesis
    unfolding edge named_bases_reach sealed_descends_from_def by (simp only: option.map prod.case)
qed


section \<open>The sealed root of a type\<close>

text \<open>
  The search for a sealed class above a class, as the search over classes whose answer is a
  sealed class. The code looks at the visited classes before it looks at the kind of a class; no
  sealed class is ever among them.
\<close>

definition sealed_answer :: "class_ref \<Rightarrow> class_ref option" where
  "sealed_answer c = (if d_class_kind (snd c) = Some OSealedClass then Some c else None)"

interpretation sroot: class_search class_key "direct_bases nodes" sealed_answer "class_universe nodes"
  for nodes
  by unfold_locales (rule direct_bases_closed class_key_inj finite_class_universe; assumption)+

definition no_sealed :: "node list \<Rightarrow> (string \<times> string) set \<Rightarrow> bool" where
  "no_sealed nodes v \<longleftrightarrow> (\<forall>d\<in>class_universe nodes. sealed_answer d \<noteq> None \<longrightarrow> class_key d \<notin> v)"

text \<open>The code answers what the search answers, and leaves the same classes when it finds none.\<close>

definition agrees ::
    "node list \<Rightarrow> ('r option \<times> (string \<times> string) set) option \<Rightarrow>
     ('r option \<times> (string \<times> string) set) option \<Rightarrow> bool" where
  "agrees nodes x y \<longleftrightarrow> (\<forall>r w. x = Some (r, w) \<longrightarrow>
     (\<exists>w'. y = Some (r, w') \<and> (r = None \<longrightarrow> w' = w \<and> no_sealed nodes w)))"

lemma agrees_first_with:
  assumes "no_sealed nodes v"
    and "\<And>x v. x \<in> set xs \<Longrightarrow> no_sealed nodes v \<Longrightarrow> agrees nodes (f x v) (h x v)"
  shows "agrees nodes (first_with f xs v) (first_with h xs v)"
  using assms
proof (induction xs arbitrary: v)
  case (Cons x xs)
  have x: "agrees nodes (f x v) (h x v)" using Cons.prems by simp
  show ?case
  proof (cases "f x v")
    case (Some a)
    then obtain r w where f: "f x v = Some (r, w)" by (cases a) simp
    then obtain w' where h: "h x v = Some (r, w')" "r = None \<longrightarrow> w' = w \<and> no_sealed nodes w"
      using x by (auto simp: agrees_def)
    show ?thesis
    proof (cases r)
      case None
      then show ?thesis using f h Cons.IH [of w] Cons.prems(2) by simp
    next
      case (Some b)
      then show ?thesis using f h by (simp add: agrees_def)
    qed
  qed (simp add: agrees_def)
qed (simp add: agrees_def)

lemma sealed_root_search:
  assumes "find_module nodes (mn_key n) = Some n" "no_sealed nodes v"
  shows "agrees nodes
     (case resolve_direct_base nodes n t of None \<Rightarrow> Some (None, v) | Some c \<Rightarrow> sroot.search nodes fuel c v)
     (sealed_root_with_visited (Suc fuel) nodes n t v)"
  using assms
proof (induction fuel arbitrary: n t v)
  case 0
  then show ?case by (simp add: agrees_def split: option.splits)
next
  case (Suc fuel)
  show ?case
  proof (cases "resolve_direct_base nodes n t")
    case None
    then show ?thesis using Suc.prems by (simp add: agrees_def)
  next
    case (Some c)
    have c: "canonical nodes c" by (rule resolve_direct_base_canonical [OF Suc.prems(1) Some])
    then have known: "find_module nodes (mn_key (fst c)) = Some (fst c)" and u: "c \<in> class_universe nodes"
      by (simp_all add: canonical_def class_universe_def)
    show ?thesis
    proof (cases "sealed_answer c")
      case (Some a)
      moreover from this have "class_key c \<notin> v" "d_class_kind (snd c) = Some OSealedClass" "a = c"
        using Suc.prems(2) u by (auto simp: no_sealed_def sealed_answer_def split: if_splits)
      ultimately show ?thesis using \<open>resolve_direct_base nodes n t = Some c\<close> by (simp add: agrees_def)
    next
      case None
      then have kind: "d_class_kind (snd c) \<noteq> Some OSealedClass" by (auto simp: sealed_answer_def)
      have fresh: "no_sealed nodes (insert (class_key c) v)"
        using Suc.prems(2) u None class_key_inj unfolding no_sealed_def by (metis insertE)
      have "agrees nodes
          (first_with (\<lambda>t v. case resolve_direct_base nodes (fst c) t of
               None \<Rightarrow> Some (None, v) | Some d \<Rightarrow> sroot.search nodes fuel d v)
             (rendered_class_bases (snd c)) (insert (class_key c) v))
          (first_with (sealed_root_with_visited (Suc fuel) nodes (fst c)) (rendered_class_bases (snd c))
             (insert (class_key c) v))"
        by (rule agrees_first_with [OF fresh], rule Suc.IH [OF known])
      then have "class_key c \<notin> v \<Longrightarrow> agrees nodes (first_with (sroot.search nodes fuel) (direct_bases nodes c) (insert (class_key c) v))
          (first_with (sealed_root_with_visited (Suc fuel) nodes (fst c)) (rendered_class_bases (snd c))
             (insert (class_key c) v))"
        by (simp only: first_with_resolved direct_bases_def)
      then show ?thesis
        using Some None kind Suc.prems(2) by (auto simp: agrees_def simp del: sealed_root_with_visited.simps(2) simp: sealed_root_with_visited.simps(2) [of "Suc fuel"])
    qed
  qed
qed

lemma sealed_root_correct:
  assumes "find_module nodes (mn_key n) = Some n"
  shows "\<exists>r. resolve_sealed_root nodes n t = Some r \<and>
    (\<forall>d. r = Some d \<longrightarrow> (\<exists>c. resolve_direct_base nodes n t = Some c \<and>
        (\<lambda>x y. y \<in> set (direct_bases nodes x))\<^sup>*\<^sup>* c d \<and> d_class_kind (snd d) = Some OSealedClass)) \<and>
    (r = None \<longrightarrow> \<not> (\<exists>c d. resolve_direct_base nodes n t = Some c \<and>
        (\<lambda>x y. y \<in> set (direct_bases nodes x))\<^sup>*\<^sup>* c d \<and> d_class_kind (snd d) = Some OSealedClass))"
proof (cases "resolve_direct_base nodes n t")
  case None
  then show ?thesis by (simp add: resolve_sealed_root_def)
next
  case (Some c)
  have edge: "sroot.edge nodes = (\<lambda>x y. y \<in> set (direct_bases nodes x))"
    by (intro ext) (simp add: sroot.edge_def)
  have answer: "sealed_answer d = Some e \<longleftrightarrow> e = d \<and> d_class_kind (snd d) = Some OSealedClass" for d e
    by (auto simp: sealed_answer_def)
  have "c \<in> class_universe nodes"
    using resolve_direct_base_canonical [OF assms Some] by (simp add: class_universe_def)
  from sroot.search_correct [OF this card_class_universe] obtain r w where
    s: "sroot.search nodes (class_fuel nodes) c {} = Some (r, w)"
    and r: "r \<noteq> None \<longleftrightarrow> (\<exists>d. (sroot.edge nodes)\<^sup>*\<^sup>* c d \<and> sealed_answer d \<noteq> None)" by blast
  have "no_sealed nodes {}" by (simp add: no_sealed_def)
  from sealed_root_search [OF assms this, where t = t and fuel = "class_fuel nodes"] Some s
  have root: "resolve_sealed_root nodes n t = Some r" by (auto simp: agrees_def resolve_sealed_root_def)
  have "\<exists>d. (sroot.edge nodes)\<^sup>*\<^sup>* c d \<and> sealed_answer d = Some e" if "r = Some e" for e
    using sroot.search_sound s that by blast
  then have found: "\<exists>d. (sroot.edge nodes)\<^sup>*\<^sup>* c d \<and> e = d \<and> d_class_kind (snd d) = Some OSealedClass"
    if "r = Some e" for e using that answer by blast
  have none: "\<not> (\<exists>d. (sroot.edge nodes)\<^sup>*\<^sup>* c d \<and> d_class_kind (snd d) = Some OSealedClass)" if "r = None"
    using r that answer by blast
  show ?thesis
    using found none unfolding edge root Some
    by (cases r) (simp_all del: split_paired_Ex split_paired_All)
qed

section \<open>Matches over a sealed class\<close>

text \<open>
  When an unguarded pattern covers a class below the root: it names the root, or a class that
  descends from the root and is the class or above it.
\<close>

definition pattern_covers ::
    "node list \<Rightarrow> node \<Rightarrow> node \<Rightarrow> string \<Rightarrow> match_pattern \<Rightarrow> string \<Rightarrow> bool" where
  "pattern_covers nodes n m root pattern a \<longleftrightarrow>
     (\<exists>p c. pattern = PClass p \<and> resolve_direct_base nodes n p = Some c \<and> mn_key (fst c) = mn_key m \<and>
        (d_name (snd c) = root \<or>
         (inherits_from m)\<^sup>*\<^sup>* a (d_name (snd c)) \<and>
         (\<exists>d. (\<lambda>x y. y \<in> set (direct_bases nodes x))\<^sup>*\<^sup>* c d \<and> root \<in> set (rendered_class_bases (snd d)))))"

lemma covered_by_covers:
  assumes known: "find_module nodes (mn_key n) = Some n"
  shows "\<exists>xs. covered_by nodes n (m, root) pattern = Some xs \<and>
     (\<forall>a. (inherits_from m)\<^sup>+\<^sup>+ a (d_name root) \<longrightarrow> (a \<in> set xs \<longleftrightarrow> pattern_covers nodes n m (d_name root) pattern a))"
proof (cases "\<exists>p c. pattern = PClass p \<and> resolve_direct_base nodes n p = Some c")
  case True
  then obtain p c where p: "pattern = PClass p" "resolve_direct_base nodes n p = Some c" by blast
  define below where
    "below = (\<exists>d. (\<lambda>x y. y \<in> set (direct_bases nodes x))\<^sup>*\<^sup>* c d \<and> d_name root \<in> set (rendered_class_bases (snd d)))"
  have pattern_covers: "pattern_covers nodes n m (d_name root) pattern a \<longleftrightarrow> mn_key (fst c) = mn_key m \<and>
      (d_name (snd c) = d_name root \<or> (inherits_from m)\<^sup>*\<^sup>* a (d_name (snd c)) \<and> below)" for a
    by (auto simp: pattern_covers_def p below_def simp del: split_paired_Ex)
  have "sealed_descends_from nodes c (d_name root) = Some below"
    unfolding below_def by (rule sealed_descends_correct) (rule resolve_direct_base_canonical [OF known p(2)])
  then show ?thesis
    unfolding pattern_covers using p
    by (cases below) (auto simp: covered_by_def sealed_descendants_closure Nitpick.rtranclp_unfold)
next
  case False
  then have "covered_by nodes n (m, root) pattern = Some []"
    by (cases pattern) (auto simp: covered_by_def simp del: split_paired_Ex split_paired_All split: option.splits)
  then show ?thesis using False by (auto simp: pattern_covers_def)
qed

lemma concat_opt_members:
  "(\<And>x. x \<in> set xs \<Longrightarrow> \<exists>ys. f x = Some ys \<and> (\<forall>a\<in>A. a \<in> set ys \<longleftrightarrow> P x a)) \<Longrightarrow>
     \<exists>zs. concat_opt f xs = Some zs \<and> (\<forall>a\<in>A. a \<in> set zs \<longleftrightarrow> (\<exists>x\<in>set xs. P x a))"
proof (induction xs)
  case (Cons x xs)
  obtain zs where "concat_opt f xs = Some zs" "\<forall>a\<in>A. a \<in> set zs \<longleftrightarrow> (\<exists>x\<in>set xs. P x a)"
    using Cons.IH Cons.prems by auto
  moreover obtain ys where "f x = Some ys" "\<forall>a\<in>A. a \<in> set ys \<longleftrightarrow> P x a"
    using Cons.prems [of x] by auto
  ultimately show ?case by auto
qed simp

text \<open>The sealed class that a match is about: one above the class its subject names.\<close>

definition sealed_subject ::
    "declaration_context \<Rightarrow> node list \<Rightarrow> node \<Rightarrow> match_site \<Rightarrow> node \<times> bound_declaration \<Rightarrow> bool" where
  "sealed_subject cx nodes n site root \<longleftrightarrow>
     (\<exists>subject. dc_subject_type cx n site = Some subject \<and>
        resolve_sealed_root nodes n (render_semantic_type subject) = Some (Some root))"

lemma sealed_match_root:
  assumes "find_module nodes (mn_key n) = Some n" "sealed_subject cx nodes n site (m, root)"
  shows "\<exists>ds. sealed_match cx nodes n site = Some ds \<and>
     (ds \<noteq> [] \<longleftrightarrow> \<not> has_wildcard site \<and>
       (\<exists>a. (inherits_from m)\<^sup>+\<^sup>+ a (d_name root) \<and>
          \<not> (\<exists>pattern\<in>set (unguarded_patterns site). pattern_covers nodes n m (d_name root) pattern a)))"
proof -
  let ?closure = "collect_sealed_descendants m (d_name root)"
  note closure = sealed_descendants_closure [of m "d_name root"]
  obtain covered where covered: "concat_opt (covered_by nodes n (m, root)) (unguarded_patterns site) = Some covered"
    "\<forall>a\<in>set ?closure. a \<in> set covered \<longleftrightarrow>
       (\<exists>pattern\<in>set (unguarded_patterns site). pattern_covers nodes n m (d_name root) pattern a)"
    using concat_opt_members [of "unguarded_patterns site" "covered_by nodes n (m, root)" "set ?closure"
        "pattern_covers nodes n m (d_name root)"] covered_by_covers [OF assms(1), of m root]
    unfolding closure by blast
  have left_out: "filter (\<lambda>name. name \<notin> set covered) ?closure \<noteq> [] \<longleftrightarrow> (\<exists>a. (inherits_from m)\<^sup>+\<^sup>+ a (d_name root) \<and>
      \<not> (\<exists>pattern\<in>set (unguarded_patterns site). pattern_covers nodes n m (d_name root) pattern a))"
    using covered(2) closure by (auto simp: filter_empty_conv)
  have empty: "?closure = [] \<Longrightarrow> filter (\<lambda>name. name \<notin> set covered) ?closure = []" by simp
  from assms(2) show ?thesis
    unfolding left_out [symmetric] sealed_subject_def
    by (auto simp add: sealed_match_def covered(1) missing_cases_diagnostic_def opt_list_def Let_def)
qed

text \<open>
  C4: the check of a \<^verbatim>\<open>match\<close> over a sealed class always returns, on cyclic
  hierarchies too. The search for the sealed class of the subject finds one exactly when following
  the bases of the class that the subject names leads to one; and a report is made exactly when
  there is such a class, there is no unguarded wildcard, and a class below the root (in the module
  of the root, any number of steps down) is covered by no unguarded class pattern.

  The root itself need not be covered. The language specification (docs/spec/language-spec-v1.md,
  the boundary of sealed closures) computes exhaustiveness from the root and the classes below it,
  so the check is more lenient than the specification: a match that names every subclass passes,
  although an instance of the root itself falls through it.
\<close>

theorem sealed_match_exhaustive:
  assumes "find_module nodes (mn_key n) = Some n"
  shows "(\<forall>subject. \<exists>r. resolve_sealed_root nodes n subject = Some r \<and>
      (r \<noteq> None \<longleftrightarrow> (\<exists>c d. resolve_direct_base nodes n subject = Some c \<and>
         (\<lambda>x y. y \<in> set (direct_bases nodes x))\<^sup>*\<^sup>* c d \<and> d_class_kind (snd d) = Some OSealedClass))) \<and>
    (\<exists>ds. sealed_match cx nodes n site = Some ds \<and>
      (ds \<noteq> [] \<longleftrightarrow> \<not> has_wildcard site \<and>
        (\<exists>m root a. sealed_subject cx nodes n site (m, root) \<and> (inherits_from m)\<^sup>+\<^sup>+ a (d_name root) \<and>
          \<not> (\<exists>pattern\<in>set (unguarded_patterns site). pattern_covers nodes n m (d_name root) pattern a))))"
proof
  show "\<forall>subject. \<exists>r. resolve_sealed_root nodes n subject = Some r \<and>
      (r \<noteq> None \<longleftrightarrow> (\<exists>c d. resolve_direct_base nodes n subject = Some c \<and>
         (\<lambda>x y. y \<in> set (direct_bases nodes x))\<^sup>*\<^sup>* c d \<and> d_class_kind (snd d) = Some OSealedClass))"
    using sealed_root_correct [OF assms] by blast
next
  show "\<exists>ds. sealed_match cx nodes n site = Some ds \<and>
      (ds \<noteq> [] \<longleftrightarrow> \<not> has_wildcard site \<and>
        (\<exists>m root a. sealed_subject cx nodes n site (m, root) \<and> (inherits_from m)\<^sup>+\<^sup>+ a (d_name root) \<and>
          \<not> (\<exists>pattern\<in>set (unguarded_patterns site). pattern_covers nodes n m (d_name root) pattern a)))"
  proof (cases "\<exists>m root. sealed_subject cx nodes n site (m, root)")
    case True
    then obtain m root where sub: "sealed_subject cx nodes n site (m, root)" by blast
    moreover have "sealed_subject cx nodes n site (m', root') \<Longrightarrow> m' = m \<and> root' = root" for m' root'
      using sub by (auto simp: sealed_subject_def)
    ultimately show ?thesis using sealed_match_root [OF assms sub] by blast
  next
    case False
    then have "sealed_match cx nodes n site = Some []"
      using sealed_root_correct [OF assms]
      by (fastforce simp: sealed_match_def sealed_subject_def split: option.splits)
    with False show ?thesis by blast
  qed
qed

text \<open>A shape with circles and squares, a square of its own kind, and three ways to match it.\<close>

definition shape_module :: node where
  "shape_module = plain_node ''m''
     [class_decl ''Shape'' OSealedClass [], class_decl ''Circle'' OClass [''Shape''],
      class_decl ''Quad'' OClass [''Shape''], class_decl ''Square'' OClass [''Quad'']]"

definition shape_match :: "string list \<Rightarrow> match_site" where
  "shape_match classes =
     \<lparr>mt_owner_name = None, mt_owner_type_name = None, mt_subject = None, mt_parts = head_parts None empty_expr,
      mt_cases = map (\<lambda>c. \<lparr>mk_patterns = [PClass c], mk_capture_names = [], mk_has_guard = False, mk_line = 2\<rparr>) classes,
      mt_line = 1\<rparr>"

definition shape_context :: declaration_context where
  "shape_context =
     \<lparr>dc_fuel = 9, dc_options = default_options, dc_source = (\<lambda>_. None), dc_method_sites = (\<lambda>_. []),
      dc_subject_type = (\<lambda>_ _. Some (SName ''Shape''))\<rparr>"

theorem sealed_match_exhaustive_witness:
  "sealed_match shape_context [shape_module] shape_module (shape_match [''Circle'', ''Quad'']) = Some [] \<and>
   (\<exists>m root a. sealed_subject shape_context [shape_module] shape_module (shape_match [''Circle'', ''Square'']) (m, root) \<and>
      (inherits_from m)\<^sup>+\<^sup>+ a (d_name root) \<and>
      \<not> (\<exists>pattern\<in>set (unguarded_patterns (shape_match [''Circle'', ''Square''])).
            pattern_covers [shape_module] shape_module m (d_name root) pattern a))"
proof
  show "sealed_match shape_context [shape_module] shape_module (shape_match [''Circle'', ''Quad'']) = Some []"
    by code_simp
  have "map_option length (sealed_match shape_context [shape_module] shape_module
      (shape_match [''Circle'', ''Square''])) = Some 1" by code_simp
  moreover have known: "find_module [shape_module] (mn_key shape_module) = Some shape_module" by code_simp
  ultimately show "\<exists>m root a. sealed_subject shape_context [shape_module] shape_module (shape_match [''Circle'', ''Square'']) (m, root) \<and>
      (inherits_from m)\<^sup>+\<^sup>+ a (d_name root) \<and>
      \<not> (\<exists>pattern\<in>set (unguarded_patterns (shape_match [''Circle'', ''Square''])).
            pattern_covers [shape_module] shape_module m (d_name root) pattern a)"
    using sealed_match_exhaustive [OF known, of shape_context "shape_match [''Circle'', ''Square'']"] by auto
qed

section \<open>Generic bases\<close>

text \<open>
  A generic class \<^verbatim>\<open>Base[T]\<close> with an abstract and a final member, and two subclasses that
  override the same members, of \<^verbatim>\<open>Base\<close> and of \<^verbatim>\<open>Base[int]\<close>.
\<close>

definition base_members :: "bound_declaration list" where
  "base_members =
     [class_decl ''Base'' OClass [],
      (method_decl ''run'' ''Base'' OClass \<lparr>bs_params = [], bs_returns = None\<rparr>)\<lparr>d_is_abstract_method := True\<rparr>,
      (method_decl ''stop'' ''Base'' OClass \<lparr>bs_params = [], bs_returns = None\<rparr>)\<lparr>d_is_final_decorator := True\<rparr>]"

definition child_class :: "type_expr \<Rightarrow> bound_declaration" where
  "child_class base = (bare_declaration ''Child'' DClass (MClass [base]))\<lparr>d_class_kind := Some OClass\<rparr>"

definition child_module :: "type_expr \<Rightarrow> node" where
  "child_module base = plain_node ''m'' (base_members @
     [child_class base,
      (method_decl ''stop'' ''Child'' OClass \<lparr>bs_params = [], bs_returns = None\<rparr>)\<lparr>d_is_override := True\<rparr>])"

definition plain_child :: node where
  "plain_child = child_module (TName ''Base'')"

definition generic_child :: node where
  "generic_child = child_module (TGeneric ''Base'' [TName ''int''])"

text \<open>On this sample each of the three checks judges the plain base rightly and the other wrongly.\<close>

lemma generic_base_sample:
  "override_diagnostics [plain_child] plain_child = [] \<and>
   final_decorator_diagnostics [plain_child] plain_child \<noteq> [] \<and>
   abstract_member_diagnostics [plain_child] plain_child \<noteq> [] \<and>
   override_diagnostics [generic_child] generic_child \<noteq> [] \<and>
   final_decorator_diagnostics [generic_child] generic_child = [] \<and>
   abstract_member_diagnostics [generic_child] generic_child = [] \<and>
   map_option (map_option d_owner)
     (find_member_declaration [generic_child] (generic_child, child_class (TGeneric ''Base'' [TName ''int'']))
        ''run'' is_callable_declaration) = Some (Some (Some \<lparr>do_name = ''Base'', do_kind = OClass\<rparr>))"
  by code_simp

text \<open>A module with the parametrised bases of its classes taken away.\<close>

definition parametrised :: "type_expr \<Rightarrow> bool" where
  "parametrised b \<longleftrightarrow> (case b of TGeneric _ _ \<Rightarrow> True | _ \<Rightarrow> False)"

definition erase_generic_bases :: "bound_declaration \<Rightarrow> bound_declaration" where
  "erase_generic_bases d =
     (case d_metadata d of
        MClass bases \<Rightarrow>
          if d_kind d = DClass then d\<lparr>d_metadata := MClass (filter (\<lambda>b. \<not> parametrised b) bases)\<rparr> else d
      | _ \<Rightarrow> d)"

definition without_generic_bases :: "node \<Rightarrow> node" where
  "without_generic_bases n = n\<lparr>mn_declarations := map erase_generic_bases (mn_declarations n)\<rparr>"

lemma erase_simps [simp]:
  "d_name (erase_generic_bases d) = d_name d" "d_kind (erase_generic_bases d) = d_kind d"
  "d_owner (erase_generic_bases d) = d_owner d" "d_class_kind (erase_generic_bases d) = d_class_kind d"
  "d_is_override (erase_generic_bases d) = d_is_override d"
  "d_is_abstract_method (erase_generic_bases d) = d_is_abstract_method d"
  "d_is_final_decorator (erase_generic_bases d) = d_is_final_decorator d"
  "d_is_final (erase_generic_bases d) = d_is_final d"
  "declared_in name (erase_generic_bases d) = declared_in name d"
  by (simp_all add: erase_generic_bases_def declared_in_def split: declaration_metadata.split)

lemma without_simps [simp]:
  "mn_declarations (without_generic_bases n) = map erase_generic_bases (mn_declarations n)"
  "mn_path (without_generic_bases n) = mn_path n"
  by (simp_all add: without_generic_bases_def)

lemma find_map_keeps:
  "(\<And>x. P (f x) = P x) \<Longrightarrow> List.find P (map f xs) = map_option f (List.find P xs)"
  by (induction xs) simp_all

lemma parametrised_bracket: "parametrised b \<Longrightarrow> CHR ''['' \<in> set (render b)"
  by (cases b) (simp_all add: parametrised_def)

lemma bracket_is_unknown:
  assumes "list_all (\<lambda>d. CHR ''['' \<notin> set (d_name d)) (mn_declarations n)" "CHR ''['' \<in> set t"
  shows "resolve_direct_base nodes n t = None"
proof -
  have "find_of_kind DClass n t = None" "find_import n t = None"
    using assms by (auto simp: find_of_kind_def find_import_def find_None_iff list_all_iff)
  then show ?thesis by (simp add: resolve_direct_base_def resolve_imported_target_def)
qed

text \<open>A class of the module, and what became of it.\<close>

definition twins :: "node \<Rightarrow> class_ref \<Rightarrow> class_ref \<Rightarrow> bool" where
  "twins n c c' \<longleftrightarrow> c' = c \<or> (fst c = n \<and> c' = (without_generic_bases n, erase_generic_bases (snd c)))"

lemma resolve_twin:
  "rel_option (twins n) (resolve_direct_base nodes n t) (resolve_direct_base nodes (without_generic_bases n) t)"
proof -
  have "find_of_kind DClass (without_generic_bases n) t =
      map_option erase_generic_bases (find_of_kind DClass n t)"
    by (simp add: find_of_kind_def find_map_keeps)
  moreover have "resolve_imported_target (without_generic_bases n) nodes t = resolve_imported_target n nodes t"
  proof -
    have same: "d_kind d = DImport \<Longrightarrow> erase_generic_bases d = d" for d
      by (simp add: erase_generic_bases_def split: declaration_metadata.split)
    have "find_import (without_generic_bases n) t = map_option erase_generic_bases (find_import n t)"
      by (simp add: find_import_def find_map_keeps)
    also have "\<dots> = find_import n t"
      by (cases "find_import n t") (auto simp: find_import_def same dest!: find_SomeD)
    finally show ?thesis by (simp add: resolve_imported_target_def)
  qed
  moreover have "rel_option (twins n) x x" for x by (cases x) (simp_all add: twins_def)
  ultimately show ?thesis
    by (cases "find_of_kind DClass n t") (simp_all add: resolve_direct_base_def twins_def)
qed

lemma erased_base_texts:
  "rendered_class_bases (erase_generic_bases d) = rendered_class_bases d \<or>
   (\<exists>bases. rendered_class_bases d = map render bases \<and>
      rendered_class_bases (erase_generic_bases d) = map render (filter (\<lambda>b. \<not> parametrised b) bases))"
  by (auto simp: erase_generic_bases_def rendered_class_bases_def class_bases_def split: declaration_metadata.split)

lemma resolved_twins:
  assumes names: "list_all (\<lambda>d. CHR ''['' \<notin> set (d_name d)) (mn_declarations n)"
    and f: "\<And>c c'. twins n c c' \<Longrightarrow> g c' = f c"
  shows "map g (resolved_bases nodes (without_generic_bases n) (erase_generic_bases d)) =
    map f (resolved_bases nodes n d)"
proof -
  have step: "map g (List.map_filter (resolve_direct_base nodes (without_generic_bases n)) ts) =
      map f (List.map_filter (resolve_direct_base nodes n) ts)" for ts
  proof (induction ts)
    case (Cons t ts)
    then show ?case using resolve_twin [of n nodes t]
      by (auto simp: map_filter_simps f rel_option_iff split: option.splits)
  qed (simp add: map_filter_simps)
  have gone: "List.map_filter (resolve_direct_base nodes n) (map render (filter (\<lambda>b. \<not> parametrised b) bases)) =
      List.map_filter (resolve_direct_base nodes n) (map render bases)" for bases
    using bracket_is_unknown [OF names] parametrised_bracket
    by (induction bases) (auto simp: map_filter_simps split: option.splits)
  show ?thesis
    using erased_base_texts [of d] step gone by (auto simp: resolved_bases_def)
qed

lemma twin_view:
  assumes "twins n c c'"
  shows "d_name (snd c') = d_name (snd c)" "d_is_final_decorator (snd c') = d_is_final_decorator (snd c)"
    and "has_final_member d_is_final_decorator c' (erase_generic_bases m) = has_final_member d_is_final_decorator c m"
    and "has_final_member d_is_final c' (erase_generic_bases m) = has_final_member d_is_final c m"
    and "unimplemented_of (without_generic_bases n) (erase_generic_bases class) c' = unimplemented_of n class c"
    and "list_ex (\<lambda>d. d_name d = name \<and> declared_in (d_name (snd c')) d) (mn_declarations (fst c')) =
      list_ex (\<lambda>d. d_name d = name \<and> declared_in (d_name (snd c)) d) (mn_declarations (fst c))"
proof -
  have index: "abstract_member_index (map erase_generic_bases ds) = abstract_member_index ds" for ds
    by (simp add: abstract_member_index_def map_filter_def filter_map comp_def cong: option.case_cong if_cong)
  have ex: "list_ex P (map erase_generic_bases ds) = list_ex (\<lambda>d. P (erase_generic_bases d)) ds" for P ds
    by (induction ds) simp_all
  have implements: "implements (without_generic_bases n) name = implements n name" for name
    by (intro ext) (simp add: implements_def members_of_def filter_map comp_def ex)
  show "d_name (snd c') = d_name (snd c)" "d_is_final_decorator (snd c') = d_is_final_decorator (snd c)"
    "has_final_member d_is_final_decorator c' (erase_generic_bases m) = has_final_member d_is_final_decorator c m"
    "has_final_member d_is_final c' (erase_generic_bases m) = has_final_member d_is_final c m"
    "unimplemented_of (without_generic_bases n) (erase_generic_bases class) c' = unimplemented_of n class c"
    "list_ex (\<lambda>d. d_name d = name \<and> declared_in (d_name (snd c')) d) (mn_declarations (fst c')) =
      list_ex (\<lambda>d. d_name d = name \<and> declared_in (d_name (snd c)) d) (mn_declarations (fst c))"
    using assms
    unfolding twins_def
    by (elim disjE conjE; simp add: has_final_member_def ex unimplemented_of_def index implements)+
qed

lemma classes_without:
  "top_classes (without_generic_bases n) = map erase_generic_bases (top_classes n)"
  "members_of (without_generic_bases n) name = map erase_generic_bases (members_of n name)"
  by (simp_all add: top_classes_def members_of_def filter_map comp_def)

lemma overrides_any_without:
  assumes "list_all (\<lambda>d. CHR ''['' \<notin> set (d_name d)) (mn_declarations n)"
  shows "overrides_any nodes (without_generic_bases n) w name = overrides_any nodes n w name"
proof -
  have owner: "owner_declaration (without_generic_bases n) w = map_option erase_generic_bases (owner_declaration n w)"
    by (simp add: owner_declaration_def find_map_keeps)
  let ?f = "\<lambda>base. list_ex (\<lambda>d. d_name d = name \<and> declared_in (d_name (snd base)) d) (mn_declarations (fst base))"
  have ex: "list_ex g xs \<longleftrightarrow> True \<in> set (map g xs)" for g and xs :: "class_ref list"
    by (auto simp: list_ex_iff)
  have "list_ex ?f (resolved_bases nodes (without_generic_bases n) (erase_generic_bases c)) =
      list_ex ?f (resolved_bases nodes n c)" for c
    unfolding ex by (subst resolved_twins [OF assms]) (rule twin_view(6), assumption, rule refl)
  then show ?thesis
    by (cases "owner_declaration n w") (simp_all add: overrides_any_def owner)
qed

text \<open>
  C20: the checks of overriding, of final members and of abstract members look the text of a base
  up as a name, so a parametrised base is invisible to them: on any module, in any program, they
  report what they report with every parametrised base taken away from the classes of the module.
  With \<^verbatim>\<open>class Child(Base[int])\<close> a correct \<^verbatim>\<open>@override\<close> is reported as
  overriding nothing, while overriding a final method and leaving an abstract one out pass. (No
  declared name has a bracket in it.)
\<close>

theorem generic_base_is_invisible:
  assumes names: "list_all (\<lambda>d. CHR ''['' \<notin> set (d_name d)) (mn_declarations n)"
  shows "override_diagnostics nodes (without_generic_bases n) = override_diagnostics nodes n \<and>
    final_decorator_diagnostics nodes (without_generic_bases n) = final_decorator_diagnostics nodes n \<and>
    final_override_diagnostics nodes (without_generic_bases n) = final_override_diagnostics nodes n \<and>
    abstract_member_diagnostics nodes (without_generic_bases n) = abstract_member_diagnostics nodes n"
proof (intro conjI)
  note bases = resolved_twins [OF names]
  have own: "list_ex d_is_abstract_method (map erase_generic_bases ds) = list_ex d_is_abstract_method ds" for ds
    by (induction ds) simp_all
  show "override_diagnostics nodes (without_generic_bases n) = override_diagnostics nodes n"
    by (simp add: override_diagnostics_def overrides_any_without [OF names] map_filter_def filter_map comp_def
        cong: option.case_cong if_cong)
  show "final_decorator_diagnostics nodes (without_generic_bases n) = final_decorator_diagnostics nodes n"
    unfolding final_decorator_diagnostics_def classes_without map_map comp_def
    by (rule arg_cong [OF map_cong [OF refl]], rule arg_cong [OF bases])
      (simp add: twin_view filter_map comp_def classes_without)
  show "final_override_diagnostics nodes (without_generic_bases n) = final_override_diagnostics nodes n"
    unfolding final_override_diagnostics_def classes_without map_map comp_def
    by (rule arg_cong [OF map_cong [OF refl]], rule arg_cong [OF bases])
      (simp add: twin_view filter_map comp_def classes_without)
  show "abstract_member_diagnostics nodes (without_generic_bases n) = abstract_member_diagnostics nodes n"
    unfolding abstract_member_diagnostics_def classes_without filter_map map_map comp_def own_abstract_def
    by (rule arg_cong [OF map_cong]) (simp_all add: own filter_map comp_def
        arg_cong [OF bases, where f = concat] twin_view)
qed

theorem generic_base_is_invisible_witness:
  "override_diagnostics [generic_child] (without_generic_bases generic_child) = override_diagnostics [generic_child] generic_child \<and>
   length (override_diagnostics [generic_child] generic_child) = 1 \<and>
   without_generic_bases generic_child \<noteq> generic_child"
proof (intro conjI)
  have "list_all (\<lambda>d. CHR ''['' \<notin> set (d_name d)) (mn_declarations generic_child)" by code_simp
  from generic_base_is_invisible [OF this]
  show "override_diagnostics [generic_child] (without_generic_bases generic_child) =
      override_diagnostics [generic_child] generic_child" by blast
  show "length (override_diagnostics [generic_child] generic_child) = 1" by code_simp
  have "map d_metadata (mn_declarations (without_generic_bases generic_child)) \<noteq>
      map d_metadata (mn_declarations generic_child)" by code_simp
  then show "without_generic_bases generic_child \<noteq> generic_child" by metis
qed

end
