(* ===== verification/Rust_Text.thy ===== *)
theory Rust_Text
  imports Type_Syntax
begin

text \<open>
  More of Rust's text operations, for the components that rewrite source text: searching and
  replacing with a text pattern, trimming given characters, classes of ASCII characters, and the
  \<^verbatim>\<open>Debug\<close> form of a string.
\<close>

section \<open>Characters\<close>

definition is_ascii_lowercase :: "char \<Rightarrow> bool" where
  "is_ascii_lowercase c \<longleftrightarrow> 97 \<le> (of_char c :: nat) \<and> (of_char c :: nat) \<le> 122"

definition is_ascii_uppercase :: "char \<Rightarrow> bool" where
  "is_ascii_uppercase c \<longleftrightarrow> 65 \<le> (of_char c :: nat) \<and> (of_char c :: nat) \<le> 90"

definition is_ascii_digit :: "char \<Rightarrow> bool" where
  "is_ascii_digit c \<longleftrightarrow> 48 \<le> (of_char c :: nat) \<and> (of_char c :: nat) \<le> 57"

definition is_ascii_alphabetic :: "char \<Rightarrow> bool" where
  "is_ascii_alphabetic c \<longleftrightarrow> is_ascii_lowercase c \<or> is_ascii_uppercase c"

text \<open>The test of the scanners for a character of an identifier.\<close>

definition is_word_char :: "char \<Rightarrow> bool" where
  "is_word_char c \<longleftrightarrow> c = CHR ''_'' \<or> is_ascii_alphanumeric c"

section \<open>Text patterns\<close>

text \<open>\<^verbatim>\<open>str::split_once\<close> with a text pattern: the text before and after the first match.\<close>

fun split_once_str :: "string \<Rightarrow> string \<Rightarrow> (string \<times> string) option" where
  "split_once_str p [] = (if p = [] then Some ([], []) else None)"
| "split_once_str p (c # s) =
     (case strip_prefix p (c # s) of
        Some r \<Rightarrow> Some ([], r)
      | None \<Rightarrow> map_option (\<lambda>(a, b). (c # a, b)) (split_once_str p s))"

lemma split_once_str_Some: "split_once_str p s = Some (a, b) \<Longrightarrow> s = a @ p @ b"
  by (induction p s arbitrary: a rule: split_once_str.induct)
    (auto simp: strip_prefix_Some split: option.splits if_splits)

lemma split_once_str_shorter:
  "split_once_str p s = Some (a, b) \<Longrightarrow> p \<noteq> [] \<Longrightarrow> length b < length s"
  by (drule split_once_str_Some) simp

definition find_str :: "string \<Rightarrow> string \<Rightarrow> nat option" where
  "find_str p s = map_option (\<lambda>(a, _). length a) (split_once_str p s)"

definition find_char :: "(char \<Rightarrow> bool) \<Rightarrow> string \<Rightarrow> nat option" where
  "find_char P s = (let n = length (takeWhile (\<lambda>c. \<not> P c) s) in if n < length s then Some n else None)"

text \<open>\<^verbatim>\<open>str::replace\<close> with a pattern that is not empty.\<close>

function replace_all :: "string \<Rightarrow> string \<Rightarrow> string \<Rightarrow> string" where
  "replace_all p r s =
     (case (if p = [] then None else split_once_str p s) of
        None \<Rightarrow> s
      | Some (a, b) \<Rightarrow> a @ r @ replace_all p r b)"
  by pat_completeness auto
termination
  by (relation "measure (\<lambda>(p, r, s). length s)") (auto split: if_splits dest: split_once_str_shorter)
declare replace_all.simps [simp del]

definition replace_first :: "string \<Rightarrow> string \<Rightarrow> string \<Rightarrow> string" where
  "replace_first p r s = (case split_once_str p s of None \<Rightarrow> s | Some (a, b) \<Rightarrow> a @ r @ b)"

definition trim_start_matches :: "char \<Rightarrow> string \<Rightarrow> string" where
  "trim_start_matches c s = dropWhile (\<lambda>d. d = c) s"

definition trim_end_matches :: "char \<Rightarrow> string \<Rightarrow> string" where
  "trim_end_matches c s = rev (dropWhile (\<lambda>d. d = c) (rev s))"

definition trim_matches :: "char \<Rightarrow> string \<Rightarrow> string" where
  "trim_matches c s = trim_end_matches c (trim_start_matches c s)"

text \<open>\<^verbatim>\<open>str::trim_start_matches\<close> with a text pattern that is not empty.\<close>

function trim_start_matches_str :: "string \<Rightarrow> string \<Rightarrow> string" where
  "trim_start_matches_str p s =
     (case (if p = [] then None else strip_prefix p s) of
        None \<Rightarrow> s
      | Some r \<Rightarrow> trim_start_matches_str p r)"
  by pat_completeness auto
termination
  by (relation "measure (\<lambda>(p, s). length s)") (auto split: if_splits dest: length_strip_prefix)
declare trim_start_matches_str.simps [simp del]

text \<open>The white space a line starts with: \<^verbatim>\<open>&line[..line.len() - line.trim_start().len()]\<close>.\<close>

definition indentation_of :: "string \<Rightarrow> string" where
  "indentation_of line = takeWhile is_ws line"

lemma indentation_append: "indentation_of line @ trim_start line = line"
  by (simp add: indentation_of_def trim_start_def)

text \<open>\<^verbatim>\<open>str::get(start..end)\<close> and \<^verbatim>\<open>String::replace_range\<close>.\<close>

definition slice_range :: "string \<Rightarrow> nat \<times> nat \<Rightarrow> string option" where
  "slice_range s span =
     (let (a, b) = span in if a \<le> b \<and> b \<le> length s then Some (take (b - a) (drop a s)) else None)"

definition replace_text_range :: "nat \<times> nat \<Rightarrow> string \<Rightarrow> string \<Rightarrow> string" where
  "replace_text_range span replacement s = take (fst span) s @ replacement @ drop (snd span) s"

section \<open>Debug form\<close>

definition hex_digit :: "nat \<Rightarrow> char" where
  "hex_digit n = ''0123456789abcdef'' ! n"

definition hex_text :: "nat \<Rightarrow> string" where
  "hex_text n = (if n < 16 then [hex_digit n] else [hex_digit (n div 16), hex_digit (n mod 16)])"

text \<open>
  \<^verbatim>\<open>char::escape_debug\<close> inside a string, for the scalar values below U+0100: the control
  characters and the soft hyphen are not printable.
\<close>

definition escape_debug :: "char \<Rightarrow> string" where
  "escape_debug c =
     (let n = (of_char c :: nat)
      in if n = 0 then [CHR 0x5C, CHR ''0'']
         else if n = 9 then [CHR 0x5C, CHR ''t'']
         else if n = 10 then [CHR 0x5C, CHR ''n'']
         else if n = 13 then [CHR 0x5C, CHR ''r'']
         else if n = 34 then [CHR 0x5C, CHR 0x22]
         else if n = 92 then [CHR 0x5C, CHR 0x5C]
         else if n < 32 \<or> 127 \<le> n \<and> n < 160 \<or> n = 173
         then [CHR 0x5C, CHR ''u'', CHR 0x7B] @ hex_text n @ [CHR 0x7D]
         else [c])"

definition debug_str :: "string \<Rightarrow> string" where
  "debug_str s = CHR 0x22 # concat (map escape_debug s) @ [CHR 0x22]"

section \<open>Lines\<close>

lemma str_lines_Nil [simp]: "str_lines [] = []"
  by (simp add: str_lines_def)

end
