(* ===== verification/Extension_Syntax.thy ===== *)
theory Extension_Syntax
  imports Rust_Text Surface_Sites Diagnostics
begin

text \<open>
  The parser of the declarations that TypePython adds to Python (crates/typepython_syntax,
  extraction/syntax_extensions.rs): one trimmed line at a time, with brackets counted by hand.
  A parser returns its result and the diagnostics it pushed.
\<close>

type_synonym 'a parse_result = "'a option \<times> diagnostic list"

definition parse_error :: "string \<Rightarrow> nat \<Rightarrow> string \<Rightarrow> string \<Rightarrow> diagnostic" where
  "parse_error path line_number line message =
     with_span (span_new path line_number 1 line_number (max (length line) 1))
       (diagnostic_error ''TPY2001'' message)"

definition fail_parse :: "string \<Rightarrow> nat \<Rightarrow> string \<Rightarrow> string \<Rightarrow> 'a parse_result" where
  "fail_parse path line_number line message = (None, [parse_error path line_number line message])"

section \<open>Splitting outside brackets\<close>

definition is_valid_identifier :: "string \<Rightarrow> bool" where
  "is_valid_identifier candidate \<longleftrightarrow>
     (case candidate of
        [] \<Rightarrow> False
      | c # cs \<Rightarrow> (c = CHR ''_'' \<or> is_ascii_alphabetic c) \<and> list_all is_word_char cs)"

text \<open>The depths of square brackets and parentheses after a character.\<close>

definition bump :: "char \<Rightarrow> nat \<times> nat \<Rightarrow> nat \<times> nat" where
  "bump c depth =
     (let (b, p) = depth
      in if c = CHR ''['' then (b + 1, p)
         else if c = CHR '']'' then (b - 1, p)
         else if c = CHR ''('' then (b, p + 1)
         else if c = CHR '')'' then (b, p - 1)
         else depth)"

fun split_once_at :: "char \<Rightarrow> nat \<times> nat \<Rightarrow> string \<Rightarrow> (string \<times> string) option" where
  "split_once_at sep depth [] = None"
| "split_once_at sep depth (c # s) =
     (if c = sep \<and> depth = (0, 0) then Some ([], s)
      else map_option (\<lambda>(a, b). (c # a, b)) (split_once_at sep (bump c depth) s))"

definition split_top_level_once :: "string \<Rightarrow> char \<Rightarrow> (string \<times> string) option" where
  "split_top_level_once input separator = split_once_at separator (0, 0) input"

fun split_commas_from :: "nat \<times> nat \<Rightarrow> string \<Rightarrow> string \<Rightarrow> string list" where
  "split_commas_from depth current [] = (if trim current = [] then [] else [trim current])"
| "split_commas_from depth current (c # s) =
     (if c = CHR '','' \<and> depth = (0, 0) then trim current # split_commas_from depth [] s
      else split_commas_from (bump c depth) (current @ [c]) s)"

definition split_top_level_commas :: "string \<Rightarrow> string list" where
  "split_top_level_commas input = split_commas_from (0, 0) [] input"

text \<open>Here the brackets are looked at before the separator.\<close>

fun split_items_from :: "char \<Rightarrow> nat \<times> nat \<Rightarrow> string \<Rightarrow> string \<Rightarrow> string list" where
  "split_items_from sep depth current [] = [current]"
| "split_items_from sep depth current (c # s) =
     (if c \<notin> set ''[]()'' \<and> c = sep \<and> depth = (0, 0) then current # split_items_from sep depth [] s
      else split_items_from sep (bump c depth) (current @ [c]) s)"

definition split_top_level :: "string \<Rightarrow> char \<Rightarrow> string list" where
  "split_top_level input separator = split_items_from separator (0, 0) [] input"

text \<open>
  \<^verbatim>\<open>split_bracketed\<close>: \<open>seen\<close> is what was read so far; its first character is dropped as
  \<^verbatim>\<open>&input[1..index]\<close> drops it.
\<close>

fun split_bracketed_from :: "nat \<Rightarrow> string \<Rightarrow> string \<Rightarrow> (string \<times> string) option" where
  "split_bracketed_from depth seen [] = None"
| "split_bracketed_from depth seen (c # s) =
     (if c = CHR ''['' then split_bracketed_from (depth + 1) (seen @ [c]) s
      else if c = CHR '']''
      then (if depth = 0 then None
            else if depth = 1 then Some (tl seen, s)
            else split_bracketed_from (depth - 1) (seen @ [c]) s)
      else split_bracketed_from depth (seen @ [c]) s)"

definition split_bracketed :: "string \<Rightarrow> (string \<times> string) option" where
  "split_bracketed input = split_bracketed_from 0 [] input"

section \<open>Type parameters\<close>

definition parse_type_param_constraints ::
    "string \<Rightarrow> nat \<Rightarrow> string \<Rightarrow> string \<Rightarrow> string \<Rightarrow> diagnostic + string list" where
  "parse_type_param_constraints path line_number line constraints label =
     (case Option.bind (strip_prefix ''('' constraints) (strip_suffix '')'') of
        None \<Rightarrow> Inl (parse_error path line_number line
                  (label @ '' type parameter constraint list must be parenthesized''))
      | Some inner \<Rightarrow>
          (let parsed = split_top_level_commas inner
           in if parsed = []
              then Inl (parse_error path line_number line
                     (label @ '' type parameter constraint list must not be empty''))
              else if [] \<in> set parsed
              then Inl (parse_error path line_number line
                     (label @ '' type parameter constraint list must not contain empty entries''))
              else Inr parsed))"

definition type_param_kind_of :: "string \<Rightarrow> type_param_kind \<times> string" where
  "type_param_kind_of item =
     (case strip_prefix ''**'' item of
        Some rest \<Rightarrow> (ParamSpec, trim rest)
      | None \<Rightarrow> (case strip_prefix ''*'' item of
                   Some rest \<Rightarrow> (TypeVarTuple, trim rest)
                 | None \<Rightarrow> (TypeVar, item)))"

definition split_trimmed :: "string \<Rightarrow> char \<Rightarrow> string \<times> string option" where
  "split_trimmed item separator =
     (case split_top_level_once item separator of
        Some (a, b) \<Rightarrow> (trim a, Some (trim b)) | None \<Rightarrow> (item, None))"

definition bound_and_constraints ::
    "string \<Rightarrow> nat \<Rightarrow> string \<Rightarrow> string \<Rightarrow> string option \<Rightarrow> diagnostic + string option \<times> string list" where
  "bound_and_constraints path line_number line label bound_text =
     (case bound_text of
        None \<Rightarrow> Inr (None, [])
      | Some b \<Rightarrow>
          if b = [] then Inl (parse_error path line_number line
                           (label @ '' type parameter bound must not be empty''))
          else if starts_with ''('' b
          then (case parse_type_param_constraints path line_number line b label of
                  Inl d \<Rightarrow> Inl d | Inr cs \<Rightarrow> Inr (None, cs))
          else Inr (Some b, []))"

definition parse_type_param ::
    "string \<Rightarrow> nat \<Rightarrow> string \<Rightarrow> string \<Rightarrow> string \<Rightarrow> diagnostic + type_param" where
  "parse_type_param path line_number line item label =
     (let fail = (\<lambda>message. Inl (parse_error path line_number line (label @ message)));
          item = trim item
      in if item = [] then fail '' contains an empty type parameter entry''
         else (let (item, default_text) = split_trimmed item CHR ''='';
                   (kind, item) = type_param_kind_of item;
                   (name, bound_text) = split_trimmed item CHR '':''
               in if \<not> is_valid_identifier name then fail '' contains an invalid type parameter name''
                  else if kind = ParamSpec \<and> bound_text \<noteq> None
                  then fail ('' ParamSpec `'' @ name @ ''` must not declare bounds or constraints'')
                  else if kind = TypeVarTuple \<and> bound_text \<noteq> None
                  then fail ('' TypeVarTuple `'' @ name @ ''` must not declare bounds or constraints'')
                  else (case bound_and_constraints path line_number line label bound_text of
                          Inl d \<Rightarrow> Inl d
                        | Inr (bound, constraints) \<Rightarrow>
                            if default_text = Some [] then fail '' type parameter default must not be empty''
                            else Inr \<lparr>tp_kind = kind, tp_name = name, tp_bound = bound,
                                   tp_bound_expr = Option.bind bound type_expr_parse,
                                   tp_constraints = constraints,
                                   tp_constraint_exprs = List.map_filter type_expr_parse constraints,
                                   tp_default = default_text,
                                   tp_default_expr = Option.bind default_text type_expr_parse\<rparr>)))"

text \<open>The first name seen before, and the first parameter without a default after one with.\<close>

fun first_repeated :: "string set \<Rightarrow> type_param list \<Rightarrow> type_param option" where
  "first_repeated seen [] = None"
| "first_repeated seen (p # ps) =
     (if tp_name p \<in> seen then Some p else first_repeated (insert (tp_name p) seen) ps)"

fun first_without_default :: "bool \<Rightarrow> type_param list \<Rightarrow> type_param option" where
  "first_without_default seen [] = None"
| "first_without_default seen (p # ps) =
     (if tp_default p \<noteq> None then first_without_default True ps
      else if seen then Some p
      else first_without_default seen ps)"

definition validate_type_param_names ::
    "string \<Rightarrow> nat \<Rightarrow> string \<Rightarrow> type_param list \<Rightarrow> bool \<times> diagnostic list" where
  "validate_type_param_names path line_number label params =
     (case first_repeated {} params of
        None \<Rightarrow> (True, [])
      | Some p \<Rightarrow> (False, [with_span (span_new path line_number 1 line_number 1)
          (diagnostic_error ''TPY4004''
             (label @ '' declares type parameter `'' @ tp_name p @ ''` more than once''))]))"

definition validate_type_param_default_order ::
    "string \<Rightarrow> nat \<Rightarrow> string \<Rightarrow> type_param list \<Rightarrow> bool \<times> diagnostic list" where
  "validate_type_param_default_order path line_number label params =
     (case first_without_default False params of
        None \<Rightarrow> (True, [])
      | Some p \<Rightarrow> (False, [with_span (span_new path line_number 1 line_number 1)
          (diagnostic_error ''TPY2001''
             (label @ '' type parameter `'' @ tp_name p @
              ''` without a default cannot follow a parameter with a default''))]))"

fun parse_items :: "(string \<Rightarrow> diagnostic + type_param) \<Rightarrow> string list \<Rightarrow> diagnostic + type_param list" where
  "parse_items f [] = Inr []"
| "parse_items f (item # items) =
     (case f item of
        Inl d \<Rightarrow> Inl d
      | Inr p \<Rightarrow> (case parse_items f items of Inl d \<Rightarrow> Inl d | Inr ps \<Rightarrow> Inr (p # ps)))"

text \<open>\<^verbatim>\<open>ParsedTypeParams\<close>: the parameters and the text after them.\<close>

definition parse_type_params ::
    "string \<Rightarrow> nat \<Rightarrow> string \<Rightarrow> string \<Rightarrow> string \<Rightarrow> (type_param list \<times> string) parse_result" where
  "parse_type_params path line_number line suffix label =
     (let suffix = trim_start suffix
      in if \<not> starts_with ''['' suffix then (Some ([], suffix), [])
         else (case split_bracketed suffix of
                 None \<Rightarrow> fail_parse path line_number line
                           (label @ '' has an unterminated type parameter list'')
               | Some (content, remainder) \<Rightarrow>
                   if starts_with ''['' (trim_start remainder)
                   then fail_parse path line_number line
                          (label @ '' must not contain multiple type parameter lists'')
                   else (case parse_items (\<lambda>item. parse_type_param path line_number line item label)
                                (split_top_level content CHR '','') of
                           Inl d \<Rightarrow> (None, [d])
                         | Inr params \<Rightarrow>
                             (let (names_ok, ds) = validate_type_param_names path line_number label params
                              in if \<not> names_ok then (None, ds)
                                 else (let (order_ok, ds) =
                                             validate_type_param_default_order path line_number label params
                                       in if \<not> order_ok then (None, ds)
                                          else (Some (params, remainder), []))))))"

definition extract_decl_head :: "string \<Rightarrow> (string \<times> string) option" where
  "extract_decl_head header =
     (let header = trim header; candidate = takeWhile is_word_char header
      in if header = [] then None
         else if is_valid_identifier candidate then Some (candidate, dropWhile is_word_char header)
         else None)"

section \<open>Declarations\<close>

definition parse_typealias ::
    "string \<Rightarrow> string \<Rightarrow> string \<Rightarrow> nat \<Rightarrow> syntax_statement parse_result" where
  "parse_typealias path line rest line_number =
     (case split_top_level_once rest CHR ''='' of
        None \<Rightarrow> fail_parse path line_number line ''typealias declaration must contain `=`''
      | Some (head, tail) \<Rightarrow>
          if trim tail = []
          then fail_parse path line_number line ''typealias declaration must define a target type expression''
          else (case extract_decl_head head of
                  None \<Rightarrow> fail_parse path line_number line
                            ''typealias declaration must name an alias before `=`''
                | Some (name, suffix) \<Rightarrow>
                    (case parse_type_params path line_number line suffix ''typealias declaration'' of
                       (None, ds) \<Rightarrow> (None, ds)
                     | (Some (params, _), ds) \<Rightarrow>
                         (Some (StTypeAlias \<lparr>ta_name = name, ta_type_params = params,
                                  ta_value = trim tail, ta_value_expr = type_expr_parse (trim tail),
                                  ta_line = line_number\<rparr>), ds))))"

definition bare_block :: "string \<Rightarrow> type_param list \<Rightarrow> string \<Rightarrow> nat \<Rightarrow> named_block" where
  "bare_block name params header_suffix line_number =
     \<lparr>nb_name = name, nb_type_params = params, nb_header_suffix = header_suffix, nb_bases = [],
      nb_is_final_decorator = False, nb_is_deprecated = False, nb_deprecation_message = None,
      nb_is_abstract_class = False, nb_members = [], nb_line = line_number\<rparr>"

definition parse_named_block ::
    "string \<Rightarrow> string \<Rightarrow> string \<Rightarrow> nat \<Rightarrow> string \<Rightarrow> (named_block \<Rightarrow> syntax_statement) \<Rightarrow>
     syntax_statement parse_result" where
  "parse_named_block path line rest line_number label constructor =
     (if \<not> ends_with '':'' line then fail_parse path line_number line (label @ '' must end with `:`'')
      else (case extract_decl_head (trim_end (butlast rest)) of
              None \<Rightarrow> fail_parse path line_number line (label @ '' must include a valid name'')
            | Some (name, suffix) \<Rightarrow>
                (case parse_type_params path line_number line suffix label of
                   (None, ds) \<Rightarrow> (None, ds)
                 | (Some (params, remainder), ds) \<Rightarrow>
                     (Some (constructor (bare_block name params (trim remainder) line_number)), ds))))"

definition bare_function :: "string \<Rightarrow> type_param list \<Rightarrow> nat \<Rightarrow> function_statement" where
  "bare_function name params line_number =
     \<lparr>fs_name = name, fs_type_params = params, fs_params = [], fs_returns = None,
      fs_returns_expr = None, fs_is_async = False, fs_is_override = False,
      fs_is_deprecated = False, fs_deprecation_message = None, fs_line = line_number\<rparr>"

definition parse_function ::
    "string \<Rightarrow> string \<Rightarrow> string \<Rightarrow> nat \<Rightarrow> string \<Rightarrow> (function_statement \<Rightarrow> syntax_statement) \<Rightarrow>
     syntax_statement parse_result" where
  "parse_function path line rest line_number label constructor =
     (case split_top_level_once (trim_end rest) CHR '':'' of
        None \<Rightarrow> fail_parse path line_number line (label @ '' must end with `:`'')
      | Some (signature, _) \<Rightarrow>
          (case split_top_level_once (trim_end signature) CHR ''('' of
             None \<Rightarrow> fail_parse path line_number line (label @ '' must include a parameter list'')
           | Some (name_part, _) \<Rightarrow>
               (case extract_decl_head name_part of
                  None \<Rightarrow> fail_parse path line_number line (label @ '' must include a function name'')
                | Some (name, suffix) \<Rightarrow>
                    (case parse_type_params path line_number line suffix label of
                       (None, ds) \<Rightarrow> (None, ds)
                     | (Some (params, _), ds) \<Rightarrow>
                         (Some (constructor (bare_function name params line_number)), ds)))))"

definition parse_overload ::
    "string \<Rightarrow> string \<Rightarrow> string \<Rightarrow> nat \<Rightarrow> syntax_statement parse_result" where
  "parse_overload path line rest line_number =
     parse_function path line rest line_number ''overload declaration'' StOverloadDef"

definition parse_unsafe :: "string \<Rightarrow> string \<Rightarrow> nat \<Rightarrow> syntax_statement parse_result" where
  "parse_unsafe path line line_number =
     (if starts_with ''unsafe:'' line then (Some (StUnsafe line_number), [])
      else fail_parse path line_number line ''unsafe block must start with `unsafe:`'')"

definition strip_soft_keyword :: "string \<Rightarrow> string \<Rightarrow> string option" where
  "strip_soft_keyword line keyword =
     (case strip_prefix keyword line of
        None \<Rightarrow> None
      | Some rest \<Rightarrow>
          (case rest of
             [] \<Rightarrow> Some rest
           | c # _ \<Rightarrow> if is_word_char c then None else Some rest))"

definition parse_extension_statement ::
    "string \<Rightarrow> string \<Rightarrow> nat \<Rightarrow> syntax_statement parse_result" where
  "parse_extension_statement path trimmed_line line_number =
     (case strip_soft_keyword trimmed_line ''typealias'' of
        Some rest \<Rightarrow> parse_typealias path trimmed_line rest line_number
      | None \<Rightarrow> (case strip_soft_keyword trimmed_line ''interface'' of
        Some rest \<Rightarrow> parse_named_block path trimmed_line rest line_number ''interface declaration'' StInterface
      | None \<Rightarrow> (case strip_prefix ''data class '' trimmed_line of
        Some rest \<Rightarrow> parse_named_block path trimmed_line rest line_number ''data class declaration'' StDataClass
      | None \<Rightarrow> (case strip_prefix ''sealed class '' trimmed_line of
        Some rest \<Rightarrow> parse_named_block path trimmed_line rest line_number ''sealed class declaration'' StSealedClass
      | None \<Rightarrow> (case strip_prefix ''overload def '' trimmed_line of
        Some rest \<Rightarrow> parse_overload path trimmed_line rest line_number
      | None \<Rightarrow> if starts_with ''unsafe'' trimmed_line then parse_unsafe path trimmed_line line_number
               else (None, []))))))"

section \<open>Positions\<close>

fun count_position :: "nat \<Rightarrow> string \<Rightarrow> nat \<times> nat \<Rightarrow> nat \<times> nat" where
  "count_position 0 s at = at"
| "count_position (Suc n) [] at = at"
| "count_position (Suc n) (c # s) (line, column) =
     count_position n s (if c = CHR 0x0A then (line + 1, 1) else (line, column + 1))"

definition offset_to_line_column :: "string \<Rightarrow> nat \<Rightarrow> nat \<times> nat" where
  "offset_to_line_column source offset = count_position offset source (1, 1)"

definition parse_error_span :: "string \<Rightarrow> string \<Rightarrow> nat \<Rightarrow> nat \<Rightarrow> span" where
  "parse_error_span path source start finish =
     (let start = min start (length source);
          finish = min (max finish start) (length source);
          (line, column) = offset_to_line_column source start;
          (end_line, end_column) = offset_to_line_column source finish
      in span_new path line column end_line end_column)"

end
