(* ===== verification/Formatting.thy ===== *)
theory Formatting
  imports Extension_Syntax BTree
begin

text \<open>
  Line rewriting of the syntax crate (crates/typepython_syntax): the first pass over a TypePython
  source and the text the Python parser gets (parsing.rs and formatting.rs), the suppression of
  diagnostics by comments, and the round trip through an external formatter, which sees Python
  text with marker comments.
\<close>

section \<open>The first pass\<close>

text \<open>
  The loop of \<^verbatim>\<open>parse_typepython_source\<close>: every line that is not blank and not a
  comment is offered to the parser of the added declarations.
\<close>

definition scan_line ::
    "string \<Rightarrow> nat \<times> string \<Rightarrow> syntax_statement list \<times> diagnostic list \<Rightarrow>
     syntax_statement list \<times> diagnostic list" where
  "scan_line path entry state =
     (let (index, line) = entry; (statements, diagnostics) = state; trimmed = trim_start line
      in if trimmed = [] \<or> starts_with ''#'' trimmed then state
         else (let (statement, pushed) = parse_extension_statement path trimmed (index + 1)
               in (statements @ opt_list statement, diagnostics @ pushed)))"

definition scan_extension_lines :: "string \<Rightarrow> string \<Rightarrow> syntax_statement list \<times> diagnostic list" where
  "scan_extension_lines path source_text =
     fold (scan_line path) (zip [0..<length (str_lines source_text)] (str_lines source_text)) ([], [])"

definition parse_error_code :: "string \<Rightarrow> string" where
  "parse_error_code message =
     (if message \<in> {''Invalid assignment target'', ''Invalid delete target'',
          ''Assignment expression target must be an identifier''}
      then ''TPY4011'' else ''TPY2001'')"

section \<open>Suppressed diagnostics\<close>

record type_ignore_directive =
  ti_line :: nat
  ti_codes :: "string list option"

definition parse_type_ignore_directive_line :: "nat \<Rightarrow> string \<Rightarrow> type_ignore_directive option" where
  "parse_type_ignore_directive_line line_number line =
     Option.bind (split_once CHR ''#'' line) (\<lambda>(_, comment).
     Option.bind (strip_prefix ''type: ignore'' (trim comment)) (\<lambda>rest.
       let remainder = trim rest
       in if remainder = [] then Some \<lparr>ti_line = line_number, ti_codes = None\<rparr>
          else map_option (\<lambda>inner. \<lparr>ti_line = line_number,
                   ti_codes = Some (filter (\<lambda>c. c \<noteq> []) (map trim (split_char CHR '','' inner)))\<rparr>)
                 (Option.bind (strip_prefix ''['' remainder) (strip_suffix '']''))))"

definition parse_type_ignore_directives :: "string \<Rightarrow> type_ignore_directive list" where
  "parse_type_ignore_directives source_text =
     List.map_filter (\<lambda>(index, line). parse_type_ignore_directive_line (index + 1) line)
       (zip [0..<length (str_lines source_text)] (str_lines source_text))"

definition suppresses :: "diagnostic \<Rightarrow> nat \<Rightarrow> type_ignore_directive \<Rightarrow> bool" where
  "suppresses d line directive \<longleftrightarrow>
     ti_line directive = line \<and>
     (case ti_codes directive of None \<Rightarrow> True | Some codes \<Rightarrow> dg_code d \<in> set codes)"

text \<open>The trees are given as pairs of a path and its directives.\<close>

definition apply_type_ignore_directives ::
    "(string \<times> type_ignore_directive list) list \<Rightarrow> diagnostic_report \<Rightarrow> diagnostic_report" where
  "apply_type_ignore_directives trees report =
     (let by_path = bt_from_list trees
      in filter (\<lambda>d. case dg_span d of
                   None \<Rightarrow> True
                 | Some s \<Rightarrow>
                     (case bt_get by_path (sn_path s) of
                        None \<Rightarrow> True
                      | Some directives \<Rightarrow> \<not> list_ex (suppresses d (sn_line s)) directives)) report)"

section \<open>The text for the Python parser\<close>

fun statement_line :: "syntax_statement \<Rightarrow> nat" where
  "statement_line (StTypeAlias s) = ta_line s"
| "statement_line (StInterface s) = nb_line s"
| "statement_line (StDataClass s) = nb_line s"
| "statement_line (StSealedClass s) = nb_line s"
| "statement_line (StOverloadDef s) = fs_line s"
| "statement_line (StClassDef s) = nb_line s"
| "statement_line (StFunctionDef s) = fs_line s"
| "statement_line (StImport bindings line) = line"
| "statement_line (StValue s) = vs_line s"
| "statement_line (StCall s) = cl_line s"
| "statement_line (StMethodCall s) = mc_line s"
| "statement_line (StMemberAccess s) = ma_line s"
| "statement_line (StReturn s) = rs_line s"
| "statement_line (StYield s) = ys_line s"
| "statement_line (StIf s) = if_line s"
| "statement_line (StAssert s) = at_line s"
| "statement_line (StInvalidate s) = iv_line s"
| "statement_line (StMatch s) = ms_line s"
| "statement_line (StFor s) = fo_line s"
| "statement_line (StWith s) = wi_line s"
| "statement_line (StExceptHandler s) = eh_line s"
| "statement_line (StUnsafe line) = line"

definition type_param_prefix :: "type_param_kind \<Rightarrow> string" where
  "type_param_prefix k = (case k of TypeVar \<Rightarrow> [] | ParamSpec \<Rightarrow> ''**'' | TypeVarTuple \<Rightarrow> ''*'')"

definition render_type_param :: "type_param \<Rightarrow> string" where
  "render_type_param p =
     type_param_prefix (tp_kind p) @
     (if tp_constraints p \<noteq> []
      then tp_name p @ '': ('' @
           (if tp_constraint_exprs p = [] then join_with '', '' (tp_constraints p)
            else join_with '', '' (map render (tp_constraint_exprs p))) @ '')''
      else (case tp_bound_expr p of
              Some bound \<Rightarrow> tp_name p @ '': '' @ render bound
            | None \<Rightarrow> (case tp_bound p of
                         Some bound \<Rightarrow> tp_name p @ '': '' @ bound
                       | None \<Rightarrow> tp_name p))) @
     (case tp_default_expr p of
        Some e \<Rightarrow> '' = '' @ render e
      | None \<Rightarrow> (case tp_default p of Some e \<Rightarrow> '' = '' @ e | None \<Rightarrow> []))"

definition render_type_params :: "type_param list \<Rightarrow> string" where
  "render_type_params params =
     (if params = [] then [] else ''['' @ join_with '', '' (map render_type_param params) @ '']'')"

text \<open>
  The text after the first colon outside brackets and strings; the depth may become negative.
\<close>

fun after_depth_zero_colon :: "int \<Rightarrow> char option \<Rightarrow> string \<Rightarrow> string option" where
  "after_depth_zero_colon depth quote [] = None"
| "after_depth_zero_colon depth (Some q) [c] = None"
| "after_depth_zero_colon depth (Some q) (c # d # s) =
     (if c = CHR 0x5C then after_depth_zero_colon depth (Some q) s
      else after_depth_zero_colon depth (if c = q then None else Some q) (d # s))"
| "after_depth_zero_colon depth None (c # s) =
     (if c \<in> set ''([{'' then after_depth_zero_colon (depth + 1) None s
      else if c \<in> set '')]}'' then after_depth_zero_colon (depth - 1) None s
      else if c = CHR 0x27 \<or> c = CHR 0x22 then after_depth_zero_colon depth (Some c) s
      else if c = CHR '':'' \<and> depth = 0 then Some s
      else after_depth_zero_colon depth None s)"

definition inline_suite_tail :: "string \<Rightarrow> string" where
  "inline_suite_tail line =
     (case after_depth_zero_colon 0 None line of
        None \<Rightarrow> []
      | Some rest \<Rightarrow>
          (let tail = trim rest
           in if tail = [] \<or> starts_with ''#'' tail then [] else '' '' @ tail))"

definition normalize_block_line :: "string \<Rightarrow> named_block \<Rightarrow> string" where
  "normalize_block_line line block =
     indentation_of line @ ''class '' @ nb_name block @ render_type_params (nb_type_params block) @
     nb_header_suffix block @ '':'' @ inline_suite_tail line"

definition normalize_typepython_statement_line :: "string \<Rightarrow> syntax_statement \<Rightarrow> string" where
  "normalize_typepython_statement_line line statement =
     (case statement of
        StTypeAlias s \<Rightarrow> indentation_of line @ ta_name s @ '' = '' @ ta_value s
      | StInterface s \<Rightarrow> normalize_block_line line s
      | StDataClass s \<Rightarrow> normalize_block_line line s
      | StSealedClass s \<Rightarrow> normalize_block_line line s
      | StClassDef s \<Rightarrow> normalize_block_line line s
      | StOverloadDef s \<Rightarrow>
          indentation_of line @
          (case strip_prefix ''overload '' (trim_start line) of Some rest \<Rightarrow> rest | None \<Rightarrow> trim_start line)
      | StUnsafe _ \<Rightarrow> indentation_of line @ ''if True:'' @ inline_suite_tail line
      | _ \<Rightarrow> line)"

definition numbered_lines :: "string \<Rightarrow> (nat \<times> string) list" where
  "numbered_lines source = zip [1..<Suc (length (str_lines source))] (str_lines source)"

text \<open>Lines joined again, with a last line feed where the source had one.\<close>

definition rejoin :: "string \<Rightarrow> string list \<Rightarrow> string" where
  "rejoin source lines =
     join_with [CHR 0x0A] lines @ (if ends_with [CHR 0x0A] source then [CHR 0x0A] else [])"

definition normalize_typepython_source :: "string \<Rightarrow> syntax_statement list \<Rightarrow> string" where
  "normalize_typepython_source source statements =
     (let by_line = bt_from_list (map (\<lambda>s. (statement_line s, s)) statements)
      in rejoin source
           (map (\<lambda>(number, line).
                case bt_get by_line number of
                  Some statement \<Rightarrow> normalize_typepython_statement_line line statement
                | None \<Rightarrow> line)
              (numbered_lines source)))"

section \<open>External formatters\<close>

datatype formatting_syntax_kind =
  FmtTypeAlias | FmtInterface | FmtDataClass | FmtSealedClass | FmtOverloadDef | FmtUnsafe

definition format_marker :: "formatting_syntax_kind \<Rightarrow> string" where
  "format_marker k =
     (case k of FmtTypeAlias \<Rightarrow> ''typealias'' | FmtInterface \<Rightarrow> ''interface''
      | FmtDataClass \<Rightarrow> ''data_class'' | FmtSealedClass \<Rightarrow> ''sealed_class''
      | FmtOverloadDef \<Rightarrow> ''overload_def'' | FmtUnsafe \<Rightarrow> ''unsafe'')"

definition from_marker :: "string \<Rightarrow> formatting_syntax_kind option" where
  "from_marker m =
     (if m = ''typealias'' then Some FmtTypeAlias
      else if m = ''interface'' then Some FmtInterface
      else if m = ''data_class'' then Some FmtDataClass
      else if m = ''sealed_class'' then Some FmtSealedClass
      else if m = ''overload_def'' then Some FmtOverloadDef
      else if m = ''unsafe'' then Some FmtUnsafe
      else None)"

definition FORMAT_MARKER_PREFIX :: string where
  "FORMAT_MARKER_PREFIX = ''__typepython_format__:''"

definition formatting_syntax_kind_of :: "syntax_statement \<Rightarrow> formatting_syntax_kind option" where
  "formatting_syntax_kind_of statement =
     (case statement of
        StTypeAlias _ \<Rightarrow> Some FmtTypeAlias | StInterface _ \<Rightarrow> Some FmtInterface
      | StDataClass _ \<Rightarrow> Some FmtDataClass | StSealedClass _ \<Rightarrow> Some FmtSealedClass
      | StOverloadDef _ \<Rightarrow> Some FmtOverloadDef | StUnsafe _ \<Rightarrow> Some FmtUnsafe
      | _ \<Rightarrow> None)"

text \<open>A line whose text after the indentation loses one prefix and gains another.\<close>

definition swap_prefix :: "string \<Rightarrow> string \<Rightarrow> string \<Rightarrow> string" where
  "swap_prefix old new line =
     (case strip_prefix old (trim_start line) of
        Some rest \<Rightarrow> indentation_of line @ new @ rest | None \<Rightarrow> line)"

definition normalize_typepython_formatting_line :: "string \<Rightarrow> formatting_syntax_kind \<Rightarrow> string" where
  "normalize_typepython_formatting_line line kind =
     (case kind of
        FmtTypeAlias \<Rightarrow>
          (case strip_soft_keyword (trim_start line) ''typealias'' of
             Some rest \<Rightarrow> indentation_of line @ trim_start rest | None \<Rightarrow> line)
      | FmtInterface \<Rightarrow>
          (case strip_soft_keyword (trim_start line) ''interface'' of
             Some rest \<Rightarrow> indentation_of line @ ''class'' @ rest | None \<Rightarrow> line)
      | FmtDataClass \<Rightarrow> swap_prefix ''data class '' ''class '' line
      | FmtSealedClass \<Rightarrow> swap_prefix ''sealed class '' ''class '' line
      | FmtOverloadDef \<Rightarrow> swap_prefix ''overload def '' ''def '' line
      | FmtUnsafe \<Rightarrow> swap_prefix ''unsafe:'' ''if True:'' line)"

definition prepared_lines ::
    "(nat \<times> formatting_syntax_kind) list \<Rightarrow> nat \<times> string \<Rightarrow> string list" where
  "prepared_lines custom_lines entry =
     (let (number, line) = entry
      in case bt_get custom_lines number of
           Some kind \<Rightarrow>
             [indentation_of line @ ''# '' @ FORMAT_MARKER_PREFIX @ format_marker kind,
              normalize_typepython_formatting_line line kind]
         | None \<Rightarrow> [line])"

definition custom_lines_of :: "syntax_statement list \<Rightarrow> (nat \<times> formatting_syntax_kind) list" where
  "custom_lines_of statements =
     bt_from_list (List.map_filter
       (\<lambda>s. map_option (\<lambda>kind. (statement_line s, kind)) (formatting_syntax_kind_of s)) statements)"

definition prepare_typepython_source_for_external_formatter ::
    "string \<Rightarrow> syntax_statement list \<Rightarrow> string" where
  "prepare_typepython_source_for_external_formatter source statements =
     rejoin source (concat (map (prepared_lines (custom_lines_of statements)) (numbered_lines source)))"

definition restore_with :: "string \<Rightarrow> string \<Rightarrow> string \<Rightarrow> string \<Rightarrow> string" where
  "restore_with old new fallback line =
     indentation_of line @
     (case strip_prefix old (trim_start line) of Some rest \<Rightarrow> new @ rest | None \<Rightarrow> fallback)"

definition restore_typepython_formatting_line :: "string \<Rightarrow> formatting_syntax_kind \<Rightarrow> string" where
  "restore_typepython_formatting_line line kind =
     (let trimmed = trim_start line
      in case kind of
           FmtTypeAlias \<Rightarrow>
             (case split_top_level_once trimmed CHR ''='' of
                Some (head, tail) \<Rightarrow>
                  indentation_of line @ ''typealias '' @ trim_end head @ '' = '' @ trim_start tail
              | None \<Rightarrow> indentation_of line @ ''typealias '' @ trimmed)
         | FmtInterface \<Rightarrow> restore_with ''class '' ''interface '' (''interface '' @ trimmed) line
         | FmtDataClass \<Rightarrow> restore_with ''class '' ''data class '' (''data class '' @ trimmed) line
         | FmtSealedClass \<Rightarrow> restore_with ''class '' ''sealed class '' (''sealed class '' @ trimmed) line
         | FmtOverloadDef \<Rightarrow> restore_with ''def '' ''overload def '' (''overload def '' @ trimmed) line
         | FmtUnsafe \<Rightarrow> restore_with ''if True:'' ''unsafe:'' ''unsafe:'' line)"

definition marker_kind :: "string \<Rightarrow> formatting_syntax_kind option" where
  "marker_kind line =
     Option.bind (strip_prefix ''#'' (trim_start line)) (\<lambda>m.
     Option.bind (strip_prefix FORMAT_MARKER_PREFIX (trim_start m)) (\<lambda>m. from_marker (trim m)))"

definition restore_step ::
    "string \<Rightarrow> string list \<times> formatting_syntax_kind option \<Rightarrow> string list \<times> formatting_syntax_kind option" where
  "restore_step line state =
     (let (restored, pending) = state
      in case marker_kind line of
           Some kind \<Rightarrow> (restored, Some kind)
         | None \<Rightarrow>
             if pending \<noteq> None \<and> trim_start line = [] then state
             else (case pending of
                     Some kind \<Rightarrow> (restored @ [restore_typepython_formatting_line line kind], None)
                   | None \<Rightarrow> (restored @ [line], None)))"

definition restore_typepython_formatting_markers :: "string \<Rightarrow> string" where
  "restore_typepython_formatting_markers formatted =
     rejoin formatted (fst (fold restore_step (str_lines formatted) ([], None)))"

record external_formatting_source =
  ef_formatter_input :: string
  ef_restore_custom_syntax :: bool

definition restore_formatted :: "external_formatting_source \<Rightarrow> string \<Rightarrow> string" where
  "restore_formatted prepared formatted =
     (if ef_restore_custom_syntax prepared then restore_typepython_formatting_markers formatted
      else formatted)"

definition prepare_syntax_tree_for_external_formatter ::
    "bool \<Rightarrow> string \<Rightarrow> syntax_statement list \<Rightarrow> diagnostic_report \<Rightarrow>
     diagnostic_report + external_formatting_source" where
  "prepare_syntax_tree_for_external_formatter is_typepython source_text statements diagnostics =
     (if \<not> is_typepython then Inr \<lparr>ef_formatter_input = source_text, ef_restore_custom_syntax = False\<rparr>
      else if has_errors diagnostics then Inl diagnostics
      else Inr \<lparr>ef_formatter_input = prepare_typepython_source_for_external_formatter source_text statements,
                ef_restore_custom_syntax = True\<rparr>)"

end
