(* ===== verification/Shape_Lowering.thy ===== *)
theory Shape_Lowering
  imports Formatting Type_Assign
begin

text \<open>
  Transforms of \<^verbatim>\<open>TypedDict\<close> shapes in type aliases (crates/typepython_lowering,
  typeddict.rs): the reader of transform expressions, the shape of a class with its inherited
  fields, the expansion of an alias into a class, and the diagnostics.
\<close>

definition TYPEDICT_TRANSFORMS :: "string list" where
  "TYPEDICT_TRANSFORMS =
     [''Partial'', ''Required_'', ''Readonly'', ''Mutable'', ''Pick'', ''Omit'', ''MapValues'']"

type_synonym block_map = "(string \<times> named_block) list"

section \<open>Transform expressions\<close>

definition is_quote :: "char \<Rightarrow> bool" where
  "is_quote c \<longleftrightarrow> c = CHR 0x22 \<or> c = CHR 0x27"

text \<open>
  \<^verbatim>\<open>find_matching_bracket\<close>: the escape test goes on with the next character, it does not
  pass over it.
\<close>

fun matching_bracket_from :: "nat \<Rightarrow> char option \<Rightarrow> nat \<Rightarrow> string \<Rightarrow> nat option" where
  "matching_bracket_from depth quote index [] = None"
| "matching_bracket_from depth (Some q) index (c # s) =
     (if c = CHR 0x5C \<and> s \<noteq> [] then matching_bracket_from depth (Some q) (index + 1) s
      else matching_bracket_from depth (if c = q then None else Some q) (index + 1) s)"
| "matching_bracket_from depth None index (c # s) =
     (if is_quote c then matching_bracket_from depth (Some c) (index + 1) s
      else if c = CHR ''['' then matching_bracket_from (depth + 1) None (index + 1) s
      else if c = CHR '']''
      then (if depth = 0 then Some index else matching_bracket_from (depth - 1) None (index + 1) s)
      else matching_bracket_from depth None (index + 1) s)"

definition find_matching_bracket :: "string \<Rightarrow> nat option" where
  "find_matching_bracket s = matching_bracket_from 0 None 0 s"

text \<open>The arguments between commas outside brackets; \<open>escaped\<close> is that a backslash came before.\<close>

fun transform_args_from :: "bool \<Rightarrow> nat \<Rightarrow> char option \<Rightarrow> string \<Rightarrow> string \<Rightarrow> string list" where
  "transform_args_from escaped depth quote current [] = [trim current]"
| "transform_args_from escaped depth (Some q) current (c # s) =
     transform_args_from (c = CHR 0x5C) depth (if c = q \<and> \<not> escaped then None else Some q) (current @ [c]) s"
| "transform_args_from escaped depth None current (c # s) =
     (if is_quote c then transform_args_from False depth (Some c) (current @ [c]) s
      else if c \<in> set ''[<('' then transform_args_from (c = CHR 0x5C) (depth + 1) None (current @ [c]) s
      else if c \<in> set '']>)'' then transform_args_from (c = CHR 0x5C) (depth - 1) None (current @ [c]) s
      else if c = CHR '','' \<and> depth = 0 then trim current # transform_args_from False 0 None [] s
      else transform_args_from (c = CHR 0x5C) depth None (current @ [c]) s)"

text \<open>The second component is the name of the transform followed by its arguments.\<close>

definition parse_transform_expr :: "string \<Rightarrow> (string \<times> string list) option" where
  "parse_transform_expr value_text =
     (case split_once CHR ''['' (trim value_text) of
        None \<Rightarrow> None
      | Some (head, rest) \<Rightarrow>
          map_option (\<lambda>closing. (trim head, trim head # transform_args_from False 0 None [] (take closing rest)))
            (find_matching_bracket rest))"

lemma transform_args_shorter:
  "a \<in> set (transform_args_from escaped depth quote current s) \<Longrightarrow> length a \<le> length current + length s"
proof (induction escaped depth quote current s arbitrary: a rule: transform_args_from.induct)
  case (1 escaped depth quote current)
  then show ?case using length_trim [of current] by simp
next
  case (2 escaped depth q current c s)
  then show ?case by fastforce
next
  case (3 escaped depth current c s)
  show ?case
  proof (cases "c = CHR '','' \<and> depth = 0")
    case True
    then have "a = trim current \<or> a \<in> set (transform_args_from False 0 None [] s)"
      using 3(6) by (simp add: is_quote_def)
    then show ?thesis using 3(4) [of a] True length_trim [of current] by (auto simp: is_quote_def)
  next
    case False
    have "length a \<le> length (current @ [c]) + length s"
    proof (cases "is_quote c")
      case True
      then show ?thesis using 3(1) [of a] 3(6) by simp
    next
      case quote: False
      show ?thesis
      proof (cases "c \<in> set ''[<(''")
        case True
        then show ?thesis using 3(2) [OF quote True, of a] 3(6) quote by simp
      next
        case opn: False
        show ?thesis
        proof (cases "c \<in> set '']>)''")
          case True
          then show ?thesis using 3(3) [OF quote opn True, of a] 3(6) quote opn by simp
        next
          case cls: False
          then show ?thesis
            using 3(5) [OF quote opn cls False, of a] 3(6) quote opn cls False
            by (simp del: de_Morgan_conj split: if_splits)
        qed
      qed
    qed
    then show ?thesis by simp
  qed
qed

lemma transform_arg_shorter:
  assumes "parse_transform_expr v = Some (t, args)" "a \<in> set (tl args)"
  shows "length a < length v"
proof -
  obtain head rest where s: "split_once CHR ''['' (trim v) = Some (head, rest)"
    using assms(1) by (auto simp: parse_transform_expr_def split: option.splits)
  then obtain closing where "a \<in> set (transform_args_from False 0 None [] (take closing rest))"
    using assms by (auto simp: parse_transform_expr_def)
  then have "length a \<le> length (take closing rest)" using transform_args_shorter by fastforce
  moreover have "trim v = head @ CHR ''['' # rest" using s by (simp add: split_once_Some)
  then have "length (trim v) = length head + 1 + length rest" by simp
  ultimately show ?thesis using length_trim [of v] by simp
qed

lemma second_arg_shorter:
  "parse_transform_expr v = Some (t, args) \<Longrightarrow> 2 \<le> length args \<Longrightarrow> length (args ! 1) < length v"
  by (rule transform_arg_shorter) (auto simp: nth_tl [symmetric] Suc_le_eq intro: nth_mem)

lemma second_arg_of_trimmed:
  "parse_transform_expr (trim v) = Some (t, args) \<Longrightarrow> 2 \<le> length args \<Longrightarrow> length (args ! Suc 0) < length v"
  using second_arg_shorter [of "trim v" t args] length_trim [of v] by simp

section \<open>Keys\<close>

definition transform_key_name :: "string \<Rightarrow> string" where
  "transform_key_name key =
     trim_end_matches CHR ''>'' (trim_end_matches CHR '')'' (trim_end_matches CHR '']''
       (trim_matches CHR 0x27 (trim_matches CHR 0x22 key))))"

definition is_literal_transform_head :: "string \<Rightarrow> bool" where
  "is_literal_transform_head head \<longleftrightarrow>
     trim head \<in> {''Literal'', ''typing.Literal'', ''typing_extensions.Literal''}"

text \<open>A key with the text it was written as.\<close>

definition transform_key_specs :: "string \<Rightarrow> (string \<times> string) list" where
  "transform_key_specs key =
     (let plain = [(transform_key_name key, key)]
      in case parse_transform_expr (trim key) of
           None \<Rightarrow> plain
         | Some (head, args) \<Rightarrow>
             if is_literal_transform_head head \<and> 2 \<le> length args
             then map (\<lambda>a. (transform_key_name a, a)) (drop 1 args) else plain)"

definition transform_key_names :: "string \<Rightarrow> string list" where
  "transform_key_names key = map fst (transform_key_specs key)"

definition map_values_wrapper_supported :: "string list \<Rightarrow> bool" where
  "map_values_wrapper_supported key_args \<longleftrightarrow>
     (case key_args of [] \<Rightarrow> False | wrapper # _ \<Rightarrow> trim wrapper \<in> {''Optional'', ''Readonly''})"

definition apply_transform_to_shape :: "string \<Rightarrow> shape_projection \<Rightarrow> string list \<Rightarrow> shape_projection" where
  "apply_transform_to_shape transform shape key_args =
     (if transform = ''Partial'' then partial_shape shape
      else if transform = ''Required_'' then required_fields shape
      else if transform = ''Readonly'' then readonly_fields shape
      else if transform = ''Mutable'' then mutable_fields shape
      else if transform = ''Pick'' then pick shape (concat (map transform_key_names key_args))
      else if transform = ''Omit'' then omit shape (concat (map transform_key_names key_args))
      else if transform = ''MapValues'' then map_values shape (case key_args of [] \<Rightarrow> [] | k # _ \<Rightarrow> k)
      else shape)"

section \<open>The shape of a class\<close>

datatype typed_dict_inheritance_error = UnknownBase string string | Cycle "string list"

definition inheritance_error_text :: "typed_dict_inheritance_error \<Rightarrow> string" where
  "inheritance_error_text e =
     (case e of
        UnknownBase owner base \<Rightarrow> ''class `'' @ owner @ ''` has unknown base `'' @ base @ ''`''
      | Cycle classes \<Rightarrow> ''cyclic TypedDict inheritance: '' @ join_with '' -> '' classes)"

definition is_typed_dict_base :: "string \<Rightarrow> bool" where
  "is_typed_dict_base base \<longleftrightarrow>
     trim base \<in> {''TypedDict'', ''typing.TypedDict'', ''typing_extensions.TypedDict''}"

definition local_base_name :: "string \<Rightarrow> string" where
  "local_base_name base =
     (case split_once CHR ''['' (trim base) of None \<Rightarrow> trim base | Some (head, _) \<Rightarrow> trim head)"

definition is_typed_dict_support_base :: "string \<Rightarrow> bool" where
  "is_typed_dict_support_base base \<longleftrightarrow>
     local_base_name base \<in> {''Generic'', ''typing.Generic'', ''typing_extensions.Generic'', ''object''}"

definition merge_field ::
    "shape_projection_field \<Rightarrow> shape_projection_field list \<Rightarrow> shape_projection_field list" where
  "merge_field field fs =
     (if list_ex (\<lambda>f. sf_name f = sf_name field) fs
      then (let i = length (takeWhile (\<lambda>f. sf_name f \<noteq> sf_name field) fs) in fs[i := field])
      else fs @ [field])"

definition merge_projection_fields ::
    "shape_projection_field list \<Rightarrow> shape_projection_field list \<Rightarrow> shape_projection_field list" where
  "merge_projection_fields fs incoming = fold merge_field incoming fs"

fun substitute_type_expr :: "(string \<times> type_expr) list \<Rightarrow> type_expr \<Rightarrow> type_expr"
and substitute_callable_params ::
    "(string \<times> type_expr) list \<Rightarrow> callable_param_expr \<Rightarrow> callable_param_expr" where
  "substitute_type_expr \<sigma> (TName name) = (case bt_get \<sigma> name of Some e \<Rightarrow> e | None \<Rightarrow> TName name)"
| "substitute_type_expr \<sigma> (TGeneric head args) = TGeneric head (map (substitute_type_expr \<sigma>) args)"
| "substitute_type_expr \<sigma> (TCallable params r) =
     TCallable (substitute_callable_params \<sigma> params) (substitute_type_expr \<sigma> r)"
| "substitute_type_expr \<sigma> (TUnion branches style) = TUnion (map (substitute_type_expr \<sigma>) branches) style"
| "substitute_type_expr \<sigma> (TAnnotated e metadata) = TAnnotated (substitute_type_expr \<sigma> e) metadata"
| "substitute_type_expr \<sigma> (TUnpack e) = TUnpack (substitute_type_expr \<sigma> e)"
| "substitute_callable_params \<sigma> CEllipsis = CEllipsis"
| "substitute_callable_params \<sigma> (CParamList ps) = CParamList (map (substitute_type_expr \<sigma>) ps)"
| "substitute_callable_params \<sigma> (CConcatenate ps) = CConcatenate (map (substitute_type_expr \<sigma>) ps)"
| "substitute_callable_params \<sigma> (CSingle p) = CSingle (substitute_type_expr \<sigma> p)"

definition substitute_field ::
    "(string \<times> type_expr) list \<Rightarrow> shape_projection_field \<Rightarrow> shape_projection_field" where
  "substitute_field \<sigma> field =
     (case Option.bind (sf_annotation field) type_expr_parse of
        None \<Rightarrow> field
      | Some e \<Rightarrow> field\<lparr>sf_annotation := Some (render (substitute_type_expr \<sigma> e))\<rparr>)"

definition base_substitutions :: "string \<Rightarrow> named_block \<Rightarrow> (string \<times> type_expr) list" where
  "base_substitutions base base_block =
     (case parse_transform_expr base of
        None \<Rightarrow> []
      | Some (_, args) \<Rightarrow>
          bt_from_list (List.map_filter (\<lambda>(p, a). map_option (\<lambda>e. (tp_name p, e)) (type_expr_parse a))
            (zip (nb_type_params base_block) (drop 1 args))))"

definition substitute_projection_field_types ::
    "shape_projection_field list \<Rightarrow> string \<Rightarrow> named_block \<Rightarrow> shape_projection_field list" where
  "substitute_projection_field_types fs base base_block =
     (let \<sigma> = base_substitutions base base_block
      in if \<sigma> = [] then fs else map (substitute_field \<sigma>) fs)"

text \<open>The loop over the bases: an error ends it, a shape is merged.\<close>

fun resolve_bases ::
    "(string \<Rightarrow> typed_dict_inheritance_error + shape_projection_field list option) \<Rightarrow> string list \<Rightarrow>
     shape_projection_field list \<times> bool \<Rightarrow>
     typed_dict_inheritance_error + shape_projection_field list \<times> bool" where
  "resolve_bases f [] state = Inr state"
| "resolve_bases f (b # bs) state =
     (case f b of
        Inl e \<Rightarrow> Inl e
      | Inr None \<Rightarrow> resolve_bases f bs state
      | Inr (Some incoming) \<Rightarrow> resolve_bases f bs (merge_projection_fields (fst state) incoming, True))"

lemma resolve_bases_cong [fundef_cong]:
  "bs = cs \<Longrightarrow> s = t \<Longrightarrow> (\<And>b. b \<in> set cs \<Longrightarrow> f b = g b) \<Longrightarrow> resolve_bases f bs s = resolve_bases g cs t"
  by (induction cs arbitrary: bs s t) (auto split: sum.splits option.splits)

definition cycle_of :: "string list \<Rightarrow> string \<Rightarrow> string list" where
  "cycle_of stack name = dropWhile (\<lambda>n. n \<noteq> name) stack @ [name]"

function resolve_local_typed_dict_shape_inner ::
    "string \<Rightarrow> block_map \<Rightarrow> string list \<Rightarrow> typed_dict_inheritance_error + shape_projection option" where
  "resolve_local_typed_dict_shape_inner name classes stack =
     (if name \<in> set stack then Inl (Cycle (cycle_of stack name))
      else (case bt_get classes name of
              None \<Rightarrow> Inr None
            | Some block \<Rightarrow>
                (case resolve_bases
                        (\<lambda>base.
                           if is_typed_dict_base base \<or> is_typed_dict_support_base base then Inr None
                           else (case bt_get classes (local_base_name base) of
                                   None \<Rightarrow> Inl (UnknownBase (nb_name block) (trim base))
                                 | Some base_block \<Rightarrow>
                                     (case resolve_local_typed_dict_shape_inner (local_base_name base)
                                             classes (stack @ [name]) of
                                        Inl e \<Rightarrow> Inl e
                                      | Inr None \<Rightarrow> Inr None
                                      | Inr (Some shape) \<Rightarrow>
                                          Inr (Some (substitute_projection_field_types (sp_fields shape)
                                            base base_block)))))
                        (nb_bases block) ([], list_ex is_typed_dict_base (nb_bases block)) of
                   Inl e \<Rightarrow> Inl e
                 | Inr (fs, is_typed_dict) \<Rightarrow>
                     if is_typed_dict
                     then Inr (Some \<lparr>sp_name = nb_name block, sp_source_kind = TypedDictSource,
                            sp_fields = merge_projection_fields fs (sp_fields (from_typed_dict_block block))\<rparr>)
                     else Inr None)))"
  by pat_completeness auto
termination
proof (relation "measure (\<lambda>(name, classes, stack). card (fst ` set classes - set stack))")
  fix name and classes :: block_map and stack block base
  assume new: "name \<notin> set stack" and block: "bt_get classes name = Some block"
  have "name \<in> fst ` set classes" using block bt_get_None_iff [of classes name] by auto
  then have "fst ` set classes - set (stack @ [name]) \<subset> fst ` set classes - set stack" using new by auto
  then show "((local_base_name base, classes, stack @ [name]), name, classes, stack)
      \<in> measure (\<lambda>(name, classes, stack). card (fst ` set classes - set stack))"
    by (simp add: psubset_card_mono)
qed simp

definition resolve_local_typed_dict_shape ::
    "string \<Rightarrow> block_map \<Rightarrow> typed_dict_inheritance_error + shape_projection option" where
  "resolve_local_typed_dict_shape name classes = resolve_local_typed_dict_shape_inner name classes []"

declare resolve_local_typed_dict_shape_inner.simps [simp del]

definition ok_flat :: "'e + 'a option \<Rightarrow> 'a option" where
  "ok_flat r = (case r of Inl _ \<Rightarrow> None | Inr x \<Rightarrow> x)"

definition resolved_local_typed_dict_shapes :: "block_map \<Rightarrow> shape_projection list" where
  "resolved_local_typed_dict_shapes classes =
     List.map_filter (\<lambda>name. ok_flat (resolve_local_typed_dict_shape name classes)) (map fst classes)"


section \<open>Expansion\<close>

function resolve_transform_shape ::
    "string \<Rightarrow> block_map \<Rightarrow> block_map \<Rightarrow> bool \<Rightarrow> typed_dict_inheritance_error + shape_projection option" where
  "resolve_transform_shape value_text classes data_classes experimental =
     (case (case parse_transform_expr (trim value_text) of
              None \<Rightarrow> None
            | Some (transform, args) \<Rightarrow>
                if transform \<in> set TYPEDICT_TRANSFORMS \<and> 2 \<le> length args then Some (transform, args) else None) of
        Some (transform, args) \<Rightarrow>
          if transform = ''MapValues'' \<and> \<not> map_values_wrapper_supported (drop 2 args) then Inr None
          else (case resolve_transform_shape (args ! 1) classes data_classes experimental of
                  Inl e \<Rightarrow> Inl e
                | Inr shape \<Rightarrow>
                    Inr (map_option (\<lambda>s. apply_transform_to_shape transform s (drop 2 args)) shape))
      | None \<Rightarrow>
          if bt_get classes (trim value_text) \<noteq> None
          then resolve_local_typed_dict_shape (trim value_text) classes
          else if experimental
          then Inr (map_option (\<lambda>target. from_named_block target DataClassSource)
                      (bt_get data_classes (trim value_text)))
          else Inr None)"
  by pat_completeness auto
termination
  by (relation "measure (\<lambda>(v, _). length v)")
    (auto split: option.splits if_splits intro: second_arg_of_trimmed)
declare resolve_transform_shape.simps [simp del]

function transform_expression_reaches_data_class :: "string \<Rightarrow> block_map \<Rightarrow> bool" where
  "transform_expression_reaches_data_class value_text data_classes \<longleftrightarrow>
     bt_get data_classes (trim value_text) \<noteq> None \<or>
     (case parse_transform_expr (trim value_text) of
        None \<Rightarrow> False
      | Some (transform, args) \<Rightarrow>
          if transform \<in> set TYPEDICT_TRANSFORMS \<and> 2 \<le> length args
          then transform_expression_reaches_data_class (args ! 1) data_classes else False)"
  by pat_completeness auto
termination
  by (relation "measure (\<lambda>(v, _). length v)")
    (auto intro: second_arg_of_trimmed)
declare transform_expression_reaches_data_class.simps [simp del]

definition transform_targets_data_class :: "string \<Rightarrow> block_map \<Rightarrow> bool" where
  "transform_targets_data_class value_text data_classes \<longleftrightarrow>
     (case parse_transform_expr (trim value_text) of
        None \<Rightarrow> False
      | Some (transform, args) \<Rightarrow>
          transform \<in> set TYPEDICT_TRANSFORMS \<and> 2 \<le> length args \<and>
          transform_expression_reaches_data_class (args ! 1) data_classes)"

definition transform_generates_notrequired :: "string \<Rightarrow> block_map \<Rightarrow> block_map \<Rightarrow> bool \<Rightarrow> bool" where
  "transform_generates_notrequired value_text classes data_classes experimental \<longleftrightarrow>
     (case ok_flat (resolve_transform_shape (trim value_text) classes data_classes experimental) of
        None \<Rightarrow> False
      | Some shape \<Rightarrow>
          list_ex (\<lambda>f. case sf_annotation f of
                         None \<Rightarrow> False | Some a \<Rightarrow> starts_with ''NotRequired['' (trim_start a))
            (sp_fields shape))"

text \<open>The shape the outer transform is applied to: one nested transform is applied here.\<close>

definition transform_base_shape ::
    "string \<Rightarrow> block_map \<Rightarrow> block_map \<Rightarrow> bool \<Rightarrow> shape_projection option" where
  "transform_base_shape target classes data_classes experimental =
     (case parse_transform_expr target of
        None \<Rightarrow> ok_flat (resolve_transform_shape target classes data_classes experimental)
      | Some (inner, inner_args) \<Rightarrow>
          if inner \<in> set TYPEDICT_TRANSFORMS \<and> 2 \<le> length inner_args
          then map_option (\<lambda>s. apply_transform_to_shape inner s (drop 2 inner_args))
                 (ok_flat (resolve_transform_shape (inner_args ! 1) classes data_classes experimental))
          else None)"

definition typealias_name :: "string \<Rightarrow> string option" where
  "typealias_name source_line =
     map_option (\<lambda>rest. trim (hd (split_char CHR ''='' rest)))
       (strip_prefix ''typealias'' (trim_end (trim_start source_line)))"

definition expanded_lines :: "string \<Rightarrow> string \<Rightarrow> class_member list \<Rightarrow> string list" where
  "expanded_lines indent name members =
     (indent @ ''class '' @ name @ ''(TypedDict):'') #
     map (\<lambda>m. indent @ ''    '' @ cm_name m @ '': '' @
            (case cm_annotation m of Some a \<Rightarrow> a | None \<Rightarrow> ''object'')) members"

definition try_expand_typeddict_transform ::
    "string \<Rightarrow> block_map \<Rightarrow> block_map \<Rightarrow> bool \<Rightarrow> string \<Rightarrow> string list option" where
  "try_expand_typeddict_transform value_text classes data_classes experimental source_line =
     Option.bind (parse_transform_expr (trim value_text)) (\<lambda>(transform, args).
       if transform \<notin> set TYPEDICT_TRANSFORMS \<or> length args < 2 \<or>
          (transform = ''MapValues'' \<and> \<not> map_values_wrapper_supported (drop 2 args)) then None
       else Option.bind (transform_base_shape (args ! 1) classes data_classes experimental) (\<lambda>shape.
         map_option (\<lambda>name. expanded_lines (indentation_of source_line) name
             (materialize_members (apply_transform_to_shape transform shape (drop 2 args))))
           (typealias_name source_line)))"

section \<open>Diagnostics\<close>

text \<open>One row of the table of distances, after the cell \<open>left_cell\<close> of the same row.\<close>

fun next_cells :: "char \<Rightarrow> string \<Rightarrow> nat list \<Rightarrow> nat \<Rightarrow> nat list" where
  "next_cells left_char (right_char # rs) (diagonal # up # row) left_cell =
     (let cell = min (min (up + 1) (left_cell + 1))
                   (diagonal + (if left_char \<noteq> right_char then 1 else 0))
      in cell # next_cells left_char rs (up # row) cell)"
| "next_cells left_char _ _ left_cell = []"

definition edit_row :: "string \<Rightarrow> nat \<times> char \<Rightarrow> nat list \<Rightarrow> nat list" where
  "edit_row right entry row =
     (let (i, left_char) = entry in (i + 1) # next_cells left_char right row (i + 1))"

definition edit_distance :: "string \<Rightarrow> string \<Rightarrow> nat" where
  "edit_distance left right =
     last (fold (edit_row right) (zip [0..<length left] left) [0..<Suc (length right)])"

text \<open>\<^verbatim>\<open>min_by_key\<close>: the first of the smallest.\<close>

fun first_min :: "('a \<Rightarrow> nat) \<Rightarrow> 'a list \<Rightarrow> 'a option" where
  "first_min f [] = None"
| "first_min f (x # xs) =
     (case first_min f xs of None \<Rightarrow> Some x | Some y \<Rightarrow> if f y < f x then Some y else Some x)"

definition closest_known_key :: "string \<Rightarrow> string list \<Rightarrow> string option" where
  "closest_known_key unknown_key known_keys =
     Option.bind (first_min (edit_distance unknown_key) known_keys)
       (\<lambda>k. if edit_distance unknown_key k \<le> 5 then Some k else None)"

definition quoted_by :: "char \<Rightarrow> string \<Rightarrow> bool" where
  "quoted_by q s \<longleftrightarrow> starts_with [q] s \<and> ends_with [q] s"

definition typed_dict_transform_key_suggestion ::
    "(string \<Rightarrow> string option) \<Rightarrow> string \<Rightarrow> nat \<Rightarrow> string \<Rightarrow> string \<Rightarrow> (span \<times> string) option" where
  "typed_dict_transform_key_suggestion read_file path line raw_key_arg candidate =
     Option.bind (read_file path) (\<lambda>source.
       let lines = str_lines source; trimmed_key = trim raw_key_arg
       in if length lines \<le> line - 1 then None
          else map_option (\<lambda>at.
                 (span_new path line (at + 1) line (at + 1 + length trimmed_key),
                  if quoted_by CHR 0x22 trimmed_key then CHR 0x22 # candidate @ [CHR 0x22]
                  else if quoted_by CHR 0x27 trimmed_key then CHR 0x27 # candidate @ [CHR 0x27]
                  else candidate))
               (find_str trimmed_key (lines ! (line - 1))))"

definition typed_dict_transform_error :: "string \<Rightarrow> nat \<Rightarrow> string \<Rightarrow> diagnostic" where
  "typed_dict_transform_error path line message =
     with_span (span_new path line 1 line 1) (diagnostic_error ''TPY4017'' message)"

text \<open>The error for an unknown key, with the closest known one as a suggestion.\<close>

definition unknown_key_error ::
    "(string \<Rightarrow> string option) \<Rightarrow> string \<Rightarrow> nat \<Rightarrow> string \<Rightarrow> string \<times> string \<Rightarrow> string list \<Rightarrow> diagnostic" where
  "unknown_key_error read_file path line message key known_keys =
     (let d = typed_dict_transform_error path line message
      in case closest_known_key (fst key) known_keys of
           None \<Rightarrow> d
         | Some candidate \<Rightarrow>
             (case typed_dict_transform_key_suggestion read_file path line (snd key) candidate of
                None \<Rightarrow> d
              | Some (s, replacement) \<Rightarrow>
                  with_suggestion (''Replace `'' @ fst key @ ''` with `'' @ candidate @ ''`'') s replacement
                    MachineApplicable d))"

definition collect_typed_dict_transform_diagnostics ::
    "(string \<Rightarrow> string option) \<Rightarrow> string \<Rightarrow> nat \<Rightarrow> string \<Rightarrow> block_map \<Rightarrow> block_map \<Rightarrow> bool \<Rightarrow> diagnostic list" where
  "collect_typed_dict_transform_diagnostics read_file path line value_text classes data_classes experimental =
     (case parse_transform_expr (trim value_text) of
        None \<Rightarrow> []
      | Some (transform, args) \<Rightarrow>
          if transform \<notin> set TYPEDICT_TRANSFORMS \<or> length args < 2 then []
          else (case resolve_transform_shape (args ! 1) classes data_classes experimental of
                  Inl e \<Rightarrow> [typed_dict_transform_error path line
                      (''type transform `'' @ transform @ ''` cannot resolve its TypedDict target: '' @
                       inheritance_error_text e)]
                | Inr None \<Rightarrow> [typed_dict_transform_error path line
                      (''type transform `'' @ transform @ ''` targets `'' @ trim (args ! 1) @
                       ''` which is not a known TypedDict or experimental shape source'')]
                | Inr (Some shape) \<Rightarrow>
                    if transform \<noteq> ''Pick'' \<and> transform \<noteq> ''Omit'' then []
                    else (let known = bs_from_list (concat (map (\<lambda>f. [sf_name f, sf_public_alias f]) (sp_fields shape)))
                          in map (\<lambda>key. unknown_key_error read_file path line
                                   (''type transform `'' @ transform @ ''` references unknown key `'' @ fst key @
                                    ''` on shape source `'' @ sp_name shape @ ''`'') key known)
                               (filter (\<lambda>key. fst key \<notin> set known)
                                 (concat (map transform_key_specs (drop 2 args)))))))"

definition lowering_error :: "string \<Rightarrow> nat \<Rightarrow> string \<Rightarrow> diagnostic" where
  "lowering_error path line construct =
     with_span (span_new path line 1 line 1)
       (diagnostic_error ''TPY2002''
         (''TypePython-only syntax `'' @ construct @ ''` is recognized but not lowerable yet''))"

definition is_lowerable_named_block :: "named_block \<Rightarrow> bool" where
  "is_lowerable_named_block block \<longleftrightarrow>
     nb_header_suffix block = [] \<or>
     starts_with ''('' (nb_header_suffix block) \<and> ends_with '')'' (nb_header_suffix block)"

definition classes_by_name_of :: "syntax_statement list \<Rightarrow> block_map" where
  "classes_by_name_of statements =
     bt_from_list (List.map_filter (\<lambda>s. case s of StClassDef b \<Rightarrow> Some (nb_name b, b) | _ \<Rightarrow> None) statements)"

definition data_classes_by_name_of :: "syntax_statement list \<Rightarrow> block_map" where
  "data_classes_by_name_of statements =
     bt_from_list (List.map_filter
       (\<lambda>s. case s of StDataClass b \<Rightarrow> if is_lowerable_named_block b then Some (nb_name b, b) else None
              | _ \<Rightarrow> None) statements)"

definition statement_lowering_diagnostics ::
    "(string \<Rightarrow> string option) \<Rightarrow> string \<Rightarrow> block_map \<Rightarrow> block_map \<Rightarrow> bool \<Rightarrow> syntax_statement \<Rightarrow> diagnostic list" where
  "statement_lowering_diagnostics read_file path classes data_classes experimental statement =
     (case statement of
        StTypeAlias s \<Rightarrow> collect_typed_dict_transform_diagnostics read_file path (ta_line s) (ta_value s)
                           classes data_classes experimental
      | StInterface b \<Rightarrow> if is_lowerable_named_block b then [] else [lowering_error path (nb_line b) ''interface'']
      | StDataClass b \<Rightarrow> if is_lowerable_named_block b then [] else [lowering_error path (nb_line b) ''data class'']
      | StSealedClass b \<Rightarrow> if is_lowerable_named_block b then [] else [lowering_error path (nb_line b) ''sealed class'']
      | _ \<Rightarrow> [])"

definition collect_lowering_diagnostics ::
    "(string \<Rightarrow> string option) \<Rightarrow> string \<Rightarrow> syntax_statement list \<Rightarrow> bool \<Rightarrow> diagnostic_report" where
  "collect_lowering_diagnostics read_file path statements experimental =
     concat (map (statement_lowering_diagnostics read_file path (classes_by_name_of statements)
       (data_classes_by_name_of statements) experimental) statements)"

end
