(* ===== verification/Lowering.thy ===== *)
theory Lowering
  imports Shape_Lowering Py_Target Bindings
begin

text \<open>
  Lowering of TypePython to Python (crates/typepython_lowering, core.rs): the source is rewritten
  line by line, the lines of declarations by what the surface tree says of them, and a source map
  and a span map record where each line went. The Python parser of the ruff crates is an
  argument: what the code reads of a parsed text is in the record \<open>python_parser\<close>, with
  positions as indices into the text.
\<close>

section \<open>Data\<close>

record source_map_entry =
  sm_original_line :: nat
  sm_lowered_line :: nat

record span_map_range =
  sr_line :: nat
  sr_start_col :: nat
  sr_end_col :: nat

datatype lowering_segment_kind = Copied | Inserted | Rewritten | Synthetic

record span_map_entry =
  se_source_path :: string
  se_emitted_path :: string
  se_original :: span_map_range
  se_emitted :: span_map_range
  se_kind :: lowering_segment_kind

datatype backport_requirement = TypingExtensionsAtLeast412

record lowering_metadata =
  lm_has_generic_type_params :: bool
  lm_has_typed_dict_transforms :: bool
  lm_has_sealed_classes :: bool
  lm_required_runtime_features :: "runtime_feature set"
  lm_required_backports :: "backport_requirement set"
  lm_export_runtime_semantics :: "(string \<times> runtime_typing_semantics) list"

record lowering_options =
  lo_target_python :: python_target
  lo_emit_style :: emit_style
  lo_shape_transforms :: bool
  lo_dual_emit :: bool

definition default_lowering_options :: lowering_options where
  "default_lowering_options =
     \<lparr>lo_target_python = default_target, lo_emit_style = Compat, lo_shape_transforms = False,
      lo_dual_emit = False\<rparr>"

record lowered_text =
  lt_python_source :: string
  lt_source_map :: "source_map_entry list"
  lt_span_map :: "span_map_entry list"
  lt_required_imports :: "string list"
  lt_metadata :: lowering_metadata

record lowered_module =
  ld_source_path :: string
  ld_source_kind :: source_kind
  ld_text :: lowered_text

record syntax_tree =
  st_path :: string
  st_kind :: source_kind
  st_text :: string
  st_statements :: "syntax_statement list"

text \<open>What the code reads of a parsed Python module.\<close>

type_synonym text_range = "nat \<times> nat"

datatype py_import =
    PyImportModules "(string \<times> string option) list"
  | PyImportFrom nat "string option" "(string \<times> string option) list"

datatype py_token_kind = TokName | TokDot | TokOther

datatype py_stmt =
    PyFunctionDef text_range "text_range list" "text_range option" "py_stmt list"
  | PyAnnAssign text_range text_range "text_range option"
  | PyClassDef text_range "text_range list" "py_stmt list"
  | PyImportStmt text_range
  | PyStringExpr text_range
  | PyOtherStmt text_range

text \<open>
  The same module as the visitor of starred types walks it: expressions with their parts in the
  order of the walk, and of a statement its expressions, its annotations and the statements inside.
\<close>

datatype py_expr =
    ExName text_range string
  | ExAttribute text_range py_expr string
  | ExSubscript text_range py_expr py_expr
  | ExTuple text_range "py_expr list"
  | ExStarred text_range py_expr
  | ExOther text_range "py_expr list"

datatype py_part = PartExpr py_expr | PartAnnotation py_expr

text \<open>The truth value of a function or class says whether it has type parameters.\<close>

datatype py_walked =
    WkFunctionDef bool "py_part list" "py_walked list"
  | WkClassDef bool "py_part list" "py_walked list"
  | WkTypeAlias
  | WkAnnAssign py_expr py_expr "py_expr option"
  | WkOther "py_part list" "py_walked list"

record python_parser =
  pp_imports :: "string \<Rightarrow> py_import list"
  pp_tokens :: "string \<Rightarrow> (py_token_kind \<times> text_range) list"
  pp_suite :: "string \<Rightarrow> py_stmt list option"
  pp_walked :: "string \<Rightarrow> py_walked list option"

section \<open>Imports\<close>

definition unaliased :: "string \<Rightarrow> string \<times> string option \<Rightarrow> bool" where
  "unaliased symbol entry \<longleftrightarrow>
     fst entry = symbol \<and> (case snd entry of None \<Rightarrow> True | Some binding \<Rightarrow> binding = symbol)"

definition has_unaliased_from_import :: "python_parser \<Rightarrow> string \<Rightarrow> string \<Rightarrow> string \<Rightarrow> bool" where
  "has_unaliased_from_import py source module symbol \<longleftrightarrow>
     list_ex (\<lambda>i. case i of
         PyImportFrom level from names \<Rightarrow> level = 0 \<and> from = Some module \<and> list_ex (unaliased symbol) names
       | PyImportModules _ \<Rightarrow> False) (pp_imports py source)"

definition has_compatible_typing_import :: "python_parser \<Rightarrow> string \<Rightarrow> string \<Rightarrow> string \<Rightarrow> bool" where
  "has_compatible_typing_import py source module symbol \<longleftrightarrow>
     has_unaliased_from_import py source module symbol \<or>
     (module = ''typing'' \<and> has_unaliased_from_import py source ''typing_extensions'' symbol)"

definition has_unaliased_typing_import :: "python_parser \<Rightarrow> string \<Rightarrow> string \<Rightarrow> bool" where
  "has_unaliased_typing_import py source symbol \<longleftrightarrow>
     list_ex (\<lambda>module. has_unaliased_from_import py source module symbol) [''typing'', ''typing_extensions'']"

definition has_module_import :: "python_parser \<Rightarrow> string \<Rightarrow> string \<Rightarrow> bool" where
  "has_module_import py source module \<longleftrightarrow>
     list_ex (\<lambda>i. case i of PyImportModules names \<Rightarrow> list_ex (unaliased module) names
                | PyImportFrom _ _ _ \<Rightarrow> False) (pp_imports py source)"

text \<open>The places where a name stands before a dot, with what stands before it not a dot.\<close>

definition qualifier_at :: "(py_token_kind \<times> text_range) list \<Rightarrow> nat \<Rightarrow> bool" where
  "qualifier_at tokens i \<longleftrightarrow>
     i + 1 < length tokens \<and> fst (tokens ! i) = TokName \<and> fst (tokens ! (i + 1)) = TokDot \<and>
     (i = 0 \<or> fst (tokens ! (i - 1)) \<noteq> TokDot)"

definition has_qualified_module_reference :: "python_parser \<Rightarrow> string \<Rightarrow> string \<Rightarrow> bool" where
  "has_qualified_module_reference py source module \<longleftrightarrow>
     (let tokens = pp_tokens py source
      in list_ex (\<lambda>i. qualifier_at tokens i \<and> slice_range source (snd (tokens ! i)) = Some module)
           [0..<length tokens])"

text \<open>\<^verbatim>\<open>match_indices\<close>: the matches do not overlap; \<open>before\<close> is the character before the text.\<close>

function unqualified_use_from :: "string \<Rightarrow> char option \<Rightarrow> string \<Rightarrow> bool" where
  "unqualified_use_from needle before s =
     (case (if needle = [] then None else split_once_str needle s) of
        None \<Rightarrow> False
      | Some (a, b) \<Rightarrow>
          (case (if a = [] then before else Some (last a)) of
             None \<Rightarrow> True
           | Some c \<Rightarrow> \<not> (is_ascii_alphanumeric c \<or> c = CHR ''_'' \<or> c = CHR ''.'')) \<or>
          unqualified_use_from needle (Some (last needle)) b)"
  by pat_completeness auto
termination
  by (relation "measure (\<lambda>(n, _, s). length s)") (auto split: if_splits dest: split_once_str_shorter)
declare unqualified_use_from.simps [simp del]

definition has_unqualified_symbol_usage :: "string \<Rightarrow> string \<Rightarrow> bool" where
  "has_unqualified_symbol_usage source symbol = unqualified_use_from (symbol @ ''['') None source"

section \<open>Symbols that moved between modules\<close>

definition COMPATIBILITY_MODULES :: "string list" where
  "COMPATIBILITY_MODULES = [''typing'', ''typing_extensions'', ''warnings'']"

definition is_target_compatibility_symbol :: "string \<Rightarrow> bool" where
  "is_target_compatibility_symbol symbol \<longleftrightarrow>
     symbol \<in> set [''Self'', ''Required'', ''NotRequired'', ''dataclass_transform'', ''override'', ''TypeVarTuple'',
       ''Unpack'', ''ReadOnly'', ''TypeIs'', ''NoDefault'', ''deprecated'']"

definition compat_module_for_symbol :: "string \<Rightarrow> python_target \<Rightarrow> string option" where
  "compat_module_for_symbol symbol target = stdlib_owner target symbol"

text \<open>The replacement at one place of the tokens.\<close>

definition compatibility_replacement ::
    "python_parser \<Rightarrow> string \<Rightarrow> lowering_options \<Rightarrow> (py_token_kind \<times> text_range) list \<Rightarrow> nat \<Rightarrow>
     (text_range \<times> string) option" where
  "compatibility_replacement py source options tokens i =
     (if qualifier_at tokens i \<and> i + 2 < length tokens \<and> fst (tokens ! (i + 2)) = TokName
      then Option.bind (slice_range source (snd (tokens ! i))) (\<lambda>module.
           if module \<notin> set COMPATIBILITY_MODULES then None
           else Option.bind (slice_range source (snd (tokens ! (i + 2)))) (\<lambda>symbol.
             if \<not> is_target_compatibility_symbol symbol then None
             else Option.bind (stdlib_owner (lo_target_python options) symbol) (\<lambda>owner.
               if owner = module then None else Some (snd (tokens ! i), owner))))
      else None)"

text \<open>Replacements are made from the last to the first.\<close>

definition descending_by_start :: "(text_range \<times> string) list \<Rightarrow> (text_range \<times> string) list" where
  "descending_by_start replacements = rev (sort_key (\<lambda>r. fst (fst r)) (rev replacements))"

definition normalize_target_compatibility_text ::
    "python_parser \<Rightarrow> string \<Rightarrow> lowering_options \<Rightarrow> string" where
  "normalize_target_compatibility_text py source options =
     (let tokens = pp_tokens py source;
          replacements = List.map_filter (compatibility_replacement py source options tokens) [0..<length tokens]
      in fold (\<lambda>(span, owner). replace_text_range span owner) (descending_by_start replacements) source)"

text \<open>The entries of an import grouped by the module that has them, in the order of the modules.\<close>

definition import_group_step ::
    "string \<Rightarrow> python_target \<Rightarrow> string \<Rightarrow> (string \<times> string list) list \<times> string list \<Rightarrow>
     (string \<times> string list) list \<times> string list" where
  "import_group_step module target raw_name state =
     (let (grouped, order) = state; entry = trim raw_name
      in if entry = [] then state
         else (let symbol = (case split_once_str '' as '' entry of Some (name, _) \<Rightarrow> trim name | None \<Rightarrow> entry);
                   target_module = (case compat_module_for_symbol symbol target of Some m \<Rightarrow> m | None \<Rightarrow> module)
               in (bt_push target_module entry grouped,
                   if target_module \<in> set order then order else order @ [target_module])))"

definition normalize_import_from_line ::
    "string \<Rightarrow> string \<Rightarrow> string \<Rightarrow> python_target \<Rightarrow> string list" where
  "normalize_import_from_line indentation module names target =
     (let (grouped, order) = fold (import_group_step module target) (split_char CHR '','' names) ([], [])
      in List.map_filter (\<lambda>m. map_option
             (\<lambda>ns. indentation @ ''from '' @ m @ '' import '' @ join_with '', '' ns) (bt_get grouped m)) order)"

text \<open>
  The indentation is cut off by the length the line lost at both ends, so a line with white space
  at its end keeps that many characters of its own text.
\<close>

definition from_import_parts :: "string \<Rightarrow> (string \<times> string) option" where
  "from_import_parts stripped =
     Option.bind (strip_prefix ''from '' stripped) (\<lambda>rest.
     Option.bind (split_once_str '' import '' rest) (\<lambda>(module, names).
       if module \<in> set COMPATIBILITY_MODULES then Some (module, names) else None))"

definition normalize_target_compatibility_line ::
    "python_parser \<Rightarrow> string \<Rightarrow> lowering_options \<Rightarrow> string list" where
  "normalize_target_compatibility_line py line options =
     (let stripped = trim line; unchanged = [normalize_target_compatibility_text py line options]
      in case from_import_parts stripped of
           None \<Rightarrow> unchanged
         | Some (module, names) \<Rightarrow>
             (let indentation = take (length line - length stripped) line;
                  normalized = normalize_import_from_line indentation module names (lo_target_python options)
              in if length normalized \<noteq> 1 \<or> trim (hd normalized) \<noteq> stripped then normalized else unchanged))"

section \<open>Checker-only types\<close>

definition intrinsic_replacement :: "string \<Rightarrow> text_range \<Rightarrow> (text_range \<times> string) list" where
  "intrinsic_replacement source span =
     (case normalize_checker_only_type_text (case slice_range source span of Some t \<Rightarrow> t | None \<Rightarrow> []) of
        Some replacement \<Rightarrow> [(span, replacement)] | None \<Rightarrow> [])"

fun intrinsic_replacements_of :: "string \<Rightarrow> py_stmt \<Rightarrow> (text_range \<times> string) list" where
  "intrinsic_replacements_of source (PyFunctionDef _ annotations returns body) =
     concat (map (intrinsic_replacement source) annotations) @
     (case returns of Some span \<Rightarrow> intrinsic_replacement source span | None \<Rightarrow> []) @
     concat (map (intrinsic_replacements_of source) body)"
| "intrinsic_replacements_of source (PyAnnAssign _ annotation value_range) =
     intrinsic_replacement source annotation @
     (case value_range of
        Some span \<Rightarrow>
          (case slice_range source annotation of
             Some t \<Rightarrow> if trim_end t = ''TypeAlias'' then intrinsic_replacement source span else []
           | None \<Rightarrow> [])
      | None \<Rightarrow> [])"
| "intrinsic_replacements_of source (PyClassDef _ arguments body) =
     concat (map (intrinsic_replacement source) arguments) @
     concat (map (intrinsic_replacements_of source) body)"
| "intrinsic_replacements_of source _ = []"

definition normalize_runtime_intrinsic_types :: "python_parser \<Rightarrow> string \<Rightarrow> string" where
  "normalize_runtime_intrinsic_types py source =
     (case pp_suite py source of
        None \<Rightarrow> source
      | Some suite \<Rightarrow>
          fold (\<lambda>(span, replacement) normalized.
              if slice_range normalized span = Some replacement then normalized
              else replace_text_range span replacement normalized)
            (descending_by_start (concat (map (intrinsic_replacements_of source) suite))) source)"

definition mentions_dynamic :: "string option \<Rightarrow> bool" where
  "mentions_dynamic t = (case t of Some s \<Rightarrow> contains_str ''dynamic'' s | None \<Rightarrow> False)"

definition block_uses_dynamic :: "named_block \<Rightarrow> bool" where
  "block_uses_dynamic b \<longleftrightarrow>
     contains_str ''dynamic'' (nb_header_suffix b) \<or> list_ex (\<lambda>m. mentions_dynamic (cm_annotation m)) (nb_members b)"

definition function_uses_dynamic :: "function_statement \<Rightarrow> bool" where
  "function_uses_dynamic f \<longleftrightarrow>
     mentions_dynamic (fs_returns f) \<or> list_ex (\<lambda>p. mentions_dynamic (fp_annotation p)) (fs_params f)"

definition statement_uses_dynamic_intrinsic :: "syntax_statement \<Rightarrow> bool" where
  "statement_uses_dynamic_intrinsic statement =
     (case statement of
        StTypeAlias s \<Rightarrow> contains_str ''dynamic'' (ta_value s)
      | StInterface b \<Rightarrow> block_uses_dynamic b
      | StDataClass b \<Rightarrow> block_uses_dynamic b
      | StSealedClass b \<Rightarrow> block_uses_dynamic b
      | StClassDef b \<Rightarrow> block_uses_dynamic b
      | StFunctionDef f \<Rightarrow> function_uses_dynamic f
      | StOverloadDef f \<Rightarrow> function_uses_dynamic f
      | StValue v \<Rightarrow> mentions_dynamic (vs_annotation v)
      | _ \<Rightarrow> False)"

definition tree_uses_dynamic_intrinsic :: "syntax_tree \<Rightarrow> bool" where
  "tree_uses_dynamic_intrinsic tree = list_ex statement_uses_dynamic_intrinsic (st_statements tree)"

section \<open>Native and compatible forms\<close>

definition type_params_have_defaults :: "type_param list \<Rightarrow> bool" where
  "type_params_have_defaults params = list_ex (\<lambda>p. tp_default p \<noteq> None) params"

definition can_use_native_type_params :: "type_param list \<Rightarrow> lowering_options \<Rightarrow> bool" where
  "can_use_native_type_params params options \<longleftrightarrow>
     lo_emit_style options = Native \<and> supports_inline_type_params (lo_target_python options) \<and>
     (supports_generic_defaults (lo_target_python options) \<or> \<not> type_params_have_defaults params)"

definition can_use_native_typealias :: "type_alias_statement \<Rightarrow> lowering_options \<Rightarrow> bool" where
  "can_use_native_typealias s options \<longleftrightarrow>
     lo_emit_style options = Native \<and> supports_type_stmt (lo_target_python options) \<and>
     can_use_native_type_params (ta_type_params s) options"

text \<open>The renderer is the one of the syntax crate once more.\<close>

definition render_native_type_param :: "type_param \<Rightarrow> string" where
  "render_native_type_param p = render_type_param p"

definition render_native_type_params :: "type_param list \<Rightarrow> string" where
  "render_native_type_params params =
     (if params = [] then [] else ''['' @ join_with '', '' (map render_native_type_param params) @ '']'')"

definition native_type_param_list_if_enabled :: "type_param list \<Rightarrow> lowering_options \<Rightarrow> string" where
  "native_type_param_list_if_enabled params options =
     (if can_use_native_type_params params options then render_native_type_params params else [])"

definition strip_generic_type_params :: "string \<Rightarrow> string" where
  "strip_generic_type_params source =
     (case (if starts_with ''async def '' source then Some ''async def ''
            else if starts_with ''def '' source then Some ''def '' else None) of
        None \<Rightarrow> source
      | Some prefix \<Rightarrow>
          (let after = drop (length prefix) source;
               name = takeWhile is_word_char after;
               tail = dropWhile is_word_char after
           in if \<not> starts_with ''['' tail then source
              else (case split_bracketed tail of
                      None \<Rightarrow> source
                    | Some (_, remainder) \<Rightarrow> prefix @ name @ remainder)))"

subsection \<open>Renaming type parameters in a text\<close>

type_synonym renaming = "(string \<times> string) list"

definition rename_token :: "renaming \<Rightarrow> string \<Rightarrow> string" where
  "rename_token \<sigma> token = (case bt_get \<sigma> token of Some t \<Rightarrow> t | None \<Rightarrow> token)"

text \<open>Words outside string literals; the empty word is never replaced.\<close>

fun rewrite_tokens_from :: "renaming \<Rightarrow> char option \<Rightarrow> bool \<Rightarrow> string \<Rightarrow> string \<Rightarrow> string" where
  "rewrite_tokens_from \<sigma> quote escaped token [] = (if token = [] then [] else rename_token \<sigma> token)"
| "rewrite_tokens_from \<sigma> (Some q) escaped token (c # s) =
     c # (if escaped then rewrite_tokens_from \<sigma> (Some q) False token s
          else if c = CHR 0x5C then rewrite_tokens_from \<sigma> (Some q) True token s
          else if c = q then rewrite_tokens_from \<sigma> None False token s
          else rewrite_tokens_from \<sigma> (Some q) False token s)"
| "rewrite_tokens_from \<sigma> None escaped token (c # s) =
     (if is_quote c
      then (if token = [] then [] else rename_token \<sigma> token) @ c # rewrite_tokens_from \<sigma> (Some c) False [] s
      else if is_word_char c then rewrite_tokens_from \<sigma> None False (token @ [c]) s
      else (if token = [] then [] else rename_token \<sigma> token) @ c # rewrite_tokens_from \<sigma> None False [] s)"

definition rewrite_type_param_tokens :: "string \<Rightarrow> renaming \<Rightarrow> string" where
  "rewrite_type_param_tokens source \<sigma> = rewrite_tokens_from \<sigma> None False [] source"

definition apply_type_param_rewrites :: "string \<Rightarrow> renaming option \<Rightarrow> string option" where
  "apply_type_param_rewrites source renaming =
     (case renaming of
        None \<Rightarrow> None
      | Some \<sigma> \<Rightarrow>
          if \<sigma> = [] then None
          else (let rewritten = rewrite_type_param_tokens source \<sigma>
                in if rewritten = source then None else Some rewritten))"

text \<open>\<^verbatim>\<open>apply_type_param_rewrites(..).unwrap_or(text)\<close>.\<close>

definition rewritten_or_same :: "string \<Rightarrow> renaming option \<Rightarrow> string" where
  "rewritten_or_same source renaming =
     (case apply_type_param_rewrites source renaming of Some t \<Rightarrow> t | None \<Rightarrow> source)"

definition merged_type_param_rewrites :: "renaming option \<Rightarrow> renaming option \<Rightarrow> renaming option" where
  "merged_type_param_rewrites first second =
     (let entries = (case first of Some r \<Rightarrow> r | None \<Rightarrow> []) @ (case second of Some r \<Rightarrow> r | None \<Rightarrow> []);
          merged = bt_from_list entries
      in if merged = [] then None else Some merged)"

subsection \<open>Headers of classes\<close>

fun split_header_args_from ::
    "nat \<times> nat \<times> nat \<Rightarrow> char option \<Rightarrow> bool \<Rightarrow> string \<Rightarrow> string \<Rightarrow> string list" where
  "split_header_args_from depth quote escaped current [] = (if trim current = [] then [] else [trim current])"
| "split_header_args_from depth (Some q) escaped current (c # s) =
     (if escaped then split_header_args_from depth (Some q) False (current @ [c]) s
      else if c = CHR 0x5C then split_header_args_from depth (Some q) True (current @ [c]) s
      else if c = q then split_header_args_from depth None False (current @ [c]) s
      else split_header_args_from depth (Some q) False (current @ [c]) s)"
| "split_header_args_from (p, b, r) None escaped current (c # s) =
     (if is_quote c then split_header_args_from (p, b, r) (Some c) False (current @ [c]) s
      else if c = CHR ''('' then split_header_args_from (p + 1, b, r) None False (current @ [c]) s
      else if c = CHR '')'' then split_header_args_from (p - 1, b, r) None False (current @ [c]) s
      else if c = CHR ''['' then split_header_args_from (p, b + 1, r) None False (current @ [c]) s
      else if c = CHR '']'' then split_header_args_from (p, b - 1, r) None False (current @ [c]) s
      else if c = CHR 0x7B then split_header_args_from (p, b, r + 1) None False (current @ [c]) s
      else if c = CHR 0x7D then split_header_args_from (p, b, r - 1) None False (current @ [c]) s
      else if c = CHR '','' \<and> (p, b, r) = (0, 0, 0)
      then (if trim current = [] then [] else [trim current]) @ split_header_args_from (0, 0, 0) None False [] s
      else split_header_args_from (p, b, r) None False (current @ [c]) s)"

definition split_header_suffix_args :: "string \<Rightarrow> string list" where
  "split_header_suffix_args source = split_header_args_from (0, 0, 0) None False [] source"

definition header_inner :: "string \<Rightarrow> string" where
  "header_inner header_suffix =
     trim (trim_end_matches CHR '')'' (trim_start_matches CHR ''('' (trim header_suffix)))"

definition strip_typeddict_runtime_keywords :: "string \<Rightarrow> string" where
  "strip_typeddict_runtime_keywords header_suffix =
     (if trim header_suffix = [] \<or> header_inner header_suffix = [] then []
      else (let parts = filter (\<lambda>part. case split_once CHR ''='' part of
                               Some (name, _) \<Rightarrow> trim name \<notin> {''closed'', ''extra_items''}
                             | None \<Rightarrow> True)
                          (split_header_suffix_args (header_inner header_suffix))
            in if parts = [] then [] else ''('' @ join_with '', '' parts @ '')''))"

definition runtime_header_suffix :: "named_block \<Rightarrow> string" where
  "runtime_header_suffix block =
     (if list_ex is_typed_dict_base (nb_bases block)
      then strip_typeddict_runtime_keywords (nb_header_suffix block) else nb_header_suffix block)"

definition append_bases :: "string \<Rightarrow> string list \<Rightarrow> string" where
  "append_bases header_suffix extras =
     (if extras = [] then header_suffix
      else (let inner = (if trim header_suffix = [] then [] else header_inner header_suffix)
            in ''('' @ join_with '', '' ((if inner = [] then [] else [inner]) @ extras) @ '')''))"

definition generic_base :: "named_block \<Rightarrow> renaming option \<Rightarrow> string" where
  "generic_base block renaming =
     ''Generic['' @ join_with '', ''
       (map (\<lambda>p. case Option.bind renaming (\<lambda>\<sigma>. bt_get \<sigma> (tp_name p)) of
                Some t \<Rightarrow> t | None \<Rightarrow> tp_name p) (nb_type_params block)) @ '']''"

definition append_optional_generic_base ::
    "named_block \<Rightarrow> lowering_options \<Rightarrow> renaming option \<Rightarrow> string" where
  "append_optional_generic_base block options renaming =
     (let header_suffix = rewritten_or_same (runtime_header_suffix block) renaming
      in if nb_type_params block = [] \<or> can_use_native_type_params (nb_type_params block) options
         then header_suffix
         else append_bases header_suffix [generic_base block renaming])"

section \<open>Rewriting a line\<close>

definition rewrite_unsafe_line :: "string \<Rightarrow> string" where
  "rewrite_unsafe_line line = indentation_of line @ ''if True:  # tpy:unsafe''"

definition class_header :: "string \<Rightarrow> named_block \<Rightarrow> lowering_options \<Rightarrow> string \<Rightarrow> string" where
  "class_header line block options bases =
     indentation_of line @ ''class '' @ nb_name block @
     native_type_param_list_if_enabled (nb_type_params block) options @ bases @ '':''"

definition rewrite_interface_line ::
    "string \<Rightarrow> named_block \<Rightarrow> lowering_options \<Rightarrow> renaming option \<Rightarrow> string" where
  "rewrite_interface_line line block options renaming =
     (let extras = ''Protocol'' #
            (if nb_type_params block \<noteq> [] \<and> \<not> can_use_native_type_params (nb_type_params block) options
             then [generic_base block renaming] else [])
      in class_header line block options
           (append_bases (rewritten_or_same (runtime_header_suffix block) renaming) extras))"

definition rewrite_data_class_lines ::
    "string \<Rightarrow> named_block \<Rightarrow> lowering_options \<Rightarrow> renaming option \<Rightarrow> string list" where
  "rewrite_data_class_lines line block options renaming =
     [indentation_of line @ ''@dataclass'',
      class_header line block options (append_optional_generic_base block options renaming)]"

definition rewrite_sealed_class_line ::
    "string \<Rightarrow> named_block \<Rightarrow> lowering_options \<Rightarrow> renaming option \<Rightarrow> string" where
  "rewrite_sealed_class_line line block options renaming =
     class_header line block options (append_optional_generic_base block options renaming) @ ''  # tpy:sealed''"

definition rewrite_class_def_line ::
    "string \<Rightarrow> named_block \<Rightarrow> lowering_options \<Rightarrow> renaming option \<Rightarrow> string" where
  "rewrite_class_def_line line block options renaming =
     class_header line block options (append_optional_generic_base block options renaming)"

definition rewrite_function_def_line ::
    "string \<Rightarrow> function_statement \<Rightarrow> lowering_options \<Rightarrow> renaming option \<Rightarrow> string" where
  "rewrite_function_def_line line f options renaming =
     (if can_use_native_type_params (fs_type_params f) options then line
      else indentation_of line @ rewritten_or_same (strip_generic_type_params (trim_start line)) renaming)"

definition rewrite_class_member_function_line ::
    "string \<Rightarrow> class_member \<Rightarrow> lowering_options \<Rightarrow> renaming option \<Rightarrow> string" where
  "rewrite_class_member_function_line line member options renaming =
     rewritten_or_same
       (if can_use_native_type_params (cm_type_params member) options then line
        else indentation_of line @ strip_generic_type_params (trim_start line)) renaming"

definition rewrite_overload_lines ::
    "string \<Rightarrow> function_statement \<Rightarrow> lowering_options \<Rightarrow> renaming option \<Rightarrow> string list" where
  "rewrite_overload_lines line f options renaming =
     (let rewritten = (case strip_prefix ''overload '' (trim_start line) of
                         Some rest \<Rightarrow> rest | None \<Rightarrow> trim_start line);
          rewritten = (if can_use_native_type_params (fs_type_params f) options then rewritten
                       else strip_generic_type_params rewritten)
      in [indentation_of line @ ''@overload'', indentation_of line @ rewritten_or_same rewritten renaming])"

subsection \<open>Type aliases\<close>

definition RESTRICTED_TYPE_LEVEL_REDUCTION_BUDGET :: nat where
  "RESTRICTED_TYPE_LEVEL_REDUCTION_BUDGET = 64"

definition render_literal_key_set :: "string list \<Rightarrow> string" where
  "render_literal_key_set keys =
     ''Literal['' @ join_with '', '' (map (\<lambda>k. CHR 0x22 # k @ [CHR 0x22]) keys) @ '']''"

definition type_level_shape_fields_for_block :: "named_block \<Rightarrow> bool \<Rightarrow> type_level_shape_field list" where
  "type_level_shape_fields_for_block shape total_default =
     map (\<lambda>m. \<lparr>tsf_owner = nb_name shape, tsf_name = cm_name m, tsf_annotation = cm_annotation m,
               tsf_required = type_level_shape_field_required (cm_annotation m) total_default\<rparr>)
       (filter (\<lambda>m. cm_kind m = MemberField) (nb_members shape))"

definition type_level_shape_fields :: "block_map \<Rightarrow> block_map \<Rightarrow> bool \<Rightarrow> type_level_shape_field list" where
  "type_level_shape_fields classes data_classes experimental =
     concat (map (\<lambda>shape.
         map (\<lambda>f. \<lparr>tsf_owner = sp_name shape, tsf_name = sf_public_alias f,
                   tsf_annotation = sf_annotation f, tsf_required = sf_required f\<rparr>) (sp_fields shape))
       (resolved_local_typed_dict_shapes classes)) @
     (if experimental
      then concat (map (\<lambda>b. type_level_shape_fields_for_block b True) (map snd data_classes)) else [])"

text \<open>
  The inner option is the code's \<^verbatim>\<open>None\<close>, the outer one the fuel of the relation on
  type texts.
\<close>

primrec reduce_with_budget ::
    "nat \<Rightarrow> nat \<Rightarrow> type_level_shape_field list \<Rightarrow> string \<Rightarrow> string option option" where
  "reduce_with_budget 0 fuel fs current = Some None"
| "reduce_with_budget (Suc budget) fuel fs current =
     (case reduce_key_set_alias_text current fs of
        Some keys \<Rightarrow> Some (Some (render_literal_key_set keys))
      | None \<Rightarrow>
          (case reduce_typeif_is_subtype_text fuel current of
             None \<Rightarrow> None
           | Some None \<Rightarrow> Some None
           | Some (Some reduced) \<Rightarrow>
               if \<not> contains_restricted_type_level_alias_text reduced then Some (Some reduced)
               else reduce_with_budget budget fuel fs reduced))"

definition reduce_restricted_type_level_alias_text_with_fields ::
    "nat \<Rightarrow> string \<Rightarrow> type_level_shape_field list \<Rightarrow> string option option" where
  "reduce_restricted_type_level_alias_text_with_fields fuel value_text fs =
     reduce_with_budget RESTRICTED_TYPE_LEVEL_REDUCTION_BUDGET fuel fs (trim value_text)"

definition reduce_restricted_type_level_alias_text ::
    "nat \<Rightarrow> string \<Rightarrow> block_map \<Rightarrow> block_map \<Rightarrow> bool \<Rightarrow> string option option" where
  "reduce_restricted_type_level_alias_text fuel value_text classes data_classes experimental =
     reduce_restricted_type_level_alias_text_with_fields fuel (trim value_text)
       (type_level_shape_fields classes data_classes experimental)"

definition rewrite_typealias_line ::
    "nat \<Rightarrow> string \<Rightarrow> type_alias_statement \<Rightarrow> lowering_options \<Rightarrow> renaming option \<Rightarrow>
     block_map \<Rightarrow> block_map \<Rightarrow> bool \<Rightarrow> string option" where
  "rewrite_typealias_line fuel line s options renaming classes data_classes experimental =
     (let value_text = rewritten_or_same (ta_value s) renaming
      in map_option (\<lambda>reduced.
           let reduced_text = (case reduced of
                 Some t \<Rightarrow> t
               | None \<Rightarrow> if contains_restricted_type_level_alias_text value_text then ''object'' else value_text);
               final_text = (case normalize_checker_only_type_text reduced_text of
                 Some t \<Rightarrow> t | None \<Rightarrow> reduced_text)
           in if can_use_native_typealias s options
              then indentation_of line @ ''type '' @ ta_name s @ render_native_type_params (ta_type_params s) @
                   '' = '' @ final_text
              else indentation_of line @ ta_name s @ '': TypeAlias = '' @ final_text)
           (reduce_restricted_type_level_alias_text fuel value_text classes data_classes experimental))"

end
