(* ===== verification/Lowering_Bindings.thy ===== *)
theory Lowering_Bindings
  imports Lowering
begin

text \<open>
  What lowering collects from the surface tree before it rewrites lines (lowering/src/core.rs):
  where the header of a declaration stands, which declarations keep their type parameters as
  runtime objects, how those objects are named and shared, and what the result says of runtime
  features, backports and native forms. Maps keyed by lines are the ordered maps of BTree.
\<close>

section \<open>Headers\<close>

primrec header_from :: "string list \<Rightarrow> nat \<Rightarrow> nat option" where
  "header_from [] i = None"
| "header_from (line # ls) i =
     (let stripped = trim_start line
      in if stripped \<noteq> [] \<and> \<not> starts_with ''@'' stripped then Some (i + 1) else header_from ls (i + 1))"

definition header_line_for_statement :: "string \<Rightarrow> nat \<Rightarrow> nat" where
  "header_line_for_statement source start_line =
     (case header_from (drop (start_line - 1) (str_lines source)) (start_line - 1) of
        Some line \<Rightarrow> line | None \<Rightarrow> start_line)"

definition named_block_statement :: "syntax_statement \<Rightarrow> named_block option" where
  "named_block_statement statement =
     (case statement of
        StInterface b \<Rightarrow> Some b | StDataClass b \<Rightarrow> Some b | StSealedClass b \<Rightarrow> Some b
      | StClassDef b \<Rightarrow> Some b | _ \<Rightarrow> None)"

text \<open>Methods and overloads with type parameters of their own, by the line of their header.\<close>

definition is_generic_function_member :: "class_member \<Rightarrow> bool" where
  "is_generic_function_member m \<longleftrightarrow> cm_kind m \<in> {MemberMethod, MemberOverload} \<and> cm_type_params m \<noteq> []"

definition class_member_functions_by_line :: "string \<Rightarrow> syntax_statement list \<Rightarrow> (nat \<times> class_member) list" where
  "class_member_functions_by_line source statements =
     bt_from_list (map (\<lambda>m. (header_line_for_statement source (cm_line m), m))
       (filter is_generic_function_member
         (concat (map nb_members (List.map_filter named_block_statement statements)))))"

text \<open>Declarations by the line they are rewritten at.\<close>

record declaration_lines =
  dl_unsafe :: "nat list"
  dl_aliases :: "(nat \<times> type_alias_statement) list"
  dl_interfaces :: "(nat \<times> named_block) list"
  dl_data_classes :: "(nat \<times> named_block) list"
  dl_overloads :: "(nat \<times> function_statement) list"
  dl_sealed_classes :: "(nat \<times> named_block) list"
  dl_class_defs :: "(nat \<times> named_block) list"
  dl_function_defs :: "(nat \<times> function_statement) list"
  dl_member_functions :: "(nat \<times> class_member) list"

definition by_header :: "string \<Rightarrow> ('a \<Rightarrow> nat) \<Rightarrow> 'a list \<Rightarrow> (nat \<times> 'a) list" where
  "by_header source line_of xs = bt_from_list (map (\<lambda>x. (header_line_for_statement source (line_of x), x)) xs)"

definition collect_declaration_lines :: "syntax_tree \<Rightarrow> declaration_lines" where
  "collect_declaration_lines tree =
     (let source = st_text tree; statements = st_statements tree
      in \<lparr>dl_unsafe = List.map_filter (\<lambda>s. case s of StUnsafe line \<Rightarrow> Some line | _ \<Rightarrow> None) statements,
          dl_aliases = bt_from_list (map (\<lambda>s. (ta_line s, s))
            (List.map_filter (\<lambda>s. case s of StTypeAlias a \<Rightarrow> Some a | _ \<Rightarrow> None) statements)),
          dl_interfaces = by_header source nb_line (filter is_lowerable_named_block
            (List.map_filter (\<lambda>s. case s of StInterface b \<Rightarrow> Some b | _ \<Rightarrow> None) statements)),
          dl_data_classes = by_header source nb_line (filter is_lowerable_named_block
            (List.map_filter (\<lambda>s. case s of StDataClass b \<Rightarrow> Some b | _ \<Rightarrow> None) statements)),
          dl_overloads = by_header source fs_line
            (List.map_filter (\<lambda>s. case s of StOverloadDef f \<Rightarrow> Some f | _ \<Rightarrow> None) statements),
          dl_sealed_classes = by_header source nb_line (filter is_lowerable_named_block
            (List.map_filter (\<lambda>s. case s of StSealedClass b \<Rightarrow> Some b | _ \<Rightarrow> None) statements)),
          dl_class_defs = by_header source nb_line
            (List.map_filter (\<lambda>s. case s of StClassDef b \<Rightarrow> Some b | _ \<Rightarrow> None) statements),
          dl_function_defs = by_header source fs_line
            (List.map_filter (\<lambda>s. case s of StFunctionDef f \<Rightarrow> Some f | _ \<Rightarrow> None) statements),
          dl_member_functions = class_member_functions_by_line source statements\<rparr>)"

text \<open>The maps by name that resolution of shapes uses: later lines win.\<close>

definition blocks_by_name :: "(nat \<times> named_block) list \<Rightarrow> block_map" where
  "blocks_by_name blocks = bt_from_list (map (\<lambda>e. (nb_name (snd e), snd e)) blocks)"

section \<open>Owners of runtime type parameters\<close>

datatype compat_owner_kind =
    AliasOwner | InterfaceOwner | DataClassOwner | SealedClassOwner | ClassDefOwner | FunctionOwner
  | OverloadOwner | MethodOwner | MethodOverloadOwner

record compat_owner_key =
  ok_kind :: compat_owner_kind
  ok_name :: string
  ok_line :: nat

definition compat_owner_kind_is_function_like :: "compat_owner_kind \<Rightarrow> bool" where
  "compat_owner_kind_is_function_like kind \<longleftrightarrow>
     kind \<in> {FunctionOwner, OverloadOwner, MethodOwner, MethodOverloadOwner}"

definition shares_function_binding :: "compat_owner_key \<Rightarrow> compat_owner_key \<Rightarrow> bool" where
  "shares_function_binding a b \<longleftrightarrow>
     compat_owner_kind_is_function_like (ok_kind a) \<and> compat_owner_kind_is_function_like (ok_kind b) \<and>
     ok_name a = ok_name b"

record compat_owner =
  co_owner :: compat_owner_key
  co_type_params :: "type_param list"

definition compat_type_param_owner_kind_for_named_block :: "syntax_statement \<Rightarrow> compat_owner_kind option" where
  "compat_type_param_owner_kind_for_named_block statement =
     (case statement of
        StInterface _ \<Rightarrow> Some InterfaceOwner | StDataClass _ \<Rightarrow> Some DataClassOwner
      | StSealedClass _ \<Rightarrow> Some SealedClassOwner | StClassDef _ \<Rightarrow> Some ClassDefOwner | _ \<Rightarrow> None)"

definition owner_if ::
    "bool \<Rightarrow> compat_owner_kind \<Rightarrow> string \<Rightarrow> nat \<Rightarrow> type_param list \<Rightarrow> compat_owner list" where
  "owner_if needed kind name line params =
     (if params \<noteq> [] \<and> needed
      then [\<lparr>co_owner = \<lparr>ok_kind = kind, ok_name = name, ok_line = line\<rparr>, co_type_params = params\<rparr>] else [])"

definition statement_owners :: "lowering_options \<Rightarrow> syntax_statement \<Rightarrow> compat_owner list" where
  "statement_owners options statement =
     (case statement of
        StTypeAlias a \<Rightarrow> owner_if (\<not> can_use_native_typealias a options) AliasOwner (ta_name a) (ta_line a)
            (ta_type_params a)
      | StFunctionDef f \<Rightarrow> owner_if (\<not> can_use_native_type_params (fs_type_params f) options) FunctionOwner
            (fs_name f) (fs_line f) (fs_type_params f)
      | StOverloadDef f \<Rightarrow> owner_if (\<not> can_use_native_type_params (fs_type_params f) options) OverloadOwner
            (fs_name f) (fs_line f) (fs_type_params f)
      | _ \<Rightarrow> [])"

definition member_owners :: "string \<Rightarrow> lowering_options \<Rightarrow> named_block \<Rightarrow> class_member \<Rightarrow> compat_owner list" where
  "member_owners source options block m =
     (if cm_kind m \<in> {MemberMethod, MemberOverload}
      then owner_if (\<not> can_use_native_type_params (cm_type_params m) options)
             (if cm_kind m = MemberOverload then MethodOverloadOwner else MethodOwner)
             (nb_name block @ ''.'' @ cm_name m) (header_line_for_statement source (cm_line m)) (cm_type_params m)
      else [])"

definition block_owners :: "string \<Rightarrow> lowering_options \<Rightarrow> syntax_statement \<Rightarrow> compat_owner list" where
  "block_owners source options statement =
     (case named_block_statement statement of
        None \<Rightarrow> []
      | Some block \<Rightarrow>
          (case compat_type_param_owner_kind_for_named_block statement of
             Some kind \<Rightarrow> owner_if (\<not> can_use_native_type_params (nb_type_params block) options) kind
               (nb_name block) (header_line_for_statement source (nb_line block)) (nb_type_params block)
           | None \<Rightarrow> []) @
          concat (map (member_owners source options block) (nb_members block)))"

definition collect_compat_type_param_owners :: "syntax_tree \<Rightarrow> lowering_options \<Rightarrow> compat_owner list" where
  "collect_compat_type_param_owners tree options =
     concat (map (\<lambda>s. statement_owners options s @ block_owners (st_text tree) options s) (st_statements tree))"

section \<open>Runtime bindings\<close>

record runtime_type_param =
  rp_kind :: type_param_kind
  rp_bound :: "string option"
  rp_constraints :: "string list"
  rp_default :: "string option"

definition from_type_param :: "type_param \<Rightarrow> runtime_type_param" where
  "from_type_param p =
     \<lparr>rp_kind = tp_kind p,
      rp_bound = (case tp_bound_expr p of Some e \<Rightarrow> Some (render e) | None \<Rightarrow> tp_bound p),
      rp_constraints =
        (if tp_constraint_exprs p \<noteq> [] then map render (tp_constraint_exprs p) else tp_constraints p),
      rp_default = (case tp_default_expr p of Some e \<Rightarrow> Some (render e) | None \<Rightarrow> tp_default p)\<rparr>"

record pending_binding =
  pb_source_name :: string
  pb_type_param :: runtime_type_param
  pb_owners :: "compat_owner_key list"

record runtime_binding =
  rb_source_name :: string
  rb_emitted_name :: string
  rb_type_param :: runtime_type_param
  rb_owners :: "compat_owner_key list"

datatype split_function_type_params = SharedWhenMetadataMatches | SplitDistinctFunctions

definition is_plain_function :: "compat_owner_key \<Rightarrow> bool" where
  "is_plain_function key \<longleftrightarrow> ok_kind key \<in> {FunctionOwner, OverloadOwner}"

definition may_share :: "split_function_type_params \<Rightarrow> compat_owner_key list \<Rightarrow> compat_owner_key list \<Rightarrow> bool" where
  "may_share split candidates pending =
     (case split of
        SharedWhenMetadataMatches \<Rightarrow> True
      | SplitDistinctFunctions \<Rightarrow>
          (case (candidates, pending) of
             (left # _, right # _) \<Rightarrow>
               \<not> (is_plain_function left \<and> is_plain_function right) \<or> shares_function_binding left right
           | _ \<Rightarrow> True))"

type_synonym binding_state = "pending_binding list \<times> (string \<times> nat list) list"

definition find_binding :: "split_function_type_params \<Rightarrow> pending_binding \<Rightarrow> binding_state \<Rightarrow> nat option" where
  "find_binding split pending state =
     find (\<lambda>i. pb_type_param (fst state ! i) = pb_type_param pending \<and>
               may_share split (pb_owners (fst state ! i)) (pb_owners pending))
       (case bt_get (snd state) (pb_source_name pending) of Some indices \<Rightarrow> indices | None \<Rightarrow> [])"

definition add_type_param ::
    "split_function_type_params \<Rightarrow> compat_owner_key \<Rightarrow> type_param \<Rightarrow> binding_state \<Rightarrow> binding_state" where
  "add_type_param split key p state =
     (let pending = \<lparr>pb_source_name = tp_name p, pb_type_param = from_type_param p, pb_owners = [key]\<rparr>
      in case find_binding split pending state of
           Some i \<Rightarrow> ((fst state)[i := (fst state ! i)\<lparr>pb_owners := pb_owners (fst state ! i) @ [key]\<rparr>], snd state)
         | None \<Rightarrow> (fst state @ [pending], bt_push (tp_name p) (length (fst state)) (snd state)))"

definition pending_bindings :: "split_function_type_params \<Rightarrow> compat_owner list \<Rightarrow> binding_state" where
  "pending_bindings split owners =
     fold (\<lambda>owner. fold (add_type_param split (co_owner owner)) (co_type_params owner)) owners ([], [])"

definition emitted_type_param_name :: "string \<Rightarrow> nat list \<Rightarrow> nat \<Rightarrow> string" where
  "emitted_type_param_name source_name indices offset =
     (if length indices > 1 then ''__typepython_'' @ source_name @ ''_'' @ show_nat (offset + 1) else source_name)"

definition named_bindings :: "pending_binding list \<Rightarrow> string \<times> nat list \<Rightarrow> runtime_binding list" where
  "named_bindings bindings entry =
     map (\<lambda>(offset, i).
         \<lparr>rb_source_name = fst entry, rb_emitted_name = emitted_type_param_name (fst entry) (snd entry) offset,
          rb_type_param = pb_type_param (bindings ! i), rb_owners = pb_owners (bindings ! i)\<rparr>)
       (enumerate 0 (snd entry))"

definition collect_runtime_type_param_bindings ::
    "syntax_tree \<Rightarrow> lowering_options \<Rightarrow> split_function_type_params \<Rightarrow> runtime_binding list" where
  "collect_runtime_type_param_bindings tree options split =
     (case pending_bindings split (collect_compat_type_param_owners tree options) of
        (bindings, indices) \<Rightarrow> concat (map (named_bindings bindings) indices))"

section \<open>Renaming by line\<close>

type_synonym line_renaming = "(nat \<times> renaming) list"

definition add_renaming :: "runtime_binding \<Rightarrow> nat \<Rightarrow> line_renaming \<Rightarrow> line_renaming" where
  "add_renaming b line \<rho> =
     bt_insert line (bt_insert (rb_source_name b) (rb_emitted_name b)
       (case bt_get \<rho> line of Some \<sigma> \<Rightarrow> \<sigma> | None \<Rightarrow> [])) \<rho>"

definition renamed_bindings :: "runtime_binding list \<Rightarrow> runtime_binding list" where
  "renamed_bindings bindings = filter (\<lambda>b. rb_emitted_name b \<noteq> rb_source_name b) bindings"

definition compat_type_param_rewrites_by_declaration_line :: "runtime_binding list \<Rightarrow> line_renaming" where
  "compat_type_param_rewrites_by_declaration_line bindings =
     fold (\<lambda>b. fold (\<lambda>owner. add_renaming b (ok_line owner)) (rb_owners b)) (renamed_bindings bindings) []"

definition indent_of :: "string \<Rightarrow> nat" where
  "indent_of line = length (indentation_of line)"

text \<open>The lines of a class body at the indentation of its members, up to the end of the class.\<close>

primrec member_header_lines_from :: "nat \<Rightarrow> nat \<Rightarrow> string list \<Rightarrow> nat list" where
  "member_header_lines_from class_indent i [] = []"
| "member_header_lines_from class_indent i (line # ls) =
     (if trim_start line = [] then member_header_lines_from class_indent (i + 1) ls
      else if indent_of line \<le> class_indent then []
      else (if indent_of line = class_indent + 4 \<and> \<not> starts_with ''@'' (trim_start line) then [i + 1] else []) @
           member_header_lines_from class_indent (i + 1) ls)"

definition compat_class_member_header_lines :: "string \<Rightarrow> nat \<Rightarrow> nat list" where
  "compat_class_member_header_lines source class_line =
     (let ls = str_lines source
      in if class_line - 1 < length ls
         then member_header_lines_from (indent_of (ls ! (class_line - 1))) class_line (drop class_line ls)
         else [])"

definition is_class_owner :: "compat_owner_key \<Rightarrow> bool" where
  "is_class_owner key \<longleftrightarrow> ok_kind key \<in> {InterfaceOwner, DataClassOwner, SealedClassOwner, ClassDefOwner}"

definition compat_type_param_rewrites_by_class_member_line :: "string \<Rightarrow> runtime_binding list \<Rightarrow> line_renaming" where
  "compat_type_param_rewrites_by_class_member_line source bindings =
     fold (\<lambda>b. fold (\<lambda>owner. fold (add_renaming b) (compat_class_member_header_lines source (ok_line owner)))
         (filter is_class_owner (rb_owners b))) (renamed_bindings bindings) []"

section \<open>Features of the result\<close>

definition block_params_of :: "declaration_lines \<Rightarrow> type_param list list" where
  "block_params_of d = map (\<lambda>e. nb_type_params (snd e))
     (dl_interfaces d @ dl_data_classes d @ dl_sealed_classes d @ dl_class_defs d)"

definition has_compat_generic_class_like_declarations :: "declaration_lines \<Rightarrow> lowering_options \<Rightarrow> bool" where
  "has_compat_generic_class_like_declarations d options \<longleftrightarrow>
     list_ex (\<lambda>params. params \<noteq> [] \<and> \<not> can_use_native_type_params params options) (block_params_of d)"

text \<open>The type parameters of everything but aliases.\<close>

definition callable_params_of :: "declaration_lines \<Rightarrow> type_param list list" where
  "callable_params_of d =
     block_params_of d @ map (\<lambda>e. fs_type_params (snd e)) (dl_function_defs d @ dl_overloads d) @
     map (\<lambda>e. cm_type_params (snd e)) (dl_member_functions d)"

definition has_any_generic_type_params :: "declaration_lines \<Rightarrow> bool" where
  "has_any_generic_type_params d \<longleftrightarrow>
     list_ex (\<lambda>e. ta_type_params (snd e) \<noteq> []) (dl_aliases d) \<or> list_ex (\<lambda>ps. ps \<noteq> []) (callable_params_of d)"

definition imported_name :: "string \<Rightarrow> string" where
  "imported_name entry =
     (case split_once_str '' as '' (trim entry) of Some (name, _) \<Rightarrow> trim name | None \<Rightarrow> trim entry)"

definition imports_symbol_from_module :: "string \<Rightarrow> string \<Rightarrow> string \<Rightarrow> bool" where
  "imports_symbol_from_module source module symbol \<longleftrightarrow>
     (let head = ''from '' @ module @ '' import ''
      in list_ex (\<lambda>line.
           trim line = head @ symbol \<or>
           (starts_with head (trim line) \<and>
            list_ex (\<lambda>entry. imported_name entry = symbol)
              (split_char CHR '','' (trim_start_matches_str head (trim line))))) (str_lines source))"

definition uses_moved_symbol :: "string \<Rightarrow> string \<Rightarrow> string \<Rightarrow> bool" where
  "uses_moved_symbol lowered module symbol \<longleftrightarrow>
     imports_symbol_from_module lowered module symbol \<or> contains_str (module @ ''.'' @ symbol) lowered"

definition collect_required_runtime_features ::
    "declaration_lines \<Rightarrow> string \<Rightarrow> lowering_options \<Rightarrow> runtime_feature set" where
  "collect_required_runtime_features d lowered options =
     (let native_aliases = filter (\<lambda>a. can_use_native_typealias a options) (map snd (dl_aliases d));
          native_params = filter (\<lambda>ps. can_use_native_type_params ps options) (callable_params_of d)
      in (if native_aliases \<noteq> [] then {TypeStmt} else {}) \<union>
         (if native_params \<noteq> [] \<or> list_ex (\<lambda>a. ta_type_params a \<noteq> []) native_aliases
          then {InlineTypeParams} else {}) \<union>
         (if list_ex (\<lambda>a. type_params_have_defaults (ta_type_params a)) native_aliases \<or>
             list_ex type_params_have_defaults native_params
          then {GenericDefaults} else {}) \<union>
         (if uses_moved_symbol lowered ''typing'' ''ReadOnly'' then {TypingReadOnly} else {}) \<union>
         (if uses_moved_symbol lowered ''typing'' ''TypeIs'' then {TypingTypeIs} else {}) \<union>
         (if uses_moved_symbol lowered ''typing'' ''NoDefault'' then {TypingNoDefault} else {}) \<union>
         (if uses_moved_symbol lowered ''warnings'' ''deprecated'' then {WarningsDeprecated} else {}))"

definition collect_required_backports :: "string \<Rightarrow> backport_requirement set" where
  "collect_required_backports lowered =
     (if contains_str ''typing_extensions.'' lowered \<or>
         list_ex (\<lambda>line. starts_with ''from typing_extensions import '' (trim_start line) \<or>
                         trim_start line = ''import typing_extensions'') (str_lines lowered)
      then {TypingExtensionsAtLeast412} else {})"

definition native_required_features :: "type_param list \<Rightarrow> bool \<Rightarrow> runtime_feature list" where
  "native_required_features params is_alias =
     (if is_alias then [TypeStmt] else []) @ (if params \<noteq> [] then [InlineTypeParams] else []) @
     (if type_params_have_defaults params then [GenericDefaults] else [])"

definition native_semantics ::
    "runtime_typing_form \<Rightarrow> string \<Rightarrow> type_param list \<Rightarrow> bool \<Rightarrow> runtime_typing_semantics" where
  "native_semantics form name params is_alias =
     \<lparr>rts_form = form, rts_type_param_names = map tp_name params, rts_annotation_scope_owner = Some name,
      rts_lazy_alias_value = is_alias, rts_local_type_params_hidden = True,
      rts_required_features = native_required_features params is_alias\<rparr>"

definition native_alias_runtime_semantics ::
    "type_alias_statement \<Rightarrow> lowering_options \<Rightarrow> runtime_typing_semantics option" where
  "native_alias_runtime_semantics a options =
     (if can_use_native_typealias a options
      then Some (native_semantics TypeAliasType (ta_name a) (ta_type_params a) True) else None)"

definition native_class_runtime_semantics ::
    "string \<Rightarrow> type_param list \<Rightarrow> runtime_typing_form \<Rightarrow> lowering_options \<Rightarrow> runtime_typing_semantics option" where
  "native_class_runtime_semantics name params form options =
     (if can_use_native_type_params params options then Some (native_semantics form name params False) else None)"

definition native_function_runtime_semantics ::
    "function_statement \<Rightarrow> lowering_options \<Rightarrow> runtime_typing_semantics option" where
  "native_function_runtime_semantics f options =
     (if can_use_native_type_params (fs_type_params f) options
      then Some (native_semantics NativeGenericFunction (fs_name f) (fs_type_params f) False) else None)"

type_synonym semantics_map = "(string \<times> runtime_typing_semantics) list"

definition insert_semantics ::
    "('a \<Rightarrow> string) \<Rightarrow> ('a \<Rightarrow> runtime_typing_semantics option) \<Rightarrow> 'a \<Rightarrow> semantics_map \<Rightarrow> semantics_map" where
  "insert_semantics name_of semantics_of x m =
     (case semantics_of x of Some s \<Rightarrow> bt_insert (name_of x) s m | None \<Rightarrow> m)"

definition collect_export_runtime_semantics :: "declaration_lines \<Rightarrow> lowering_options \<Rightarrow> semantics_map" where
  "collect_export_runtime_semantics d options =
     (let block_semantics = (\<lambda>b. native_class_runtime_semantics (nb_name b) (nb_type_params b)
                               NativeGenericClass options);
          function_semantics = (\<lambda>f. native_function_runtime_semantics f options);
          aliases = fold (insert_semantics ta_name (\<lambda>a. native_alias_runtime_semantics a options))
                      (map snd (dl_aliases d)) [];
          blocks = fold (insert_semantics nb_name block_semantics)
                     (map snd (dl_interfaces d @ dl_data_classes d @ dl_sealed_classes d @ dl_class_defs d)) aliases;
          functions = fold (insert_semantics fs_name function_semantics) (map snd (dl_function_defs d)) blocks
      in fold (\<lambda>f m. case function_semantics f of
                 Some s \<Rightarrow> bt_insert_if_absent (fs_name f) s m | None \<Rightarrow> m) (map snd (dl_overloads d)) functions)"

text \<open>The assignment that makes a type parameter at run time.\<close>

definition rewrite_typevar_line :: "string \<Rightarrow> runtime_type_param \<Rightarrow> string" where
  "rewrite_typevar_line emitted_name p =
     (let args = [CHR 0x22 # emitted_name @ [CHR 0x22]] @ map debug_str (rp_constraints p) @
            (if rp_constraints p = []
             then (case rp_bound p of Some b \<Rightarrow> [''bound='' @ debug_str b] | None \<Rightarrow> []) else []) @
            (case rp_default p of Some d \<Rightarrow> [''default='' @ debug_str d] | None \<Rightarrow> [])
      in case rp_kind p of
           TypeVar \<Rightarrow> emitted_name @ '' = TypeVar('' @ join_with '', '' args @ '')''
         | ParamSpec \<Rightarrow> emitted_name @ '' = ParamSpec('' @ join_with '', '' args @ '')''
         | TypeVarTuple \<Rightarrow> emitted_name @ '' = TypeVarTuple('' @ debug_str emitted_name @ '')'')"

end
