(* ===== verification/Annotated_Lambdas.thy ===== *)
theory Annotated_Lambdas
  imports Extension_Syntax
begin

text \<open>
  Lambdas with annotated parameters (crates/typepython_syntax, extraction/lambdas.rs):
  \<^verbatim>\<open>lambda (x: int): x\<close> is found in the text and made a Python lambda by writing
  blanks over its brackets and annotations. The scanners of the code share one lexer, here
  \<open>lex_step\<close>; the sites kept while a module is walked (a thread-local list) are not modelled.
\<close>

section \<open>The lexer\<close>

datatype lex_state = InCode | InComment | InString char bool | InTriple char

definition is_triple :: "char \<Rightarrow> string \<Rightarrow> bool" where
  "is_triple q s \<longleftrightarrow> starts_with [q, q, q] s"

text \<open>The state after the characters taken, and how many are taken.\<close>

fun lex_step :: "lex_state \<Rightarrow> string \<Rightarrow> lex_state \<times> nat" where
  "lex_step InComment s = (if starts_with [CHR 0x0A] s then InCode else InComment, 1)"
| "lex_step (InTriple q) s = (if is_triple q s then (InCode, 3) else (InTriple q, 1))"
| "lex_step (InString q escaped) s =
     ((if escaped then InString q False
       else if starts_with [CHR 0x5C] s then InString q True
       else if starts_with [q] s then InCode
       else InString q False), 1)"
| "lex_step InCode s =
     (if starts_with ''#'' s then (InComment, 1)
      else if is_triple CHR 0x27 s then (InTriple CHR 0x27, 3)
      else if is_triple CHR 0x22 s then (InTriple CHR 0x22, 3)
      else if starts_with [CHR 0x27] s then (InString CHR 0x27 False, 1)
      else if starts_with [CHR 0x22] s then (InString CHR 0x22 False, 1)
      else (InCode, 1))"

lemma lex_step_pos [simp]: "0 < snd (lex_step state s)"
  by (cases "(state, s)" rule: lex_step.cases) simp_all

lemma lex_step_decreases:
  "(state', n) = lex_step state s \<Longrightarrow> \<not> l \<le> i \<Longrightarrow> l - (i + n) < l - (i::nat)"
  using lex_step_pos [of state s] by (metis diff_less_mono2 less_add_same_cancel1 not_le snd_conv)

section \<open>Searching\<close>

definition is_ascii_whitespace :: "char \<Rightarrow> bool" where
  "is_ascii_whitespace c \<longleftrightarrow> c \<in> {CHR '' '', CHR 0x09, CHR 0x0A, CHR 0x0C, CHR 0x0D}"

definition is_lambda_keyword_boundary :: "string \<Rightarrow> nat \<Rightarrow> nat \<Rightarrow> bool" where
  "is_lambda_keyword_boundary s start stop \<longleftrightarrow>
     (start = 0 \<or> \<not> is_word_char (s ! (start - 1))) \<and> (length s \<le> stop \<or> \<not> is_word_char (s ! stop))"

function next_lambda :: "string \<Rightarrow> lex_state \<Rightarrow> nat \<Rightarrow> nat option" where
  "next_lambda s state i =
     (if length s \<le> i then None
      else if state = InCode \<and> starts_with ''lambda'' (drop i s) \<and> is_lambda_keyword_boundary s i (i + 6)
      then Some i
      else (case lex_step state (drop i s) of (state', n) \<Rightarrow> next_lambda s state' (i + n)))"
  by pat_completeness auto
termination
  by (relation "measure (\<lambda>(s, state, i). length s - i)") (simp_all add: lex_step_decreases)
declare next_lambda.simps [simp del]

definition find_next_lambda_keyword :: "string \<Rightarrow> nat \<Rightarrow> nat option" where
  "find_next_lambda_keyword s start = next_lambda s InCode start"

text \<open>A closing bracket that closes nothing ends the search.\<close>

function matching_delimiter :: "char \<Rightarrow> char \<Rightarrow> string \<Rightarrow> lex_state \<Rightarrow> nat \<Rightarrow> nat \<Rightarrow> nat option" where
  "matching_delimiter opener closer s state depth i =
     (if length s \<le> i then None
      else if state = InCode \<and> s ! i = opener then matching_delimiter opener closer s state (depth + 1) (i + 1)
      else if state = InCode \<and> s ! i = closer
      then (if depth = 0 then None
            else if depth = 1 then Some i
            else matching_delimiter opener closer s state (depth - 1) (i + 1))
      else (case lex_step state (drop i s) of
              (state', n) \<Rightarrow> matching_delimiter opener closer s state' depth (i + n)))"
  by pat_completeness auto
termination
  by (relation "measure (\<lambda>(a, b, s, state, d, i). length s - i)") (simp_all add: lex_step_decreases)
declare matching_delimiter.simps [simp del]

definition find_matching_delimiter :: "string \<Rightarrow> nat \<Rightarrow> char \<Rightarrow> char \<Rightarrow> nat option" where
  "find_matching_delimiter s open_index opener closer =
     matching_delimiter opener closer s InCode 0 open_index"

text \<open>The depths of the three kinds of brackets after a character of code.\<close>

definition bump_depths :: "char \<Rightarrow> nat \<times> nat \<times> nat \<Rightarrow> nat \<times> nat \<times> nat" where
  "bump_depths c depths =
     (let (p, b, r) = depths
      in if c = CHR ''('' then (p + 1, b, r)
         else if c = CHR '')'' then (p - 1, b, r)
         else if c = CHR ''['' then (p, b + 1, r)
         else if c = CHR '']'' then (p, b - 1, r)
         else if c = CHR 0x7B then (p, b, r + 1)
         else if c = CHR 0x7D then (p, b, r - 1)
         else depths)"

function comma_ranges_from ::
    "string \<Rightarrow> lex_state \<Rightarrow> nat \<times> nat \<times> nat \<Rightarrow> nat \<Rightarrow> nat \<Rightarrow> (nat \<times> nat) list" where
  "comma_ranges_from s state depths start i =
     (if length s \<le> i then [(start, length s)]
      else if state = InCode \<and> s ! i = CHR '','' \<and> depths = (0, 0, 0)
      then (start, i) # comma_ranges_from s state depths (i + 1) (i + 1)
      else (case lex_step state (drop i s) of
              (state', n) \<Rightarrow> comma_ranges_from s state'
                 (if state = InCode then bump_depths (s ! i) depths else depths) start (i + n)))"
  by pat_completeness auto
termination
  by (relation "measure (\<lambda>(s, state, d, b, i). length s - i)") (simp_all add: lex_step_decreases)
declare comma_ranges_from.simps [simp del]

definition top_level_comma_ranges :: "string \<Rightarrow> (nat \<times> nat) list" where
  "top_level_comma_ranges s = comma_ranges_from s InCode (0, 0, 0) 0 0"

function top_level_char_from :: "char \<Rightarrow> string \<Rightarrow> lex_state \<Rightarrow> nat \<times> nat \<times> nat \<Rightarrow> nat \<Rightarrow> nat option" where
  "top_level_char_from c s state depths i =
     (if length s \<le> i then None
      else if state = InCode \<and> s ! i = c \<and> depths = (0, 0, 0) then Some i
      else (case lex_step state (drop i s) of
              (state', n) \<Rightarrow> top_level_char_from c s state'
                 (if state = InCode then bump_depths (s ! i) depths else depths) (i + n)))"
  by pat_completeness auto
termination
  by (relation "measure (\<lambda>(c, s, state, d, i). length s - i)") (simp_all add: lex_step_decreases)
declare top_level_char_from.simps [simp del]

text \<open>The code asks for \<^verbatim>\<open>=\<close> and \<^verbatim>\<open>:\<close>, which are no quotes, brackets or comments.\<close>

definition find_top_level_char :: "string \<Rightarrow> char \<Rightarrow> nat option" where
  "find_top_level_char s c = top_level_char_from c s InCode (0, 0, 0) 0"

section \<open>Candidates\<close>

record annotated_lambda_params =
  alp_param_names :: "string list"
  alp_annotations :: "string option list"
  alp_annotation_spans :: "(nat \<times> nat) list"

definition strip_stars :: "string \<Rightarrow> string" where
  "strip_stars name =
     (case strip_prefix ''**'' name of
        Some rest \<Rightarrow> trim rest
      | None \<Rightarrow> (case strip_prefix ''*'' name of Some rest \<Rightarrow> trim rest | None \<Rightarrow> name))"

definition add_lambda_param ::
    "string \<Rightarrow> nat \<Rightarrow> nat \<times> nat \<Rightarrow> annotated_lambda_params \<Rightarrow> annotated_lambda_params" where
  "add_lambda_param params absolute_start span parsed =
     (let start = fst span; item = take (snd span - start) (drop start params); stripped = trim item
      in if stripped = [] \<or> stripped = ''/'' \<or> stripped = ''*'' then parsed
         else (let default_index = find_top_level_char item CHR ''='';
                   header_end = (case default_index of Some i \<Rightarrow> i | None \<Rightarrow> length item);
                   annotation_index = find_top_level_char (take header_end item) CHR '':'';
                   name_end = (case annotation_index of Some i \<Rightarrow> i | None \<Rightarrow> header_end);
                   annotation = Option.bind annotation_index (\<lambda>i.
                     let t = trim (drop (i + 1) (take header_end item)) in if t = [] then None else Some t)
               in \<lparr>alp_param_names = alp_param_names parsed @ [strip_stars (trim (take name_end item))],
                   alp_annotations = alp_annotations parsed @ [annotation],
                   alp_annotation_spans = alp_annotation_spans parsed @
                     (case annotation_index of
                        None \<Rightarrow> []
                      | Some i \<Rightarrow> [(absolute_start + start + i, absolute_start + start + header_end)])\<rparr>))"

definition parse_annotated_lambda_params :: "string \<Rightarrow> nat \<Rightarrow> annotated_lambda_params" where
  "parse_annotated_lambda_params params absolute_start =
     fold (add_lambda_param params absolute_start) (top_level_comma_ranges params)
       \<lparr>alp_param_names = [], alp_annotations = [], alp_annotation_spans = []\<rparr>"

record annotated_lambda_site =
  als_line :: nat
  als_column :: nat
  als_param_names :: "string list"
  als_annotations :: "string option list"

record annotated_lambda_candidate =
  alc_open_paren :: nat
  alc_close_paren :: nat
  alc_site :: annotated_lambda_site
  alc_annotation_spans :: "(nat \<times> nat) list"

definition skip_whitespace :: "string \<Rightarrow> nat \<Rightarrow> nat" where
  "skip_whitespace s i = i + length (takeWhile is_ascii_whitespace (drop i s))"

definition char_is :: "string \<Rightarrow> nat \<Rightarrow> char \<Rightarrow> bool" where
  "char_is s i c \<longleftrightarrow> i < length s \<and> s ! i = c"

definition parse_annotated_lambda_at :: "string \<Rightarrow> nat \<Rightarrow> annotated_lambda_candidate option" where
  "parse_annotated_lambda_at s lambda_start =
     (let cursor = skip_whitespace s (lambda_start + 6)
      in if \<not> char_is s cursor CHR ''('' then None
         else Option.bind (find_matching_delimiter s cursor CHR ''('' CHR '')'') (\<lambda>close_paren.
           if \<not> char_is s (skip_whitespace s (close_paren + 1)) CHR '':'' then None
           else (let parsed = parse_annotated_lambda_params
                       (take (close_paren - (cursor + 1)) (drop (cursor + 1) s)) (cursor + 1);
                     (line, column) = offset_to_line_column s lambda_start
                 in Some \<lparr>alc_open_paren = cursor, alc_close_paren = close_paren,
                      alc_site = \<lparr>als_line = line, als_column = column,
                        als_param_names = alp_param_names parsed, als_annotations = alp_annotations parsed\<rparr>,
                      alc_annotation_spans = alp_annotation_spans parsed\<rparr>)))"

section \<open>Normalization\<close>

definition blank_span :: "nat \<times> nat \<Rightarrow> string \<Rightarrow> string" where
  "blank_span span s = take (fst span) s @ replicate (snd span - fst span) CHR '' '' @ drop (snd span) s"

definition blank_candidate :: "annotated_lambda_candidate \<Rightarrow> string \<Rightarrow> string" where
  "blank_candidate candidate s =
     fold blank_span (alc_annotation_spans candidate)
       (s[alc_open_paren candidate := CHR '' '', alc_close_paren candidate := CHR '' ''])"

lemma next_lambda_bounds: "next_lambda s state i = Some j \<Longrightarrow> i \<le> j \<and> j < length s"
proof (induction s state i rule: next_lambda.induct)
  case (1 s state i)
  obtain state' n where step: "lex_step state (drop i s) = (state', n)" by fastforce
  then show ?case
    using 1(1) [OF _ _ step [symmetric]] 1(2)
    by (auto simp: next_lambda.simps [of s state i] split: if_splits)
qed

lemma matching_delimiter_bounds:
  "matching_delimiter a b s state depth i = Some j \<Longrightarrow> i \<le> j \<and> j < length s"
proof (induction a b s state depth i rule: matching_delimiter.induct)
  case (1 a b s state depth i)
  obtain state' n where step: "lex_step state (drop i s) = (state', n)" by fastforce
  then show ?case
    using 1(1,2) 1(3) [OF _ _ _ step [symmetric]] 1(4)
    by (auto simp: matching_delimiter.simps [of a b s state depth i] split: if_splits)
qed

lemma top_level_char_bounds: "top_level_char_from c s state depths i = Some j \<Longrightarrow> j < length s"
proof (induction c s state depths i rule: top_level_char_from.induct)
  case (1 c s state depths i)
  obtain state' n where step: "lex_step state (drop i s) = (state', n)" by fastforce
  then show ?case
    using 1(1) [OF _ _ step [symmetric]] 1(2)
    by (auto simp: top_level_char_from.simps [of c s state depths i] split: if_splits)
qed

lemma comma_ranges_bounds:
  "(a, b) \<in> set (comma_ranges_from s state depths start i) \<Longrightarrow> start \<le> i \<Longrightarrow> start \<le> length s \<Longrightarrow>
     a \<le> b \<and> b \<le> length s"
proof (induction s state depths start i rule: comma_ranges_from.induct)
  case (1 s state depths start i)
  obtain state' n where step: "lex_step state (drop i s) = (state', n)" by fastforce
  then show ?case
    using 1(1) 1(2) [OF _ _ step [symmetric]] 1(3-)
    by (auto simp: comma_ranges_from.simps [of s state depths start i] split: if_splits)
qed

text \<open>What the annotation spans of a list of parameters keep to.\<close>

definition spans_inside :: "nat \<Rightarrow> nat \<Rightarrow> annotated_lambda_params \<Rightarrow> bool" where
  "spans_inside a b parsed \<longleftrightarrow>
     list_all (\<lambda>(x, y). a \<le> x \<and> x \<le> y \<and> y \<le> b) (alp_annotation_spans parsed) \<and>
     length (alp_param_names parsed) = length (alp_annotations parsed)"

lemma add_lambda_param_inside:
  assumes "spans_inside a (a + length params) parsed" "fst span \<le> snd span" "snd span \<le> length params"
  shows "spans_inside a (a + length params) (add_lambda_param params a span parsed)"
proof -
  let ?item = "take (snd span - fst span) (drop (fst span) params)"
  define h where "h = (case find_top_level_char ?item CHR ''='' of Some i \<Rightarrow> i | None \<Rightarrow> length ?item)"
  have item: "length ?item = snd span - fst span" using assms by simp
  have "h \<le> length ?item"
    unfolding h_def find_top_level_char_def
    by (cases "top_level_char_from CHR ''='' ?item InCode (0, 0, 0) 0")
      (simp_all only: option.case order.refl less_imp_le [OF top_level_char_bounds])
  then have stop: "fst span + h \<le> length params" using item assms by simp
  show ?thesis
  proof (cases "find_top_level_char (take h ?item) CHR '':''")
    case None
    then show ?thesis using assms(1) unfolding spans_inside_def add_lambda_param_def Let_def h_def [symmetric]
      by simp
  next
    case (Some i)
    then have "i < h" using top_level_char_bounds unfolding find_top_level_char_def by fastforce
    then show ?thesis using assms(1) stop Some
      unfolding spans_inside_def add_lambda_param_def Let_def h_def [symmetric] by simp
  qed
qed

lemma parse_params_inside:
  "spans_inside a (a + length params) (parse_annotated_lambda_params params a)"
proof -
  have "spans_inside a (a + length params) (fold (add_lambda_param params a) spans parsed)"
    if "list_all (\<lambda>(x, y). x \<le> y \<and> y \<le> length params) spans" "spans_inside a (a + length params) parsed"
    for spans parsed
    using that
  proof (induction spans arbitrary: parsed)
    case (Cons span spans)
    then have "spans_inside a (a + length params) (add_lambda_param params a span parsed)"
      by (intro add_lambda_param_inside) auto
    then show ?case using Cons by simp
  qed simp
  moreover have "list_all (\<lambda>(x, y). x \<le> y \<and> y \<le> length params) (top_level_comma_ranges params)"
    unfolding top_level_comma_ranges_def list_all_iff using comma_ranges_bounds by fastforce
  ultimately show ?thesis unfolding parse_annotated_lambda_params_def by (simp add: spans_inside_def)
qed

text \<open>A candidate lies in the text, after the keyword, and its annotations between its brackets.\<close>

definition candidate_inside :: "string \<Rightarrow> nat \<Rightarrow> annotated_lambda_candidate \<Rightarrow> bool" where
  "candidate_inside s start c \<longleftrightarrow>
     start + 6 \<le> alc_open_paren c \<and> alc_open_paren c < alc_close_paren c \<and> alc_close_paren c < length s \<and>
     list_all (\<lambda>(x, y). alc_open_paren c < x \<and> x \<le> y \<and> y \<le> alc_close_paren c) (alc_annotation_spans c)"

lemma parse_annotated_lambda_at_inside:
  assumes "parse_annotated_lambda_at s start = Some c"
  shows "candidate_inside s start c"
proof -
  let ?cursor = "skip_whitespace s (start + 6)"
  obtain close where close: "find_matching_delimiter s ?cursor CHR ''('' CHR '')'' = Some close"
    and c: "alc_open_paren c = ?cursor" "alc_close_paren c = close"
      "alc_annotation_spans c = alp_annotation_spans (parse_annotated_lambda_params
         (take (close - (?cursor + 1)) (drop (?cursor + 1) s)) (?cursor + 1))"
    and opener: "char_is s ?cursor CHR ''(''"
    using assms unfolding parse_annotated_lambda_at_def Let_def
    by (auto split: if_splits prod.splits simp: bind_eq_Some_conv)
  let ?params = "take (close - (?cursor + 1)) (drop (?cursor + 1) s)"
  have "matching_delimiter CHR ''('' CHR '')'' s InCode 1 (?cursor + 1) = Some close"
    using close opener
    by (simp add: find_matching_delimiter_def char_is_def
        matching_delimiter.simps [of "CHR ''(''" "CHR '')''" s InCode 0 "?cursor"])
  then have bounds: "?cursor < close" "close < length s"
    using matching_delimiter_bounds by (metis Suc_eq_plus1 Suc_le_lessD, metis)
  have "spans_inside (?cursor + 1) (?cursor + 1 + length ?params)
      (parse_annotated_lambda_params ?params (?cursor + 1))" by (rule parse_params_inside)
  then show ?thesis
    using bounds unfolding candidate_inside_def c spans_inside_def
    by (auto simp: list_all_iff skip_whitespace_def)
qed

function normalize_lambdas_from ::
    "string \<Rightarrow> nat \<Rightarrow> string \<times> annotated_lambda_site list \<Rightarrow> string \<times> annotated_lambda_site list" where
  "normalize_lambdas_from s search_from state =
     (case find_next_lambda_keyword s search_from of
        None \<Rightarrow> state
      | Some lambda_start \<Rightarrow>
          (case parse_annotated_lambda_at s lambda_start of
             None \<Rightarrow> normalize_lambdas_from s (lambda_start + 6) state
           | Some c \<Rightarrow> normalize_lambdas_from s (alc_close_paren c + 1)
                 (blank_candidate c (fst state), snd state @ [alc_site c])))"
  by pat_completeness auto
termination
proof (relation "measure (\<lambda>(s, i, state). length s - i)")
  fix s i and state :: "string \<times> annotated_lambda_site list" and start
  assume "find_next_lambda_keyword s i = Some start"
  then have start: "i \<le> start" "start < length s"
    using next_lambda_bounds unfolding find_next_lambda_keyword_def by blast+
  then show "((s, start + 6, state), s, i, state) \<in> measure (\<lambda>(s, i, state). length s - i)" by simp
next
  fix s i and state :: "string \<times> annotated_lambda_site list" and start c
  assume "find_next_lambda_keyword s i = Some start" "parse_annotated_lambda_at s start = Some c"
  then have start: "i \<le> start" "start < length s" and "candidate_inside s start c"
    using next_lambda_bounds parse_annotated_lambda_at_inside unfolding find_next_lambda_keyword_def by blast+
  then have "length s - (alc_close_paren c + 1) < length s - i"
    unfolding candidate_inside_def by linarith
  then show "((s, alc_close_paren c + 1, blank_candidate c (fst state), snd state @ [alc_site c]), s, i, state)
      \<in> measure (\<lambda>(s, i, state). length s - i)" by simp
qed simp
declare normalize_lambdas_from.simps [simp del]

definition normalize_annotated_lambda_source :: "string \<Rightarrow> string \<times> annotated_lambda_site list" where
  "normalize_annotated_lambda_source s = normalize_lambdas_from s 0 (s, [])"

definition normalize_annotated_lambda_source_for_emission :: "string \<Rightarrow> string" where
  "normalize_annotated_lambda_source_for_emission s = fst (normalize_annotated_lambda_source s)"

section \<open>Only blanks are written\<close>

definition blanked :: "string \<Rightarrow> string \<Rightarrow> bool" where
  "blanked s t \<longleftrightarrow> list_all2 (\<lambda>a b. b = a \<or> b = CHR '' '') s t"

lemma blanked_refl: "blanked s s"
  unfolding blanked_def by (simp add: list.rel_refl)

lemma blanked_trans: "blanked s t \<Longrightarrow> blanked t u \<Longrightarrow> blanked s u"
  unfolding blanked_def
  using list_all2_trans [where ?P1.0 = "\<lambda>a b. b = a \<or> b = CHR '' ''" and ?P2.0 = "\<lambda>a b. b = a \<or> b = CHR '' ''"
      and ?P3.0 = "\<lambda>a b. b = a \<or> b = CHR '' ''"] by blast

lemma blanked_update: "i < length s \<Longrightarrow> blanked s (s[i := CHR '' ''])"
  unfolding blanked_def by (auto simp: list_all2_conv_all_nth nth_list_update)

lemma blanked_span: "fst span \<le> snd span \<Longrightarrow> snd span \<le> length s \<Longrightarrow> blanked s (blank_span span s)"
  unfolding blanked_def blank_span_def by (auto simp: list_all2_conv_all_nth nth_append)

lemma blanked_length: "blanked s t \<Longrightarrow> length t = length s"
  unfolding blanked_def by (simp add: list_all2_lengthD)

lemma blanked_spans:
  "list_all (\<lambda>(x, y). x \<le> y \<and> y \<le> length s) spans \<Longrightarrow> blanked s (fold blank_span spans s)"
proof (induction spans arbitrary: s)
  case (Cons p spans)
  then have "blanked s (blank_span p s)" by (auto intro: blanked_span)
  moreover from this have "blanked (blank_span p s) (fold blank_span spans (blank_span p s))"
    using Cons by (simp add: blanked_length)
  ultimately show ?case by (auto intro: blanked_trans)
qed (simp add: blanked_refl)

lemma blanked_candidate:
  assumes "candidate_inside s start c" "length t = length s"
  shows "blanked t (blank_candidate c t)"
proof -
  let ?u = "t[alc_open_paren c := CHR '' '', alc_close_paren c := CHR '' '']"
  have "blanked t ?u" using assms unfolding candidate_inside_def
    by (intro blanked_trans [OF blanked_update blanked_update]) simp_all
  moreover have "blanked ?u (blank_candidate c t)" unfolding blank_candidate_def
    using assms unfolding candidate_inside_def by (intro blanked_spans) (auto simp: list_all_iff)
  ultimately show ?thesis by (rule blanked_trans)
qed

lemma blanked_normalize_from:
  "blanked s (fst state) \<Longrightarrow> blanked s (fst (normalize_lambdas_from s i state))"
proof (induction s i state rule: normalize_lambdas_from.induct)
  case (1 s i state)
  have "blanked s (blank_candidate c (fst state))" if "parse_annotated_lambda_at s start = Some c" for start c
    using that 1(3) blanked_candidate parse_annotated_lambda_at_inside blanked_length blanked_trans by blast
  then show ?case using 1 by (auto simp: normalize_lambdas_from.simps [of s i state] split: option.splits)
qed

end
