(* ===== verification/Lowering_Emit.thy ===== *)
theory Lowering_Emit
  imports Lowering_Bindings Annotated_Lambdas
begin

text \<open>
  The passes of lowering over a whole module (lowering/src/core.rs): the loop over the lines with
  the two maps it fills, starred types, the imports and runtime type parameters put before the
  first statement, the pairs of functions of \<^verbatim>\<open>@dual_emit\<close>, and the result. The fuel
  is that of the relation on type texts, and of the rounds over starred types.
\<close>

section \<open>Lines and spans\<close>

definition line_span :: "nat \<Rightarrow> string \<Rightarrow> span_map_range" where
  "line_span line_number t = \<lparr>sr_line = line_number, sr_start_col = 1, sr_end_col = length t + 1\<rparr>"

definition lower_passthrough :: "string \<Rightarrow> lowered_text" where
  "lower_passthrough source =
     (let numbered = enumerate 1 (str_lines source)
      in \<lparr>lt_python_source = source,
          lt_source_map = map (\<lambda>(n, _). \<lparr>sm_original_line = n, sm_lowered_line = n\<rparr>) numbered,
          lt_span_map = map (\<lambda>(n, line).
             \<lparr>se_source_path = ''<passthrough>'', se_emitted_path = ''<passthrough>'',
              se_original = line_span n line, se_emitted = line_span n line, se_kind = Copied\<rparr>) numbered,
          lt_required_imports = [],
          lt_metadata = \<lparr>lm_has_generic_type_params = False, lm_has_typed_dict_transforms = False,
             lm_has_sealed_classes = False, lm_required_runtime_features = {}, lm_required_backports = {},
             lm_export_runtime_semantics = []\<rparr>\<rparr>)"

section \<open>The loop over the lines\<close>

text \<open>What a line is rewritten by, in the order the code looks.\<close>

record lowering_context =
  lc_fuel :: nat
  lc_options :: lowering_options
  lc_lines :: declaration_lines
  lc_declaration_renaming :: line_renaming
  lc_member_renaming :: line_renaming

definition lc_classes :: "lowering_context \<Rightarrow> block_map" where
  "lc_classes cx = blocks_by_name (dl_class_defs (lc_lines cx))"

definition lc_data_classes :: "lowering_context \<Rightarrow> block_map" where
  "lc_data_classes cx = blocks_by_name (dl_data_classes (lc_lines cx))"

definition alias_lines :: "lowering_context \<Rightarrow> string \<Rightarrow> renaming option \<Rightarrow> type_alias_statement \<Rightarrow> string list option" where
  "alias_lines cx line renaming a =
     (let experimental = lo_shape_transforms (lc_options cx)
      in case try_expand_typeddict_transform (ta_value a) (lc_classes cx) (lc_data_classes cx) experimental line of
           Some ls \<Rightarrow> Some ls
         | None \<Rightarrow> map_option (\<lambda>l. [l])
             (rewrite_typealias_line (lc_fuel cx) line a (lc_options cx) renaming (lc_classes cx)
               (lc_data_classes cx) experimental))"

definition first_some :: "'a option list \<Rightarrow> 'a option" where
  "first_some xs = (case filter (\<lambda>x. x \<noteq> None) xs of [] \<Rightarrow> None | x # _ \<Rightarrow> x)"

definition declaration_replacement :: "lowering_context \<Rightarrow> nat \<Rightarrow> string \<Rightarrow> string list option" where
  "declaration_replacement cx n line =
     (let options = lc_options cx; d = lc_lines cx; \<sigma> = bt_get (lc_declaration_renaming cx) n;
          member_\<sigma> = bt_get (lc_member_renaming cx) n
      in first_some
          [map_option (\<lambda>b. [rewrite_interface_line line b options \<sigma>]) (bt_get (dl_interfaces d) n),
           map_option (\<lambda>b. rewrite_data_class_lines line b options \<sigma>) (bt_get (dl_data_classes d) n),
           map_option (\<lambda>f. rewrite_overload_lines line f options \<sigma>) (bt_get (dl_overloads d) n),
           map_option (\<lambda>b. [rewrite_sealed_class_line line b options \<sigma>]) (bt_get (dl_sealed_classes d) n),
           map_option (\<lambda>b. [rewrite_class_def_line line b options \<sigma>]) (bt_get (dl_class_defs d) n),
           map_option (\<lambda>f. [rewrite_function_def_line line f options \<sigma>]) (bt_get (dl_function_defs d) n),
           map_option (\<lambda>m. [rewrite_class_member_function_line line m options
               (merged_type_param_rewrites \<sigma> member_\<sigma>)]) (bt_get (dl_member_functions d) n),
           map_option (\<lambda>r. [rewrite_type_param_tokens line r]) member_\<sigma>,
           if n \<in> set (dl_unsafe d) then Some [rewrite_unsafe_line line] else None])"

definition line_replacement :: "lowering_context \<Rightarrow> nat \<Rightarrow> string \<Rightarrow> string list option" where
  "line_replacement cx n line =
     (case bt_get (dl_aliases (lc_lines cx)) n of
        Some a \<Rightarrow> alias_lines cx line (bt_get (lc_declaration_renaming cx) n) a
      | None \<Rightarrow> Some (case declaration_replacement cx n line of Some ls \<Rightarrow> ls | None \<Rightarrow> [line]))"

definition normalized_replacement ::
    "python_parser \<Rightarrow> lowering_options \<Rightarrow> string list \<Rightarrow> string list" where
  "normalized_replacement py options ls = concat (map (\<lambda>l. normalize_target_compatibility_line py l options) ls)"

record lowering_progress =
  pg_lines :: "string list"
  pg_next :: nat
  pg_source_map :: "source_map_entry list"
  pg_span_map :: "span_map_entry list"

definition segment_kind :: "string \<Rightarrow> string list \<Rightarrow> lowering_segment_kind" where
  "segment_kind line replacement = (if replacement = [line] then Copied else Rewritten)"

definition emit_replacement ::
    "string \<Rightarrow> string \<Rightarrow> nat \<Rightarrow> string \<Rightarrow> string list \<Rightarrow> lowering_progress \<Rightarrow> lowering_progress" where
  "emit_replacement source_path emitted_path n line replacement pg =
     \<lparr>pg_lines = pg_lines pg @ replacement,
      pg_next = pg_next pg + length replacement,
      pg_source_map = pg_source_map pg @ [\<lparr>sm_original_line = n, sm_lowered_line = pg_next pg\<rparr>],
      pg_span_map = pg_span_map pg @ map (\<lambda>(k, r).
        \<lparr>se_source_path = source_path, se_emitted_path = emitted_path, se_original = line_span n line,
         se_emitted = line_span k r, se_kind = segment_kind line replacement\<rparr>)
        (enumerate (pg_next pg) replacement)\<rparr>"

primrec lower_lines ::
    "(nat \<Rightarrow> string \<Rightarrow> string list option) \<Rightarrow> string \<Rightarrow> string \<Rightarrow> nat \<Rightarrow> string list \<Rightarrow> lowering_progress \<Rightarrow>
     lowering_progress option" where
  "lower_lines f source_path emitted_path n [] pg = Some pg"
| "lower_lines f source_path emitted_path n (line # ls) pg =
     (case f n line of
        None \<Rightarrow> None
      | Some replacement \<Rightarrow>
          lower_lines f source_path emitted_path (n + 1) ls
            (emit_replacement source_path emitted_path n line replacement pg))"

definition initial_progress :: lowering_progress where
  "initial_progress = \<lparr>pg_lines = [], pg_next = 1, pg_source_map = [], pg_span_map = []\<rparr>"

section \<open>Starred types\<close>

text \<open>
  The collector of starred expressions in type positions, \<^verbatim>\<open>VariadicTypePositionCollector\<close>.
  \<^verbatim>\<open>in_type_position\<close> is an argument: \<^verbatim>\<open>collect_type_position\<close> sets it for
  one expression, and no statement is visited while it is set.
\<close>

fun expr_range :: "py_expr \<Rightarrow> text_range" where
  "expr_range (ExName r _) = r"
| "expr_range (ExAttribute r _ _) = r"
| "expr_range (ExSubscript r _ _) = r"
| "expr_range (ExTuple r _) = r"
| "expr_range (ExStarred r _) = r"
| "expr_range (ExOther r _) = r"

definition is_compat_type_alias_annotation :: "string \<Rightarrow> py_expr \<Rightarrow> bool" where
  "is_compat_type_alias_annotation source e \<longleftrightarrow>
     (case slice_range source (expr_range e) of
        None \<Rightarrow> False
      | Some annotation \<Rightarrow>
          trim annotation \<in> {''TypeAlias'', ''typing.TypeAlias'', ''typing_extensions.TypeAlias''})"

definition is_annotated :: "py_expr \<Rightarrow> bool" where
  "is_annotated e =
     (case e of ExName _ name \<Rightarrow> name = ''Annotated'' | ExAttribute _ _ attr \<Rightarrow> attr = ''Annotated'' | _ \<Rightarrow> False)"

fun visit_expr :: "bool \<Rightarrow> py_expr \<Rightarrow> text_range list" where
  "visit_expr in_type_position (ExName _ _) = []"
| "visit_expr in_type_position (ExAttribute _ e _) = visit_expr in_type_position e"
| "visit_expr in_type_position (ExSubscript _ e arg) =
     (if in_type_position \<and> is_annotated e
      then (case arg of
              ExTuple _ elts \<Rightarrow> (case elts of [] \<Rightarrow> [] | first # _ \<Rightarrow> visit_expr True first)
            | _ \<Rightarrow> visit_expr True arg)
      else visit_expr in_type_position e @ visit_expr in_type_position arg)"
| "visit_expr in_type_position (ExTuple _ elts) = concat (map (visit_expr in_type_position) elts)"
| "visit_expr in_type_position (ExStarred r e) =
     (if in_type_position then [r] else visit_expr in_type_position e)"
| "visit_expr in_type_position (ExOther _ parts) = concat (map (visit_expr in_type_position) parts)"

definition visit_part :: "py_part \<Rightarrow> text_range list" where
  "visit_part part = (case part of PartExpr e \<Rightarrow> visit_expr False e | PartAnnotation e \<Rightarrow> visit_expr True e)"

definition visit_value :: "bool \<Rightarrow> py_expr option \<Rightarrow> text_range list" where
  "visit_value in_type_position value = (case value of None \<Rightarrow> [] | Some e \<Rightarrow> visit_expr in_type_position e)"

fun visit_stmt :: "string \<Rightarrow> py_walked \<Rightarrow> text_range list" where
  "visit_stmt source (WkFunctionDef has_type_params header body) =
     (if has_type_params then [] else concat (map visit_part header)) @ concat (map (visit_stmt source) body)"
| "visit_stmt source (WkClassDef has_type_params header body) =
     (if has_type_params then [] else concat (map visit_part header)) @ concat (map (visit_stmt source) body)"
| "visit_stmt source WkTypeAlias = []"
| "visit_stmt source (WkAnnAssign target annotation v) =
     (if is_compat_type_alias_annotation source annotation
      then visit_expr True annotation @ visit_value True v
      else visit_value False v @ visit_expr True annotation @ visit_expr False target)"
| "visit_stmt source (WkOther parts body) =
     concat (map visit_part parts) @ concat (map (visit_stmt source) body)"

definition starred_type_ranges :: "python_parser \<Rightarrow> string \<Rightarrow> text_range list option" where
  "starred_type_ranges py source =
     map_option (\<lambda>suite. concat (map (visit_stmt source) suite)) (pp_walked py source)"

definition sorted_ranges :: "text_range list \<Rightarrow> text_range list" where
  "sorted_ranges ranges = remdups_adj (sort_key fst (sort_key snd ranges))"

definition unpack_edit :: "string \<Rightarrow> text_range \<Rightarrow> (text_range \<times> string) option" where
  "unpack_edit source span =
     Option.bind (slice_range source span) (\<lambda>expression.
     Option.bind (strip_prefix ''*'' expression) (\<lambda>operand.
       if trim operand = [] then None else Some (span, ''Unpack['' @ trim operand @ '']'')))"

primrec normalize_variadic_type_positions :: "nat \<Rightarrow> python_parser \<Rightarrow> string \<Rightarrow> string option" where
  "normalize_variadic_type_positions 0 py source = None"
| "normalize_variadic_type_positions (Suc fuel) py source =
     (case starred_type_ranges py source of
        None \<Rightarrow> Some source
      | Some ranges \<Rightarrow>
          (let edits = List.map_filter (unpack_edit source) (sorted_ranges ranges)
           in if edits = [] then Some source
              else normalize_variadic_type_positions fuel py
                     (fold (\<lambda>(span, t). replace_text_range span t) (rev edits) source)))"

definition respan :: "string list \<Rightarrow> string list \<Rightarrow> span_map_entry \<Rightarrow> span_map_entry" where
  "respan ls normalized entry =
     (let i = sr_line (se_emitted entry) - 1
      in if 0 < sr_line (se_emitted entry) \<and> i < length ls \<and> ls ! i \<noteq> normalized ! i
         then entry\<lparr>se_emitted := line_span (sr_line (se_emitted entry)) (normalized ! i), se_kind := Rewritten\<rparr>
         else entry)"

definition normalize_lowered_variadic_type_positions ::
    "nat \<Rightarrow> python_parser \<Rightarrow> string list \<times> span_map_entry list \<Rightarrow> (string list \<times> span_map_entry list) option" where
  "normalize_lowered_variadic_type_positions fuel py state =
     (let source = join_with [CHR 0x0A] (fst state)
      in map_option (\<lambda>normalized.
           let normalized_lines = split_char CHR 0x0A normalized
           in if normalized = source \<or> length normalized_lines \<noteq> length (fst state) then state
              else (normalized_lines, map (respan (fst state) normalized_lines) (snd state)))
         (normalize_variadic_type_positions fuel py source))"

section \<open>The prologue\<close>

fun stmt_range :: "py_stmt \<Rightarrow> text_range" where
  "stmt_range (PyFunctionDef r _ _ _) = r"
| "stmt_range (PyAnnAssign r _ _) = r"
| "stmt_range (PyClassDef r _ _) = r"
| "stmt_range (PyImportStmt r) = r"
| "stmt_range (PyStringExpr r) = r"
| "stmt_range (PyOtherStmt r) = r"

definition newlines_before :: "string \<Rightarrow> nat \<Rightarrow> nat" where
  "newlines_before source offset = length (filter (\<lambda>c. c = CHR 0x0A) (take offset source))"

definition line_count_through_offset :: "string \<Rightarrow> nat \<Rightarrow> nat" where
  "line_count_through_offset source offset = newlines_before source offset + 1"

definition is_module_docstring :: "py_stmt \<Rightarrow> bool" where
  "is_module_docstring s = (case s of PyStringExpr _ \<Rightarrow> True | _ \<Rightarrow> False)"

definition is_import_stmt :: "py_stmt \<Rightarrow> bool" where
  "is_import_stmt s = (case s of PyImportStmt _ \<Rightarrow> True | _ \<Rightarrow> False)"

text \<open>A docstring and the imports after it stay in front; without a suite, blank lines and comments.\<close>

definition module_prologue_insertion_index :: "python_parser \<Rightarrow> string \<Rightarrow> nat" where
  "module_prologue_insertion_index py source =
     (case pp_suite py source of
        None \<Rightarrow> length (takeWhile (\<lambda>line. trim line = [] \<or> starts_with ''#'' (trim_start line)) (str_lines source))
      | Some [] \<Rightarrow> length (str_lines source)
      | Some (first # rest) \<Rightarrow>
          (let kept = (if is_module_docstring first then first # takeWhile is_import_stmt rest
                       else takeWhile is_import_stmt (first # rest))
           in if kept = [] then newlines_before source (fst (stmt_range first))
              else line_count_through_offset source (snd (stmt_range (last kept)))))"

definition inserted_span_map_entry ::
    "string \<Rightarrow> string \<Rightarrow> nat \<Rightarrow> string \<Rightarrow> lowering_segment_kind \<Rightarrow> span_map_entry" where
  "inserted_span_map_entry source_path emitted_path emitted_line t kind =
     \<lparr>se_source_path = source_path, se_emitted_path = emitted_path,
      se_original = \<lparr>sr_line = 0, sr_start_col = 0, sr_end_col = 0\<rparr>,
      se_emitted = line_span emitted_line t, se_kind = kind\<rparr>"

definition shift_after :: "nat \<Rightarrow> nat \<Rightarrow> nat \<Rightarrow> nat" where
  "shift_after index shift line = (if line > index then line + shift else line)"

definition shift_emitted :: "nat \<Rightarrow> nat \<Rightarrow> span_map_entry \<Rightarrow> span_map_entry" where
  "shift_emitted index shift entry =
     entry\<lparr>se_emitted := (se_emitted entry)\<lparr>sr_line := shift_after index shift (sr_line (se_emitted entry))\<rparr>\<rparr>"

definition insert_at ::
    "string \<Rightarrow> string \<Rightarrow> nat \<Rightarrow> (string \<times> lowering_segment_kind) list \<Rightarrow> lowering_progress \<Rightarrow> lowering_progress" where
  "insert_at source_path emitted_path index inserted pg =
     (let shift = length inserted
      in pg\<lparr>pg_lines := take index (pg_lines pg) @ map fst inserted @ drop index (pg_lines pg),
            pg_source_map := map (\<lambda>e. e\<lparr>sm_lowered_line := shift_after index shift (sm_lowered_line e)\<rparr>)
              (pg_source_map pg),
            pg_span_map := sort_key (\<lambda>e. sr_line (se_emitted e))
              (map (shift_emitted index shift) (pg_span_map pg) @
               map (\<lambda>(k, t, kind). inserted_span_map_entry source_path emitted_path k t kind)
                 (enumerate (index + 1) inserted))\<rparr>)"

definition insert_synthetic_prologue ::
    "python_parser \<Rightarrow> string \<Rightarrow> string \<Rightarrow> string list \<Rightarrow> string list \<Rightarrow> lowering_progress \<Rightarrow> lowering_progress" where
  "insert_synthetic_prologue py source_path emitted_path required_imports synthetic_lines pg =
     (if required_imports = [] \<and> synthetic_lines = [] then pg
      else insert_at source_path emitted_path
             (module_prologue_insertion_index py (join_with [CHR 0x0A] (pg_lines pg)))
             (map (\<lambda>l. (l, Inserted)) required_imports @ map (\<lambda>l. (l, Synthetic)) synthetic_lines) pg)"

section \<open>Pairs of functions\<close>

definition sync_dual_line :: "string \<Rightarrow> string" where
  "sync_dual_line line = replace_all ''AsyncClient'' ''Client'' (replace_first ''await '' [] line)"

definition explicit_dual_emit_name :: "string \<Rightarrow> string \<Rightarrow> string option" where
  "explicit_dual_emit_name decorator key =
     Option.bind (split_once_str (key @ ''='') decorator) (\<lambda>(_, after).
       case trim_start after of
         [] \<Rightarrow> None
       | q # rest \<Rightarrow>
           if \<not> is_quote q then None
           else map_option (\<lambda>stop. take stop rest) (find_char (\<lambda>c. c = q) rest))"

definition default_sync_dual_name :: "string \<Rightarrow> string" where
  "default_sync_dual_name name =
     (case strip_prefix ''a'' name of
        Some (c # rest) \<Rightarrow> if is_ascii_lowercase c then c # rest else name
      | _ \<Rightarrow> name)"

definition default_async_dual_name :: "string \<Rightarrow> string" where
  "default_async_dual_name name = (if starts_with ''a'' name then name else ''a'' @ name)"

definition sync_name_of :: "string \<Rightarrow> string \<Rightarrow> string" where
  "sync_name_of decorator name =
     (case explicit_dual_emit_name decorator ''sync_name'' of
        Some n \<Rightarrow> n | None \<Rightarrow> default_sync_dual_name name)"

definition async_name_of :: "string \<Rightarrow> string \<Rightarrow> string" where
  "async_name_of decorator name =
     (case explicit_dual_emit_name decorator ''async_name'' of
        Some n \<Rightarrow> n | None \<Rightarrow> default_async_dual_name name)"

text \<open>The two headers, when the decorated line starts an async function with its bracket.\<close>

definition dual_headers :: "string \<Rightarrow> string \<Rightarrow> (string \<times> string) option" where
  "dual_headers line function_line =
     (let stripped = trim_start function_line; indent = indentation_of function_line
      in if \<not> starts_with ''@dual_emit'' (trim_start line) \<or> \<not> starts_with ''async def '' stripped then None
         else map_option (\<lambda>k.
             let name = take k (drop 10 stripped); tail = drop (10 + k) stripped
             in (sync_dual_line (indent @ ''def '' @ sync_name_of (trim_start line) name @ tail),
                 indent @ ''async def '' @ async_name_of (trim_start line) name @ tail))
           (find_char (\<lambda>c. c = CHR ''('') (drop 10 stripped)))"

definition in_body :: "nat \<Rightarrow> string \<Rightarrow> bool" where
  "in_body width line \<longleftrightarrow> trim_start line = [] \<or> indent_of line > width"

function dual_emit_lines :: "string list \<Rightarrow> string list" where
  "dual_emit_lines [] = []"
| "dual_emit_lines [line] = [line]"
| "dual_emit_lines (line # function_line # rest) =
     (case dual_headers line function_line of
        None \<Rightarrow> line # dual_emit_lines (function_line # rest)
      | Some (sync_header, async_header) \<Rightarrow>
          (let body = takeWhile (in_body (indent_of function_line)) rest
           in sync_header # map sync_dual_line body @ [[]] @ async_header # body @
              dual_emit_lines (dropWhile (in_body (indent_of function_line)) rest)))"
  by pat_completeness auto
termination
  by (relation "measure length") (auto simp: less_Suc_eq_le length_dropWhile_le intro: le_SucI)

definition apply_dual_emit_decorator_lowering :: "string \<Rightarrow> string" where
  "apply_dual_emit_decorator_lowering source = join_with [CHR 0x0A] (dual_emit_lines (str_lines source))"

section \<open>Imports the result needs\<close>

definition import_if :: "bool \<Rightarrow> string \<Rightarrow> string list" where
  "import_if needed line = (if needed then [line] else [])"

definition owner_of :: "lowering_options \<Rightarrow> string \<Rightarrow> string" where
  "owner_of options symbol =
     (case stdlib_owner (lo_target_python options) symbol of Some m \<Rightarrow> m | None \<Rightarrow> ''typing_extensions'')"

definition from_import :: "string \<Rightarrow> string \<Rightarrow> string" where
  "from_import module symbol = ''from '' @ module @ '' import '' @ symbol"

definition has_runtime_kind :: "type_param_kind \<Rightarrow> runtime_binding list \<Rightarrow> bool" where
  "has_runtime_kind kind bindings = list_ex (\<lambda>b. rp_kind (rb_type_param b) = kind) bindings"

definition type_param_module :: "lowering_options \<Rightarrow> runtime_binding list \<Rightarrow> string" where
  "type_param_module options bindings =
     (if list_ex (\<lambda>b. rp_default (rb_type_param b) \<noteq> None) bindings \<and>
         \<not> supports_generic_defaults (lo_target_python options)
      then ''typing_extensions'' else ''typing'')"

definition type_param_imports ::
    "python_parser \<Rightarrow> string \<Rightarrow> lowering_options \<Rightarrow> runtime_binding list \<Rightarrow> string list" where
  "type_param_imports py source options bindings =
     (let module = type_param_module options bindings; tuples = has_runtime_kind TypeVarTuple bindings
      in import_if (has_runtime_kind TypeVar bindings \<and> \<not> has_compatible_typing_import py source module ''TypeVar'')
           (from_import module ''TypeVar'') @
         import_if (has_runtime_kind ParamSpec bindings \<and> \<not> has_compatible_typing_import py source module ''ParamSpec'')
           (from_import module ''ParamSpec'') @
         import_if (tuples \<and> \<not> has_compatible_typing_import py source (owner_of options ''TypeVarTuple'') ''TypeVarTuple'')
           (from_import (owner_of options ''TypeVarTuple'') ''TypeVarTuple'') @
         import_if ((has_unqualified_symbol_usage source ''Unpack'' \<or> tuples) \<and>
             \<not> has_compatible_typing_import py source (owner_of options ''Unpack'') ''Unpack'')
           (from_import (owner_of options ''Unpack'') ''Unpack''))"

definition module_imports :: "python_parser \<Rightarrow> string \<Rightarrow> string list \<Rightarrow> string list" where
  "module_imports py source compatibility_lines =
     (let needs = (\<lambda>module. list_ex (\<lambda>l. has_qualified_module_reference py l module) compatibility_lines \<and>
                            \<not> has_module_import py source module)
      in import_if (needs ''typing'') ''import typing'' @
         import_if (needs ''typing_extensions'') ''import typing_extensions'')"

definition alias_values :: "declaration_lines \<Rightarrow> string list" where
  "alias_values d = map (\<lambda>e. trim (ta_value (snd e))) (dl_aliases d)"

text \<open>\<^verbatim>\<open>any\<close> over results that may run out of fuel.\<close>

definition needs_literal_import ::
    "nat \<Rightarrow> declaration_lines \<Rightarrow> block_map \<Rightarrow> block_map \<Rightarrow> bool \<Rightarrow> bool option" where
  "needs_literal_import fuel d classes data_classes experimental =
     any_opt (\<lambda>v. map_option (\<lambda>r. case r of Some t \<Rightarrow> starts_with ''Literal['' (trim_start t) | None \<Rightarrow> False)
         (reduce_restricted_type_level_alias_text_with_fields fuel v
           (type_level_shape_fields classes data_classes experimental))) (alias_values d)"

definition needs_notrequired_import :: "declaration_lines \<Rightarrow> block_map \<Rightarrow> block_map \<Rightarrow> bool \<Rightarrow> bool" where
  "needs_notrequired_import d classes data_classes experimental =
     list_ex (\<lambda>v. starts_with ''Partial['' v \<or> starts_with ''Required_['' v \<or>
         transform_generates_notrequired v classes data_classes experimental) (alias_values d)"

definition needs_readonly_import :: "declaration_lines \<Rightarrow> bool" where
  "needs_readonly_import d =
     list_ex (\<lambda>v. starts_with ''Readonly['' v \<or> starts_with ''Mutable['' v \<or>
         (starts_with ''MapValues['' v \<and> contains_str ''Readonly'' v)) (alias_values d)"

definition needs_optional_import :: "declaration_lines \<Rightarrow> bool" where
  "needs_optional_import d =
     list_ex (\<lambda>e. starts_with ''MapValues['' (trim (ta_value (snd e))) \<and>
         contains_str ''Optional'' (ta_value (snd e))) (dl_aliases d)"

definition declaration_imports ::
    "python_parser \<Rightarrow> syntax_tree \<Rightarrow> lowering_context \<Rightarrow> bool \<Rightarrow> string list" where
  "declaration_imports py tree cx literal =
     (let source = st_text tree; d = lc_lines cx; options = lc_options cx;
          missing = (\<lambda>module symbol. \<not> has_unaliased_from_import py source module symbol);
          untyped = (\<lambda>symbol. \<not> has_unaliased_typing_import py source symbol);
          experimental = lo_shape_transforms options
      in import_if (tree_uses_dynamic_intrinsic tree \<and> missing ''typing'' ''Any'') (from_import ''typing'' ''Any'') @
         import_if (list_ex (\<lambda>e. \<not> can_use_native_typealias (snd e) options) (dl_aliases d) \<and>
             missing ''typing'' ''TypeAlias'') (from_import ''typing'' ''TypeAlias'') @
         import_if (literal \<and> missing ''typing'' ''Literal'') (from_import ''typing'' ''Literal'') @
         import_if (dl_interfaces d \<noteq> [] \<and> missing ''typing'' ''Protocol'') (from_import ''typing'' ''Protocol'') @
         import_if (dl_data_classes d \<noteq> [] \<and> missing ''dataclasses'' ''dataclass'')
           (from_import ''dataclasses'' ''dataclass'') @
         import_if (experimental \<and> list_ex (\<lambda>v. transform_targets_data_class v (lc_data_classes cx)) (alias_values d) \<and>
             untyped ''TypedDict'') (from_import ''typing'' ''TypedDict'') @
         import_if (dl_overloads d \<noteq> [] \<and> missing ''typing'' ''overload'') (from_import ''typing'' ''overload'') @
         import_if (needs_notrequired_import d (lc_classes cx) (lc_data_classes cx) experimental \<and> untyped ''NotRequired'')
           (from_import (owner_of options ''NotRequired'') ''NotRequired'') @
         import_if (needs_readonly_import d \<and> untyped ''ReadOnly'') (from_import (owner_of options ''ReadOnly'') ''ReadOnly'') @
         import_if (needs_optional_import d \<and> missing ''typing'' ''Optional'') (from_import ''typing'' ''Optional''))"

definition required_imports_of ::
    "python_parser \<Rightarrow> syntax_tree \<Rightarrow> lowering_context \<Rightarrow> runtime_binding list \<Rightarrow> string list \<Rightarrow> bool \<Rightarrow> string list" where
  "required_imports_of py tree cx bindings compatibility_lines literal =
     type_param_imports py (st_text tree) (lc_options cx) bindings @
     import_if (has_compat_generic_class_like_declarations (lc_lines cx) (lc_options cx) \<and>
         \<not> has_unaliased_from_import py (st_text tree) ''typing'' ''Generic'') (from_import ''typing'' ''Generic'') @
     module_imports py (st_text tree) compatibility_lines @
     declaration_imports py tree cx literal"

section \<open>Lowering\<close>

text \<open>\<^verbatim>\<open>Path::with_extension\<close>, for a path that does not end in a separator.\<close>

definition with_extension :: "string \<Rightarrow> string \<Rightarrow> string" where
  "with_extension ext path =
     (let name = rev (takeWhile (\<lambda>c. c \<noteq> CHR ''/'') (rev path));
          dir = take (length path - length name) path;
          suffix = rev (takeWhile (\<lambda>c. c \<noteq> CHR ''.'') (rev name));
          stem = (if length name \<le> length suffix + 1 then name else take (length name - length suffix - 1) name)
      in if name \<in> {[], ''.'', ''..''} then path else dir @ stem @ ''.'' @ ext)"

definition lowering_context_of :: "nat \<Rightarrow> syntax_tree \<Rightarrow> lowering_options \<Rightarrow> runtime_binding list \<Rightarrow> lowering_context" where
  "lowering_context_of fuel tree options bindings =
     \<lparr>lc_fuel = fuel, lc_options = options, lc_lines = collect_declaration_lines tree,
      lc_declaration_renaming = compat_type_param_rewrites_by_declaration_line bindings,
      lc_member_renaming = compat_type_param_rewrites_by_class_member_line (st_text tree) bindings\<rparr>"

definition lowered_replacement ::
    "python_parser \<Rightarrow> lowering_context \<Rightarrow> nat \<Rightarrow> string \<Rightarrow> string list option" where
  "lowered_replacement py cx n line =
     map_option (normalized_replacement py (lc_options cx)) (line_replacement cx n line)"

definition has_typed_dict_transforms :: "declaration_lines \<Rightarrow> bool" where
  "has_typed_dict_transforms d =
     list_ex (\<lambda>v. case parse_transform_expr v of
         Some (transform, _) \<Rightarrow> transform \<in> set TYPEDICT_TRANSFORMS | None \<Rightarrow> False) (alias_values d)"

text \<open>The lines and maps before the text is joined.\<close>

definition lower_module_lines ::
    "nat \<Rightarrow> python_parser \<Rightarrow> syntax_tree \<Rightarrow> lowering_context \<Rightarrow> string list \<Rightarrow> string list \<Rightarrow> string list \<Rightarrow>
     lowering_progress option" where
  "lower_module_lines fuel py tree cx source_lines required_imports synthetic_lines =
     (let source_path = st_path tree; emitted_path = with_extension ''py'' source_path
      in Option.bind (lower_lines (lowered_replacement py cx) source_path emitted_path 1 source_lines
             initial_progress) (\<lambda>pg.
         map_option (\<lambda>(ls, spans).
             insert_synthetic_prologue py source_path emitted_path required_imports synthetic_lines
               (pg\<lparr>pg_lines := ls, pg_span_map := spans\<rparr>))
           (normalize_lowered_variadic_type_positions fuel py (pg_lines pg, pg_span_map pg))))"

definition finish_text :: "python_parser \<Rightarrow> lowering_options \<Rightarrow> string \<Rightarrow> string list \<Rightarrow> string" where
  "finish_text py options normalized_source ls =
     (let joined = join_with [CHR 0x0A] ls;
          lowered_text = (if lo_dual_emit options then apply_dual_emit_decorator_lowering joined else joined)
      in normalize_runtime_intrinsic_types py lowered_text @
         (if normalized_source \<noteq> [] \<and> last normalized_source = CHR 0x0A then [CHR 0x0A] else []))"

definition lower_typepython :: "nat \<Rightarrow> python_parser \<Rightarrow> syntax_tree \<Rightarrow> lowering_options \<Rightarrow> lowered_text option" where
  "lower_typepython fuel py tree options =
     (let normalized_source = normalize_annotated_lambda_source_for_emission (st_text tree);
          source_lines = str_lines normalized_source;
          compatibility_lines = normalized_replacement py options source_lines;
          bindings = collect_runtime_type_param_bindings tree options SplitDistinctFunctions;
          cx = lowering_context_of fuel tree options bindings; d = lc_lines cx
      in Option.bind (needs_literal_import fuel d (lc_classes cx) (lc_data_classes cx) (lo_shape_transforms options)) (\<lambda>literal.
         let imports = required_imports_of py tree cx bindings compatibility_lines literal;
             synthetic = map (\<lambda>b. rewrite_typevar_line (rb_emitted_name b) (rb_type_param b)) bindings
         in map_option (\<lambda>pg.
              let lowered = finish_text py options normalized_source (pg_lines pg)
              in \<lparr>lt_python_source = lowered, lt_source_map = pg_source_map pg, lt_span_map = pg_span_map pg,
                  lt_required_imports = imports,
                  lt_metadata =
                    \<lparr>lm_has_generic_type_params = has_any_generic_type_params d,
                     lm_has_typed_dict_transforms = has_typed_dict_transforms d,
                     lm_has_sealed_classes = dl_sealed_classes d \<noteq> [],
                     lm_required_runtime_features = collect_required_runtime_features d lowered options,
                     lm_required_backports = collect_required_backports lowered,
                     lm_export_runtime_semantics = collect_export_runtime_semantics d options\<rparr>\<rparr>)
            (lower_module_lines fuel py tree cx source_lines imports synthetic)))"

text \<open>The diagnostics are those of Shape lowering.\<close>

definition lower_with_options :: "nat \<Rightarrow> python_parser \<Rightarrow> syntax_tree \<Rightarrow> lowering_options \<Rightarrow> lowered_module option" where
  "lower_with_options fuel py tree options =
     map_option (\<lambda>t. \<lparr>ld_source_path = st_path tree, ld_source_kind = st_kind tree, ld_text = t\<rparr>)
       (if st_kind tree = TypePythonSource then lower_typepython fuel py tree options
        else Some (lower_passthrough (st_text tree)))"

text \<open>A parser that rejects every text, for examples.\<close>

definition plain_parser :: python_parser where
  "plain_parser = \<lparr>pp_imports = \<lambda>_. [], pp_tokens = \<lambda>_. [], pp_suite = \<lambda>_. None, pp_walked = \<lambda>_. None\<rparr>"

end
