(* ===== verification/Lowering_Props.thy ===== *)
theory Lowering_Props
  imports Lowering_Emit
begin

text \<open>
  What lowering keeps: the source and span maps against the lines they describe, the rounds over
  starred types, the runtime type parameters, and where the line rewriting goes wrong.
\<close>

section \<open>The maps\<close>

definition from_source :: "string list \<Rightarrow> span_map_entry \<Rightarrow> bool" where
  "from_source source e \<longleftrightarrow>
     (let n = sr_line (se_original e)
      in 1 \<le> n \<and> n \<le> length source \<and> se_original e = line_span n (source ! (n - 1)))"

text \<open>An entry describes the emitted line it names; a copied line is the source line it names.\<close>

definition entry_exact :: "string list \<Rightarrow> string list \<Rightarrow> span_map_entry \<Rightarrow> bool" where
  "entry_exact source emitted e \<longleftrightarrow>
     (let l = sr_line (se_emitted e)
      in se_emitted e = line_span l (emitted ! (l - 1)) \<and>
         (case se_kind e of
            Copied \<Rightarrow> from_source source e \<and> emitted ! (l - 1) = source ! (sr_line (se_original e) - 1)
          | Rewritten \<Rightarrow> from_source source e
          | _ \<Rightarrow> se_original e = \<lparr>sr_line = 0, sr_start_col = 0, sr_end_col = 0\<rparr>))"

definition emitted_line_of :: "span_map_entry \<Rightarrow> nat" where
  "emitted_line_of e = sr_line (se_emitted e)"

definition original_line_of :: "span_map_entry \<Rightarrow> nat" where
  "original_line_of e = sr_line (se_original e)"

definition source_map_leads ::
    "nat \<Rightarrow> source_map_entry list \<Rightarrow> span_map_entry list \<Rightarrow> bool" where
  "source_map_leads n sources spans \<longleftrightarrow>
     map sm_original_line sources = [1..<n] \<and>
     (\<forall>r\<in>set sources. case filter (\<lambda>e. original_line_of e = sm_original_line r) spans of
        [] \<Rightarrow> True | e # _ \<Rightarrow> sm_lowered_line r = emitted_line_of e)"

definition maps_exact :: "string list \<Rightarrow> lowering_progress \<Rightarrow> bool" where
  "maps_exact source pg \<longleftrightarrow>
     map emitted_line_of (pg_span_map pg) = [1..<length (pg_lines pg) + 1] \<and>
     (\<forall>e\<in>set (pg_span_map pg). entry_exact source (pg_lines pg) e) \<and>
     source_map_leads (length source + 1) (pg_source_map pg) (pg_span_map pg)"

subsection \<open>The loop\<close>

definition loop_inv :: "string list \<Rightarrow> nat \<Rightarrow> lowering_progress \<Rightarrow> bool" where
  "loop_inv source n pg \<longleftrightarrow>
     pg_next pg = length (pg_lines pg) + 1 \<and>
     map emitted_line_of (pg_span_map pg) = [1..<pg_next pg] \<and>
     (\<forall>e\<in>set (pg_span_map pg). entry_exact source (pg_lines pg) e \<and> original_line_of e < n \<and>
        se_kind e \<in> {Copied, Rewritten}) \<and>
     source_map_leads n (pg_source_map pg) (pg_span_map pg)"

lemma entry_exact_append:
  "entry_exact source ls e \<Longrightarrow> 0 < emitted_line_of e \<Longrightarrow> emitted_line_of e \<le> length ls \<Longrightarrow> entry_exact source (ls @ ms) e"
  by (auto simp: entry_exact_def emitted_line_of_def Let_def nth_append split: lowering_segment_kind.splits)

lemma emitted_lines_bounds:
  "map emitted_line_of spans = [a..<b] \<Longrightarrow> e \<in> set spans \<Longrightarrow> a \<le> emitted_line_of e \<and> emitted_line_of e < b"
  by (metis atLeastLessThan_iff image_eqI list.set_map set_upt)

lemma enumerate_map_fst: "map fst (enumerate k xs) = [k..<k + length xs]"
  by (simp add: enumerate_eq_zip)

lemma loop_inv_emit:
  assumes inv: "loop_inv source n pg" and n: "1 \<le> n" "n \<le> length source"
  shows "loop_inv source (n + 1) (emit_replacement p q n (source ! (n - 1)) replacement pg)"
proof -
  let ?line = "source ! (n - 1)" and ?pg = "emit_replacement p q n (source ! (n - 1)) replacement pg"
  define new where "new = map (\<lambda>(k, r).
        \<lparr>se_source_path = p, se_emitted_path = q, se_original = line_span n ?line,
         se_emitted = line_span k r, se_kind = segment_kind ?line replacement\<rparr>) (enumerate (pg_next pg) replacement)"
  have spans: "pg_span_map ?pg = pg_span_map pg @ new" and ls: "pg_lines ?pg = pg_lines pg @ replacement"
    and next_: "pg_next ?pg = pg_next pg + length replacement" "pg_next pg = length (pg_lines pg) + 1"
    using inv by (simp_all add: emit_replacement_def new_def loop_inv_def)
  have new_lines: "map emitted_line_of new = [pg_next pg..<pg_next pg + length replacement]"
    unfolding new_def by (simp add: comp_def case_prod_beta emitted_line_of_def line_span_def enumerate_map_fst)
  have new_original: "original_line_of e = n" if "e \<in> set new" for e
    using that unfolding new_def by (auto simp: original_line_of_def line_span_def)
  have new_exact: "entry_exact source (pg_lines ?pg) e \<and> se_kind e \<in> {Copied, Rewritten}" if "e \<in> set new" for e
  proof -
    have "length new = length replacement" by (simp add: new_def)
    then obtain i where i: "i < length replacement" and at: "new ! i = e"
      using \<open>e \<in> set new\<close> by (auto simp: in_set_conv_nth)
    have e: "e = \<lparr>se_source_path = p, se_emitted_path = q,
        se_original = line_span n ?line, se_emitted = line_span (pg_next pg + i) (replacement ! i),
        se_kind = segment_kind ?line replacement\<rparr>"
      using i unfolding at [symmetric] new_def by (simp add: nth_enumerate_eq)
    have "replacement ! i = ?line" if "replacement = [?line]" using that i by simp
    then show ?thesis using n i next_(2) unfolding e ls entry_exact_def from_source_def
      by (auto simp: line_span_def nth_append segment_kind_def split: if_splits)
  qed
  have old_lines: "map emitted_line_of (pg_span_map pg) = [1..<pg_next pg]" using inv by (simp add: loop_inv_def)
  have old: "entry_exact source (pg_lines ?pg) e \<and> original_line_of e < n \<and> se_kind e \<in> {Copied, Rewritten}"
    if "e \<in> set (pg_span_map pg)" for e
    using that inv emitted_lines_bounds [OF old_lines that] next_(2)
    unfolding ls loop_inv_def by (auto intro!: entry_exact_append)
  have "[1..<pg_next pg + length replacement] = [1..<pg_next pg] @ [pg_next pg..<pg_next pg + length replacement]"
    by (rule upt_add_eq_append) (simp add: next_(2))
  then have "map emitted_line_of (pg_span_map ?pg) = [1..<pg_next ?pg]"
    by (simp only: spans map_append old_lines new_lines next_(1))
  moreover have "source_map_leads (n + 1) (pg_source_map ?pg) (pg_span_map ?pg)"
  proof -
    have leads: "source_map_leads n (pg_source_map pg) (pg_span_map pg)" using inv by (simp add: loop_inv_def)
    have srcs: "pg_source_map ?pg = pg_source_map pg @ [\<lparr>sm_original_line = n, sm_lowered_line = pg_next pg\<rparr>]"
      by (simp add: emit_replacement_def)
    have olds: "sm_original_line r < n" if "r \<in> set (pg_source_map pg)" for r
      using that leads unfolding source_map_leads_def by (metis atLeastLessThan_iff image_eqI list.set_map set_upt)
    have none: "filter (\<lambda>e. original_line_of e = sm_original_line r) new = []" if "r \<in> set (pg_source_map pg)" for r
      using new_original olds [OF that] by (auto simp: filter_empty_conv)
    have "filter (\<lambda>e. original_line_of e = n) (pg_span_map pg) = []" using old by (fastforce simp: filter_empty_conv)
    moreover have "filter (\<lambda>e. original_line_of e = n) new = new" using new_original by (simp add: filter_id_conv)
    moreover have "emitted_line_of e = pg_next pg" if "new = e # es" for e es
      using new_lines that by (cases "length replacement") (auto simp: upt_rec)
    ultimately show ?thesis using leads none n(1)
      unfolding source_map_leads_def srcs spans by (auto split: list.splits)
  qed
  ultimately show ?thesis using old new_exact new_original next_ unfolding loop_inv_def spans ls
    by (auto simp: less_Suc_eq)
qed

lemma loop_inv_lines:
  assumes "lower_lines f p q n (drop (n - 1) source) pg = Some pg'" "loop_inv source n pg" "1 \<le> n"
    "n \<le> length source + 1"
  shows "loop_inv source (length source + 1) pg'"
  using assms
proof (induction "length source + 1 - n" arbitrary: n pg)
  case 0
  then have "n = length source + 1" by simp
  then show ?case using 0 by simp
next
  case (Suc k)
  then have n: "n - 1 < length source" by simp
  then have "drop (n - 1) source = source ! (n - 1) # drop n source"
    using Suc.prems(3) by (metis Cons_nth_drop_Suc Suc_diff_1 Suc_le_lessD One_nat_def)
  then obtain r where r: "lower_lines f p q (n + 1) (drop (n + 1 - 1) source)
      (emit_replacement p q n (source ! (n - 1)) r pg) = Some pg'"
    using Suc.prems(1) by (auto split: option.splits)
  moreover have "loop_inv source (n + 1) (emit_replacement p q n (source ! (n - 1)) r pg)"
    using Suc.prems n by (intro loop_inv_emit) simp_all
  ultimately show ?case using Suc.hyps(1) [of "n + 1"] Suc.hyps(2) Suc.prems by simp
qed

lemma loop_inv_initial: "loop_inv source 1 initial_progress"
  by (simp add: loop_inv_def initial_progress_def source_map_leads_def)

subsection \<open>Starred types\<close>

lemma loop_inv_respan:
  assumes inv: "loop_inv source n pg" and same: "length ms = length (pg_lines pg)"
  shows "loop_inv source n (pg\<lparr>pg_lines := ms, pg_span_map := map (respan (pg_lines pg) ms) (pg_span_map pg)\<rparr>)"
proof -
  have keep: "emitted_line_of (respan a b e) = emitted_line_of e" "original_line_of (respan a b e) = original_line_of e"
    for a b e by (simp_all add: respan_def emitted_line_of_def original_line_of_def line_span_def Let_def)
  have spans: "map emitted_line_of (pg_span_map pg) = [1..<length (pg_lines pg) + 1]"
    using inv by (simp add: loop_inv_def)
  have exact: "entry_exact source ms (respan (pg_lines pg) ms e) \<and> se_kind (respan (pg_lines pg) ms e) \<in> {Copied, Rewritten}"
    if "e \<in> set (pg_span_map pg)" for e
  proof -
    have "0 < emitted_line_of e" "emitted_line_of e \<le> length (pg_lines pg)"
      using emitted_lines_bounds [OF spans that] by simp_all
    moreover have "entry_exact source (pg_lines pg) e" "se_kind e \<in> {Copied, Rewritten}"
      using inv that by (simp_all add: loop_inv_def)
    ultimately show ?thesis
      unfolding respan_def entry_exact_def emitted_line_of_def Let_def from_source_def
      by (auto simp: line_span_def)
  qed
  have "source_map_leads n (pg_source_map pg) (map (respan (pg_lines pg) ms) (pg_span_map pg))"
    using inv unfolding loop_inv_def source_map_leads_def
    by (auto simp: filter_map comp_def keep split: list.splits)
  then show ?thesis using inv exact same unfolding loop_inv_def by (auto simp: keep comp_def)
qed

subsection \<open>The prologue\<close>

lemma loop_inv_maps_exact: "loop_inv source (length source + 1) pg \<Longrightarrow> maps_exact source pg"
  by (simp add: loop_inv_def maps_exact_def)

lemma sort_key_eqI:
  assumes "mset ys = mset xs" "sorted (map f ys)" "distinct (map f ys)"
  shows "sort_key f xs = ys"
proof (rule properties_for_sort_key)
  fix k assume "k \<in> set ys"
  have same: "filter (\<lambda>x. f k = f x) zs = [k]" if "mset zs = mset ys" for zs
  proof -
    have "distinct (map f zs)"
      using assms(3) that by (metis mset_eq_imp_distinct_iff mset_map)
    moreover have "k \<in> set zs" using \<open>k \<in> set ys\<close> that by (metis set_mset_mset)
    ultimately show ?thesis
      by (induction zs) (auto simp: filter_empty_conv image_iff)
  qed
  show "filter (\<lambda>x. f k = f x) ys = filter (\<lambda>x. f k = f x) xs"
    using same [of ys] same [of xs] assms(1) by simp
qed (use assms in simp_all)

lemma newlines_join:
  "list_all (\<lambda>l. CHR 0x0A \<notin> set l) ls \<Longrightarrow>
     length (filter (\<lambda>c. c = CHR 0x0A) (join_with [CHR 0x0A] ls)) = length ls - 1"
  by (induction ls rule: induct_list012) (auto simp: filter_empty_conv)

lemma newlines_before_le: "newlines_before s k \<le> length (filter (\<lambda>c. c = CHR 0x0A) s)"
proof -
  have "filter (\<lambda>c. c = CHR 0x0A) s = filter (\<lambda>c. c = CHR 0x0A) (take k s) @ filter (\<lambda>c. c = CHR 0x0A) (drop k s)"
    by (metis append_take_drop_id filter_append)
  then show ?thesis by (simp add: newlines_before_def)
qed

lemma length_str_lines_le: "length (str_lines s) \<le> length (filter (\<lambda>c. c = CHR 0x0A) s) + 1"
proof -
  have "length (split_char c s) = length (filter (\<lambda>d. d = c) s) + 1" for c
    by (induction s) (auto split: list.splits)
  then show ?thesis by (auto simp: str_lines_def Let_def)
qed

lemma prologue_index_le:
  assumes "list_all (\<lambda>l. CHR 0x0A \<notin> set l) ls" "pp_suite py [] \<in> {None, Some []}"
  shows "module_prologue_insertion_index py (join_with [CHR 0x0A] ls) \<le> length ls"
proof (cases ls)
  case Nil
  then show ?thesis using assms(2) by (auto simp: module_prologue_insertion_index_def)
next
  case (Cons l ls')
  let ?s = "join_with [CHR 0x0A] ls"
  have "length (filter (\<lambda>c. c = CHR 0x0A) ?s) + 1 = length ls" using newlines_join [OF assms(1)] Cons by simp
  then have "length (str_lines ?s) \<le> length ls" "newlines_before ?s k + 1 \<le> length ls" for k
    using length_str_lines_le [of ?s] newlines_before_le [of ?s k] by simp_all
  note bounds = this
  have skipped: "length (takeWhile P (str_lines ?s)) \<le> length ls" for P
    using bounds(1) length_takeWhile_le [of P "str_lines ?s"] by (rule order_trans [rotated])
  have before: "newlines_before ?s k \<le> length ls" for k using bounds(2) [of k] by simp
  show ?thesis
    unfolding module_prologue_insertion_index_def line_count_through_offset_def Let_def
    using bounds skipped before by (simp split: option.split list.split)
qed

lemma shift_upt:
  "i \<le> l \<Longrightarrow> map (shift_after i c) [1..<l + 1] = [1..<i + 1] @ [i + c + 1..<l + c + 1]"
proof -
  assume "i \<le> l"
  then have "[1..<l + 1] = [1..<i + 1] @ [i + 1..<l + 1]" by (metis add_le_mono1 le_add2 le_add_diff_inverse upt_add_eq_append)
  moreover have "map (shift_after i c) [1..<i + 1] = [1..<i + 1]"
    by (rule map_idI) (simp add: shift_after_def del: upt_Suc)
  moreover have "map (shift_after i c) [i + 1..<l + 1] = map (\<lambda>k. k + c) [i + 1..<l + 1]"
    by (rule map_cong) (auto simp: shift_after_def simp del: upt_Suc)
  moreover have "\<dots> = [i + c + 1..<l + c + 1]"
    by (rule nth_equalityI) (simp_all del: upt_Suc)
  ultimately show ?thesis by (simp only: map_append)
qed

lemma maps_exact_insert_at:
  assumes inv: "loop_inv source (length source + 1) pg" and index: "index \<le> length (pg_lines pg)"
    and kinds: "list_all (\<lambda>x. snd x \<in> {Inserted, Synthetic}) inserted"
  shows "maps_exact source (insert_at p q index inserted pg)"
proof -
  let ?c = "length inserted" and ?L = "length (pg_lines pg)"
  define old where "old = map (shift_emitted index ?c) (pg_span_map pg)"
  define new where "new = map (\<lambda>(k, t, kind). inserted_span_map_entry p q k t kind) (enumerate (index + 1) inserted)"
  define ls where "ls = take index (pg_lines pg) @ map fst inserted @ drop index (pg_lines pg)"
  define spans where "spans = take index old @ new @ drop index old"
  have lines_old: "map emitted_line_of (pg_span_map pg) = [1..<?L + 1]"
    using inv by (simp add: loop_inv_def)
  have shifted: "emitted_line_of (shift_emitted index ?c e) = shift_after index ?c (emitted_line_of e)"
      "original_line_of (shift_emitted index ?c e) = original_line_of e"
      "se_kind (shift_emitted index ?c e) = se_kind e" for e
    by (simp_all add: shift_emitted_def emitted_line_of_def original_line_of_def)
  have "map emitted_line_of old = map (shift_after index ?c) (map emitted_line_of (pg_span_map pg))"
    by (simp add: old_def shifted)
  then have old_lines: "map emitted_line_of old = [1..<index + 1] @ [index + ?c + 1..<?L + ?c + 1]"
    by (simp only: lines_old shift_upt [OF index])
  have new_lines: "map emitted_line_of new = [index + 1..<index + ?c + 1]"
    unfolding new_def
    by (simp add: comp_def case_prod_beta emitted_line_of_def inserted_span_map_entry_def line_span_def
        enumerate_map_fst del: upt_Suc)
  have take_drop: "map emitted_line_of (take index old) = [1..<index + 1]"
      "map emitted_line_of (drop index old) = [index + ?c + 1..<?L + ?c + 1]"
    using old_lines by (simp_all add: take_map [symmetric] drop_map [symmetric] del: upt_Suc)
  have span_lines: "map emitted_line_of spans = [1..<?L + ?c + 1]"
  proof -
    have "[1..<?L + ?c + 1] = [1..<index + 1] @ [index + 1..<index + ?c + 1] @ [index + ?c + 1..<?L + ?c + 1]"
      using index upt_add_eq_append [of 1 "index + 1" "?L + ?c - index"]
        upt_add_eq_append [of "index + 1" "index + ?c + 1" "?L - index"] by (simp add: ac_simps del: upt_Suc)
    then show ?thesis by (simp only: spans_def map_append take_drop new_lines)
  qed
  have "sort_key emitted_line_of (old @ new) = spans"
  proof (rule sort_key_eqI)
    have "mset old = mset (take index old) + mset (drop index old)" by (metis append_take_drop_id mset_append)
    then show "mset spans = mset (old @ new)" by (simp add: spans_def)
  qed (simp_all add: span_lines del: upt_Suc)
  then have span_map: "pg_span_map (insert_at p q index inserted pg) = spans"
    by (simp add: insert_at_def Let_def old_def new_def emitted_line_of_def [abs_def])
  have lines: "pg_lines (insert_at p q index inserted pg) = ls" "length ls = ?L + ?c"
    using index by (simp_all add: insert_at_def ls_def Let_def)
  have kept: "ls ! (shift_after index ?c l - 1) = pg_lines pg ! (l - 1)" if "0 < l" "l \<le> ?L" for l
    using that index by (auto simp: ls_def shift_after_def nth_append)
  have exact_old: "entry_exact source ls e" if "e \<in> set old" for e
  proof -
    obtain e' where e': "e' \<in> set (pg_span_map pg)" "e = shift_emitted index ?c e'"
      using \<open>e \<in> set old\<close> by (auto simp: old_def)
    have "0 < emitted_line_of e'" "emitted_line_of e' \<le> ?L" using emitted_lines_bounds [OF lines_old e'(1)] by simp_all
    moreover have "entry_exact source (pg_lines pg) e'" "se_kind e' \<in> {Copied, Rewritten}"
      using inv e'(1) by (simp_all add: loop_inv_def)
    ultimately show ?thesis using kept [of "emitted_line_of e'"]
      unfolding e'(2) entry_exact_def from_source_def shift_emitted_def emitted_line_of_def Let_def
      by (cases "se_emitted e'") (auto simp: line_span_def)
  qed
  have exact_new: "entry_exact source ls e \<and> original_line_of e = 0" if "e \<in> set new" for e
  proof -
    have "length new = ?c" by (simp add: new_def)
    then obtain i where i: "i < ?c" and at: "new ! i = e" using \<open>e \<in> set new\<close> by (auto simp: in_set_conv_nth)
    have e: "e = inserted_span_map_entry p q (index + 1 + i) (fst (inserted ! i)) (snd (inserted ! i))"
      using i unfolding at [symmetric] new_def by (simp add: nth_enumerate_eq case_prod_beta)
    have "snd (inserted ! i) \<in> {Inserted, Synthetic}" using kinds i by (simp add: list_all_length)
    then show ?thesis using i index unfolding e entry_exact_def inserted_span_map_entry_def
      by (auto simp: line_span_def ls_def nth_append original_line_of_def)
  qed
  have leads: "source_map_leads (length source + 1) (pg_source_map (insert_at p q index inserted pg)) spans"
  proof -
    have "filter (\<lambda>e. original_line_of e = n) spans = map (shift_emitted index ?c)
        (filter (\<lambda>e. original_line_of e = n) (pg_span_map pg))" if "0 < n" for n
    proof -
      have "filter (\<lambda>e. original_line_of e = n) new = []" using exact_new that by (auto simp: filter_empty_conv)
      then have "filter (\<lambda>e. original_line_of e = n) spans =
          filter (\<lambda>e. original_line_of e = n) (take index old @ drop index old)" by (simp only: spans_def filter_append) simp
      then show ?thesis by (simp add: old_def filter_map comp_def shifted)
    qed
    moreover have "source_map_leads (length source + 1) (pg_source_map pg) (pg_span_map pg)"
      using inv by (simp add: loop_inv_def)
    moreover from this have "0 < sm_original_line r" if "r \<in> set (pg_source_map pg)" for r
      using that unfolding source_map_leads_def
      by (metis One_nat_def Suc_le_lessD atLeastLessThan_iff image_eqI list.set_map set_upt)
    ultimately show ?thesis
      unfolding source_map_leads_def insert_at_def Let_def
      by (fastforce simp: comp_def shifted split: list.splits)
  qed
  show ?thesis unfolding maps_exact_def span_map lines
    using span_lines exact_old exact_new leads by (auto simp: spans_def del: upt_Suc dest: in_set_takeD in_set_dropD)
qed

subsection \<open>The whole module\<close>

lemma variadic_inv:
  assumes "loop_inv source n pg"
    "normalize_lowered_variadic_type_positions fuel py (pg_lines pg, pg_span_map pg) = Some (ls, spans)"
  shows "loop_inv source n (pg\<lparr>pg_lines := ls, pg_span_map := spans\<rparr>)"
proof (cases "spans = pg_span_map pg \<and> ls = pg_lines pg")
  case True
  then show ?thesis using assms(1) by simp
next
  case False
  then have "length ls = length (pg_lines pg)" "spans = map (respan (pg_lines pg) ls) (pg_span_map pg)"
    using assms(2) by (auto simp: normalize_lowered_variadic_type_positions_def Let_def split: if_splits)
  then show ?thesis using loop_inv_respan [OF assms(1)] by simp
qed

lemma module_maps_exact:
  assumes result: "lower_module_lines fuel py tree cx source required_imports synthetic = Some pg"
    and suite: "pp_suite py [] \<in> {None, Some []}" and plain: "list_all (\<lambda>l. CHR 0x0A \<notin> set l) (pg_lines pg)"
  shows "maps_exact source pg"
proof -
  let ?p = "st_path tree" and ?q = "with_extension ''py'' (st_path tree)"
  let ?inserted = "map (\<lambda>l. (l, Inserted)) required_imports @ map (\<lambda>l. (l, Synthetic)) synthetic"
  obtain pg0 ls spans where loop: "lower_lines (lowered_replacement py cx) ?p ?q 1 source initial_progress = Some pg0"
    and starred: "normalize_lowered_variadic_type_positions fuel py (pg_lines pg0, pg_span_map pg0) = Some (ls, spans)"
    and pg: "pg = insert_synthetic_prologue py ?p ?q required_imports synthetic (pg0\<lparr>pg_lines := ls, pg_span_map := spans\<rparr>)"
    using result by (auto simp: lower_module_lines_def Let_def bind_eq_Some_conv)
  let ?pg = "pg0\<lparr>pg_lines := ls, pg_span_map := spans\<rparr>"
  have "loop_inv source (length source + 1) pg0"
    using loop_inv_lines [of _ ?p ?q 1 source] loop loop_inv_initial by simp
  then have inv: "loop_inv source (length source + 1) ?pg" using starred by (rule variadic_inv)
  show ?thesis
  proof (cases "required_imports = [] \<and> synthetic = []")
    case True
    then show ?thesis using inv by (simp add: pg insert_synthetic_prologue_def loop_inv_maps_exact)
  next
    case False
    let ?index = "module_prologue_insertion_index py (join_with [CHR 0x0A] ls)"
    have at: "pg = insert_at ?p ?q ?index ?inserted ?pg"
      using False by (auto simp: pg insert_synthetic_prologue_def)
    then have "pg_lines pg = take ?index ls @ map fst ?inserted @ drop ?index ls"
      by (simp add: insert_at_def Let_def)
    then have "set ls \<subseteq> set (pg_lines pg)" by (metis Un_upper1 Un_upper2 append_take_drop_id le_sup_iff set_append)
    then have "list_all (\<lambda>l. CHR 0x0A \<notin> set l) ls" using plain by (auto simp: list_all_iff)
    then have "?index \<le> length ls" using suite by (rule prologue_index_le)
    then show ?thesis unfolding at using inv by (intro maps_exact_insert_at) (auto simp: list_all_iff)
  qed
qed

subsection \<open>From the lines to the texts\<close>

text \<open>
  Blanking annotated lambdas keeps the lines apart as long as no line break is among the
  characters it writes over.
\<close>

definition breaks_kept :: "string \<Rightarrow> string \<Rightarrow> bool" where
  "breaks_kept s t \<longleftrightarrow> list_all2 (\<lambda>a b. a \<in> {CHR 0x0A, CHR 0x0D} \<longrightarrow> b = a) s t"

definition lightly_blanked :: "char \<Rightarrow> char \<Rightarrow> bool" where
  "lightly_blanked a b \<longleftrightarrow> b = a \<or> b = CHR '' '' \<and> a \<notin> {CHR 0x0A, CHR 0x0D}"

lemma lightly_blanked_all:
  "blanked s t \<Longrightarrow> breaks_kept s t \<Longrightarrow> list_all2 lightly_blanked s t"
  by (auto simp: blanked_def breaks_kept_def lightly_blanked_def list_all2_conv_all_nth)

lemma blanked_all: "list_all2 lightly_blanked s t \<Longrightarrow> blanked s t"
  by (auto simp: blanked_def lightly_blanked_def elim: list_all2_mono)

lemma lightly_split:
  "list_all2 lightly_blanked s t \<Longrightarrow>
    list_all2 (list_all2 lightly_blanked) (split_char CHR 0x0A s) (split_char CHR 0x0A t)"
proof (induction rule: list_all2_induct)
  case (Cons a s b t)
  then obtain p ps q qs where "split_char CHR 0x0A s = p # ps" "split_char CHR 0x0A t = q # qs"
    by (metis list_all2_Cons1 split_char_not_Nil neq_Nil_conv)
  moreover have "a = CHR 0x0A \<longleftrightarrow> b = CHR 0x0A" using Cons(1) by (auto simp: lightly_blanked_def)
  ultimately show ?case using Cons by auto
qed simp

lemma lightly_strip:
  assumes "list_all2 lightly_blanked s t"
  shows "list_all2 lightly_blanked (strip_carriage_return s) (strip_carriage_return t)"
proof (cases s rule: rev_cases)
  case Nil
  then show ?thesis using assms by (simp add: strip_carriage_return_def)
next
  case (snoc u a)
  then obtain v b where t: "t = v @ [b]" "list_all2 lightly_blanked u v" "lightly_blanked a b"
    using assms by (auto simp: list_all2_append1 list_all2_Cons1)
  moreover have "a = CHR 0x0D \<longleftrightarrow> b = CHR 0x0D" using t(3) by (auto simp: lightly_blanked_def)
  ultimately show ?thesis using snoc
    by (auto simp: strip_carriage_return_def intro: list_all2_appendI)
qed

lemma lightly_lines:
  assumes "list_all2 lightly_blanked s t"
  shows "list_all2 blanked (str_lines s) (str_lines t)"
proof -
  let ?ps = "split_char CHR 0x0A s" and ?qs = "split_char CHR 0x0A t"
  obtain ps p where ps: "?ps = ps @ [p]" by (cases ?ps rule: rev_cases) simp_all
  obtain qs q where qs: "?qs = qs @ [q]" by (cases ?qs rule: rev_cases) simp_all
  have all: "list_all2 (list_all2 lightly_blanked) (ps @ [p]) (qs @ [q])"
    using lightly_split [OF assms] by (simp only: ps qs)
  then have "length ps = length qs" using list_all2_lengthD by fastforce
  with all have parts: "list_all2 (list_all2 lightly_blanked) ps qs" "list_all2 lightly_blanked p q"
    by (simp_all add: list_all2_append)
  have "list_all2 blanked (map strip_carriage_return ps) (map strip_carriage_return qs)"
    using parts(1) blanked_all [OF lightly_strip]
    by (simp add: list_all2_map1 list_all2_map2) (metis (no_types, lifting) list_all2_mono)
  moreover have "p = [] \<longleftrightarrow> q = []" using parts(2) by auto
  ultimately show ?thesis using parts(2) blanked_all
    by (simp add: str_lines_def ps qs list_all2_appendI)
qed

text \<open>The passes over the joined text find nothing to do.\<close>

definition finishing_keeps :: "python_parser \<Rightarrow> lowering_options \<Rightarrow> string list \<Rightarrow> bool" where
  "finishing_keeps py options ls \<longleftrightarrow>
     (let joined = join_with [CHR 0x0A] ls
      in (lo_dual_emit options \<longrightarrow> apply_dual_emit_decorator_lowering joined = joined) \<and>
         normalize_runtime_intrinsic_types py joined = joined)"

lemma split_char_joined:
  "ps \<noteq> [] \<Longrightarrow> list_all (\<lambda>p. c \<notin> set p) ps \<Longrightarrow> split_char c (join_with [c] ps) = ps"
proof (induction ps)
  case (Cons p ps)
  then show ?case
    by (cases "ps = []") (simp_all add: join_with_Cons split_char_fresh split_char_append)
qed simp

lemma split_char_snoc: "split_char c (s @ [c]) = split_char c s @ [[]]"
  by (induction s) (auto split: list.splits)

lemma finished_lines:
  assumes "finishing_keeps py options ls" "ls \<noteq> []" "list_all (\<lambda>l. CHR 0x0A \<notin> set l) ls"
  shows "take (length ls) (split_char CHR 0x0A (finish_text py options source ls)) = ls"
  using assms split_char_joined [OF assms(2,3)]
  by (auto simp: finish_text_def finishing_keeps_def Let_def split_char_snoc)

text \<open>The lines whose maps the result carries.\<close>

definition lowered_lines ::
    "nat \<Rightarrow> python_parser \<Rightarrow> syntax_tree \<Rightarrow> lowering_options \<Rightarrow> lowering_progress option" where
  "lowered_lines fuel py tree options =
     (let source_lines = str_lines (normalize_annotated_lambda_source_for_emission (st_text tree));
          bindings = collect_runtime_type_param_bindings tree options SplitDistinctFunctions;
          cx = lowering_context_of fuel tree options bindings
      in Option.bind (needs_literal_import fuel (lc_lines cx) (lc_classes cx) (lc_data_classes cx)
             (lo_shape_transforms options)) (\<lambda>literal.
           lower_module_lines fuel py tree cx source_lines
             (required_imports_of py tree cx bindings (normalized_replacement py options source_lines) literal)
             (map (\<lambda>b. rewrite_typevar_line (rb_emitted_name b) (rb_type_param b)) bindings)))"

text \<open>
  C26: what lowering's maps say, and of which lines. There are lines, before the last passes over the
  joined text, whose maps the result carries. When no line holds a line break of its own, the span map has
  one entry for each of them, in order and with the extent of that line; a copied line is the line
  its entry names of the source in which the annotated lambdas have been blanked, a rewritten one
  comes from such a line, an inserted one from none; and the source map leads each source line to the
  first line emitted for it. That source has the line breaks, and so line by line the numbers, of
  the text of the module just as long as no line break is blanked, as it is in a lambda whose
  annotations span lines. And the lines are those of the emitted text, at the same numbers, as long as the
  passes over the joined text (the decorators of dual emission, and the names of the intrinsic types) find
  nothing to do; dual emission may insert lines that no entry knows of. The parser
  sees no statement in the empty text.
\<close>

theorem lowering_maps_exact:
  assumes "lower_typepython fuel py tree options = Some result" "pp_suite py [] \<in> {None, Some []}"
  defines "normalized \<equiv> normalize_annotated_lambda_source_for_emission (st_text tree)"
  shows "\<exists>pg. lowered_lines fuel py tree options = Some pg \<and>
    lt_source_map result = pg_source_map pg \<and> lt_span_map result = pg_span_map pg \<and>
    lt_python_source result = finish_text py options normalized (pg_lines pg) \<and>
    (list_all (\<lambda>l. CHR 0x0A \<notin> set l) (pg_lines pg) \<longrightarrow>
     maps_exact (str_lines normalized) pg \<and>
     (finishing_keeps py options (pg_lines pg) \<and> pg_lines pg \<noteq> [] \<longrightarrow>
      take (length (pg_lines pg)) (split_char CHR 0x0A (lt_python_source result)) = pg_lines pg)) \<and>
    (breaks_kept (st_text tree) normalized \<longrightarrow>
     list_all2 blanked (str_lines (st_text tree)) (str_lines normalized))"
proof -
  obtain cx required_imports synthetic pg where
    "lower_module_lines fuel py tree cx (str_lines normalized) required_imports synthetic = Some pg"
    "lowered_lines fuel py tree options = Some pg"
    "lt_source_map result = pg_source_map pg" "lt_span_map result = pg_span_map pg"
    "lt_python_source result = finish_text py options normalized (pg_lines pg)"
    using assms(1) by (auto simp: lower_typepython_def Let_def bind_eq_Some_conv normalized_def lowered_lines_def)
  moreover have "breaks_kept (st_text tree) normalized \<longrightarrow>
      list_all2 blanked (str_lines (st_text tree)) (str_lines normalized)"
    using lightly_lines [OF lightly_blanked_all] blanked_normalize_from [of "st_text tree" "(st_text tree, [])" 0]
    by (simp add: normalized_def normalize_annotated_lambda_source_for_emission_def
        normalize_annotated_lambda_source_def blanked_refl)
  ultimately show ?thesis
    using module_maps_exact [OF _ assms(2)] finished_lines [of py options "pg_lines pg" normalized] by auto
qed

definition two_lines :: syntax_tree where
  "two_lines =
     \<lparr>st_path = ''src/app.tpy'', st_kind = TypePythonSource,
      st_text = ''unsafe:'' @ [CHR 0x0A] @ ''typealias Id = int'' @ [CHR 0x0A],
      st_statements = [StUnsafe 1, StTypeAlias \<lparr>ta_name = ''Id'', ta_type_params = [], ta_value = ''int'',
        ta_value_expr = None, ta_line = 2\<rparr>]\<rparr>"

lemma two_lines_lowered:
  "map_option (\<lambda>r. (lt_python_source r, map sm_lowered_line (lt_source_map r), map se_kind (lt_span_map r)))
     (lower_typepython 1 plain_parser two_lines default_lowering_options) =
   Some (''from typing import TypeAlias'' @ [CHR 0x0A] @ ''if True:  # tpy:unsafe'' @ [CHR 0x0A] @ ''Id: TypeAlias = int'' @ [CHR 0x0A],
     [2, 3], [Inserted, Rewritten, Rewritten])"
  by code_simp

lemma two_lines_lines:
  "map_option (\<lambda>pg. (pg_lines pg, finishing_keeps plain_parser default_lowering_options (pg_lines pg)))
     (lowered_lines 1 plain_parser two_lines default_lowering_options) =
   Some ([''from typing import TypeAlias'', ''if True:  # tpy:unsafe'', ''Id: TypeAlias = int''], True)"
  by code_simp

lemma two_lines_breaks:
  "breaks_kept (st_text two_lines) (normalize_annotated_lambda_source_for_emission (st_text two_lines))"
  by code_simp

theorem lowering_maps_exact_witness:
  "\<exists>result pg. lower_typepython 1 plain_parser two_lines default_lowering_options = Some result \<and>
     lt_span_map result = pg_span_map pg \<and> lt_source_map result = pg_source_map pg \<and>
     maps_exact (str_lines (normalize_annotated_lambda_source_for_emission (st_text two_lines))) pg \<and>
     take 3 (split_char CHR 0x0A (lt_python_source result)) = pg_lines pg \<and>
     list_all2 blanked (str_lines (st_text two_lines))
       (str_lines (normalize_annotated_lambda_source_for_emission (st_text two_lines)))"
proof -
  obtain result where "lower_typepython 1 plain_parser two_lines default_lowering_options = Some result"
    using two_lines_lowered by auto
  then obtain pg where pg: "lowered_lines 1 plain_parser two_lines default_lowering_options = Some pg"
    "lt_source_map result = pg_source_map pg" "lt_span_map result = pg_span_map pg"
    "list_all (\<lambda>l. CHR 0x0A \<notin> set l) (pg_lines pg) \<longrightarrow>
     maps_exact (str_lines (normalize_annotated_lambda_source_for_emission (st_text two_lines))) pg \<and>
     (finishing_keeps plain_parser default_lowering_options (pg_lines pg) \<and> pg_lines pg \<noteq> [] \<longrightarrow>
      take (length (pg_lines pg)) (split_char CHR 0x0A (lt_python_source result)) = pg_lines pg)"
    "list_all2 blanked (str_lines (st_text two_lines))
       (str_lines (normalize_annotated_lambda_source_for_emission (st_text two_lines)))"
    using lowering_maps_exact [of 1 plain_parser two_lines default_lowering_options result] two_lines_breaks
    by (auto simp: plain_parser_def)
  have known: "pg_lines pg = [''from typing import TypeAlias'', ''if True:  # tpy:unsafe'', ''Id: TypeAlias = int''] \<and>
      finishing_keeps plain_parser default_lowering_options (pg_lines pg)"
    using two_lines_lines unfolding pg(1) option.map option.inject prod.inject simp_thms .
  then have "list_all (\<lambda>l. CHR 0x0A \<notin> set l) (pg_lines pg)" "pg_lines pg \<noteq> []" "length (pg_lines pg) = 3"
    by simp_all
  with pg known \<open>lower_typepython 1 plain_parser two_lines default_lowering_options = Some result\<close>
  show ?thesis by (intro exI [of _ result] exI [of _ pg]) metis
qed

end
