(* ===== verification/Lowering_Binding_Props.thy ===== *)
theory Lowering_Binding_Props
  imports Lowering_Emit
begin

text \<open>
  The runtime objects lowering makes for type parameters: every parameter of an owner has one with
  its kind, bound, constraints and default, none stands for anything else, and their names differ.
\<close>

section \<open>The state of the collection\<close>

definition indices_of :: "binding_state \<Rightarrow> string \<Rightarrow> nat list" where
  "indices_of state name = (case bt_get (snd state) name of Some is \<Rightarrow> is | None \<Rightarrow> [])"

text \<open>The index lists point at bindings of their name, once, and every binding is pointed at.\<close>

definition indices_ok :: "binding_state \<Rightarrow> bool" where
  "indices_ok state \<longleftrightarrow>
     bt_ok (snd state) \<and>
     (\<forall>name. bt_get (snd state) name \<noteq> Some [] \<and> distinct (indices_of state name) \<and>
        set (indices_of state name) = {i. i < length (fst state) \<and> pb_source_name (fst state ! i) = name})"

text \<open>What a binding records: owner and parameter pairs seen so far.\<close>

definition has_binding :: "pending_binding list \<Rightarrow> compat_owner_key \<Rightarrow> type_param \<Rightarrow> bool" where
  "has_binding bindings key p \<longleftrightarrow>
     (\<exists>b\<in>set bindings. pb_source_name b = tp_name p \<and> pb_type_param b = from_type_param p \<and> key \<in> set (pb_owners b))"

definition justified :: "(compat_owner_key \<times> type_param) list \<Rightarrow> pending_binding \<Rightarrow> bool" where
  "justified seen b \<longleftrightarrow> pb_owners b \<noteq> [] \<and>
     (\<forall>key\<in>set (pb_owners b). \<exists>p. (key, p) \<in> set seen \<and> tp_name p = pb_source_name b \<and>
        from_type_param p = pb_type_param b)"

definition collected :: "(compat_owner_key \<times> type_param) list \<Rightarrow> binding_state \<Rightarrow> bool" where
  "collected seen state \<longleftrightarrow>
     indices_ok state \<and> (\<forall>(key, p)\<in>set seen. has_binding (fst state) key p) \<and>
     (\<forall>b\<in>set (fst state). justified seen b)"

lemma indices_of_push:
  "bt_ok m \<Longrightarrow> indices_of (bs, bt_push name i m) n =
     (if n = name then indices_of (bs', m) n @ [i] else indices_of (bs', m) n)"
  by (simp add: indices_of_def btg.lookup_push split: option.splits)

lemma collected_add:
  assumes "collected seen state"
  shows "collected (seen @ [(key, p)]) (add_type_param split key p state)"
proof -
  obtain bs m where state: "state = (bs, m)" by fastforce
  have ok: "bt_ok m" and ind: "bt_get m n \<noteq> Some []" "distinct (indices_of (bs, m) n)"
      "set (indices_of (bs, m) n) = {i. i < length bs \<and> pb_source_name (bs ! i) = n}" for n
    using assms by (simp_all add: collected_def indices_ok_def state)
  have seen: "has_binding bs k q" if "(k, q) \<in> set seen" for k q
    using assms that by (auto simp: collected_def state)
  have just: "justified (seen @ [(key, p)]) b" if "b \<in> set bs" for b
    using assms that by (fastforce simp: collected_def state justified_def)
  define pending where "pending = \<lparr>pb_source_name = tp_name p, pb_type_param = from_type_param p, pb_owners = [key]\<rparr>"
  show ?thesis
  proof (cases "find_binding split pending state")
    case None
    then have new: "add_type_param split key p state = (bs @ [pending], bt_push (tp_name p) (length bs) m)"
      by (simp add: add_type_param_def state pending_def Let_def)
    have "indices_ok (bs @ [pending], bt_push (tp_name p) (length bs) m)"
      using ok ind by (auto simp: indices_ok_def indices_of_push [where bs' = bs] btg.ok_push nth_append pending_def
          less_Suc_eq btg.lookup_push)
    moreover have "justified (seen @ [(key, p)]) pending"
      by (auto simp: justified_def pending_def intro!: exI [of _ p])
    ultimately show ?thesis using seen just unfolding new collected_def
      by (fastforce simp: has_binding_def pending_def)
  next
    case (Some i)
    let ?b = "(bs ! i)\<lparr>pb_owners := pb_owners (bs ! i) @ [key]\<rparr>"
    have "i \<in> set (indices_of (bs, m) (tp_name p))" "pb_type_param (bs ! i) = from_type_param p"
      using find_SomeD [OF Some [unfolded find_binding_def]] by (simp_all add: state pending_def indices_of_def)
    then have i: "i < length bs" "pb_source_name (bs ! i) = tp_name p" "pb_type_param (bs ! i) = from_type_param p"
      using ind(3) by auto
    have new: "add_type_param split key p state = (bs[i := ?b], m)"
      using Some by (simp add: add_type_param_def state pending_def Let_def)
    have same: "pb_source_name (bs[i := ?b] ! j) = pb_source_name (bs ! j)" for j
      using i(1) by (cases "i = j") simp_all
    have "indices_ok (bs[i := ?b], m)" using ok ind by (simp add: indices_ok_def indices_of_def same)
    moreover have "has_binding (bs[i := ?b]) k q" if "has_binding bs k q" for k q
    proof -
      obtain b where b: "b \<in> set bs" "pb_source_name b = tp_name q" "pb_type_param b = from_type_param q"
          "k \<in> set (pb_owners b)"
        using \<open>has_binding bs k q\<close> by (auto simp: has_binding_def)
      obtain j where "j < length bs" "bs ! j = b" using b(1) by (auto simp: in_set_conv_nth)
      then have j: "j < length bs" "pb_source_name (bs ! j) = tp_name q" "pb_type_param (bs ! j) = from_type_param q"
          "k \<in> set (pb_owners (bs ! j))" using b by simp_all
      then have "bs[i := ?b] ! j \<in> set (bs[i := ?b])" by simp
      moreover have "pb_type_param (bs[i := ?b] ! j) = from_type_param q" "k \<in> set (pb_owners (bs[i := ?b] ! j))"
        using j i(1) by (cases "i = j"; simp)+
      ultimately show ?thesis using j(2) same unfolding has_binding_def by (metis (no_types))
    qed
    moreover have "has_binding (bs[i := ?b]) key p"
      unfolding has_binding_def using i set_update_memI [OF i(1), of ?b] by (intro bexI [of _ ?b]) simp_all
    moreover have "justified (seen @ [(key, p)]) ?b"
      using just [OF nth_mem [OF i(1)]] i by (auto simp: justified_def)
    ultimately show ?thesis using seen just unfolding new collected_def
      by (auto dest!: set_update_subset_insert [THEN subsetD])
  qed
qed

definition owner_params :: "compat_owner list \<Rightarrow> (compat_owner_key \<times> type_param) list" where
  "owner_params owners = concat (map (\<lambda>ow. map (Pair (co_owner ow)) (co_type_params ow)) owners)"

lemma collected_pending: "collected (owner_params owners) (pending_bindings split owners)"
proof -
  have "collected (seen @ map (Pair key) ps) (fold (add_type_param split key) ps state)"
    if "collected seen state" for seen key ps state
    using that
  proof (induction ps arbitrary: seen state)
    case (Cons p ps)
    then show ?case using collected_add [OF Cons.prems, of key p split] by fastforce
  qed simp
  note params = this
  have "collected (seen @ owner_params os) (fold (\<lambda>ow. fold (add_type_param split (co_owner ow)) (co_type_params ow)) os state)"
    if "collected seen state" for seen os state
    using that
  proof (induction os arbitrary: seen state)
    case (Cons ow os)
    then show ?case using params [OF Cons.prems, of "co_owner ow" "co_type_params ow"]
      by (fastforce simp: owner_params_def)
  qed (simp add: owner_params_def)
  from this [of "[]" "([], [])" owners] show ?thesis
    by (simp add: pending_bindings_def collected_def indices_ok_def indices_of_def)
qed

section \<open>The names\<close>

lemma split_at_last: "x \<notin> set u \<Longrightarrow> x \<notin> set v \<Longrightarrow> a @ x # u = b @ x # v \<Longrightarrow> a = b \<and> u = v"
proof -
  assume fresh: "x \<notin> set u" "x \<notin> set v" and eq: "a @ x # u = b @ x # v"
  have tw: "takeWhile (\<lambda>y. y \<noteq> x) (rev w @ x # c) = rev w" if "x \<notin> set w" for w c
    using that by (subst takeWhile_append2) auto
  have "rev u @ x # rev a = rev v @ x # rev b" using arg_cong [OF eq, of rev] by simp
  then have "rev u = rev v" using tw [OF fresh(1), of "rev a"] tw [OF fresh(2), of "rev b"] by simp
  then show "a = b \<and> u = v" using eq by simp
qed

lemma show_nat_inject: "show_nat i = show_nat j \<longleftrightarrow> i = j"
  by (metis digits_value_show_nat option.inject)

lemma numbered_name_inject:
  "''__typepython_'' @ a @ ''_'' @ show_nat i = ''__typepython_'' @ b @ ''_'' @ show_nat j \<longleftrightarrow> a = b \<and> i = j"
proof -
  have "CHR ''_'' \<notin> set (show_nat n)" for n using set_show_nat [of n] by auto
  then have "a @ CHR ''_'' # show_nat i = b @ CHR ''_'' # show_nat j \<longleftrightarrow> a = b \<and> show_nat i = show_nat j"
    using split_at_last [of "CHR ''_''" "show_nat i" "show_nat j" a b] by auto
  then show ?thesis by (simp add: show_nat_inject)
qed

definition reserved :: "string \<Rightarrow> bool" where
  "reserved name \<longleftrightarrow> starts_with ''__typepython_'' name"

lemma emitted_name_inject:
  assumes "\<not> reserved a" "\<not> reserved b" "i < length is" "j < length js"
    "emitted_type_param_name a is i = emitted_type_param_name b js j"
  shows "a = b \<and> (is = js \<longrightarrow> i = j)"
proof -
  have "reserved (''__typepython_'' @ n)" for n by (simp only: reserved_def starts_with_iff) blast
  then have "''__typepython_'' @ n \<noteq> a" "''__typepython_'' @ n \<noteq> b" for n using assms(1,2) by metis+
  then show ?thesis
    using assms(3-) numbered_name_inject [of a "i + 1" b "j + 1"]
    by (auto simp only: emitted_type_param_name_def split: if_splits)
qed

definition emitted_names :: "string \<times> nat list \<Rightarrow> string list" where
  "emitted_names entry = map (emitted_type_param_name (fst entry) (snd entry)) [0..<length (snd entry)]"

lemma named_bindings_names: "map rb_emitted_name (named_bindings bs entry) = emitted_names entry"
  by (rule nth_equalityI) (simp_all add: named_bindings_def emitted_names_def nth_enumerate_eq)

lemma emitted_names_distinct:
  assumes "distinct (map fst m)" "list_all (\<lambda>e. \<not> reserved (fst e)) m"
  shows "distinct (concat (map emitted_names m))"
  using assms
proof (induction m)
  case (Cons e m)
  have "distinct (emitted_names e)"
    using Cons.prems(2) emitted_name_inject [of "fst e" "fst e" _ "snd e" _ "snd e"]
    by (auto simp: emitted_names_def distinct_map inj_on_def)
  moreover have "x \<notin> set (emitted_names e')" if "x \<in> set (emitted_names e)" "e' \<in> set m" for x e'
    using that Cons.prems emitted_name_inject [of "fst e" "fst e'" _ "snd e" _ "snd e'"]
    by (auto simp: emitted_names_def list_all_iff image_iff) (metis fst_conv)+
  ultimately show ?case using Cons by auto
qed simp

section \<open>Every parameter has its object\<close>

lemma bt_get_entry: "bt_ok m \<Longrightarrow> (n, v) \<in> set m \<longleftrightarrow> bt_get m n = Some v"
  by (simp add: bt_get_def bt_ok_def strict_sorted_iff map_of_eq_Some_iff)

lemma named_bindings_map:
  "named_bindings bs (n, is) =
     map (\<lambda>k. \<lparr>rb_source_name = n, rb_emitted_name = emitted_type_param_name n is k,
        rb_type_param = pb_type_param (bs ! (is ! k)), rb_owners = pb_owners (bs ! (is ! k))\<rparr>) [0..<length is]"
  by (rule nth_equalityI) (simp_all add: named_bindings_def nth_enumerate_eq)

lemma runtime_binding_of:
  assumes "indices_ok (bs, m)" "b \<in> set bs"
  shows "\<exists>r\<in>set (concat (map (named_bindings bs) m)). rb_source_name r = pb_source_name b \<and>
    rb_type_param r = pb_type_param b \<and> rb_owners r = pb_owners b"
proof -
  obtain i where i: "i < length bs" "bs ! i = b" using assms(2) by (auto simp: in_set_conv_nth)
  then have "i \<in> set (indices_of (bs, m) (pb_source_name b))" using assms(1) by (auto simp: indices_ok_def)
  then obtain "is" where "bt_get m (pb_source_name b) = Some is" and "i \<in> set is"
    by (cases "bt_get m (pb_source_name b)") (simp_all add: indices_of_def)
  moreover from this have entry: "(pb_source_name b, is) \<in> set m"
    using assms(1) by (simp add: indices_ok_def bt_get_entry)
  ultimately obtain k where k: "k < length is" "is ! k = i" by (auto simp: in_set_conv_nth)
  define r where "r = named_bindings bs (pb_source_name b, is) ! k"
  have "r \<in> set (named_bindings bs (pb_source_name b, is))"
    unfolding r_def by (rule nth_mem) (simp add: named_bindings_map k(1))
  then have "r \<in> set (concat (map (named_bindings bs) m))" using entry by auto
  moreover have "rb_source_name r = pb_source_name b" "rb_type_param r = pb_type_param b" "rb_owners r = pb_owners b"
    using k i(2) by (simp_all add: r_def named_bindings_map)
  ultimately show ?thesis by blast
qed

lemma pending_binding_of:
  assumes "indices_ok (bs, m)" "r \<in> set (concat (map (named_bindings bs) m))"
  shows "\<exists>b\<in>set bs. rb_source_name r = pb_source_name b \<and> rb_type_param r = pb_type_param b \<and>
    rb_owners r = pb_owners b"
proof -
  obtain n "is" k where entry: "(n, is) \<in> set m" and k: "k < length is"
    and r: "rb_source_name r = n" "rb_type_param r = pb_type_param (bs ! (is ! k))"
      "rb_owners r = pb_owners (bs ! (is ! k))"
    using assms(2) by (auto simp: named_bindings_map)
  have "is ! k \<in> set (indices_of (bs, m) n)"
    using entry k assms(1) by (simp add: indices_ok_def bt_get_entry indices_of_def)
  then have "is ! k < length bs" "pb_source_name (bs ! (is ! k)) = n" using assms(1) by (auto simp: indices_ok_def)
  then show ?thesis using r by (intro bexI [of _ "bs ! (is ! k)"]) simp_all
qed

text \<open>The binding is the object of the parameter; the parameter is one the binding stands for.\<close>

definition stands_for :: "compat_owner_key \<times> type_param \<Rightarrow> runtime_binding \<Rightarrow> bool" where
  "stands_for kp b \<longleftrightarrow>
     rb_source_name b = tp_name (snd kp) \<and> rb_type_param b = from_type_param (snd kp) \<and> fst kp \<in> set (rb_owners b)"

text \<open>
  C18: every type parameter that needs a runtime object has one with its name, kind, bound,
  constraints and default, every object stands for a parameter of each of its owners, and no two
  objects have the same emitted name, unless the source uses the reserved prefix.
\<close>

theorem runtime_type_params_complete:
  assumes "list_all (\<lambda>kp. \<not> reserved (tp_name (snd kp)))
    (owner_params (collect_compat_type_param_owners tree options))"
  shows "let bindings = collect_runtime_type_param_bindings tree options split;
        params = owner_params (collect_compat_type_param_owners tree options)
    in distinct (map rb_emitted_name bindings) \<and>
       list_all (\<lambda>kp. list_ex (stands_for kp) bindings) params \<and>
       list_all (\<lambda>b. rb_owners b \<noteq> [] \<and>
         list_all (\<lambda>key. list_ex (\<lambda>kp. fst kp = key \<and> stands_for kp b) params) (rb_owners b)) bindings"
proof -
  let ?owners = "collect_compat_type_param_owners tree options"
  obtain bs m where state: "pending_bindings split ?owners = (bs, m)" by fastforce
  let ?rs = "concat (map (named_bindings bs) m)"
  have rs: "collect_runtime_type_param_bindings tree options split = ?rs"
    by (simp add: collect_runtime_type_param_bindings_def state)
  have "collected (owner_params ?owners) (bs, m)" using collected_pending [of ?owners split] state by simp
  then have ok: "indices_ok (bs, m)"
    and seen: "\<And>key p. (key, p) \<in> set (owner_params ?owners) \<Longrightarrow> has_binding bs key p"
    and just: "\<And>b. b \<in> set bs \<Longrightarrow> justified (owner_params ?owners) b"
    by (auto simp: collected_def)
  have "\<not> reserved (fst e)" if "e \<in> set m" for e
  proof -
    have e: "bt_get m (fst e) = Some (snd e)" using that ok by (simp add: indices_ok_def flip: bt_get_entry)
    moreover from this obtain i where "i \<in> set (snd e)" using ok by (cases "snd e") (auto simp: indices_ok_def)
    ultimately have "i \<in> set (indices_of (bs, m) (fst e))" by (simp add: indices_of_def)
    then have "i < length bs" "pb_source_name (bs ! i) = fst e" using ok by (auto simp: indices_ok_def)
    then obtain key p where "(key, p) \<in> set (owner_params ?owners)" "tp_name p = fst e"
      using just [OF nth_mem [of i bs]] by (cases "pb_owners (bs ! i)") (auto simp: justified_def)
    then show ?thesis using assms by (auto simp: list_all_iff)
  qed
  then have "distinct (concat (map emitted_names m))"
    using ok by (intro emitted_names_distinct) (auto simp: indices_ok_def bt_ok_def strict_sorted_iff list_all_iff)
  then have "distinct (map rb_emitted_name ?rs)"
    by (simp add: map_concat comp_def named_bindings_names)
  moreover have "list_all (\<lambda>kp. list_ex (stands_for kp) ?rs) (owner_params ?owners)"
    unfolding list_all_iff list_ex_iff
  proof
    fix kp assume "kp \<in> set (owner_params ?owners)"
    then have "has_binding bs (fst kp) (snd kp)" using seen [of "fst kp" "snd kp"] by simp
    then show "\<exists>b\<in>set ?rs. stands_for kp b"
      using runtime_binding_of [OF ok] unfolding has_binding_def stands_for_def by metis
  qed
  moreover have "rb_owners r \<noteq> [] \<and> list_all (\<lambda>key. list_ex (\<lambda>kp. fst kp = key \<and> stands_for kp r)
      (owner_params ?owners)) (rb_owners r)" if r: "r \<in> set ?rs" for r
  proof -
    obtain b where b: "b \<in> set bs" "rb_source_name r = pb_source_name b" "rb_type_param r = pb_type_param b"
        "rb_owners r = pb_owners b" using pending_binding_of [OF ok r] by blast
    then have "pb_owners b \<noteq> []" "\<exists>p. (key, p) \<in> set (owner_params ?owners) \<and> tp_name p = pb_source_name b \<and>
        from_type_param p = pb_type_param b" if "key \<in> set (pb_owners b)" for key
      using just [OF b(1)] that by (auto simp: justified_def)
    moreover have "pb_owners b \<noteq> []" using just [OF b(1)] by (simp add: justified_def)
    ultimately show ?thesis unfolding list_all_iff list_ex_iff stands_for_def b(2-4)
      by (metis fst_conv snd_conv)
  qed
  ultimately show ?thesis unfolding rs Let_def by (simp add: list_all_iff)
qed

definition plain_param :: "string \<Rightarrow> string option \<Rightarrow> type_param" where
  "plain_param name bound =
     \<lparr>tp_kind = TypeVar, tp_name = name, tp_bound = bound, tp_bound_expr = None, tp_constraints = [],
      tp_constraint_exprs = [], tp_default = None, tp_default_expr = None\<rparr>"

definition generic_function :: "string \<Rightarrow> type_param \<Rightarrow> nat \<Rightarrow> function_statement" where
  "generic_function name p line =
     \<lparr>fs_name = name, fs_type_params = [p], fs_params = [], fs_returns = None, fs_returns_expr = None,
      fs_is_async = False, fs_is_override = False, fs_is_deprecated = False, fs_deprecation_message = None,
      fs_line = line\<rparr>"

definition three_functions :: syntax_tree where
  "three_functions =
     \<lparr>st_path = ''m.tpy'', st_kind = TypePythonSource, st_text = [],
      st_statements = [StFunctionDef (generic_function ''f'' (plain_param ''T'' None) 1),
        StOverloadDef (generic_function ''f'' (plain_param ''T'' None) 2),
        StFunctionDef (generic_function ''g'' (plain_param ''T'' (Some ''int'')) 3)]\<rparr>"

theorem runtime_type_params_complete_witness:
  "let bindings = collect_runtime_type_param_bindings three_functions default_lowering_options SplitDistinctFunctions;
       params = owner_params (collect_compat_type_param_owners three_functions default_lowering_options)
   in distinct (map rb_emitted_name bindings) \<and> list_all (\<lambda>kp. list_ex (stands_for kp) bindings) params \<and>
      length params = 3 \<and> map rb_emitted_name bindings = [''__typepython_T_1'', ''__typepython_T_2'']"
proof -
  have "list_all (\<lambda>kp. \<not> reserved (tp_name (snd kp)))
      (owner_params (collect_compat_type_param_owners three_functions default_lowering_options))" by code_simp
  note complete = runtime_type_params_complete [OF this, of SplitDistinctFunctions]
  have "length (owner_params (collect_compat_type_param_owners three_functions default_lowering_options)) = 3"
    "map rb_emitted_name (collect_runtime_type_param_bindings three_functions default_lowering_options
       SplitDistinctFunctions) = [''__typepython_T_1'', ''__typepython_T_2'']" by code_simp+
  then show ?thesis using complete unfolding Let_def by blast
qed

end
