(* ===== verification/Lowering_Text_Props.thy ===== *)
theory Lowering_Text_Props
  imports Lowering_Emit
begin

text \<open>
  Facts about the text functions of lowering: the rounds over starred types end, the distance
  between keys is the least number of edits, annotated lambdas are blanked in place, and the names
  and imports that go wrong.
\<close>

section \<open>Starred types\<close>

text \<open>
  What a parser promises of its ranges: none is empty, the ranges of the parts of an expression are
  within its own, and those of two parts, or of two expressions of a module, do not overlap.
\<close>

definition ranges_apart :: "text_range \<Rightarrow> text_range \<Rightarrow> bool" where
  "ranges_apart r q \<longleftrightarrow> snd r \<le> fst q \<or> snd q \<le> fst r"

definition range_inside :: "text_range \<Rightarrow> text_range \<Rightarrow> bool" where
  "range_inside q r \<longleftrightarrow> fst q \<le> fst r \<and> fst r < snd r \<and> snd r \<le> snd q"

abbreviation all_apart :: "text_range list \<Rightarrow> bool" where
  "all_apart \<equiv> sorted_wrt ranges_apart"

fun subexprs :: "py_expr \<Rightarrow> py_expr list" where
  "subexprs (ExName _ _) = []"
| "subexprs (ExAttribute _ e _) = [e]"
| "subexprs (ExSubscript _ e arg) = [e, arg]"
| "subexprs (ExTuple _ elts) = elts"
| "subexprs (ExStarred _ e) = [e]"
| "subexprs (ExOther _ parts) = parts"

inductive nested_expr :: "py_expr \<Rightarrow> bool" where
  "fst (expr_range e) < snd (expr_range e) \<Longrightarrow> all_apart (map expr_range (subexprs e)) \<Longrightarrow>
   (\<And>p. p \<in> set (subexprs e) \<Longrightarrow> range_inside (expr_range e) (expr_range p) \<and> nested_expr p) \<Longrightarrow>
   nested_expr e"

fun part_expr :: "py_part \<Rightarrow> py_expr" where
  "part_expr (PartExpr e) = e"
| "part_expr (PartAnnotation e) = e"

fun stmt_exprs :: "py_walked \<Rightarrow> py_expr list" where
  "stmt_exprs (WkFunctionDef _ header body) = map part_expr header @ concat (map stmt_exprs body)"
| "stmt_exprs (WkClassDef _ header body) = map part_expr header @ concat (map stmt_exprs body)"
| "stmt_exprs WkTypeAlias = []"
| "stmt_exprs (WkAnnAssign target annotation v) = (case v of None \<Rightarrow> [] | Some e \<Rightarrow> [e]) @ [annotation, target]"
| "stmt_exprs (WkOther parts body) = map part_expr parts @ concat (map stmt_exprs body)"

definition nested_exprs :: "py_expr list \<Rightarrow> bool" where
  "nested_exprs es \<longleftrightarrow> (\<forall>e\<in>set es. nested_expr e) \<and> all_apart (map expr_range es)"

definition parser_nests :: "python_parser \<Rightarrow> bool" where
  "parser_nests py \<longleftrightarrow>
     (\<forall>s. case pp_walked py s of None \<Rightarrow> True | Some suite \<Rightarrow> nested_exprs (concat (map stmt_exprs suite)))"

text \<open>Then the starred expressions that are collected do not overlap either.\<close>

definition spread :: "py_expr list \<Rightarrow> text_range list \<Rightarrow> bool" where
  "spread es rs \<longleftrightarrow> all_apart rs \<and> (\<forall>r\<in>set rs. \<exists>e\<in>set es. range_inside (expr_range e) r)"

lemma apart_inside:
  "ranges_apart q q' \<Longrightarrow> range_inside q r \<Longrightarrow> range_inside q' r' \<Longrightarrow> ranges_apart r r'"
  by (auto simp: ranges_apart_def range_inside_def)

lemma apart_sym: "ranges_apart r q \<Longrightarrow> ranges_apart q r"
  by (auto simp: ranges_apart_def)

lemma spread_Nil: "spread es []"
  by (simp add: spread_def)

lemma spread_mono: "spread es rs \<Longrightarrow> set es \<subseteq> set es' \<Longrightarrow> spread es' rs"
  unfolding spread_def by blast

lemma spread_append:
  assumes "spread es rs" "spread es' rs'"
    and "\<And>e e'. e \<in> set es \<Longrightarrow> e' \<in> set es' \<Longrightarrow> ranges_apart (expr_range e) (expr_range e')"
  shows "spread (es @ es') (rs @ rs')"
proof -
  have "ranges_apart r r'" if "r \<in> set rs" "r' \<in> set rs'" for r r'
    using assms that unfolding spread_def by (meson apart_inside)
  then show ?thesis using assms(1,2) unfolding spread_def sorted_wrt_append set_append by blast
qed

lemma nested_exprs_append:
  "nested_exprs (es @ es') \<longleftrightarrow> nested_exprs es \<and> nested_exprs es' \<and>
    (\<forall>e\<in>set es. \<forall>e'\<in>set es'. ranges_apart (expr_range e) (expr_range e'))"
  by (auto simp: nested_exprs_def sorted_wrt_append)

lemma spread_concat:
  "(\<And>x. x \<in> set xs \<Longrightarrow> nested_exprs (f x) \<Longrightarrow> spread (f x) (g x)) \<Longrightarrow>
    nested_exprs (concat (map f xs)) \<Longrightarrow> spread (concat (map f xs)) (concat (map g xs))"
proof (induction xs)
  case (Cons x xs)
  then show ?case by (auto simp: nested_exprs_append intro!: spread_append)
qed (simp add: spread_Nil)

lemma nested_parts: "nested_expr e \<Longrightarrow> nested_exprs (subexprs e)"
  by (erule nested_expr.cases) (auto simp: nested_exprs_def)

lemma spread_part:
  assumes "nested_expr e" "spread (subexprs e) rs" shows "spread [e] rs"
proof -
  have "range_inside (expr_range e) (expr_range p)" if "p \<in> set (subexprs e)" for p
    using assms(1) that by (auto elim: nested_expr.cases)
  then show ?thesis using assms(2) by (fastforce simp: spread_def range_inside_def)
qed

lemma spread_self: "nested_expr e \<Longrightarrow> spread [e] [expr_range e]"
  by (erule nested_expr.cases) (simp add: spread_def range_inside_def)

lemma spread_of_part: "nested_expr e \<Longrightarrow> p \<in> set (subexprs e) \<Longrightarrow> spread [p] rs \<Longrightarrow> spread [e] rs"
  by (rule spread_part, assumption, erule spread_mono) simp

lemma nested_part: "nested_expr e \<Longrightarrow> p \<in> set (subexprs e) \<Longrightarrow> nested_expr p"
  by (erule nested_expr.cases) blast

lemma visit_expr_spread: "nested_expr e \<Longrightarrow> spread [e] (visit_expr t e)"
proof (induction t e rule: visit_expr.induct)
  case (2 t r e a)
  then show ?case using nested_part spread_of_part [of "ExAttribute r e a" e] by fastforce
next
  case (3 t r e sl)
  let ?e = "ExSubscript r e sl"
  have parts: "nested_expr e" "nested_expr sl" "nested_exprs [e, sl]"
    using nested_part [OF "3.prems"] nested_parts [OF "3.prems"] by simp_all
  show ?case
  proof (cases "t \<and> is_annotated e")
    case True
    have "spread [sl] (visit_expr t ?e)"
    proof (cases "\<exists>q elts. sl = ExTuple q elts")
      case tuple: True
      then obtain q elts where sl: "sl = ExTuple q elts" by blast
      show ?thesis
      proof (cases elts)
        case (Cons first rest)
        then have "nested_expr first" using nested_part [OF parts(2), of first] sl by simp
        then have "spread [first] (visit_expr True first)" using "3.IH" True sl Cons by blast
        then show ?thesis using spread_of_part [OF parts(2), of first] True sl Cons by simp
      qed (use True sl in \<open>simp add: spread_Nil\<close>)
    next
      case False
      then have "visit_expr t ?e = visit_expr True sl" using True by (cases sl) auto
      moreover have "spread [sl] (visit_expr True sl)" using "3.IH" True False parts(2) by (cases sl) blast+
      ultimately show ?thesis by simp
    qed
    then show ?thesis using spread_of_part [OF "3.prems", of sl] by simp
  next
    case False
    then have "spread [e] (visit_expr t e)" "spread [sl] (visit_expr t sl)" using "3.IH" parts by blast+
    then have "spread ([e] @ [sl]) (visit_expr t e @ visit_expr t sl)"
      using parts(3) by (intro spread_append) (auto simp: nested_exprs_def)
    moreover have "visit_expr t ?e = visit_expr t e @ visit_expr t sl" using False by auto
    ultimately show ?thesis using spread_part [OF "3.prems"] by simp
  qed
next
  case (4 t r elts)
  have "nested_exprs (concat (map (\<lambda>e. [e]) elts))" using nested_parts [OF 4(2)] by simp
  then have "spread (concat (map (\<lambda>e. [e]) elts)) (concat (map (visit_expr t) elts))"
    using 4(1) by (intro spread_concat) (auto simp: nested_exprs_def)
  then show ?case using spread_part [OF 4(2)] by simp
next
  case (5 t r e)
  then show ?case using spread_self [OF 5(2)] nested_part [OF 5(2)] spread_of_part [OF 5(2), of e] by auto
next
  case (6 t r ps)
  have "nested_exprs (concat (map (\<lambda>e. [e]) ps))" using nested_parts [OF 6(2)] by simp
  then have "spread (concat (map (\<lambda>e. [e]) ps)) (concat (map (visit_expr t) ps))"
    using 6(1) by (intro spread_concat) (auto simp: nested_exprs_def)
  then show ?case using spread_part [OF 6(2)] by simp
qed (simp add: spread_Nil)

lemma visit_parts_spread:
  assumes "nested_exprs (map part_expr parts)"
  shows "spread (map part_expr parts) (concat (map visit_part parts))"
proof -
  have "spread [part_expr p] (visit_part p)" if "nested_expr (part_expr p)" for p
    using that visit_expr_spread by (cases p) (auto simp: visit_part_def)
  then have "spread (concat (map (\<lambda>p. [part_expr p]) parts)) (concat (map visit_part parts))"
    using assms by (intro spread_concat) (auto simp: nested_exprs_def)
  then show ?thesis by simp
qed

lemma spread_header:
  assumes "nested_exprs (map part_expr header @ concat (map stmt_exprs body))"
    and "\<And>s. s \<in> set body \<Longrightarrow> nested_exprs (stmt_exprs s) \<Longrightarrow> spread (stmt_exprs s) (visit_stmt source s)"
  shows "spread (map part_expr header @ concat (map stmt_exprs body))
    ((if skip then [] else concat (map visit_part header)) @ concat (map (visit_stmt source) body))"
  using assms visit_parts_spread [of header] spread_concat [of body stmt_exprs "visit_stmt source"]
  by (intro spread_append) (auto simp: nested_exprs_append spread_Nil)

lemma visit_stmt_spread: "nested_exprs (stmt_exprs s) \<Longrightarrow> spread (stmt_exprs s) (visit_stmt source s)"
proof (induction source s rule: visit_stmt.induct)
  case (1 source g header body)
  then show ?case using spread_header [of header body source g] by simp
next
  case (2 source g header body)
  then show ?case using spread_header [of header body source g] by simp
next
  case (4 source target annotation v)
  let ?given = "case v of None \<Rightarrow> [] | Some e \<Rightarrow> [e]"
  have ns: "nested_exprs ?given" "nested_expr annotation" "nested_expr target"
    and apart: "\<And>e. e \<in> set ?given \<Longrightarrow> ranges_apart (expr_range e) (expr_range annotation) \<and>
        ranges_apart (expr_range e) (expr_range target)"
      "ranges_apart (expr_range annotation) (expr_range target)"
    using 4 nested_exprs_append [of ?given "[annotation, target]"] by (auto simp: nested_exprs_def)
  have v: "spread ?given (visit_value t v)" for t
    using ns(1) visit_expr_spread by (cases v) (auto simp: visit_value_def spread_Nil nested_exprs_def)
  have "spread ([annotation] @ ?given) (visit_expr True annotation @ visit_value True v)"
    using apart(1) apart_sym by (intro spread_append visit_expr_spread ns(2) v) auto
  moreover have "spread (?given @ [annotation] @ [target])
      (visit_value False v @ visit_expr True annotation @ visit_expr False target)"
    using apart by (intro spread_append visit_expr_spread ns(2,3) v) auto
  ultimately show ?case
    using spread_mono [of "annotation # ?given" _ "?given @ [annotation, target]"] by auto
next
  case (5 source parts body)
  then show ?case using spread_header [of parts body source False] by simp
qed (simp add: spread_Nil)

primrec separated :: "nat \<Rightarrow> text_range list \<Rightarrow> bool" where
  "separated k [] \<longleftrightarrow> True"
| "separated k (r # rs) \<longleftrightarrow> k \<le> fst r \<and> fst r < snd r \<and> separated (snd r) rs"

lemma sorted_separated:
  "sorted (map fst rs) \<Longrightarrow> distinct rs \<Longrightarrow> \<forall>r\<in>set rs. fst r < snd r \<and> k \<le> fst r \<Longrightarrow>
    \<forall>r\<in>set rs. \<forall>q\<in>set rs. r = q \<or> ranges_apart r q \<Longrightarrow> separated k rs"
proof (induction rs arbitrary: k)
  case (Cons r rs)
  have "snd r \<le> fst q" if "q \<in> set rs" for q
  proof -
    have "q \<noteq> r" "fst r \<le> fst q" using Cons.prems(1,2) that by auto
    moreover have "ranges_apart r q" "fst q < snd q" using Cons.prems(3,4) that \<open>q \<noteq> r\<close> by auto
    ultimately show ?thesis by (auto simp: ranges_apart_def)
  qed
  then show ?case using Cons by auto
qed simp

lemma all_apart_facts:
  assumes "all_apart rs" "\<forall>r\<in>set rs. fst r < snd r"
  shows "distinct rs \<and> (\<forall>r\<in>set rs. \<forall>q\<in>set rs. r = q \<or> ranges_apart r q)"
  using assms by (induction rs) (auto simp: ranges_apart_def)

lemma starred_ranges_separated:
  assumes "parser_nests py" "starred_type_ranges py s = Some rs"
  shows "separated 0 (sorted_ranges rs)"
proof -
  obtain suite where suite: "pp_walked py s = Some suite" "rs = concat (map (visit_stmt s) suite)"
    using assms(2) by (auto simp: starred_type_ranges_def)
  have "nested_exprs (concat (map stmt_exprs suite))"
    using assms(1) suite(1) unfolding parser_nests_def by (metis option.simps(5))
  then have "spread (concat (map stmt_exprs suite)) rs"
    unfolding suite(2) by (intro spread_concat visit_stmt_spread)
  then have rs: "all_apart rs" "\<forall>r\<in>set rs. fst r < snd r" by (auto simp: spread_def range_inside_def)
  let ?sorted = "sort_key fst (sort_key snd rs)"
  have "distinct ?sorted" using all_apart_facts [OF rs] by simp
  moreover from this have "sorted_ranges rs = ?sorted" by (simp add: sorted_ranges_def remdups_adj_distinct)
  ultimately show ?thesis
    using all_apart_facts [OF rs] rs(2) sorted_separated [of ?sorted 0] by simp
qed

definition stars :: "string \<Rightarrow> nat" where
  "stars s = length (filter (\<lambda>c. c = CHR ''*'') s)"

lemma stars_simps [simp]:
  "stars (a @ b) = stars a + stars b" "stars [] = 0"
  "stars (c # s) = (if c = CHR ''*'' then 1 else 0) + stars s" "stars (rev s) = stars s"
  by (simp_all add: stars_def rev_filter [symmetric])

lemma stars_dropWhile: "stars (dropWhile P s) \<le> stars s"
  by (induction s) auto

lemma stars_trim: "stars (trim s) \<le> stars s"
  using stars_dropWhile [of is_ws s] stars_dropWhile [of is_ws "rev (dropWhile is_ws s)"]
  by (simp add: trim_def trim_end_def trim_start_def)

lemma stars_pieces:
  assumes "a \<le> b" "b \<le> length s"
  shows "stars s = stars (take a s) + stars (take (b - a) (drop a s)) + stars (drop b s)"
proof -
  have "s = take a s @ take (b - a) (drop a s) @ drop b s"
    using assms by (metis append_take_drop_id drop_drop le_add_diff_inverse2)
  then show ?thesis by (metis stars_simps(1) add.assoc)
qed

definition apply_edit :: "text_range \<times> string \<Rightarrow> string \<Rightarrow> string" where
  "apply_edit = (\<lambda>(span, t). replace_text_range span t)"

text \<open>Edits made from the right leave what stands to their left alone, and each removes a star.\<close>

lemma edits_remove_stars:
  assumes "separated k rs" "k \<le> length s"
  defines "edits \<equiv> List.map_filter (unpack_edit s) rs"
  shows "take k (foldr apply_edit edits s) = take k s \<and> k \<le> length (foldr apply_edit edits s) \<and>
    stars (foldr apply_edit edits s) + length edits \<le> stars s"
  using assms(1,2) unfolding edits_def
proof (induction rs arbitrary: k)
  case (Cons r rs)
  let ?edits = "List.map_filter (unpack_edit s) rs"
  let ?t = "foldr apply_edit ?edits s"
  obtain a b where r: "r = (a, b)" by fastforce
  have order: "k \<le> a" "a < b" "separated b rs" using Cons.prems by (simp_all add: r)
  show ?case
  proof (cases "unpack_edit s r")
    case None
    have "separated k rs" using order by (cases rs) auto
    then have "take k ?t = take k s \<and> k \<le> length ?t \<and> stars ?t + length ?edits \<le> stars s"
      using Cons.prems(2) by (intro Cons.IH)
    then show ?thesis using None by (simp add: List.map_filter_simps)
  next
    case (Some edit)
    then obtain operand where slice: "slice_range s (a, b) = Some (CHR ''*'' # operand)"
      and edit: "edit = ((a, b), ''Unpack['' @ trim operand @ '']'')"
      by (auto simp: r unpack_edit_def bind_eq_Some_conv strip_prefix_Some split: if_splits)
    then have b: "b \<le> length s" and piece: "take (b - a) (drop a s) = CHR ''*'' # operand"
      by (auto simp: slice_range_def split: if_splits)
    have t: "take b ?t = take b s" "b \<le> length ?t" "stars ?t + length ?edits \<le> stars s"
      using Cons.IH [OF order(3) b] by simp_all
    have "take (b - a) (drop a ?t) = take (b - a) (drop a s)" using t(1) by (simp add: drop_take [symmetric])
    then have "stars ?t = stars (take a ?t) + (1 + stars operand) + stars (drop b ?t)"
      using stars_pieces [of a b ?t] order(2) t(2) piece by simp
    moreover have "stars (apply_edit edit ?t) = stars (take a ?t) + stars (trim operand) + stars (drop b ?t)"
      by (simp add: apply_edit_def edit replace_text_range_def)
    ultimately have "stars (apply_edit edit ?t) + 1 \<le> stars ?t" using stars_trim [of operand] by linarith
    moreover have "take k (apply_edit edit ?t) = take k (take b ?t)"
      using t(2) order by (simp add: apply_edit_def edit replace_text_range_def min_def)
    moreover have "take k (take b s) = take k s" using order by (simp add: min_def)
    moreover have "k \<le> length (apply_edit edit ?t)"
      using t(2) order by (simp add: apply_edit_def edit replace_text_range_def)
    ultimately show ?thesis using t(1,3) Some by (simp add: List.map_filter_simps)
  qed
qed (simp add: List.map_filter_simps)

definition no_starred_left :: "python_parser \<Rightarrow> string \<Rightarrow> bool" where
  "no_starred_left py s \<longleftrightarrow>
     (case starred_type_ranges py s of None \<Rightarrow> True | Some rs \<Rightarrow> List.map_filter (unpack_edit s) (sorted_ranges rs) = [])"

text \<open>
  C28: the rounds that rewrite starred types end, after at most one round for each star of the
  text, with nothing left to rewrite, for a parser whose ranges are not empty and nest: those of
  the parts of an expression within its own, and those of parts and of expressions apart.
\<close>

theorem variadic_normalization_terminates:
  assumes "parser_nests py" "stars s < fuel"
  shows "\<exists>t. normalize_variadic_type_positions fuel py s = Some t \<and> no_starred_left py t \<and> stars t \<le> stars s"
  using assms(2)
proof (induction fuel arbitrary: s)
  case (Suc fuel)
  show ?case
  proof (cases "no_starred_left py s")
    case True
    then show ?thesis by (auto simp: no_starred_left_def Let_def split: option.splits)
  next
    case False
    then obtain rs where rs: "starred_type_ranges py s = Some rs"
      and some: "List.map_filter (unpack_edit s) (sorted_ranges rs) \<noteq> []"
      by (auto simp: no_starred_left_def split: option.splits)
    let ?edits = "List.map_filter (unpack_edit s) (sorted_ranges rs)"
    let ?t = "foldr apply_edit ?edits s"
    have "separated 0 (sorted_ranges rs)" by (rule starred_ranges_separated [OF assms(1) rs])
    then have "stars ?t + length ?edits \<le> stars s" using edits_remove_stars [of 0 "sorted_ranges rs" s] by simp
    moreover have "0 < length ?edits" using some by simp
    ultimately have less: "stars ?t < stars s" by linarith
    then obtain u where "normalize_variadic_type_positions fuel py ?t = Some u" "no_starred_left py u" "stars u \<le> stars ?t"
      using Suc.IH [of ?t] Suc.prems by auto
    moreover have "normalize_variadic_type_positions (Suc fuel) py s = normalize_variadic_type_positions fuel py ?t"
      using rs some by (simp add: foldr_conv_fold apply_edit_def Let_def)
    ultimately show ?thesis using less by auto
  qed
qed simp

text \<open>This parser sees one starred annotation, from the first star to the end of the text.\<close>

definition one_star_parser :: python_parser where
  "one_star_parser = plain_parser\<lparr>pp_walked := \<lambda>s. case find_char (\<lambda>c. c = CHR ''*'') s of
      None \<Rightarrow> Some []
    | Some k \<Rightarrow>
        if k + 1 < length s
        then Some [WkFunctionDef False
               [PartAnnotation (ExStarred (k, length s) (ExName (k + 1, length s) (drop (k + 1) s)))] []]
        else None\<rparr>"

lemma one_star_nests: "parser_nests one_star_parser"
proof -
  have "nested_expr (ExName (k, l) name)" if "k < l" for k l name
    using that by (intro nested_expr.intros) simp_all
  then have "nested_expr (ExStarred (k, l) (ExName (k + 1, l) name))" if "k + 1 < l" for k l name
    using that by (intro nested_expr.intros) (auto simp: range_inside_def)
  then show ?thesis
    by (auto simp: parser_nests_def one_star_parser_def nested_exprs_def split: option.splits)
qed

theorem variadic_normalization_terminates_witness:
  "(\<exists>t. normalize_variadic_type_positions 2 one_star_parser ''args: *Ts'' = Some t \<and> no_starred_left one_star_parser t \<and>
     stars t \<le> stars ''args: *Ts'') \<and>
   starred_type_ranges one_star_parser ''args: *Ts'' = Some [(6, 9)]"
proof
  have "stars ''args: *Ts'' < 2" by code_simp
  then show "\<exists>t. normalize_variadic_type_positions 2 one_star_parser ''args: *Ts'' = Some t \<and>
      no_starred_left one_star_parser t \<and> stars t \<le> stars ''args: *Ts''"
    by (rule variadic_normalization_terminates [OF one_star_nests])
qed code_simp

section \<open>The distance between keys\<close>

text \<open>One character deleted, inserted or replaced.\<close>

inductive one_edit :: "string \<Rightarrow> string \<Rightarrow> bool" where
  deleted: "one_edit (x # s) s"
| inserted: "one_edit s (x # s)"
| replaced: "one_edit (x # s) (y # s)"
| later: "one_edit s t \<Longrightarrow> one_edit (x # s) (x # t)"

inductive edits :: "nat \<Rightarrow> string \<Rightarrow> string \<Rightarrow> bool" where
  none: "edits 0 s s"
| step: "edits n s t \<Longrightarrow> one_edit t u \<Longrightarrow> edits (Suc n) s u"

inductive_simps one_edit_Nil: "one_edit [] u"
inductive_simps one_edit_Cons: "one_edit (y # b) u"

text \<open>Two texts side by side, with the number of places where they differ.\<close>

inductive aligned :: "nat \<Rightarrow> string \<Rightarrow> string \<Rightarrow> bool" where
  al_nil: "aligned 0 [] []"
| al_same: "aligned n a b \<Longrightarrow> aligned n (x # a) (x # b)"
| al_subst: "aligned n a b \<Longrightarrow> aligned (Suc n) (x # a) (y # b)"
| al_del: "aligned n a b \<Longrightarrow> aligned (Suc n) (x # a) b"
| al_ins: "aligned n a b \<Longrightarrow> aligned (Suc n) a (y # b)"

lemma aligned_refl: "aligned 0 s s"
  by (induction s) (auto intro: aligned.intros)

lemma aligned_one_edit: "aligned n s t \<Longrightarrow> one_edit t u \<Longrightarrow> \<exists>m \<le> Suc n. aligned m s u"
proof (induction arbitrary: u rule: aligned.induct)
  case al_nil
  then show ?case by (auto simp: one_edit_Nil intro: aligned.intros)
next
  case (al_same n a b x)
  have "aligned (Suc n) (x # a) b" "aligned (Suc n) (x # a) (z # x # b)" "aligned (Suc n) (x # a) (z # b)" for z
    using al_same.hyps by (auto intro: aligned.intros)
  then show ?case using al_same.prems al_same.IH
    unfolding one_edit_Cons by (blast intro: aligned.al_same)
next
  case (al_subst n a b x y)
  have "aligned (Suc n) (x # a) b" "aligned (Suc (Suc n)) (x # a) (z # y # b)" "aligned (Suc n) (x # a) (z # b)" for z
    using al_subst.hyps by (auto intro: aligned.intros)
  then show ?case using al_subst.prems al_subst.IH
    unfolding one_edit_Cons by (blast intro: aligned.al_subst le_SucI order.refl)
next
  case (al_del n a b x)
  then show ?case by (blast intro: aligned.al_del)
next
  case (al_ins n a b y)
  have "aligned n a b" "aligned (Suc (Suc n)) a (z # y # b)" "aligned (Suc n) a (z # b)" for z
    using al_ins.hyps by (auto intro: aligned.intros)
  then show ?case using al_ins.prems al_ins.IH
    unfolding one_edit_Cons by (blast intro: aligned.al_ins le_SucI order.refl)
qed

lemma edits_aligned: "edits n s t \<Longrightarrow> \<exists>m \<le> n. aligned m s t"
proof (induction rule: edits.induct)
  case (step n s t u)
  then show ?case using aligned_one_edit by (meson le_trans Suc_le_mono)
qed (blast intro: aligned_refl)

lemma edits_one_first: "one_edit s t \<Longrightarrow> edits n t u \<Longrightarrow> edits (Suc n) s u"
  by (rotate_tac 1, induction rule: edits.induct) (auto intro: edits.intros)

lemma edits_later: "edits n s t \<Longrightarrow> edits n (x # s) (x # t)"
  by (induction rule: edits.induct) (auto intro: edits.intros later)

lemma aligned_edits: "aligned n s t \<Longrightarrow> edits n s t"
  by (induction rule: aligned.induct)
    (auto intro: edits.none edits_later edits_one_first [OF replaced] edits_one_first [OF deleted]
      edits.step [OF _ inserted])

subsection \<open>The recurrence\<close>

fun lev :: "string \<Rightarrow> string \<Rightarrow> nat" where
  "lev [] b = length b"
| "lev a [] = length a"
| "lev (x # a) (y # b) =
     min (min (lev a (y # b) + 1) (lev (x # a) b + 1)) (lev a b + (if x \<noteq> y then 1 else 0))"

lemma lev_Nil2 [simp]: "lev a [] = length a"
  by (cases a) simp_all

lemma aligned_Nil: "aligned (length a) a []" "aligned (length a) [] a"
  by (induction a) (auto intro: aligned.intros)

lemma aligned_lev: "aligned (lev a b) a b"
proof (induction a b rule: lev.induct)
  case (1 b)
  show ?case by (simp add: aligned_Nil)
next
  case (2 x a)
  show ?case using aligned_Nil(1) [of "x # a"] by simp
next
  case (3 x a y b)
  then show ?case by (auto simp: min_def intro: aligned.intros)
qed

lemma lev_least: "aligned n a b \<Longrightarrow> lev a b \<le> n"
proof (induction rule: aligned.induct)
  case (al_del n a b x)
  then show ?case by (cases b) auto
next
  case (al_ins n a b y)
  then show ?case by (cases a) auto
qed auto

lemma aligned_snoc:
  "aligned n a b \<Longrightarrow> aligned n (a @ [x]) (b @ [x]) \<and> aligned (Suc n) (a @ [x]) (b @ [y]) \<and>
     aligned (Suc n) (a @ [x]) b \<and> aligned (Suc n) a (b @ [y])"
  by (induction rule: aligned.induct) (auto intro: aligned.intros)

lemma aligned_rev: "aligned n a b \<Longrightarrow> aligned n (rev a) (rev b)"
  by (induction rule: aligned.induct) (auto intro: aligned.al_nil dest: aligned_snoc)

text \<open>A row of the table holds the distances of a prefix from all prefixes of the other text.\<close>

definition lev_row :: "string \<Rightarrow> string \<Rightarrow> nat \<Rightarrow> nat list" where
  "lev_row p right j = map (\<lambda>k. lev (rev p) (rev (take k right))) [j..<Suc (length right)]"

lemma lev_row_Cons:
  "j \<le> length right \<Longrightarrow> lev_row q right j = lev (rev q) (rev (take j right)) # lev_row q right (Suc j)"
  by (simp add: lev_row_def upt_conv_Cons del: upt_Suc)

lemma next_cells_row:
  "j \<le> length right \<Longrightarrow>
   next_cells c (drop j right) (lev_row p right j) (lev (c # rev p) (rev (take j right))) =
     lev_row (p @ [c]) right (Suc j)"
proof (induction "length right - j" arbitrary: j)
  case 0
  then show ?case by (simp add: lev_row_def)
next
  case (Suc n)
  then have j: "j < length right" by simp
  have rows: "lev_row q right j = lev (rev q) (rev (take j right)) # lev_row q right (Suc j)"
    "lev_row q right (Suc j) = lev (rev q) (rev (take (Suc j) right)) # lev_row q right (Suc (Suc j))" for q
    using j by (simp_all add: lev_row_Cons)
  have cell: "lev (c # rev p) (rev (take (Suc j) right)) =
      min (min (lev (rev p) (rev (take (Suc j) right)) + 1) (lev (c # rev p) (rev (take j right)) + 1))
        (lev (rev p) (rev (take j right)) + (if c \<noteq> right ! j then 1 else 0))"
    using j by (simp add: take_Suc_conv_app_nth)
  have "next_cells c (drop (Suc j) right) (lev_row p right (Suc j)) (lev (c # rev p) (rev (take (Suc j) right))) =
      lev_row (p @ [c]) right (Suc (Suc j))"
    using Suc.hyps(2) j by (intro Suc.hyps(1)) simp_all
  then show ?case
    unfolding Cons_nth_drop_Suc [OF j, symmetric] rows(1) [of p] rows(2) [of "p @ [c]"]
    unfolding rows(2) [of p] by (simp add: cell)
qed

lemma edit_rows:
  "fold (edit_row right) (zip [n..<n + length s] s) (lev_row p right 0) = lev_row (p @ s) right 0"
  if "length p = n" for s p n
  using that
proof (induction s arbitrary: p n)
  case (Cons c s)
  have "edit_row right (n, c) (lev_row p right 0) = lev_row (p @ [c]) right 0"
    using next_cells_row [of 0 right c p] Cons.prems
    by (simp add: edit_row_def lev_row_Cons [of 0 right "p @ [c]"])
  moreover have "zip [n..<n + length (c # s)] (c # s) = (n, c) # zip [Suc n..<Suc n + length s] s"
    by (simp add: upt_conv_Cons del: upt_Suc)
  ultimately show ?case using Cons.IH [of "p @ [c]" "Suc n"] Cons.prems by simp
qed simp

lemma edit_distance_lev: "edit_distance s t = lev (rev s) (rev t)"
proof -
  have "lev_row [] t 0 = [0..<Suc (length t)]" 
    unfolding lev_row_def by (rule map_idI) (simp del: upt_Suc)
  then have "edit_distance s t = last (lev_row s t 0)"
    using edit_rows [of "[]" 0 t s] by (simp add: edit_distance_def del: upt_Suc)
  then show ?thesis by (auto simp: lev_row_def Suc_le_eq)
qed

lemma edit_distance_edits: "edits (edit_distance s t) s t"
  using aligned_edits [OF aligned_rev [OF aligned_lev [of "rev s" "rev t"]]] by (simp add: edit_distance_lev)

lemma edit_distance_le: "edits n s t \<Longrightarrow> edit_distance s t \<le> n"
  unfolding edit_distance_lev using edits_aligned aligned_rev lev_least le_trans by blast

lemma first_min_least:
  "case first_min f xs of None \<Rightarrow> xs = [] | Some x \<Rightarrow> x \<in> set xs \<and> list_all (\<lambda>y. f x \<le> f y) xs"
  by (induction xs) (auto split: option.splits simp: list_all_iff)

text \<open>
  C8: the table of the edit distance gives the least number of deletions, insertions and
  replacements that lead from one key to the other, and the suggested key is a closest one, at most
  five edits away, missing only when all keys are further off.
\<close>

theorem closest_key_is_closest:
  "edit_distance s t = (LEAST n. edits n s t) \<and> edits (edit_distance s t) s t \<and>
   (case closest_known_key s keys of
      None \<Rightarrow> list_all (\<lambda>k. 5 < edit_distance s k) keys
    | Some k \<Rightarrow> k \<in> set keys \<and> edit_distance s k \<le> 5 \<and>
        list_all (\<lambda>k'. edit_distance s k \<le> edit_distance s k') keys)"
proof -
  have "edit_distance s t = (LEAST n. edits n s t)"
    by (rule Least_equality [symmetric]) (auto intro: edit_distance_edits edit_distance_le)
  moreover have "case closest_known_key s keys of
      None \<Rightarrow> list_all (\<lambda>k. 5 < edit_distance s k) keys
    | Some k \<Rightarrow> k \<in> set keys \<and> edit_distance s k \<le> 5 \<and> list_all (\<lambda>k'. edit_distance s k \<le> edit_distance s k') keys"
    using first_min_least [where f = "edit_distance s" and xs = keys]
    by (auto simp: closest_known_key_def list_all_iff split: option.splits)
  ultimately show ?thesis using edit_distance_edits by blast
qed

section \<open>Annotated lambdas\<close>

text \<open>A parameter list whose closing bracket stands on a line of its own.\<close>

definition two_line_lambda :: string where
  "two_line_lambda = ''f = lambda (x: int'' @ [CHR 0x0A] @ ''): x'' @ [CHR 0x0A] @ ''unsafe:''"

theorem annotated_lambdas_are_blanked:
  "blanked s (normalize_annotated_lambda_source_for_emission s) \<and>
   length (normalize_annotated_lambda_source_for_emission s) = length s \<and>
   length (str_lines (normalize_annotated_lambda_source_for_emission two_line_lambda)) <
     length (str_lines two_line_lambda)"
proof -
  have "blanked s (normalize_annotated_lambda_source_for_emission s)"
    unfolding normalize_annotated_lambda_source_for_emission_def normalize_annotated_lambda_source_def
    by (rule blanked_normalize_from) (simp add: blanked_refl)
  moreover have "length (str_lines (normalize_annotated_lambda_source_for_emission two_line_lambda)) = 2"
    "length (str_lines two_line_lambda) = 3" by code_simp+
  ultimately show ?thesis by (simp add: blanked_length)
qed

section \<open>Imports\<close>

text \<open>A line with its indentation, its text and the white space at its end.\<close>

lemma trim_parts:
  assumes "list_all is_ws indent" "list_all is_ws blanks" "trimmed t" "t \<noteq> []"
  shows "trim (indent @ t @ blanks) = t" "indentation_of (indent @ t @ blanks) = indent"
proof -
  have t: "\<not> is_ws (hd t)" "\<not> is_ws (last t)" using assms(3,4) by (auto simp: trimmed_def)
  obtain c t' where c: "t = c # t'" "\<not> is_ws c" using t(1) assms(4) by (cases t) auto
  have start: "trim_start (indent @ t @ blanks) = t @ blanks"
    using assms(1) c by (induction indent) (simp_all add: trim_start_def)
  have "dropWhile is_ws (rev t) = rev t"
    using assms(4) t(2) by (simp add: dropWhile_eq_self_iff hd_rev)
  moreover have "dropWhile is_ws (rev blanks @ rev t) = dropWhile is_ws (rev t)"
    using assms(2) by (intro dropWhile_append2) (simp add: list_all_iff)
  ultimately have "dropWhile is_ws (rev blanks @ rev t) = rev t" by simp
  then show "trim (indent @ t @ blanks) = t" by (simp add: trim_def start trim_end_def)
  show "indentation_of (indent @ t @ blanks) = indent"
    using assms(1) c by (induction indent) (simp_all add: indentation_of_def)
qed

lemma normalize_import_from_line_indent:
  "normalize_import_from_line indent module names target =
     map (\<lambda>l. indent @ l) (normalize_import_from_line [] module names target)"
proof -
  have "List.map_filter (\<lambda>m. map_option (\<lambda>ns. indent @ g m ns) (h m)) ms =
      map (\<lambda>l. indent @ l) (List.map_filter (\<lambda>m. map_option (g m) (h m)) ms)" for g h ms
    by (induction ms) (auto simp: List.map_filter_simps split: option.splits)
  then show ?thesis by (simp add: normalize_import_from_line_def case_prod_beta)
qed

text \<open>The entries of an import, the module each is taken from, and the first places of the modules.\<close>

definition import_entries :: "string \<Rightarrow> string list" where
  "import_entries names = filter (\<lambda>e. e \<noteq> []) (map trim (split_char CHR '','' names))"

definition entry_owner :: "string \<Rightarrow> python_target \<Rightarrow> string \<Rightarrow> string" where
  "entry_owner module target entry =
     (case stdlib_owner target (case split_once_str '' as '' entry of Some (name, _) \<Rightarrow> trim name | None \<Rightarrow> entry) of
        Some m \<Rightarrow> m | None \<Rightarrow> module)"

definition first_places :: "'a list \<Rightarrow> 'a list" where
  "first_places xs = fold (\<lambda>x acc. if x \<in> set acc then acc else acc @ [x]) xs []"

lemma set_first_places: "set (first_places xs) = set xs"
proof -
  have "set (fold (\<lambda>x acc. if x \<in> set acc then acc else acc @ [x]) xs acc) = set acc \<union> set xs" for acc
    by (induction xs arbitrary: acc) auto
  then show ?thesis by (simp add: first_places_def)
qed

lemma import_groups:
  "fold (import_group_step module target) raw (grouped, order) =
     (let entries = filter (\<lambda>e. e \<noteq> []) (map trim raw)
      in (fold (\<lambda>e. bt_push (entry_owner module target e) e) entries grouped,
          fold (\<lambda>x acc. if x \<in> set acc then acc else acc @ [x]) (map (entry_owner module target) entries) order))"
  by (induction raw arbitrary: grouped order)
    (simp_all add: import_group_step_def entry_owner_def compat_module_for_symbol_def Let_def)

lemma import_lines:
  "normalize_import_from_line indent module names target =
     map (\<lambda>m. indent @ ''from '' @ m @ '' import '' @
            join_with '', '' (filter (\<lambda>e. entry_owner module target e = m) (import_entries names)))
       (first_places (map (entry_owner module target) (import_entries names)))"
proof -
  let ?owner = "entry_owner module target" and ?es = "import_entries names"
  have groups: "fold (import_group_step module target) (split_char CHR '','' names) ([], []) =
      (fold (\<lambda>e. bt_push (?owner e) e) ?es [], first_places (map ?owner ?es))"
    by (simp add: import_groups import_entries_def first_places_def Let_def)
  have "bt_get (fold (\<lambda>e. bt_push (?owner e) e) ?es []) m = Some (filter (\<lambda>e. ?owner e = m) ?es)"
    if "m \<in> set (first_places (map ?owner ?es))" for m
    using that btg.lookup_pushes [of "[]" ?owner "\<lambda>e. e" ?es m]
    by (auto simp: set_first_places Let_def filter_empty_conv)
  moreover have gen: "List.map_filter (\<lambda>m. map_option (f m) (g m)) ms = map (\<lambda>m. f m (h m)) ms"
    if "\<And>m. m \<in> set ms \<Longrightarrow> g m = Some (h m)"
    for f :: "string \<Rightarrow> string list \<Rightarrow> string" and g h ms
    using that by (induction ms) (simp_all add: List.map_filter_simps)
  ultimately show ?thesis
    unfolding normalize_import_from_line_def groups Let_def prod.case by (intro gen)
qed

theorem import_line_rewriting:
  assumes "list_all is_ws indent" "list_all is_ws blanks" "trimmed t" "from_import_parts t = Some (module, names)"
  shows "normalize_target_compatibility_line py (indent @ t @ blanks) options =
    (let owner = entry_owner module (lo_target_python options); entries = import_entries names;
         ls = map (\<lambda>m. indent @ take (length blanks) (t @ blanks) @ ''from '' @ m @ '' import '' @
                join_with '', '' (filter (\<lambda>e. owner e = m) entries)) (first_places (map owner entries))
     in if length ls \<noteq> 1 \<or> trim (hd ls) \<noteq> t then ls
        else [normalize_target_compatibility_text py (indent @ t @ blanks) options])"
proof -
  have "t \<noteq> []" using assms(4) by (auto simp: from_import_parts_def bind_eq_Some_conv strip_prefix_Some)
  then have "trim (indent @ t @ blanks) = t" using trim_parts assms(1-3) by blast
  moreover have "take (length (indent @ t @ blanks) - length t) (indent @ t @ blanks) =
      indent @ take (length blanks) (t @ blanks)" by simp
  ultimately show ?thesis
    unfolding normalize_target_compatibility_line_def import_lines Let_def
    by (simp only: assms(4) option.case prod.case append_assoc length_map)
qed

definition py310 :: lowering_options where
  "py310 = default_lowering_options\<lparr>lo_target_python := PythonTarget 3 10\<rparr>"

theorem import_line_rewriting_witness:
  "normalize_target_compatibility_line plain_parser (''  '' @ ''from typing import TypeIs, Any'' @ []) py310 =
     [''  from typing_extensions import TypeIs'', ''  from typing import Any''] \<and>
   normalize_target_compatibility_line plain_parser ([] @ ''from typing import TypeIs'' @ '' '') py310 =
     [''ffrom typing_extensions import TypeIs'']"
proof -
  have parts: "from_import_parts ''from typing import TypeIs, Any'' = Some (''typing'', ''TypeIs, Any'')"
    "from_import_parts ''from typing import TypeIs'' = Some (''typing'', ''TypeIs'')"
    and plain: "list_all is_ws ''  ''" "list_all is_ws '' ''" "list_all is_ws []"
    "trimmed ''from typing import TypeIs, Any''" "trimmed ''from typing import TypeIs''" by code_simp+
  show ?thesis
    unfolding import_line_rewriting [OF plain(1,3,4) parts(1)] import_line_rewriting [OF plain(3,2,5) parts(2)]
    by code_simp
qed

section \<open>Names of dual functions\<close>

lemma find_char_end: "c \<notin> set v \<Longrightarrow> find_char (\<lambda>d. d = c) (v @ c # w) = Some (length v)"
proof -
  assume "c \<notin> set v"
  then have "takeWhile (\<lambda>d. d \<noteq> c) (v @ c # w) = v" by (induction v) auto
  then show ?thesis by (simp add: find_char_def Let_def)
qed

text \<open>The decorator that names the async function only.\<close>

definition async_only :: "string \<Rightarrow> string" where
  "async_only v = ''@dual_emit(async_name='' @ [CHR 0x22] @ v @ [CHR 0x22] @ '')''"

text \<open>
  C9: a decorator that names only the async function gives its name to the sync function too,
  since one option name ends with the other; the default names collide exactly for names whose first
  letter is a and whose second is no small letter.
\<close>

theorem dual_names_collide:
  assumes "CHR 0x22 \<notin> set v"
  shows "sync_name_of (async_only v) name = v \<and> async_name_of (async_only v) name = v \<and>
    (default_sync_dual_name name = default_async_dual_name name \<longleftrightarrow>
     (case name of [] \<Rightarrow> False | c # rest \<Rightarrow> c = CHR ''a'' \<and> \<not> list_ex is_ascii_lowercase (take 1 rest)))"
proof -
  have "split_once_str ''sync_name='' (async_only v) = Some (''@dual_emit(a'', [CHR 0x22] @ v @ [CHR 0x22] @ '')'')"
    by (simp add: async_only_def)
  then have sync: "explicit_dual_emit_name (async_only v) ''sync_name'' = Some v"
    using assms by (simp add: explicit_dual_emit_name_def trim_start_def is_ws_def is_quote_def find_char_end)
  have "split_once_str ''async_name='' (async_only v) = Some (''@dual_emit('', [CHR 0x22] @ v @ [CHR 0x22] @ '')'')"
    by (simp add: async_only_def)
  then have async: "explicit_dual_emit_name (async_only v) ''async_name'' = Some v"
    using assms by (simp add: explicit_dual_emit_name_def trim_start_def is_ws_def is_quote_def find_char_end)
  have "default_sync_dual_name name = default_async_dual_name name \<longleftrightarrow>
     (case name of [] \<Rightarrow> False | c # rest \<Rightarrow> c = CHR ''a'' \<and> \<not> list_ex is_ascii_lowercase (take 1 rest))"
  proof (cases name)
    case (Cons c rest)
    have "rest \<noteq> c # rest" for c :: char and rest by (induction rest) auto
    then show ?thesis unfolding Cons
      by (cases rest) (auto simp: default_sync_dual_name_def default_async_dual_name_def starts_with_def)
  qed (simp add: default_sync_dual_name_def default_async_dual_name_def starts_with_def)
  then show ?thesis using sync async by (simp add: sync_name_of_def async_name_of_def)
qed

theorem dual_names_collide_witness:
  "sync_name_of (async_only ''afetch'') ''fetch'' = async_name_of (async_only ''afetch'') ''fetch'' \<and>
   dual_emit_lines [async_only ''afetch'', ''async def fetch(x):'', ''    return await x''] =
     [''def afetch(x):'', ''    return x'', [], ''async def afetch(x):'', ''    return await x'']"
proof -
  have "CHR 0x22 \<notin> set ''afetch''" by simp
  then have "sync_name_of (async_only ''afetch'') ''fetch'' = ''afetch''" "async_name_of (async_only ''afetch'') ''fetch'' = ''afetch''"
    using dual_names_collide [of "''afetch''" "''fetch''"] by blast+
  moreover have "dual_emit_lines [async_only ''afetch'', ''async def fetch(x):'', ''    return await x''] =
     [''def afetch(x):'', ''    return x'', [], ''async def afetch(x):'', ''    return await x'']" by code_simp
  ultimately show ?thesis by simp
qed

section \<open>Features\<close>

text \<open>A module of plain functions is said to need native type parameters.\<close>

lemma plain_functions_need_type_params:
  assumes "lo_emit_style options = Native" "supports_inline_type_params (lo_target_python options)"
    "dl_function_defs d = [(1, f)]" "fs_type_params f = []"
  shows "InlineTypeParams \<in> collect_required_runtime_features d lowered options"
  using assms
  by (simp add: collect_required_runtime_features_def callable_params_of_def can_use_native_type_params_def
      type_params_have_defaults_def Let_def)

end
