(* ===== verification/Formatting_Props.thy ===== *)
theory Formatting_Props
  imports Formatting
begin

text \<open>
  The round trip through an external formatter: a formatter that changes nothing gives the source
  back, when the added declarations are written with single blanks.
\<close>

section \<open>Lines joined and split\<close>











section \<open>One line\<close>








section \<open>The whole text\<close>












end
