(* ===== verification/Spec2Isabelle.thy ===== *)
theory Spec2Isabelle
  imports Py_Target Type_Assign Type_Shapes Assign_Props Module_Graph Incremental Lsp_Server Taint Narrowing_Props Declaration_Props Lowering_Props
    Lowering_Binding_Props Lowering_Text_Props Formatting_Props
begin

text \<open>
  Verification library of TypePython, a typed dialect of Python with its compiler, checker and
  language server (the Rust crates under src/crates).

  \<^bold>\<open>The program.\<close> Source files are parsed with the ruff crates into a surface tree
  (typepython_syntax), whose type annotations are texts parsed by a splitter of its own
  (type_expr.rs). The binder (typepython_binding) turns a tree into declarations and lists of
  call, member and flow sites; the module graph (typepython_graph) links the bound modules and
  fingerprints them; the checker (typepython_checking) lowers annotations to semantic types,
  resolves names over the graph, compares types, solves generic calls and infers effects and
  taint; the incremental planner (typepython_incremental) compares snapshots of public summaries
  and plans what to check again; the language server (typepython_lsp) keeps open documents and
  schedules diagnostics.

  \<^bold>\<open>Theories and code\<close>, in the order of the imports:
  \<^item> Rust_Prelude, BTree: the standard library the crates use (string splitting,
    \<^verbatim>\<open>BTreeMap\<close> and \<^verbatim>\<open>BTreeSet\<close> as ordered lists, with their contracts as the
    locales \<open>ordered_map\<close> and \<open>grouping_map\<close>) and the shared lemmas.
  \<^item> Py_Target: typepython_target/lib.rs, versions and the capabilities of a target.
  \<^item> Type_Syntax, Type_Roundtrip, Type_Assign, Type_Shapes: type_expr.rs and part of
    formatting.rs of typepython_syntax. The tree, parser, renderer and normalisers; canonical
    trees and the proof that the parser reads what the renderer prints; text-level assignability
    with \<^verbatim>\<open>key_of\<close>, \<^verbatim>\<open>if\<close> reductions; shape projections of classes.
  \<^item> Bindings: types.rs of typepython_binding (declarations, signatures).
  \<^item> Surface_Sites: surface.rs of typepython_syntax (expressions, guards, statements).
  \<^item> Binder: binding_impl.rs and the sites of types.rs.
  \<^item> Module_Graph: typepython_graph/lib.rs.
  \<^item> Semantic_Type: type_core.rs of typepython_checking, with the interning store as the
    locale \<open>interner\<close>.
  \<^item> Generic_Solver: generic_solver.rs.
  \<^item> Decl_Semantics: declaration_semantics.rs, with its thread-local cache as explicit state.
  \<^item> Class_Resolution: type_system/imports.rs and the name, base, alias and member lookups
    of declarations.rs, semantic.rs and contextual.rs; the search over a class hierarchy is the
    locale \<open>class_search\<close>, interpreted for interface tests and for member lookup.
  \<^item> Assignability, Assign_Props: type_system/assignability.rs.
  \<^item> Diagnostics: typepython_diagnostics/lib.rs.
  \<^item> Effect_Rows, Effects, Effect_Props, Taint: effects.rs, each state of the Rust walk
    threaded through folds over the statements and sites of a module.
  \<^item> Narrowing, Narrowing_Props: the guards and narrowing of type_system/flow.rs, and a model
    of values. C12 is soundness for plain types, single classes and honest predicates; C25 says
    exactly which values conditions and class tests lose in general.
  \<^item> Member_Types: the typed lookup of members and the types of members, parameters and
    iterated values in type_system/expressions.rs and members.rs.
  \<^item> Reporting: calls/reporting.rs, the texts and notes of diagnostics.
  \<^item> Declaration_Checks, Declaration_Props: declarations.rs, overriding, final and abstract
    members, interfaces, duplicates, and matches over sealed classes, enumerations and literals.
    C4 says what the check of sealed matches does, which is more lenient than the language
    specification: the root of the closure need not be covered.
  \<^item> Rust_Text, Extension_Syntax, Formatting, Annotated_Lambdas: the line parser of the added
    declarations (syntax_extensions.rs), the text for the Python parser and for an external
    formatter (parsing.rs, formatting.rs), and annotated lambdas (lambdas.rs).
  \<^item> Shape_Lowering: typeddict.rs of typepython_lowering, the classes that transforms of a
    TypedDict expand to. Lowering, Lowering_Bindings, Lowering_Emit: core.rs, the rewriting of
    lines, the runtime type parameters, and the passes over a module with the maps they fill; their
    facts are in Lowering_Props, Lowering_Binding_Props and Lowering_Text_Props, those of the
    formatter in Formatting_Props.
  \<^item> Public_Summary, Incremental: typepython_incremental/lib.rs.
  \<^item> Lsp_Scheduler, Lsp_Positions, Lsp_Server: scheduler.rs, text.rs, protocol.rs,
    server.rs and the document part of analysis.rs of typepython_lsp: the message loop with a
    writer that may fail, dispatch, open documents, and the request handlers up to the query they
    put to the workspace.

  \<^bold>\<open>Conventions.\<close> Functions, types and fields carry their Rust names, fields with
  a prefix per record. A panic is a \<open>None\<close> or an error constructor; what the code returns
  as \<^verbatim>\<open>Option\<close> or \<^verbatim>\<open>Result\<close> is an option or a sum. A
  \<^verbatim>\<open>BTreeMap\<close> that is iterated is an ordered entry list, one that is only looked up is
  a function. Strings are lists of scalar values below U+0100, documents of the language server
  lists of all scalar values; 64-bit hashes are words.

  \<^bold>\<open>Fuel.\<close> The relation of Assignability recurses without a bound in the code, so
  each function takes fuel and \<open>None\<close> says that it was not enough; C40 gives a bound for
  plain class hierarchies and C6 shows programs for which none exists. The text-level relation
  of Type_Assign parses its arguments again at every level; C7 shows that the weight of the two
  expressions is enough. The searches over classes need the number of classes (C38, C39). Every
  other loop is structural or has a measure.

  \<^bold>\<open>What is proved.\<close> C3, C14: parsing and printing. C5, C7, C11: erasure,
  assignability and shapes of type texts. C2: the binder. C15, C17: interning,
  the solver. C36, C37: the declaration cache and owner substitution. C38, C39, C40, C6:
  hierarchies and assignability. C4, C20: checks of declarations. C10, C13, C16, C1: effects
  and taint. C12, C25: narrowing. C21, C22: the graph. C23, C24, C27, C29: hashes, snapshots and the
  plan. C26, C18, C28, C8, C9: lowering, its maps, runtime type parameters, starred types, suggestions
  and dual functions. C19: the formatter. C30 to C35: the language server.

  \<^bold>\<open>Arguments of the model:\<close> the standard hasher, the JSON printer and parser, the
  clock (each operation takes the instant it reads), URIs and paths, and the facts that the syntax
  crate collects from source text with the ruff parser. What lowering reads of a parsed Python text is
  the record \<open>python_parser\<close>, with the expressions in the order of ruff's visitor. Of the
  language server, \<open>host_ops\<close> holds the incremental workspace, which may answer, fail or
  panic, and the running of commands, and \<open>writer_ops\<close> the client's end, where encoding,
  writing and flushing may fail.

  \<^bold>\<open>Limits of the maps.\<close> C26 speaks of the lines before the last passes over the joined
  text and of the source in which annotated lambdas are blanked, and says when these are the lines of
  the emitted text and of the module's own text.

  \<^bold>\<open>Not modelled:\<close> what walks the ruff syntax tree (metadata_collectors.rs, most of the
  extraction, emission), since its node types are not part
  of the repository; file system, subprocess and archive work of the command line; the queries of the
  language server's workspace; expression typing, call diagnostics and the remaining rules of the
  checker.
\<close>

end
